(* ===== verification/Rover_Prelude.thy ===== *)
theory Rover_Prelude
  imports Main "HOL-Library.Word" "HOL-Library.Multiset"
begin

text \<open>
  Shared vocabulary of the development: the machine integers of Go, the run-time panics that a
  model writes out as values, Go's \<^verbatim>\<open>container/list\<close> (doubly linked lists whose elements have an
  identity), ordered insertion into such lists, and the iteration over Go maps.
\<close>

named_theorems rover_defs \<open>definitions of small accessors that proofs unfold together\<close>

section \<open>Machine integers and panics\<close>

type_synonym u8 = "8 word"
type_synonym u16 = "16 word"
type_synonym u32 = "32 word"
type_synonym u64 = "64 word"

text \<open>Times and durations are nanoseconds.\<close>

abbreviation second :: int where "second \<equiv> 1000000000"

text \<open>
  A Go program that dereferences nil, indexes or slices out of range stops with a panic. The
  models return \<open>Inl\<close> of one of these values there, so that no such read is left unspecified.
\<close>

datatype go_panic = NilDereference | IndexOutOfRange | SliceBounds | DivideByZero | TypeAssertion

type_synonym 'a or_panic = "go_panic + 'a"

abbreviation panic_bind :: "'a or_panic \<Rightarrow> ('a \<Rightarrow> 'b or_panic) \<Rightarrow> 'b or_panic" where
  "panic_bind m f \<equiv> (case m of Inl e \<Rightarrow> Inl e | Inr x \<Rightarrow> f x)"

section \<open>Doubly linked lists with element identity\<close>

text \<open>
  An element of a \<^verbatim>\<open>list.List\<close> is a heap object: the model pairs its value with the identity (a
  number) that pointer comparison sees. A list is the sequence of its elements from front to back.
  \<^verbatim>\<open>Next\<close> and \<^verbatim>\<open>Prev\<close> of an element that is not (or no longer) in the list return nil.
\<close>

type_synonym 'v element = "nat \<times> 'v"
type_synonym 'v golist = "'v element list"

fun elem_next :: "'v golist \<Rightarrow> nat \<Rightarrow> 'v element option" where
  "elem_next [] i = None"
| "elem_next (e # es) i =
     (if fst e = i then (case es of [] \<Rightarrow> None | x # _ \<Rightarrow> Some x) else elem_next es i)"

definition elem_prev :: "'v golist \<Rightarrow> nat \<Rightarrow> 'v element option" where
  "elem_prev l i = elem_next (rev l) i"

definition list_remove :: "nat \<Rightarrow> 'v golist \<Rightarrow> 'v golist" where
  "list_remove i l = filter (\<lambda>e. fst e \<noteq> i) l"

definition list_front :: "'v golist \<Rightarrow> 'v element option" where
  "list_front l = (case l of [] \<Rightarrow> None | e # _ \<Rightarrow> Some e)"

definition list_back :: "'v golist \<Rightarrow> 'v element option" where
  "list_back l = list_front (rev l)"

abbreviation list_values :: "'v golist \<Rightarrow> 'v list" where
  "list_values l \<equiv> map snd l"

abbreviation list_ids :: "'v golist \<Rightarrow> nat list" where
  "list_ids l \<equiv> map fst l"

text \<open>The elements from the one with a given identity to the back; empty when it is not there.\<close>

fun list_from :: "'v golist \<Rightarrow> nat \<Rightarrow> 'v golist" where
  "list_from [] i = []"
| "list_from (e # es) i = (if fst e = i then e # es else list_from es i)"

text \<open>The list that pushing the values to the back of a new list gives, with consecutive identities.\<close>

primrec number :: "nat \<Rightarrow> 'v list \<Rightarrow> 'v golist" where
  "number fresh [] = []"
| "number fresh (v # vs) = (fresh, v) # number (Suc fresh) vs"

lemma list_values_number [simp]: "list_values (number fresh vs) = vs"
  by (induction vs arbitrary: fresh) auto

lemma list_ids_number [simp]: "list_ids (number fresh vs) = [fresh..<fresh + length vs]"
  by (induction vs arbitrary: fresh) (auto simp: upt_conv_Cons simp del: upt_Suc)

lemma snd_set_number: "snd ` set (number fresh vs) = set vs"
  using list_values_number [of fresh vs] by (metis set_map)

lemma list_front_simps [simp]:
  "list_front [] = None" "list_front (e # es) = Some e"
  by (simp_all add: list_front_def)

lemma list_back_simps [simp]:
  "list_back [] = None" "list_back (es @ [e]) = Some e"
  by (simp_all add: list_back_def)

lemma list_back_last: "l \<noteq> [] \<Longrightarrow> list_back l = Some (last l)"
  by (cases l rule: rev_cases) auto

lemma list_back_None [simp]: "list_back l = None \<longleftrightarrow> l = []"
  by (cases l rule: rev_cases) auto

lemma elem_next_list_from:
  "elem_next l i = list_front (tl (list_from l i))"
  by (induction l) (auto split: list.splits)

lemma list_from_Cons: "i \<in> set (list_ids l) \<Longrightarrow> \<exists>v es. list_from l i = (i, v) # es"
  by (induction l) auto

lemma list_from_eq_Nil [simp]: "list_from l i = [] \<longleftrightarrow> i \<notin> set (list_ids l)"
  by (induction l) auto

lemma list_from_suffix: "\<exists>pre. l = pre @ list_from l i"
proof (induction l)
  case (Cons e es)
  then obtain pre where pre: "es = pre @ list_from es i" by blast
  show ?case
  proof (cases "fst e = i")
    case False
    then have "e # es = (e # pre) @ list_from (e # es) i" using pre by simp
    then show ?thesis by blast
  qed force
qed simp

lemma list_from_append_notin:
  "i \<notin> set (list_ids xs) \<Longrightarrow> list_from (xs @ ys) i = list_from ys i"
  by (induction xs) auto

lemma list_from_at:
  "distinct (list_ids (xs @ e # ys)) \<Longrightarrow> list_from (xs @ e # ys) (fst e) = e # ys"
  by (induction xs) auto

lemma elem_next_at:
  "distinct (list_ids (xs @ e # ys)) \<Longrightarrow> elem_next (xs @ e # ys) (fst e) = list_front ys"
  by (induction xs) (auto split: list.splits)

lemma elem_prev_at:
  assumes "distinct (list_ids (xs @ e # ys))"
  shows "elem_prev (xs @ e # ys) (fst e) = list_back xs"
proof -
  have "distinct (list_ids (rev ys @ e # rev xs))" using assms by (auto simp: rev_map [symmetric])
  then show ?thesis by (simp add: elem_prev_def elem_next_at list_back_def)
qed

lemma elem_next_notin: "i \<notin> set (list_ids l) \<Longrightarrow> elem_next l i = None"
  by (induction l) auto

lemma list_remove_notin: "i \<notin> set (list_ids l) \<Longrightarrow> list_remove i l = l"
  by (induction l) (auto simp: list_remove_def)

lemma list_remove_head:
  "distinct (list_ids (e # es)) \<Longrightarrow> list_remove (fst e) (e # es) = es"
  using list_remove_notin [of "fst e" es] by (simp add: list_remove_def)

lemma list_remove_shorter: "i \<in> set (list_ids l) \<Longrightarrow> length (list_remove i l) < length l"
  by (auto simp: list_remove_def intro: length_filter_less)

lemma distinct_list_remove: "distinct (list_ids l) \<Longrightarrow> distinct (list_ids (list_remove i l))"
  by (simp add: list_remove_def distinct_map_filter)

section \<open>Ordered insertion\<close>

text \<open>
  Several components scan a list from the front and insert before the first element that must
  come later, or push to the back when there is none. \<open>insert_ordered after e l\<close> is that loop:
  \<open>after x\<close> says that the existing element \<open>x\<close> has to stay behind the new one.
\<close>

fun insert_ordered :: "('v \<Rightarrow> bool) \<Rightarrow> 'v element \<Rightarrow> 'v golist \<Rightarrow> 'v golist" where
  "insert_ordered after e [] = [e]"
| "insert_ordered after e (x # xs) =
     (if after (snd x) then e # x # xs else x # insert_ordered after e xs)"

lemma set_insert_ordered [simp]: "set (insert_ordered after e l) = insert e (set l)"
  by (induction l) auto

lemma mset_insert_ordered [simp]: "mset (insert_ordered after e l) = add_mset e (mset l)"
  by (induction l) auto

lemma length_insert_ordered [simp]: "length (insert_ordered after e l) = Suc (length l)"
  by (induction l) auto

lemma distinct_insert_ordered [simp]:
  "distinct (list_ids (insert_ordered after e l)) \<longleftrightarrow> fst e \<notin> set (list_ids l) \<and> distinct (list_ids l)"
  by (induction l) auto

text \<open>
  The list stays sorted for a key when the elements the scan stops at are exactly those with a
  larger key.
\<close>

definition sorted_on :: "('v \<Rightarrow> 'k :: linorder) \<Rightarrow> 'v golist \<Rightarrow> bool" where
  "sorted_on key l \<longleftrightarrow> sorted (map key (list_values l))"

lemma sorted_on_simps [simp]:
  "sorted_on key []"
  "sorted_on key (e # es) \<longleftrightarrow> (\<forall>x \<in> set es. key (snd e) \<le> key (snd x)) \<and> sorted_on key es"
  by (auto simp: sorted_on_def)

lemma sorted_on_append:
  "sorted_on key (xs @ ys) \<longleftrightarrow>
     sorted_on key xs \<and> sorted_on key ys \<and> (\<forall>x \<in> set xs. \<forall>y \<in> set ys. key (snd x) \<le> key (snd y))"
  by (induction xs) auto

lemma sorted_on_insert_ordered:
  "sorted_on key l \<Longrightarrow> sorted_on key (insert_ordered (\<lambda>x. key (snd e) < key x) e l)"
  by (induction l) auto

lemma sorted_on_back_le:
  "sorted_on key l \<Longrightarrow> list_back l = Some b \<Longrightarrow> x \<in> set l \<Longrightarrow> key (snd x) \<le> key (snd b)"
  by (cases l rule: rev_cases) (auto simp: sorted_on_append)

lemma insert_ordered_back:
  assumes "\<And>x. x \<in> set l \<Longrightarrow> \<not> after (snd x)"
  shows "insert_ordered after e l = l @ [e]"
  using assms by (induction l) auto

section \<open>Iteration over Go maps\<close>

text \<open>
  Ranging over a Go map visits every entry once in an unspecified order. Where the order can
  matter the models iterate over a list of the entries; \<open>map_order m es\<close> says that the list is
  one of the orders in which \<open>m\<close> may be visited.
\<close>

definition map_order :: "('k \<rightharpoonup> 'v) \<Rightarrow> ('k \<times> 'v) list \<Rightarrow> bool" where
  "map_order m es \<longleftrightarrow> distinct (map fst es) \<and> map_of es = m"

lemma map_orderD: "map_order m es \<Longrightarrow> m k = Some v \<longleftrightarrow> (k, v) \<in> set es"
  by (auto simp: map_order_def dest: map_of_SomeD)

lemma map_order_dom: "map_order m es \<Longrightarrow> dom m = set (map fst es)"
  by (force simp: map_order_def dom_map_of_conv_image_fst)

section \<open>Decimal printing\<close>

text \<open>The decimal representation that \<^verbatim>\<open>%d\<close> and \<^verbatim>\<open>strconv\<close> print for an unsigned number.\<close>

fun dec_digits :: "nat \<Rightarrow> string" where
  "dec_digits n = (if n < 10 then [char_of (48 + n)] else dec_digits (n div 10) @ [char_of (48 + n mod 10)])"

declare dec_digits.simps [simp del]

definition dec_value :: "string \<Rightarrow> nat" where
  "dec_value s = foldl (\<lambda>a c. 10 * a + (of_char c - 48)) 0 s"

lemma dec_value_digits: "dec_value (dec_digits n) = n"
proof (induction n rule: dec_digits.induct)
  case (1 n)
  have "n mod 10 < 10" by simp
  then show ?case using 1 by (subst dec_digits.simps) (auto simp: dec_value_def)
qed

lemma dec_digits_inject [simp]: "dec_digits m = dec_digits n \<longleftrightarrow> m = n"
  by (metis dec_value_digits)

lemma digit_char: "(n :: nat) < 10 \<Longrightarrow> char_of (48 + n) \<noteq> (CHR ''_'')"
proof
  assume "n < 10" "char_of (48 + n) = (CHR ''_'')"
  then have "(of_char (char_of (48 + n) :: char) :: nat) = 95" by simp
  then show False using \<open>n < 10\<close> by simp
qed

lemma dec_digits_no_underscore: "CHR ''_'' \<notin> set (dec_digits n)"
proof (induction n rule: dec_digits.induct)
  case (1 n)
  then show ?case using digit_char [of n] digit_char [of "n mod 10"]
    by (subst dec_digits.simps) auto
qed

text \<open>The key \<^verbatim>\<open>"%d_%d"\<close> of a connection; different connections have different keys.\<close>

definition connection_key :: "u64 \<Rightarrow> u64 \<Rightarrow> string" where
  "connection_key conID ranID = dec_digits (unat conID) @ CHR ''_'' # dec_digits (unat ranID)"

lemma connection_key_inject:
  "connection_key c r = connection_key c' r' \<longleftrightarrow> c = c' \<and> r = r'"
proof
  assume eq: "connection_key c r = connection_key c' r'"
  have split: "takeWhile (\<lambda>x. x \<noteq> CHR ''_'') (connection_key a b) = dec_digits (unat a)"
    "dropWhile (\<lambda>x. x \<noteq> CHR ''_'') (connection_key a b) = CHR ''_'' # dec_digits (unat b)" for a b
    using dec_digits_no_underscore [of "unat a"]
    by (auto simp: connection_key_def takeWhile_append dropWhile_append)
  show "c = c' \<and> r = r'"
    using split [of c r] split [of c' r'] eq by (simp add: word_unat_eq_iff)
qed simp

section \<open>Strings\<close>

text \<open>\<^verbatim>\<open>strings.Cut\<close>: what is before and after the first occurrence of the separator.\<close>

fun str_cut :: "string \<Rightarrow> string \<Rightarrow> (string \<times> string) option" where
  "str_cut sep [] = (if sep = [] then Some ([], []) else None)"
| "str_cut sep (c # cs) =
     (if take (length sep) (c # cs) = sep then Some ([], drop (length sep) (c # cs))
      else map_option (\<lambda>(a, b). (c # a, b)) (str_cut sep cs))"

text \<open>\<^verbatim>\<open>strings.Contains\<close>, \<^verbatim>\<open>strings.Join\<close>, and \<^verbatim>\<open>strings.Split\<close> and \<^verbatim>\<open>strings.SplitN\<close> with a separator of one character.\<close>

definition str_contains :: "string \<Rightarrow> string \<Rightarrow> bool" where
  "str_contains s sub \<longleftrightarrow> str_cut sub s \<noteq> None"

fun str_join :: "string \<Rightarrow> string list \<Rightarrow> string" where
  "str_join sep [] = []"
| "str_join sep [p] = p"
| "str_join sep (p # q # ps) = p @ sep @ str_join sep (q # ps)"

fun str_split :: "char \<Rightarrow> string \<Rightarrow> string list" where
  "str_split c [] = [[]]"
| "str_split c (x # xs) =
     (if x = c then [] # str_split c xs else (x # hd (str_split c xs)) # tl (str_split c xs))"

fun str_splitN :: "char \<Rightarrow> nat \<Rightarrow> string \<Rightarrow> string list" where
  "str_splitN c n [] = [[]]"
| "str_splitN c n (x # xs) =
     (if n \<le> 1 then [x # xs] else if x = c then [] # str_splitN c (n - 1) xs
      else (x # hd (str_splitN c n xs)) # tl (str_splitN c n xs))"

text \<open>\<^verbatim>\<open>strings.Trim\<close> and \<^verbatim>\<open>strings.TrimRight\<close> of the characters of a set.\<close>

definition str_trim_right :: "(char \<Rightarrow> bool) \<Rightarrow> string \<Rightarrow> string" where
  "str_trim_right P s = rev (dropWhile P (rev s))"

definition str_trim :: "(char \<Rightarrow> bool) \<Rightarrow> string \<Rightarrow> string" where
  "str_trim P s = str_trim_right P (dropWhile P s)"

lemma str_split_not_Nil [simp]: "str_split c s \<noteq> []"
  by (cases s) auto

lemma str_join_Cons: "ps \<noteq> [] \<Longrightarrow> str_join sep (p # ps) = p @ sep @ str_join sep ps"
  by (cases ps) auto

lemma str_join_split: "str_join [c] (str_split c s) = s"
proof (induction s)
  case (Cons x s)
  have "str_join [c] ((x # p) # ps) = x # str_join [c] (p # ps)" for p ps by (cases ps) auto
  then show ?case using Cons str_split_not_Nil [of c s]
    by (cases "str_split c s") (auto simp: str_join_Cons)
qed simp

lemma str_split_no_sep: "p \<in> set (str_split c s) \<Longrightarrow> c \<notin> set p"
proof (induction s arbitrary: p)
  case (Cons x s)
  then show ?case using str_split_not_Nil [of c s] by (cases "str_split c s") (auto split: if_splits)
qed simp

lemma str_cut_Some: "str_cut sep s = Some (a, b) \<Longrightarrow> s = a @ sep @ b"
proof (induction s arbitrary: a)
  case (Cons c s)
  show ?case
  proof (cases "take (length sep) (c # s) = sep")
    case True
    then show ?thesis using Cons.prems append_take_drop_id [of "length sep" "c # s"] by simp
  next
    case False
    then show ?thesis using Cons.prems Cons.IH by auto
  qed
qed (auto split: if_splits)

lemma str_cut_first:
  assumes "\<And>i. i < length a \<Longrightarrow> take (length sep) (drop i (a @ sep @ b)) \<noteq> sep"
  shows "str_cut sep (a @ sep @ b) = Some (a, b)"
  using assms
proof (induction a)
  case Nil
  have "take (length sep) (sep @ b) = sep" "drop (length sep) (sep @ b) = b" by simp_all
  then show ?case by (cases "sep @ b") auto
next
  case (Cons c a)
  have "take (length sep) (drop i (a @ sep @ b)) \<noteq> sep" if "i < length a" for i
    using Cons.prems [of "Suc i"] that by simp
  moreover have "take (length sep) (c # a @ sep @ b) \<noteq> sep" using Cons.prems [of 0] by simp
  ultimately show ?case using Cons.IH by simp
qed

text \<open>Only digits are printed for a number.\<close>

lemma dec_digits_digits: "c \<in> set (dec_digits n) \<Longrightarrow> 48 \<le> (of_char c :: nat) \<and> (of_char c :: nat) \<le> 57"
proof (induction n rule: dec_digits.induct)
  case (1 n)
  then show ?case by (subst (asm) dec_digits.simps) (auto split: if_splits)
qed

lemma dec_digits_not: "\<not> (48 \<le> (of_char c :: nat) \<and> (of_char c :: nat) \<le> 57) \<Longrightarrow> c \<notin> set (dec_digits n)"
  using dec_digits_digits by blast

lemma dec_digits_not_Nil [simp]: "dec_digits n \<noteq> []"
  by (subst dec_digits.simps) auto

text \<open>Splitting at the last occurrence of a separator that does not occur after it.\<close>

lemma append_sep_inject:
  assumes "c \<notin> set y" "c \<notin> set y'"
  shows "x @ c # y = x' @ c # y' \<longleftrightarrow> x = x' \<and> y = y'"
proof
  assume "x @ c # y = x' @ c # y'"
  then have "rev y @ c # rev x = rev y' @ c # rev x'" by (metis rev.simps(2) rev_append append_assoc append_Cons append_Nil)
  moreover have "takeWhile (\<lambda>z. z \<noteq> c) (rev v @ c # w) = rev v" if "c \<notin> set v" for v w
    using that by (subst takeWhile_append2) auto
  ultimately have "rev y = rev y'" using assms by metis
  then show "x = x' \<and> y = y'" using \<open>x @ c # y = x' @ c # y'\<close> by simp
qed simp

text \<open>\<^verbatim>\<open>strconv.Atoi\<close>, which is \<^verbatim>\<open>ParseInt\<close> in base 10 with 64 bits.\<close>

definition is_digit :: "char \<Rightarrow> bool" where
  "is_digit c \<longleftrightarrow> 48 \<le> (of_char c :: nat) \<and> (of_char c :: nat) \<le> 57"

definition Atoi :: "string \<Rightarrow> int option" where
  "Atoi s =
     (let (neg, ds) = (case s of c # cs \<Rightarrow> if c = CHR ''-'' then (True, cs) else if c = CHR ''+'' then (False, cs) else (False, s)
                       | [] \<Rightarrow> (False, []))
      in if ds = [] \<or> \<not> list_all is_digit ds then None
         else let v = (if neg then - int (dec_value ds) else int (dec_value ds)) in
           if v < - (2 ^ 63) \<or> v \<ge> 2 ^ 63 then None else Some v)"

end
