(* ===== verification/Byte_Reader.thy ===== *)
theory Byte_Reader
  imports Rover_Prelude "HOL-Library.State_Monad" "HOL-Library.Monad_Syntax" "HOL-Library.Extended_Nat"
begin

text \<open>
  The positional decoding of perf-buffer samples, \<^verbatim>\<open>pkg/tools/btf/reader.go\<close>. The Go interface
  \<^verbatim>\<open>Reader\<close> is a record of state-monad actions, so that one definition of an event's \<^verbatim>\<open>ReadFrom\<close> runs
  both on the \<^verbatim>\<open>BytesReader\<close>, which decodes a sample, and on the \<^verbatim>\<open>sizeCalcReader\<close>, which only counts
  how many bytes a sample needs. Two locales state what a client relies on: \<open>counting_reader\<close> (how
  far the reader moves and when it fails) and \<open>decoding_reader\<close> (what it returns on the bytes of a
  packed C structure); both are interpreted on the readers of the code.
\<close>

unbundle bit_operations_syntax

section \<open>Little-endian words\<close>

text \<open>\<^verbatim>\<open>binary.LittleEndian.UintN\<close> of a slice of bytes, and the bytes that a packed word occupies.\<close>

primrec le_word :: "u8 list \<Rightarrow> 'a::len word" where
  "le_word [] = 0"
| "le_word (b # bs) = ucast b OR push_bit 8 (le_word bs)"

primrec le_bytes :: "nat \<Rightarrow> 'a::len word \<Rightarrow> u8 list" where
  "le_bytes 0 w = []"
| "le_bytes (Suc n) w = ucast w # le_bytes n (drop_bit 8 w)"

lemma length_le_bytes [simp]: "length (le_bytes n w) = n"
  by (induction n arbitrary: w) auto

lemma le_word_le_bytes: "le_word (le_bytes n w) = take_bit (8 * n) (w :: 'a::len word)"
proof (induction n arbitrary: w)
  case (Suc n)
  show ?case
  proof (rule bit_word_eqI)
    fix m
    assume "m < LENGTH('a)"
    then show "bit (le_word (le_bytes (Suc n) w) :: 'a word) m = bit (take_bit (8 * Suc n) w) m"
      by (auto simp: Suc bit_or_iff bit_push_bit_iff bit_take_bit_iff bit_drop_bit_eq bit_ucast_iff)
  qed
qed simp

lemma le_word_full: "LENGTH('a) = 8 * n \<Longrightarrow> le_word (le_bytes n w) = (w :: 'a::len word)"
  by (simp add: le_word_le_bytes take_bit_word_eq_self)

section \<open>Memory read by a probe\<close>

text \<open>
  Memory as a probe sees it, by address or by the distance from some address; a byte that cannot be
  read is \<open>None\<close>, and a read (\<^verbatim>\<open>bpf_probe_read\<close>) that meets one fails as a whole.
\<close>

type_synonym memory_image = "int \<Rightarrow> u8 option"

definition probe_read :: "memory_image \<Rightarrow> int \<Rightarrow> nat \<Rightarrow> u8 list option" where
  "probe_read img off n =
     (let bytes = map (\<lambda>i. img (off + int i)) [0..<n] in if None \<in> set bytes then None else Some (map the bytes))"

lemma probe_read_Some:
  "probe_read img off n = Some bs \<longleftrightarrow> length bs = n \<and> (\<forall>i < n. img (off + int i) = Some (bs ! i))"
proof
  assume r: "probe_read img off n = Some bs"
  then have none: "None \<notin> set (map (\<lambda>i. img (off + int i)) [0..<n])"
    and bs: "bs = map the (map (\<lambda>i. img (off + int i)) [0..<n])"
    by (auto simp: probe_read_def Let_def split: if_splits)
  have "img (off + int i) \<noteq> None" if "i < n" for i using that none by force
  then show "length bs = n \<and> (\<forall>i < n. img (off + int i) = Some (bs ! i))" by (simp add: bs)
next
  assume "length bs = n \<and> (\<forall>i < n. img (off + int i) = Some (bs ! i))"
  then have "map (\<lambda>i. img (off + int i)) [0..<n] = map Some bs" by (simp add: list_eq_iff_nth_eq)
  then show "probe_read img off n = Some bs" unfolding probe_read_def Let_def by (auto simp: comp_def)
qed

section \<open>The readers\<close>

datatype read_error = OutOfReaderBound nat nat nat

record 'r reader_ops =
  ReadUint64 :: "('r, u64) state"
  ReadUint32 :: "('r, u32) state"
  ReadUint16 :: "('r, u16) state"
  ReadUint8 :: "('r, u8) state"
  ReadUint8Array :: "u8 list \<Rightarrow> nat \<Rightarrow> ('r, u8 list) state"

record BytesReader =
  Sample :: "u8 list"
  CurrentOffset :: nat
  sampleLen :: nat
  br_err :: "read_error option"

definition NewReader :: "u8 list \<Rightarrow> BytesReader" where
  "NewReader sample = \<lparr>Sample = sample, CurrentOffset = 0, sampleLen = length sample, br_err = None\<rparr>"

definition BytesReader_read :: "nat \<Rightarrow> (BytesReader, u8 list option) state" where
  "BytesReader_read sz = State (\<lambda>r.
     if br_err r \<noteq> None then (None, r)
     else if sampleLen r < CurrentOffset r + sz
       then (None, r\<lparr>br_err := Some (OutOfReaderBound (CurrentOffset r) sz (sampleLen r))\<rparr>)
     else (Some (take sz (drop (CurrentOffset r) (Sample r))), r\<lparr>CurrentOffset := CurrentOffset r + sz\<rparr>))"

definition BytesReader_uint :: "nat \<Rightarrow> (BytesReader, 'a::len word) state" where
  "BytesReader_uint sz = do {
     bytes \<leftarrow> BytesReader_read sz;
     State_Monad.return (case bytes of None \<Rightarrow> 0 | Some bs \<Rightarrow> le_word bs)
   }"

text \<open>\<^verbatim>\<open>copy(a, read)\<close> overwrites the common prefix of the destination.\<close>

definition go_copy :: "'a list \<Rightarrow> 'a list \<Rightarrow> 'a list" where
  "go_copy dst src = take (length dst) src @ drop (length src) dst"

definition BytesReader_uint8Array :: "u8 list \<Rightarrow> nat \<Rightarrow> (BytesReader, u8 list) state" where
  "BytesReader_uint8Array a sz = do {
     bytes \<leftarrow> BytesReader_read sz;
     State_Monad.return (case bytes of None \<Rightarrow> a | Some bs \<Rightarrow> go_copy a bs)
   }"

definition bytesReader :: "BytesReader reader_ops" where
  "bytesReader = \<lparr>ReadUint64 = BytesReader_uint 8, ReadUint32 = BytesReader_uint 4,
     ReadUint16 = BytesReader_uint 2, ReadUint8 = BytesReader_uint 1,
     ReadUint8Array = BytesReader_uint8Array\<rparr>"

record sizeCalcReader =
  sc_size :: nat

definition newSizeCalcReader :: sizeCalcReader where
  "newSizeCalcReader = \<lparr>sc_size = 0\<rparr>"

definition sizeCalcReader_add :: "nat \<Rightarrow> 'a \<Rightarrow> (sizeCalcReader, 'a) state" where
  "sizeCalcReader_add n v = State (\<lambda>r. (v, r\<lparr>sc_size := sc_size r + n\<rparr>))"

definition sizeCalcReaderOps :: "sizeCalcReader reader_ops" where
  "sizeCalcReaderOps = \<lparr>ReadUint64 = sizeCalcReader_add 8 0, ReadUint32 = sizeCalcReader_add 4 0,
     ReadUint16 = sizeCalcReader_add 2 0, ReadUint8 = sizeCalcReader_add 1 0,
     ReadUint8Array = (\<lambda>a sz. sizeCalcReader_add sz a)\<rparr>"

text \<open>
  \<^verbatim>\<open>newPerfRecordBuilder\<close> (\<^verbatim>\<open>linker.go\<close>) sizes the pooled sample buffers of an event that reads itself:
  run \<^verbatim>\<open>ReadFrom\<close> on the counting reader and add eight bytes for alignment.
\<close>

definition perf_dataSize :: "(sizeCalcReader, 'e) state \<Rightarrow> nat" where
  "perf_dataSize readFrom = sc_size (snd (run_state readFrom newSizeCalcReader)) + 8"

section \<open>How far a reader moves\<close>

text \<open>
  A client that reads \<open>n\<close> bytes succeeds exactly when they fit below the limit of the reader, and
  then the position moves by \<open>n\<close>; an error sticks.
\<close>

definition reader_moves ::
  "('r \<Rightarrow> bool) \<Rightarrow> ('r \<Rightarrow> bool) \<Rightarrow> ('r \<Rightarrow> nat) \<Rightarrow> ('r \<Rightarrow> enat) \<Rightarrow> nat \<Rightarrow> 'r \<Rightarrow> 'r \<Rightarrow> bool" where
  "reader_moves valid ok pos limit n r r' \<longleftrightarrow> (valid r \<longrightarrow> valid r' \<and>
     (if ok r \<and> enat (pos r + n) \<le> limit r then ok r' \<and> pos r' = pos r + n \<and> limit r' = limit r
      else \<not> ok r'))"

locale counting_reader =
  fixes ops :: "'r reader_ops"
    and valid :: "'r \<Rightarrow> bool"
    and ok :: "'r \<Rightarrow> bool"
    and pos :: "'r \<Rightarrow> nat"
    and limit :: "'r \<Rightarrow> enat"
  assumes within: "valid r \<Longrightarrow> enat (pos r) \<le> limit r"
    and u64_moves: "reader_moves valid ok pos limit 8 r (snd (run_state (ReadUint64 ops) r))"
    and u32_moves: "reader_moves valid ok pos limit 4 r (snd (run_state (ReadUint32 ops) r))"
    and u16_moves: "reader_moves valid ok pos limit 2 r (snd (run_state (ReadUint16 ops) r))"
    and u8_moves: "reader_moves valid ok pos limit 1 r (snd (run_state (ReadUint8 ops) r))"
    and array_moves: "reader_moves valid ok pos limit sz r (snd (run_state (ReadUint8Array ops a sz) r))"
begin

abbreviation moves :: "nat \<Rightarrow> 'r \<Rightarrow> 'r \<Rightarrow> bool" where
  "moves \<equiv> reader_moves valid ok pos limit"

definition counts :: "('r, 'a) state \<Rightarrow> nat \<Rightarrow> bool" where
  "counts m n \<longleftrightarrow> (\<forall>r. moves n r (snd (run_state m r)))"

lemma moves_trans: "moves a r r' \<Longrightarrow> moves b r' r'' \<Longrightarrow> moves (a + b) r r''"
  by (cases "limit r") (auto simp: reader_moves_def add.assoc split: if_splits)

lemma counts_bind:
  assumes "counts m a" and "\<And>v. counts (f v) b"
  shows "counts (m \<bind> f) (a + b)"
  unfolding counts_def
proof
  fix r
  obtain v r' where m: "run_state m r = (v, r')" by fastforce
  then have "moves a r r'" using assms(1) unfolding counts_def by (metis snd_conv)
  moreover have "moves b r' (snd (run_state (f v) r'))" using assms(2) unfolding counts_def by blast
  ultimately show "moves (a + b) r (snd (run_state (m \<bind> f) r))"
    using m by (auto simp: State_Monad.bind_def intro: moves_trans)
qed

lemma counts_return: "counts (State_Monad.return v) 0"
  by (simp add: counts_def reader_moves_def State_Monad.return_def within)

lemma counts_ops:
  "counts (ReadUint64 ops) 8" "counts (ReadUint32 ops) 4" "counts (ReadUint16 ops) 2"
  "counts (ReadUint8 ops) 1" "counts (ReadUint8Array ops a sz) sz"
  unfolding counts_def using u64_moves u32_moves u16_moves u8_moves array_moves by blast+

lemma counts_eq: "counts m n \<Longrightarrow> n = k \<Longrightarrow> counts m k"
  by simp

lemmas counts_intros = counts_bind counts_return counts_ops

lemma counts_ok_iff:
  "counts m n \<Longrightarrow> valid r \<Longrightarrow> ok (snd (run_state m r)) \<longleftrightarrow> ok r \<and> enat (pos r + n) \<le> limit r"
  by (auto simp: counts_def reader_moves_def split: if_splits)

lemma counts_pos:
  "counts m n \<Longrightarrow> valid r \<Longrightarrow> ok (snd (run_state m r)) \<Longrightarrow> pos (snd (run_state m r)) = pos r + n"
  by (auto simp: counts_def reader_moves_def split: if_splits)

end

definition BytesReader_wf :: "BytesReader \<Rightarrow> bool" where
  "BytesReader_wf r \<longleftrightarrow> sampleLen r = length (Sample r) \<and> CurrentOffset r \<le> sampleLen r"

abbreviation reader_ok :: "BytesReader \<Rightarrow> bool" where
  "reader_ok r \<equiv> br_err r = None"

lemma BytesReader_read_moves:
  "reader_moves BytesReader_wf reader_ok CurrentOffset (\<lambda>r. enat (sampleLen r)) sz
     r (snd (run_state (BytesReader_read sz) r))"
  by (auto simp: reader_moves_def BytesReader_read_def BytesReader_wf_def)

lemma BytesReader_state [simp]:
  "snd (run_state (BytesReader_uint sz) r) = snd (run_state (BytesReader_read sz) r)"
  "snd (run_state (BytesReader_uint8Array a sz) r) = snd (run_state (BytesReader_read sz) r)"
  by (simp_all add: BytesReader_uint_def BytesReader_uint8Array_def split: prod.splits)

interpretation bytes_count: counting_reader bytesReader BytesReader_wf reader_ok CurrentOffset
  "\<lambda>r. enat (sampleLen r)"
  by unfold_locales
    (simp_all add: bytesReader_def BytesReader_read_moves BytesReader_wf_def del: One_nat_def)

interpretation size_count: counting_reader sizeCalcReaderOps "\<lambda>_. True" "\<lambda>_. True" sc_size "\<lambda>_. \<infinity>"
  by unfold_locales (simp_all add: sizeCalcReaderOps_def sizeCalcReader_add_def reader_moves_def)

text \<open>
  The bridge between the two readers: a \<^verbatim>\<open>ReadFrom\<close> that counts the same number on both decodes a
  sample without error exactly when the sample has at least the size the counting reader computed.
\<close>

lemma sized_read_ok_iff:
  assumes "bytes_count.counts m n" and "size_count.counts c n"
  shows "reader_ok (snd (run_state m (NewReader sample))) \<longleftrightarrow> perf_dataSize c \<le> length sample + 8"
  using bytes_count.counts_ok_iff [OF assms(1), of "NewReader sample"]
    size_count.counts_pos [OF assms(2), of newSizeCalcReader]
  by (simp add: NewReader_def BytesReader_wf_def perf_dataSize_def newSizeCalcReader_def)

section \<open>What a reader returns\<close>

text \<open>
  \<open>ahead r bs\<close> says that the reader has no error and exactly the bytes \<open>bs\<close> are left. A client reads
  \<open>v\<close> from the bytes \<open>bs\<close> when, whatever follows them, it returns \<open>v\<close> and leaves what follows.
\<close>

locale decoding_reader =
  fixes ops :: "'r reader_ops"
    and ahead :: "'r \<Rightarrow> u8 list \<Rightarrow> bool"
  assumes u64_ahead: "ahead r (le_bytes 8 w64 @ rest) \<Longrightarrow>
      \<exists>r'. run_state (ReadUint64 ops) r = (w64, r') \<and> ahead r' rest"
    and u32_ahead: "ahead r (le_bytes 4 w32 @ rest) \<Longrightarrow>
      \<exists>r'. run_state (ReadUint32 ops) r = (w32, r') \<and> ahead r' rest"
    and u16_ahead: "ahead r (le_bytes 2 w16 @ rest) \<Longrightarrow>
      \<exists>r'. run_state (ReadUint16 ops) r = (w16, r') \<and> ahead r' rest"
    and u8_ahead: "ahead r (le_bytes 1 w8 @ rest) \<Longrightarrow>
      \<exists>r'. run_state (ReadUint8 ops) r = (w8, r') \<and> ahead r' rest"
    and array_ahead: "length a = length bs \<Longrightarrow> ahead r (bs @ rest) \<Longrightarrow>
      \<exists>r'. run_state (ReadUint8Array ops a (length bs)) r = (bs, r') \<and> ahead r' rest"
begin

definition reads :: "('r, 'a) state \<Rightarrow> u8 list \<Rightarrow> 'a \<Rightarrow> bool" where
  "reads m bs v \<longleftrightarrow> (\<forall>r rest. ahead r (bs @ rest) \<longrightarrow> (\<exists>r'. run_state m r = (v, r') \<and> ahead r' rest))"

lemma reads_bind:
  assumes "reads m bs v" and "reads (f v) cs u"
  shows "reads (m \<bind> f) (bs @ cs) u"
  unfolding reads_def
proof (intro allI impI)
  fix r rest
  assume "ahead r ((bs @ cs) @ rest)"
  then obtain r' where r': "run_state m r = (v, r')" "ahead r' (cs @ rest)"
    using assms(1) unfolding reads_def by (metis append_assoc)
  then show "\<exists>r'. run_state (m \<bind> f) r = (u, r') \<and> ahead r' rest"
    using assms(2) unfolding reads_def by (auto simp: State_Monad.bind_def)
qed

lemma reads_return: "reads (State_Monad.return v) [] v"
  by (simp add: reads_def State_Monad.return_def)

lemma reads_ops:
  "reads (ReadUint64 ops) (le_bytes 8 w64) w64" "reads (ReadUint32 ops) (le_bytes 4 w32) w32"
  "reads (ReadUint16 ops) (le_bytes 2 w16) w16" "reads (ReadUint8 ops) (le_bytes 1 w8) w8"
  unfolding reads_def using u64_ahead u32_ahead u16_ahead u8_ahead by blast+

lemma reads_eq_return: "u = v \<Longrightarrow> reads (State_Monad.return u) [] v"
  using reads_return by simp

lemma reads_array: "length a = n \<Longrightarrow> length bs = n \<Longrightarrow> reads (ReadUint8Array ops a n) bs bs"
  unfolding reads_def using array_ahead by metis

end

definition BytesReader_ahead :: "BytesReader \<Rightarrow> u8 list \<Rightarrow> bool" where
  "BytesReader_ahead r bs \<longleftrightarrow> BytesReader_wf r \<and> reader_ok r \<and> drop (CurrentOffset r) (Sample r) = bs"

lemma BytesReader_read_ahead:
  assumes "BytesReader_ahead r (bs @ rest)" and "length bs = n"
  shows "\<exists>r'. run_state (BytesReader_read n) r = (Some bs, r') \<and> BytesReader_ahead r' rest"
proof -
  have "length (drop (CurrentOffset r) (Sample r)) = n + length rest"
    using assms by (simp add: BytesReader_ahead_def)
  moreover have "drop (n + CurrentOffset r) (Sample r) = rest"
    using assms by (simp add: BytesReader_ahead_def drop_drop [symmetric] del: drop_drop)
  ultimately show ?thesis
    using assms by (auto simp: BytesReader_ahead_def BytesReader_read_def BytesReader_wf_def add.commute)
qed

lemma BytesReader_uint_ahead:
  assumes "BytesReader_ahead r (le_bytes n w @ rest)" and "LENGTH('a) = 8 * n"
  shows "\<exists>r'. run_state (BytesReader_uint n) r = (w :: 'a::len word, r') \<and> BytesReader_ahead r' rest"
  using BytesReader_read_ahead [OF assms(1)]
  by (auto simp: BytesReader_uint_def State_Monad.bind_def State_Monad.return_def le_word_full assms(2))

lemma BytesReader_array_ahead:
  assumes "BytesReader_ahead r (bs @ rest)" and "length a = length bs"
  shows "\<exists>r'. run_state (BytesReader_uint8Array a (length bs)) r = (bs, r') \<and> BytesReader_ahead r' rest"
  using BytesReader_read_ahead [OF assms(1)] assms(2)
  by (auto simp: BytesReader_uint8Array_def State_Monad.bind_def State_Monad.return_def go_copy_def)

interpretation bytes_decode: decoding_reader bytesReader BytesReader_ahead
  by unfold_locales
    (simp_all add: bytesReader_def BytesReader_uint_ahead BytesReader_array_ahead del: One_nat_def)

lemma ahead_NewReader [simp]: "BytesReader_ahead (NewReader sample) sample"
  by (simp add: BytesReader_ahead_def NewReader_def BytesReader_wf_def)

lemma reads_NewReader:
  assumes "bytes_decode.reads m bs v"
  shows "\<exists>r. run_state m (NewReader (bs @ rest)) = (v, r) \<and> reader_ok r \<and> drop (CurrentOffset r) (Sample r) = rest"
  using assms ahead_NewReader [of "bs @ rest"]
  unfolding bytes_decode.reads_def BytesReader_ahead_def by blast

end
