(* ===== verification/Socket_Enums.thy ===== *)
theory Socket_Enums
  imports Rover_Prelude
begin

text \<open>
  The enumerations of \<^verbatim>\<open>pkg/tools/enums\<close> and the clock of \<^verbatim>\<open>pkg/tools/host/time.go\<close>. Values that arrive
  from the kernel are kept at their width, so that numbers outside the named constants stay
  representable.
\<close>

type_synonym ConnectionRole = u32
type_synonym SocketDataDirection = u8
type_synonym SocketMessageType = u8
type_synonym SocketFunctionName = u8
type_synonym ConnectionProtocol = u8

abbreviation ConnectionRoleUnknown :: ConnectionRole where "ConnectionRoleUnknown \<equiv> 0"
abbreviation ConnectionRoleClient :: ConnectionRole where "ConnectionRoleClient \<equiv> 1"
abbreviation ConnectionRoleServer :: ConnectionRole where "ConnectionRoleServer \<equiv> 2"

definition ConnectionRole_String :: "ConnectionRole \<Rightarrow> string" where
  "ConnectionRole_String r =
     (if r = ConnectionRoleClient then ''client''
      else if r = ConnectionRoleServer then ''server'' else ''unknown'')"

definition ConnectionRole_Revert :: "ConnectionRole \<Rightarrow> ConnectionRole" where
  "ConnectionRole_Revert r =
     (if r = ConnectionRoleClient then ConnectionRoleServer
      else if r = ConnectionRoleServer then ConnectionRoleClient else ConnectionRoleUnknown)"

abbreviation SocketDataDirectionIngress :: SocketDataDirection where "SocketDataDirectionIngress \<equiv> 1"
abbreviation SocketDataDirectionEgress :: SocketDataDirection where "SocketDataDirectionEgress \<equiv> 2"

definition SocketDataDirection_String :: "SocketDataDirection \<Rightarrow> string" where
  "SocketDataDirection_String d =
     (if d = SocketDataDirectionIngress then ''inbound''
      else if d = SocketDataDirectionEgress then ''outbound'' else ''unknown'')"

abbreviation SocketMessageTypeUnknown :: SocketMessageType where "SocketMessageTypeUnknown \<equiv> 0"
abbreviation SocketMessageTypeRequest :: SocketMessageType where "SocketMessageTypeRequest \<equiv> 1"
abbreviation SocketMessageTypeResponse :: SocketMessageType where "SocketMessageTypeResponse \<equiv> 2"

abbreviation ConnectionProtocolUnknown :: ConnectionProtocol where "ConnectionProtocolUnknown \<equiv> 0"
abbreviation ConnectionProtocolHTTP :: ConnectionProtocol where "ConnectionProtocolHTTP \<equiv> 1"
abbreviation ConnectionProtocolHTTP2 :: ConnectionProtocol where "ConnectionProtocolHTTP2 \<equiv> 2"

text \<open>
  The registry of protocol names is a package variable filled by \<^verbatim>\<open>init\<close>, to which other packages
  add entries.
\<close>

definition RegisterConnectionProtocolString ::
  "(ConnectionProtocol \<rightharpoonup> string) \<Rightarrow> ConnectionProtocol \<Rightarrow> string \<Rightarrow> (ConnectionProtocol \<rightharpoonup> string)" where
  "RegisterConnectionProtocolString m protocol name = m(protocol \<mapsto> name)"

definition connectionProtocolMap :: "ConnectionProtocol \<rightharpoonup> string" where
  "connectionProtocolMap =
     RegisterConnectionProtocolString
       (RegisterConnectionProtocolString Map.empty ConnectionProtocolHTTP ''http'')
       ConnectionProtocolHTTP2 ''http''"

definition ConnectionProtocolString :: "(ConnectionProtocol \<rightharpoonup> string) \<Rightarrow> ConnectionProtocol \<Rightarrow> string" where
  "ConnectionProtocolString m protocol = (case m protocol of Some name \<Rightarrow> name | None \<Rightarrow> ''unknown'')"

datatype SocketOperationType =
  SocketOperationTypeConnect | SocketOperationTypeAccept | SocketOperationTypeClose
| SocketOperationTypeWrite | SocketOperationTypeRead | SocketOperationTypeUnknown

definition GetSocketOperationType :: "SocketFunctionName \<Rightarrow> SocketOperationType" where
  "GetSocketOperationType f =
     (if f = 1 then SocketOperationTypeConnect
      else if f = 2 then SocketOperationTypeAccept
      else if f = 3 then SocketOperationTypeClose
      else if f \<in> {4, 5, 6, 7, 8, 9, 10, 17, 18, 20} then SocketOperationTypeWrite
      else if f \<in> {11, 12, 13, 14, 15, 16, 19, 21} then SocketOperationTypeRead
      else SocketOperationTypeUnknown)"

text \<open>
  \<^verbatim>\<open>host.Time\<close>: the boot time plus the kernel's monotonic clock; the \<^verbatim>\<open>uint64\<close> becomes a signed
  duration. Times are nanoseconds since the epoch.
\<close>

definition host_Time :: "int \<Rightarrow> u64 \<Rightarrow> int" where
  "host_Time bootTime bpfTime = bootTime + sint bpfTime"

definition TimeToInstant :: "int \<Rightarrow> u64 \<Rightarrow> int \<times> int" where
  "TimeToInstant bootTime bpfTime =
     (let result = host_Time bootTime bpfTime in (result div 10 ^ 9, result mod 10 ^ 9))"

lemma Revert_involutive:
  "r \<in> {ConnectionRoleClient, ConnectionRoleServer} \<Longrightarrow>
     ConnectionRole_Revert (ConnectionRole_Revert r) = r \<and> ConnectionRole_Revert r \<noteq> r"
  by (auto simp: ConnectionRole_Revert_def)

lemma TimeToInstant_exact:
  "fst (TimeToInstant b t) * 10 ^ 9 + snd (TimeToInstant b t) = host_Time b t"
  by (simp add: TimeToInstant_def Let_def)

end
