(* ===== verification/Socket_Events.thy ===== *)
theory Socket_Events
  imports Byte_Reader Socket_Enums
begin

text \<open>
  The events the kernel programs send through the perf buffers, \<^verbatim>\<open>pkg/accesslog/events\<close>: one record
  per Go structure and its \<^verbatim>\<open>ReadFrom\<close>, run on any reader. \<open>e\<close> is the receiver, whose arrays a failed
  read leaves as they are. The \<open>layout\<close> definitions are the packed C structures of the kernel side; the
  lemmas show that \<^verbatim>\<open>ReadFrom\<close> decodes exactly those layouts and how many bytes it needs.
\<close>

section \<open>The events\<close>

definition ParseConnectionID :: "u64 \<Rightarrow> u32 \<times> u32" where
  "ParseConnectionID connectionID =
     (ucast (drop_bit 32 connectionID), ucast (connectionID AND 0xFFFFFFFF))"

record SocketCloseEvent =
  cl_ConnectionID :: u64
  cl_RandomID :: u64
  cl_StartTime :: u64
  cl_EndTime :: u64
  cl_PID :: u32
  cl_SocketFD :: u32
  cl_Success :: u32

definition SocketCloseEvent_ReadFrom :: "'r reader_ops \<Rightarrow> SocketCloseEvent \<Rightarrow> ('r, SocketCloseEvent) state" where
  "SocketCloseEvent_ReadFrom r e = do {
     ConnectionID' \<leftarrow> ReadUint64 r;
     RandomID' \<leftarrow> ReadUint64 r;
     StartTime' \<leftarrow> ReadUint64 r;
     EndTime' \<leftarrow> ReadUint64 r;
     PID' \<leftarrow> ReadUint32 r;
     SocketFD' \<leftarrow> ReadUint32 r;
     Success' \<leftarrow> ReadUint32 r;
     State_Monad.return \<lparr>
     cl_ConnectionID = ConnectionID', cl_RandomID = RandomID', cl_StartTime = StartTime',
     cl_EndTime = EndTime', cl_PID = PID', cl_SocketFD = SocketFD', cl_Success = Success'\<rparr>
   }"

record SocketConnectEvent =
  co_ConID :: u64
  co_RandomID :: u64
  co_StartTime :: u64
  co_EndTime :: u64
  co_PID :: u32
  co_SocketFD :: u32
  co_FuncName :: u8
  co_Role :: u8
  co_SocketFamily :: u8
  co_ConnectSuccess :: u8
  co_Pad0 :: u32
  co_RemoteAddrV4 :: u32
  co_RemoteAddrPort :: u32
  co_RemoteAddrV6 :: "u8 list"
  co_LocalAddrV4 :: u32
  co_LocalAddrPort :: u32
  co_LocalAddrV6 :: "u8 list"
  co_ConnTrackUpstreamIPl :: u64
  co_ConnTrackUpstreamIPh :: u64
  co_ConnTrackUpstreamPort :: u32

definition SocketConnectEvent_ReadFrom :: "'r reader_ops \<Rightarrow> SocketConnectEvent \<Rightarrow> ('r, SocketConnectEvent) state" where
  "SocketConnectEvent_ReadFrom r e = do {
     ConID' \<leftarrow> ReadUint64 r;
     RandomID' \<leftarrow> ReadUint64 r;
     StartTime' \<leftarrow> ReadUint64 r;
     EndTime' \<leftarrow> ReadUint64 r;
     PID' \<leftarrow> ReadUint32 r;
     SocketFD' \<leftarrow> ReadUint32 r;
     FuncName' \<leftarrow> ReadUint8 r;
     Role' \<leftarrow> ReadUint8 r;
     SocketFamily' \<leftarrow> ReadUint8 r;
     ConnectSuccess' \<leftarrow> ReadUint8 r;
     Pad0' \<leftarrow> ReadUint32 r;
     RemoteAddrV4' \<leftarrow> ReadUint32 r;
     RemoteAddrPort' \<leftarrow> ReadUint32 r;
     RemoteAddrV6' \<leftarrow> ReadUint8Array r (co_RemoteAddrV6 e) 16;
     LocalAddrV4' \<leftarrow> ReadUint32 r;
     LocalAddrPort' \<leftarrow> ReadUint32 r;
     LocalAddrV6' \<leftarrow> ReadUint8Array r (co_LocalAddrV6 e) 16;
     ConnTrackUpstreamIPl' \<leftarrow> ReadUint64 r;
     ConnTrackUpstreamIPh' \<leftarrow> ReadUint64 r;
     ConnTrackUpstreamPort' \<leftarrow> ReadUint32 r;
     State_Monad.return \<lparr>
     co_ConID = ConID', co_RandomID = RandomID', co_StartTime = StartTime',
     co_EndTime = EndTime', co_PID = PID', co_SocketFD = SocketFD', co_FuncName = FuncName',
     co_Role = Role', co_SocketFamily = SocketFamily', co_ConnectSuccess = ConnectSuccess',
     co_Pad0 = Pad0', co_RemoteAddrV4 = RemoteAddrV4', co_RemoteAddrPort = RemoteAddrPort',
     co_RemoteAddrV6 = RemoteAddrV6', co_LocalAddrV4 = LocalAddrV4',
     co_LocalAddrPort = LocalAddrPort', co_LocalAddrV6 = LocalAddrV6',
     co_ConnTrackUpstreamIPl = ConnTrackUpstreamIPl',
     co_ConnTrackUpstreamIPh = ConnTrackUpstreamIPh',
     co_ConnTrackUpstreamPort = ConnTrackUpstreamPort'\<rparr>
   }"

record SocketDataUploadEvent =
  up_Protocol0 :: ConnectionProtocol
  up_HaveReduce :: u8
  up_Direction0 :: SocketDataDirection
  up_Finished :: u8
  up_Sequence0 :: u16
  up_DataLen :: u16
  up_StartTime0 :: u64
  up_EndTime0 :: u64
  up_ConnectionID :: u64
  up_RandomID :: u64
  up_DataID0 :: u64
  up_PrevDataID0 :: u64
  up_TotalSize0 :: u64
  up_Buffer :: "u8 list"

definition SocketDataUploadEvent_ReadFrom :: "'r reader_ops \<Rightarrow> SocketDataUploadEvent \<Rightarrow> ('r, SocketDataUploadEvent) state" where
  "SocketDataUploadEvent_ReadFrom r e = do {
     Protocol0' \<leftarrow> ReadUint8 r;
     HaveReduce' \<leftarrow> ReadUint8 r;
     Direction0' \<leftarrow> ReadUint8 r;
     Finished' \<leftarrow> ReadUint8 r;
     Sequence0' \<leftarrow> ReadUint16 r;
     DataLen' \<leftarrow> ReadUint16 r;
     StartTime0' \<leftarrow> ReadUint64 r;
     EndTime0' \<leftarrow> ReadUint64 r;
     ConnectionID' \<leftarrow> ReadUint64 r;
     RandomID' \<leftarrow> ReadUint64 r;
     DataID0' \<leftarrow> ReadUint64 r;
     PrevDataID0' \<leftarrow> ReadUint64 r;
     TotalSize0' \<leftarrow> ReadUint64 r;
     Buffer' \<leftarrow> ReadUint8Array r (up_Buffer e) 20480;
     State_Monad.return \<lparr>
     up_Protocol0 = Protocol0', up_HaveReduce = HaveReduce', up_Direction0 = Direction0',
     up_Finished = Finished', up_Sequence0 = Sequence0', up_DataLen = DataLen',
     up_StartTime0 = StartTime0', up_EndTime0 = EndTime0', up_ConnectionID = ConnectionID',
     up_RandomID = RandomID', up_DataID0 = DataID0', up_PrevDataID0 = PrevDataID0',
     up_TotalSize0 = TotalSize0', up_Buffer = Buffer'\<rparr>
   }"

record SocketDetailEvent =
  dt_ConnectionID :: u64
  dt_RandomID :: u64
  dt_DataID0 :: u64
  dt_StartTime :: u64
  dt_EndTime :: u64
  dt_L4Duration :: u32
  dt_L3Duration :: u32
  dt_L3LocalDuration :: u32
  dt_L3OutputDuration :: u32
  dt_L3ResolveMacDuration :: u32
  dt_L3NetFilterDuration :: u32
  dt_L2Duration :: u32
  dt_L2ReadySendDuration :: u32
  dt_L2SendDuration :: u32
  dt_L2PackageToQueueDuration :: u32
  dt_L3TotalRcvDuration :: u32
  dt_IfIndex :: u32
  dt_L4PackageRcvFromQueueDuration :: u64
  dt_L4TotalPackageSize :: u64
  dt_L2EnterQueueCount :: u8
  dt_L4PackageCount :: u8
  dt_L4RetransmitPackageCount :: u8
  dt_L3ResolveMacCount :: u8
  dt_L3NetFilterCount :: u8
  dt_FunctionName :: SocketFunctionName
  dt_Protocol :: ConnectionProtocol
  dt_SSL :: u8

definition SocketDetailEvent_ReadFrom :: "'r reader_ops \<Rightarrow> SocketDetailEvent \<Rightarrow> ('r, SocketDetailEvent) state" where
  "SocketDetailEvent_ReadFrom r e = do {
     ConnectionID' \<leftarrow> ReadUint64 r;
     RandomID' \<leftarrow> ReadUint64 r;
     DataID0' \<leftarrow> ReadUint64 r;
     StartTime' \<leftarrow> ReadUint64 r;
     EndTime' \<leftarrow> ReadUint64 r;
     L4Duration' \<leftarrow> ReadUint32 r;
     L3Duration' \<leftarrow> ReadUint32 r;
     L3LocalDuration' \<leftarrow> ReadUint32 r;
     L3OutputDuration' \<leftarrow> ReadUint32 r;
     L3ResolveMacDuration' \<leftarrow> ReadUint32 r;
     L3NetFilterDuration' \<leftarrow> ReadUint32 r;
     L2Duration' \<leftarrow> ReadUint32 r;
     L2ReadySendDuration' \<leftarrow> ReadUint32 r;
     L2SendDuration' \<leftarrow> ReadUint32 r;
     L2PackageToQueueDuration' \<leftarrow> ReadUint32 r;
     L3TotalRcvDuration' \<leftarrow> ReadUint32 r;
     IfIndex' \<leftarrow> ReadUint32 r;
     L4PackageRcvFromQueueDuration' \<leftarrow> ReadUint64 r;
     L4TotalPackageSize' \<leftarrow> ReadUint64 r;
     L2EnterQueueCount' \<leftarrow> ReadUint8 r;
     L4PackageCount' \<leftarrow> ReadUint8 r;
     L4RetransmitPackageCount' \<leftarrow> ReadUint8 r;
     L3ResolveMacCount' \<leftarrow> ReadUint8 r;
     L3NetFilterCount' \<leftarrow> ReadUint8 r;
     FunctionName' \<leftarrow> ReadUint8 r;
     Protocol' \<leftarrow> ReadUint8 r;
     SSL' \<leftarrow> ReadUint8 r;
     State_Monad.return \<lparr>
     dt_ConnectionID = ConnectionID', dt_RandomID = RandomID', dt_DataID0 = DataID0',
     dt_StartTime = StartTime', dt_EndTime = EndTime', dt_L4Duration = L4Duration',
     dt_L3Duration = L3Duration', dt_L3LocalDuration = L3LocalDuration',
     dt_L3OutputDuration = L3OutputDuration', dt_L3ResolveMacDuration = L3ResolveMacDuration',
     dt_L3NetFilterDuration = L3NetFilterDuration', dt_L2Duration = L2Duration',
     dt_L2ReadySendDuration = L2ReadySendDuration', dt_L2SendDuration = L2SendDuration',
     dt_L2PackageToQueueDuration = L2PackageToQueueDuration',
     dt_L3TotalRcvDuration = L3TotalRcvDuration', dt_IfIndex = IfIndex',
     dt_L4PackageRcvFromQueueDuration = L4PackageRcvFromQueueDuration',
     dt_L4TotalPackageSize = L4TotalPackageSize', dt_L2EnterQueueCount = L2EnterQueueCount',
     dt_L4PackageCount = L4PackageCount',
     dt_L4RetransmitPackageCount = L4RetransmitPackageCount',
     dt_L3ResolveMacCount = L3ResolveMacCount', dt_L3NetFilterCount = L3NetFilterCount',
     dt_FunctionName = FunctionName', dt_Protocol = Protocol', dt_SSL = SSL'\<rparr>
   }"

record ZTunnelConnectionResultEvent =
  zr_PID :: u32
  zr_Window :: u32
  zr_Data :: "u8 list"

definition ZTunnelConnectionResultEvent_ReadFrom :: "'r reader_ops \<Rightarrow> ZTunnelConnectionResultEvent \<Rightarrow> ('r, ZTunnelConnectionResultEvent) state" where
  "ZTunnelConnectionResultEvent_ReadFrom r e = do {
     PID' \<leftarrow> ReadUint32 r;
     Window' \<leftarrow> ReadUint32 r;
     Data' \<leftarrow> ReadUint8Array r (zr_Data e) (length (zr_Data e));
     State_Monad.return \<lparr>
     zr_PID = PID', zr_Window = Window', zr_Data = Data'\<rparr>
   }"

record ZTunnelConnectionResultCompactEvent =
  zc_PID :: u32
  zc_SrcIP :: u32
  zc_DstIP :: u32
  zc_SrcPort :: u16
  zc_DstPort :: u16
  zc_Reporter :: u8
  zc_SecurityPolicy :: u8
  zc_HasDirection :: u8
  zc_Pad0 :: u8
  zc_Pad1 :: u32
  zc_SrcPrincipalNsPtr :: u64
  zc_SrcPrincipalSaPtr :: u64
  zc_DstPrincipalNsPtr :: u64
  zc_DstPrincipalSaPtr :: u64
  zc_SrcNamespacePtr :: u64
  zc_DstNamespacePtr :: u64
  zc_SrcClusterPtr :: u64
  zc_DstClusterPtr :: u64

definition ZTunnelConnectionResultCompactEvent_ReadFrom :: "'r reader_ops \<Rightarrow> ZTunnelConnectionResultCompactEvent \<Rightarrow> ('r, ZTunnelConnectionResultCompactEvent) state" where
  "ZTunnelConnectionResultCompactEvent_ReadFrom r e = do {
     PID' \<leftarrow> ReadUint32 r;
     SrcIP' \<leftarrow> ReadUint32 r;
     DstIP' \<leftarrow> ReadUint32 r;
     SrcPort' \<leftarrow> ReadUint16 r;
     DstPort' \<leftarrow> ReadUint16 r;
     Reporter' \<leftarrow> ReadUint8 r;
     SecurityPolicy' \<leftarrow> ReadUint8 r;
     HasDirection' \<leftarrow> ReadUint8 r;
     Pad0' \<leftarrow> ReadUint8 r;
     Pad1' \<leftarrow> ReadUint32 r;
     SrcPrincipalNsPtr' \<leftarrow> ReadUint64 r;
     SrcPrincipalSaPtr' \<leftarrow> ReadUint64 r;
     DstPrincipalNsPtr' \<leftarrow> ReadUint64 r;
     DstPrincipalSaPtr' \<leftarrow> ReadUint64 r;
     SrcNamespacePtr' \<leftarrow> ReadUint64 r;
     DstNamespacePtr' \<leftarrow> ReadUint64 r;
     SrcClusterPtr' \<leftarrow> ReadUint64 r;
     DstClusterPtr' \<leftarrow> ReadUint64 r;
     State_Monad.return \<lparr>
     zc_PID = PID', zc_SrcIP = SrcIP', zc_DstIP = DstIP', zc_SrcPort = SrcPort',
     zc_DstPort = DstPort', zc_Reporter = Reporter', zc_SecurityPolicy = SecurityPolicy',
     zc_HasDirection = HasDirection', zc_Pad0 = Pad0', zc_Pad1 = Pad1',
     zc_SrcPrincipalNsPtr = SrcPrincipalNsPtr', zc_SrcPrincipalSaPtr = SrcPrincipalSaPtr',
     zc_DstPrincipalNsPtr = DstPrincipalNsPtr', zc_DstPrincipalSaPtr = DstPrincipalSaPtr',
     zc_SrcNamespacePtr = SrcNamespacePtr', zc_DstNamespacePtr = DstNamespacePtr',
     zc_SrcClusterPtr = SrcClusterPtr', zc_DstClusterPtr = DstClusterPtr'\<rparr>
   }"

record ZTunnelSocketMappingEvent =
  zm_OriginalSrcIP :: u32
  zm_OriginalDestIP :: u32
  zm_OriginalSrcPort :: u16
  zm_OriginalDestPort :: u16
  zm_LoadBalancedDestIP :: u32
  zm_LoadBalancedDestPort :: u16
  zm_Pad0 :: u16
  zm_Pad1 :: u32

definition ZTunnelSocketMappingEvent_ReadFrom :: "'r reader_ops \<Rightarrow> ZTunnelSocketMappingEvent \<Rightarrow> ('r, ZTunnelSocketMappingEvent) state" where
  "ZTunnelSocketMappingEvent_ReadFrom r e = do {
     OriginalSrcIP' \<leftarrow> ReadUint32 r;
     OriginalDestIP' \<leftarrow> ReadUint32 r;
     OriginalSrcPort' \<leftarrow> ReadUint16 r;
     OriginalDestPort' \<leftarrow> ReadUint16 r;
     LoadBalancedDestIP' \<leftarrow> ReadUint32 r;
     LoadBalancedDestPort' \<leftarrow> ReadUint16 r;
     Pad0' \<leftarrow> ReadUint16 r;
     Pad1' \<leftarrow> ReadUint32 r;
     State_Monad.return \<lparr>
     zm_OriginalSrcIP = OriginalSrcIP', zm_OriginalDestIP = OriginalDestIP',
     zm_OriginalSrcPort = OriginalSrcPort', zm_OriginalDestPort = OriginalDestPort',
     zm_LoadBalancedDestIP = LoadBalancedDestIP',
     zm_LoadBalancedDestPort = LoadBalancedDestPort', zm_Pad0 = Pad0', zm_Pad1 = Pad1'\<rparr>
   }"

section \<open>The packed layouts\<close>

definition SocketCloseEvent_layout :: "SocketCloseEvent \<Rightarrow> u8 list" where
  "SocketCloseEvent_layout e =
     le_bytes 8 (cl_ConnectionID e) @ le_bytes 8 (cl_RandomID e) @
     le_bytes 8 (cl_StartTime e) @ le_bytes 8 (cl_EndTime e) @ le_bytes 4 (cl_PID e) @
     le_bytes 4 (cl_SocketFD e) @ le_bytes 4 (cl_Success e) @ []"

definition SocketConnectEvent_layout :: "SocketConnectEvent \<Rightarrow> u8 list" where
  "SocketConnectEvent_layout e =
     le_bytes 8 (co_ConID e) @ le_bytes 8 (co_RandomID e) @ le_bytes 8 (co_StartTime e) @
     le_bytes 8 (co_EndTime e) @ le_bytes 4 (co_PID e) @ le_bytes 4 (co_SocketFD e) @
     le_bytes 1 (co_FuncName e) @ le_bytes 1 (co_Role e) @ le_bytes 1 (co_SocketFamily e) @
     le_bytes 1 (co_ConnectSuccess e) @ le_bytes 4 (co_Pad0 e) @
     le_bytes 4 (co_RemoteAddrV4 e) @ le_bytes 4 (co_RemoteAddrPort e) @ co_RemoteAddrV6 e @
     le_bytes 4 (co_LocalAddrV4 e) @ le_bytes 4 (co_LocalAddrPort e) @ co_LocalAddrV6 e @
     le_bytes 8 (co_ConnTrackUpstreamIPl e) @ le_bytes 8 (co_ConnTrackUpstreamIPh e) @
     le_bytes 4 (co_ConnTrackUpstreamPort e) @ []"

definition SocketDataUploadEvent_layout :: "SocketDataUploadEvent \<Rightarrow> u8 list" where
  "SocketDataUploadEvent_layout e =
     le_bytes 1 (up_Protocol0 e) @ le_bytes 1 (up_HaveReduce e) @
     le_bytes 1 (up_Direction0 e) @ le_bytes 1 (up_Finished e) @ le_bytes 2 (up_Sequence0 e) @
     le_bytes 2 (up_DataLen e) @ le_bytes 8 (up_StartTime0 e) @ le_bytes 8 (up_EndTime0 e) @
     le_bytes 8 (up_ConnectionID e) @ le_bytes 8 (up_RandomID e) @ le_bytes 8 (up_DataID0 e) @
     le_bytes 8 (up_PrevDataID0 e) @ le_bytes 8 (up_TotalSize0 e) @ up_Buffer e @ []"

definition SocketDetailEvent_layout :: "SocketDetailEvent \<Rightarrow> u8 list" where
  "SocketDetailEvent_layout e =
     le_bytes 8 (dt_ConnectionID e) @ le_bytes 8 (dt_RandomID e) @ le_bytes 8 (dt_DataID0 e) @
     le_bytes 8 (dt_StartTime e) @ le_bytes 8 (dt_EndTime e) @ le_bytes 4 (dt_L4Duration e) @
     le_bytes 4 (dt_L3Duration e) @ le_bytes 4 (dt_L3LocalDuration e) @
     le_bytes 4 (dt_L3OutputDuration e) @ le_bytes 4 (dt_L3ResolveMacDuration e) @
     le_bytes 4 (dt_L3NetFilterDuration e) @ le_bytes 4 (dt_L2Duration e) @
     le_bytes 4 (dt_L2ReadySendDuration e) @ le_bytes 4 (dt_L2SendDuration e) @
     le_bytes 4 (dt_L2PackageToQueueDuration e) @ le_bytes 4 (dt_L3TotalRcvDuration e) @
     le_bytes 4 (dt_IfIndex e) @ le_bytes 8 (dt_L4PackageRcvFromQueueDuration e) @
     le_bytes 8 (dt_L4TotalPackageSize e) @ le_bytes 1 (dt_L2EnterQueueCount e) @
     le_bytes 1 (dt_L4PackageCount e) @ le_bytes 1 (dt_L4RetransmitPackageCount e) @
     le_bytes 1 (dt_L3ResolveMacCount e) @ le_bytes 1 (dt_L3NetFilterCount e) @
     le_bytes 1 (dt_FunctionName e) @ le_bytes 1 (dt_Protocol e) @ le_bytes 1 (dt_SSL e) @ []"

definition ZTunnelConnectionResultEvent_layout :: "ZTunnelConnectionResultEvent \<Rightarrow> u8 list" where
  "ZTunnelConnectionResultEvent_layout e =
     le_bytes 4 (zr_PID e) @ le_bytes 4 (zr_Window e) @ zr_Data e @ []"

definition ZTunnelConnectionResultCompactEvent_layout :: "ZTunnelConnectionResultCompactEvent \<Rightarrow> u8 list" where
  "ZTunnelConnectionResultCompactEvent_layout e =
     le_bytes 4 (zc_PID e) @ le_bytes 4 (zc_SrcIP e) @ le_bytes 4 (zc_DstIP e) @
     le_bytes 2 (zc_SrcPort e) @ le_bytes 2 (zc_DstPort e) @ le_bytes 1 (zc_Reporter e) @
     le_bytes 1 (zc_SecurityPolicy e) @ le_bytes 1 (zc_HasDirection e) @
     le_bytes 1 (zc_Pad0 e) @ le_bytes 4 (zc_Pad1 e) @ le_bytes 8 (zc_SrcPrincipalNsPtr e) @
     le_bytes 8 (zc_SrcPrincipalSaPtr e) @ le_bytes 8 (zc_DstPrincipalNsPtr e) @
     le_bytes 8 (zc_DstPrincipalSaPtr e) @ le_bytes 8 (zc_SrcNamespacePtr e) @
     le_bytes 8 (zc_DstNamespacePtr e) @ le_bytes 8 (zc_SrcClusterPtr e) @
     le_bytes 8 (zc_DstClusterPtr e) @ []"

definition ZTunnelSocketMappingEvent_layout :: "ZTunnelSocketMappingEvent \<Rightarrow> u8 list" where
  "ZTunnelSocketMappingEvent_layout e =
     le_bytes 4 (zm_OriginalSrcIP e) @ le_bytes 4 (zm_OriginalDestIP e) @
     le_bytes 2 (zm_OriginalSrcPort e) @ le_bytes 2 (zm_OriginalDestPort e) @
     le_bytes 4 (zm_LoadBalancedDestIP e) @ le_bytes 2 (zm_LoadBalancedDestPort e) @
     le_bytes 2 (zm_Pad0 e) @ le_bytes 4 (zm_Pad1 e) @ []"

section \<open>How many bytes each event needs\<close>

lemma SocketCloseEvent_bytes_count:
  "bytes_count.counts (SocketCloseEvent_ReadFrom bytesReader e) (44)"
  unfolding SocketCloseEvent_ReadFrom_def
  by (rule bytes_count.counts_eq, (rule bytes_count.counts_intros)+) simp

lemma SocketCloseEvent_size_count:
  "size_count.counts (SocketCloseEvent_ReadFrom sizeCalcReaderOps e) (44)"
  unfolding SocketCloseEvent_ReadFrom_def
  by (rule size_count.counts_eq, (rule size_count.counts_intros)+) simp

lemma SocketConnectEvent_bytes_count:
  "bytes_count.counts (SocketConnectEvent_ReadFrom bytesReader e) (116)"
  unfolding SocketConnectEvent_ReadFrom_def
  by (rule bytes_count.counts_eq, (rule bytes_count.counts_intros)+) simp

lemma SocketConnectEvent_size_count:
  "size_count.counts (SocketConnectEvent_ReadFrom sizeCalcReaderOps e) (116)"
  unfolding SocketConnectEvent_ReadFrom_def
  by (rule size_count.counts_eq, (rule size_count.counts_intros)+) simp

lemma SocketDataUploadEvent_bytes_count:
  "bytes_count.counts (SocketDataUploadEvent_ReadFrom bytesReader e) (20544)"
  unfolding SocketDataUploadEvent_ReadFrom_def
  by (rule bytes_count.counts_eq, (rule bytes_count.counts_intros)+) simp

lemma SocketDataUploadEvent_size_count:
  "size_count.counts (SocketDataUploadEvent_ReadFrom sizeCalcReaderOps e) (20544)"
  unfolding SocketDataUploadEvent_ReadFrom_def
  by (rule size_count.counts_eq, (rule size_count.counts_intros)+) simp

lemma SocketDetailEvent_bytes_count:
  "bytes_count.counts (SocketDetailEvent_ReadFrom bytesReader e) (112)"
  unfolding SocketDetailEvent_ReadFrom_def
  by (rule bytes_count.counts_eq, (rule bytes_count.counts_intros)+) simp

lemma SocketDetailEvent_size_count:
  "size_count.counts (SocketDetailEvent_ReadFrom sizeCalcReaderOps e) (112)"
  unfolding SocketDetailEvent_ReadFrom_def
  by (rule size_count.counts_eq, (rule size_count.counts_intros)+) simp

lemma ZTunnelConnectionResultEvent_bytes_count:
  "bytes_count.counts (ZTunnelConnectionResultEvent_ReadFrom bytesReader e) (8 + length (zr_Data e))"
  unfolding ZTunnelConnectionResultEvent_ReadFrom_def
  by (rule bytes_count.counts_eq, (rule bytes_count.counts_intros)+) simp

lemma ZTunnelConnectionResultEvent_size_count:
  "size_count.counts (ZTunnelConnectionResultEvent_ReadFrom sizeCalcReaderOps e) (8 + length (zr_Data e))"
  unfolding ZTunnelConnectionResultEvent_ReadFrom_def
  by (rule size_count.counts_eq, (rule size_count.counts_intros)+) simp

lemma ZTunnelConnectionResultCompactEvent_bytes_count:
  "bytes_count.counts (ZTunnelConnectionResultCompactEvent_ReadFrom bytesReader e) (88)"
  unfolding ZTunnelConnectionResultCompactEvent_ReadFrom_def
  by (rule bytes_count.counts_eq, (rule bytes_count.counts_intros)+) simp

lemma ZTunnelConnectionResultCompactEvent_size_count:
  "size_count.counts (ZTunnelConnectionResultCompactEvent_ReadFrom sizeCalcReaderOps e) (88)"
  unfolding ZTunnelConnectionResultCompactEvent_ReadFrom_def
  by (rule size_count.counts_eq, (rule size_count.counts_intros)+) simp

lemma ZTunnelSocketMappingEvent_bytes_count:
  "bytes_count.counts (ZTunnelSocketMappingEvent_ReadFrom bytesReader e) (24)"
  unfolding ZTunnelSocketMappingEvent_ReadFrom_def
  by (rule bytes_count.counts_eq, (rule bytes_count.counts_intros)+) simp

lemma ZTunnelSocketMappingEvent_size_count:
  "size_count.counts (ZTunnelSocketMappingEvent_ReadFrom sizeCalcReaderOps e) (24)"
  unfolding ZTunnelSocketMappingEvent_ReadFrom_def
  by (rule size_count.counts_eq, (rule size_count.counts_intros)+) simp

lemmas event_counts =
  SocketCloseEvent_bytes_count SocketCloseEvent_size_count
  SocketConnectEvent_bytes_count SocketConnectEvent_size_count
  SocketDataUploadEvent_bytes_count SocketDataUploadEvent_size_count
  SocketDetailEvent_bytes_count SocketDetailEvent_size_count
  ZTunnelConnectionResultEvent_bytes_count ZTunnelConnectionResultEvent_size_count
  ZTunnelConnectionResultCompactEvent_bytes_count ZTunnelConnectionResultCompactEvent_size_count
  ZTunnelSocketMappingEvent_bytes_count ZTunnelSocketMappingEvent_size_count
 

section \<open>What each event reads\<close>

lemma SocketCloseEvent_reads:
  shows "bytes_decode.reads (SocketCloseEvent_ReadFrom bytesReader e0) (SocketCloseEvent_layout e) e"
  unfolding SocketCloseEvent_ReadFrom_def SocketCloseEvent_layout_def
  by ((rule bytes_decode.reads_bind, (rule bytes_decode.reads_ops))+)
    (rule bytes_decode.reads_eq_return, simp)

lemma SocketConnectEvent_reads:
  assumes "length (co_RemoteAddrV6 e0) = 16" and "length (co_RemoteAddrV6 e) = 16" and "length (co_LocalAddrV6 e0) = 16" and "length (co_LocalAddrV6 e) = 16"
  shows "bytes_decode.reads (SocketConnectEvent_ReadFrom bytesReader e0) (SocketConnectEvent_layout e) e"
  unfolding SocketConnectEvent_ReadFrom_def SocketConnectEvent_layout_def
  by ((rule bytes_decode.reads_bind, (rule bytes_decode.reads_ops
       | rule bytes_decode.reads_array [OF assms(1,2)] bytes_decode.reads_array [OF assms(3,4)]))+)
    (rule bytes_decode.reads_eq_return, simp)

lemma SocketDataUploadEvent_reads:
  assumes "length (up_Buffer e0) = 20480" and "length (up_Buffer e) = 20480"
  shows "bytes_decode.reads (SocketDataUploadEvent_ReadFrom bytesReader e0) (SocketDataUploadEvent_layout e) e"
  unfolding SocketDataUploadEvent_ReadFrom_def SocketDataUploadEvent_layout_def
  by ((rule bytes_decode.reads_bind, (rule bytes_decode.reads_ops | rule bytes_decode.reads_array [OF assms]))+)
    (rule bytes_decode.reads_eq_return, simp)

lemma SocketDetailEvent_reads:
  shows "bytes_decode.reads (SocketDetailEvent_ReadFrom bytesReader e0) (SocketDetailEvent_layout e) e"
  unfolding SocketDetailEvent_ReadFrom_def SocketDetailEvent_layout_def
  by ((rule bytes_decode.reads_bind, (rule bytes_decode.reads_ops))+)
    (rule bytes_decode.reads_eq_return, simp)

lemma ZTunnelConnectionResultEvent_reads:
  assumes "length (zr_Data e) = length (zr_Data e0)"
  shows "bytes_decode.reads (ZTunnelConnectionResultEvent_ReadFrom bytesReader e0) (ZTunnelConnectionResultEvent_layout e) e"
  unfolding ZTunnelConnectionResultEvent_ReadFrom_def ZTunnelConnectionResultEvent_layout_def
  by ((rule bytes_decode.reads_bind, (rule bytes_decode.reads_ops | rule bytes_decode.reads_array [OF refl assms]))+)
    (rule bytes_decode.reads_eq_return, simp)

lemma ZTunnelConnectionResultCompactEvent_reads:
  shows "bytes_decode.reads (ZTunnelConnectionResultCompactEvent_ReadFrom bytesReader e0) (ZTunnelConnectionResultCompactEvent_layout e) e"
  unfolding ZTunnelConnectionResultCompactEvent_ReadFrom_def ZTunnelConnectionResultCompactEvent_layout_def
  by ((rule bytes_decode.reads_bind, (rule bytes_decode.reads_ops))+)
    (rule bytes_decode.reads_eq_return, simp)

lemma ZTunnelSocketMappingEvent_reads:
  shows "bytes_decode.reads (ZTunnelSocketMappingEvent_ReadFrom bytesReader e0) (ZTunnelSocketMappingEvent_layout e) e"
  unfolding ZTunnelSocketMappingEvent_ReadFrom_def ZTunnelSocketMappingEvent_layout_def
  by ((rule bytes_decode.reads_bind, (rule bytes_decode.reads_ops))+)
    (rule bytes_decode.reads_eq_return, simp)

section \<open>Properties\<close>

text \<open>
  C13: the seven events decode from the packed structures the kernel writes: on a sample that
  starts with the bytes of an event, whatever the receiver held and whatever padding follows,
  \<^verbatim>\<open>ReadFrom\<close> returns that event, reports no error and leaves exactly the padding.
\<close>

theorem events_roundtrip:
  assumes "length (co_RemoteAddrV6 co0) = 16" "length (co_RemoteAddrV6 co) = 16"
    and "length (co_LocalAddrV6 co0) = 16" "length (co_LocalAddrV6 co) = 16"
    and "length (up_Buffer up0) = 20480" "length (up_Buffer up) = 20480"
    and "length (zr_Data zr) = length (zr_Data zr0)"
  shows
    "(\<exists>r. run_state (SocketCloseEvent_ReadFrom bytesReader cl0) (NewReader (SocketCloseEvent_layout cl @ pad))
        = (cl, r) \<and> reader_ok r \<and> drop (CurrentOffset r) (Sample r) = pad) \<and>
     (\<exists>r. run_state (SocketConnectEvent_ReadFrom bytesReader co0) (NewReader (SocketConnectEvent_layout co @ pad))
        = (co, r) \<and> reader_ok r \<and> drop (CurrentOffset r) (Sample r) = pad) \<and>
     (\<exists>r. run_state (SocketDataUploadEvent_ReadFrom bytesReader up0) (NewReader (SocketDataUploadEvent_layout up @ pad))
        = (up, r) \<and> reader_ok r \<and> drop (CurrentOffset r) (Sample r) = pad) \<and>
     (\<exists>r. run_state (SocketDetailEvent_ReadFrom bytesReader dt0) (NewReader (SocketDetailEvent_layout dt @ pad))
        = (dt, r) \<and> reader_ok r \<and> drop (CurrentOffset r) (Sample r) = pad) \<and>
     (\<exists>r. run_state (ZTunnelConnectionResultEvent_ReadFrom bytesReader zr0) (NewReader (ZTunnelConnectionResultEvent_layout zr @ pad))
        = (zr, r) \<and> reader_ok r \<and> drop (CurrentOffset r) (Sample r) = pad) \<and>
     (\<exists>r. run_state (ZTunnelConnectionResultCompactEvent_ReadFrom bytesReader zc0) (NewReader (ZTunnelConnectionResultCompactEvent_layout zc @ pad))
        = (zc, r) \<and> reader_ok r \<and> drop (CurrentOffset r) (Sample r) = pad) \<and>
     (\<exists>r. run_state (ZTunnelSocketMappingEvent_ReadFrom bytesReader zm0) (NewReader (ZTunnelSocketMappingEvent_layout zm @ pad))
        = (zm, r) \<and> reader_ok r \<and> drop (CurrentOffset r) (Sample r) = pad)"
  by (intro conjI reads_NewReader SocketCloseEvent_reads SocketConnectEvent_reads SocketDataUploadEvent_reads
      SocketDetailEvent_reads ZTunnelConnectionResultEvent_reads ZTunnelConnectionResultCompactEvent_reads
      ZTunnelSocketMappingEvent_reads assms)

theorem events_roundtrip_witness:
  "\<exists>r. run_state (SocketConnectEvent_ReadFrom bytesReader
          (undefined\<lparr>co_RemoteAddrV6 := replicate 16 0, co_LocalAddrV6 := replicate 16 0\<rparr>))
        (NewReader (SocketConnectEvent_layout
          (undefined\<lparr>co_PID := 7, co_RemoteAddrV6 := replicate 16 1, co_LocalAddrV6 := replicate 16 2\<rparr>) @ [9]))
      = (undefined\<lparr>co_PID := 7, co_RemoteAddrV6 := replicate 16 1, co_LocalAddrV6 := replicate 16 2\<rparr>, r)
        \<and> reader_ok r \<and> drop (CurrentOffset r) (Sample r) = [9]"
  using events_roundtrip [of
      "undefined\<lparr>co_RemoteAddrV6 := replicate 16 0, co_LocalAddrV6 := replicate 16 0\<rparr>"
      "undefined\<lparr>co_PID := 7, co_RemoteAddrV6 := replicate 16 1, co_LocalAddrV6 := replicate 16 2\<rparr>"
      "undefined\<lparr>up_Buffer := replicate 20480 0\<rparr>" "undefined\<lparr>up_Buffer := replicate 20480 5\<rparr>"
      "undefined\<lparr>zr_Data := replicate 512 0\<rparr>" "undefined\<lparr>zr_Data := replicate 512 3\<rparr>"]
  by simp

text \<open>
  C25: for every event the size computed by running \<^verbatim>\<open>ReadFrom\<close> on the counting reader is exactly what
  decoding needs: a sample decodes without error if and only if it is at least that long, so the
  pooled buffers of \<^verbatim>\<open>newPerfRecordBuilder\<close> hold every complete event.
\<close>

theorem events_sized:
  "(reader_ok (snd (run_state (SocketCloseEvent_ReadFrom bytesReader cl) (NewReader sample))) \<longleftrightarrow>
     perf_dataSize (SocketCloseEvent_ReadFrom sizeCalcReaderOps cl) \<le> length sample + 8) \<and>
   (reader_ok (snd (run_state (SocketConnectEvent_ReadFrom bytesReader co) (NewReader sample))) \<longleftrightarrow>
     perf_dataSize (SocketConnectEvent_ReadFrom sizeCalcReaderOps co) \<le> length sample + 8) \<and>
   (reader_ok (snd (run_state (SocketDataUploadEvent_ReadFrom bytesReader up) (NewReader sample))) \<longleftrightarrow>
     perf_dataSize (SocketDataUploadEvent_ReadFrom sizeCalcReaderOps up) \<le> length sample + 8) \<and>
   (reader_ok (snd (run_state (SocketDetailEvent_ReadFrom bytesReader dt) (NewReader sample))) \<longleftrightarrow>
     perf_dataSize (SocketDetailEvent_ReadFrom sizeCalcReaderOps dt) \<le> length sample + 8) \<and>
   (reader_ok (snd (run_state (ZTunnelConnectionResultEvent_ReadFrom bytesReader zr) (NewReader sample))) \<longleftrightarrow>
     perf_dataSize (ZTunnelConnectionResultEvent_ReadFrom sizeCalcReaderOps zr) \<le> length sample + 8) \<and>
   (reader_ok (snd (run_state (ZTunnelConnectionResultCompactEvent_ReadFrom bytesReader zc) (NewReader sample))) \<longleftrightarrow>
     perf_dataSize (ZTunnelConnectionResultCompactEvent_ReadFrom sizeCalcReaderOps zc) \<le> length sample + 8) \<and>
   (reader_ok (snd (run_state (ZTunnelSocketMappingEvent_ReadFrom bytesReader zm) (NewReader sample))) \<longleftrightarrow>
     perf_dataSize (ZTunnelSocketMappingEvent_ReadFrom sizeCalcReaderOps zm) \<le> length sample + 8)"
  by (intro conjI; rule sized_read_ok_iff; rule event_counts)

lemma ParseConnectionID_take_bit:
  "ParseConnectionID c = (ucast (drop_bit 32 c), ucast (take_bit 32 c))"
proof -
  have "c AND 0xFFFFFFFF = take_bit 32 c" by (simp add: take_bit_eq_mask mask_eq_exp_minus_1)
  then show ?thesis by (simp add: ParseConnectionID_def)
qed

lemma ParseConnectionID_eq:
  "ParseConnectionID c = (pid, fd) \<longleftrightarrow> c = push_bit 32 (ucast pid) OR ucast fd"
proof
  assume c: "c = push_bit 32 (ucast pid) OR ucast fd"
  have "\<not> bit fd (32 + n)" for n using bit_imp_le_length [of fd "32 + n"] by auto
  then show "ParseConnectionID c = (pid, fd)"
    unfolding ParseConnectionID_take_bit prod.inject c
    by (auto intro!: bit_word_eqI simp: bit_simps)
next
  assume "ParseConnectionID c = (pid, fd)"
  then have "pid = ucast (drop_bit 32 c)" "fd = ucast (take_bit 32 c)"
    by (simp_all add: ParseConnectionID_take_bit)
  then show "c = push_bit 32 (ucast pid) OR ucast fd"
    by (auto intro!: bit_word_eqI simp: bit_simps)
qed

end
