(* ===== verification/Socket_Buffer.thy ===== *)
theory Socket_Buffer
  imports Socket_Events "HOL-Library.Product_Lexorder"
begin

text \<open>
  The socket data buffer, \<^verbatim>\<open>pkg/tools/buffer/buffer.go\<close>: two ordered lists (the data chunks and the
  kernel's detail events of one connection) and two reading positions. List elements have an
  identity, so that positions into a list, and positions that survive the removal of their element,
  behave as the pointers of the code. Chunks in the lists are never nil. The pool that recycles the
  20480-byte arrays and the read-write lock are left out. A new list element takes its identity
  from an argument (\<open>fresh\<close>), which stands for the allocation.
\<close>

section \<open>Chunks\<close>

text \<open>
  A chunk is an event of the kernel or a window on another chunk (\<^verbatim>\<open>SocketDataEventLimited\<close>).
  A slice is the memory from its first byte up to its capacity together with its length, because
  re-slicing in Go is bounded by the capacity and not by the length.
\<close>

datatype SocketDataBuffer =
  Upload SocketDataUploadEvent
| SocketDataEventLimited SocketDataBuffer nat nat

primrec BufferData :: "SocketDataBuffer \<Rightarrow> (u8 list \<times> nat) or_panic" where
  "BufferData (Upload s) =
     (if unat (up_DataLen s) \<le> length (up_Buffer s) then Inr (up_Buffer s, unat (up_DataLen s))
      else Inl SliceBounds)"
| "BufferData (SocketDataEventLimited b From Size) =
     panic_bind (BufferData b) (\<lambda>(mem, _).
       if From \<le> Size \<and> Size \<le> length mem then Inr (drop From mem, Size - From) else Inl SliceBounds)"

primrec BufferLen :: "SocketDataBuffer \<Rightarrow> int" where
  "BufferLen (Upload s) = int (unat (up_DataLen s))"
| "BufferLen (SocketDataEventLimited b From Size) = int Size - int From"

primrec BufferStartPosition :: "SocketDataBuffer \<Rightarrow> int" where
  "BufferStartPosition (Upload s) = 0"
| "BufferStartPosition (SocketDataEventLimited b From Size) = int From"

text \<open>The other methods of a window are those of the embedded chunk.\<close>

primrec upload_event :: "SocketDataBuffer \<Rightarrow> SocketDataUploadEvent" where
  "upload_event (Upload s) = s"
| "upload_event (SocketDataEventLimited b From Size) = upload_event b"

definition Protocol :: "SocketDataBuffer \<Rightarrow> ConnectionProtocol" where
  "Protocol b = up_Protocol0 (upload_event b)"

definition Direction :: "SocketDataBuffer \<Rightarrow> SocketDataDirection" where
  "Direction b = up_Direction0 (upload_event b)"

definition DataID :: "SocketDataBuffer \<Rightarrow> u64" where
  "DataID b = up_DataID0 (upload_event b)"

definition PrevDataID :: "SocketDataBuffer \<Rightarrow> u64" where
  "PrevDataID b = up_PrevDataID0 (upload_event b)"

definition DataSequence :: "SocketDataBuffer \<Rightarrow> nat" where
  "DataSequence b = unat (up_Sequence0 (upload_event b))"

definition IsStart :: "SocketDataBuffer \<Rightarrow> bool" where
  "IsStart b \<longleftrightarrow> up_Sequence0 (upload_event b) = 0"

definition IsFinished :: "SocketDataBuffer \<Rightarrow> bool" where
  "IsFinished b \<longleftrightarrow> up_Finished (upload_event b) = 1"

definition HaveReduceDataAfterChunk :: "SocketDataBuffer \<Rightarrow> bool" where
  "HaveReduceDataAfterChunk b \<longleftrightarrow> up_HaveReduce (upload_event b) = 1"

definition StartTime :: "SocketDataBuffer \<Rightarrow> u64" where
  "StartTime b = up_StartTime0 (upload_event b)"

definition EndTime :: "SocketDataBuffer \<Rightarrow> u64" where
  "EndTime b = up_EndTime0 (upload_event b)"

definition TotalSize :: "SocketDataBuffer \<Rightarrow> u64" where
  "TotalSize b = up_TotalSize0 (upload_event b)"

section \<open>The buffer\<close>

record Position =
  element :: "SocketDataBuffer element option"
  bufIndex :: nat

text \<open>
  \<open>originalBuffer\<close> is a pointer: the address of a buffer in a store of buffers. Detail events are
  those of the access log.
\<close>

record Buffer =
  dataEvents :: "SocketDataBuffer golist"
  detailEvents :: "SocketDetailEvent golist"
  validated :: bool
  shouldResetPosition :: bool
  buf_head :: "Position option"
  buf_current :: "Position option"
  latestExpiredDataID :: u64
  originalBuffer :: "nat option"
  endPosition :: "Position option"

type_synonym buffer_store = "nat \<rightharpoonup> Buffer"

definition NewBuffer :: Buffer where
  "NewBuffer = \<lparr>dataEvents = [], detailEvents = [], validated = False, shouldResetPosition = False,
     buf_head = None, buf_current = None, latestExpiredDataID = 0, originalBuffer = None, endPosition = None\<rparr>"

definition Position_value :: "Position option \<Rightarrow> SocketDataBuffer or_panic" where
  "Position_value p = (case p of None \<Rightarrow> Inl NilDereference
     | Some q \<Rightarrow> (case element q of None \<Rightarrow> Inl NilDereference | Some e \<Rightarrow> Inr (snd e)))"

definition Position_DataID :: "Position option \<Rightarrow> u64 or_panic" where
  "Position_DataID p = map_sum id DataID (Position_value p)"

definition Position_PrevDataID :: "Position option \<Rightarrow> u64 or_panic" where
  "Position_PrevDataID p = map_sum id PrevDataID (Position_value p)"

definition Position_Seq :: "Position option \<Rightarrow> nat or_panic" where
  "Position_Seq p = map_sum id DataSequence (Position_value p)"

definition FindFirstDataBuffer :: "Buffer \<Rightarrow> u64 \<Rightarrow> SocketDataBuffer option" where
  "FindFirstDataBuffer r dataID = find (\<lambda>b. DataID b = dataID) (list_values (dataEvents r))"

definition Clean :: "Buffer \<Rightarrow> Buffer" where
  "Clean r = r\<lparr>dataEvents := [], detailEvents := [], buf_head := None, buf_current := None, endPosition := None\<rparr>"

definition FirstSocketBuffer :: "Buffer option \<Rightarrow> SocketDataBuffer option" where
  "FirstSocketBuffer r = Option.bind r (\<lambda>b. map_option snd (list_front (dataEvents b)))"

definition LastSocketBuffer :: "Buffer option \<Rightarrow> SocketDataBuffer option" where
  "LastSocketBuffer r = Option.bind r (\<lambda>b. map_option snd (list_back (dataEvents b)))"

definition TotalBuffer :: "Buffer option \<Rightarrow> SocketDataBuffer list" where
  "TotalBuffer r = (case r of None \<Rightarrow> [] | Some b \<Rightarrow> list_values (dataEvents b))"

definition DetectNotSendingLastPosition :: "Buffer option \<Rightarrow> Position option" where
  "DetectNotSendingLastPosition r = (case r of None \<Rightarrow> None | Some b \<Rightarrow>
     map_option (\<lambda>e. \<lparr>element = Some e, bufIndex = nat (BufferLen (snd e))\<rparr>)
       (find (\<lambda>e. IsFinished (snd e) \<and> HaveReduceDataAfterChunk (snd e)) (dataEvents b)))"

definition DataLength :: "Buffer \<Rightarrow> nat" where
  "DataLength r = length (dataEvents r)"

subsection \<open>Appending\<close>

text \<open>
  The data chunks are ordered by data id and sequence, the detail events by data id. The deferred
  check at the end of \<^verbatim>\<open>AppendDataEvent\<close> makes the next reading start over when a chunk arrives
  behind the current position.
\<close>

definition chunk_after :: "SocketDataBuffer \<Rightarrow> SocketDataBuffer \<Rightarrow> bool" where
  "chunk_after event existEvent \<longleftrightarrow>
     DataID existEvent > DataID event \<or>
     DataID existEvent = DataID event \<and> DataSequence existEvent > DataSequence event"

definition append_checkReset :: "SocketDataBuffer \<Rightarrow> Buffer \<Rightarrow> Buffer or_panic" where
  "append_checkReset event r =
     (if buf_current r = None then Inr r
      else panic_bind (Position_DataID (buf_current r)) (\<lambda>cur.
        Inr (if cur > DataID event then r\<lparr>shouldResetPosition := True\<rparr> else r)))"

definition AppendDataEvent :: "nat \<Rightarrow> SocketDataBuffer \<Rightarrow> Buffer \<Rightarrow> Buffer or_panic" where
  "AppendDataEvent fresh event r = append_checkReset event
     (case list_back (dataEvents r) of
        None \<Rightarrow> r\<lparr>dataEvents := [(fresh, event)], shouldResetPosition := True\<rparr>
      | Some back \<Rightarrow>
          if DataID (snd back) < DataID event
          then r\<lparr>dataEvents := dataEvents r @ [(fresh, event)]\<rparr>
          else r\<lparr>dataEvents := insert_ordered (chunk_after event) (fresh, event) (dataEvents r)\<rparr>)"

definition AppendDetailEvent :: "nat \<Rightarrow> SocketDetailEvent \<Rightarrow> Buffer \<Rightarrow> Buffer" where
  "AppendDetailEvent fresh event r =
     (case list_back (detailEvents r) of
        None \<Rightarrow> r\<lparr>detailEvents := [(fresh, event)]\<rparr>
      | Some back \<Rightarrow>
          if dt_DataID0 (snd back) < dt_DataID0 event
          then r\<lparr>detailEvents := detailEvents r @ [(fresh, event)]\<rparr>
          else r\<lparr>detailEvents :=
            insert_ordered (\<lambda>existEvent. dt_DataID0 existEvent > dt_DataID0 event) (fresh, event) (detailEvents r)\<rparr>)"

fun Merge_data :: "nat \<Rightarrow> SocketDataBuffer list \<Rightarrow> Buffer \<Rightarrow> (nat \<times> Buffer) or_panic" where
  "Merge_data fresh [] r = Inr (fresh, r)"
| "Merge_data fresh (v # vs) r =
     panic_bind (AppendDataEvent fresh v r) (\<lambda>r'. Merge_data (Suc fresh) vs r')"

fun Merge_details :: "nat \<Rightarrow> SocketDetailEvent list \<Rightarrow> Buffer \<Rightarrow> Buffer" where
  "Merge_details fresh [] r = r"
| "Merge_details fresh (v # vs) r = Merge_details (Suc fresh) vs (AppendDetailEvent fresh v r)"

definition Merge :: "nat \<Rightarrow> Buffer \<Rightarrow> Buffer option \<Rightarrow> Buffer or_panic" where
  "Merge fresh r other = (case other of None \<Rightarrow> Inr r
     | Some ob \<Rightarrow>
         panic_bind (Merge_data fresh (list_values (dataEvents ob)) r) (\<lambda>(fresh', r').
           Inr (Merge_details fresh' (list_values (detailEvents ob)) r')))"

subsection \<open>Positions and reading\<close>

text \<open>An element and its successors; an element that was removed from the list has none.\<close>

definition elem_chain :: "'v golist \<Rightarrow> 'v element option \<Rightarrow> 'v golist" where
  "elem_chain l e = (case e of None \<Rightarrow> []
     | Some x \<Rightarrow> if fst x \<in> set (list_ids l) then list_from l (fst x) else [x])"

definition nextElement :: "Buffer \<Rightarrow> SocketDataBuffer element option \<Rightarrow> SocketDataBuffer element option" where
  "nextElement r e = Option.bind e (\<lambda>x. elem_next (dataEvents r) (fst x))"

definition ResetForLoopReading :: "Buffer \<Rightarrow> Buffer" where
  "ResetForLoopReading r = r\<lparr>buf_head := None, buf_current := None\<rparr>"

definition Prepare_positions :: "Buffer \<Rightarrow> Buffer" where
  "Prepare_positions r =
     (if Option.bind (buf_head r) element = None
      then let h = Some \<lparr>element = list_front (dataEvents r), bufIndex = 0\<rparr>
           in r\<lparr>buf_head := h, buf_current := h\<rparr>
      else r\<lparr>buf_current := buf_head r\<rparr>)"

definition PrepareForReading :: "Buffer \<Rightarrow> Buffer \<times> bool" where
  "PrepareForReading r =
     (if dataEvents r = [] then (r, False)
      else if shouldResetPosition r
      then (Prepare_positions ((ResetForLoopReading r)\<lparr>shouldResetPosition := False\<rparr>), True)
      else (Prepare_positions r, True))"

datatype ReadError = EOF | ErrNotComplete

text \<open>
  The three reading methods return the bytes copied to the front of the destination; its length is
  the argument \<open>plen\<close>.
\<close>

definition ReadFromCurrent :: "Buffer \<Rightarrow> Position \<Rightarrow> SocketDataBuffer \<Rightarrow> nat \<Rightarrow> (Buffer \<times> u8 list) or_panic" where
  "ReadFromCurrent r cur curEvent plen =
     (let residueSize = BufferLen curEvent - int (bufIndex cur) in
      if residueSize > 0
      then let readLen = (if residueSize < int plen then nat residueSize else plen) in
        panic_bind (BufferData curEvent) (\<lambda>(mem, _).
          if bufIndex cur + readLen \<le> length mem
          then let bytes = take readLen (drop (bufIndex cur) mem) in
            Inr (r\<lparr>buf_current := Some (cur\<lparr>bufIndex := bufIndex cur + length bytes\<rparr>)\<rparr>, bytes)
          else Inl SliceBounds)
      else Inr (r, []))"

definition read0 :: "Buffer \<Rightarrow> SocketDataBuffer element \<Rightarrow> nat \<Rightarrow> (Buffer \<times> u8 list) or_panic" where
  "read0 r currentElement plen =
     (let currentBuffer = snd currentElement;
          readLen = (if BufferLen currentBuffer < int plen then nat (BufferLen currentBuffer) else plen) in
      panic_bind (BufferData currentBuffer) (\<lambda>(mem, _).
        if readLen \<le> length mem
        then Inr (r\<lparr>buf_current := Some \<lparr>element = Some currentElement, bufIndex = readLen\<rparr>\<rparr>, take readLen mem)
        else Inl SliceBounds))"

definition shouldRead :: "Buffer \<Rightarrow> Position \<Rightarrow> SocketDataBuffer \<Rightarrow> SocketDataBuffer \<Rightarrow> bool" where
  "shouldRead r cur curEvent nextEvent \<longleftrightarrow>
     validated r \<or>
     (DataID curEvent = DataID nextEvent \<and> DataSequence curEvent + 1 = DataSequence nextEvent) \<or>
     (IsStart nextEvent \<and> IsFinished curEvent) \<or>
     (DataID curEvent = DataID nextEvent \<and> DataSequence curEvent = DataSequence nextEvent \<and>
       int (bufIndex cur) \<le> BufferStartPosition nextEvent)"

definition Read :: "Buffer \<Rightarrow> nat \<Rightarrow> (Buffer \<times> (ReadError + u8 list)) or_panic" where
  "Read r plen =
     (if plen = 0 then Inr (r, Inr [])
      else case buf_current r of None \<Rightarrow> Inr (r, Inl EOF)
      | Some cur \<Rightarrow> (case element cur of None \<Rightarrow> Inr (r, Inl EOF)
        | Some e \<Rightarrow>
            panic_bind (ReadFromCurrent r cur (snd e) plen) (\<lambda>(r1, bytes).
              if bytes \<noteq> [] then Inr (r1, Inr bytes)
              else (case nextElement r1 (Some e) of
                  None \<Rightarrow> Inr (r1, Inl EOF)
                | Some nxt \<Rightarrow>
                    if \<not> shouldRead r1 cur (snd e) (snd nxt) then Inr (r1, Inl ErrNotComplete)
                    else panic_bind (read0 r1 nxt plen) (\<lambda>(r2, bytes'). Inr (r2, Inr bytes'))))))"

text \<open>
  \<^verbatim>\<open>Peek\<close> reads until the destination is full and restores the position; \<^verbatim>\<open>ReadUntilBufferFull\<close> keeps
  the position but passes the front of the destination to every read. The loops are written over
  the reading method; a loop that does not return is \<open>None\<close>.
\<close>

partial_function (option) Peek_loop ::
  "('b \<Rightarrow> nat \<Rightarrow> ('b \<times> (ReadError + u8 list)) or_panic) \<Rightarrow> 'b \<Rightarrow> u8 list \<Rightarrow> nat
     \<Rightarrow> ('b \<times> u8 list \<times> ReadError option) or_panic option" where
  "Peek_loop rd b p readIndex =
     (if readIndex < length p
      then (case rd b (length p - readIndex) of
          Inl e \<Rightarrow> Some (Inl e)
        | Inr (b', Inl err) \<Rightarrow> Some (Inr (b', p, Some err))
        | Inr (b', Inr bytes) \<Rightarrow>
            Peek_loop rd b' (take readIndex p @ go_copy (drop readIndex p) bytes) (readIndex + length bytes))
      else Some (Inr (b, p, None)))"

partial_function (option) ReadUntilBufferFull_loop ::
  "('b \<Rightarrow> nat \<Rightarrow> ('b \<times> (ReadError + u8 list)) or_panic) \<Rightarrow> 'b \<Rightarrow> u8 list \<Rightarrow> nat
     \<Rightarrow> ('b \<times> u8 list \<times> ReadError option) or_panic option" where
  "ReadUntilBufferFull_loop rd b data reduceLen =
     (if reduceLen > 0
      then (case rd b reduceLen of
          Inl e \<Rightarrow> Some (Inl e)
        | Inr (b', Inl err) \<Rightarrow> Some (Inr (b', data, Some err))
        | Inr (b', Inr bytes) \<Rightarrow>
            ReadUntilBufferFull_loop rd b' (go_copy data bytes) (reduceLen - length bytes))
      else Some (Inr (b, data, None)))"

definition Peek :: "Buffer \<Rightarrow> u8 list \<Rightarrow> (Buffer \<times> u8 list \<times> ReadError option) or_panic option" where
  "Peek r p = (case buf_current r of None \<Rightarrow> Some (Inl NilDereference)
     | Some tmpPosition \<Rightarrow>
         map_option (map_sum id (\<lambda>(r', res). (r'\<lparr>buf_current := Some tmpPosition\<rparr>, res))) (Peek_loop Read r p 0))"

definition ReadUntilBufferFull :: "Buffer \<Rightarrow> u8 list \<Rightarrow> (Buffer \<times> u8 list \<times> ReadError option) or_panic option" where
  "ReadUntilBufferFull r data = ReadUntilBufferFull_loop Read r data (length data)"

definition IsCurrentPacketReadFinished :: "Buffer \<Rightarrow> bool or_panic" where
  "IsCurrentPacketReadFinished r =
     panic_bind (Position_value (buf_current r)) (\<lambda>v. Inr (int (bufIndex (the (buf_current r))) = BufferLen v))"

text \<open>
  \<^verbatim>\<open>OffsetPosition\<close> walks over the elements in one direction; the test of the sign inside the loop
  sees the offset that is left.
\<close>

fun offset_walk :: "SocketDataBuffer golist \<Rightarrow> int \<Rightarrow> int \<Rightarrow> Position option" where
  "offset_walk [] curIndex offset = None"
| "offset_walk (e # es) curIndex offset =
     (if 0 \<le> curIndex + offset \<and> curIndex + offset < BufferLen (snd e)
      then Some \<lparr>element = Some e, bufIndex = nat (curIndex + offset)\<rparr>
      else if offset > 0 then offset_walk es 0 (offset - (BufferLen (snd e) - curIndex))
      else if es = [] then None
      else offset_walk es (BufferLen (snd e)) (offset + curIndex))"

definition OffsetPosition :: "Buffer \<Rightarrow> int \<Rightarrow> Position option or_panic" where
  "OffsetPosition r offset = (case buf_current r of None \<Rightarrow> Inl NilDereference
     | Some cur \<Rightarrow>
         if offset = 0 then Inr (Some cur)
         else Inr (offset_walk
           (elem_chain (if offset > 0 then dataEvents r else rev (dataEvents r)) (element cur))
           (int (bufIndex cur)) offset))"

subsection \<open>Sizes\<close>

definition Buffer_Len :: "Buffer option \<Rightarrow> int" where
  "Buffer_Len r = (case Option.bind r buf_head of None \<Rightarrow> 0
     | Some h \<Rightarrow> (case element h of None \<Rightarrow> 0
       | Some e \<Rightarrow>
           (\<Sum>i \<leftarrow> [0..<length (elem_chain (dataEvents (the r)) (Some e))].
              BufferLen (snd e) - (if i = 0 then int (bufIndex h) else 0))))"

definition chain_size :: "SocketDataBuffer golist \<Rightarrow> int \<Rightarrow> int" where
  "chain_size es start = (case es of [] \<Rightarrow> 0
     | e # es' \<Rightarrow> BufferLen (snd e) - start + (\<Sum>x \<leftarrow> es'. BufferLen (snd x)))"

definition DataSize :: "Buffer option \<Rightarrow> Buffer option \<times> int" where
  "DataSize r = (case r of None \<Rightarrow> (None, 0)
     | Some b \<Rightarrow> (case buf_head b of
         Some h \<Rightarrow> (r, chain_size (elem_chain (dataEvents b) (element h)) (int (bufIndex h)))
       | None \<Rightarrow>
           (case PrepareForReading b of
              (b', False) \<Rightarrow> (Some b', 0)
            | (b', True) \<Rightarrow>
                (Some (ResetForLoopReading b'),
                 chain_size (elem_chain (dataEvents b') (Option.bind (buf_head b') element))
                   (case buf_head b' of None \<Rightarrow> 0 | Some h \<Rightarrow> int (bufIndex h))))))"

subsection \<open>Slices\<close>

text \<open>
  A slice has a list of its own: the chunks from the start up to the element of the end position,
  which is cut at the end index. The walk follows the list of the buffer that is sliced; when the
  end element is not met it takes every chunk that follows.
\<close>

definition slice_walk :: "SocketDataBuffer golist \<Rightarrow> Position \<Rightarrow> Position \<Rightarrow> SocketDataBuffer list" where
  "slice_walk l start end =
     list_values (takeWhile (\<lambda>e. Some (fst e) \<noteq> map_option fst (element end)) (elem_chain l (element start)))"

definition derived_buffer :: "bool \<Rightarrow> SocketDataBuffer golist \<Rightarrow> nat \<Rightarrow> nat option \<Rightarrow> Position option \<Rightarrow> Buffer" where
  "derived_buffer valid es start original end =
     (let p = Some \<lparr>element = list_front es, bufIndex = start\<rparr> in
      \<lparr>dataEvents = es, detailEvents = [], validated = valid, shouldResetPosition = False,
       buf_head = p, buf_current = p, latestExpiredDataID = 0, originalBuffer = original, endPosition = end\<rparr>)"

definition Slice :: "nat \<Rightarrow> nat \<Rightarrow> Buffer \<Rightarrow> bool \<Rightarrow> Position \<Rightarrow> Position \<Rightarrow> Buffer or_panic" where
  "Slice fresh addr r valid start end =
     (case element end of None \<Rightarrow> Inl NilDereference
      | Some lastBuffer \<Rightarrow>
          let vs = slice_walk (dataEvents r) start end
                 @ [SocketDataEventLimited (snd lastBuffer) 0 (bufIndex end)] in
          Inr (derived_buffer valid (number fresh vs) (bufIndex start) (Some addr) (Some end)))"

definition combine_chunks :: "Buffer option \<Rightarrow> SocketDataBuffer list or_panic" where
  "combine_chunks b = (case b of None \<Rightarrow> Inr []
     | Some x \<Rightarrow> (case buf_head x of None \<Rightarrow> Inr []
       | Some h \<Rightarrow>
           if bufIndex h > 0
           then (case dataEvents x of [] \<Rightarrow> Inl NilDereference
             | e # es \<Rightarrow>
                 Inr (SocketDataEventLimited (snd e) (bufIndex h) (nat (BufferLen (snd e))) # list_values es))
           else Inr (list_values (dataEvents x))))"

fun combine_all :: "Buffer option list \<Rightarrow> SocketDataBuffer list or_panic" where
  "combine_all [] = Inr []"
| "combine_all (b # bs) =
     panic_bind (combine_chunks b) (\<lambda>vs. panic_bind (combine_all bs) (\<lambda>ws. Inr (vs @ ws)))"

text \<open>The end position is that of the last buffer that is not nil; cloning a nil position panics.\<close>

fun combine_end :: "Buffer option list \<Rightarrow> Position option or_panic" where
  "combine_end [] = Inr None"
| "combine_end (None # bs) = combine_end bs"
| "combine_end (Some b # bs) =
     (case endPosition b of Some p \<Rightarrow> Inr (Some p)
      | None \<Rightarrow> (case buf_current b of None \<Rightarrow> Inl NilDereference | Some p \<Rightarrow> Inr (Some p)))"

definition CombineSlices ::
  "nat \<Rightarrow> bool \<Rightarrow> nat option \<Rightarrow> Buffer option list \<Rightarrow> Buffer option or_panic" where
  "CombineSlices fresh valid original buffers =
     (case buffers of [] \<Rightarrow> Inr None
      | [b] \<Rightarrow> Inr b
      | _ \<Rightarrow>
         panic_bind (combine_all buffers) (\<lambda>vs.
           panic_bind (combine_end (rev buffers)) (\<lambda>end.
             Inr (Some (derived_buffer valid (number fresh vs) 0 original end)))))"

subsection \<open>Removing what was read\<close>

text \<open>The deletion of the details of the read chunks, from the first one in range on.\<close>

fun remove_details :: "u64 \<Rightarrow> u64 \<Rightarrow> bool \<Rightarrow> bool \<Rightarrow> SocketDetailEvent golist \<Rightarrow> SocketDetailEvent golist" where
  "remove_details firstDataID lastDataID unfinished startDelete [] = []"
| "remove_details firstDataID lastDataID unfinished startDelete (e # es) =
     (let dataID = dt_DataID0 (snd e) in
      if firstDataID = lastDataID \<and> unfinished then e # es
      else if \<not> startDelete \<and> firstDataID \<le> dataID \<and> dataID \<le> lastDataID
      then remove_details firstDataID lastDataID unfinished True es
      else if startDelete \<and> dataID > lastDataID then e # es
      else if startDelete then remove_details firstDataID lastDataID unfinished True es
      else e # remove_details firstDataID lastDataID unfinished False es)"

text \<open>
  The removal of the chunks before the current one: the remaining list, the element the loop
  stopped at and whether the loop ran at all (\<^verbatim>\<open>stillCurrent\<close> is false then).
\<close>

function remove_until :: "SocketDataBuffer golist \<Rightarrow> SocketDataBuffer element option \<Rightarrow> nat option \<Rightarrow> bool
    \<Rightarrow> SocketDataBuffer golist \<times> SocketDataBuffer element option \<times> bool" where
  "remove_until l None cur stillCurrent = (l, None, stillCurrent)"
| "remove_until l (Some e) cur stillCurrent =
     (if Some (fst e) = cur then (l, Some e, stillCurrent)
      else remove_until (list_remove (fst e) l) (elem_next l (fst e)) cur False)"
  by pat_completeness auto

termination
proof (relation "measure (\<lambda>(l, e, _). 2 * length l + (if e = None then 0 else 1))", goal_cases)
  case (2 l e cur stillCurrent)
  show ?case
  proof (cases "fst e \<in> set (list_ids l)")
    case True
    then show ?thesis using list_remove_shorter [OF True] by auto
  next
    case False
    then show ?thesis by (simp add: elem_next_notin list_remove_notin)
  qed
qed simp

definition removeElement0 :: "SocketDataBuffer golist \<Rightarrow> SocketDataBuffer element \<Rightarrow>
    SocketDataBuffer golist \<times> SocketDataBuffer element option" where
  "removeElement0 l e = (list_remove (fst e) l, elem_next l (fst e))"

definition RemoveReadElements :: "bool \<Rightarrow> Buffer \<Rightarrow> (Buffer \<times> bool) or_panic" where
  "RemoveReadElements includeDetails r = (case (buf_head r, buf_current r) of
     (Some h, Some cur) \<Rightarrow>
       (let r1 = (case (element h, element cur) of
            (Some he, Some ce) \<Rightarrow>
              if includeDetails
              then r\<lparr>detailEvents := remove_details (DataID (snd he)) (DataID (snd ce))
                  (BufferLen (snd ce) \<noteq> int (bufIndex cur)) False (detailEvents r)\<rparr>
              else r
          | _ \<Rightarrow> r);
            (l, nxt, stillCurrent) = remove_until (dataEvents r) (element h) (map_option fst (element cur)) True;
            r2 = r1\<lparr>dataEvents := l\<rparr> in
        if \<not> stillCurrent \<and> nxt = None then Inr (r2, True)
        else case nxt of
            Some e \<Rightarrow>
              if BufferLen (snd e) = int (bufIndex cur)
              then (case removeElement0 l e of (l', e') \<Rightarrow>
                Inr (r2\<lparr>dataEvents := l', buf_head := Some \<lparr>element = e', bufIndex = 0\<rparr>\<rparr>, False))
              else Inr (r2\<lparr>buf_head := Some \<lparr>element = (if stillCurrent then element h else nxt),
                bufIndex = bufIndex cur\<rparr>\<rparr>, False)
          | None \<Rightarrow> Inr (r2\<lparr>buf_head := Some \<lparr>element = element h, bufIndex = bufIndex cur\<rparr>\<rparr>, False))
   | _ \<Rightarrow> Inl NilDereference)"

definition SkipCurrentElement :: "Buffer \<Rightarrow> (Buffer \<times> bool) or_panic" where
  "SkipCurrentElement r = (case (buf_head r, buf_current r) of
     (Some h, Some cur) \<Rightarrow>
       let nxt = nextElement r (element cur) in
       Inr (r\<lparr>buf_head := Some (h\<lparr>element := nxt\<rparr>), buf_current := Some (cur\<lparr>bufIndex := 0\<rparr>)\<rparr>, nxt = None)
   | _ \<Rightarrow> Inl NilDereference)"

subsection \<open>Data id ranges and details\<close>

record DataIDRange =
  rg_From :: u64
  rg_To :: u64
  IsToBufferReadFinished :: bool

definition IsIncludeAllDetails :: "DataIDRange \<Rightarrow> SocketDetailEvent golist \<Rightarrow> bool" where
  "IsIncludeAllDetails i l \<longleftrightarrow>
     l \<noteq> [] \<and> list_all (\<lambda>e. \<not> (dt_DataID0 (snd e) < rg_From i \<or> dt_DataID0 (snd e) > rg_To i)) l"

definition DataIDRange_Append :: "DataIDRange \<Rightarrow> DataIDRange \<Rightarrow> DataIDRange" where
  "DataIDRange_Append i other =
     \<lparr>rg_From = (if rg_From other < rg_From i then rg_From other else rg_From i),
      rg_To = (if rg_To other > rg_To i then rg_To other else rg_To i),
      IsToBufferReadFinished = IsToBufferReadFinished other\<rparr>"

fun delete_details :: "DataIDRange \<Rightarrow> SocketDetailEvent golist \<Rightarrow> SocketDetailEvent golist" where
  "delete_details i [] = []"
| "delete_details i (e # es) =
     (let dataID = dt_DataID0 (snd e) in
      if rg_From i \<le> dataID \<and> dataID \<le> rg_To i
      then if \<not> IsToBufferReadFinished i \<and> dataID = rg_To i then e # es else delete_details i es
      else e # delete_details i es)"

text \<open>
  \<^verbatim>\<open>DeleteDetails\<close> first follows the pointers to the original buffers. \<open>None\<close> is a cycle of such
  pointers.
\<close>

partial_function (option) DeleteDetails :: "DataIDRange \<Rightarrow> nat \<Rightarrow> buffer_store \<Rightarrow> buffer_store or_panic option" where
  "DeleteDetails i addr store =
     (case store addr of None \<Rightarrow> Some (Inl NilDereference)
      | Some b \<Rightarrow>
         Option.bind
           (case originalBuffer b of None \<Rightarrow> Some (Inr store) | Some orig \<Rightarrow> DeleteDetails i orig store)
           (\<lambda>res. Some (panic_bind res (\<lambda>store'.
              case store' addr of None \<Rightarrow> Inl NilDereference
              | Some b' \<Rightarrow> Inr (store'(addr \<mapsto> b'\<lparr>detailEvents := delete_details i (detailEvents b')\<rparr>))))))"

definition BuildTotalDataIDRange :: "Buffer \<Rightarrow> DataIDRange option or_panic" where
  "BuildTotalDataIDRange r =
     (if dataEvents r = [] then Inr None
      else let toPos = (if endPosition r \<noteq> None then endPosition r else buf_current r) in
        panic_bind (Position_value toPos) (\<lambda>toVal.
          panic_bind (Position_DataID (buf_head r)) (\<lambda>from.
            Inr (Some \<lparr>rg_From = from, rg_To = DataID toVal,
              IsToBufferReadFinished = (int (bufIndex (the toPos)) = BufferLen toVal)\<rparr>))))"

text \<open>The details keep their identity: the elements stand for the event objects they point to.\<close>

definition BuildDetails :: "buffer_store \<Rightarrow> Buffer \<Rightarrow> SocketDetailEvent golist or_panic" where
  "BuildDetails store r = (case originalBuffer r of
      None \<Rightarrow> Inr (detailEvents r)
    | Some orig \<Rightarrow>
        panic_bind (Position_DataID (buf_head r)) (\<lambda>fromDataID.
          panic_bind (Position_DataID (if endPosition r \<noteq> None then endPosition r else buf_current r)) (\<lambda>endDataID.
            case store orig of None \<Rightarrow> Inl NilDereference
            | Some ob \<Rightarrow> Inr (filter (\<lambda>e. fromDataID \<le> dt_DataID0 (snd e) \<and> dt_DataID0 (snd e) \<le> endDataID) (detailEvents ob)))))"

subsection \<open>Expiry\<close>

text \<open>The checker may change the state it closes over: it returns its verdict and the new state.\<close>

fun deleteEventsWithJudgement :: "('v \<Rightarrow> 's \<Rightarrow> bool \<times> 's) \<Rightarrow> 'v golist \<Rightarrow> 's \<Rightarrow> nat \<times> 'v golist \<times> 's" where
  "deleteEventsWithJudgement checker [] st = (0, [], st)"
| "deleteEventsWithJudgement checker (e # es) st =
     (case checker (snd e) st of
        (True, st') \<Rightarrow> (case deleteEventsWithJudgement checker es st' of (n, es', st'') \<Rightarrow> (Suc n, es', st''))
      | (False, st') \<Rightarrow> (0, e # es, st'))"

definition data_expired :: "int \<Rightarrow> int \<Rightarrow> SocketDataBuffer \<Rightarrow> u64 \<Rightarrow> bool \<times> u64" where
  "data_expired boot expireTime b latest =
     (if expireTime > host_Time boot (StartTime b) then (True, DataID b) else (False, latest))"

definition detail_expired :: "int \<Rightarrow> int \<Rightarrow> u64 \<Rightarrow> SocketDetailEvent \<Rightarrow> bool" where
  "detail_expired boot expireTime latest d \<longleftrightarrow>
     latest > 0 \<and> dt_DataID0 d \<le> latest \<or>
     dt_StartTime d > 0 \<and> expireTime > host_Time boot (dt_StartTime d)"

definition DeleteExpireEvents :: "int \<Rightarrow> int \<Rightarrow> int \<Rightarrow> Buffer \<Rightarrow> Buffer \<times> nat" where
  "DeleteExpireEvents boot now expireDuration r =
     (let expireTime = now - expireDuration;
          (n, ds, latest) = deleteEventsWithJudgement (data_expired boot expireTime) (dataEvents r) (latestExpiredDataID r);
          (m, es, _) = deleteEventsWithJudgement (\<lambda>d st. (detail_expired boot expireTime latest d, st)) (detailEvents r) ()
      in (r\<lparr>dataEvents := ds, detailEvents := es, latestExpiredDataID := latest\<rparr>, n + m))"

section \<open>Chunks for examples\<close>

definition example_chunk :: "u64 \<Rightarrow> u16 \<Rightarrow> u8 list \<Rightarrow> SocketDataBuffer" where
  "example_chunk dataID seqNo bytes = Upload
     \<lparr>up_Protocol0 = ConnectionProtocolHTTP, up_HaveReduce = 0, up_Direction0 = SocketDataDirectionIngress,
      up_Finished = 1, up_Sequence0 = seqNo, up_DataLen = of_nat (length bytes), up_StartTime0 = 0, up_EndTime0 = 0,
      up_ConnectionID = 0, up_RandomID = 0, up_DataID0 = dataID, up_PrevDataID0 = 0, up_TotalSize0 = 0,
      up_Buffer = bytes\<rparr>"

definition example_detail :: "u64 \<Rightarrow> ConnectionProtocol \<Rightarrow> SocketDetailEvent" where
  "example_detail i proto = \<lparr>dt_ConnectionID = 9, dt_RandomID = 3, dt_DataID0 = i, dt_StartTime = 10 * i, dt_EndTime = 10 * i + 5,
     dt_L4Duration = 0, dt_L3Duration = 0, dt_L3LocalDuration = 0, dt_L3OutputDuration = 0, dt_L3ResolveMacDuration = 0,
     dt_L3NetFilterDuration = 0, dt_L2Duration = 0, dt_L2ReadySendDuration = 0, dt_L2SendDuration = 0, dt_L2PackageToQueueDuration = 0,
     dt_L3TotalRcvDuration = 0, dt_IfIndex = 0, dt_L4PackageRcvFromQueueDuration = 0, dt_L4TotalPackageSize = 0, dt_L2EnterQueueCount = 0,
     dt_L4PackageCount = 0, dt_L4RetransmitPackageCount = 0, dt_L3ResolveMacCount = 0, dt_L3NetFilterCount = 0,
     dt_FunctionName = 0, dt_Protocol = proto, dt_SSL = 0\<rparr>"

lemma example_detail_fields [simp]:
  "dt_DataID0 (example_detail i proto) = i" "dt_Protocol (example_detail i proto) = proto"
  "dt_ConnectionID (example_detail i proto) = 9" "dt_RandomID (example_detail i proto) = 3"
  by (simp_all add: example_detail_def)

end
