(* ===== verification/Socket_Buffer_Order.thy ===== *)
theory Socket_Buffer_Order
  imports Socket_Buffer
begin

text \<open>
  The order of the lists of a socket data buffer: appending in any order of arrival keeps the data
  chunks sorted by data id and sequence and the detail events sorted by data id, both stably;
  expiry removes exactly the expired front.
\<close>

section \<open>The sorting keys\<close>

definition chunk_key :: "SocketDataBuffer \<Rightarrow> u64 \<times> nat" where
  "chunk_key b = (DataID b, DataSequence b)"

definition buffer_sorted :: "Buffer \<Rightarrow> bool" where
  "buffer_sorted r \<longleftrightarrow> sorted_on chunk_key (dataEvents r)
     \<and> sorted_on dt_DataID0 (detailEvents r)"

lemma chunk_after_key: "chunk_after event = (\<lambda>x. chunk_key event < chunk_key x)"
  by (auto simp: fun_eq_iff chunk_after_def chunk_key_def less_prod_def less_le)

text \<open>
  Ordered insertion is one step of a stable insertion sort. The locale has the three shapes in
  which the code appends to a list (to the empty list, at the back, by the scan) for any key.
\<close>

locale ordered_append =
  fixes key :: "'v \<Rightarrow> 'k :: linorder"
    and app :: "nat \<Rightarrow> 'v \<Rightarrow> 'v golist \<Rightarrow> 'v golist"
  assumes app_insert: "sorted_on key l \<Longrightarrow>
      app fresh v l = insert_ordered (\<lambda>x. key v < key x) (fresh, v) l"
begin

fun append_all :: "nat \<Rightarrow> 'v list \<Rightarrow> 'v golist \<Rightarrow> 'v golist" where
  "append_all fresh [] l = l"
| "append_all fresh (v # vs) l = append_all (Suc fresh) vs (app fresh v l)"

lemma app_sorted: "sorted_on key l \<Longrightarrow> sorted_on key (app fresh v l)"
  using sorted_on_insert_ordered [of key l "(fresh, v)"] by (simp add: app_insert)

lemma insert_filter:
  assumes "sorted_on key l"
  shows "filter (\<lambda>x. k = key x) (list_values (insert_ordered (\<lambda>x. key v < key x) (fresh, v) l)) =
         filter (\<lambda>x. k = key x) (list_values l @ [v])"
  using assms
proof (induction l)
  case (Cons e es)
  then have "key v < key (snd e) \<Longrightarrow> filter (\<lambda>x. key v = key x) (list_values es) = []"
    by (force simp: filter_empty_conv)
  with Cons show ?case by auto
qed simp

lemma append_all_sorted:
  "sorted_on key l \<Longrightarrow> sorted_on key (append_all fresh vs l)"
  by (induction vs arbitrary: fresh l) (simp_all add: app_sorted)

lemma append_all_mset:
  "sorted_on key l \<Longrightarrow>
     mset (list_values (append_all fresh vs l)) = mset (list_values l @ vs)"
  by (induction vs arbitrary: fresh l) (simp_all add: app_sorted, simp add: app_insert)

lemma append_all_filter:
  "sorted_on key l \<Longrightarrow>
     filter (\<lambda>x. k = key x) (list_values (append_all fresh vs l)) =
     filter (\<lambda>x. k = key x) (list_values l @ vs)"
proof (induction vs arbitrary: fresh l)
  case (Cons v vs)
  show ?case
    using Cons.IH [OF app_sorted [OF Cons.prems], of "Suc fresh" fresh v]
      insert_filter [OF Cons.prems, of k v fresh]
    by (simp add: app_insert [OF Cons.prems])
qed simp

lemma append_all_sort:
  assumes "sorted_on key l"
  shows "list_values (append_all fresh vs l) = sort_key key (list_values l @ vs)"
  using append_all_sorted [OF assms] append_all_mset [OF assms] append_all_filter [OF assms]
  by (intro properties_for_sort_key [symmetric]) (simp_all add: sorted_on_def)

lemma append_all_ids:
  assumes "sorted_on key l" "distinct (list_ids l)" "\<forall>i \<in> set (list_ids l). i < fresh"
  shows "distinct (list_ids (append_all fresh vs l))"
  using assms
proof (induction vs arbitrary: fresh l)
  case (Cons v vs)
  have "append_all fresh (v # vs) l = append_all (Suc fresh) vs (app fresh v l)" by simp
  moreover have "distinct (list_ids (app fresh v l))" "\<forall>i \<in> set (list_ids (app fresh v l)). i < Suc fresh"
    using Cons.prems by (auto simp: app_insert)
  ultimately show ?case using Cons.IH [OF app_sorted [OF Cons.prems(1)]] by simp
qed simp

end

definition data_append :: "nat \<Rightarrow> SocketDataBuffer \<Rightarrow> SocketDataBuffer golist \<Rightarrow> SocketDataBuffer golist" where
  "data_append fresh event l = (case list_back l of None \<Rightarrow> [(fresh, event)]
     | Some back \<Rightarrow> if DataID (snd back) < DataID event then l @ [(fresh, event)]
         else insert_ordered (chunk_after event) (fresh, event) l)"

definition detail_append :: "nat \<Rightarrow> SocketDetailEvent \<Rightarrow> SocketDetailEvent golist \<Rightarrow> SocketDetailEvent golist" where
  "detail_append fresh event l = (case list_back l of None \<Rightarrow> [(fresh, event)]
     | Some back \<Rightarrow> if dt_DataID0 (snd back) < dt_DataID0 event then l @ [(fresh, event)]
         else insert_ordered (\<lambda>x. dt_DataID0 x > dt_DataID0 event) (fresh, event) l)"

interpretation data_order: ordered_append chunk_key data_append
proof
  fix l :: "SocketDataBuffer golist" and v fresh
  assume s: "sorted_on chunk_key l"
  have "insert_ordered (\<lambda>x. chunk_key v < chunk_key x) (fresh, v) l = l @ [(fresh, v)]"
    if "list_back l = Some b" "DataID (snd b) < DataID v" for b
    using sorted_on_back_le [OF s that(1)] that(2)
    by (intro insert_ordered_back) (force simp: chunk_key_def less_eq_prod_def less_prod_def)
  then show "data_append fresh v l = insert_ordered (\<lambda>x. chunk_key v < chunk_key x) (fresh, v) l"
    by (auto simp: data_append_def chunk_after_key split: option.splits)
qed

interpretation detail_order: ordered_append dt_DataID0 detail_append
proof
  fix l :: "SocketDetailEvent golist" and v fresh
  assume s: "sorted_on dt_DataID0 l"
  have "insert_ordered (\<lambda>x. dt_DataID0 v < dt_DataID0 x) (fresh, v) l = l @ [(fresh, v)]"
    if "list_back l = Some b" "dt_DataID0 (snd b) < dt_DataID0 v" for b
    using sorted_on_back_le [OF s that(1)] that(2)
    by (intro insert_ordered_back) (force simp: not_less)
  then show "detail_append fresh v l = insert_ordered (\<lambda>x. dt_DataID0 v < dt_DataID0 x) (fresh, v) l"
    by (auto simp: detail_append_def split: option.splits)
qed

section \<open>Appending\<close>

definition current_ok :: "Buffer \<Rightarrow> bool" where
  "current_ok r \<longleftrightarrow> (\<forall>p. buf_current r = Some p \<longrightarrow> element p \<noteq> None)"

lemma AppendDataEvent_Inr:
  assumes "current_ok r"
  shows "\<exists>flag. AppendDataEvent fresh event r =
      Inr (r\<lparr>dataEvents := data_append fresh event (dataEvents r), shouldResetPosition := flag\<rparr>)"
  using assms
  by (cases r) (auto simp: AppendDataEvent_def append_checkReset_def data_append_def current_ok_def
      Position_DataID_def Position_value_def split: option.splits)

lemma AppendDetailEvent_eq:
  "AppendDetailEvent fresh event r = r\<lparr>detailEvents := detail_append fresh event (detailEvents r)\<rparr>"
  by (simp add: AppendDetailEvent_def detail_append_def split: option.splits)

lemma Merge_details_eq:
  "Merge_details fresh vs r = r\<lparr>detailEvents := detail_order.append_all fresh vs (detailEvents r)\<rparr>"
  by (induction vs arbitrary: fresh r) (simp_all add: AppendDetailEvent_eq)

lemma Merge_data_Inr:
  assumes "current_ok r"
  shows "\<exists>flag. Merge_data fresh vs r = Inr (fresh + length vs,
      r\<lparr>dataEvents := data_order.append_all fresh vs (dataEvents r), shouldResetPosition := flag\<rparr>)"
  using assms
proof (induction vs arbitrary: fresh r)
  case Nil
  then show ?case by (auto intro: exI [of _ "shouldResetPosition r"])
next
  case (Cons v vs)
  obtain flag where a: "AppendDataEvent fresh v r =
      Inr (r\<lparr>dataEvents := data_append fresh v (dataEvents r), shouldResetPosition := flag\<rparr>)" (is "_ = Inr ?r")
    using AppendDataEvent_Inr [OF Cons.prems] by blast
  have "current_ok ?r" using Cons.prems by (simp add: current_ok_def)
  from Cons.IH [OF this, of "Suc fresh"] a show ?case by auto
qed

text \<open>
  C4: whatever the order in which the chunks of a connection arrive from the per-CPU queues, the
  data list of the buffer is their stable sort by data id and sequence, no append panics and the
  list elements stay distinct.
\<close>

theorem append_any_order:
  "\<exists>r. Merge_data fresh arrivals NewBuffer = Inr (fresh + length arrivals, r) \<and>
     list_values (dataEvents r) = sort_key chunk_key arrivals \<and> distinct (list_ids (dataEvents r))"
proof -
  have "current_ok NewBuffer" by (simp add: current_ok_def NewBuffer_def)
  from Merge_data_Inr [OF this] obtain flag where
    "Merge_data fresh arrivals NewBuffer = Inr (fresh + length arrivals,
       NewBuffer\<lparr>dataEvents := data_order.append_all fresh arrivals [], shouldResetPosition := flag\<rparr>)"
    by (auto simp: NewBuffer_def)
  then show ?thesis
    using data_order.append_all_sort [of "[]"] data_order.append_all_ids [of "[]"] by simp
qed

text \<open>
  merging another buffer into a sorted one (\<^verbatim>\<open>Merge\<close>) does not panic while the current position
  has an element, and gives the stable sorts of the data chunks and of the detail events of both;
  positions, expiry mark and flags other than the reset flag stay as they are.
\<close>

theorem Merge_sorts:
  assumes "buffer_sorted r" and "current_ok r"
  shows "\<exists>r'. Merge fresh r (Some other) = Inr r' \<and> buffer_sorted r' \<and>
     list_values (dataEvents r') = sort_key chunk_key (list_values (dataEvents r) @ list_values (dataEvents other)) \<and>
     list_values (detailEvents r') = sort_key dt_DataID0 (list_values (detailEvents r) @ list_values (detailEvents other)) \<and>
     buf_head r' = buf_head r \<and> buf_current r' = buf_current r \<and> validated r' = validated r"
proof -
  let ?d = "data_order.append_all fresh (list_values (dataEvents other)) (dataEvents r)"
  let ?f = "fresh + length (dataEvents other)"
  let ?e = "detail_order.append_all ?f (list_values (detailEvents other)) (detailEvents r)"
  obtain flag where
    "Merge fresh r (Some other) = Inr (r\<lparr>dataEvents := ?d, shouldResetPosition := flag, detailEvents := ?e\<rparr>)"
    using Merge_data_Inr [OF assms(2), of fresh "list_values (dataEvents other)"]
    by (auto simp: Merge_def Merge_details_eq)
  moreover have "sorted_on chunk_key (dataEvents r)" "sorted_on dt_DataID0 (detailEvents r)"
    using assms(1) by (simp_all add: buffer_sorted_def)
  ultimately show ?thesis
    by (simp add: buffer_sorted_def data_order.append_all_sort data_order.append_all_sorted
        detail_order.append_all_sort detail_order.append_all_sorted)
qed

theorem Merge_sorts_witness:
  "\<exists>r'. Merge 5 (NewBuffer\<lparr>dataEvents := [(0, example_chunk 7 0 [1])]\<rparr>)
       (Some (NewBuffer\<lparr>dataEvents := [(1, example_chunk 3 0 [2]), (2, example_chunk 7 0 [3])]\<rparr>)) = Inr r' \<and>
     list_values (dataEvents r') =
       sort_key chunk_key [example_chunk 7 0 [1], example_chunk 3 0 [2], example_chunk 7 0 [3]]"
  using Merge_sorts [of "NewBuffer\<lparr>dataEvents := [(0, example_chunk 7 0 [1])]\<rparr>" 5
      "NewBuffer\<lparr>dataEvents := [(1, example_chunk 3 0 [2]), (2, example_chunk 7 0 [3])]\<rparr>"]
  by (auto simp: buffer_sorted_def current_ok_def NewBuffer_def)

section \<open>Expiry\<close>

lemma deleteEvents_pure:
  "deleteEventsWithJudgement (\<lambda>v st. (P v, st)) l st =
     (length (takeWhile (P \<circ> snd) l), dropWhile (P \<circ> snd) l, st)"
  by (induction l) (auto split: prod.splits)

lemma deleteEvents_data:
  "deleteEventsWithJudgement (data_expired boot expireTime) l latest =
     (let old = (\<lambda>e. expireTime > host_Time boot (StartTime (snd e))) in
      (length (takeWhile old l), dropWhile old l,
       if takeWhile old l = [] then latest else DataID (snd (last (takeWhile old l)))))"
  by (induction l arbitrary: latest) (auto simp: data_expired_def Let_def split: prod.splits)

text \<open>
  \<^verbatim>\<open>DeleteExpireEvents\<close> removes exactly the longest front of expired data chunks, remembers the
  data id of the last one, removes the longest front of details that are older than the limit or
  belong to data up to that id, and counts both.
\<close>

theorem DeleteExpireEvents_spec:
  "let expireTime = now - expireDuration;
       old = (\<lambda>e. expireTime > host_Time boot (StartTime (snd e)));
       gone = takeWhile old (dataEvents r);
       latest = (if gone = [] then latestExpiredDataID r else DataID (snd (last gone)));
       oldDetail = (\<lambda>e. latest > 0 \<and> dt_DataID0 (snd e) \<le> latest \<or>
         dt_StartTime (snd e) > 0 \<and> expireTime > host_Time boot (dt_StartTime (snd e)));
       goneDetails = takeWhile oldDetail (detailEvents r)
   in \<exists>r'. DeleteExpireEvents boot now expireDuration r = (r', length gone + length goneDetails) \<and>
        gone @ dataEvents r' = dataEvents r \<and> goneDetails @ detailEvents r' = detailEvents r \<and>
        latestExpiredDataID r' = latest"
  by (simp add: DeleteExpireEvents_def deleteEvents_data deleteEvents_pure detail_expired_def
      Let_def comp_def)

end
