(* ===== verification/Socket_Buffer_Read.thy ===== *)
theory Socket_Buffer_Read
  imports Socket_Buffer
begin

text \<open>
  Reading from a socket data buffer. A validated buffer is a byte stream: the bytes of the chunks
  from the current position on. \<^verbatim>\<open>Read\<close>, \<^verbatim>\<open>Peek\<close>, \<^verbatim>\<open>Slice\<close>, \<^verbatim>\<open>CombineSlices\<close>, \<^verbatim>\<open>OffsetPosition\<close> and
  \<^verbatim>\<open>RemoveReadElements\<close> are related to that stream.
\<close>

section \<open>The contents of chunks\<close>

definition chunk_ok :: "SocketDataBuffer \<Rightarrow> bool" where
  "chunk_ok b \<longleftrightarrow> \<not> isl (BufferData b)"

definition chunk_content :: "SocketDataBuffer \<Rightarrow> u8 list" where
  "chunk_content b = (case BufferData b of Inl _ \<Rightarrow> [] | Inr (mem, n) \<Rightarrow> take n mem)"

lemma BufferData_len: "BufferData b = Inr (mem, n) \<Longrightarrow> BufferLen b = int n \<and> n \<le> length mem"
  by (cases b) (auto split: if_splits sum.splits)

lemma chunk_okE:
  assumes "chunk_ok b"
  obtains mem n where "BufferData b = Inr (mem, n)" "BufferLen b = int n" "n \<le> length mem"
    "chunk_content b = take n mem"
  using assms BufferData_len [of b] by (cases "BufferData b") (auto simp: chunk_ok_def chunk_content_def)

lemma BufferLen_content: "chunk_ok b \<Longrightarrow> BufferLen b = int (length (chunk_content b))"
  by (elim chunk_okE) simp

lemma limited_ok:
  assumes "chunk_ok b" "From \<le> Size" "Size \<le> length (chunk_content b)"
  shows "chunk_ok (SocketDataEventLimited b From Size)"
    and "chunk_content (SocketDataEventLimited b From Size) = take (Size - From) (drop From (chunk_content b))"
proof -
  obtain mem n where *: "BufferData b = Inr (mem, n)" "n \<le> length mem" "chunk_content b = take n mem"
    using assms(1) by (rule chunk_okE)
  then have "BufferData (SocketDataEventLimited b From Size) = Inr (drop From mem, Size - From)"
    using assms(2,3) by simp
  then show "chunk_ok (SocketDataEventLimited b From Size)"
    and "chunk_content (SocketDataEventLimited b From Size) = take (Size - From) (drop From (chunk_content b))"
    using * assms(3) by (simp_all add: chunk_ok_def chunk_content_def drop_take)
qed

lemma take_drop_step: "take n (drop i xs) @ drop (i + length (take n (drop i xs))) xs = drop i xs"
proof -
  have "drop (i + length (take n (drop i xs))) xs = drop n (drop i xs)"
    by (cases "n \<le> length (drop i xs)") (simp_all add: add.commute)
  then show ?thesis by (simp only: append_take_drop_id)
qed

section \<open>The unread stream\<close>

abbreviation contents :: "SocketDataBuffer golist \<Rightarrow> u8 list" where
  "contents es \<equiv> concat (map (chunk_content \<circ> snd) es)"

fun stream_at :: "SocketDataBuffer golist \<Rightarrow> nat \<Rightarrow> u8 list" where
  "stream_at [] i = []"
| "stream_at (e # es) i = drop i (chunk_content (snd e)) @ contents es"

definition stream_from :: "SocketDataBuffer golist \<Rightarrow> Position option \<Rightarrow> u8 list" where
  "stream_from l p = (case p of None \<Rightarrow> [] | Some cur \<Rightarrow> stream_at (elem_chain l (element cur)) (bufIndex cur))"

definition unread :: "Buffer \<Rightarrow> u8 list" where
  "unread r = stream_from (dataEvents r) (buf_current r)"

definition position_ok :: "SocketDataBuffer golist \<Rightarrow> Position option \<Rightarrow> bool" where
  "position_ok l p \<longleftrightarrow> (\<forall>cur x. p = Some cur \<longrightarrow> element cur = Some x \<longrightarrow>
     chunk_ok (snd x) \<and> (x \<in> set l \<or> fst x \<notin> set (list_ids l)) \<and>
     bufIndex cur \<le> length (chunk_content (snd x)))"

lemma position_okD:
  assumes "position_ok l p" "p = Some cur" "element cur = Some x"
  shows "chunk_ok (snd x)" "x \<in> set l \<or> fst x \<notin> set (list_ids l)" "bufIndex cur \<le> length (chunk_content (snd x))"
  using assms unfolding position_ok_def by blast+

lemma position_okI:
  "chunk_ok (snd x) \<Longrightarrow> x \<in> set l \<or> fst x \<notin> set (list_ids l) \<Longrightarrow> i \<le> length (chunk_content (snd x)) \<Longrightarrow>
     position_ok l (Some \<lparr>element = Some x, bufIndex = i\<rparr>)"
  by (cases x) (simp add: position_ok_def)

definition chunks_ok :: "SocketDataBuffer golist \<Rightarrow> bool" where
  "chunks_ok l \<longleftrightarrow> distinct (list_ids l) \<and> (\<forall>e \<in> set l. chunk_ok (snd e))"

definition reading_ok :: "Buffer \<Rightarrow> bool" where
  "reading_ok r \<longleftrightarrow> chunks_ok (dataEvents r) \<and> position_ok (dataEvents r) (buf_current r)"

text \<open>The chain of an element that is in the list is the element and what follows it.\<close>

lemma elem_chain_split:
  assumes "distinct (list_ids l)" "x \<in> set l"
  obtains pre es where "l = pre @ x # es" "elem_chain l (Some x) = x # es" "elem_next l (fst x) = list_front es"
proof -
  obtain pre es where l: "l = pre @ x # es" using assms(2) by (meson split_list)
  then show thesis
    using that list_from_at [of pre x es] elem_next_at [of pre x es] assms(1)
    by (auto simp: elem_chain_def)
qed

lemma elem_chain_cases:
  assumes "distinct (list_ids l)" "x \<in> set l \<or> fst x \<notin> set (list_ids l)"
  obtains es where "elem_chain l (Some x) = x # es" "elem_next l (fst x) = list_front es"
    "set es \<subseteq> set l" "es \<noteq> [] \<longrightarrow> elem_chain l (Some (hd es)) = es"
proof (cases "x \<in> set l")
  case True
  obtain pre es where *: "l = pre @ x # es" "elem_chain l (Some x) = x # es" "elem_next l (fst x) = list_front es"
    by (rule elem_chain_split [OF assms(1) True])
  have "elem_chain l (Some (hd es)) = es" if "es \<noteq> []"
    using list_from_at [of "pre @ [x]" "hd es" "tl es"] assms(1) * that by (auto simp: elem_chain_def neq_Nil_conv)
  then show ?thesis using that * by auto
next
  case False
  then show ?thesis using that [of "[]"] assms(2) by (auto simp: elem_chain_def elem_next_notin)
qed

section \<open>Byte streams\<close>

text \<open>
  What the loops over a reading method rely on: a read returns a front of what is ahead, moves by
  it, makes progress, and reports the end of the stream only at the end.
\<close>

locale byte_stream =
  fixes rd :: "'b \<Rightarrow> nat \<Rightarrow> ('b \<times> (ReadError + u8 list)) or_panic"
    and ok :: "'b \<Rightarrow> bool"
    and ahead :: "'b \<Rightarrow> u8 list"
    and steps :: "'b \<Rightarrow> nat"
  assumes rd_law: "ok b \<Longrightarrow> 0 < n \<Longrightarrow>
      (ahead b = [] \<and> rd b n = Inr (b, Inl EOF)) \<or>
      (\<exists>b' bytes. rd b n = Inr (b', Inr bytes) \<and> ok b' \<and> ahead b = bytes @ ahead b' \<and>
         length bytes \<le> n \<and> steps b' \<le> steps b \<and> (bytes = [] \<longrightarrow> steps b' < steps b))"
begin

lemma Peek_loop_full:
  assumes "ok b" "i \<le> length p" "length p - i \<le> length (ahead b)"
  shows "\<exists>b'. Peek_loop rd b p i = Some (Inr (b', take i p @ take (length p - i) (ahead b), None)) \<and>
     ok b' \<and> ahead b' = drop (length p - i) (ahead b)"
  using assms
proof (induction "(length p - i) + steps b" arbitrary: b p i rule: less_induct)
  case less
  show ?case
  proof (cases "i < length p")
    case False
    then show ?thesis using less.prems by (subst Peek_loop.simps) auto
  next
    case True
    then have "0 < length p - i" "ahead b \<noteq> []" using less.prems(3) by auto
    with rd_law [OF less.prems(1)] obtain b' bytes where
      rd: "rd b (length p - i) = Inr (b', Inr bytes)" "ok b'" "ahead b = bytes @ ahead b'"
        "length bytes \<le> length p - i" "steps b' \<le> steps b" "bytes = [] \<longrightarrow> steps b' < steps b"
      by blast
    let ?p = "take i p @ go_copy (drop i p) bytes"
    have len: "length ?p = length p" and front: "take (i + length bytes) ?p = take i p @ bytes"
      using True rd(4) by (auto simp: go_copy_def)
    have "length ?p - (i + length bytes) + steps b' < length p - i + steps b"
      using rd(4,5,6) True len by (cases bytes) auto
    moreover have "i + length bytes \<le> length ?p" "length ?p - (i + length bytes) \<le> length (ahead b')"
      using rd(3,4) True less.prems(3) unfolding len by auto
    ultimately obtain b'' where
      "Peek_loop rd b' ?p (i + length bytes) = Some (Inr (b'', take i p @ bytes @
         take (length p - (i + length bytes)) (ahead b'), None))"
      "ok b''" "ahead b'' = drop (length p - (i + length bytes)) (ahead b')"
      using less.hyps [of ?p "i + length bytes" b'] rd(2) unfolding len front by auto
    moreover have "Peek_loop rd b p i = Peek_loop rd b' ?p (i + length bytes)"
      using True rd(1) by (subst Peek_loop.simps) simp
    ultimately show ?thesis using rd(3,4) by simp
  qed
qed

lemma Peek_loop_EOF:
  assumes "ok b" "i \<le> length p" "length (ahead b) < length p - i"
  shows "\<exists>b' q. Peek_loop rd b p i = Some (Inr (b', q, Some EOF)) \<and> length q = length p \<and> ok b' \<and> ahead b' = []"
  using assms
proof (induction "(length p - i) + steps b" arbitrary: b p i rule: less_induct)
  case less
  then have i: "i < length p" "0 < length p - i" by simp_all
  from rd_law [OF less.prems(1) i(2)] consider
      (eof) "ahead b = []" "rd b (length p - i) = Inr (b, Inl EOF)"
    | (more) b' bytes where
      "rd b (length p - i) = Inr (b', Inr bytes)" "ok b'" "ahead b = bytes @ ahead b'"
        "length bytes \<le> length p - i" "steps b' \<le> steps b" "bytes = [] \<longrightarrow> steps b' < steps b"
    by blast
  then show ?case
  proof cases
    case eof
    then show ?thesis using i less.prems(1) by (subst Peek_loop.simps) simp
  next
    case more
    let ?p = "take i p @ go_copy (drop i p) bytes"
    have len: "length ?p = length p" using i more(4) by (auto simp: go_copy_def)
    have "length ?p - (i + length bytes) + steps b' < length p - i + steps b"
      using more(4,5,6) i len by (cases bytes) auto
    moreover have "i + length bytes \<le> length ?p" "length (ahead b') < length ?p - (i + length bytes)"
      using more(3,4) i less.prems(3) unfolding len by auto
    ultimately obtain b'' q where
      "Peek_loop rd b' ?p (i + length bytes) = Some (Inr (b'', q, Some EOF))"
      "length q = length p" "ok b''" "ahead b'' = []"
      using less.hyps [of ?p "i + length bytes" b'] more(2) unfolding len by auto
    moreover have "Peek_loop rd b p i = Peek_loop rd b' ?p (i + length bytes)"
      using i more(1) by (subst Peek_loop.simps) simp
    ultimately show ?thesis by simp
  qed
qed

end

section \<open>Validated buffers are byte streams\<close>

definition chunks_left :: "Buffer \<Rightarrow> nat" where
  "chunks_left r = (case buf_current r of None \<Rightarrow> 0 | Some cur \<Rightarrow> length (elem_chain (dataEvents r) (element cur)))"

text \<open>The two ways in which a read returns bytes, for a buffer whose current element is \<open>x\<close>.\<close>

lemma ReadFromCurrent_ok:
  assumes "chunk_ok v" "bufIndex cur \<le> length (chunk_content v)"
  shows "ReadFromCurrent r cur v plen =
    (let bytes = take plen (drop (bufIndex cur) (chunk_content v)) in
     if bytes = [] \<and> drop (bufIndex cur) (chunk_content v) = [] then Inr (r, [])
     else Inr (r\<lparr>buf_current := Some (cur\<lparr>bufIndex := bufIndex cur + length bytes\<rparr>)\<rparr>, bytes))"
proof -
  obtain mem n where *: "BufferData v = Inr (mem, n)" "BufferLen v = int n" "n \<le> length mem" "chunk_content v = take n mem"
    using assms(1) by (rule chunk_okE)
  show ?thesis
  proof (cases "n \<le> bufIndex cur")
    case True
    then show ?thesis using * by (simp add: ReadFromCurrent_def)
  next
    case False
    then show ?thesis using *
      by (simp add: ReadFromCurrent_def Let_def drop_take min_def take_take nat_diff_distrib
          flip: of_nat_diff) (auto simp: le_diff_conv2 not_less)
  qed
qed

lemma read0_ok:
  assumes "chunk_ok (snd e)"
  shows "read0 r e plen = Inr (r\<lparr>buf_current := Some \<lparr>element = Some e,
      bufIndex = length (take plen (chunk_content (snd e)))\<rparr>\<rparr>, take plen (chunk_content (snd e)))"
  using assms by (elim chunk_okE) (auto simp: read0_def Let_def min_def)

text \<open>
  Reading goes on from chunk to chunk when the buffer is validated, or when every chunk follows the one
  before it: the next sequence of the same data id, or the start of a message after the end of one.
\<close>

definition follows :: "SocketDataBuffer \<Rightarrow> SocketDataBuffer \<Rightarrow> bool" where
  "follows a b \<longleftrightarrow> (DataID a = DataID b \<and> DataSequence a + 1 = DataSequence b) \<or> (IsStart b \<and> IsFinished a)"

definition linked :: "Buffer \<Rightarrow> bool" where
  "linked r \<longleftrightarrow> successively follows (list_values (dataEvents r))"

lemma shouldRead_next:
  assumes "validated r \<or> linked r" "elem_chain (dataEvents r) (Some x) = x # y # ys"
  shows "shouldRead r cur (snd x) (snd y)"
proof -
  have "list_from (dataEvents r) (fst x) = x # y # ys" using assms(2) by (auto simp: elem_chain_def split: if_splits)
  then obtain pre where "dataEvents r = pre @ x # y # ys" using list_from_suffix by metis
  then show ?thesis using assms(1) by (auto simp: shouldRead_def linked_def follows_def successively_append_iff)
qed

text \<open>Buffers that differ from \<open>r0\<close> at most in the current position.\<close>

definition stream_ok :: "Buffer \<Rightarrow> Buffer \<Rightarrow> bool" where
  "stream_ok r0 r \<longleftrightarrow> reading_ok r \<and> validated r \<and> r\<lparr>buf_current := None\<rparr> = r0\<lparr>buf_current := None\<rparr>"

lemma Read_at:
  assumes "reading_ok r" "0 < n" "buf_current r = Some cur" "element cur = Some x"
    "elem_chain (dataEvents r) (Some x) = x # es" "elem_next (dataEvents r) (fst x) = list_front es"
  shows "Read r n =
    (let bytes = take n (drop (bufIndex cur) (chunk_content (snd x))) in
     if bytes \<noteq> [] then Inr (r\<lparr>buf_current := Some (cur\<lparr>bufIndex := bufIndex cur + length bytes\<rparr>)\<rparr>, Inr bytes)
     else case es of [] \<Rightarrow> Inr (r, Inl EOF)
       | y # ys \<Rightarrow>
           if shouldRead r cur (snd x) (snd y)
           then panic_bind (read0 r y n) (\<lambda>(r2, bs). Inr (r2, Inr bs))
           else Inr (r, Inl ErrNotComplete))"
proof -
  have "chunk_ok (snd x)" "bufIndex cur \<le> length (chunk_content (snd x))"
    using assms(1,3,4) position_okD unfolding reading_ok_def by blast+
  from ReadFromCurrent_ok [OF this, of r n] show ?thesis
    using assms(2-6) by (auto simp: Read_def nextElement_def Let_def split: list.splits)
qed

lemma Read_joined:
  assumes "reading_ok r" "validated r \<or> linked r" "0 < n"
  shows "(unread r = [] \<and> Read r n = Inr (r, Inl EOF)) \<or>
    (\<exists>r' bytes. Read r n = Inr (r', Inr bytes) \<and> reading_ok r' \<and> r'\<lparr>buf_current := None\<rparr> = r\<lparr>buf_current := None\<rparr> \<and> unread r = bytes @ unread r' \<and>
       length bytes \<le> n \<and> chunks_left r' \<le> chunks_left r \<and> (bytes = [] \<longrightarrow> chunks_left r' < chunks_left r))"
proof (cases "Option.bind (buf_current r) element")
  case None
  then show ?thesis using assms(3)
    by (auto simp: Read_def unread_def stream_from_def elem_chain_def split: option.splits bind_splits)
next
  case (Some x)
  then obtain cur where cur: "buf_current r = Some cur" "element cur = Some x"
    by (cases "buf_current r") auto
  have p: "position_ok (dataEvents r) (buf_current r)" and d: "distinct (list_ids (dataEvents r))"
    using assms(1) by (auto simp: reading_ok_def chunks_ok_def)
  note x = position_okD [OF p cur]
  obtain es where es: "elem_chain (dataEvents r) (Some x) = x # es" "elem_next (dataEvents r) (fst x) = list_front es"
    and es': "set es \<subseteq> set (dataEvents r)" "es \<noteq> [] \<longrightarrow> elem_chain (dataEvents r) (Some (hd es)) = es"
    by (rule elem_chain_cases [OF d x(2)])
  let ?bytes = "take n (drop (bufIndex cur) (chunk_content (snd x)))"
  have un: "unread r = drop (bufIndex cur) (chunk_content (snd x)) @ contents es"
    using cur es(1) by (simp add: unread_def stream_from_def)
  note rd = Read_at [OF assms(1,3) cur es]
  show ?thesis
  proof (cases "?bytes = []")
    case False
    let ?r = "r\<lparr>buf_current := Some (cur\<lparr>bufIndex := bufIndex cur + length ?bytes\<rparr>)\<rparr>"
    have "reading_ok ?r" using assms(1) cur x by (auto simp: reading_ok_def position_ok_def)
    moreover have "unread r = ?bytes @ unread ?r"
      using un cur es(1) take_drop_step [of n "bufIndex cur" "chunk_content (snd x)"]
      by (simp add: unread_def stream_from_def del: length_take length_drop)
    moreover have "chunks_left ?r = chunks_left r" using cur by (simp add: chunks_left_def)
    ultimately show ?thesis using rd False by (auto simp: Let_def)
  next
    case True
    show ?thesis
    proof (cases es)
      case Nil
      then show ?thesis using rd True un assms(3) by simp
    next
      case (Cons y ys)
      have y: "y \<in> set (dataEvents r)" "chunk_ok (snd y)"
        using Cons es'(1) assms(1) by (auto simp: reading_ok_def chunks_ok_def)
      let ?b = "take n (chunk_content (snd y))"
      let ?r = "r\<lparr>buf_current := Some \<lparr>element = Some y, bufIndex = length ?b\<rparr>\<rparr>"
      have "Read r n = Inr (?r, Inr ?b)"
        using rd True Cons read0_ok [OF y(2)] shouldRead_next [OF assms(2) es(1) [unfolded Cons]] by simp
      moreover have "reading_ok ?r" using assms(1) y by (auto simp: reading_ok_def position_ok_def)
      moreover have "unread r = ?b @ unread ?r"
        using un True assms(3) es'(2) Cons
        by (auto simp: unread_def stream_from_def min_def)
      moreover have "chunks_left ?r < chunks_left r"
        using cur es(1) es'(2) Cons by (simp add: chunks_left_def)
      ultimately show ?thesis by auto
    qed
  qed
qed

text \<open>Buffers whose chunks follow each other are byte streams as well.\<close>

definition linked_ok :: "Buffer \<Rightarrow> Buffer \<Rightarrow> bool" where
  "linked_ok r0 r \<longleftrightarrow> reading_ok r \<and> linked r \<and> r\<lparr>buf_current := None\<rparr> = r0\<lparr>buf_current := None\<rparr>"

lemma linked_position: "r'\<lparr>buf_current := None\<rparr> = r\<lparr>buf_current := None\<rparr> \<Longrightarrow> linked r' = linked r \<and> validated r' = validated r"
  by (cases r; cases r') (simp add: linked_def)

interpretation read_stream: byte_stream Read "stream_ok r0" unread chunks_left for r0
proof
  fix r n assume ok: "stream_ok r0 r" and n: "0 < (n :: nat)"
  have r: "reading_ok r" "validated r \<or> linked r" using ok by (auto simp: stream_ok_def)
  have "stream_ok r0 r'" if "reading_ok r'" "r'\<lparr>buf_current := None\<rparr> = r\<lparr>buf_current := None\<rparr>" for r'
    using that ok linked_position [OF that(2)] by (simp add: stream_ok_def)
  with Read_joined [OF r n] show "(unread r = [] \<and> Read r n = Inr (r, Inl EOF)) \<or>
      (\<exists>r' bytes. Read r n = Inr (r', Inr bytes) \<and> stream_ok r0 r' \<and> unread r = bytes @ unread r' \<and>
         length bytes \<le> n \<and> chunks_left r' \<le> chunks_left r \<and> (bytes = [] \<longrightarrow> chunks_left r' < chunks_left r))"
    by blast
qed

interpretation linked_stream: byte_stream Read "linked_ok r0" unread chunks_left for r0
proof
  fix r n assume ok: "linked_ok r0 r" and n: "0 < (n :: nat)"
  have r: "reading_ok r" "validated r \<or> linked r" using ok by (auto simp: linked_ok_def)
  have "linked_ok r0 r'" if "reading_ok r'" "r'\<lparr>buf_current := None\<rparr> = r\<lparr>buf_current := None\<rparr>" for r'
    using that ok linked_position [OF that(2)] by (simp add: linked_ok_def)
  with Read_joined [OF r n] show "(unread r = [] \<and> Read r n = Inr (r, Inl EOF)) \<or>
      (\<exists>r' bytes. Read r n = Inr (r', Inr bytes) \<and> linked_ok r0 r' \<and> unread r = bytes @ unread r' \<and>
         length bytes \<le> n \<and> chunks_left r' \<le> chunks_left r \<and> (bytes = [] \<longrightarrow> chunks_left r' < chunks_left r))"
    by blast
qed

end
