(* ===== verification/Socket_Buffer_Props.thy ===== *)
theory Socket_Buffer_Props
  imports Socket_Buffer_Order Socket_Buffer_Read
begin

text \<open>
  The properties of reading: what each operation does to the byte stream of a buffer.
\<close>

section \<open>Read and Peek\<close>

text \<open>
  C3: \<^verbatim>\<open>Read\<close> on a validated buffer is a reader of the byte stream from the current position: it
  never panics, it returns a front of the stream of at most the requested length and moves past
  it, it changes nothing but the position, and it reports EOF only when the stream is exhausted.
  A read that returns no bytes has moved to the next chunk, so repeated reads end.
\<close>

theorem Read_stream:
  assumes "reading_ok r" and "validated r" and "0 < n"
  shows "(unread r = [] \<and> Read r n = Inr (r, Inl EOF)) \<or>
    (\<exists>c bytes. let r' = r\<lparr>buf_current := c\<rparr> in
       Read r n = Inr (r', Inr bytes) \<and> reading_ok r' \<and> unread r = bytes @ unread r' \<and> length bytes \<le> n \<and>
       (bytes = [] \<longrightarrow> chunks_left r' < chunks_left r))"
proof -
  have ok: "stream_ok r r" using assms by (simp add: stream_ok_def)
  have same: "r' = r\<lparr>buf_current := buf_current r'\<rparr>" if "stream_ok r r'" for r'
    using that by (cases r; cases r'; simp add: stream_ok_def)
  from read_stream.rd_law [OF ok assms(3)] show ?thesis
  proof
    assume "\<exists>r' bytes. Read r n = Inr (r', Inr bytes) \<and> stream_ok r r' \<and> unread r = bytes @ unread r' \<and>
       length bytes \<le> n \<and> chunks_left r' \<le> chunks_left r \<and> (bytes = [] \<longrightarrow> chunks_left r' < chunks_left r)"
    then obtain r' bytes where *: "Read r n = Inr (r', Inr bytes)" "stream_ok r r'" "unread r = bytes @ unread r'"
       "length bytes \<le> n" "bytes = [] \<longrightarrow> chunks_left r' < chunks_left r" by blast
    then show ?thesis using same [OF *(2)] unfolding Let_def stream_ok_def
      by (intro disjI2 exI [of _ "buf_current r'"] exI [of _ bytes]) simp
  qed blast
qed

definition example_buffer :: Buffer where
  "example_buffer =
     (let es = [(0, example_chunk 1 0 [10, 11]), (1, example_chunk 1 1 [12])];
          p = Some \<lparr>element = list_front es, bufIndex = 0\<rparr> in
      NewBuffer\<lparr>dataEvents := es, validated := True, buf_head := p, buf_current := p\<rparr>)"

lemma example_buffer_ok:
  "reading_ok example_buffer" "validated example_buffer" "unread example_buffer = [10, 11, 12]"
  "buf_current example_buffer = Some \<lparr>element = Some (0, example_chunk 1 0 [10, 11]), bufIndex = 0\<rparr>"
  by (simp_all add: example_buffer_def example_chunk_def NewBuffer_def reading_ok_def chunks_ok_def position_ok_def
      chunk_ok_def chunk_content_def unread_def stream_from_def elem_chain_def Let_def)

theorem Read_stream_witness:
  "\<exists>c bytes. let r' = example_buffer\<lparr>buf_current := c\<rparr> in
     Read example_buffer 5 = Inr (r', Inr bytes) \<and> [10, 11, 12] = bytes @ unread r' \<and> length bytes \<le> 5"
  using Read_stream [of example_buffer 5] example_buffer_ok unfolding Let_def by auto

text \<open>
  \<^verbatim>\<open>Peek\<close> on a validated buffer always returns: it fills the destination with the next bytes of
  the stream when there are enough of them and reports EOF otherwise; in both cases the buffer is
  left exactly as it was.
\<close>

theorem Peek_spec:
  assumes "reading_ok r" and "validated r" and "buf_current r \<noteq> None"
  shows "if length p \<le> length (unread r)
     then Peek r p = Some (Inr (r, take (length p) (unread r), None))
     else \<exists>q. Peek r p = Some (Inr (r, q, Some EOF)) \<and> length q = length p"
proof -
  obtain cur where cur: "buf_current r = Some cur" using assms(3) by blast
  have ok: "stream_ok r r" using assms by (simp add: stream_ok_def)
  have restore: "r'\<lparr>buf_current := Some cur\<rparr> = r" if "stream_ok r r'" for r'
    using that cur by (cases r; cases r'; simp add: stream_ok_def)
  show ?thesis
    using read_stream.Peek_loop_full [OF ok, of 0 p] read_stream.Peek_loop_EOF [OF ok, of 0 p] restore cur
    by (auto simp: Peek_def)
qed

theorem Peek_spec_witness:
  "Peek example_buffer [0, 0, 0] = Some (Inr (example_buffer, [10, 11, 12], None)) \<and>
   (\<exists>q. Peek example_buffer [0, 0, 0, 0] = Some (Inr (example_buffer, q, Some EOF)))"
  using Peek_spec [of example_buffer "[0, 0, 0]"] Peek_spec [of example_buffer "[0, 0, 0, 0]"]
    example_buffer_ok by auto

text \<open>
  \<^verbatim>\<open>ReadUntilBufferFull\<close> passes the front of the destination to every read. When the request
  is the rest of one chunk and the whole next one, the second chunk overwrites the first: the
  destination holds the second chunk, then what is left of the first, then its old bytes.
\<close>

theorem ReadUntilBufferFull_overwrites:
  assumes "reading_ok r" and "validated r"
    and "buf_current r = Some \<lparr>element = Some x, bufIndex = i\<rparr>"
    and "elem_chain (dataEvents r) (Some x) = [x, y]" and "elem_next (dataEvents r) (fst x) = Some y"
    and "y \<in> set (dataEvents r)"
    and "a = drop i (chunk_content (snd x))" and "a \<noteq> []" and "b = chunk_content (snd y)" and "b \<noteq> []"
    and "length data = length a + length b"
  shows "\<exists>r'. ReadUntilBufferFull r data =
    Some (Inr (r', b @ drop (length b) (a @ drop (length a) data), None))"
proof -
  let ?r1 = "r\<lparr>buf_current := Some \<lparr>element = Some x, bufIndex = i + length a\<rparr>\<rparr>"
  let ?r2 = "r\<lparr>buf_current := Some \<lparr>element = Some y, bufIndex = length b\<rparr>\<rparr>"
  have y: "chunk_ok (snd y)" using assms(1,6) by (auto simp: reading_ok_def chunks_ok_def)
  have x: "chunk_ok (snd x)" "x \<in> set (dataEvents r) \<or> fst x \<notin> set (list_ids (dataEvents r))"
    "i \<le> length (chunk_content (snd x))"
    using position_okD [OF _ assms(3), of "dataEvents r" x] assms(1,3) by (auto simp: reading_ok_def)
  have "Read r (length data) = Inr (?r1, Inr a)"
    using Read_at [OF assms(1) _ assms(3) _ assms(4), of "length data"] assms(5,7,8,11) by simp
  moreover have "reading_ok ?r1"
    using assms(1,7) x by (simp add: reading_ok_def position_okI)
  then have "Read ?r1 (length data - length a) = Inr (?r2, Inr b)"
    using Read_at [of ?r1 "length data - length a" _ x "[y]"] assms(2,4,5,7,9,10,11) x(3) read0_ok [OF y, of _ "length b"]
    by (simp add: shouldRead_def)
  ultimately show ?thesis
    using assms(8,10,11) by (simp add: ReadUntilBufferFull_def ReadUntilBufferFull_loop.simps go_copy_def)
qed

theorem ReadUntilBufferFull_overwrites_witness:
  "\<exists>r'. ReadUntilBufferFull example_buffer [0, 0, 0] = Some (Inr (r', [12, 11, 0], None))"
  using ReadUntilBufferFull_overwrites [of example_buffer "(0, example_chunk 1 0 [10, 11])" 0
      "(1, example_chunk 1 1 [12])" "[10, 11]" "[12]" "[0, 0, 0]"] example_buffer_ok
  by (auto simp: example_buffer_def example_chunk_def chunk_content_def elem_chain_def NewBuffer_def Let_def)

section \<open>Removing what was read\<close>

lemma remove_until_before:
  assumes "distinct (list_ids (pre @ mid @ c # post))"
  shows "remove_until (pre @ mid @ c # post) (Some (hd (mid @ [c]))) (Some (fst c)) b =
     (pre @ c # post, Some c, b \<and> mid = [])"
  using assms
proof (induction mid arbitrary: b)
  case (Cons m ms)
  have "list_remove (fst m) (pre @ (m # ms) @ c # post) = pre @ ms @ c # post"
    using Cons.prems list_remove_notin [of "fst m" pre] list_remove_notin [of "fst m" "ms @ c # post"]
    by (simp add: list_remove_def)
  moreover have "elem_next (pre @ (m # ms) @ c # post) (fst m) = Some (hd (ms @ [c]))"
    using elem_next_at [of pre m "ms @ c # post"] Cons.prems by (cases ms) auto
  moreover have "fst m \<noteq> fst c" using Cons.prems by auto
  ultimately show ?case using Cons.IH [of False] Cons.prems by (auto simp: image_iff)
qed simp

lemma remove_details_sorted:
  assumes "sorted_on dt_DataID0 l"
  shows "remove_details first lst unfinished startDelete l =
    (if first = lst \<and> unfinished then l
     else if startDelete then filter (\<lambda>e. lst < dt_DataID0 (snd e)) l
     else filter (\<lambda>e. \<not> (first \<le> dt_DataID0 (snd e) \<and> dt_DataID0 (snd e) \<le> lst)) l)"
proof -
  have keep: "filter (\<lambda>e. lst < dt_DataID0 (snd e)) es = es"
    if "\<forall>x \<in> set es. dt_DataID0 (snd e) \<le> dt_DataID0 (snd x)" "lst < dt_DataID0 (snd e)" for e es
    using that by (auto simp: filter_id_conv)
  have same: "filter (\<lambda>e. lst < dt_DataID0 (snd e)) es = filter (\<lambda>e. \<not> (first \<le> dt_DataID0 (snd e) \<and> dt_DataID0 (snd e) \<le> lst)) es"
    if "\<forall>x \<in> set es. dt_DataID0 (snd e) \<le> dt_DataID0 (snd x)" "first \<le> dt_DataID0 (snd e)" for e es
    using that by (intro filter_cong) (auto simp: not_le dest: order_trans)
  show ?thesis
    using assms
  proof (induction l arbitrary: startDelete)
    case (Cons e es)
    then show ?case using keep [of es e] same [of es e] by (auto simp: Let_def)
  qed simp
qed

lemma elem_chain_at:
  "distinct (list_ids (pre @ e # es)) \<Longrightarrow> elem_chain (pre @ e # es) (Some e) = e # es"
  using list_from_at [of pre e es] by (auto simp: elem_chain_def)

lemma elem_chain_front: "elem_chain (e # es) (Some e) = e # es"
  by (simp add: elem_chain_def)



section \<open>Slices\<close>

lemma contents_number [simp]: "contents (number fresh vs) = concat (map chunk_content vs)"
  by (induction vs arbitrary: fresh) auto

lemma chunks_ok_number: "chunks_ok (number fresh vs) \<longleftrightarrow> (\<forall>v \<in> set vs. chunk_ok v)"
  by (simp add: chunks_ok_def snd_set_number [of fresh vs, symmetric])

lemma derived_unread:
  "unread (derived_buffer valid (number fresh (v # vs)) i orig end) =
     drop i (chunk_content v) @ concat (map chunk_content vs)"
  by (simp add: derived_buffer_def unread_def stream_from_def elem_chain_front Let_def)

lemma derived_ok:
  assumes "\<forall>v \<in> set vs. chunk_ok v" "vs \<noteq> []" "i \<le> length (chunk_content (hd vs))"
  shows "reading_ok (derived_buffer valid (number fresh vs) i orig end)"
proof (cases vs)
  case (Cons w ws)
  then show ?thesis
    using assms chunks_ok_number [of fresh vs] position_okI [of "(fresh, w)" "number fresh vs" i]
    by (simp add: reading_ok_def derived_buffer_def Let_def)
qed (use assms in simp)

text \<open>
  \<^verbatim>\<open>Slice\<close> between two positions of the buffer, the start before the end, is a well-formed buffer
  whose stream is exactly the bytes between the two positions.
\<close>

theorem Slice_stream:
  assumes "chunks_ok (dataEvents r)" and "dataEvents r = pre @ seg @ y # post"
    and "start = \<lparr>element = Some (hd (seg @ [y])), bufIndex = si\<rparr>" and "end = \<lparr>element = Some y, bufIndex = ei\<rparr>"
    and "si \<le> length (chunk_content (snd (hd (seg @ [y]))))" and "ei \<le> length (chunk_content (snd y))"
    and "seg = [] \<longrightarrow> si \<le> ei"
  shows "\<exists>s. Slice fresh addr r valid start end = Inr s \<and> reading_ok s \<and> validated s = valid \<and>
     stream_from (dataEvents r) (Some start) = unread s @ stream_from (dataEvents r) (Some end)"
proof -
  have d: "distinct (list_ids (pre @ seg @ y # post))" and ok: "\<forall>e \<in> set (seg @ [y]). chunk_ok (snd e)"
    using assms(1,2) by (auto simp: chunks_ok_def)
  have chain: "elem_chain (dataEvents r) (Some (hd (seg @ [y]))) = seg @ y # post"
    using elem_chain_at [of pre "hd (seg @ [y])" "tl (seg @ [y]) @ post"] d assms(2) by (cases seg) auto
  have chainy: "elem_chain (dataEvents r) (Some y) = y # post"
    using elem_chain_at [of "pre @ seg" y post] d assms(2) by simp
  have "takeWhile (\<lambda>e. fst e \<noteq> fst y) (seg @ y # post) = seg"
    using d by (subst takeWhile_append2) (auto simp: image_iff)
  then have walk: "slice_walk (dataEvents r) start end = list_values seg"
    using chain assms(3,4) by (simp add: slice_walk_def)
  let ?y = "SocketDataEventLimited (snd y) 0 ei"
  let ?s = "derived_buffer valid (number fresh (list_values seg @ [?y])) si (Some addr) (Some end)"
  have y: "chunk_ok ?y" "chunk_content ?y = take ei (chunk_content (snd y))"
    using limited_ok [of "snd y" 0 ei] ok assms(6) by simp_all
  have "Slice fresh addr r valid start end = Inr ?s" using walk assms(3,4) by (simp add: Slice_def)
  moreover have "reading_ok ?s"
    using ok y assms(5-7) by (intro derived_ok) (cases seg; auto)+
  moreover have "stream_from (dataEvents r) (Some start) = unread ?s @ stream_from (dataEvents r) (Some end)"
  proof (cases seg)
    case Nil
    then have "drop si (chunk_content (snd y)) = drop si (take ei (chunk_content (snd y))) @ drop ei (chunk_content (snd y))"
      using assms(7) by (metis append_take_drop_id drop_append drop_take drop_drop le_add_diff_inverse2)
    then show ?thesis
      using Nil chain chainy assms(3,4) y derived_unread [of valid fresh ?y "[]"]
      by (simp add: stream_from_def)
  next
    case (Cons m ms)
    then show ?thesis
      using Cons chain chainy assms(3,4) y derived_unread [of valid fresh "snd m" "list_values ms @ [?y]"]
      by (simp add: stream_from_def)
  qed
  ultimately show ?thesis by (auto simp: derived_buffer_def Let_def)
qed

theorem Slice_stream_witness:
  "\<exists>s. Slice 7 0 example_buffer True \<lparr>element = Some (0, example_chunk 1 0 [10, 11]), bufIndex = 1\<rparr>
      \<lparr>element = Some (1, example_chunk 1 1 [12]), bufIndex = 1\<rparr> = Inr s \<and> unread s = [11, 12]"
proof -
  let ?s = "\<lparr>element = Some (0, example_chunk 1 0 [10, 11]), bufIndex = 1\<rparr>"
  let ?e = "\<lparr>element = Some (1, example_chunk 1 1 [12]), bufIndex = 1\<rparr>"
  have b: "dataEvents example_buffer = [] @ [(0, example_chunk 1 0 [10, 11])] @ (1, example_chunk 1 1 [12]) # []"
    by (simp add: example_buffer_def Let_def)
  have c: "chunk_content (example_chunk i n [x, y]) = [x, y]" "chunk_content (example_chunk i n [x]) = [x]" for i n x y
    by (simp_all add: example_chunk_def chunk_content_def)
  have "stream_from (dataEvents example_buffer) (Some ?s) = [11, 12]" "stream_from (dataEvents example_buffer) (Some ?e) = []"
    unfolding b by (simp_all add: stream_from_def elem_chain_def c)
  then show ?thesis
    using Slice_stream [OF _ b, of ?s 1 ?e 1 7 0 True] example_buffer_ok(1)
    by (auto simp: reading_ok_def c)
qed

text \<open>
  A part that can be combined: a slice whose head is at its first chunk. Its stream from the head is
  what the combination takes.
\<close>

definition part_ok :: "Buffer \<Rightarrow> bool" where
  "part_ok b \<longleftrightarrow> chunks_ok (dataEvents b) \<and> dataEvents b \<noteq> [] \<and>
     (\<exists>i. buf_head b = Some \<lparr>element = Some (hd (dataEvents b)), bufIndex = i\<rparr> \<and>
        i \<le> length (chunk_content (snd (hd (dataEvents b))))) \<and>
     (endPosition b \<noteq> None \<or> buf_current b \<noteq> None)"

definition part_stream :: "Buffer \<Rightarrow> u8 list" where
  "part_stream b = stream_from (dataEvents b) (buf_head b)"

lemma combine_chunks_ok:
  assumes "part_ok b"
  shows "\<exists>vs. combine_chunks (Some b) = Inr vs \<and> vs \<noteq> [] \<and> (\<forall>v \<in> set vs. chunk_ok v) \<and>
     concat (map chunk_content vs) = part_stream b"
proof -
  obtain e es i where b: "dataEvents b = e # es" "buf_head b = Some \<lparr>element = Some e, bufIndex = i\<rparr>"
    "i \<le> length (chunk_content (snd e))" "\<forall>x \<in> set (e # es). chunk_ok (snd x)"
    using assms by (cases "dataEvents b") (auto simp: part_ok_def chunks_ok_def)
  then have "part_stream b = drop i (chunk_content (snd e)) @ contents es"
    using elem_chain_front [of e es] by (simp add: part_stream_def stream_from_def)
  moreover have "BufferLen (snd e) = int (length (chunk_content (snd e)))"
    using b(4) by (simp add: BufferLen_content)
  moreover note lim = limited_ok [of "snd e" i "length (chunk_content (snd e))"]
  ultimately show ?thesis
  proof (cases "i = 0")
    case True
    then show ?thesis
      using b \<open>part_stream b = _\<close> by (intro exI [of _ "list_values (e # es)"]) (simp add: combine_chunks_def)
  next
    case False
    then show ?thesis
      using b \<open>part_stream b = _\<close> \<open>BufferLen (snd e) = _\<close> lim
      by (intro exI [of _ "SocketDataEventLimited (snd e) i (length (chunk_content (snd e))) # list_values es"])
        (simp add: combine_chunks_def)
  qed
qed

lemma combine_all_ok:
  assumes "\<forall>b \<in> set bs. part_ok b"
  shows "\<exists>vs. combine_all (map Some bs) = Inr vs \<and> (bs \<noteq> [] \<longrightarrow> vs \<noteq> []) \<and> (\<forall>v \<in> set vs. chunk_ok v) \<and>
     concat (map chunk_content vs) = concat (map part_stream bs)"
  using assms
proof (induction bs)
  case (Cons b bs)
  obtain vs where "combine_chunks (Some b) = Inr vs" "vs \<noteq> []" "\<forall>v \<in> set vs. chunk_ok v"
    "concat (map chunk_content vs) = part_stream b"
    using combine_chunks_ok [of b] Cons.prems by auto
  moreover obtain ws where "combine_all (map Some bs) = Inr ws" "\<forall>v \<in> set ws. chunk_ok v"
    "concat (map chunk_content ws) = concat (map part_stream bs)"
    using Cons by auto
  ultimately show ?case by auto
qed simp

text \<open>
  \<^verbatim>\<open>CombineSlices\<close> of two or more slices, each read from its first chunk, does not panic and is
  a buffer whose stream is the concatenation of the streams of the slices, in order.
\<close>

theorem CombineSlices_stream:
  assumes "2 \<le> length bs" and "\<forall>b \<in> set bs. part_ok b"
  shows "\<exists>s. CombineSlices fresh valid orig (map Some bs) = Inr (Some s) \<and> reading_ok s \<and>
     unread s = concat (map part_stream bs)"
proof -
  obtain b1 b2 rest where bs: "bs = b1 # b2 # rest"
    using assms(1) by (cases bs; cases "tl bs") auto
  obtain vs where vs: "combine_all (map Some bs) = Inr vs" "vs \<noteq> []" "\<forall>v \<in> set vs. chunk_ok v"
    "concat (map chunk_content vs) = concat (map part_stream bs)"
    using combine_all_ok [OF assms(2)] bs by blast
  have "\<exists>p. combine_end (rev (map Some bs)) = Inr p"
  proof (cases bs rule: rev_cases)
    case (snoc ys b')
    then have "endPosition b' \<noteq> None \<or> buf_current b' \<noteq> None" using assms(2) by (simp add: part_ok_def)
    then show ?thesis using snoc by (auto split: option.splits)
  qed (use bs in simp)
  then obtain p where "combine_end (rev (map Some bs)) = Inr p" ..
  then have "CombineSlices fresh valid orig (map Some bs) = Inr (Some (derived_buffer valid (number fresh vs) 0 orig p))"
    using vs(1) by (simp add: CombineSlices_def bs)
  moreover have "unread (derived_buffer valid (number fresh vs) 0 orig p) = concat (map part_stream bs)"
    using vs(2,4) derived_unread [of valid fresh "hd vs" "tl vs" 0] by (cases vs) simp_all
  ultimately show ?thesis using derived_ok [OF vs(3,2), of 0] by blast
qed

lemma example_part_ok: "part_ok example_buffer" "part_stream example_buffer = [10, 11, 12]"
  by (simp_all add: part_ok_def part_stream_def example_buffer_def example_chunk_def NewBuffer_def chunks_ok_def
      chunk_ok_def chunk_content_def stream_from_def elem_chain_def Let_def)

theorem CombineSlices_stream_witness:
  "\<exists>s. CombineSlices 4 True None [Some example_buffer, Some example_buffer] = Inr (Some s) \<and>
     unread s = [10, 11, 12, 10, 11, 12]"
  using CombineSlices_stream [of "[example_buffer, example_buffer]" 4 True None] example_part_ok by auto

section \<open>Offsets and sizes\<close>

lemma offset_walk_found:
  assumes "\<forall>e \<in> set es. chunk_ok (snd e)" "k < length (stream_at es i)" "0 < k \<or> i = 0"
    "i \<le> length (chunk_content (snd (hd es)))"
  shows "\<exists>pre e es' j. es = pre @ e # es' \<and> offset_walk es (int i) (int k) = Some \<lparr>element = Some e, bufIndex = j\<rparr> \<and>
     stream_at (e # es') j = drop k (stream_at es i) \<and> j \<le> length (chunk_content (snd e))"
  using assms
proof (induction es arbitrary: i k)
  case (Cons e es)
  let ?n = "length (chunk_content (snd e))"
  have len: "BufferLen (snd e) = int ?n" using Cons.prems(1) by (simp add: BufferLen_content)
  show ?case
  proof (cases "i + k < ?n")
    case True
    then have "offset_walk (e # es) (int i) (int k) = Some \<lparr>element = Some e, bufIndex = i + k\<rparr>"
      using len by (simp add: nat_add_distrib)
    moreover have "stream_at (e # es) (i + k) = drop k (stream_at (e # es) i)"
      using True by (simp add: add.commute)
    ultimately show ?thesis using True by (intro exI [of _ "[]"] exI [of _ e] exI [of _ es] exI [of _ "i + k"]) simp
  next
    case False
    obtain k' where k': "k = (?n - i) + k'"
      using False Cons.prems(4) by (intro that [of "k - (?n - i)"]) auto
    have "es \<noteq> []" using Cons.prems(2) k' by auto
    have "\<forall>e \<in> set es. chunk_ok (snd e)" "k' < length (stream_at es 0)"
      using Cons.prems(1,2,4) k' by (cases es; auto)+
    from Cons.IH [OF this disjI2 [OF refl] le0] obtain pre e' es' j where
      *: "es = pre @ e' # es'" "offset_walk es (int 0) (int k') = Some \<lparr>element = Some e', bufIndex = j\<rparr>"
        "stream_at (e' # es') j = drop k' (stream_at es 0)" "j \<le> length (chunk_content (snd e'))"
      by blast
    have "offset_walk (e # es) (int i) (int k) = offset_walk es (int 0) (int k')"
    proof (cases "k = 0")
      case True
      then show ?thesis using len False Cons.prems(3) \<open>es \<noteq> []\<close> k' by simp
    next
      case ne: False
      have "int k - (int ?n - int i) = int k'" using k' Cons.prems(4) by simp
      then show ?thesis using len False ne by simp
    qed
    moreover have "drop k (stream_at (e # es) i) = drop k' (stream_at es 0)"
      using k' Cons.prems(4) by (cases es) simp_all
    ultimately show ?thesis
      using * by (intro exI [of _ "e # pre"] exI [of _ e'] exI [of _ es'] exI [of _ j])
      (simp del: offset_walk.simps stream_at.simps)
  qed
qed simp

lemma offset_walk_None:
  assumes "\<forall>e \<in> set es. chunk_ok (snd e)" "length (stream_at es i) \<le> k" "0 < k \<or> i = 0"
    "es \<noteq> [] \<longrightarrow> i \<le> length (chunk_content (snd (hd es)))"
  shows "offset_walk es (int i) (int k) = None"
  using assms
proof (induction es arbitrary: i k)
  case (Cons e es)
  let ?n = "length (chunk_content (snd e))"
  have len: "BufferLen (snd e) = int ?n" using Cons.prems(1) by (simp add: BufferLen_content)
  have ge: "?n \<le> i + k" using Cons.prems(2,4) by simp
  have "length (stream_at es 0) \<le> k - (?n - i)" using Cons.prems(2,4) by (cases es) auto
  then have "offset_walk es 0 (int (k - (?n - i))) = None"
    using Cons.IH [of 0 "k - (?n - i)"] Cons.prems(1) by auto
  then show ?case
    using len ge Cons.prems(3,4) by (cases "k = 0") (auto simp: of_nat_diff)
qed simp

text \<open>
  \<^verbatim>\<open>OffsetPosition\<close> with a positive offset gives the position whose stream is the unread stream
  without its first \<open>k\<close> bytes, and nil when the unread stream has no byte after them.
\<close>

theorem OffsetPosition_forward:
  assumes "chunks_ok (dataEvents r)" and "buf_current r = Some \<lparr>element = Some x, bufIndex = i\<rparr>"
    and "x \<in> set (dataEvents r)" and "i \<le> length (chunk_content (snd x))" and "0 < k"
  shows "if k < length (unread r)
     then \<exists>p. OffsetPosition r (int k) = Inr (Some p) \<and> position_ok (dataEvents r) (Some p) \<and>
            stream_from (dataEvents r) (Some p) = drop k (unread r)
     else OffsetPosition r (int k) = Inr None"
proof -
  obtain pre es where l: "dataEvents r = pre @ x # es" "elem_chain (dataEvents r) (Some x) = x # es"
    using elem_chain_split [OF _ assms(3)] assms(1) unfolding chunks_ok_def by metis
  have ok: "\<forall>e \<in> set (x # es). chunk_ok (snd e)" and d: "distinct (list_ids (pre @ x # es))"
    using assms(1) l(1) by (auto simp: chunks_ok_def)
  have un: "unread r = stream_at (x # es) i" using assms(2) l(2) by (simp add: unread_def stream_from_def)
  have off: "OffsetPosition r (int k) = Inr (offset_walk (x # es) (int i) (int k))"
    using assms(2,5) l(2) by (simp add: OffsetPosition_def)
  show ?thesis
  proof (cases "k < length (unread r)")
    case True
    then have "k < length (stream_at (x # es) i)" "0 < k \<or> i = 0" "i \<le> length (chunk_content (snd (hd (x # es))))"
      using un assms(4,5) by simp_all
    from offset_walk_found [OF ok this] obtain pre' e es' j where *: "x # es = pre' @ e # es'"
      "offset_walk (x # es) (int i) (int k) = Some \<lparr>element = Some e, bufIndex = j\<rparr>"
      "stream_at (e # es') j = drop k (stream_at (x # es) i)" "j \<le> length (chunk_content (snd e))"
      by blast
    have l': "dataEvents r = (pre @ pre') @ e # es'" using l(1) *(1) by simp
    have "elem_chain (dataEvents r) (Some e) = e # es'"
      unfolding l' using d *(1) by (intro elem_chain_at) simp
    moreover have "position_ok (dataEvents r) (Some \<lparr>element = Some e, bufIndex = j\<rparr>)"
      using ok *(1,4) l' by (intro position_okI) auto
    ultimately show ?thesis using True off * un by (simp add: stream_from_def)
  next
    case False
    then show ?thesis using off offset_walk_None [OF ok, of i k] assms(4,5) un by simp
  qed
qed

theorem OffsetPosition_forward_witness:
  "\<exists>p. OffsetPosition example_buffer (int 2) = Inr (Some p) \<and>
     stream_from (dataEvents example_buffer) (Some p) = [12]"
proof -
  have "(0, example_chunk 1 0 [10, 11]) \<in> set (dataEvents example_buffer)"
    by (simp add: example_buffer_def Let_def)
  then show ?thesis
    using OffsetPosition_forward [of example_buffer "(0, example_chunk 1 0 [10, 11])" 0 2] example_buffer_ok
    by (auto simp: reading_ok_def)
qed

lemma chain_size_stream:
  assumes "\<forall>x \<in> set es. chunk_ok (snd x)" "es \<noteq> [] \<longrightarrow> i \<le> length (chunk_content (snd (hd es)))"
  shows "chain_size es (int i) = int (length (stream_at es i))"
proof -
  have "(\<Sum>x \<leftarrow> xs. BufferLen (snd x)) = int (length (contents xs))" if "\<forall>x \<in> set xs. chunk_ok (snd x)" for xs
    using that by (induction xs) (simp_all add: BufferLen_content)
  then show ?thesis using assms by (cases es) (simp_all add: chain_size_def BufferLen_content of_nat_diff)
qed

text \<open>
  on a buffer whose head is at index \<open>i\<close> of the first chunk, \<^verbatim>\<open>DataSize\<close> is the number of bytes
  from the head on, but \<^verbatim>\<open>Len\<close> adds the length of the head chunk once per chunk and is wrong as soon
  as the chunks differ in length.
\<close>

theorem Len_counts_the_head_chunk:
  assumes "chunks_ok (dataEvents r)" and "dataEvents r = e # es"
    and "buf_head r = Some \<lparr>element = Some e, bufIndex = i\<rparr>" and "i \<le> length (chunk_content (snd e))"
  shows "DataSize (Some r) = (Some r, int (length (drop i (chunk_content (snd e)) @ contents es))) \<and>
    Buffer_Len (Some r) = int (Suc (length es)) * int (length (chunk_content (snd e))) - int i"
proof -
  have ok: "\<forall>x \<in> set (e # es). chunk_ok (snd x)" using assms(1,2) by (simp add: chunks_ok_def)
  have "(\<Sum>j \<leftarrow> [0..<Suc n]. c - (if j = 0 then int i else 0)) = int (Suc n) * c - int i" for n c
    by (induction n) (simp_all add: algebra_simps)
  then show ?thesis
    using assms(2-4) ok chain_size_stream [OF ok, of i] BufferLen_content [of "snd e"]
    by (simp add: DataSize_def Buffer_Len_def elem_chain_front del: upt_Suc cong: if_cong)
qed

theorem Len_counts_the_head_chunk_witness:
  "DataSize (Some example_buffer) = (Some example_buffer, 3) \<and> Buffer_Len (Some example_buffer) = 4"
  using Len_counts_the_head_chunk [of example_buffer "(0, example_chunk 1 0 [10, 11])" "[(1, example_chunk 1 1 [12])]" 0]
  by (simp add: example_buffer_def example_chunk_def NewBuffer_def chunks_ok_def chunk_ok_def chunk_content_def Let_def)

text \<open>
  \<^verbatim>\<open>SkipCurrentElement\<close> resets the index of the current position and not of the head. The next
  reading therefore starts in the following chunk at the index the head had in the skipped one.
\<close>

theorem SkipCurrentElement_keeps_index:
  assumes "buf_head r = Some h" and "buf_current r = Some \<lparr>element = Some x, bufIndex = i\<rparr>"
    and "elem_next (dataEvents r) (fst x) = Some y" and "\<not> shouldResetPosition r" and "dataEvents r \<noteq> []"
  shows "\<exists>r'. SkipCurrentElement r = Inr (r', False) \<and>
    buf_current (fst (PrepareForReading r')) = Some \<lparr>element = Some y, bufIndex = bufIndex h\<rparr>"
  using assms by (simp add: SkipCurrentElement_def nextElement_def PrepareForReading_def Prepare_positions_def Let_def)

theorem SkipCurrentElement_keeps_index_witness:
  "\<exists>r'. SkipCurrentElement (example_buffer\<lparr>buf_head :=
        Some \<lparr>element = Some (0, example_chunk 1 0 [10, 11]), bufIndex = 1\<rparr>\<rparr>) = Inr (r', False) \<and>
     buf_current (fst (PrepareForReading r')) = Some \<lparr>element = Some (1, example_chunk 1 1 [12]), bufIndex = 1\<rparr>"
  using SkipCurrentElement_keeps_index [of "example_buffer\<lparr>buf_head :=
        Some \<lparr>element = Some (0, example_chunk 1 0 [10, 11]), bufIndex = 1\<rparr>\<rparr>"
      "\<lparr>element = Some (0, example_chunk 1 0 [10, 11]), bufIndex = 1\<rparr>" "(0, example_chunk 1 0 [10, 11])" 0
      "(1, example_chunk 1 1 [12])"]
  by (simp add: example_buffer_def NewBuffer_def Let_def)

end
