(* ===== verification/Ztunnel_Decode.thy ===== *)
theory Ztunnel_Decode
  imports Socket_Events
begin

text \<open>
  Reading connection identities out of a running ztunnel: the offsets of its \<^verbatim>\<open>ConnectionResult\<close>
  (\<^verbatim>\<open>pkg/tools/ztunnel/offsets.go\<close>), the decoding of a raw window or of the compact event the probe
  sends once the offsets are known (\<^verbatim>\<open>collector/ztunnel/ztunnel_identity_decode.go\<close>), the extraction of
  the compact event in the probe itself (\<^verbatim>\<open>bpf/accesslog/ambient/ztunnel.c\<close>), and the calibration of
  the offsets from samples (\<^verbatim>\<open>ztunnel_offsets.go\<close>). Offsets are integers, -1 for a field that was not
  located. The memory of the process is an argument, as are the operations of the LRU cache of decoded
  strings, which is a package outside the repository.
\<close>

section \<open>Identities and offsets\<close>

record WorkloadIdentity =
  wi_Cluster :: string
  wi_Namespace :: string
  wi_ServiceAccount :: string

abbreviation OffsetAbsent :: int where "OffsetAbsent \<equiv> -1"

datatype OffsetSource = OffsetSourceDWARF | OffsetSourceTable | OffsetSourceCalibrated

record Offsets =
  of_Source :: OffsetSource
  of_Window :: int
  of_Src :: int
  of_Dst :: int
  of_HboneTarget :: int
  of_HasDirection :: bool
  of_Reporter :: int
  of_SecurityPolicy :: int
  of_SourcePrincipal :: int
  of_DestinationPrincipal :: int
  of_SourceNamespace :: int
  of_DestinationNamespace :: int
  of_SourceCluster :: int
  of_DestinationCluster :: int
  of_IdentitySpiffeSize :: int
  of_IdentityTrustDomain :: int
  of_IdentityNamespace :: int
  of_IdentityServiceAccount :: int

definition maxWindow :: int where "maxWindow = 2048"
definition IdentitySpiffeSize :: int where "IdentitySpiffeSize = 24"
definition ZTunnelConnectionResultWindow :: nat where "ZTunnelConnectionResultWindow = 512"

definition pointer_field_ok :: "int \<Rightarrow> int \<times> int \<times> bool \<Rightarrow> bool" where
  "pointer_field_ok window = (\<lambda>(off, size, required).
     off = OffsetAbsent \<and> \<not> required \<or> \<not> (off < 0 \<or> off + size > window) \<and> off mod 8 = 0)"

definition validatePointerFields :: "Offsets \<Rightarrow> int \<Rightarrow> bool" where
  "validatePointerFields ofs spiffeSize = list_all (pointer_field_ok (of_Window ofs))
     [(of_Src ofs, 8, True), (of_DestinationPrincipal ofs, spiffeSize, True), (of_Dst ofs, 8, False),
      (of_HboneTarget ofs, 8, False), (of_SourcePrincipal ofs, spiffeSize, False), (of_SourceNamespace ofs, 8, False),
      (of_DestinationNamespace ofs, 8, False), (of_SourceCluster ofs, 8, False), (of_DestinationCluster ofs, 8, False)]"

definition validateDirectionEnums :: "Offsets \<Rightarrow> bool" where
  "validateDirectionEnums ofs = list_all (\<lambda>off. off = OffsetAbsent \<or> \<not> (off < 0 \<or> off \<ge> of_Window ofs))
     [of_Reporter ofs, of_SecurityPolicy ofs]"

fun identity_members_ok :: "int \<Rightarrow> int set \<Rightarrow> int list \<Rightarrow> bool" where
  "identity_members_ok spiffeSize ids [] = True"
| "identity_members_ok spiffeSize ids (off # offs) =
     (\<not> (off < 0 \<or> off + 8 > spiffeSize) \<and> off mod 8 = 0 \<and> off \<notin> ids \<and>
      identity_members_ok spiffeSize (insert off ids) offs)"

definition validateIdentityMembers :: "Offsets \<Rightarrow> int \<Rightarrow> bool" where
  "validateIdentityMembers ofs spiffeSize =
     identity_members_ok spiffeSize {} [of_IdentityTrustDomain ofs, of_IdentityNamespace ofs, of_IdentityServiceAccount ofs]"

definition Validate :: "Offsets \<Rightarrow> bool" where
  "Validate ofs \<longleftrightarrow> \<not> (of_Window ofs \<le> 0 \<or> of_Window ofs > maxWindow) \<and>
     (let spiffeSize = (if of_IdentitySpiffeSize ofs \<le> 0 then IdentitySpiffeSize else of_IdentitySpiffeSize ofs)
      in validatePointerFields ofs spiffeSize \<and> validateDirectionEnums ofs \<and> validateIdentityMembers ofs spiffeSize)"

section \<open>Reading a window\<close>

definition readWindowByte :: "u8 list \<Rightarrow> int \<Rightarrow> u8 option" where
  "readWindowByte window off = (if off < 0 \<or> off \<ge> int (length window) then None else Some (window ! nat off))"

definition slice_at :: "u8 list \<Rightarrow> int \<Rightarrow> nat \<Rightarrow> u8 list" where
  "slice_at window off n = take n (drop (nat off) window)"

definition readPointer :: "u8 list \<Rightarrow> int \<Rightarrow> u64" where
  "readPointer window off = (if off < 0 \<or> off + 8 > int (length window) then 0 else le_word (slice_at window off 8))"

text \<open>The dotted form of four octets, most significant first.\<close>

definition dotted :: "nat list \<Rightarrow> string" where
  "dotted octets = str_join ''.'' (map dec_digits octets)"

definition decodeSockAddrV4 :: "u8 list \<Rightarrow> int \<Rightarrow> (string \<times> u16) option" where
  "decodeSockAddrV4 window off =
     (if off < 0 \<or> off + 8 > int (length window) then None
      else let b = slice_at window (off + 2) 4; port = le_word (slice_at window (off + 6) 2) in
        if list_all (\<lambda>x. x = 0) b then None
        else if port = 0 then None
        else Some (dotted (map unat b), port))"

section \<open>Strings in the memory of the process\<close>

type_synonym memory_reader = "u64 \<Rightarrow> nat \<Rightarrow> u8 list option"

record 'l lru_ops =
  lru_get :: "u64 \<Rightarrow> 'l \<Rightarrow> string option \<times> 'l"
  lru_add :: "u64 \<Rightarrow> string \<Rightarrow> 'l \<Rightarrow> 'l"

definition arcStrDataOffset :: nat where "arcStrDataOffset = 16"
definition arcStrMaxLen :: nat where "arcStrMaxLen = 256"

definition isPlausibleIdentityBytes :: "u8 list \<Rightarrow> bool" where
  "isPlausibleIdentityBytes b = list_all (\<lambda>c. \<not> (c < 0x20 \<or> c > 0x7e)) b"

definition bytes_string :: "u8 list \<Rightarrow> string" where
  "bytes_string b = map (\<lambda>c. char_of (unat c)) b"

text \<open>The string an \<^verbatim>\<open>ArcStr\<close> pointer leads to when it is not in the cache.\<close>

definition read_arc_str :: "memory_reader \<Rightarrow> u64 \<Rightarrow> string option" where
  "read_arc_str mem ptr = (case mem ptr arcStrDataOffset of
      None \<Rightarrow> None
    | Some header \<Rightarrow>
        let strLen = drop_bit 1 (le_word (take 8 header) :: u64) in
        if strLen = 0 \<or> strLen > of_nat arcStrMaxLen then None
        else case mem (ptr + of_nat arcStrDataOffset) (unat strLen) of
          None \<Rightarrow> None
        | Some data \<Rightarrow> if isPlausibleIdentityBytes data then Some (bytes_string data) else None)"

definition decodeArcStr :: "'l lru_ops \<Rightarrow> memory_reader \<Rightarrow> u64 \<Rightarrow> 'l \<Rightarrow> string option \<times> 'l" where
  "decodeArcStr L mem ptr cache =
     (if ptr = 0 then (Some [], cache)
      else if ptr mod 8 \<noteq> 0 then (None, cache)
      else case lru_get L ptr cache of
        (Some v, cache') \<Rightarrow> (Some v, cache')
      | (None, cache') \<Rightarrow>
          (case read_arc_str mem ptr of
             None \<Rightarrow> (None, cache')
           | Some s \<Rightarrow> (Some s, lru_add L ptr s cache')))"

definition decodeIdentityFromPointers ::
  "'l lru_ops \<Rightarrow> memory_reader \<Rightarrow> u64 \<Rightarrow> u64 \<Rightarrow> u64 \<Rightarrow> u64 \<Rightarrow> 'l \<Rightarrow> WorkloadIdentity option \<times> 'l" where
  "decodeIdentityFromPointers L mem principalNsPtr principalSaPtr namespaceLabelPtr clusterPtr c0 =
     (let (ns, c1) = decodeArcStr L mem principalNsPtr c0;
          (sa, c2) = decodeArcStr L mem principalSaPtr c1;
          (namespace, account) = (case (ns, sa) of (Some n, Some a) \<Rightarrow> (n, a) | _ \<Rightarrow> ([], []));
          (namespace', c3) =
            (if namespace = [] then (case decodeArcStr L mem namespaceLabelPtr c2 of
                 (Some v, c) \<Rightarrow> (v, c) | (None, c) \<Rightarrow> (namespace, c))
             else (namespace, c2));
          (cluster, c4) = (case decodeArcStr L mem clusterPtr c3 of (Some v, c) \<Rightarrow> (v, c) | (None, c) \<Rightarrow> ([], c))
      in (if namespace' = [] \<and> account = [] \<and> cluster = [] then None
          else Some \<lparr>wi_Cluster = cluster, wi_Namespace = namespace', wi_ServiceAccount = account\<rparr>, c4))"

section \<open>Samples\<close>

record ztunnelProbeSample =
  ps_SrcIP :: string
  ps_SrcPort :: u16
  ps_DstIP :: string
  ps_DstPort :: u16
  ps_Outbound :: bool
  ps_DirectionKnown :: bool
  ps_MutualTLS :: bool
  ps_Source :: "WorkloadIdentity option"
  ps_Destination :: "WorkloadIdentity option"

definition decodeIdentity ::
  "'l lru_ops \<Rightarrow> Offsets \<Rightarrow> u8 list \<Rightarrow> int \<Rightarrow> int \<Rightarrow> int \<Rightarrow> memory_reader \<Rightarrow> 'l \<Rightarrow> WorkloadIdentity option \<times> 'l" where
  "decodeIdentity L ofs window principalOffset clusterOffset namespaceOffset mem cache =
     decodeIdentityFromPointers L mem
       (readPointer window (principalOffset + of_IdentityNamespace ofs))
       (readPointer window (principalOffset + of_IdentityServiceAccount ofs))
       (readPointer window namespaceOffset)
       (readPointer window clusterOffset) cache"

text \<open>\<open>None\<close> stands for the errors of \<^verbatim>\<open>Decode\<close>: a short window, no usable source, no identity.\<close>

definition Decode :: "'l lru_ops \<Rightarrow> Offsets \<Rightarrow> u8 list \<Rightarrow> memory_reader \<Rightarrow> 'l \<Rightarrow> ztunnelProbeSample option \<times> 'l" where
  "Decode L ofs window mem cache =
     (if int (length window) < of_Window ofs then (None, cache)
      else case decodeSockAddrV4 window (of_Src ofs) of
        None \<Rightarrow> (None, cache)
      | Some (srcIP, srcPort) \<Rightarrow>
          (let (dstIP, dstPort) = (case decodeSockAddrV4 window (of_Dst ofs) of Some d \<Rightarrow> d | None \<Rightarrow> ([], 0));
               outbound = (case readWindowByte window (of_Reporter ofs) of Some b \<Rightarrow> b = 0 | None \<Rightarrow> False);
               mtls = (case readWindowByte window (of_SecurityPolicy ofs) of Some b \<Rightarrow> b = 1 | None \<Rightarrow> True);
               (src, c1) = decodeIdentity L ofs window (of_SourcePrincipal ofs) (of_SourceCluster ofs) (of_SourceNamespace ofs) mem cache;
               (dst, c2) = decodeIdentity L ofs window (of_DestinationPrincipal ofs) (of_DestinationCluster ofs)
                 (of_DestinationNamespace ofs) mem c1
           in (if src = None \<and> dst = None then None
               else Some \<lparr>ps_SrcIP = srcIP, ps_SrcPort = srcPort, ps_DstIP = dstIP, ps_DstPort = dstPort,
                  ps_Outbound = outbound, ps_DirectionKnown = (of_Reporter ofs \<noteq> OffsetAbsent), ps_MutualTLS = mtls,
                  ps_Source = src, ps_Destination = dst\<rparr>, c2)))"

section \<open>The compact event\<close>

definition formatZTunnelIPv4 :: "u32 \<Rightarrow> string" where
  "formatZTunnelIPv4 ip =
     dotted [unat (drop_bit 24 ip), unat (drop_bit 16 ip AND 0xff), unat (drop_bit 8 ip AND 0xff), unat (ip AND 0xff)]"

text \<open>\<open>policyKnown\<close>: the decoder is installed and its offsets locate the security policy.\<close>

definition decodeCompact ::
  "'l lru_ops \<Rightarrow> bool \<Rightarrow> ZTunnelConnectionResultCompactEvent \<Rightarrow> memory_reader \<Rightarrow> 'l \<Rightarrow> ztunnelProbeSample option \<times> 'l" where
  "decodeCompact L policyKnown e mem cache =
     (if zc_SrcIP e = 0 \<or> zc_SrcPort e = 0 then (None, cache)
      else
       (let (dstIP, dstPort) = (if zc_DstIP e \<noteq> 0 \<and> zc_DstPort e \<noteq> 0 then (formatZTunnelIPv4 (zc_DstIP e), zc_DstPort e) else ([], 0));
            outbound = (zc_HasDirection e \<noteq> 0 \<and> zc_Reporter e = 0);
            mtls = (if policyKnown then zc_SecurityPolicy e = 1 else True);
            (src, c1) = decodeIdentityFromPointers L mem (zc_SrcPrincipalNsPtr e) (zc_SrcPrincipalSaPtr e)
              (zc_SrcNamespacePtr e) (zc_SrcClusterPtr e) cache;
            (dst, c2) = decodeIdentityFromPointers L mem (zc_DstPrincipalNsPtr e) (zc_DstPrincipalSaPtr e)
              (zc_DstNamespacePtr e) (zc_DstClusterPtr e) c1
        in (if src = None \<and> dst = None then None
            else Some \<lparr>ps_SrcIP = formatZTunnelIPv4 (zc_SrcIP e), ps_SrcPort = zc_SrcPort e, ps_DstIP = dstIP, ps_DstPort = dstPort,
               ps_Outbound = outbound, ps_DirectionKnown = (zc_HasDirection e \<noteq> 0), ps_MutualTLS = mtls,
               ps_Source = src, ps_Destination = dst\<rparr>, c2)))"

definition compactShippedIdentityPointer :: "ZTunnelConnectionResultCompactEvent \<Rightarrow> bool" where
  "compactShippedIdentityPointer e \<longleftrightarrow>
     zc_SrcPrincipalNsPtr e \<noteq> 0 \<or> zc_SrcPrincipalSaPtr e \<noteq> 0 \<or> zc_DstPrincipalNsPtr e \<noteq> 0 \<or> zc_DstPrincipalSaPtr e \<noteq> 0 \<or>
     zc_SrcNamespacePtr e \<noteq> 0 \<or> zc_DstNamespacePtr e \<noteq> 0 \<or> zc_SrcClusterPtr e \<noteq> 0 \<or> zc_DstClusterPtr e \<noteq> 0"

section \<open>The probe\<close>

text \<open>
  The memory around the \<^verbatim>\<open>ConnectionResult\<close>, by the distance from its address; a byte that cannot be read
  is \<open>None\<close>. The configuration that the probe reads is the one \<^verbatim>\<open>pushOffsetsConfig\<close> writes, the offsets
  themselves.
\<close>

definition get_socket_addr_ip_in_ztunnel :: "memory_image \<Rightarrow> int \<Rightarrow> (u32 \<times> u16) option" where
  "get_socket_addr_ip_in_ztunnel img off =
     map_option (\<lambda>s.
       (push_bit 24 (ucast (s ! 2)) OR push_bit 16 (ucast (s ! 3)) OR push_bit 8 (ucast (s ! 4)) OR ucast (s ! 5),
        push_bit 8 (ucast (s ! 7)) OR ucast (s ! 6)))
     (probe_read img off 8)"

definition read_ztunnel_compact_ptr :: "memory_image \<Rightarrow> int \<Rightarrow> u64" where
  "read_ztunnel_compact_ptr img off =
     (if off < 0 then 0 else case probe_read img off 8 of None \<Rightarrow> 0 | Some b \<Rightarrow> le_word b)"

definition probe_byte :: "memory_image \<Rightarrow> int \<Rightarrow> u8" where
  "probe_byte img off = (if off \<ge> 0 then case probe_read img off 1 of None \<Rightarrow> 0 | Some b \<Rightarrow> hd b else 0)"

definition connection_result_record_internal_compact ::
  "u32 \<Rightarrow> Offsets \<Rightarrow> memory_image \<Rightarrow> ZTunnelConnectionResultCompactEvent" where
  "connection_result_record_internal_compact pid cfg self =
     (let (src_ip, src_port) = (case get_socket_addr_ip_in_ztunnel self (of_Src cfg) of Some a \<Rightarrow> a | None \<Rightarrow> (0, 0));
          (dst_ip, dst_port) = (case get_socket_addr_ip_in_ztunnel self (of_Dst cfg) of Some a \<Rightarrow> a | None \<Rightarrow> (0, 0));
          src_p = of_SourcePrincipal cfg; dst_p = of_DestinationPrincipal cfg
      in \<lparr>zc_PID = pid, zc_SrcIP = src_ip, zc_DstIP = dst_ip, zc_SrcPort = src_port, zc_DstPort = dst_port,
          zc_Reporter = probe_byte self (of_Reporter cfg), zc_SecurityPolicy = probe_byte self (of_SecurityPolicy cfg),
          zc_HasDirection = (if of_Reporter cfg \<ge> 0 then 1 else 0), zc_Pad0 = 0, zc_Pad1 = 0,
          zc_SrcPrincipalNsPtr = read_ztunnel_compact_ptr self (if src_p < 0 then -1 else src_p + of_IdentityNamespace cfg),
          zc_SrcPrincipalSaPtr = read_ztunnel_compact_ptr self (if src_p < 0 then -1 else src_p + of_IdentityServiceAccount cfg),
          zc_DstPrincipalNsPtr = read_ztunnel_compact_ptr self (if dst_p < 0 then -1 else dst_p + of_IdentityNamespace cfg),
          zc_DstPrincipalSaPtr = read_ztunnel_compact_ptr self (if dst_p < 0 then -1 else dst_p + of_IdentityServiceAccount cfg),
          zc_SrcNamespacePtr = read_ztunnel_compact_ptr self (of_SourceNamespace cfg),
          zc_DstNamespacePtr = read_ztunnel_compact_ptr self (of_DestinationNamespace cfg),
          zc_SrcClusterPtr = read_ztunnel_compact_ptr self (of_SourceCluster cfg),
          zc_DstClusterPtr = read_ztunnel_compact_ptr self (of_DestinationCluster cfg)\<rparr>)"

text \<open>Without offsets the probe sends the whole window, or nothing when it cannot be read.\<close>

definition connection_result_record_internal_window :: "memory_image \<Rightarrow> u8 list option" where
  "connection_result_record_internal_window self = probe_read self 0 ZTunnelConnectionResultWindow"

section \<open>Calibration\<close>

definition ztunnelCalibrationAgreements :: nat where "ztunnelCalibrationAgreements = 3"
definition ztunnelCalibrationMaxSamples :: nat where "ztunnelCalibrationMaxSamples = 500"

text \<open>The votes by candidate; the code keys them by the printed form of the candidate.\<close>

record calibrator =
  cal_window :: nat
  cal_votes :: "(Offsets \<times> nat) list"
  cal_observed :: nat

definition newZTunnelOffsetCalibrator :: "nat \<Rightarrow> calibrator" where
  "newZTunnelOffsetCalibrator window = \<lparr>cal_window = window, cal_votes = [], cal_observed = 0\<rparr>"

definition Exhausted :: "calibrator \<Rightarrow> bool" where
  "Exhausted c \<longleftrightarrow> cal_observed c \<ge> ztunnelCalibrationMaxSamples"

text \<open>The slots \<^verbatim>\<open>0, 8, 16, ...\<close> that leave eight bytes before the end of the window.\<close>

definition slots :: "nat \<Rightarrow> int list" where
  "slots window = map (\<lambda>i. int (8 * i)) [0..<window div 8]"

fun anchor :: "int list \<Rightarrow> u8 list \<Rightarrow> (string \<times> WorkloadIdentity) list \<Rightarrow> (string \<Rightarrow> u16 \<Rightarrow> string) \<Rightarrow> (int \<times> WorkloadIdentity) option" where
  "anchor [] window truth realDest = None"
| "anchor (off # offs) window truth realDest =
     (case decodeSockAddrV4 window off of
        None \<Rightarrow> anchor offs window truth realDest
      | Some (ip, port) \<Rightarrow>
          (let destIP = realDest ip port in
           if destIP = [] then anchor offs window truth realDest
           else case map_of truth destIP of
             None \<Rightarrow> anchor offs window truth realDest
           | Some i \<Rightarrow> if wi_Namespace i = [] \<or> wi_ServiceAccount i = [] then anchor offs window truth realDest
               else Some (off, i)))"

text \<open>The strings found in the window, by ascending offset.\<close>

fun scanStrings :: "'l lru_ops \<Rightarrow> int list \<Rightarrow> u8 list \<Rightarrow> memory_reader \<Rightarrow> 'l \<Rightarrow> (int \<times> string) list \<times> 'l" where
  "scanStrings L [] window mem cache = ([], cache)"
| "scanStrings L (off # offs) window mem cache =
     (let ptr = readPointer window off in
      if ptr = 0 then scanStrings L offs window mem cache
      else let (r, c1) = decodeArcStr L mem ptr cache; (found, c2) = scanStrings L offs window mem c1
        in (case r of Some s \<Rightarrow> if s \<noteq> [] then (off, s) # found else found | None \<Rightarrow> found, c2))"

definition string_at :: "(int \<times> string) list \<Rightarrow> int \<Rightarrow> string" where
  "string_at strs off = (case map_of strs off of Some s \<Rightarrow> s | None \<Rightarrow> [])"

record identityMembers =
  im_trustDomain :: int
  im_namespace :: int
  im_serviceAccount :: int

definition member_slot :: "(int \<times> string) list \<Rightarrow> int \<Rightarrow> string \<Rightarrow> string \<Rightarrow> int \<Rightarrow> identityMembers \<Rightarrow> identityMembers" where
  "member_slot strs base namespace serviceAccount slot m =
     (if string_at strs (base + slot) = namespace then m\<lparr>im_namespace := slot\<rparr>
      else if string_at strs (base + slot) = serviceAccount then m\<lparr>im_serviceAccount := slot\<rparr> else m)"

definition trust_slot :: "int \<Rightarrow> identityMembers \<Rightarrow> identityMembers" where
  "trust_slot slot m = (if slot \<noteq> im_namespace m \<and> slot \<noteq> im_serviceAccount m then m\<lparr>im_trustDomain := slot\<rparr> else m)"

fun identity_triple ::
  "int list \<Rightarrow> (int \<times> string) list \<Rightarrow> nat \<Rightarrow> string \<Rightarrow> string \<Rightarrow> (int \<times> identityMembers) option" where
  "identity_triple [] strs window namespace serviceAccount = None"
| "identity_triple (base # bases) strs window namespace serviceAccount =
     (if base + IdentitySpiffeSize > int window then identity_triple bases strs window namespace serviceAccount
      else let m = fold (member_slot strs base namespace serviceAccount) [0, 8, 16]
             \<lparr>im_trustDomain = OffsetAbsent, im_namespace = OffsetAbsent, im_serviceAccount = OffsetAbsent\<rparr> in
        if im_namespace m = OffsetAbsent \<or> im_serviceAccount m = OffsetAbsent \<or> im_namespace m = im_serviceAccount m
        then identity_triple bases strs window namespace serviceAccount
        else Some (base, fold trust_slot [0, 8, 16] m))"

definition findIdentityTriple ::
  "(int \<times> string) list \<Rightarrow> nat \<Rightarrow> string \<Rightarrow> string \<Rightarrow> (int \<times> identityMembers) option" where
  "findIdentityTriple strs window namespace serviceAccount =
     identity_triple (map fst strs) strs window namespace serviceAccount"

definition nearest_step :: "int \<Rightarrow> string \<Rightarrow> int \<times> string \<Rightarrow> int \<times> int \<Rightarrow> int \<times> int" where
  "nearest_step prin v = (\<lambda>(off, s) (best, bestDistance).
     if off \<ge> prin \<and> off < prin + IdentitySpiffeSize then (best, bestDistance)
     else if s \<noteq> v then (best, bestDistance)
     else let distance = (if off - prin < 0 then - (off - prin) else off - prin)
       in if best = OffsetAbsent \<or> distance < bestDistance then (off, distance) else (best, bestDistance))"

definition findNearestLabel :: "(int \<times> string) list \<Rightarrow> int \<Rightarrow> string \<Rightarrow> int" where
  "findNearestLabel strs prin v = fst (fold (nearest_step prin v) strs (OffsetAbsent, 0))"

definition findClusterLabel :: "(int \<times> string) list \<Rightarrow> int \<Rightarrow> string \<Rightarrow> int" where
  "findClusterLabel strs prin cluster =
     (if cluster = [] then OffsetAbsent else findNearestLabel strs prin cluster)"

definition deriveFromSample ::
  "'l lru_ops \<Rightarrow> nat \<Rightarrow> u8 list \<Rightarrow> memory_reader \<Rightarrow> (string \<times> WorkloadIdentity) list \<Rightarrow> (string \<Rightarrow> u16 \<Rightarrow> string) \<Rightarrow> 'l
     \<Rightarrow> Offsets option \<times> 'l" where
  "deriveFromSample L w window mem truth realDest cache = (case anchor (slots w) window truth realDest of
      None \<Rightarrow> (None, cache)
    | Some (srcOffset, destination) \<Rightarrow>
        (case scanStrings L (slots w) window mem cache of
           (strs, cache') \<Rightarrow>
             (if strs = [] then None
              else case findIdentityTriple strs w (wi_Namespace destination) (wi_ServiceAccount destination) of
                None \<Rightarrow> None
              | Some (prin, m) \<Rightarrow>
                  Some \<lparr>of_Source = OffsetSourceCalibrated, of_Window = int w, of_Src = srcOffset, of_Dst = OffsetAbsent,
                    of_HboneTarget = OffsetAbsent, of_HasDirection = False, of_Reporter = OffsetAbsent,
                    of_SecurityPolicy = OffsetAbsent, of_SourcePrincipal = OffsetAbsent, of_DestinationPrincipal = prin,
                    of_SourceNamespace = OffsetAbsent,
                    of_DestinationNamespace = findNearestLabel strs prin (wi_Namespace destination),
                    of_SourceCluster = OffsetAbsent,
                    of_DestinationCluster = findClusterLabel strs prin (wi_Cluster destination),
                    of_IdentitySpiffeSize = IdentitySpiffeSize, of_IdentityTrustDomain = im_trustDomain m,
                    of_IdentityNamespace = im_namespace m, of_IdentityServiceAccount = im_serviceAccount m\<rparr>,
              cache')))"

fun vote :: "Offsets \<Rightarrow> (Offsets \<times> nat) list \<Rightarrow> nat \<times> (Offsets \<times> nat) list" where
  "vote ofs [] = (1, [(ofs, 1)])"
| "vote ofs ((ofs', n) # es) =
     (if ofs' = ofs then (n + 1, (ofs', n + 1) # es) else let (m, es') = vote ofs es in (m, (ofs', n) # es'))"

definition Observe ::
  "'l lru_ops \<Rightarrow> u8 list \<Rightarrow> memory_reader \<Rightarrow> (string \<times> WorkloadIdentity) list option \<Rightarrow> (string \<Rightarrow> u16 \<Rightarrow> string) \<Rightarrow>
     calibrator \<times> 'l \<Rightarrow> Offsets option \<times> calibrator \<times> 'l" where
  "Observe L window mem truth realDest = (\<lambda>(c, cache). case truth of
      None \<Rightarrow> (None, c, cache)
    | Some byIP \<Rightarrow>
        if byIP = [] \<or> cal_observed c \<ge> ztunnelCalibrationMaxSamples then (None, c, cache)
        else let c1 = c\<lparr>cal_observed := cal_observed c + 1\<rparr> in
          (case deriveFromSample L (cal_window c) window mem byIP realDest cache of
             (None, cache') \<Rightarrow> (None, c1, cache')
           | (Some candidate, cache') \<Rightarrow>
               if \<not> Validate candidate then (None, c1, cache')
               else let (votes, es) = vote candidate (cal_votes c1); c2 = c1\<lparr>cal_votes := es\<rparr>
                 in (if votes < ztunnelCalibrationAgreements then None else Some candidate, c2, cache')))"

end
