(* ===== verification/Ztunnel_Decode_Props.thy ===== *)
theory Ztunnel_Decode_Props
  imports Ztunnel_Decode
begin

text \<open>
  The two ways in which identities leave ztunnel agree: for offsets that pass validation and locate
  the destination and the source principal, the compact event of the probe decodes to the same sample
  as the whole window. Where one of the two is not located they do not agree. Calibrated offsets are
  valid and agreed upon by enough samples.
\<close>

section \<open>What the probe reads\<close>

lemma window_bytes:
  "connection_result_record_internal_window img = Some w \<longleftrightarrow> length w = 512 \<and> (\<forall>i < 512. img (int i) = Some (w ! i))"
  by (simp add: connection_result_record_internal_window_def ZTunnelConnectionResultWindow_def probe_read_Some)

lemma length_slice_at: "0 \<le> off \<Longrightarrow> nat off + n \<le> length w \<Longrightarrow> length (slice_at w off n) = n"
  by (simp add: slice_at_def)

lemma nth_slice_at: "0 \<le> off \<Longrightarrow> nat off + n \<le> length w \<Longrightarrow> i < n \<Longrightarrow> slice_at w off n ! i = w ! (nat off + i)"
  by (simp add: slice_at_def)

lemma probe_slice:
  assumes "connection_result_record_internal_window img = Some w" "0 \<le> off" "off + int n \<le> 512"
  shows "probe_read img off n = Some (slice_at w off n)"
proof -
  have w: "length w = 512" "\<And>i. i < 512 \<Longrightarrow> img (int i) = Some (w ! i)" using assms(1) window_bytes by auto
  have "img (off + int i) = Some (slice_at w off n ! i)" if "i < n" for i
    using w(2) [of "nat off + i"] that assms(2,3) w(1) by (simp add: nth_slice_at)
  then show ?thesis using assms(2,3) w(1) by (auto simp: probe_read_Some slice_at_def)
qed

text \<open>An optional pointer field: absent, or inside the window.\<close>

definition field_in :: "int \<Rightarrow> nat \<Rightarrow> bool" where
  "field_in off n \<longleftrightarrow> 0 \<le> off \<and> off + int n \<le> 512"

lemma pointer_agrees:
  assumes "connection_result_record_internal_window img = Some w" "off = OffsetAbsent \<or> field_in off 8"
  shows "read_ztunnel_compact_ptr img off = readPointer w off"
  using assms probe_slice [of img w off 8] window_bytes [of img w]
  by (auto simp: read_ztunnel_compact_ptr_def readPointer_def field_in_def)

lemma byte_agrees:
  assumes "connection_result_record_internal_window img = Some w" "off = OffsetAbsent \<or> field_in off 1"
  shows "readWindowByte w off = (if off \<ge> 0 then Some (probe_byte img off) else None)"
  using assms probe_slice [of img w off 1] window_bytes [of img w]
  by (auto simp: probe_byte_def readWindowByte_def field_in_def slice_at_def hd_drop_conv_nth take_Suc_conv_app_nth)

section \<open>Addresses\<close>

definition be_ip :: "u8 \<Rightarrow> u8 \<Rightarrow> u8 \<Rightarrow> u8 \<Rightarrow> u32" where
  "be_ip a b c d = push_bit 24 (ucast a) OR push_bit 16 (ucast b) OR push_bit 8 (ucast c) OR ucast d"

lemma be_ip_octets:
  "drop_bit 24 (be_ip a b c d) = ucast a" "drop_bit 16 (be_ip a b c d) AND 0xff = ucast b"
  "drop_bit 8 (be_ip a b c d) AND 0xff = ucast c" "be_ip a b c d AND 0xff = ucast d"
proof -
  have ff: "(0xff :: u32) = mask 8" by (simp add: mask_eq_exp_minus_1)
  have "\<not> bit x n" if "8 \<le> n" for x :: u8 and n using that bit_imp_le_length [of x n] by auto
  then show "drop_bit 24 (be_ip a b c d) = ucast a" "drop_bit 16 (be_ip a b c d) AND 0xff = ucast b"
    "drop_bit 8 (be_ip a b c d) AND 0xff = ucast c" "be_ip a b c d AND 0xff = ucast d"
    unfolding ff be_ip_def take_bit_eq_mask [symmetric]
    by (auto simp: bit_eq_iff bit_or_iff bit_take_bit_iff bit_push_bit_iff bit_drop_bit_eq bit_ucast_iff not_less [symmetric])
qed

lemma unat_ucast_u8: "unat (ucast x :: u32) = unat (x :: u8)"
  using unsigned_less [of x, where 'a = nat] by (simp add: unsigned_ucast_eq take_bit_nat_eq_self)

lemma format_be_ip: "formatZTunnelIPv4 (be_ip a b c d) = dotted [unat a, unat b, unat c, unat d]"
  by (simp add: formatZTunnelIPv4_def be_ip_octets unat_ucast_u8)

lemma be_ip_zero: "be_ip a b c d = 0 \<longleftrightarrow> a = 0 \<and> b = 0 \<and> c = 0 \<and> d = 0"
proof
  assume z: "be_ip a b c d = 0"
  have "ucast x = (0 :: u32) \<Longrightarrow> x = 0" for x :: u8 by (simp add: word_unat_eq_iff unat_ucast_u8)
  then show "a = 0 \<and> b = 0 \<and> c = 0 \<and> d = 0" using be_ip_octets [of a b c d] z by simp
qed (simp add: be_ip_def)

lemma nat_plus_numerals:
  "Suc (Suc (Suc n)) = n + 3" "Suc (n + 3) = n + 4" "Suc (n + 4) = n + 5" "Suc (5 + n) = n + 6" "Suc (n + 6) = n + 7"
  "Suc (6 + n) = n + 7" "5 + n = n + 5" for n :: nat
  by simp_all

lemma take_4: "length xs \<ge> n + 4 \<Longrightarrow> take 4 (drop n xs) = [xs ! n, xs ! (n + 1), xs ! (n + 2), xs ! (n + 3)]"
  by (simp add: list_eq_iff_nth_eq less_Suc_eq numeral_eq_Suc)

lemma take_2: "length xs \<ge> n + 2 \<Longrightarrow> take 2 (drop n xs) = [xs ! n, xs ! (n + 1)]"
  by (simp add: list_eq_iff_nth_eq less_Suc_eq numeral_eq_Suc)

lemma address_agrees:
  assumes "connection_result_record_internal_window img = Some w" "field_in off 8"
  obtains ip port where "get_socket_addr_ip_in_ztunnel img off = Some (ip, port)"
    "decodeSockAddrV4 w off = (if ip = 0 \<or> port = 0 then None else Some (formatZTunnelIPv4 ip, port))"
proof -
  have w: "length w = 512" using assms(1) window_bytes by auto
  let ?k = "nat off"
  have k: "?k + 8 \<le> 512" "0 \<le> off" using assms(2) by (auto simp: field_in_def)
  define ip where "ip = be_ip (w ! (?k + 2)) (w ! (?k + 3)) (w ! (?k + 4)) (w ! (?k + 5))"
  define port :: u16 where "port = push_bit 8 (ucast (w ! (?k + 7))) OR ucast (w ! (?k + 6))"
  have g: "get_socket_addr_ip_in_ztunnel img off = Some (ip, port)"
    using probe_slice [OF assms(1), of off 8] k w
    by (simp add: get_socket_addr_ip_in_ztunnel_def nth_slice_at ip_def port_def be_ip_def)
  have s4: "slice_at w (off + 2) 4 = [w ! (?k + 2), w ! (?k + 3), w ! (?k + 4), w ! (?k + 5)]"
    using take_4 [of "?k + 2" w] k w by (simp add: slice_at_def nat_add_distrib nat_plus_numerals)
  have s2: "slice_at w (off + 6) 2 = [w ! (?k + 6), w ! (?k + 7)]"
    using take_2 [of "?k + 6" w] k w by (simp add: slice_at_def nat_add_distrib nat_plus_numerals)
  have "le_word (slice_at w (off + 6) 2) = port" by (simp add: s2 port_def or.commute)
  then have "decodeSockAddrV4 w off = (if ip = 0 \<or> port = 0 then None else Some (formatZTunnelIPv4 ip, port))"
    using k w by (auto simp: decodeSockAddrV4_def s4 ip_def be_ip_zero format_be_ip)
  with g show ?thesis by (rule that)
qed

section \<open>The two encodings agree\<close>

lemma pointer_field_in:
  assumes "pointer_field_ok win (off, n, req)" "win \<le> 512"
  shows "off = OffsetAbsent \<and> \<not> req \<or> 0 \<le> off \<and> off + n \<le> 512"
  using assms by (auto simp: pointer_field_ok_def)

lemma Validate_fields:
  assumes "Validate ofs" "of_Window ofs \<le> 512"
  shows "field_in (of_Src ofs) 8"
    and "of_Dst ofs = OffsetAbsent \<or> field_in (of_Dst ofs) 8"
    and "of_SourceNamespace ofs = OffsetAbsent \<or> field_in (of_SourceNamespace ofs) 8"
    and "of_DestinationNamespace ofs = OffsetAbsent \<or> field_in (of_DestinationNamespace ofs) 8"
    and "of_SourceCluster ofs = OffsetAbsent \<or> field_in (of_SourceCluster ofs) 8"
    and "of_DestinationCluster ofs = OffsetAbsent \<or> field_in (of_DestinationCluster ofs) 8"
    and "of_Reporter ofs = OffsetAbsent \<or> field_in (of_Reporter ofs) 1"
    and "of_SecurityPolicy ofs = OffsetAbsent \<or> field_in (of_SecurityPolicy ofs) 1"
    and "m \<in> {of_IdentityNamespace ofs, of_IdentityServiceAccount ofs} \<Longrightarrow> field_in (of_DestinationPrincipal ofs + m) 8"
    and "m \<in> {of_IdentityNamespace ofs, of_IdentityServiceAccount ofs} \<Longrightarrow> of_SourcePrincipal ofs \<noteq> OffsetAbsent \<Longrightarrow>
      field_in (of_SourcePrincipal ofs + m) 8"
    and "0 \<le> of_DestinationPrincipal ofs" "of_SourcePrincipal ofs \<noteq> OffsetAbsent \<Longrightarrow> 0 \<le> of_SourcePrincipal ofs"
proof -
  define sz where "sz = (if of_IdentitySpiffeSize ofs \<le> 0 then IdentitySpiffeSize else of_IdentitySpiffeSize ofs)"
  have "validatePointerFields ofs sz" and e: "validateDirectionEnums ofs" and i: "validateIdentityMembers ofs sz"
    using assms(1) by (simp_all add: Validate_def sz_def Let_def)
  then have f: "pointer_field_ok (of_Window ofs) (off, n, req)"
    if "(off, n, req) \<in> set [(of_Src ofs, 8, True), (of_DestinationPrincipal ofs, sz, True), (of_Dst ofs, 8, False),
      (of_HboneTarget ofs, 8, False), (of_SourcePrincipal ofs, sz, False), (of_SourceNamespace ofs, 8, False),
      (of_DestinationNamespace ofs, 8, False), (of_SourceCluster ofs, 8, False), (of_DestinationCluster ofs, 8, False)]"
    for off n req
    using that by (simp only: validatePointerFields_def list_all_iff)
  note g = pointer_field_in [OF f assms(2)]
  show "field_in (of_Src ofs) 8" using g [of "of_Src ofs" 8 True] by (simp add: field_in_def)
  show "of_Dst ofs = OffsetAbsent \<or> field_in (of_Dst ofs) 8" using g [of "of_Dst ofs" 8 False] by (simp add: field_in_def)
  show "of_SourceNamespace ofs = OffsetAbsent \<or> field_in (of_SourceNamespace ofs) 8"
    using g [of "of_SourceNamespace ofs" 8 False] by (simp add: field_in_def)
  show "of_DestinationNamespace ofs = OffsetAbsent \<or> field_in (of_DestinationNamespace ofs) 8"
    using g [of "of_DestinationNamespace ofs" 8 False] by (simp add: field_in_def)
  show "of_SourceCluster ofs = OffsetAbsent \<or> field_in (of_SourceCluster ofs) 8"
    using g [of "of_SourceCluster ofs" 8 False] by (simp add: field_in_def)
  show "of_DestinationCluster ofs = OffsetAbsent \<or> field_in (of_DestinationCluster ofs) 8"
    using g [of "of_DestinationCluster ofs" 8 False] by (simp add: field_in_def)
  show "of_Reporter ofs = OffsetAbsent \<or> field_in (of_Reporter ofs) 1"
    "of_SecurityPolicy ofs = OffsetAbsent \<or> field_in (of_SecurityPolicy ofs) 1"
    using e assms(2) by (auto simp: validateDirectionEnums_def field_in_def)
  have m: "0 \<le> m \<and> m + 8 \<le> sz" if "m \<in> {of_IdentityNamespace ofs, of_IdentityServiceAccount ofs}" for m
    using i that by (auto simp: validateIdentityMembers_def)
  show "0 \<le> of_DestinationPrincipal ofs" using g [of "of_DestinationPrincipal ofs" sz True] by simp
  show "0 \<le> of_SourcePrincipal ofs" if "of_SourcePrincipal ofs \<noteq> OffsetAbsent"
    using that g [of "of_SourcePrincipal ofs" sz False] by simp
  show "field_in (of_DestinationPrincipal ofs + m) 8" if "m \<in> {of_IdentityNamespace ofs, of_IdentityServiceAccount ofs}"
    using m [OF that] g [of "of_DestinationPrincipal ofs" sz True] by (simp add: field_in_def)
  show "field_in (of_SourcePrincipal ofs + m) 8" if "m \<in> {of_IdentityNamespace ofs, of_IdentityServiceAccount ofs}"
    "of_SourcePrincipal ofs \<noteq> OffsetAbsent"
    using m [OF that(1)] that(2) g [of "of_SourcePrincipal ofs" sz False] by (simp add: field_in_def)
qed

definition example_offsets :: Offsets where
  "example_offsets = \<lparr>of_Source = OffsetSourceTable, of_Window = 408, of_Src = 0, of_Dst = 32, of_HboneTarget = 64,
     of_HasDirection = True, of_Reporter = 400, of_SecurityPolicy = 401, of_SourcePrincipal = 96,
     of_DestinationPrincipal = 120, of_SourceNamespace = 144, of_DestinationNamespace = 152, of_SourceCluster = 160,
     of_DestinationCluster = 168, of_IdentitySpiffeSize = 24, of_IdentityTrustDomain = 0, of_IdentityNamespace = 8,
     of_IdentityServiceAccount = 16\<rparr>"

definition example_lru :: "unit lru_ops" where
  "example_lru = \<lparr>lru_get = (\<lambda>ptr c. (None, c)), lru_add = (\<lambda>ptr str c. c)\<rparr>"

definition example_image :: memory_image where
  "example_image off = Some (word_of_int off)"

definition example_window :: "u8 list" where
  "example_window = map (\<lambda>i. word_of_nat i) [0..<512]"

lemma example_window_read: "connection_result_record_internal_window example_image = Some example_window"
  by (simp add: window_bytes example_image_def example_window_def)


lemma example_offsets_valid: "Validate example_offsets"
  by (simp add: example_offsets_def Validate_def validatePointerFields_def validateDirectionEnums_def
      validateIdentityMembers_def pointer_field_ok_def maxWindow_def)


section \<open>Offsets that were not located\<close>

text \<open>
  Where the destination address was not located, as in every calibrated set, the two encodings
  disagree. The window is decoded without a destination, but the probe reads an address one byte
  before the structure: its octets are the second to fifth byte of the \<^verbatim>\<open>ConnectionResult\<close> and its
  port the next two. User space takes that for the real destination.
\<close>

theorem absent_destination_is_read:
  assumes "of_Dst ofs = OffsetAbsent" and "img (-1) \<noteq> None" and "connection_result_record_internal_window img = Some w"
  shows "zc_DstIP (connection_result_record_internal_compact pid ofs img) = be_ip (w ! 1) (w ! 2) (w ! 3) (w ! 4) \<and>
    zc_DstPort (connection_result_record_internal_compact pid ofs img) = push_bit 8 (ucast (w ! 6)) OR ucast (w ! 5) \<and>
    decodeSockAddrV4 w (of_Dst ofs) = None"
proof -
  obtain x where x: "img (-1) = Some x" using assms(2) by blast
  have w: "length w = 512" "\<And>i. i < 512 \<Longrightarrow> img (int i) = Some (w ! i)" using assms(3) window_bytes by auto
  have "probe_read img (-1) 8 = Some [x, w ! 0, w ! 1, w ! 2, w ! 3, w ! 4, w ! 5, w ! 6]"
    using x w(2) [of 0] w(2) [of 1] w(2) [of 2] w(2) [of 3] w(2) [of 4] w(2) [of 5] w(2) [of 6]
    by (simp add: probe_read_def upt_conv_Cons)
  then show ?thesis
    by (simp add: connection_result_record_internal_compact_def get_socket_addr_ip_in_ztunnel_def assms(1) be_ip_def
        decodeSockAddrV4_def Let_def split: option.splits)
qed

theorem absent_destination_is_read_witness:
  "zc_DstIP (connection_result_record_internal_compact 1 (example_offsets\<lparr>of_Dst := OffsetAbsent\<rparr>) example_image) = be_ip 1 2 3 4"
  using absent_destination_is_read
    [of "example_offsets\<lparr>of_Dst := OffsetAbsent\<rparr>" example_image example_window 1, OF _ _ example_window_read]
  by (simp add: example_image_def example_window_def)

text \<open>
  Where the source principal was not located, as in every calibrated set, it is the window that is
  misread: the offsets of the members are added to -1, so the pointers to the namespace and the
  account of the source are read from unrelated bytes at the start of the structure, while the probe
  sends null pointers for them.
\<close>

theorem absent_principal_is_read:
  assumes "of_SourcePrincipal ofs = OffsetAbsent"
  shows "decodeIdentity L ofs w (of_SourcePrincipal ofs) cl ns mem cache =
      decodeIdentityFromPointers L mem (readPointer w (of_IdentityNamespace ofs - 1)) (readPointer w (of_IdentityServiceAccount ofs - 1))
        (readPointer w ns) (readPointer w cl) cache \<and>
    zc_SrcPrincipalNsPtr (connection_result_record_internal_compact pid ofs img) = 0 \<and>
    zc_SrcPrincipalSaPtr (connection_result_record_internal_compact pid ofs img) = 0"
  using assms
  by (simp add: decodeIdentity_def connection_result_record_internal_compact_def read_ztunnel_compact_ptr_def Let_def
      split: option.splits)

theorem absent_principal_is_read_witness:
  "decodeIdentity example_lru (example_offsets\<lparr>of_SourcePrincipal := OffsetAbsent\<rparr>) example_window OffsetAbsent (-1) (-1) (\<lambda>_ _. None) ()
    = decodeIdentityFromPointers example_lru (\<lambda>_ _. None) (readPointer example_window 7) (readPointer example_window 15) 
        (readPointer example_window (-1)) (readPointer example_window (-1)) ()"
  using absent_principal_is_read
    [of "example_offsets\<lparr>of_SourcePrincipal := OffsetAbsent\<rparr>" example_lru example_window "-1" "-1" "\<lambda>_ _. None" "()" 1 example_image]
  by (simp add: example_offsets_def)

section \<open>Calibration\<close>

definition members_found :: "(int \<times> string) list \<Rightarrow> int \<Rightarrow> string \<Rightarrow> string \<Rightarrow> identityMembers \<Rightarrow> bool" where
  "members_found strs base ns sa m \<longleftrightarrow>
     (im_namespace m = -1 \<or> im_namespace m \<in> {0, 8, 16} \<and> string_at strs (base + im_namespace m) = ns) \<and>
     (im_serviceAccount m = -1 \<or> im_serviceAccount m \<in> {0, 8, 16} \<and> string_at strs (base + im_serviceAccount m) = sa)"

lemma member_slot_found:
  "members_found strs base ns sa m \<Longrightarrow> slot \<in> {0, 8, 16} \<Longrightarrow> members_found strs base ns sa (member_slot strs base ns sa slot m)"
  by (auto simp: members_found_def member_slot_def)

lemma fold_member_slots:
  "members_found strs base ns sa (fold (member_slot strs base ns sa) [0, 8, 16]
     \<lparr>im_trustDomain = td, im_namespace = -1, im_serviceAccount = -1\<rparr>)"
proof -
  have "members_found strs base ns sa \<lparr>im_trustDomain = td, im_namespace = -1, im_serviceAccount = -1\<rparr>"
    by (simp add: members_found_def)
  then show ?thesis by (simp add: member_slot_found)
qed

lemma fold_trust_slots:
  assumes "im_namespace m \<in> {0, 8, 16}" "im_serviceAccount m \<in> {0, 8, 16}" "im_namespace m \<noteq> im_serviceAccount m"
    "m' = fold trust_slot [0, 8, 16] m"
  shows "im_namespace m' = im_namespace m" "im_serviceAccount m' = im_serviceAccount m"
    "{im_trustDomain m', im_namespace m', im_serviceAccount m'} = {0, 8, 16}"
  using assms by (auto simp: trust_slot_def)

text \<open>
  A located identity is one: the namespace and the service account that were looked for stand in
  two different members of it, the trust domain is the third, and the whole of it lies in the window.
\<close>

theorem findIdentityTriple_sound:
  assumes "findIdentityTriple strs window ns sa = Some (base, m)"
  shows "string_at strs (base + im_namespace m) = ns \<and> string_at strs (base + im_serviceAccount m) = sa \<and>
    {im_trustDomain m, im_namespace m, im_serviceAccount m} = {0, 8, 16} \<and> base + IdentitySpiffeSize \<le> int window"
proof -
  have "identity_triple bases strs window ns sa = Some (base, m) \<Longrightarrow> ?thesis" for bases
  proof (induction bases)
    case (Cons b bases)
    let ?m = "fold (member_slot strs b ns sa) [0, 8, 16]
      \<lparr>im_trustDomain = OffsetAbsent, im_namespace = OffsetAbsent, im_serviceAccount = OffsetAbsent\<rparr>"
    show ?case
    proof (cases "b + IdentitySpiffeSize > int window \<or> im_namespace ?m = OffsetAbsent \<or> im_serviceAccount ?m = OffsetAbsent \<or>
        im_namespace ?m = im_serviceAccount ?m")
      case True
      then show ?thesis using Cons by (auto simp del: fold_simps simp: Let_def split: if_splits)
    next
      case False
      then have "base = b" "m = fold trust_slot [0, 8, 16] ?m"
        using Cons.prems by (auto simp del: fold_simps simp: Let_def split: if_splits)
      then show ?thesis
        using False fold_member_slots [of strs b ns sa OffsetAbsent] fold_trust_slots [of ?m m]
        by (auto simp: members_found_def simp del: fold_simps)
    qed
  qed simp
  then show ?thesis using assms by (simp add: findIdentityTriple_def)
qed

theorem findIdentityTriple_sound_witness:
  "findIdentityTriple [(0, ''td''), (8, ''ns''), (16, ''sa'')] 512 ''ns'' ''sa''
     = Some (0, \<lparr>im_trustDomain = 0, im_namespace = 8, im_serviceAccount = 16\<rparr>) \<and>
   string_at [(0, ''td''), (8, ''ns''), (16, ''sa'')] (0 + 8) = ''ns''"
proof -
  have "findIdentityTriple [(0, ''td''), (8, ''ns''), (16, ''sa'')] 512 ''ns'' ''sa''
     = Some (0, \<lparr>im_trustDomain = 0, im_namespace = 8, im_serviceAccount = 16\<rparr>)"
    by (simp add: findIdentityTriple_def member_slot_def trust_slot_def string_at_def IdentitySpiffeSize_def)
  then show ?thesis using findIdentityTriple_sound by fastforce
qed

text \<open>
  No identity is ever located whose namespace and service account have the same name, although two
  members of it hold that name: every match is taken for the namespace. Calibration makes no use of
  the connections to such workloads.
\<close>

theorem findIdentityTriple_same_name: "findIdentityTriple strs window v v = None"
proof -
  have "im_serviceAccount (member_slot strs base v v slot m) = im_serviceAccount m" for base slot m
    by (simp add: member_slot_def)
  then have "identity_triple bases strs window v v = None" for bases
    by (induction bases) (simp_all add: Let_def)
  then show ?thesis by (simp add: findIdentityTriple_def)
qed

text \<open>The candidate that a sample votes for, and a run of the calibrator over samples.\<close>

type_synonym calibration_sample =
  "u8 list \<times> memory_reader \<times> (string \<times> WorkloadIdentity) list option \<times> (string \<Rightarrow> u16 \<Rightarrow> string)"

definition candidate_of :: "'l lru_ops \<Rightarrow> calibration_sample \<Rightarrow> calibrator \<times> 'l \<Rightarrow> Offsets option" where
  "candidate_of L = (\<lambda>(window, mem, truth, realDest) (c, cache). case truth of
      None \<Rightarrow> None
    | Some byIP \<Rightarrow>
        if byIP = [] \<or> Exhausted c then None
        else case fst (deriveFromSample L (cal_window c) window mem byIP realDest cache) of
          Some ofs \<Rightarrow> if Validate ofs then Some ofs else None
        | None \<Rightarrow> None)"

fun calibrate_run ::
  "'l lru_ops \<Rightarrow> calibration_sample list \<Rightarrow> calibrator \<times> 'l \<Rightarrow> (Offsets option \<times> Offsets option) list" where
  "calibrate_run L [] st = []"
| "calibrate_run L ((window, mem, truth, realDest) # ss) st =
     (case Observe L window mem truth realDest st of
        (r, st') \<Rightarrow> (candidate_of L (window, mem, truth, realDest) st, r) # calibrate_run L ss st')"

definition votes_of :: "Offsets \<Rightarrow> calibrator \<Rightarrow> nat" where
  "votes_of ofs c = (case map_of (cal_votes c) ofs of None \<Rightarrow> 0 | Some n \<Rightarrow> n)"

lemma vote_counts:
  assumes "vote ofs es = (n, es')"
  shows "map_of es' ofs' = (if ofs' = ofs then Some n else map_of es ofs') \<and> n = (case map_of es ofs of None \<Rightarrow> 0 | Some k \<Rightarrow> k) + 1"
  using assms
proof (induction es arbitrary: es')
  case (Cons e es)
  then show ?case by (cases e) (auto split: if_splits prod.splits)
qed auto

lemma Observe_votes:
  assumes "Observe L window mem truth realDest (c, cache) = (r, c', cache')"
  shows "votes_of ofs c' = votes_of ofs c + (if candidate_of L (window, mem, truth, realDest) (c, cache) = Some ofs then 1 else 0)"
    and "r = Some ofs \<Longrightarrow> candidate_of L (window, mem, truth, realDest) (c, cache) = Some ofs \<and> 3 \<le> votes_of ofs c'"
  using assms
  by (auto simp: Observe_def candidate_of_def Exhausted_def votes_of_def ztunnelCalibrationAgreements_def Let_def
      split: option.splits if_splits prod.splits dest!: vote_counts [where ofs' = ofs])

lemma calibrate_run_votes:
  assumes "i < length ss" "snd (calibrate_run L ss (c, cache) ! i) = Some ofs"
  shows "fst (calibrate_run L ss (c, cache) ! i) = Some ofs \<and>
    3 \<le> votes_of ofs c + count_list (map fst (take (Suc i) (calibrate_run L ss (c, cache)))) (Some ofs)"
  using assms
proof (induction ss arbitrary: c cache i)
  case (Cons s ss)
  obtain window mem truth realDest where s: "s = (window, mem, truth, realDest)" by (cases s)
  obtain r c' cache' where o: "Observe L window mem truth realDest (c, cache) = (r, c', cache')" by (metis surj_pair)
  show ?case
  proof (cases i)
    case 0
    then show ?thesis using Cons.prems Observe_votes [OF o, of ofs] by (auto simp: s o)
  next
    case (Suc j)
    then show ?thesis
      using Cons.IH [of j c' cache'] Cons.prems Observe_votes(1) [OF o, of ofs] by (auto simp: s o)
  qed
qed simp

text \<open>
  Offsets leave calibration only when they pass validation and at least three of the samples
  observed so far derived exactly them.
\<close>

theorem calibration_agreed:
  assumes "i < length samples"
    and "snd (calibrate_run L samples (newZTunnelOffsetCalibrator window, cache) ! i) = Some ofs"
  shows "Validate ofs \<and>
    3 \<le> count_list (map fst (take (Suc i) (calibrate_run L samples (newZTunnelOffsetCalibrator window, cache)))) (Some ofs)"
proof -
  have "fst (calibrate_run L samples (c, cache) ! i) = Some ofs \<Longrightarrow> i < length samples \<Longrightarrow> Validate ofs" for c cache
  proof (induction samples arbitrary: c cache i)
    case (Cons s ss)
    obtain window mem truth realDest where s: "s = (window, mem, truth, realDest)" by (cases s)
    obtain r c' cache' where o: "Observe L window mem truth realDest (c, cache) = (r, c', cache')" by (metis surj_pair)
    show ?case using Cons
      by (cases i) (auto simp: s o candidate_of_def split: prod.splits option.splits if_splits)
  qed simp
  then show ?thesis
    using calibrate_run_votes [OF assms] assms(1) by (auto simp: votes_of_def newZTunnelOffsetCalibrator_def)
qed

text \<open>A sample with a source address, an identity of three strings and the memory they are in.\<close>

definition example_sample :: calibration_sample where
  "example_sample =
     ([0, 0, 10, 0, 0, 1, 80, 0] @ [8, 0, 0, 0, 0, 0, 0, 0] @ [16, 0, 0, 0, 0, 0, 0, 0] @ [40, 0, 0, 0, 0, 0, 0, 0],
      (\<lambda>ptr n. if ptr > 100 then None else if n = 16 then Some ([2, 0, 0, 0, 0, 0, 0, 0] @ replicate 8 0)
        else Some [if ptr = 24 then 116 else if ptr = 32 then 110 else 115]),
      Some [(''10.0.0.9'', \<lparr>wi_Cluster = [], wi_Namespace = ''n'', wi_ServiceAccount = ''s''\<rparr>)],
      \<lambda>ip port. ''10.0.0.9'')"

lemma example_run:
  "snd (calibrate_run example_lru [example_sample, example_sample, example_sample] (newZTunnelOffsetCalibrator 32, ()) ! 2) =
   Some \<lparr>of_Source = OffsetSourceCalibrated, of_Window = 32, of_Src = 0, of_Dst = -1,
     of_HboneTarget = -1, of_HasDirection = False, of_Reporter = -1,
     of_SecurityPolicy = -1, of_SourcePrincipal = -1, of_DestinationPrincipal = 8,
     of_SourceNamespace = -1, of_DestinationNamespace = -1, of_SourceCluster = -1, of_DestinationCluster = -1,
     of_IdentitySpiffeSize = 24, of_IdentityTrustDomain = 0, of_IdentityNamespace = 8, of_IdentityServiceAccount = 16\<rparr>"
  by code_simp

theorem calibration_agreed_witness:
  "\<exists>ofs. Validate ofs \<and>
     3 \<le> count_list (map fst (take 3 (calibrate_run example_lru [example_sample, example_sample, example_sample]
            (newZTunnelOffsetCalibrator 32, ())))) (Some ofs)"
  using calibration_agreed [of 2 "[example_sample, example_sample, example_sample]", OF _ example_run]
  by (auto simp: numeral_3_eq_3 numeral_2_eq_2)

end
