(* ===== verification/Access_Log.thy ===== *)
theory Access_Log
  imports Socket_Buffer
begin

text \<open>
  The access logs on their way from the collectors to the sender: the kernel and protocol log events
  (\<^verbatim>\<open>common/logs.go\<close>, \<^verbatim>\<open>common/type.go\<close>), the builders that turn a kernel event into a log message
  (\<^verbatim>\<open>forwarder\<close>), and the bounded queue between the collectors and the runner (\<^verbatim>\<open>common/queue.go\<close>).
  The generated protobuf messages are records with the fields the code sets.
\<close>

section \<open>Socket pairs\<close>

record SocketPair =
  sp_Family :: u32
  sp_Role :: ConnectionRole
  sp_SrcIP :: string
  sp_SrcPort :: u16
  sp_DestIP :: string
  sp_DestPort :: u16
  sp_NeedConnTrack :: bool
  sp_ConnTrackResolved :: bool

definition SocketPair_IsValid :: "SocketPair \<Rightarrow> bool" where
  "SocketPair_IsValid s \<longleftrightarrow> sp_Family s \<noteq> 0 \<and> sp_Role s \<noteq> ConnectionRoleUnknown \<and>
     sp_SrcIP s \<noteq> [] \<and> sp_SrcPort s \<noteq> 0 \<and> sp_DestIP s \<noteq> [] \<and> sp_DestPort s \<noteq> 0"

section \<open>Log events\<close>

datatype LogType = LogTypeConnect | LogTypeKernelTransfer | LogTypeClose

text \<open>The three implementations of \<^verbatim>\<open>events.Event\<close> that reach the queue.\<close>

datatype log_event =
  ConnectEventWithSocket SocketConnectEvent SocketPair
| SocketDetail SocketDetailEvent
| CloseEventWithNotify SocketCloseEvent

primrec GetConnectionID :: "log_event \<Rightarrow> u64" where
  "GetConnectionID (ConnectEventWithSocket e _) = co_ConID e"
| "GetConnectionID (SocketDetail e) = dt_ConnectionID e"
| "GetConnectionID (CloseEventWithNotify e) = cl_ConnectionID e"

primrec GetRandomID :: "log_event \<Rightarrow> u64" where
  "GetRandomID (ConnectEventWithSocket e _) = co_RandomID e"
| "GetRandomID (SocketDetail e) = dt_RandomID e"
| "GetRandomID (CloseEventWithNotify e) = cl_RandomID e"

primrec Timestamp :: "int \<Rightarrow> log_event \<Rightarrow> int" where
  "Timestamp boot (ConnectEventWithSocket e _) = host_Time boot (co_StartTime e)"
| "Timestamp boot (SocketDetail e) = host_Time boot (dt_StartTime e)"
| "Timestamp boot (CloseEventWithNotify e) = host_Time boot (cl_StartTime e)"

record kernelLogEvent =
  kl_logType :: LogType
  kl_event :: log_event

record 'p ProtocolEventData =
  KernelLogs :: "SocketDetailEvent list"
  ProtocolLogData :: 'p

section \<open>Kernel log messages\<close>

datatype write_syscall = WSend | WSendTo | WSendMsg | WSendMmsg | WSendFile | WWrite | WWritev
datatype read_syscall = RRead | RReadv | RRecv | RRecvFrom | RRecvMsg | RRecvMmsg

definition parseReadSyscall :: "SocketFunctionName \<Rightarrow> read_syscall" where
  "parseReadSyscall f =
     (if f = 11 then RRead else if f = 12 then RReadv else if f = 13 then RRecv
      else if f = 14 then RRecvFrom else if f = 15 then RRecvMsg else if f = 16 then RRecvMmsg else RRead)"

definition parseWriteSyscall :: "SocketFunctionName \<Rightarrow> write_syscall" where
  "parseWriteSyscall f =
     (if f = 4 then WSend else if f = 5 then WSendTo else if f = 6 then WSendMsg else if f = 7 then WSendMmsg
      else if f = 8 then WSendFile else if f = 9 then WWrite else if f = 10 then WWritev else WWrite)"

record write_operation =
  w_StartTime :: u64
  w_EndTime :: u64
  w_Syscall :: write_syscall
  w_L4TotalDuration :: u64
  w_L4TotalTransmitPackageCount :: u64
  w_L4TotalRetransmitPackageCount :: u64
  w_L4TotalPackageSize :: u64
  w_L3TotalDuration :: u64
  w_L3TotalLocalDuration :: u64
  w_L3TotalOutputDuration :: u64
  w_L3TotalResolveMACCount :: u64
  w_L3TotalResolveMACDuration :: u64
  w_L3TotalNetFilterCount :: u64
  w_L3TotalNetFilterDuration :: u64
  w_L2TotalDuration :: u64
  w_L2Ifindex :: u32
  w_L2TotalEnterQueueBufferCount :: u64
  w_L2TotalReadySendDuration :: u64
  w_L2TotalNetDeviceSendDuration :: u64

record read_operation =
  r_StartTime :: u64
  r_EndTime :: u64
  r_Syscall :: read_syscall
  r_L2Ifindex :: u32
  r_L2TotalPackageCount :: u32
  r_L2TotalPackageSize :: u64
  r_L2TotalPackageToQueueDuration :: u64
  r_L2TotalRcvPackageFromQueueDuration :: u64
  r_L3TotalDuration :: u64
  r_L3TotalRecvDuration :: u64
  r_L3TotalLocalDuration :: u64
  r_L3TotalNetFilterCount :: u64
  r_L3TotalNetFilterDuration :: u64
  r_L4TotalDuration :: u64

datatype AccessLogKernelLog =
  KernelLog_Connect u64 u64 bool
| KernelLog_Accept u64 u64
| KernelLog_Write write_operation
| KernelLog_Read read_operation
| KernelLog_Close u64 u64 bool

text \<open>
  \<^verbatim>\<open>BuildOffsetTimestamp\<close> wraps the kernel time as it is. A builder casts the event to the type its log
  type stands for; another type makes the cast panic.
\<close>

definition connectLogBuilder :: "log_event \<Rightarrow> AccessLogKernelLog option or_panic" where
  "connectLogBuilder event = (case event of
     ConnectEventWithSocket e _ \<Rightarrow> Inr
       (if co_FuncName e = 1 then Some (KernelLog_Connect (co_StartTime e) (co_EndTime e) (co_ConnectSuccess e = 1))
        else if co_FuncName e = 2 then Some (KernelLog_Accept (co_StartTime e) (co_EndTime e))
        else None)
   | _ \<Rightarrow> Inl TypeAssertion)"

definition closeLogBuilder :: "log_event \<Rightarrow> AccessLogKernelLog option or_panic" where
  "closeLogBuilder event = (case event of
     CloseEventWithNotify e \<Rightarrow> Inr
       (if cl_StartTime e = 0 then None
        else Some (KernelLog_Close (cl_StartTime e) (cl_EndTime e) (cl_Success e = 1)))
   | _ \<Rightarrow> Inl TypeAssertion)"

definition build_write :: "SocketDetailEvent \<Rightarrow> write_operation" where
  "build_write e =
     \<lparr>w_StartTime = dt_StartTime e, w_EndTime = dt_EndTime e, w_Syscall = parseWriteSyscall (dt_FunctionName e),
      w_L4TotalDuration = ucast (dt_L4Duration e), w_L4TotalTransmitPackageCount = ucast (dt_L4PackageCount e),
      w_L4TotalRetransmitPackageCount = ucast (dt_L4RetransmitPackageCount e),
      w_L4TotalPackageSize = dt_L4TotalPackageSize e,
      w_L3TotalDuration = ucast (dt_L3Duration e), w_L3TotalLocalDuration = ucast (dt_L3LocalDuration e),
      w_L3TotalOutputDuration = ucast (dt_L3OutputDuration e), w_L3TotalResolveMACCount = ucast (dt_L3ResolveMacCount e),
      w_L3TotalResolveMACDuration = ucast (dt_L3ResolveMacDuration e),
      w_L3TotalNetFilterCount = ucast (dt_L3NetFilterCount e), w_L3TotalNetFilterDuration = ucast (dt_L3NetFilterDuration e),
      w_L2TotalDuration = ucast (dt_L2Duration e), w_L2Ifindex = dt_IfIndex e,
      w_L2TotalEnterQueueBufferCount = ucast (dt_L2EnterQueueCount e),
      w_L2TotalReadySendDuration = ucast (dt_L2ReadySendDuration e),
      w_L2TotalNetDeviceSendDuration = ucast (dt_L2SendDuration e)\<rparr>"

definition build_read :: "SocketDetailEvent \<Rightarrow> read_operation" where
  "build_read e =
     \<lparr>r_StartTime = dt_StartTime e, r_EndTime = dt_EndTime e, r_Syscall = parseReadSyscall (dt_FunctionName e),
      r_L2Ifindex = dt_IfIndex e, r_L2TotalPackageCount = ucast (dt_L4PackageCount e),
      r_L2TotalPackageSize = dt_L4TotalPackageSize e,
      r_L2TotalPackageToQueueDuration = ucast (dt_L2PackageToQueueDuration e),
      r_L2TotalRcvPackageFromQueueDuration = dt_L4PackageRcvFromQueueDuration e,
      r_L3TotalDuration = ucast (dt_L3Duration e), r_L3TotalRecvDuration = ucast (dt_L3TotalRcvDuration e),
      r_L3TotalLocalDuration = ucast (dt_L3LocalDuration e), r_L3TotalNetFilterCount = ucast (dt_L3NetFilterCount e),
      r_L3TotalNetFilterDuration = ucast (dt_L3NetFilterDuration e), r_L4TotalDuration = ucast (dt_L4Duration e)\<rparr>"

definition kernelTransferLogBuilder :: "log_event \<Rightarrow> AccessLogKernelLog option or_panic" where
  "kernelTransferLogBuilder event = (case event of
     SocketDetail e \<Rightarrow> Inr
       (case GetSocketOperationType (dt_FunctionName e) of
          SocketOperationTypeWrite \<Rightarrow> Some (KernelLog_Write (build_write e))
        | SocketOperationTypeRead \<Rightarrow> Some (KernelLog_Read (build_read e))
        | _ \<Rightarrow> None)
   | _ \<Rightarrow> Inl TypeAssertion)"

definition BuildKernelLogFromEvent :: "LogType \<Rightarrow> log_event \<Rightarrow> AccessLogKernelLog option or_panic" where
  "BuildKernelLogFromEvent tp event = (case tp of
     LogTypeConnect \<Rightarrow> connectLogBuilder event
   | LogTypeKernelTransfer \<Rightarrow> kernelTransferLogBuilder event
   | LogTypeClose \<Rightarrow> closeLogBuilder event)"

section \<open>The queue\<close>

text \<open>
  Two bounded channels. An append to a full channel is counted as dropped; an append that succeeds
  starts a consumption (a new goroutine) when the channels together hold the flush count. The
  second component of the results is whether a consumption is started.
\<close>

record ('k, 'p) log_queue =
  q_kernelLogs :: "'k list"
  q_protocolLogs :: "'p list"
  q_maxFlushCount :: nat
  q_dropKernelLogCount :: nat
  q_dropProtocolLogCount :: nat

definition NewQueue :: "nat \<Rightarrow> ('k, 'p) log_queue" where
  "NewQueue maxFlushCount = \<lparr>q_kernelLogs = [], q_protocolLogs = [], q_maxFlushCount = maxFlushCount,
     q_dropKernelLogCount = 0, q_dropProtocolLogCount = 0\<rparr>"

definition queue_cap :: "('k, 'p) log_queue \<Rightarrow> nat" where
  "queue_cap q = q_maxFlushCount q * 3"

definition consumeIfNeed :: "('k, 'p) log_queue \<Rightarrow> bool" where
  "consumeIfNeed q \<longleftrightarrow> length (q_kernelLogs q) + length (q_protocolLogs q) \<ge> q_maxFlushCount q"

definition AppendKernelLog :: "'k \<Rightarrow> ('k, 'p) log_queue \<Rightarrow> ('k, 'p) log_queue \<times> bool" where
  "AppendKernelLog l q =
     (if length (q_kernelLogs q) < queue_cap q
      then let q' = q\<lparr>q_kernelLogs := q_kernelLogs q @ [l]\<rparr> in (q', consumeIfNeed q')
      else (q\<lparr>q_dropKernelLogCount := q_dropKernelLogCount q + 1\<rparr>, False))"

definition AppendProtocolLog :: "'p \<Rightarrow> ('k, 'p) log_queue \<Rightarrow> ('k, 'p) log_queue \<times> bool" where
  "AppendProtocolLog l q =
     (if length (q_protocolLogs q) < queue_cap q
      then let q' = q\<lparr>q_protocolLogs := q_protocolLogs q @ [l]\<rparr> in (q', consumeIfNeed q')
      else (q\<lparr>q_dropProtocolLogCount := q_dropProtocolLogCount q + 1\<rparr>, False))"

fun append_kernels :: "'k list \<Rightarrow> ('k, 'p) log_queue \<Rightarrow> ('k, 'p) log_queue" where
  "append_kernels [] q = q"
| "append_kernels (l # ls) q = append_kernels ls (fst (AppendKernelLog l q))"

fun append_protocols :: "'p list \<Rightarrow> ('k, 'p) log_queue \<Rightarrow> ('k, 'p) log_queue" where
  "append_protocols [] q = q"
| "append_protocols (l # ls) q = append_protocols ls (fst (AppendProtocolLog l q))"

definition queue_ok :: "('k, 'p) log_queue \<Rightarrow> bool" where
  "queue_ok q \<longleftrightarrow> length (q_kernelLogs q) \<le> queue_cap q \<and> length (q_protocolLogs q) \<le> queue_cap q"

lemma append_kernels_eq:
  assumes "length (q_kernelLogs q) \<le> queue_cap q"
  shows "append_kernels ls q = q\<lparr>q_kernelLogs := take (queue_cap q) (q_kernelLogs q @ ls),
     q_dropKernelLogCount := q_dropKernelLogCount q + (length (q_kernelLogs q @ ls) - queue_cap q)\<rparr>"
  using assms
proof (induction ls arbitrary: q)
  case (Cons l ls)
  then show ?case
    by (cases "length (q_kernelLogs q) < queue_cap q")
      (auto simp: AppendKernelLog_def queue_cap_def Let_def take_Cons')
qed simp

lemma append_protocols_eq:
  assumes "length (q_protocolLogs q) \<le> queue_cap q"
  shows "append_protocols ls q = q\<lparr>q_protocolLogs := take (queue_cap q) (q_protocolLogs q @ ls),
     q_dropProtocolLogCount := q_dropProtocolLogCount q + (length (q_protocolLogs q @ ls) - queue_cap q)\<rparr>"
  using assms
proof (induction ls arbitrary: q)
  case (Cons l ls)
  then show ?case
    by (cases "length (q_protocolLogs q) < queue_cap q")
      (auto simp: AppendProtocolLog_def queue_cap_def Let_def take_Cons')
qed simp

text \<open>
  between two consumptions the queue keeps the logs in the order of their arrival up to three
  times the flush count per channel, and every log beyond that is counted as dropped: no log is
  lost silently and the channels never exceed their capacity.
\<close>

theorem queue_keeps_or_counts:
  assumes "queue_ok q"
  shows "let q' = append_protocols ps (append_kernels ks q); cap = q_maxFlushCount q * 3 in
     queue_ok q' \<and>
     q_kernelLogs q' = take cap (q_kernelLogs q @ ks) \<and> q_protocolLogs q' = take cap (q_protocolLogs q @ ps) \<and>
     length (q_kernelLogs q') + (q_dropKernelLogCount q' - q_dropKernelLogCount q) = length (q_kernelLogs q) + length ks \<and>
     length (q_protocolLogs q') + (q_dropProtocolLogCount q' - q_dropProtocolLogCount q)
       = length (q_protocolLogs q) + length ps"
  using assms by (simp add: append_kernels_eq append_protocols_eq queue_ok_def queue_cap_def Let_def min_def) auto

theorem queue_keeps_or_counts_witness:
  "let q' = append_kernels [1, 2, 3, 4 :: nat] (NewQueue 1 :: (nat, nat) log_queue) in
     q_kernelLogs q' = [1, 2, 3] \<and> length (q_kernelLogs q') + (q_dropKernelLogCount q' - 0) = 4"
  using queue_keeps_or_counts [of "NewQueue 1 :: (nat, nat) log_queue" "[]" "[1, 2, 3, 4]"]
  by (auto simp: queue_ok_def queue_cap_def NewQueue_def Let_def simp del: append_kernels.simps)

end
