(* ===== verification/Expiring_Cache.thy ===== *)
theory Expiring_Cache
  imports Rover_Prelude
begin

text \<open>
  The expiring cache of the Kubernetes API machinery (\<^verbatim>\<open>cache.Expiring\<close>), which the access log module
  uses for its verdicts and correlations, is not part of the repository. It is a parameter of the
  model: a record of the operations the code calls, with the time at which they are called. The locale
  states what the documentation of the cache promises; a cache over an association list satisfies it.
\<close>

record ('c, 'k, 'v) expiring_ops =
  ex_new :: 'c
  ex_get :: "'c \<Rightarrow> int \<Rightarrow> 'k \<Rightarrow> 'v option"
  ex_set :: "int \<Rightarrow> 'k \<Rightarrow> 'v \<Rightarrow> int \<Rightarrow> 'c \<Rightarrow> 'c"
  ex_delete :: "int \<Rightarrow> 'k \<Rightarrow> 'c \<Rightarrow> 'c"
  ex_len :: "'c \<Rightarrow> nat"

text \<open>
  \<open>ex_set X now k v ttl\<close> sets an entry that expires after \<open>ttl\<close>; expired entries are collected then, and
  \<open>ex_get\<close> answers none that has expired.
\<close>

locale expiring_cache =
  fixes X :: "('c, 'k, 'v) expiring_ops"
  assumes get_new: "ex_get X (ex_new X) t k = None"
    and get_set: "now \<le> t \<Longrightarrow> ex_get X (ex_set X now k v ttl c) t k' =
      (if k' = k then if t < now + ttl then Some v else None else ex_get X c t k')"
    and get_delete: "now \<le> t \<Longrightarrow> ex_get X (ex_delete X now k c) t k' = (if k' = k then None else ex_get X c t k')"
    and get_expires: "t \<le> t' \<Longrightarrow> ex_get X c t' k = Some v \<Longrightarrow> ex_get X c t k = Some v"
    and len_get: "ex_get X c t k = Some v \<Longrightarrow> 0 < ex_len X c"
begin

lemma get_set_same: "now \<le> t \<Longrightarrow> t < now + ttl \<Longrightarrow> ex_get X (ex_set X now k v ttl c) t k = Some v"
  by (simp add: get_set)

lemma get_set_other: "now \<le> t \<Longrightarrow> k' \<noteq> k \<Longrightarrow> ex_get X (ex_set X now k v ttl c) t k' = ex_get X c t k'"
  by (simp add: get_set)

lemma get_set_expired: "now \<le> t \<Longrightarrow> now + ttl \<le> t \<Longrightarrow> ex_get X (ex_set X now k v ttl c) t k = None"
  by (simp add: get_set)

lemma empty_get: "ex_len X c = 0 \<Longrightarrow> ex_get X c t k = None"
  using len_get [of c t k] by (cases "ex_get X c t k") auto

end

definition list_cache :: "(('k \<times> 'v \<times> int) list, 'k, 'v) expiring_ops" where
  "list_cache =
     \<lparr>ex_new = [],
      ex_get = (\<lambda>c t k. case map_of c k of Some (v, expiry) \<Rightarrow> if t < expiry then Some v else None | None \<Rightarrow> None),
      ex_set = (\<lambda>now k v ttl c. (k, v, now + ttl) # filter (\<lambda>e. fst e \<noteq> k) c),
      ex_delete = (\<lambda>now k c. filter (\<lambda>e. fst e \<noteq> k) c),
      ex_len = length\<rparr>"

lemma map_of_filter_key [simp]: "map_of (filter (\<lambda>e. fst e \<noteq> k) c) k' = (if k' = k then None else map_of c k')"
  by (induction c) auto

interpretation list_cache: expiring_cache "list_cache :: (('k \<times> 'v \<times> int) list, 'k, 'v) expiring_ops"
  by unfold_locales (auto simp: list_cache_def split: option.splits if_splits prod.splits)

end
