(* ===== verification/Connection_Manager.thy ===== *)
theory Connection_Manager
  imports Access_Log Expiring_Cache
begin

text \<open>
  The connection manager, \<^verbatim>\<open>pkg/accesslog/common/connection.go\<close>, and the monitor filter,
  \<^verbatim>\<open>common/filter.go\<close>: which processes are monitored, the connections their events belong to, how the
  addresses of a connection are built, how long a log waits for the resolution of its remote
  address, and when a connection is forgotten. Pids are 32-bit words (the code converts between
  \<^verbatim>\<open>int32\<close> and \<^verbatim>\<open>uint32\<close>); times are nanoseconds. The kernel maps are state of the model; whether an
  update of a kernel map succeeds, what the kernel's map of active connections answers, the host's
  own addresses, the conntrack query and the cgroup of a container are arguments. Locks and log
  output are left out.
\<close>

section \<open>Constants and data\<close>

definition connectionDeleteDelayTime :: int where "connectionDeleteDelayTime = 25 * second"
definition connectionCheckExistTime :: int where "connectionCheckExistTime = 30 * second"
definition unresolvedRemoteMaxTrack :: nat where "unresolvedRemoteMaxTrack = 100"
definition unresolvedRemoteTopCount :: nat where "unresolvedRemoteTopCount = 10"
definition resolutionDeferMargin :: int where "resolutionDeferMargin = 15 * second"
definition defaultFlushPeriod :: int where "defaultFlushPeriod = 5 * second"
definition processVerdictKeepTime :: int where "processVerdictKeepTime = 60 * second"

record Process =
  pr_Pid :: u32
  pr_IsKubernetes :: bool
  pr_ServiceName :: string
  pr_ProcessName :: string
  pr_Namespace :: string
  pr_PodName :: string
  pr_ContainerName :: string
  pr_ContainerCGroup :: string
  pr_ExposeHosts :: "string list"

datatype ConnectionAddress =
  KubernetesAddress string string string string u16
| IPAddress string u16

datatype DetectPoint = DetectPoint_client | DetectPoint_server
datatype TLSMode = TLSMode_Plain | TLSMode_TLS
datatype ProtocolType = ProtocolType_TCP | ProtocolType_HTTP_1 | ProtocolType_HTTP_2
datatype SecurityPolicy = SecurityPolicy_NONE | SecurityPolicy_MTLS
datatype DetectBy = ZTUNNEL_OUTBOUND_FUNC | ZTUNNEL_INBOUND_FUNC

record ZTunnelAttachment =
  za_RealDestinationIp :: string
  za_By :: DetectBy
  za_SecurityPolicy :: SecurityPolicy
  za_Addition :: "(string \<times> string) list"

record AccessLogConnection =
  ac_Local :: ConnectionAddress
  ac_Remote :: ConnectionAddress
  ac_Role :: DetectPoint
  ac_TlsMode :: TLSMode
  ac_Protocol :: ProtocolType
  ac_Attachment :: "ZTunnelAttachment option"

record ConnectionInfo =
  ci_ConnectionID :: u64
  ci_RandomID :: u64
  ci_RPCConnection :: AccessLogConnection
  ci_MarkDeletable :: bool
  ci_PID :: u32
  ci_Socket :: SocketPair
  ci_LastCheckExistTime :: int
  ci_DeleteAfter :: "int option"
  ci_ProtocolBreak :: bool
  ci_CreatedAt :: "int option"
  ci_ResolutionDeadline :: "int option"

record ActiveConnection =
  act_RandomID :: u64
  act_PID :: u32
  act_SocketFD :: u32
  act_SkipDataUpload :: u8

datatype 'v map_lookup = Found 'v | KeyNotExist | LookupError

datatype ProcessVerdict =
  ProcessVerdictUnknown | ProcessVerdictMonitored | ProcessVerdictApproved | ProcessVerdictRejected

datatype process_notice = OnNewProcessMonitoring u32 | OnProcessRemoved u32

text \<open>
  A flush listener sees a connection before its logs are built and may attach the real destination;
  \<open>'s\<close> is the state of the listeners, which the manager passes through. \<open>fl_pending\<close> is
  \<^verbatim>\<open>IsResolutionPending\<close>, which may also complete the attachment, \<open>fl_finalize\<close> is
  \<^verbatim>\<open>FinalizeConnection\<close> and \<open>fl_reason\<close> is \<^verbatim>\<open>UnresolvedReason\<close>; a listener that is not resolution
  aware has \<open>fl_aware\<close> false.
\<close>

record 's flush_listener =
  fl_ready :: "ConnectionInfo \<Rightarrow> 's \<Rightarrow> ConnectionInfo \<times> 's"
  fl_aware :: bool
  fl_pending :: "ConnectionInfo \<Rightarrow> 's \<Rightarrow> bool \<times> ConnectionInfo"
  fl_finalize :: "ConnectionInfo \<Rightarrow> 's \<Rightarrow> 's"
  fl_reason :: "ConnectionInfo \<Rightarrow> 's \<Rightarrow> string"

text \<open>How long the resolutions took: four buckets and the longest, in milliseconds.\<close>

record ResolutionLatency =
  rl_Under1s :: nat
  rl_1to5s :: nat
  rl_5to15s :: nat
  rl_Over15s :: nat
  rl_MaxMilli :: int

record ('v, 'b) ConnectionManager =
  cm_connections :: "string \<rightharpoonup> ConnectionInfo"
  cm_localIPWithPid :: "string \<rightharpoonup> u32"
  cm_monitoringProcesses :: "u32 \<rightharpoonup> Process list"
  cm_processMonitorMap :: "u32 \<Rightarrow> bool"
  cm_processNotMonitorMap :: "u32 \<Rightarrow> bool"
  cm_cgroupAllowlistMap :: "u64 \<Rightarrow> bool"
  cm_allowedCgroups :: "u64 \<rightharpoonup> u32 list"
  cm_processVerdicts :: 'v
  cm_connectionProtocolBreakMap :: 'b
  cm_activeConnectionMap :: "u64 \<Rightarrow> ActiveConnection map_lookup"
  cm_notices :: "process_notice list"
  cm_remoteAddressBuildCount :: nat
  cm_unresolvedRemoteCount :: nat
  cm_ztunnelResolvedRemoteCount :: nat
  cm_conntrackResolvedRemoteCount :: nat
  cm_unresolvedRemotes :: "(string \<times> nat) list"
  cm_unresolvedByReason :: "(string \<times> nat) list"
  cm_resolutionGracePeriod :: int

section \<open>The monitor filter\<close>

record StaticMonitorFilter =
  mf_namespaces :: "string list"
  mf_clusters :: "string list"

definition filter_includes :: "u32 \<Rightarrow> StaticMonitorFilter \<Rightarrow> Process \<Rightarrow> bool" where
  "filter_includes selfPid s p \<longleftrightarrow>
     pr_Pid p \<noteq> selfPid \<and> pr_IsKubernetes p \<and> pr_Namespace p \<notin> set (mf_namespaces s) \<and>
     \<not> (case str_cut ''::'' (pr_ServiceName p) of None \<Rightarrow> False | Some (cluster, _) \<Rightarrow> cluster \<in> set (mf_clusters s))"

definition ShouldIncludeProcesses :: "u32 \<Rightarrow> StaticMonitorFilter \<Rightarrow> Process list \<Rightarrow> Process list" where
  "ShouldIncludeProcesses selfPid s processes = filter (filter_includes selfPid s) processes"

section \<open>Deferring logs for the resolution of the remote address\<close>

definition resolutionGraceFor :: "int \<Rightarrow> int" where
  "resolutionGraceFor flushPeriod =
     (let grace = flushPeriod + resolutionDeferMargin;
          maxGrace = connectionDeleteDelayTime - flushPeriod;
          grace' = (if grace > maxGrace then maxGrace else grace)
      in if grace' < 0 then 0 else grace')"

text \<open>The first listener that reports pending ends the loop.\<close>

fun any_pending :: "'s flush_listener list \<Rightarrow> 's \<Rightarrow> ConnectionInfo \<Rightarrow> bool \<times> ConnectionInfo" where
  "any_pending [] st conn = (False, conn)"
| "any_pending (l # ls) st conn =
     (if fl_aware l
      then (case fl_pending l conn st of (True, conn') \<Rightarrow> (True, conn') | (False, conn') \<Rightarrow> any_pending ls st conn')
      else any_pending ls st conn)"

definition ShouldDeferForResolution ::
  "int \<Rightarrow> 's flush_listener list \<Rightarrow> 's \<Rightarrow> int \<Rightarrow> ConnectionInfo \<Rightarrow> bool \<times> ConnectionInfo" where
  "ShouldDeferForResolution grace listeners st now conn =
     (if grace \<le> 0 then (False, conn)
      else case any_pending listeners st conn of
        (False, conn') \<Rightarrow> (False, conn')
      | (True, conn') \<Rightarrow>
          (case ci_ResolutionDeadline conn' of
             None \<Rightarrow> (True, conn'\<lparr>ci_ResolutionDeadline := Some (now + grace)\<rparr>)
           | Some deadline \<Rightarrow> (now < deadline, conn')))"

text \<open>The latency histogram of the manager is written only by the listener that attaches a destination.\<close>

definition RecordResolutionLatency :: "int \<Rightarrow> ConnectionInfo \<Rightarrow> ResolutionLatency \<Rightarrow> ResolutionLatency" where
  "RecordResolutionLatency now conn r = (case ci_CreatedAt conn of
      None \<Rightarrow> r
    | Some createdAt \<Rightarrow>
       (let d = now - createdAt; ms = d div 1000000;
            r' = (if d < second then r\<lparr>rl_Under1s := rl_Under1s r + 1\<rparr>
                  else if d < 5 * second then r\<lparr>rl_1to5s := rl_1to5s r + 1\<rparr>
                  else if d < 15 * second then r\<lparr>rl_5to15s := rl_5to15s r + 1\<rparr>
                  else r\<lparr>rl_Over15s := rl_Over15s r + 1\<rparr>)
        in if ms > rl_MaxMilli r' then r'\<lparr>rl_MaxMilli := ms\<rparr> else r'))"

section \<open>Verdicts and cgroups\<close>

text \<open>The verdicts and the broken protocols are expiring caches, with the operations as arguments.\<close>

type_synonym 'v verdict_cache = "('v, u32, ProcessVerdict) expiring_ops"
type_synonym 'b break_cache = "('b, string, bool) expiring_ops"

definition NewConnectionManager :: "'v verdict_cache \<Rightarrow> 'b break_cache \<Rightarrow> int \<Rightarrow> ('v, 'b) ConnectionManager" where
  "NewConnectionManager V B flushPeriod =
     \<lparr>cm_connections = Map.empty, cm_localIPWithPid = Map.empty, cm_monitoringProcesses = Map.empty,
      cm_processMonitorMap = (\<lambda>_. False), cm_processNotMonitorMap = (\<lambda>_. False), cm_cgroupAllowlistMap = (\<lambda>_. False),
      cm_allowedCgroups = Map.empty, cm_processVerdicts = ex_new V, cm_connectionProtocolBreakMap = ex_new B,
      cm_activeConnectionMap = (\<lambda>_. KeyNotExist), cm_notices = [], cm_remoteAddressBuildCount = 0,
      cm_unresolvedRemoteCount = 0, cm_ztunnelResolvedRemoteCount = 0, cm_conntrackResolvedRemoteCount = 0,
      cm_unresolvedRemotes = [], cm_unresolvedByReason = [], cm_resolutionGracePeriod = resolutionGraceFor flushPeriod\<rparr>"

definition recordProcessVerdict ::
  "'v verdict_cache \<Rightarrow> int \<Rightarrow> u32 \<Rightarrow> ProcessVerdict \<Rightarrow> ('v, 'b) ConnectionManager \<Rightarrow> ('v, 'b) ConnectionManager" where
  "recordProcessVerdict X now pid verdict c =
     c\<lparr>cm_processVerdicts := ex_set X now pid verdict processVerdictKeepTime (cm_processVerdicts c)\<rparr>"

definition ProcessIsMonitor :: "('v, 'b) ConnectionManager \<Rightarrow> u32 \<Rightarrow> bool" where
  "ProcessIsMonitor c pid \<longleftrightarrow> (case cm_monitoringProcesses c pid of None \<Rightarrow> False | Some ps \<Rightarrow> ps \<noteq> [])"

definition ProcessIsDetectByKubernetes :: "('v, 'b) ConnectionManager \<Rightarrow> u32 \<Rightarrow> bool" where
  "ProcessIsDetectByKubernetes c pid \<longleftrightarrow>
     (case cm_monitoringProcesses c pid of None \<Rightarrow> False | Some ps \<Rightarrow> list_ex pr_IsKubernetes ps)"

definition ProcessVerdictOf :: "'v verdict_cache \<Rightarrow> int \<Rightarrow> ('v, 'b) ConnectionManager \<Rightarrow> u32 \<Rightarrow> ProcessVerdict" where
  "ProcessVerdictOf X now c pid =
     (if ProcessIsMonitor c pid then ProcessVerdictMonitored
      else case ex_get X (cm_processVerdicts c) now pid of Some v \<Rightarrow> v | None \<Rightarrow> ProcessVerdictUnknown)"

text \<open>
  \<open>seeder\<close> is the resolver of container cgroups, nil where the host cannot resolve them. \<open>bpfOk\<close> says
  whether the update of the kernel map succeeds for a key.
\<close>

type_synonym cgroup_seeder = "(string \<rightharpoonup> u64) option"

definition cgroupIDsOf :: "(string \<rightharpoonup> u64) \<Rightarrow> Process list \<Rightarrow> u64 list" where
  "cgroupIDsOf seeder processes =
     List.map_filter (\<lambda>p. if pr_IsKubernetes p then seeder (pr_ContainerCGroup p) else None) processes"

fun allow_cgroups :: "(u64 \<Rightarrow> bool) \<Rightarrow> u32 \<Rightarrow> u64 list \<Rightarrow> ('v, 'b) ConnectionManager \<Rightarrow> ('v, 'b) ConnectionManager" where
  "allow_cgroups bpfOk pid [] c = c"
| "allow_cgroups bpfOk pid (g # gs) c =
     (case cm_allowedCgroups c g of
        None \<Rightarrow>
          if bpfOk g
          then allow_cgroups bpfOk pid gs
            (c\<lparr>cm_allowedCgroups := (cm_allowedCgroups c)(g \<mapsto> [pid]),
               cm_cgroupAllowlistMap := (cm_cgroupAllowlistMap c)(g := True)\<rparr>)
          else allow_cgroups bpfOk pid gs c
      | Some pids \<Rightarrow>
          allow_cgroups bpfOk pid gs
            (c\<lparr>cm_allowedCgroups := (cm_allowedCgroups c)(g \<mapsto> List.insert pid pids)\<rparr>))"

definition allowCgroupsOfProcesses ::
  "cgroup_seeder \<Rightarrow> (u64 \<Rightarrow> bool) \<Rightarrow> u32 \<Rightarrow> Process list \<Rightarrow> ('v, 'b) ConnectionManager \<Rightarrow> ('v, 'b) ConnectionManager" where
  "allowCgroupsOfProcesses seeder bpfOk pid processes c =
     (case seeder of None \<Rightarrow> c | Some f \<Rightarrow> allow_cgroups bpfOk pid (cgroupIDsOf f processes) c)"

fun disallow_cgroups :: "(u64 \<Rightarrow> bool) \<Rightarrow> u32 \<Rightarrow> u64 list \<Rightarrow> ('v, 'b) ConnectionManager \<Rightarrow> ('v, 'b) ConnectionManager" where
  "disallow_cgroups bpfOk pid [] c = c"
| "disallow_cgroups bpfOk pid (g # gs) c =
     (case cm_allowedCgroups c g of
        None \<Rightarrow> disallow_cgroups bpfOk pid gs c
      | Some pids \<Rightarrow>
          let pids' = removeAll pid pids in
          if pids' \<noteq> []
          then disallow_cgroups bpfOk pid gs (c\<lparr>cm_allowedCgroups := (cm_allowedCgroups c)(g \<mapsto> pids')\<rparr>)
          else disallow_cgroups bpfOk pid gs
            (c\<lparr>cm_allowedCgroups := (cm_allowedCgroups c)(g := None),
               cm_cgroupAllowlistMap :=
                 (if bpfOk g then (cm_cgroupAllowlistMap c)(g := False) else cm_cgroupAllowlistMap c)\<rparr>))"

definition disallowCgroupsOfProcesses ::
  "cgroup_seeder \<Rightarrow> (u64 \<Rightarrow> bool) \<Rightarrow> u32 \<Rightarrow> Process list \<Rightarrow> ('v, 'b) ConnectionManager \<Rightarrow> ('v, 'b) ConnectionManager" where
  "disallowCgroupsOfProcesses seeder bpfOk pid processes c =
     (case seeder of None \<Rightarrow> c | Some f \<Rightarrow> disallow_cgroups bpfOk pid (cgroupIDsOf f processes) c)"

section \<open>Monitoring processes\<close>

definition updateMonitorStatusForProcess :: "(u32 \<Rightarrow> bool) \<Rightarrow> u32 \<Rightarrow> bool \<Rightarrow> ('v, 'b) ConnectionManager \<Rightarrow> ('v, 'b) ConnectionManager" where
  "updateMonitorStatusForProcess bpfOk pid monitor c =
     (if bpfOk pid then c\<lparr>cm_processMonitorMap := (cm_processMonitorMap c)(pid := monitor)\<rparr> else c)"

definition rejectProcessInBPF :: "(u32 \<Rightarrow> bool) \<Rightarrow> u32 \<Rightarrow> ('v, 'b) ConnectionManager \<Rightarrow> ('v, 'b) ConnectionManager" where
  "rejectProcessInBPF bpfOk pid c =
     (if bpfOk pid then c\<lparr>cm_processNotMonitorMap := (cm_processNotMonitorMap c)(pid := True)\<rparr> else c)"

text \<open>The environment of the operations on processes.\<close>

record 'v process_env =
  pe_verdicts :: "'v verdict_cache"
  pe_now :: int
  pe_selfPid :: u32
  pe_filter :: StaticMonitorFilter
  pe_seeder :: cgroup_seeder
  pe_bpfOk :: "u32 \<Rightarrow> bool"
  pe_cgroupOk :: "u64 \<Rightarrow> bool"

definition rebuildLocalIPWithPID :: "(u32 \<times> Process list) list \<Rightarrow> (string \<rightharpoonup> u32)" where
  "rebuildLocalIPWithPID es =
     map_of (rev (concat (map (\<lambda>(pid, ps). map (\<lambda>h. (h, pid)) (concat (map pr_ExposeHosts ps))) es)))"

text \<open>\<open>order\<close> is the order in which ranging over the monitored processes visits them.\<close>

definition RemoveProcess ::
  "'v process_env \<Rightarrow> (u32 \<times> Process list) list \<Rightarrow> u32 \<Rightarrow> ('v, 'b) ConnectionManager \<Rightarrow> ('v, 'b) ConnectionManager" where
  "RemoveProcess env order pid c =
     (let ps = (case cm_monitoringProcesses c pid of None \<Rightarrow> [] | Some ps \<Rightarrow> ps);
          c1 = disallowCgroupsOfProcesses (pe_seeder env) (pe_cgroupOk env) pid ps c;
          c2 = c1\<lparr>cm_monitoringProcesses := (cm_monitoringProcesses c1)(pid := None)\<rparr>;
          c3 = updateMonitorStatusForProcess (pe_bpfOk env) pid False c2;
          c4 = recordProcessVerdict (pe_verdicts env) (pe_now env) pid ProcessVerdictApproved c3
      in c4\<lparr>cm_localIPWithPid := rebuildLocalIPWithPID order, cm_notices := cm_notices c4 @ [OnProcessRemoved pid]\<rparr>)"

definition AddNewProcess ::
  "'v process_env \<Rightarrow> (u32 \<times> Process list) list \<Rightarrow> u32 \<Rightarrow> Process list \<Rightarrow> ('v, 'b) ConnectionManager \<Rightarrow> ('v, 'b) ConnectionManager" where
  "AddNewProcess env order pid entities c =
     (let monitorProcesses = ShouldIncludeProcesses (pe_selfPid env) (pe_filter env) entities in
      if monitorProcesses = [] then RemoveProcess env order pid c
      else if cm_monitoringProcesses c pid \<noteq> None then c
      else
       (let c1 = c\<lparr>cm_monitoringProcesses := (cm_monitoringProcesses c)(pid \<mapsto> monitorProcesses)\<rparr>;
            c2 = updateMonitorStatusForProcess (pe_bpfOk env) pid True c1;
            c3 = recordProcessVerdict (pe_verdicts env) (pe_now env) pid ProcessVerdictMonitored c2;
            c4 = allowCgroupsOfProcesses (pe_seeder env) (pe_cgroupOk env) pid monitorProcesses c3;
            hosts = concat (map pr_ExposeHosts monitorProcesses)
        in c4\<lparr>cm_localIPWithPid := cm_localIPWithPid c4 ++ map_of (map (\<lambda>h. (h, pid)) hosts),
              cm_notices := cm_notices c4 @ [OnNewProcessMonitoring pid]\<rparr>))"

text \<open>
  \<^verbatim>\<open>RecheckAllProcesses\<close> replaces the monitored processes by what the finders report (\<open>processes\<close> in
  the order of the range), then makes the kernel map follow. \<open>inBPF\<close> lists the pids of the kernel map
  and \<open>order\<close> the new processes, in the order their ranges visit them.
\<close>

definition recheck_monitoring :: "'v process_env \<Rightarrow> (u32 \<times> Process list) list \<Rightarrow> (u32 \<times> Process list) list" where
  "recheck_monitoring env processes =
     filter (\<lambda>(pid, ps). ps \<noteq> [])
       (map (\<lambda>(pid, ps). (pid, ShouldIncludeProcesses (pe_selfPid env) (pe_filter env) ps)) processes)"

definition recheck_update :: "'v process_env \<Rightarrow> bool \<Rightarrow> u32 \<Rightarrow> ('v, 'b) ConnectionManager \<Rightarrow> ('v, 'b) ConnectionManager" where
  "recheck_update env monitor pid c =
     (let c1 = updateMonitorStatusForProcess (pe_bpfOk env) pid monitor c in
      c1\<lparr>cm_notices := cm_notices c1 @ [if monitor then OnNewProcessMonitoring pid else OnProcessRemoved pid]\<rparr>)"

definition RecheckAllProcesses ::
  "'v process_env \<Rightarrow> (u32 \<times> Process list) list \<Rightarrow> u32 list \<Rightarrow> ('v, 'b) ConnectionManager \<Rightarrow> ('v, 'b) ConnectionManager" where
  "RecheckAllProcesses env processes inBPF c =
     (let monitoring = recheck_monitoring env processes;
          c1 = c\<lparr>cm_monitoringProcesses := map_of monitoring\<rparr>;
          c2 = fold (recheck_update env False) (filter (\<lambda>pid. map_of monitoring pid = None) inBPF) c1;
          c3 = fold (recheck_update env True) (filter (\<lambda>pid. pid \<notin> set inBPF) (map fst monitoring)) c2
      in c3\<lparr>cm_localIPWithPid := rebuildLocalIPWithPID monitoring\<rparr>)"

text \<open>
  \<^verbatim>\<open>OnNewProcessExecuting\<close>: \<open>wanted\<close> is the answer of the process module, \<open>procExists\<close> whether the
  process is still there when it is checked.
\<close>

definition OnNewProcessExecuting :: "'v process_env \<Rightarrow> bool \<Rightarrow> bool \<Rightarrow> u32 \<Rightarrow> ('v, 'b) ConnectionManager \<Rightarrow> ('v, 'b) ConnectionManager" where
  "OnNewProcessExecuting env wanted procExists pid c =
     (if wanted then c
      else let c1 = updateMonitorStatusForProcess (pe_bpfOk env) pid False c in
        if \<not> procExists then c1
        else rejectProcessInBPF (pe_bpfOk env) pid
          (recordProcessVerdict (pe_verdicts env) (pe_now env) pid ProcessVerdictRejected c1))"

section \<open>Building and finding connections\<close>

definition buildLocalAddress :: "('v, 'b) ConnectionManager \<Rightarrow> u32 \<Rightarrow> u16 \<Rightarrow> SocketPair \<Rightarrow> ConnectionAddress" where
  "buildLocalAddress c pid port socket =
     (case find pr_IsKubernetes (case cm_monitoringProcesses c pid of None \<Rightarrow> [] | Some ps \<Rightarrow> ps) of
        Some p \<Rightarrow> KubernetesAddress (pr_ServiceName p) (pr_PodName p) (pr_ContainerName p) (pr_ProcessName p) port
      | None \<Rightarrow> IPAddress (sp_SrcIP socket) port)"

text \<open>
  The environment of \<^verbatim>\<open>Find\<close>: the clock, the addresses of the host, the conntrack query that may
  rewrite the destination of a socket pair, and the flush listeners.
\<close>

record ('b, 's) find_env =
  fe_breaks :: "'b break_cache"
  fe_now :: int
  fe_isLocalHost :: "string \<Rightarrow> bool"
  fe_conntrack :: "SocketPair \<Rightarrow> SocketPair"
  fe_listeners :: "'s flush_listener list"

definition buildRemoteAddress ::
  "('b, 's) find_env \<Rightarrow> SocketPair \<Rightarrow> ('v, 'b) ConnectionManager \<Rightarrow> (ConnectionAddress option \<times> SocketPair) \<times> ('v, 'b) ConnectionManager" where
  "buildRemoteAddress env socket c =
     (if fe_isLocalHost env (sp_DestIP socket) then ((None, socket), c)
      else
       (let socket' = (if sp_NeedConnTrack socket then fe_conntrack env socket else socket);
            c' = c\<lparr>cm_remoteAddressBuildCount := cm_remoteAddressBuildCount c + 1\<rparr>
        in case cm_localIPWithPid c' (sp_DestIP socket') of
             Some pid \<Rightarrow>
               if pid \<noteq> 0 then ((Some (buildLocalAddress c' pid (sp_DestPort socket') socket'), socket'), c')
               else ((Some (IPAddress (sp_DestIP socket') (sp_DestPort socket')), socket'), c')
           | None \<Rightarrow> ((Some (IPAddress (sp_DestIP socket') (sp_DestPort socket')), socket'), c')))"

definition buildConnection ::
  "'b break_cache \<Rightarrow> int \<Rightarrow> SocketConnectEvent \<Rightarrow> SocketPair \<Rightarrow> ConnectionAddress \<Rightarrow> ConnectionAddress \<Rightarrow> string \<Rightarrow> ('v, 'b) ConnectionManager
     \<Rightarrow> ConnectionInfo \<times> ('v, 'b) ConnectionManager" where
  "buildConnection X now event socket local remote conKey c =
     (let role = (if sp_Role socket = ConnectionRoleServer then DetectPoint_server else DetectPoint_client);
          rpc = \<lparr>ac_Local = local, ac_Remote = remote, ac_Role = role, ac_TlsMode = TLSMode_Plain,
                 ac_Protocol = ProtocolType_TCP, ac_Attachment = None\<rparr>;
          broken = ex_get X (cm_connectionProtocolBreakMap c) now conKey;
          protocolBreak = (broken = Some True)
      in (\<lparr>ci_ConnectionID = co_ConID event, ci_RandomID = co_RandomID event, ci_RPCConnection = rpc,
           ci_MarkDeletable = False, ci_PID = co_PID event, ci_Socket = socket, ci_LastCheckExistTime = now,
           ci_DeleteAfter = None, ci_ProtocolBreak = protocolBreak, ci_CreatedAt = Some now,
           ci_ResolutionDeadline = None\<rparr>,
          if broken \<noteq> None
          then c\<lparr>cm_connectionProtocolBreakMap := ex_delete X now conKey (cm_connectionProtocolBreakMap c)\<rparr> else c))"

definition rebuildRPCConnection :: "TLSMode \<Rightarrow> ProtocolType \<Rightarrow> ConnectionInfo \<Rightarrow> ConnectionInfo" where
  "rebuildRPCConnection tls protocol conn =
     conn\<lparr>ci_RPCConnection := (ci_RPCConnection conn)\<lparr>ac_TlsMode := tls, ac_Protocol := protocol\<rparr>\<rparr>"

definition detail_tls :: "SocketDetailEvent \<Rightarrow> ConnectionInfo \<Rightarrow> TLSMode" where
  "detail_tls e conn =
     (if dt_SSL e = 1 \<and> ac_TlsMode (ci_RPCConnection conn) = TLSMode_Plain then TLSMode_TLS
      else ac_TlsMode (ci_RPCConnection conn))"

definition detail_protocol :: "SocketDetailEvent \<Rightarrow> ConnectionInfo \<Rightarrow> ProtocolType" where
  "detail_protocol e conn =
     (let current = ac_Protocol (ci_RPCConnection conn);
          detected = (if \<not> ci_ProtocolBreak conn \<and> dt_Protocol e \<noteq> ConnectionProtocolUnknown \<and> current = ProtocolType_TCP
            then if dt_Protocol e = ConnectionProtocolHTTP then ProtocolType_HTTP_1
                 else if dt_Protocol e = ConnectionProtocolHTTP2 then ProtocolType_HTTP_2 else current
            else current)
      in if ci_ProtocolBreak conn \<and> current \<noteq> ProtocolType_TCP then ProtocolType_TCP else detected)"

definition ready_all :: "'s flush_listener list \<Rightarrow> ConnectionInfo \<times> 's \<Rightarrow> ConnectionInfo \<times> 's" where
  "ready_all listeners = fold (\<lambda>l (conn, st). fl_ready l conn st) listeners"

definition connectionPostHandle ::
  "'s flush_listener list \<Rightarrow> log_event \<Rightarrow> ConnectionInfo \<Rightarrow> 's \<Rightarrow> ConnectionInfo \<times> 's" where
  "connectionPostHandle listeners event conn st =
     ready_all listeners
       (case event of
          CloseEventWithNotify e \<Rightarrow> conn\<lparr>ci_MarkDeletable := True\<rparr>
        | SocketDetail e \<Rightarrow> rebuildRPCConnection (detail_tls e conn) (detail_protocol e conn) conn
        | ConnectEventWithSocket e s \<Rightarrow> conn,
        st)"

definition Find ::
  "('b, 's) find_env \<Rightarrow> log_event \<Rightarrow> ('v, 'b) ConnectionManager \<times> 's \<Rightarrow> ConnectionInfo option \<times> ('v, 'b) ConnectionManager \<times> 's" where
  "Find env event = (\<lambda>(c, st).
     let key = connection_key (GetConnectionID event) (GetRandomID event) in
      case cm_connections c key of
        Some conn \<Rightarrow>
          (case connectionPostHandle (fe_listeners env) event conn st of
             (conn', st') \<Rightarrow> (Some conn', c\<lparr>cm_connections := (cm_connections c)(key \<mapsto> conn')\<rparr>, st'))
      | None \<Rightarrow>
          (case event of
             ConnectEventWithSocket e socket \<Rightarrow>
               (let localAddress = buildLocalAddress c (fst (ParseConnectionID (GetConnectionID event))) (sp_SrcPort socket) socket in
                case buildRemoteAddress env socket c of
                  ((None, socket'), c') \<Rightarrow> (None, c', st)
                | ((Some remoteAddress, socket'), c') \<Rightarrow>
                    (case buildConnection (fe_breaks env) (fe_now env) e socket' localAddress remoteAddress key c' of
                       (conn, c'') \<Rightarrow>
                         (case connectionPostHandle (fe_listeners env) event conn st of
                            (conn', st') \<Rightarrow> (Some conn', c''\<lparr>cm_connections := (cm_connections c'')(key \<mapsto> conn')\<rparr>, st'))))
           | _ \<Rightarrow> (None, c, st)))"

text \<open>
  The listeners are re-offered the unresolved client connections of a source address; \<open>order\<close> is the
  order in which the loop visits the keys of the connections.
\<close>

definition retro_candidate :: "string \<Rightarrow> u16 \<Rightarrow> ConnectionInfo \<Rightarrow> bool" where
  "retro_candidate srcIP srcPort conn \<longleftrightarrow>
     ac_Attachment (ci_RPCConnection conn) = None \<and> sp_Role (ci_Socket conn) = ConnectionRoleClient \<and>
     sp_SrcIP (ci_Socket conn) = srcIP \<and> sp_SrcPort (ci_Socket conn) = srcPort"

definition RetroResolveBySrc ::
  "'s flush_listener list \<Rightarrow> string list \<Rightarrow> string \<Rightarrow> u16 \<Rightarrow> ('v, 'b) ConnectionManager \<times> 's \<Rightarrow> ('v, 'b) ConnectionManager \<times> 's" where
  "RetroResolveBySrc listeners order srcIP srcPort =
     fold (\<lambda>key (c, st). case cm_connections c key of
         None \<Rightarrow> (c, st)
       | Some conn \<Rightarrow>
           if retro_candidate srcIP srcPort conn
           then (case ready_all listeners (conn, st) of
                   (conn', st') \<Rightarrow> (c\<lparr>cm_connections := (cm_connections c)(key \<mapsto> conn')\<rparr>, st'))
           else (c, st)) order"

definition SkipAllDataAnalyzeAndDowngradeProtocol ::
  "'b break_cache \<Rightarrow> int \<Rightarrow> (u64 \<Rightarrow> bool) \<Rightarrow> u64 \<Rightarrow> u64 \<Rightarrow> ('v, 'b) ConnectionManager \<Rightarrow> ('v, 'b) ConnectionManager" where
  "SkipAllDataAnalyzeAndDowngradeProtocol X now updateOk conID ranID c =
     (let key = connection_key conID ranID;
          c1 = (case cm_connections c key of
             Some conn \<Rightarrow> c\<lparr>cm_connections := (cm_connections c)(key \<mapsto> conn\<lparr>ci_ProtocolBreak := True\<rparr>)\<rparr>
           | None \<Rightarrow> c\<lparr>cm_connectionProtocolBreakMap := ex_set X now key True (60 * second) (cm_connectionProtocolBreakMap c)\<rparr>)
      in case cm_activeConnectionMap c1 conID of
           Found a \<Rightarrow>
             if act_RandomID a = ranID \<and> updateOk conID
             then c1\<lparr>cm_activeConnectionMap := (cm_activeConnectionMap c1)(conID := Found (a\<lparr>act_SkipDataUpload := 1\<rparr>))\<rparr>
             else c1
         | _ \<Rightarrow> c1)"

section \<open>Forgetting connections\<close>

definition checkConnectionIsExist :: "int \<Rightarrow> ActiveConnection map_lookup \<Rightarrow> ConnectionInfo \<Rightarrow> bool \<times> ConnectionInfo" where
  "checkConnectionIsExist now lookup con =
     (if now - ci_LastCheckExistTime con < connectionCheckExistTime then (True, con)
      else let con' = con\<lparr>ci_LastCheckExistTime := now\<rparr> in
        case lookup of
          KeyNotExist \<Rightarrow> (False, con'\<lparr>ci_MarkDeletable := True\<rparr>)
        | LookupError \<Rightarrow> (False, con')
        | Found a \<Rightarrow>
            if act_RandomID a \<noteq> 0 \<and> act_RandomID a \<noteq> ci_RandomID con
            then (False, con'\<lparr>ci_MarkDeletable := True\<rparr>) else (True, con'))"

text \<open>What one round decides about a connection: whether it is deleted now, and its new state.\<close>

definition finish_round :: "int \<Rightarrow> bool \<Rightarrow> ActiveConnection map_lookup \<Rightarrow> ConnectionInfo \<Rightarrow> bool \<times> ConnectionInfo" where
  "finish_round now monitored lookup con =
     (let (shouldDelete, con1) =
            (if ci_MarkDeletable con \<or> \<not> monitored then (True, con)
             else case checkConnectionIsExist now lookup con of (ex, con') \<Rightarrow> (\<not> ex, con'));
          con2 = (if shouldDelete \<and> ci_DeleteAfter con1 = None
                  then con1\<lparr>ci_DeleteAfter := Some (now + connectionDeleteDelayTime)\<rparr> else con1)
      in (shouldDelete \<and> (case ci_DeleteAfter con2 of None \<Rightarrow> False | Some t \<Rightarrow> now > t), con2))"

definition finish_connection :: "int \<Rightarrow> ('v, 'b) ConnectionManager \<Rightarrow> ConnectionInfo \<Rightarrow> bool \<times> ConnectionInfo" where
  "finish_connection now c con =
     finish_round now (ProcessIsMonitor c (ci_PID con)) (cm_activeConnectionMap c (ci_ConnectionID con)) con"

fun count_incr :: "string \<Rightarrow> (string \<times> nat) list \<Rightarrow> (string \<times> nat) list" where
  "count_incr k [] = [(k, 1)]"
| "count_incr k ((k', n) # es) = (if k = k' then (k', n + 1) # es else (k', n) # count_incr k es)"

definition recordUnresolvedRemote :: "string \<Rightarrow> string \<Rightarrow> ('v, 'b) ConnectionManager \<Rightarrow> ('v, 'b) ConnectionManager" where
  "recordUnresolvedRemote reason socketPair c =
     (let c1 = c\<lparr>cm_unresolvedRemoteCount := cm_unresolvedRemoteCount c + 1,
                 cm_unresolvedByReason := count_incr reason (cm_unresolvedByReason c)\<rparr>;
          key = reason @ '' '' @ socketPair
      in if key \<notin> fst ` set (cm_unresolvedRemotes c1) \<and> length (cm_unresolvedRemotes c1) \<ge> unresolvedRemoteMaxTrack
         then c1 else c1\<lparr>cm_unresolvedRemotes := count_incr key (cm_unresolvedRemotes c1)\<rparr>)"

fun unresolved_reason :: "'s flush_listener list \<Rightarrow> ConnectionInfo \<Rightarrow> 's \<Rightarrow> string" where
  "unresolved_reason [] conn st = ''unresolved''"
| "unresolved_reason (l # ls) conn st =
     (if fl_aware l \<and> fl_reason l conn st \<noteq> [] then fl_reason l conn st else unresolved_reason ls conn st)"

definition address_text :: "string \<Rightarrow> u16 \<Rightarrow> string" where
  "address_text host port = host @ '':'' @ dec_digits (unat port)"

definition recordConnectionResolveResult ::
  "'s flush_listener list \<Rightarrow> ConnectionInfo \<Rightarrow> ('v, 'b) ConnectionManager \<times> 's \<Rightarrow> ('v, 'b) ConnectionManager \<times> 's" where
  "recordConnectionResolveResult listeners conn = (\<lambda>(c, st).
     let st' = fold (\<lambda>l. fl_finalize l conn) (filter fl_aware listeners) st in
     (case ac_Remote (ci_RPCConnection conn) of
        KubernetesAddress _ _ _ _ _ \<Rightarrow> c
      | IPAddress host port \<Rightarrow>
          if ac_Attachment (ci_RPCConnection conn) \<noteq> None
          then c\<lparr>cm_ztunnelResolvedRemoteCount := cm_ztunnelResolvedRemoteCount c + 1\<rparr>
          else if sp_ConnTrackResolved (ci_Socket conn)
          then c\<lparr>cm_conntrackResolvedRemoteCount := cm_conntrackResolvedRemoteCount c + 1\<rparr>
          else recordUnresolvedRemote (unresolved_reason listeners conn st')
            (address_text (sp_SrcIP (ci_Socket conn)) (sp_SrcPort (ci_Socket conn)) @ ''->'' @ address_text host port) c,
      st'))"

text \<open>
  \<open>order\<close> is the order in which the map of connections is visited, and the deletable connections are
  visited in that order too.
\<close>

definition OnBuildConnectionLogFinished ::
  "int \<Rightarrow> 's flush_listener list \<Rightarrow> (string \<times> ConnectionInfo) list \<Rightarrow> ('v, 'b) ConnectionManager \<times> 's \<Rightarrow> ('v, 'b) ConnectionManager \<times> 's" where
  "OnBuildConnectionLogFinished now listeners order = (\<lambda>(c, st).
     let results = map (\<lambda>(key, con). (key, finish_connection now c con)) order;
         gone = filter (\<lambda>(key, del, con). del) results;
         c1 = c\<lparr>cm_connections := map_of (map (\<lambda>(key, del, con). (key, con)) results)\<rparr>
     in fold (\<lambda>(key, del, con) cs.
          case recordConnectionResolveResult listeners con cs of
            (c', st') \<Rightarrow> (c'\<lparr>cm_connections := (cm_connections c')(key := None)\<rparr>, st')) gone (c1, st))"

text \<open>
  The summary of the unresolved remotes. Go's sort is not stable and the map it sorts has no order:
  the model gives one of the results, with the counts in descending order.
\<close>

definition sortByCount :: "nat \<Rightarrow> (string \<times> nat) list \<Rightarrow> string" where
  "sortByCount topN m =
     (if m = [] then ''none''
      else let sorted = rev (sort_key snd m);
               sorted' = (if topN > 0 \<and> length sorted > topN then take topN sorted else sorted)
           in str_join '', '' (map (\<lambda>(k, v). k @ ''='' @ dec_digits v) sorted'))"

definition drainUnresolvedRemotes :: "('v, 'b) ConnectionManager \<Rightarrow> (string \<times> string) \<times> ('v, 'b) ConnectionManager" where
  "drainUnresolvedRemotes c =
     ((sortByCount unresolvedRemoteTopCount (cm_unresolvedRemotes c), sortByCount 0 (cm_unresolvedByReason c)),
      c\<lparr>cm_unresolvedRemotes := [], cm_unresolvedByReason := []\<rparr>)"

end
