(* ===== verification/Connection_Lifecycle.thy ===== *)
theory Connection_Lifecycle
  imports Connection_Manager_Props
begin

text \<open>
  The life of processes and connections in the connection manager: what a recheck of all processes
  leaves in the kernel, when a connection is forgotten and how it is counted then.
\<close>

section \<open>Rechecking all processes\<close>

lemma rebuildLocalIP_sound:
  "rebuildLocalIPWithPID es h = Some pid \<Longrightarrow> \<exists>ps p. (pid, ps) \<in> set es \<and> p \<in> set ps \<and> h \<in> set (pr_ExposeHosts p)"
  by (auto simp: rebuildLocalIPWithPID_def dest!: map_of_SomeD) blast

lemma rebuildLocalIP_complete:
  assumes "(pid, ps) \<in> set es" "p \<in> set ps" "h \<in> set (pr_ExposeHosts p)"
  shows "rebuildLocalIPWithPID es h \<noteq> None"
proof -
  have "(h, pid) \<in> set (concat (map (\<lambda>(pid, ps). map (\<lambda>h. (h, pid)) (concat (map pr_ExposeHosts ps))) es))"
    unfolding set_concat set_map image_image by (rule UN_I [OF assms(1)]) (use assms in auto)
  then show ?thesis by (simp only: rebuildLocalIPWithPID_def) (metis (no_types, lifting) set_rev weak_map_of_SomeI option.distinct(1))
qed

lemma recheck_fold:
  assumes "\<And>pid. pe_bpfOk env pid"
  shows "cm_processMonitorMap (fold (recheck_update env m) pids c) pid = (if pid \<in> set pids then m else cm_processMonitorMap c pid)
    \<and> cm_monitoringProcesses (fold (recheck_update env m) pids c) = cm_monitoringProcesses c
    \<and> cm_allowedCgroups (fold (recheck_update env m) pids c) = cm_allowedCgroups c
    \<and> cm_cgroupAllowlistMap (fold (recheck_update env m) pids c) = cm_cgroupAllowlistMap c
    \<and> cm_processVerdicts (fold (recheck_update env m) pids c) = cm_processVerdicts c"
  using assms
  by (induction pids arbitrary: c) (auto simp: recheck_update_def updateMonitorStatusForProcess_def Let_def)

lemma recheck_lookup:
  "distinct (map fst processes) \<Longrightarrow> map_of (recheck_monitoring env processes) pid =
     (case map_of processes pid of None \<Rightarrow> None
      | Some ps \<Rightarrow> let ps' = ShouldIncludeProcesses (pe_selfPid env) (pe_filter env) ps in if ps' = [] then None else Some ps')"
proof (induction processes)
  case (Cons e processes)
  have "fst e \<notin> set (map fst processes) \<Longrightarrow> map_of (recheck_monitoring env processes) (fst e) = None"
    by (auto simp: recheck_monitoring_def map_of_eq_None_iff) (metis fst_conv imageI)
  then show ?case using Cons by (cases e) (auto simp: recheck_monitoring_def Let_def split: option.splits)
qed (simp add: recheck_monitoring_def)

lemma RecheckAllProcesses_state:
  assumes "\<And>pid. pe_bpfOk env pid" "c' = RecheckAllProcesses env processes inBPF c"
  shows "cm_monitoringProcesses c' = map_of (recheck_monitoring env processes)"
    and "cm_processMonitorMap c' pid =
      (if pid \<in> set inBPF then cm_processMonitorMap c pid \<and> map_of (recheck_monitoring env processes) pid \<noteq> None
       else cm_processMonitorMap c pid \<or> map_of (recheck_monitoring env processes) pid \<noteq> None)"
    and "cm_localIPWithPid c' = rebuildLocalIPWithPID (recheck_monitoring env processes)"
    and "cm_allowedCgroups c' = cm_allowedCgroups c" "cm_cgroupAllowlistMap c' = cm_cgroupAllowlistMap c"
    and "cm_processVerdicts c' = cm_processVerdicts c"
  unfolding assms(2) RecheckAllProcesses_def Let_def
  by (auto simp: recheck_fold [OF assms(1)] map_of_eq_None_iff)

text \<open>
  After a recheck of all processes the kernel reports exactly the pids that have a process the
  filter keeps, the manager monitors exactly those processes, and the addresses that lead to a pid
  are the ones its monitored processes expose; the allowed cgroups and the verdicts are not rechecked.
\<close>

theorem RecheckAllProcesses_spec:
  assumes "\<And>pid. pe_bpfOk env pid" and "distinct (map fst processes)"
    and "set inBPF = {pid. cm_processMonitorMap c pid}"
    and "c' = RecheckAllProcesses env processes inBPF c"
  shows "(\<forall>pid. cm_monitoringProcesses c' pid =
        (case map_of processes pid of None \<Rightarrow> None
         | Some ps \<Rightarrow> let ps' = ShouldIncludeProcesses (pe_selfPid env) (pe_filter env) ps in if ps' = [] then None else Some ps'))
    \<and> (\<forall>pid. cm_processMonitorMap c' pid \<longleftrightarrow> ProcessIsMonitor c' pid)
    \<and> (\<forall>h pid. cm_localIPWithPid c' h = Some pid \<longrightarrow>
        (\<exists>ps p. cm_monitoringProcesses c' pid = Some ps \<and> p \<in> set ps \<and> h \<in> set (pr_ExposeHosts p)))
    \<and> (\<forall>h. (\<exists>pid ps p. cm_monitoringProcesses c' pid = Some ps \<and> p \<in> set ps \<and> h \<in> set (pr_ExposeHosts p)) \<longrightarrow>
        cm_localIPWithPid c' h \<noteq> None)
    \<and> cm_allowedCgroups c' = cm_allowedCgroups c \<and> cm_processVerdicts c' = cm_processVerdicts c"
proof (intro conjI allI impI)
  note st = RecheckAllProcesses_state [OF assms(1,4)] and lk = recheck_lookup [OF assms(2)]
  show "cm_monitoringProcesses c' pid =
      (case map_of processes pid of None \<Rightarrow> None
       | Some ps \<Rightarrow> let ps' = ShouldIncludeProcesses (pe_selfPid env) (pe_filter env) ps in if ps' = [] then None else Some ps')" for pid
    using st(1) lk by simp
  show "cm_processMonitorMap c' pid \<longleftrightarrow> ProcessIsMonitor c' pid" for pid
    using assms(3) st(1) st(2) [of pid] lk [of env pid] by (auto simp: ProcessIsMonitor_def Let_def split: option.splits if_splits)
  show "cm_localIPWithPid c' h \<noteq> None"
    if "\<exists>pid ps p. cm_monitoringProcesses c' pid = Some ps \<and> p \<in> set ps \<and> h \<in> set (pr_ExposeHosts p)" for h
    using that st(1,3) by (auto dest!: map_of_SomeD dest: rebuildLocalIP_complete)
  show "\<exists>ps p. cm_monitoringProcesses c' pid = Some ps \<and> p \<in> set ps \<and> h \<in> set (pr_ExposeHosts p)"
    if "cm_localIPWithPid c' h = Some pid" for h pid
  proof -
    have "distinct (map fst (recheck_monitoring env processes))"
      using assms(2) by (simp add: recheck_monitoring_def distinct_map_filter comp_def case_prod_unfold)
    then show ?thesis using that st(1,3) by (auto dest!: rebuildLocalIP_sound intro: map_of_is_SomeI)
  qed
qed (use RecheckAllProcesses_state [OF assms(1,4)] in auto)

theorem RecheckAllProcesses_spec_witness:
  "cm_processMonitorMap (RecheckAllProcesses (example_env None) [(7, [example_process])] [] (NewConnectionManager list_cache list_cache 5)) 7 \<longleftrightarrow>
   ProcessIsMonitor (RecheckAllProcesses (example_env None) [(7, [example_process])] [] (NewConnectionManager list_cache list_cache 5)) 7"
  using RecheckAllProcesses_spec [of "example_env None" "[(7, [example_process])]" "[]" "NewConnectionManager list_cache list_cache 5", OF _ _ _ refl]
  by (simp add: example_env_def NewConnectionManager_def)

section \<open>Forgetting connections\<close>

lemma checkConnectionIsExist_frame:
  "ci_DeleteAfter (snd (checkConnectionIsExist now l con)) = ci_DeleteAfter con"
  by (auto simp: checkConnectionIsExist_def Let_def split: map_lookup.splits)

text \<open>What ends a connection: it was closed, its process is not monitored, or the kernel does not know it.\<close>

definition connection_ended :: "int \<Rightarrow> ('v, 'b) ConnectionManager \<Rightarrow> ConnectionInfo \<Rightarrow> bool" where
  "connection_ended now c con \<longleftrightarrow>
     ci_MarkDeletable con \<or> \<not> ProcessIsMonitor c (ci_PID con) \<or>
     (now - ci_LastCheckExistTime con \<ge> connectionCheckExistTime \<and>
      (case cm_activeConnectionMap c (ci_ConnectionID con) of
         Found a \<Rightarrow> act_RandomID a \<noteq> 0 \<and> act_RandomID a \<noteq> ci_RandomID con
       | _ \<Rightarrow> True))"

lemma finish_connection_deletes:
  "fst (finish_connection now c con) \<longleftrightarrow>
     connection_ended now c con \<and> (\<exists>t. ci_DeleteAfter con = Some t \<and> t < now)"
  by (auto simp: finish_connection_def finish_round_def connection_ended_def checkConnectionIsExist_def connectionDeleteDelayTime_def Let_def
      split: map_lookup.splits option.splits)

lemma finish_connection_timer:
  "ci_DeleteAfter (snd (finish_connection now c con)) =
     (case ci_DeleteAfter con of Some t \<Rightarrow> Some t
      | None \<Rightarrow> if connection_ended now c con then Some (now + connectionDeleteDelayTime) else None)"
  by (auto simp: finish_connection_def finish_round_def connection_ended_def checkConnectionIsExist_def Let_def
      split: map_lookup.splits option.splits)

lemma recordUnresolvedRemote_counts [simp]:
  "cm_connections (recordUnresolvedRemote r p c) = cm_connections c"
  "cm_unresolvedRemoteCount (recordUnresolvedRemote r p c) = Suc (cm_unresolvedRemoteCount c)"
  "cm_ztunnelResolvedRemoteCount (recordUnresolvedRemote r p c) = cm_ztunnelResolvedRemoteCount c"
  "cm_conntrackResolvedRemoteCount (recordUnresolvedRemote r p c) = cm_conntrackResolvedRemoteCount c"
  by (simp_all add: recordUnresolvedRemote_def Let_def)

text \<open>The remotes that reached the end of their connection, by how they were resolved.\<close>

definition settled_remotes :: "('v, 'b) ConnectionManager \<Rightarrow> nat" where
  "settled_remotes c = cm_ztunnelResolvedRemoteCount c + cm_conntrackResolvedRemoteCount c + cm_unresolvedRemoteCount c"

definition raw_remote :: "ConnectionInfo \<Rightarrow> bool" where
  "raw_remote con \<longleftrightarrow> (case ac_Remote (ci_RPCConnection con) of IPAddress _ _ \<Rightarrow> True | KubernetesAddress _ _ _ _ _ \<Rightarrow> False)"

lemma settled_remotes_connections [simp]: "settled_remotes (c\<lparr>cm_connections := m\<rparr>) = settled_remotes c"
  by (simp add: settled_remotes_def)

lemma recordConnectionResolveResult_effect:
  assumes "recordConnectionResolveResult ls con (c, st) = (c', st')"
  shows "cm_connections c' = cm_connections c"
    and "settled_remotes c' = settled_remotes c + (if raw_remote con then 1 else 0)"
  using assms
  by (auto simp: recordConnectionResolveResult_def settled_remotes_def raw_remote_def Let_def split: ConnectionAddress.splits if_splits)

definition forget_step ::
  "'s flush_listener list \<Rightarrow> string \<times> bool \<times> ConnectionInfo \<Rightarrow> ('v, 'b) ConnectionManager \<times> 's \<Rightarrow> ('v, 'b) ConnectionManager \<times> 's" where
  "forget_step ls = (\<lambda>(key, del, con) cs.
     case recordConnectionResolveResult ls con cs of
       (c', st') \<Rightarrow> (c'\<lparr>cm_connections := (cm_connections c')(key := None)\<rparr>, st'))"

lemma forget_fold:
  "cm_connections (fst (fold (forget_step ls) gone (c, st))) key =
     (if key \<in> fst ` set gone then None else cm_connections c key) \<and>
   settled_remotes (fst (fold (forget_step ls) gone (c, st))) =
     settled_remotes c + length (filter (\<lambda>(_, _, con). raw_remote con) gone)"
proof (induction gone arbitrary: c st)
  case (Cons g gone)
  obtain k d con where g: "g = (k, d, con)" by (cases g)
  obtain c1 st1 where r: "recordConnectionResolveResult ls con (c, st) = (c1, st1)" by fastforce
  show ?case
    using Cons.IH [of "c1\<lparr>cm_connections := (cm_connections c1)(k := None)\<rparr>" st1] recordConnectionResolveResult_effect [OF r]
    by (auto simp: g forget_step_def r)
qed simp

lemma OnBuildConnectionLogFinished_fold:
  "OnBuildConnectionLogFinished now ls order (c, st) =
     fold (forget_step ls) (filter (\<lambda>(key, del, con). del) (map (\<lambda>(key, con). (key, finish_connection now c con)) order))
       (c\<lparr>cm_connections := map_of (map (\<lambda>(key, con). (key, snd (finish_connection now c con))) order)\<rparr>, st)"
  by (simp add: OnBuildConnectionLogFinished_def forget_step_def Let_def comp_def case_prod_unfold)

lemma finish_lookup:
  "map_of (map (\<lambda>(key, con). (key, snd (finish_connection now c con))) order) key =
     map_option (\<lambda>con. snd (finish_connection now c con)) (map_of order key)"
  by (induction order) auto

lemma finish_gone:
  assumes "distinct (map fst order)"
  shows "key \<in> fst ` set (filter (\<lambda>(key, del, con). del) (map (\<lambda>(key, con). (key, finish_connection now c con)) order)) \<longleftrightarrow>
    (\<exists>con. map_of order key = Some con \<and> fst (finish_connection now c con))"
  unfolding map_of_eq_Some_iff [OF assms]
proof (induction order)
  case (Cons e order)
  then show ?case by (cases e) (auto simp: case_prod_unfold)
qed simp

text \<open>
  At the end of a round of building logs, exactly the connections are forgotten that have ended
  and whose delay has passed; the delay was started by an earlier round, and the first round that
  finds a connection ended starts it. Every forgotten connection whose remote is still an address is
  counted once: as resolved by ztunnel, as resolved by conntrack, or as unresolved.
\<close>

theorem OnBuildConnectionLogFinished_spec:
  assumes "map_order (cm_connections c) order"
    and "OnBuildConnectionLogFinished now ls order (c, st) = (c', st')"
  shows "(\<forall>key. cm_connections c' key = (case cm_connections c key of
        None \<Rightarrow> None
      | Some con \<Rightarrow>
          if connection_ended now c con \<and> (\<exists>t. ci_DeleteAfter con = Some t \<and> t < now) then None
          else Some (snd (finish_connection now c con))))
    \<and> (\<forall>con. ci_DeleteAfter (snd (finish_connection now c con)) = (case ci_DeleteAfter con of
        Some t \<Rightarrow> Some t
      | None \<Rightarrow> if connection_ended now c con then Some (now + connectionDeleteDelayTime) else None))
    \<and> settled_remotes c' = settled_remotes c +
        length (filter (\<lambda>(key, con). fst (finish_connection now c con) \<and> raw_remote (snd (finish_connection now c con))) order)"
proof (intro conjI allI)
  let ?gone = "filter (\<lambda>(key, del, con). del) (map (\<lambda>(key, con). (key, finish_connection now c con)) order)"
  let ?c1 = "c\<lparr>cm_connections := map_of (map (\<lambda>(key, con). (key, snd (finish_connection now c con))) order)\<rparr>"
  have d: "distinct (map fst order)" and m: "map_of order = cm_connections c"
    using assms(1) by (auto simp: map_order_def)
  have c': "c' = fst (fold (forget_step ls) ?gone (?c1, st))"
    using assms(2) by (simp add: OnBuildConnectionLogFinished_fold)
  show "cm_connections c' key = (case cm_connections c key of
        None \<Rightarrow> None
      | Some con \<Rightarrow>
          if connection_ended now c con \<and> (\<exists>t. ci_DeleteAfter con = Some t \<and> t < now) then None
          else Some (snd (finish_connection now c con)))" for key
    unfolding c' conjunct1 [OF forget_fold] finish_gone [OF d] m
    by (auto simp: finish_lookup m finish_connection_deletes split: option.splits)
  show "ci_DeleteAfter (snd (finish_connection now c con)) = (case ci_DeleteAfter con of
        Some t \<Rightarrow> Some t
      | None \<Rightarrow> if connection_ended now c con then Some (now + connectionDeleteDelayTime) else None)" for con
    by (rule finish_connection_timer)
  have "length (filter (\<lambda>(_, _, con). raw_remote con) ?gone) =
      length (filter (\<lambda>(key, con). fst (finish_connection now c con) \<and> raw_remote (snd (finish_connection now c con))) order)"
    by (induction order) (auto simp: case_prod_unfold)
  then show "settled_remotes c' = settled_remotes c +
        length (filter (\<lambda>(key, con). fst (finish_connection now c con) \<and> raw_remote (snd (finish_connection now c con))) order)"
    unfolding c' conjunct2 [OF forget_fold] by simp
qed

definition example_connection :: ConnectionInfo where
  "example_connection = \<lparr>ci_ConnectionID = 9, ci_RandomID = 3,
     ci_RPCConnection = \<lparr>ac_Local = IPAddress ''10.0.0.1'' 80, ac_Remote = IPAddress ''10.0.0.2'' 81,
       ac_Role = DetectPoint_client, ac_TlsMode = TLSMode_Plain, ac_Protocol = ProtocolType_TCP, ac_Attachment = None\<rparr>,
     ci_MarkDeletable = True, ci_PID = 7,
     ci_Socket = \<lparr>sp_Family = 2, sp_Role = ConnectionRoleClient, sp_SrcIP = ''10.0.0.1'', sp_SrcPort = 80,
       sp_DestIP = ''10.0.0.2'', sp_DestPort = 81, sp_NeedConnTrack = False, sp_ConnTrackResolved = False\<rparr>,
     ci_LastCheckExistTime = 0, ci_DeleteAfter = None, ci_ProtocolBreak = False, ci_CreatedAt = Some 0,
     ci_ResolutionDeadline = None\<rparr>"

theorem OnBuildConnectionLogFinished_spec_witness:
  "let c = (NewConnectionManager list_cache list_cache 5)\<lparr>cm_connections := [''9_3'' \<mapsto> example_connection]\<rparr>;
       (c', st') = OnBuildConnectionLogFinished 10 ([] :: unit flush_listener list) [(''9_3'', example_connection)] (c, ())
   in \<exists>con. cm_connections c' ''9_3'' = Some con"
proof -
  let ?c = "(NewConnectionManager list_cache list_cache 5)\<lparr>cm_connections := [''9_3'' \<mapsto> example_connection]\<rparr>"
  obtain c' st' where r: "OnBuildConnectionLogFinished 10 ([] :: unit flush_listener list) [(''9_3'', example_connection)] (?c, ()) = (c', st')"
    by (metis surj_pair)
  have "map_order (cm_connections ?c) [(''9_3'', example_connection)]" by (simp add: map_order_def)
  from OnBuildConnectionLogFinished_spec [OF this r] show ?thesis
    by (simp add: r Let_def) (simp add: example_connection_def)
qed

text \<open>
  The delay of a connection is started once and never taken back. When a round found a live
  connection ended, for instance because the lookup in the kernel map failed, and a later round found
  it alive again, the delay still runs: once it has passed, the round that sees the close of the
  connection forgets it at once, without the delay in which its events and held-back logs may arrive.
\<close>

theorem stale_delete_timer:
  assumes "ci_DeleteAfter con = None"
    and "connection_ended t1 c1 con" and "con1 = snd (finish_connection t1 c1 con)"
    and "\<not> connection_ended t2 c2 con1" and "con2 = snd (finish_connection t2 c2 con1)"
    and "t1 + connectionDeleteDelayTime < t3"
  shows "\<not> fst (finish_connection t2 c2 con1) \<and> fst (finish_connection t3 c3 (con2\<lparr>ci_MarkDeletable := True\<rparr>))"
proof -
  have "ci_DeleteAfter con1 = Some (t1 + connectionDeleteDelayTime)"
    using assms(1-3) by (simp add: finish_connection_timer)
  moreover from this have "ci_DeleteAfter con2 = Some (t1 + connectionDeleteDelayTime)"
    using assms(5) by (simp add: finish_connection_timer)
  ultimately show ?thesis
    using assms(4,6) by (simp add: finish_connection_deletes) (simp add: connection_ended_def)
qed

definition example_monitor :: "ActiveConnection map_lookup \<Rightarrow> ((u32 \<times> ProcessVerdict \<times> int) list, (string \<times> bool \<times> int) list) ConnectionManager" where
  "example_monitor l = (NewConnectionManager list_cache list_cache 5)
     \<lparr>cm_monitoringProcesses := [7 \<mapsto> [example_process]], cm_activeConnectionMap := (\<lambda>_. l)\<rparr>"

theorem stale_delete_timer_witness:
  "let con = example_connection\<lparr>ci_MarkDeletable := False\<rparr>;
       t1 = 40 * second; t2 = 80 * second; t3 = 100 * second;
       alive = example_monitor (Found \<lparr>act_RandomID = 3, act_PID = 7, act_SocketFD = 9, act_SkipDataUpload = 0\<rparr>);
       con1 = snd (finish_connection t1 (example_monitor LookupError) con);
       con2 = snd (finish_connection t2 alive con1)
   in \<not> fst (finish_connection t2 alive con1) \<and> fst (finish_connection t3 alive (con2\<lparr>ci_MarkDeletable := True\<rparr>))"
  unfolding Let_def
  by (rule stale_delete_timer [OF _ _ refl _ refl])
    (simp_all add: connection_ended_def example_connection_def example_monitor_def ProcessIsMonitor_def
      connectionCheckExistTime_def connectionDeleteDelayTime_def finish_connection_def finish_round_def checkConnectionIsExist_def
      NewConnectionManager_def)

text \<open>
  A process that the filter rejects when the finders report it is removed, and the removal records
  the verdict of a process that passed every filter: until the verdict expires the manager calls it
  approved.
\<close>

theorem filtered_process_is_approved:
  assumes "expiring_cache (pe_verdicts env)"
    and "ShouldIncludeProcesses (pe_selfPid env) (pe_filter env) ps = []" and "0 \<le> d" and "d < processVerdictKeepTime"
  shows "ProcessVerdictOf (pe_verdicts env) (pe_now env + d) (AddNewProcess env order pid ps c) pid = ProcessVerdictApproved"
  using assms(2-4)
  by (simp add: AddNewProcess_def RemoveProcess_def ProcessVerdictOf_def ProcessIsMonitor_def recordProcessVerdict_def
      updateMonitorStatusForProcess_def Let_def expiring_cache.get_set_same [OF assms(1)])

theorem filtered_process_is_approved_witness:
  "ProcessVerdictOf list_cache (0 + 5) (AddNewProcess (example_env None) [] 7 [] (NewConnectionManager list_cache list_cache 5)) 7
    = ProcessVerdictApproved"
  using filtered_process_is_approved
    [of "example_env None" "[]" 5 "[]" 7 "NewConnectionManager list_cache (list_cache :: (_, string, bool) expiring_ops) 5"]
    list_cache.expiring_cache_axioms
  by (simp add: ShouldIncludeProcesses_def processVerdictKeepTime_def example_env_def)

end
