(* ===== verification/Connection_Evolution.thy ===== *)
theory Connection_Evolution
  imports Connection_Lifecycle
begin

text \<open>
  One connection through everything the connection manager does with it. The flush listeners are an
  interface: the manager relies on them only to attach a destination to a connection, and the
  properties of the waiting for a resolution hold for all listeners that keep to that.
\<close>

section \<open>What may change of a connection\<close>

definition attach :: "ZTunnelAttachment option \<Rightarrow> ConnectionInfo \<Rightarrow> ConnectionInfo" where
  "attach a conn = conn\<lparr>ci_RPCConnection := (ci_RPCConnection conn)\<lparr>ac_Attachment := a\<rparr>\<rparr>"

text \<open>An attachment may be completed but not taken away, and its destination stays.\<close>

definition refines_attachment :: "ZTunnelAttachment option \<Rightarrow> ZTunnelAttachment option \<Rightarrow> bool" where
  "refines_attachment old new \<longleftrightarrow> (case old of None \<Rightarrow> True
     | Some z \<Rightarrow> (\<exists>z'. new = Some z' \<and> za_RealDestinationIp z' = za_RealDestinationIp z \<and> za_By z' = za_By z))"

definition once_set :: "'a option \<Rightarrow> 'a option \<Rightarrow> bool" where
  "once_set old new \<longleftrightarrow> (\<forall>t. old = Some t \<longrightarrow> new = Some t)"

text \<open>
  \<open>continues a b\<close>: \<open>b\<close> is a later state of the connection \<open>a\<close>. Its identity, addresses and role never
  change; its deadlines are set at most once; marks are never taken back; the protocol changes from
  TCP to a detected one, and back to TCP only for good.
\<close>

definition protocol_continues :: "ConnectionInfo \<Rightarrow> ConnectionInfo \<Rightarrow> bool" where
  "protocol_continues a b \<longleftrightarrow>
     ac_Protocol (ci_RPCConnection b) = ac_Protocol (ci_RPCConnection a) \<or>
     ci_ProtocolBreak b \<and> ac_Protocol (ci_RPCConnection b) = ProtocolType_TCP \<or>
     ac_Protocol (ci_RPCConnection a) = ProtocolType_TCP \<and> \<not> ci_ProtocolBreak a"

definition continues :: "ConnectionInfo \<Rightarrow> ConnectionInfo \<Rightarrow> bool" where
  "continues a b \<longleftrightarrow>
     ci_ConnectionID b = ci_ConnectionID a \<and> ci_RandomID b = ci_RandomID a \<and> ci_PID b = ci_PID a \<and>
     ci_Socket b = ci_Socket a \<and> ci_CreatedAt b = ci_CreatedAt a \<and>
     ac_Local (ci_RPCConnection b) = ac_Local (ci_RPCConnection a) \<and>
     ac_Remote (ci_RPCConnection b) = ac_Remote (ci_RPCConnection a) \<and>
     ac_Role (ci_RPCConnection b) = ac_Role (ci_RPCConnection a) \<and>
     once_set (ci_ResolutionDeadline a) (ci_ResolutionDeadline b) \<and> once_set (ci_DeleteAfter a) (ci_DeleteAfter b) \<and>
     (ci_MarkDeletable a \<longrightarrow> ci_MarkDeletable b) \<and> (ci_ProtocolBreak a \<longrightarrow> ci_ProtocolBreak b) \<and>
     refines_attachment (ac_Attachment (ci_RPCConnection a)) (ac_Attachment (ci_RPCConnection b)) \<and>
     (ac_TlsMode (ci_RPCConnection a) = TLSMode_TLS \<longrightarrow> ac_TlsMode (ci_RPCConnection b) = TLSMode_TLS) \<and>
     protocol_continues a b"

lemma refines_attachment_refl [simp]: "refines_attachment a a"
  by (auto simp: refines_attachment_def split: option.splits)

lemma refines_attachment_trans: "refines_attachment a b \<Longrightarrow> refines_attachment b c \<Longrightarrow> refines_attachment a c"
  by (auto simp: refines_attachment_def split: option.splits)

lemma once_set_refl [simp]: "once_set a a"
  by (simp add: once_set_def)

lemma once_set_trans: "once_set a b \<Longrightarrow> once_set b c \<Longrightarrow> once_set a c"
  by (simp add: once_set_def)

lemma protocol_continues_trans:
  "protocol_continues a b \<Longrightarrow> protocol_continues b c \<Longrightarrow> (ci_ProtocolBreak a \<longrightarrow> ci_ProtocolBreak b) \<Longrightarrow>
   (ci_ProtocolBreak b \<longrightarrow> ci_ProtocolBreak c) \<Longrightarrow> protocol_continues a c"
  by (auto simp: protocol_continues_def)

lemma continues_refl [simp]: "continues a a"
  by (simp add: continues_def protocol_continues_def)

lemma continues_trans: "continues a b \<Longrightarrow> continues b c \<Longrightarrow> continues a c"
  unfolding continues_def
  by (intro conjI; (elim conjE)?; simp?) (blast intro: once_set_trans refines_attachment_trans protocol_continues_trans)+

text \<open>
  \<open>evolves ls t0 a b\<close>: from \<open>a\<close> at time \<open>t0\<close>, the manager turns the connection into \<open>b\<close> by any sequence
  of its operations: handling an event, offering it again, asking whether to wait, ending a round and
  giving up its protocol. Rounds end at times from \<open>t0\<close> on.
\<close>

inductive evolves :: "'s flush_listener list \<Rightarrow> int \<Rightarrow> ConnectionInfo \<Rightarrow> ConnectionInfo \<Rightarrow> bool"
  for ls :: "'s flush_listener list" and t0 :: int and a :: ConnectionInfo where
  ev_start: "evolves ls t0 a a"
| ev_event: "evolves ls t0 a b \<Longrightarrow> evolves ls t0 a (fst (connectionPostHandle ls event b st))"
| ev_retro: "evolves ls t0 a b \<Longrightarrow> evolves ls t0 a (fst (ready_all ls (b, st)))"
| ev_defer: "evolves ls t0 a b \<Longrightarrow> evolves ls t0 a (snd (ShouldDeferForResolution grace ls st now b))"
| ev_finish: "evolves ls t0 a b \<Longrightarrow> t0 \<le> now \<Longrightarrow> evolves ls t0 a (snd (finish_round now monitored lookup b))"
| ev_break: "evolves ls t0 a b \<Longrightarrow> evolves ls t0 a (b\<lparr>ci_ProtocolBreak := True\<rparr>)"

text \<open>Every connection is stored under the key of its own identifiers.\<close>

definition keyed :: "('v, 'b) ConnectionManager \<Rightarrow> bool" where
  "keyed c \<longleftrightarrow> (\<forall>key con. cm_connections c key = Some con \<longrightarrow> key = connection_key (ci_ConnectionID con) (ci_RandomID con))"

lemma finish_round_timer:
  "ci_DeleteAfter (snd (finish_round now m l con)) = Some d \<Longrightarrow>
     ci_DeleteAfter con = Some d \<or> d = now + connectionDeleteDelayTime"
  by (auto simp: finish_round_def checkConnectionIsExist_def Let_def split: map_lookup.splits if_splits)

lemma finish_round_continues: "continues con (snd (finish_round now m l con))"
  by (auto simp: finish_round_def checkConnectionIsExist_def continues_def once_set_def protocol_continues_def Let_def
      split: map_lookup.splits)

lemma resolutionGraceFor_bound:
  "0 \<le> resolutionGraceFor fp" "0 < resolutionGraceFor fp \<Longrightarrow> resolutionGraceFor fp + fp \<le> connectionDeleteDelayTime"
  by (auto simp: resolutionGraceFor_def Let_def connectionDeleteDelayTime_def resolutionDeferMargin_def)

section \<open>The interface of the flush listeners\<close>

locale attaching_listeners =
  fixes ls :: "'s flush_listener list"
  assumes ready_attaches: "l \<in> set ls \<Longrightarrow>
      \<exists>a. fst (fl_ready l conn st) = attach a conn \<and> refines_attachment (ac_Attachment (ci_RPCConnection conn)) a"
    and pending_attaches: "l \<in> set ls \<Longrightarrow> fl_aware l \<Longrightarrow>
      \<exists>a. snd (fl_pending l conn st) = attach a conn \<and> refines_attachment (ac_Attachment (ci_RPCConnection conn)) a"
begin

lemma attach_continues: "refines_attachment (ac_Attachment (ci_RPCConnection conn)) a \<Longrightarrow> continues conn (attach a conn)"
  by (simp add: continues_def protocol_continues_def attach_def)

lemma attach_deadlines [simp]:
  "ci_ResolutionDeadline (attach a conn) = ci_ResolutionDeadline conn"
  "ci_DeleteAfter (attach a conn) = ci_DeleteAfter conn"
  by (simp_all add: attach_def)

lemma ready_fold:
  "set xs \<subseteq> set ls \<Longrightarrow> continues (fst cs) (fst (fold (\<lambda>l (conn, st). fl_ready l conn st) xs cs)) \<and>
     ci_ResolutionDeadline (fst (fold (\<lambda>l (conn, st). fl_ready l conn st) xs cs)) = ci_ResolutionDeadline (fst cs)"
proof (induction xs arbitrary: cs)
  case (Cons l xs)
  obtain conn st where cs: "cs = (conn, st)" by fastforce
  obtain a where a: "fst (fl_ready l conn st) = attach a conn" "refines_attachment (ac_Attachment (ci_RPCConnection conn)) a"
    using ready_attaches [of l conn st] Cons.prems by auto
  show ?case
    using Cons.IH [of "fl_ready l conn st"] Cons.prems continues_trans [OF attach_continues [OF a(2)]] a(1)
    by (simp add: cs)
qed simp

lemmas ready_all_continues = ready_fold [OF subset_refl, of "(conn, st)" for conn st, folded ready_all_def, simplified]

lemma any_pending_continues:
  "set xs \<subseteq> set ls \<Longrightarrow> continues conn (snd (any_pending xs st conn)) \<and>
     ci_ResolutionDeadline (snd (any_pending xs st conn)) = ci_ResolutionDeadline conn"
proof (induction xs arbitrary: conn)
  case (Cons l xs)
  show ?case
  proof (cases "fl_aware l")
    case True
    then obtain a where a: "snd (fl_pending l conn st) = attach a conn"
      "refines_attachment (ac_Attachment (ci_RPCConnection conn)) a"
      using pending_attaches [of l conn st] Cons.prems by auto
    show ?thesis
      using Cons.IH [of "attach a conn"] Cons.prems attach_continues [OF a(2)] continues_trans [OF attach_continues [OF a(2)]] a(1) True
      by (cases "fl_pending l conn st") (simp split: bool.splits)
  qed (use Cons in auto)
qed simp

lemma defer_continues: "continues conn (snd (ShouldDeferForResolution grace ls st now conn))"
proof (cases "any_pending ls st conn")
  case (Pair p conn')
  have "continues conn conn'" using any_pending_continues [of ls conn st] Pair by simp
  moreover have "continues conn' (conn'\<lparr>ci_ResolutionDeadline := Some t\<rparr>)" if "ci_ResolutionDeadline conn' = None" for t
    using that by (simp add: continues_def once_set_def protocol_continues_def)
  ultimately show ?thesis
    using continues_trans [of conn conn'] Pair by (auto simp: ShouldDeferForResolution_def split: bool.splits option.splits)
qed

text \<open>Waiting is bounded: a first deferral sets the deadline, and no call at or after it defers.\<close>

lemma first_defer_sets:
  assumes "fst (ShouldDeferForResolution grace ls st now conn)" "ci_ResolutionDeadline conn = None"
  shows "ci_ResolutionDeadline (snd (ShouldDeferForResolution grace ls st now conn)) = Some (now + grace)"
  using assms any_pending_continues [of ls conn st]
  by (auto simp: ShouldDeferForResolution_def split: prod.splits bool.splits if_splits)

lemma no_defer_after:
  assumes "ci_ResolutionDeadline conn = Some d" "d \<le> now"
  shows "\<not> fst (ShouldDeferForResolution grace ls st now conn)"
  using assms any_pending_continues [of ls conn st]
  by (auto simp: ShouldDeferForResolution_def split: prod.splits bool.splits)

lemma postHandle_continues: "continues conn (fst (connectionPostHandle ls event conn st))"
proof -
  let ?c = "case event of
          CloseEventWithNotify e \<Rightarrow> conn\<lparr>ci_MarkDeletable := True\<rparr>
        | SocketDetail e \<Rightarrow> rebuildRPCConnection (detail_tls e conn) (detail_protocol e conn) conn
        | ConnectEventWithSocket e s \<Rightarrow> conn"
  have "continues conn ?c"
    by (cases event)
      (auto simp: continues_def protocol_continues_def rebuildRPCConnection_def detail_tls_def detail_protocol_def Let_def)
  then show ?thesis
    unfolding connectionPostHandle_def by (rule continues_trans [OF _ conjunct1 [OF ready_all_continues]])
qed

lemma evolves_continues: "evolves ls t0 a b \<Longrightarrow> continues a b"
proof (induction rule: evolves.induct)
  case (ev_break b)
  have "continues b (b\<lparr>ci_ProtocolBreak := True\<rparr>)" by (simp add: continues_def protocol_continues_def)
  then show ?case using ev_break continues_trans by blast
qed (blast intro: continues_refl continues_trans postHandle_continues defer_continues finish_round_continues
    conjunct1 [OF ready_all_continues])+

text \<open>The listeners and the waiting do not touch the delay of a forgotten connection.\<close>

lemma ready_fold_timer:
  "set xs \<subseteq> set ls \<Longrightarrow> ci_DeleteAfter (fst (fold (\<lambda>l (conn, st). fl_ready l conn st) xs cs)) = ci_DeleteAfter (fst cs)"
proof (induction xs arbitrary: cs)
  case (Cons l xs)
  obtain conn st where cs: "cs = (conn, st)" by fastforce
  obtain a where a: "fst (fl_ready l conn st) = attach a conn"
    using ready_attaches [of l conn st] Cons.prems by auto
  show ?case using Cons.IH [of "fl_ready l conn st"] Cons.prems a by (simp add: cs)
qed simp

lemma any_pending_timer: "set xs \<subseteq> set ls \<Longrightarrow> ci_DeleteAfter (snd (any_pending xs st conn)) = ci_DeleteAfter conn"
proof (induction xs arbitrary: conn)
  case (Cons l xs)
  show ?case
  proof (cases "fl_aware l")
    case True
    then obtain a where a: "snd (fl_pending l conn st) = attach a conn"
      using pending_attaches [of l conn st] Cons.prems by auto
    then show ?thesis using Cons.IH [of "attach a conn"] Cons.prems True
      by (cases "fl_pending l conn st") (simp split: bool.splits)
  qed (use Cons in auto)
qed simp

lemma evolves_timer:
  "evolves ls t0 a b \<Longrightarrow> ci_DeleteAfter a = None \<Longrightarrow> ci_DeleteAfter b = Some d \<Longrightarrow> t0 + connectionDeleteDelayTime \<le> d"
proof (induction arbitrary: d rule: evolves.induct)
  case (ev_event b event st)
  then show ?case
    using ready_fold_timer [OF subset_refl]
    by (auto simp: connectionPostHandle_def ready_all_def rebuildRPCConnection_def split: log_event.splits)
next
  case (ev_retro b st)
  then show ?case using ready_fold_timer [OF subset_refl] by (auto simp: ready_all_def)
next
  case (ev_defer b grace st now)
  then show ?case using any_pending_timer [OF subset_refl, of st b]
    by (auto simp: ShouldDeferForResolution_def split: prod.splits bool.splits option.splits if_splits)
next
  case (ev_finish b now monitored lookup)
  then show ?case by (auto dest: finish_round_timer)
qed auto

lemma waiting_ends_in_time:
  assumes "ci_ResolutionDeadline conn = None" "ci_DeleteAfter conn = None"
    and "fst (ShouldDeferForResolution (resolutionGraceFor fp) ls st t0 conn)"
    and "evolves ls t0 (snd (ShouldDeferForResolution (resolutionGraceFor fp) ls st t0 conn)) conn'"
    and "t0 + resolutionGraceFor fp \<le> t" "t \<le> t0 + resolutionGraceFor fp + fp"
  shows "\<not> fst (ShouldDeferForResolution (resolutionGraceFor fp) ls st' t conn') \<and> \<not> fst (finish_connection t c conn')"
proof -
  let ?conn1 = "snd (ShouldDeferForResolution (resolutionGraceFor fp) ls st t0 conn)"
  have "ci_ResolutionDeadline ?conn1 = Some (t0 + resolutionGraceFor fp)"
    using first_defer_sets assms(1,3) by simp
  then have "ci_ResolutionDeadline conn' = Some (t0 + resolutionGraceFor fp)"
    using evolves_continues [OF assms(4)] by (simp add: continues_def once_set_def)
  moreover have "ci_DeleteAfter ?conn1 = None"
    using assms(2) any_pending_timer [OF subset_refl, of st conn]
    by (auto simp: ShouldDeferForResolution_def split: prod.splits bool.splits option.splits)
  then have "t0 + connectionDeleteDelayTime \<le> d" if "ci_DeleteAfter conn' = Some d" for d
    using evolves_timer [OF assms(4)] that by blast
  moreover have "0 < resolutionGraceFor fp"
    using assms(3) resolutionGraceFor_bound(1) [of fp] by (auto simp: ShouldDeferForResolution_def split: if_splits)
  ultimately show ?thesis
    using no_defer_after assms(5,6) resolutionGraceFor_bound(2) [of fp] by (fastforce simp: finish_connection_deletes)
qed

text \<open>What \<^verbatim>\<open>Find\<close> answers and stores.\<close>

lemma buildRemoteAddress_connections:
  "buildRemoteAddress env socket c = ((r, s'), c') \<Longrightarrow> cm_connections c' = cm_connections c"
  by (auto simp: buildRemoteAddress_def Let_def split: if_splits option.splits)

lemma Find_new:
  assumes "cm_connections c (connection_key (co_ConID e) (co_RandomID e)) = None" "fe_listeners env = ls"
    and "Find env (ConnectEventWithSocket e socket) (c, st) = (Some conn, c', st')"
  shows "ci_ConnectionID conn = co_ConID e \<and> ci_RandomID conn = co_RandomID e \<and>
    cm_connections c' = (cm_connections c)(connection_key (co_ConID e) (co_RandomID e) \<mapsto> conn)"
proof -
  obtain r s1 c1 where b: "buildRemoteAddress env socket c = ((r, s1), c1)" by (metis surj_pair)
  then obtain remote where r: "r = Some remote" using assms by (cases r) (auto simp: Find_def Let_def)
  let ?local = "buildLocalAddress c (fst (ParseConnectionID (co_ConID e))) (sp_SrcPort socket) socket"
  let ?key = "connection_key (co_ConID e) (co_RandomID e)"
  obtain con c2 where bc: "buildConnection (fe_breaks env) (fe_now env) e s1 ?local remote ?key c1 = (con, c2)" by fastforce
  obtain con' st2 where ph: "connectionPostHandle ls (ConnectEventWithSocket e socket) con st = (con', st2)" by fastforce
  have "ci_ConnectionID con = co_ConID e" "ci_RandomID con = co_RandomID e" "cm_connections c2 = cm_connections c"
    using bc buildRemoteAddress_connections [OF b] by (auto simp: buildConnection_def Let_def)
  moreover have "continues con con'" using postHandle_continues [of con "ConnectEventWithSocket e socket" st] ph by simp
  moreover have "conn = con'" "c' = c2\<lparr>cm_connections := (cm_connections c2)(?key \<mapsto> con')\<rparr>"
    using assms b r bc ph by (auto simp: Find_def Let_def)
  ultimately show ?thesis by (simp add: continues_def)
qed

lemma Find_missing:
  assumes "Find env event (c, st) = (None, c', st')"
  shows "cm_connections c (connection_key (GetConnectionID event) (GetRandomID event)) = None \<and> cm_connections c' = cm_connections c \<and> st' = st"
  using assms buildRemoteAddress_connections
  by (auto simp: Find_def Let_def split: option.splits log_event.splits prod.splits)

lemma Find_known:
  assumes "cm_connections c (connection_key (GetConnectionID event) (GetRandomID event)) = Some con" "fe_listeners env = ls"
    and "Find env event (c, st) = (r, c', st')"
  shows "\<exists>conn. r = Some conn \<and> continues con conn \<and>
    cm_connections c' = (cm_connections c)(connection_key (GetConnectionID event) (GetRandomID event) \<mapsto> conn)"
  using assms postHandle_continues [of con event st]
  by (cases "connectionPostHandle ls event con st") (auto simp: Find_def Let_def)

lemma Find_spec:
  assumes "keyed c" "fe_listeners env = ls" "Find env event (c, st) = (r, c', st')"
    and "key = connection_key (GetConnectionID event) (GetRandomID event)"
  shows "keyed c' \<and> cm_connections c' key = r \<and> (\<forall>k. k \<noteq> key \<longrightarrow> cm_connections c' k = cm_connections c k) \<and>
    (\<forall>conn. r = Some conn \<longrightarrow> ci_ConnectionID conn = GetConnectionID event \<and> ci_RandomID conn = GetRandomID event) \<and>
    (\<forall>con. cm_connections c key = Some con \<longrightarrow> (\<exists>conn. r = Some conn \<and> continues con conn))"
proof (cases "cm_connections c key")
  case None
  show ?thesis
  proof (cases r)
    case None
    then show ?thesis using Find_missing [of env event c st c' st'] assms by (auto simp: keyed_def)
  next
    case (Some conn)
    with None assms obtain e socket where ev: "event = ConnectEventWithSocket e socket"
      by (cases event) (auto simp: Find_def Let_def)
    have ids: "GetConnectionID event = co_ConID e" "GetRandomID event = co_RandomID e" by (simp_all add: ev)
    have "ci_ConnectionID conn = co_ConID e \<and> ci_RandomID conn = co_RandomID e \<and> cm_connections c' = (cm_connections c)(key \<mapsto> conn)"
      using Find_new [of c e env socket st conn c' st'] None Some assms ev ids by simp
    then show ?thesis using assms(1,4) Some None ids by (auto simp: keyed_def)
  qed
next
  case (Some con)
  then obtain conn where r: "r = Some conn" "continues con conn" "cm_connections c' = (cm_connections c)(key \<mapsto> conn)"
    using Find_known [of c event con env st r c' st'] assms by auto
  have "ci_ConnectionID con = GetConnectionID event \<and> ci_RandomID con = GetRandomID event"
    using assms(1,4) Some by (metis keyed_def connection_key_inject)
  then show ?thesis using r assms(1,4) Some by (auto simp: keyed_def continues_def)
qed

end

end
