(* ===== verification/Ztunnel_Identity.thy ===== *)
theory Ztunnel_Identity
  imports Ztunnel_Decode
begin

text \<open>
  Workload identities (\<^verbatim>\<open>collector/ztunnel/ztunnel_identity.go\<close>): SPIFFE identities, the additions that
  carry an identity, the index of services behind an east-west gateway, and the index of workloads.
  The sections of a ztunnel configuration dump are records; a JSON object that the code ranges over is a
  list of its entries in the order of the range.
\<close>

section \<open>SPIFFE identities\<close>

definition spiffePathSegment :: "string \<Rightarrow> string \<Rightarrow> string" where
  "spiffePathSegment s key = (case str_cut key s of None \<Rightarrow> [] | Some (_, rest) \<Rightarrow> takeWhile (\<lambda>c. c \<noteq> CHR ''/'') rest)"

definition has_prefix :: "string \<Rightarrow> string \<Rightarrow> bool" where
  "has_prefix s pre \<longleftrightarrow> take (length pre) s = pre"

definition parseSpiffeNsSa :: "string \<Rightarrow> (string \<times> string) option" where
  "parseSpiffeNsSa spiffe =
     (if \<not> has_prefix spiffe ''spiffe://'' then None
      else let ns = spiffePathSegment spiffe ''/ns/''; sa = spiffePathSegment spiffe ''/sa/''
        in if ns = [] \<or> sa = [] then None else Some (ns, sa))"

definition identityFromAccessLog :: "string \<Rightarrow> string \<Rightarrow> WorkloadIdentity option" where
  "identityFromAccessLog cluster identity = (case parseSpiffeNsSa identity of
      None \<Rightarrow> if cluster = [] then None else Some \<lparr>wi_Cluster = cluster, wi_Namespace = [], wi_ServiceAccount = []\<rparr>
    | Some (ns, sa) \<Rightarrow> Some \<lparr>wi_Cluster = cluster, wi_Namespace = ns, wi_ServiceAccount = sa\<rparr>)"

section \<open>Additions\<close>

definition appendKV :: "(string \<times> string) list \<Rightarrow> string \<Rightarrow> string \<Rightarrow> (string \<times> string) list" where
  "appendKV kvs key v = (if v = [] then kvs else kvs @ [(key, v)])"

definition identityToKVs :: "string \<Rightarrow> WorkloadIdentity option \<Rightarrow> (string \<times> string) list" where
  "identityToKVs pre i = (case i of
      None \<Rightarrow> []
    | Some w \<Rightarrow>
        appendKV (appendKV (appendKV [] (pre @ ''_CLUSTER'') (wi_Cluster w)) (pre @ ''_NS'') (wi_Namespace w))
          (pre @ ''_SERVICE'') (wi_ServiceAccount w))"

definition additionHasKey :: "(string \<times> string) list \<Rightarrow> string \<Rightarrow> bool" where
  "additionHasKey kvs key \<longleftrightarrow> list_ex (\<lambda>kv. fst kv = key) kvs"

section \<open>The configuration dump\<close>

record ztunnelWorkloadEntry =
  we_ClusterID :: string
  we_Namespace :: string
  we_ServiceAccount :: string
  we_WorkloadIps :: "string list"

record ztunnelServiceEntry =
  se_Vips :: "string list"
  se_Endpoints :: "string list"

record ztunnelConnection =
  zn_Src :: string
  zn_OriginalDst :: string
  zn_ActualDst :: string

record ztunnelConnectionDump =
  cd_Inbound :: "ztunnelConnection list"
  cd_Outbound :: "ztunnelConnection list"

record ztunnelConfigDump =
  dump_Network :: string
  dump_Workloads :: "ztunnelWorkloadEntry list"
  dump_Services :: "ztunnelServiceEntry list"
  dump_WorkloadState :: "ztunnelConnectionDump option list"

record splitHorizonIndex =
  sh_network :: string
  sh_byVIP :: "(string \<times> string) list"

definition splitHorizonWorkloadMarker :: string where "splitHorizonWorkloadMarker = ''SplitHorizonWorkload''"
definition eastWestGatewayServiceAccount :: string where "eastWestGatewayServiceAccount = ''ambient-east-west-gateway''"

text \<open>The segment after the first marker that has one; an empty segment is no namespace.\<close>

fun gateway_segment :: "string list \<Rightarrow> string option" where
  "gateway_segment (p # q # ps) =
     (if p = splitHorizonWorkloadMarker then if q \<noteq> [] then Some q else None else gateway_segment (q # ps))"
| "gateway_segment _ = None"

definition gatewayNamespaceFromSplitHorizonUID :: "string \<Rightarrow> string option" where
  "gatewayNamespaceFromSplitHorizonUID uid = gateway_segment (str_split (CHR ''/'') uid)"

fun gateway_scan :: "string \<Rightarrow> string list \<Rightarrow> string option" where
  "gateway_scan gatewayNS [] = (if gatewayNS \<noteq> [] then Some gatewayNS else None)"
| "gateway_scan gatewayNS (uid # uids) = (case gatewayNamespaceFromSplitHorizonUID uid of
      None \<Rightarrow> None
    | Some ns \<Rightarrow> gateway_scan ns uids)"

definition splitHorizonGatewayNamespace :: "string list \<Rightarrow> string option" where
  "splitHorizonGatewayNamespace endpoints = gateway_scan [] endpoints"

text \<open>The last write for a VIP wins: later entries stand before earlier ones.\<close>

definition service_vips :: "ztunnelServiceEntry \<Rightarrow> (string \<times> string) list" where
  "service_vips svc = (case splitHorizonGatewayNamespace (se_Endpoints svc) of
      None \<Rightarrow> []
    | Some gatewayNS \<Rightarrow> map (\<lambda>vip. (vip, gatewayNS)) (filter (\<lambda>vip. vip \<noteq> []) (se_Vips svc)))"

definition buildSplitHorizonGateways :: "ztunnelConfigDump \<Rightarrow> splitHorizonIndex" where
  "buildSplitHorizonGateways dump =
     \<lparr>sh_network = dump_Network dump, sh_byVIP = rev (concat (map service_vips (dump_Services dump)))\<rparr>"

definition lookup_gateway :: "splitHorizonIndex option \<Rightarrow> string \<Rightarrow> string option" where
  "lookup_gateway idx destIP = (case idx of
      None \<Rightarrow> None
    | Some i \<Rightarrow> if sh_network i = [] \<or> destIP = [] then None else map_of (sh_byVIP i) (sh_network i @ ''/'' @ destIP))"

definition workload_ips :: "ztunnelWorkloadEntry \<Rightarrow> (string \<times> WorkloadIdentity) list" where
  "workload_ips w = map (\<lambda>ip. (ip, \<lparr>wi_Cluster = we_ClusterID w, wi_Namespace = we_Namespace w, wi_ServiceAccount = we_ServiceAccount w\<rparr>))
     (filter (\<lambda>ip. ip \<noteq> []) (we_WorkloadIps w))"

definition buildWorkloadIdentities :: "ztunnelConfigDump \<Rightarrow> (string \<times> WorkloadIdentity) list" where
  "buildWorkloadIdentities dump = rev (concat (map workload_ips (dump_Workloads dump)))"

section \<open>Parsing an identity that was printed\<close>

definition spiffe :: "string \<Rightarrow> string \<Rightarrow> string \<Rightarrow> string" where
  "spiffe td ns sa = ''spiffe://'' @ td @ ''/ns/'' @ ns @ ''/sa/'' @ sa"

abbreviation segment :: "string \<Rightarrow> bool" where "segment s \<equiv> CHR ''/'' \<notin> set s"

text \<open>The search for a key \<^verbatim>\<open>/k/\<close> passes over what is no such segment.\<close>

lemma str_cut_skip:
  assumes "segment a" "k = CHR ''/'' # ks"
  shows "str_cut k (a @ s) = map_option (\<lambda>(x, y). (a @ x, y)) (str_cut k s)"
  using assms(1)
proof (induction a)
  case (Cons c a)
  then show ?case using assms(2) by (auto simp: option.map_comp comp_def case_prod_unfold)
qed (simp add: option.map_ident case_prod_unfold)

lemma str_cut_here: "str_cut k (k @ s) = Some ([], s)"
  using str_cut_first [of "[]" k s] by simp

lemma segment_key_differs:
  assumes "segment a" "segment k" "a \<noteq> k"
  shows "take (length k + 2) (CHR ''/'' # a @ CHR ''/'' # s) \<noteq> CHR ''/'' # k @ ''/''"
proof
  assume "take (length k + 2) (CHR ''/'' # a @ CHR ''/'' # s) = CHR ''/'' # k @ ''/''"
  then have "take (length k + 1) (a @ CHR ''/'' # s) = k @ ''/''" by simp
  then have "takeWhile (\<lambda>c. c \<noteq> CHR ''/'') (take (length k + 1) (a @ CHR ''/'' # s)) = k"
    using assms(2) by (simp add: takeWhile_tail takeWhile_append)
  moreover have "takeWhile (\<lambda>c. c \<noteq> CHR ''/'') (take (length k + 1) (a @ CHR ''/'' # s)) = take (length k + 1) a"
    using assms(1) by (cases "length k + 1 - length a") (auto simp: takeWhile_append dest: in_set_takeD)
  ultimately have "take (length k + 1) a = k" by simp
  then have "length (take (length k + 1) a) = length k" by simp
  then have "length a \<le> length k" by simp
  then show False using \<open>take (length k + 1) a = k\<close> assms(3) by simp
qed

lemma str_cut_segment:
  assumes "segment a" "segment k" "a \<noteq> k"
  shows "str_cut (CHR ''/'' # k @ ''/'') (CHR ''/'' # a @ CHR ''/'' # s) =
    map_option (\<lambda>(x, y). (CHR ''/'' # a @ x, y)) (str_cut (CHR ''/'' # k @ ''/'') (CHR ''/'' # s))"
proof -
  have "str_cut (CHR ''/'' # k @ ''/'') (CHR ''/'' # a @ CHR ''/'' # s) =
      map_option (\<lambda>(x, y). (CHR ''/'' # x, y)) (str_cut (CHR ''/'' # k @ ''/'') (a @ CHR ''/'' # s))"
    using segment_key_differs [OF assms, of s] by (subst str_cut.simps) simp
  then show ?thesis
    using str_cut_skip [OF assms(1), of "CHR ''/'' # k @ ''/''" "k @ ''/''" "CHR ''/'' # s"]
    by (simp add: option.map_comp comp_def case_prod_unfold)
qed

text \<open>A path of segments none of which is the key, up to the key.\<close>

definition path :: "string list \<Rightarrow> string" where
  "path segs = concat (map (Cons (CHR ''/'')) segs)"

lemma str_cut_path:
  assumes "\<And>a. a \<in> set segs \<Longrightarrow> segment a \<and> a \<noteq> k" "segment k"
  shows "str_cut (CHR ''/'' # k @ ''/'') (path segs @ CHR ''/'' # k @ CHR ''/'' # r) = Some (path segs, r)"
  using assms(1)
proof (induction segs)
  case Nil
  then show ?case using str_cut_here [of "CHR ''/'' # k @ ''/''" r] by (simp add: path_def del: str_cut.simps)
next
  case (Cons a segs)
  have "\<exists>t. path segs @ CHR ''/'' # k @ CHR ''/'' # r = CHR ''/'' # t" by (cases segs) (auto simp: path_def)
  then obtain t where t: "path segs @ CHR ''/'' # k @ CHR ''/'' # r = CHR ''/'' # t" by blast
  have "path (a # segs) @ CHR ''/'' # k @ CHR ''/'' # r = CHR ''/'' # a @ CHR ''/'' # t"
    using t by (simp add: path_def)
  moreover have "segment a" "a \<noteq> k" using Cons.prems by auto
  moreover have "str_cut (CHR ''/'' # k @ ''/'') (CHR ''/'' # t) = Some (path segs, r)" using Cons t by simp
  ultimately show ?case
    using str_cut_segment [of a k t] assms(2) by (simp add: path_def del: str_cut.simps)
qed

lemma takeWhile_segment: "segment a \<Longrightarrow> takeWhile (\<lambda>c. c \<noteq> CHR ''/'') (a @ CHR ''/'' # s) = a"
  by (simp add: takeWhile_tail takeWhile_append)

lemma spiffe_cut:
  assumes "spiffe td ns sa = ''spiffe:'' @ path segs @ CHR ''/'' # k @ CHR ''/'' # r"
    and "list_all (\<lambda>a. segment a \<and> a \<noteq> k) segs" "segment k"
  shows "spiffePathSegment (spiffe td ns sa) (CHR ''/'' # k @ ''/'') = takeWhile (\<lambda>c. c \<noteq> CHR ''/'') r"
  using str_cut_path [of segs k r] assms(2,3) unfolding spiffePathSegment_def assms(1)
  by (subst str_cut_skip) (simp_all add: list_all_iff del: str_cut.simps)

lemma spiffe_ns:
  assumes "segment td" "td \<noteq> ''ns''" "segment ns"
  shows "spiffePathSegment (spiffe td ns sa) ''/ns/'' = ns"
  using spiffe_cut [of td ns sa "[[], td]" "''ns''" "ns @ ''/sa/'' @ sa"] assms
  by (simp add: spiffe_def path_def takeWhile_segment)

lemma spiffe_sa:
  assumes "segment td" "td \<noteq> ''sa''" "segment ns" "ns \<noteq> ''sa''" "segment sa"
  shows "spiffePathSegment (spiffe td ns sa) ''/sa/'' = sa"
  using spiffe_cut [of td ns sa "[[], td, ''ns'', ns]" "''sa''" sa] assms
  by (auto simp: spiffe_def path_def takeWhile_eq_all_conv)

text \<open>
  The namespace and the service account of a SPIFFE identity in the canonical form are recovered,
  when the trust domain is named neither \<^verbatim>\<open>ns\<close> nor \<^verbatim>\<open>sa\<close> and the namespace is not named \<^verbatim>\<open>sa\<close>.
\<close>

theorem parseSpiffeNsSa_spiffe:
  assumes "segment td" and "td \<notin> {''ns'', ''sa''}" and "segment ns" and "ns \<notin> {[], ''sa''}" and "segment sa" and "sa \<noteq> []"
  shows "parseSpiffeNsSa (spiffe td ns sa) = Some (ns, sa)"
proof -
  have "has_prefix (spiffe td ns sa) ''spiffe://''" by (simp add: has_prefix_def spiffe_def)
  then show ?thesis
    using assms spiffe_ns [of td ns sa] spiffe_sa [of td ns sa] by (simp add: parseSpiffeNsSa_def)
qed

theorem parseSpiffeNsSa_spiffe_witness:
  "parseSpiffeNsSa (spiffe ''cluster.local'' ''default'' ''sleep'') = Some (''default'', ''sleep'')"
  by (rule parseSpiffeNsSa_spiffe) simp_all

text \<open>
  In a namespace named \<^verbatim>\<open>sa\<close> every service account is read as \<^verbatim>\<open>sa\<close>: the first \<^verbatim>\<open>/sa/\<close> of the identity
  is the one around the namespace.
\<close>

theorem parseSpiffeNsSa_namespace_sa:
  assumes "segment td" and "td \<notin> {''ns'', ''sa''}"
  shows "parseSpiffeNsSa (spiffe td ''sa'' account) = Some (''sa'', ''sa'')"
proof -
  have "has_prefix (spiffe td ''sa'' account) ''spiffe://''" by (simp add: has_prefix_def spiffe_def)
  moreover have "spiffePathSegment (spiffe td ''sa'' account) ''/sa/'' = ''sa''"
    using spiffe_cut [of td "''sa''" account "[[], td, ''ns'']" "''sa''" "''sa/'' @ account"] assms
    by (simp add: spiffe_def path_def)
  ultimately show ?thesis
    using assms spiffe_ns [of td "''sa''" account] by (simp add: parseSpiffeNsSa_def Let_def)
qed

theorem parseSpiffeNsSa_namespace_sa_witness:
  "parseSpiffeNsSa (spiffe ''cluster.local'' ''sa'' ''sleep'') = Some (''sa'', ''sa'')"
  by (rule parseSpiffeNsSa_namespace_sa) simp_all

section \<open>Services behind a gateway\<close>

lemma gateway_segment_found:
  assumes "splitHorizonWorkloadMarker \<notin> set pre" "ns \<noteq> []"
  shows "gateway_segment (pre @ splitHorizonWorkloadMarker # ns # rest) = Some ns"
  using assms
proof (induction pre)
  case (Cons p pre)
  then show ?case by (cases pre) auto
qed simp

lemma gateway_scan_Some:
  "gateway_scan g uids = Some ns \<Longrightarrow> (\<forall>uid \<in> set uids. gatewayNamespaceFromSplitHorizonUID uid \<noteq> None) \<and> ns \<noteq> []
    \<and> (uids \<noteq> [] \<longrightarrow> gatewayNamespaceFromSplitHorizonUID (last uids) = Some ns)"
  by (induction g uids rule: gateway_scan.induct) (auto split: if_splits option.splits)

lemma lookup_gateway_sound:
  assumes "lookup_gateway (Some (buildSplitHorizonGateways dump)) ip = Some ns"
  shows "\<exists>svc \<in> set (dump_Services dump). dump_Network dump @ ''/'' @ ip \<in> set (se_Vips svc) \<and> se_Endpoints svc \<noteq> [] \<and>
    (\<forall>uid \<in> set (se_Endpoints svc). gatewayNamespaceFromSplitHorizonUID uid \<noteq> None) \<and>
    gatewayNamespaceFromSplitHorizonUID (last (se_Endpoints svc)) = Some ns"
proof -
  have "(dump_Network dump @ ''/'' @ ip, ns) \<in> set (concat (map service_vips (dump_Services dump)))"
    using assms by (auto simp: lookup_gateway_def buildSplitHorizonGateways_def split: if_splits dest!: map_of_SomeD)
  then obtain svc where svc: "svc \<in> set (dump_Services dump)" "(dump_Network dump @ ''/'' @ ip, ns) \<in> set (service_vips svc)" by auto
  then have "splitHorizonGatewayNamespace (se_Endpoints svc) = Some ns" "dump_Network dump @ ''/'' @ ip \<in> set (se_Vips svc)"
    by (auto simp: service_vips_def split: option.splits)
  then show ?thesis
    using svc(1) gateway_scan_Some [of "[]" "se_Endpoints svc" ns]
    by (intro bexI [of _ svc]) (auto simp: splitHorizonGatewayNamespace_def)
qed

end
