(* ===== verification/Ztunnel_Collector.thy ===== *)
theory Ztunnel_Collector
  imports Connection_Evolution Ztunnel_Identity
begin

text \<open>
  The ztunnel collector (\<^verbatim>\<open>collector/ztunnel/ztunnel.go\<close>, and \<^verbatim>\<open>ztunnel_admin.go\<close> and
  \<^verbatim>\<open>ztunnel_identity.go\<close> for the parts it calls): the cache of real destinations filled by the probes and
  by the admin dump, and the flush listener that attaches a destination and an identity to a connection.
  The collector runs beside the connection manager; its operations take the manager together with the
  state of the listeners, which holds the clock, the collector and the latency histogram.
\<close>

section \<open>State\<close>

datatype ztunnelMappingSource =
  sourceTrackOutbound | sourceConnectionResult | sourceRecordInternal | sourceAccessLog | sourceAdminDump | sourceInbound

record LoadBalanceAddress =
  lb_IP :: string
  lb_Port :: u16
  lb_From :: DetectBy
  lb_Source :: ztunnelMappingSource

record 'l ztunnelIdentitySource =
  ids_strings :: 'l
  ids_decoder :: "Offsets option"
  ids_calibrator :: "calibrator option"
  ids_probeLinks :: nat
  ids_pid :: u32
  ids_offsetsConfig :: "u32 \<rightharpoonup> Offsets"
  ids_downgraded :: bool
  ids_events :: nat
  ids_decoded :: nat
  ids_decodeFailures :: nat
  ids_consecutiveFails :: nat
  ids_calibrationTries :: nat

record ('a, 'i, 's, 'l) Collector =
  col_collectingProcess :: "u32 option"
  col_ipMappingCache :: 'a
  col_ipMappingExpireDuration :: int
  col_seenEventSrcs :: 's
  col_accessLogSeenSrcs :: 's
  col_mappingEventCount :: nat
  col_mappingHitCount :: nat
  col_mappingMissCount :: nat
  col_emptyCacheMissCount :: nat
  col_invalidMappingCount :: nat
  col_resolvedBySource :: "ztunnelMappingSource \<Rightarrow> nat"
  col_accessLogParsedCount :: nat
  col_identitySource :: "'l ztunnelIdentitySource"
  col_accessLogTailerStarted :: bool
  col_accessLogBacklogCutoff :: "int option"
  col_accessLogBacklogSkipped :: nat
  col_adminOutboundMappingCount :: nat
  col_adminInboundSeenCount :: nat
  col_ztunnelConnectEventSeen :: nat
  col_ztunnelInboundTaggedSeen :: nat
  col_workloadIdentities :: "(string \<times> WorkloadIdentity) list option"
  col_splitHorizonGateways :: "splitHorizonIndex option"
  col_dstIdentityCache :: 'i
  col_peerIdentityCache :: 'i
  col_accessLogFollowing :: bool
  col_dstIdentityByAccessLog :: nat
  col_dstIdentityMissed :: nat
  col_peerIdentityByAccessLog :: nat
  col_peerIdentityMissed :: nat

text \<open>The operations of the expiring caches and the string cache.\<close>

record ('a, 'i, 's, 'l) ztunnel_caches =
  zx_addr :: "('a, string, LoadBalanceAddress) expiring_ops"
  zx_id :: "('i, string, WorkloadIdentity) expiring_ops"
  zx_seen :: "('s, string, unit) expiring_ops"
  zx_strings :: "'l lru_ops"

record ('a, 'i, 's, 'l) ztunnel_world =
  zw_now :: int
  zw_collector :: "('a, 'i, 's, 'l) Collector"
  zw_latency :: ResolutionLatency

definition ZTunnelIPMappingExpireDuration :: int where "ZTunnelIPMappingExpireDuration = 60 * second"
definition ZTunnelSrcOnlyMappingExpireDuration :: int where "ZTunnelSrcOnlyMappingExpireDuration = 300 * second"

definition with_collector ::
  "(('a, 'i, 's, 'l) Collector \<Rightarrow> ('a, 'i, 's, 'l) Collector) \<Rightarrow> ('a, 'i, 's, 'l) ztunnel_world \<Rightarrow> ('a, 'i, 's, 'l) ztunnel_world" where
  "with_collector f w = w\<lparr>zw_collector := f (zw_collector w)\<rparr>"

section \<open>Keys\<close>

definition int_digits :: "int \<Rightarrow> string" where
  "int_digits i = (if i < 0 then CHR ''-'' # dec_digits (nat (- i)) else dec_digits (nat i))"

definition buildIPMappingCacheKey :: "string \<Rightarrow> int \<Rightarrow> string \<Rightarrow> int \<Rightarrow> string" where
  "buildIPMappingCacheKey localIP localPort remoteIP remotePort =
     localIP @ '':'' @ int_digits localPort @ ''-'' @ remoteIP @ '':'' @ int_digits remotePort"

definition buildSrcOnlyCacheKey :: "string \<Rightarrow> int \<Rightarrow> string" where
  "buildSrcOnlyCacheKey localIP localPort = ''src:'' @ localIP @ '':'' @ int_digits localPort"

definition convertBPFIPToString :: "u32 \<Rightarrow> string" where
  "convertBPFIPToString ip =
     dotted [unat (drop_bit 24 ip), unat (drop_bit 16 ip AND 0xff), unat (drop_bit 8 ip AND 0xff), unat (ip AND 0xff)]"

definition socket_key :: "SocketPair \<Rightarrow> string" where
  "socket_key s = buildIPMappingCacheKey (sp_SrcIP s) (uint (sp_SrcPort s)) (sp_DestIP s) (uint (sp_DestPort s))"

definition socket_src_key :: "SocketPair \<Rightarrow> string" where
  "socket_src_key s = buildSrcOnlyCacheKey (sp_SrcIP s) (uint (sp_SrcPort s))"

section \<open>Identities of a connection\<close>

definition ids_Active :: "'l ztunnelIdentitySource \<Rightarrow> bool" where
  "ids_Active s \<longleftrightarrow> \<not> ids_downgraded s \<and> ids_decoder s \<noteq> None"

definition accessLogEnabled :: "('a, 'i, 's, 'l) Collector \<Rightarrow> bool" where
  "accessLogEnabled z \<longleftrightarrow> col_accessLogFollowing z \<or> ids_Active (col_identitySource z)"

definition resolveDstIdentity ::
  "('a, 'i, 's, 'l) ztunnel_caches \<Rightarrow> ('a, 'i, 's, 'l) ztunnel_world \<Rightarrow> ConnectionInfo \<Rightarrow> WorkloadIdentity option" where
  "resolveDstIdentity X w conn =
     (let z = zw_collector w;
          cached = ex_get (zx_id X) (col_dstIdentityCache z) (zw_now w) (socket_src_key (ci_Socket conn))
      in case lookup_gateway (col_splitHorizonGateways z) (sp_DestIP (ci_Socket conn)) of
           None \<Rightarrow> cached
         | Some gatewayNS \<Rightarrow>
             Some \<lparr>wi_Cluster = (case cached of None \<Rightarrow> [] | Some i \<Rightarrow> wi_Cluster i), wi_Namespace = gatewayNS,
                   wi_ServiceAccount = eastWestGatewayServiceAccount\<rparr>)"

definition buildPeerAddition ::
  "('a, 'i, 's, 'l) ztunnel_caches \<Rightarrow> ('a, 'i, 's, 'l) ztunnel_world \<Rightarrow> ConnectionInfo \<Rightarrow> (string \<times> string) list" where
  "buildPeerAddition X w conn =
     (case ex_get (zx_id X) (col_peerIdentityCache (zw_collector w)) (zw_now w) (sp_DestIP (ci_Socket conn)) of
        Some i \<Rightarrow> identityToKVs ''PEER'' (Some i) | None \<Rightarrow> [])"

definition buildConnectionAddition ::
  "('a, 'i, 's, 'l) ztunnel_caches \<Rightarrow> ('a, 'i, 's, 'l) ztunnel_world \<Rightarrow> ConnectionInfo \<Rightarrow> LoadBalanceAddress \<Rightarrow> (string \<times> string) list" where
  "buildConnectionAddition X w conn address = (case lb_From address of
      ZTUNNEL_OUTBOUND_FUNC \<Rightarrow> identityToKVs ''DST'' (resolveDstIdentity X w conn)
    | ZTUNNEL_INBOUND_FUNC \<Rightarrow> buildPeerAddition X w conn)"

definition cacheDstIdentity ::
  "('a, 'i, 's, 'l) ztunnel_caches \<Rightarrow> string \<Rightarrow> int \<Rightarrow> WorkloadIdentity option \<Rightarrow> ('a, 'i, 's, 'l) ztunnel_world \<Rightarrow> ('a, 'i, 's, 'l) ztunnel_world" where
  "cacheDstIdentity X srcIP srcPort i w = (case i of
      None \<Rightarrow> w
    | Some v \<Rightarrow> with_collector (\<lambda>z. z\<lparr>col_dstIdentityCache := ex_set (zx_id X) (zw_now w) (buildSrcOnlyCacheKey srcIP srcPort) v
        ZTunnelSrcOnlyMappingExpireDuration (col_dstIdentityCache z)\<rparr>) w)"

definition cachePeerIdentity ::
  "('a, 'i, 's, 'l) ztunnel_caches \<Rightarrow> string \<Rightarrow> WorkloadIdentity option \<Rightarrow> ('a, 'i, 's, 'l) ztunnel_world \<Rightarrow> ('a, 'i, 's, 'l) ztunnel_world" where
  "cachePeerIdentity X srcIP i w = (case i of
      None \<Rightarrow> w
    | Some v \<Rightarrow> if srcIP = [] then w
        else with_collector (\<lambda>z. z\<lparr>col_peerIdentityCache := ex_set (zx_id X) (zw_now w) srcIP v
          ZTunnelSrcOnlyMappingExpireDuration (col_peerIdentityCache z)\<rparr>) w)"

section \<open>The flush listener\<close>

definition cache_mapping ::
  "('a, 'i, 's, 'l) ztunnel_caches \<Rightarrow> string \<Rightarrow> LoadBalanceAddress \<Rightarrow> int \<Rightarrow> ('a, 'i, 's, 'l) ztunnel_world \<Rightarrow> ('a, 'i, 's, 'l) ztunnel_world" where
  "cache_mapping X key address ttl w =
     with_collector (\<lambda>z. z\<lparr>col_ipMappingCache := ex_set (zx_addr X) (zw_now w) key address ttl (col_ipMappingCache z)\<rparr>) w"

definition mapping_for ::
  "('a, 'i, 's, 'l) ztunnel_caches \<Rightarrow> ('a, 'i, 's, 'l) ztunnel_world \<Rightarrow> SocketPair \<Rightarrow> LoadBalanceAddress option" where
  "mapping_for X w s =
     (case ex_get (zx_addr X) (col_ipMappingCache (zw_collector w)) (zw_now w) (socket_key s) of
        Some a \<Rightarrow> Some a
      | None \<Rightarrow> ex_get (zx_addr X) (col_ipMappingCache (zw_collector w)) (zw_now w) (socket_src_key s))"

definition count_resolved :: "ztunnelMappingSource \<Rightarrow> (ztunnelMappingSource \<Rightarrow> nat) \<Rightarrow> ztunnelMappingSource \<Rightarrow> nat" where
  "count_resolved src f = (if src = sourceInbound then f else f(src := f src + 1))"

definition ReadyToFlushConnection ::
  "('a, 'i, 's, 'l) ztunnel_caches \<Rightarrow> ConnectionInfo \<Rightarrow> ('a, 'i, 's, 'l) ztunnel_world \<Rightarrow> ConnectionInfo \<times> ('a, 'i, 's, 'l) ztunnel_world" where
  "ReadyToFlushConnection X conn w =
     (if ac_Attachment (ci_RPCConnection conn) \<noteq> None then (conn, w)
      else if ex_len (zx_addr X) (col_ipMappingCache (zw_collector w)) = 0
      then (conn, if col_collectingProcess (zw_collector w) \<noteq> None
                  then with_collector (\<lambda>z. z\<lparr>col_emptyCacheMissCount := col_emptyCacheMissCount z + 1\<rparr>) w else w)
      else case mapping_for X w (ci_Socket conn) of
        None \<Rightarrow> (conn, with_collector (\<lambda>z. z\<lparr>col_mappingMissCount := col_mappingMissCount z + 1\<rparr>) w)
      | Some address \<Rightarrow>
          let w1 = with_collector (\<lambda>z. z\<lparr>col_mappingHitCount := col_mappingHitCount z + 1,
                col_resolvedBySource := count_resolved (lb_Source address) (col_resolvedBySource z)\<rparr>) w;
              conn' = attach (Some \<lparr>za_RealDestinationIp = lb_IP address, za_By = lb_From address, za_SecurityPolicy = SecurityPolicy_MTLS,
                za_Addition = buildConnectionAddition X w1 conn address\<rparr>) conn
          in (conn', w1\<lparr>zw_latency := RecordResolutionLatency (zw_now w) conn' (zw_latency w1)\<rparr>))"

definition isDstIdentityPending ::
  "('a, 'i, 's, 'l) ztunnel_caches \<Rightarrow> ConnectionInfo \<Rightarrow> ('a, 'i, 's, 'l) ztunnel_world \<Rightarrow> bool \<times> ConnectionInfo" where
  "isDstIdentityPending X conn w =
     (if \<not> accessLogEnabled (zw_collector w) then (False, conn)
      else case ac_Attachment (ci_RPCConnection conn) of
        None \<Rightarrow> (False, conn)
      | Some ztun \<Rightarrow>
          if za_By ztun \<noteq> ZTUNNEL_OUTBOUND_FUNC then (False, conn)
          else if additionHasKey (za_Addition ztun) ''DST_CLUSTER'' then (False, conn)
          else let i = resolveDstIdentity X w conn;
                   lineSeen = (ex_get (zx_seen X) (col_accessLogSeenSrcs (zw_collector w)) (zw_now w) (socket_src_key (ci_Socket conn)) \<noteq> None)
            in if (case i of None \<Rightarrow> False | Some v \<Rightarrow> wi_Cluster v \<noteq> []) \<or> lineSeen
               then (False, if i = None then conn else attach (Some (ztun\<lparr>za_Addition := identityToKVs ''DST'' i\<rparr>)) conn)
               else (True, conn))"

definition IsResolutionPending ::
  "('a, 'i, 's, 'l) ztunnel_caches \<Rightarrow> ConnectionInfo \<Rightarrow> ('a, 'i, 's, 'l) ztunnel_world \<Rightarrow> bool \<times> ConnectionInfo" where
  "IsResolutionPending X conn w =
     (if col_collectingProcess (zw_collector w) = None then (False, conn)
      else if ac_Attachment (ci_RPCConnection conn) \<noteq> None then isDstIdentityPending X conn w
      else (sp_Role (ci_Socket conn) = ConnectionRoleClient \<and> \<not> sp_ConnTrackResolved (ci_Socket conn) \<and>
            (case ac_Remote (ci_RPCConnection conn) of IPAddress _ _ \<Rightarrow> True | KubernetesAddress _ _ _ _ _ \<Rightarrow> False), conn))"

definition FinalizeConnection :: "ConnectionInfo \<Rightarrow> ('a, 'i, 's, 'l) ztunnel_world \<Rightarrow> ('a, 'i, 's, 'l) ztunnel_world" where
  "FinalizeConnection conn w = (case ac_Attachment (ci_RPCConnection conn) of
      None \<Rightarrow> w
    | Some ztun \<Rightarrow>
        (case za_By ztun of
           ZTUNNEL_OUTBOUND_FUNC \<Rightarrow>
             if additionHasKey (za_Addition ztun) ''DST_CLUSTER''
             then with_collector (\<lambda>z. z\<lparr>col_dstIdentityByAccessLog := col_dstIdentityByAccessLog z + 1\<rparr>) w
             else with_collector (\<lambda>z. z\<lparr>col_dstIdentityMissed := col_dstIdentityMissed z + 1\<rparr>) w
         | ZTUNNEL_INBOUND_FUNC \<Rightarrow>
             if length (za_Addition ztun) > 0
             then with_collector (\<lambda>z. z\<lparr>col_peerIdentityByAccessLog := col_peerIdentityByAccessLog z + 1\<rparr>) w
             else with_collector (\<lambda>z. z\<lparr>col_peerIdentityMissed := col_peerIdentityMissed z + 1\<rparr>) w))"

definition UnresolvedReason ::
  "('a, 'i, 's, 'l) ztunnel_caches \<Rightarrow> ConnectionInfo \<Rightarrow> ('a, 'i, 's, 'l) ztunnel_world \<Rightarrow> string" where
  "UnresolvedReason X conn w =
     (if col_collectingProcess (zw_collector w) = None then ''no-ztunnel-process-on-node''
      else if \<not> fst (IsResolutionPending X conn w) then ''not-a-ztunnel-outbound-leg''
      else if ex_len (zx_addr X) (col_ipMappingCache (zw_collector w)) = 0 then ''ztunnel-mapping-cache-empty''
      else if ex_get (zx_seen X) (col_seenEventSrcs (zw_collector w)) (zw_now w) (socket_src_key (ci_Socket conn)) \<noteq> None
      then ''ztunnel-event-seen-but-unapplied'' else ''no-ztunnel-event-for-src'')"

definition ztunnel_listener :: "('a, 'i, 's, 'l) ztunnel_caches \<Rightarrow> ('a, 'i, 's, 'l) ztunnel_world flush_listener" where
  "ztunnel_listener X = \<lparr>fl_ready = ReadyToFlushConnection X, fl_aware = True, fl_pending = IsResolutionPending X,
     fl_finalize = FinalizeConnection, fl_reason = UnresolvedReason X\<rparr>"

section \<open>Mappings from the probes\<close>

definition isPlausibleSrcOnlyMapping :: "ZTunnelSocketMappingEvent \<Rightarrow> bool" where
  "isPlausibleSrcOnlyMapping e \<longleftrightarrow>
     \<not> (zm_OriginalSrcIP e = 0 \<or> zm_LoadBalancedDestIP e = 0) \<and>
     \<not> (zm_OriginalSrcPort e = 0 \<or> zm_LoadBalancedDestPort e = 0) \<and> drop_bit 24 (zm_LoadBalancedDestIP e) \<noteq> 127"

definition isPlausibleLBMapping :: "ZTunnelSocketMappingEvent \<Rightarrow> bool" where
  "isPlausibleLBMapping e \<longleftrightarrow> isPlausibleSrcOnlyMapping e \<and> zm_OriginalDestIP e \<noteq> 0 \<and> zm_OriginalDestPort e \<noteq> 0"

text \<open>\<open>order\<close> is the order in which the keys of the connections are visited when a mapping is pushed to them.\<close>

definition retroResolve ::
  "('a, 'i, 's, 'l) ztunnel_caches \<Rightarrow> string list \<Rightarrow> string \<Rightarrow> u16 \<Rightarrow>
     ('v, 'b) ConnectionManager \<times> ('a, 'i, 's, 'l) ztunnel_world \<Rightarrow> ('v, 'b) ConnectionManager \<times> ('a, 'i, 's, 'l) ztunnel_world" where
  "retroResolve X order srcIP srcPort = RetroResolveBySrc [ztunnel_listener X] order srcIP srcPort"

definition invalid_mapping :: "('a, 'i, 's, 'l) ztunnel_world \<Rightarrow> ('a, 'i, 's, 'l) ztunnel_world" where
  "invalid_mapping = with_collector (\<lambda>z. z\<lparr>col_invalidMappingCount := col_invalidMappingCount z + 1\<rparr>)"

definition note_mapping_event ::
  "('a, 'i, 's, 'l) ztunnel_caches \<Rightarrow> ZTunnelSocketMappingEvent \<Rightarrow> ('a, 'i, 's, 'l) ztunnel_world \<Rightarrow> ('a, 'i, 's, 'l) ztunnel_world" where
  "note_mapping_event X e w =
     (let w1 = with_collector (\<lambda>z. z\<lparr>col_mappingEventCount := col_mappingEventCount z + 1\<rparr>) w in
      if zm_OriginalSrcIP e \<noteq> 0 \<and> zm_OriginalSrcPort e \<noteq> 0
      then with_collector (\<lambda>z. z\<lparr>col_seenEventSrcs := ex_set (zx_seen X) (zw_now w)
             (buildSrcOnlyCacheKey (convertBPFIPToString (zm_OriginalSrcIP e)) (uint (zm_OriginalSrcPort e))) () (300 * second)
             (col_seenEventSrcs z)\<rparr>) w1
      else w1)"

definition handleMappingEvent ::
  "('a, 'i, 's, 'l) ztunnel_caches \<Rightarrow> string list \<Rightarrow> ZTunnelSocketMappingEvent \<Rightarrow>
     ('v, 'b) ConnectionManager \<times> ('a, 'i, 's, 'l) ztunnel_world \<Rightarrow> ('v, 'b) ConnectionManager \<times> ('a, 'i, 's, 'l) ztunnel_world" where
  "handleMappingEvent X order e = (\<lambda>(c, w).
     let localIP = convertBPFIPToString (zm_OriginalSrcIP e); localPort = zm_OriginalSrcPort e;
         lbIP = convertBPFIPToString (zm_LoadBalancedDestIP e); w1 = note_mapping_event X e w
     in if zm_OriginalDestIP e = 0
        then if \<not> isPlausibleSrcOnlyMapping e then (c, invalid_mapping w1)
             else retroResolve X order localIP localPort
               (c, cache_mapping X (buildSrcOnlyCacheKey localIP (uint localPort))
                     \<lparr>lb_IP = lbIP, lb_Port = zm_LoadBalancedDestPort e, lb_From = ZTUNNEL_OUTBOUND_FUNC, lb_Source = sourceConnectionResult\<rparr>
                     ZTunnelSrcOnlyMappingExpireDuration w1)
        else if \<not> isPlausibleLBMapping e then (c, invalid_mapping w1)
        else (c, cache_mapping X
                (buildIPMappingCacheKey localIP (uint localPort) (convertBPFIPToString (zm_OriginalDestIP e)) (uint (zm_OriginalDestPort e)))
                \<lparr>lb_IP = lbIP, lb_Port = zm_LoadBalancedDestPort e, lb_From = ZTUNNEL_OUTBOUND_FUNC, lb_Source = sourceTrackOutbound\<rparr>
                (col_ipMappingExpireDuration (zw_collector w)) w1))"

definition ztunnel_OnConnectEvent ::
  "('a, 'i, 's, 'l) ztunnel_caches \<Rightarrow> SocketConnectEvent \<Rightarrow> SocketPair \<Rightarrow> ('a, 'i, 's, 'l) ztunnel_world \<Rightarrow> bool \<times> ('a, 'i, 's, 'l) ztunnel_world" where
  "ztunnel_OnConnectEvent X e s w = (case col_collectingProcess (zw_collector w) of
      None \<Rightarrow> (True, w)
    | Some pid \<Rightarrow>
        if pid \<noteq> co_PID e then (True, w)
        else let w1 = with_collector (\<lambda>z. z\<lparr>col_ztunnelConnectEventSeen := col_ztunnelConnectEventSeen z + 1\<rparr>) w in
          if sp_Role s \<noteq> ConnectionRoleClient then (True, w1)
          else let w2 = with_collector (\<lambda>z. z\<lparr>col_ztunnelInboundTaggedSeen := col_ztunnelInboundTaggedSeen z + 1\<rparr>) w1 in
            (False, cache_mapping X
               (buildIPMappingCacheKey (sp_DestIP s) (uint (sp_DestPort s)) (sp_SrcIP s) (uint (sp_SrcPort s)))
               \<lparr>lb_IP = [], lb_Port = 0, lb_From = ZTUNNEL_INBOUND_FUNC, lb_Source = sourceInbound\<rparr>
               (col_ipMappingExpireDuration (zw_collector w)) w2))"

section \<open>The admin dump\<close>

text \<open>\<^verbatim>\<open>net.SplitHostPort\<close> and \<^verbatim>\<open>strconv.Atoi\<close>; every error is \<open>None\<close>.\<close>

definition last_index :: "char \<Rightarrow> string \<Rightarrow> nat option" where
  "last_index c s = (if c \<in> set s then Some (length s - 1 - length (takeWhile (\<lambda>x. x \<noteq> c) (rev s))) else None)"

definition SplitHostPort :: "string \<Rightarrow> (string \<times> string) option" where
  "SplitHostPort hostport = (case last_index (CHR '':'') hostport of
      None \<Rightarrow> None
    | Some i \<Rightarrow>
        if hd hostport = CHR ''[''
        then (let upto = length (takeWhile (\<lambda>x. x \<noteq> CHR '']'') hostport) in
              if upto = length hostport \<or> upto + 1 \<noteq> i then None
              else if CHR ''['' \<in> set (drop 1 hostport) \<or> CHR '']'' \<in> set (drop (upto + 1) hostport) then None
              else Some (take (upto - 1) (drop 1 hostport), drop (i + 1) hostport))
        else (let host = take i hostport in
              if CHR '':'' \<in> set host then None
              else if CHR ''['' \<in> set hostport \<or> CHR '']'' \<in> set hostport then None
              else Some (host, drop (i + 1) hostport)))"

definition parseZTunnelAddress :: "string \<Rightarrow> (string \<times> int) option" where
  "parseZTunnelAddress addr =
     (if addr = [] then None
      else case SplitHostPort addr of
        None \<Rightarrow> None
      | Some (ip, portStr) \<Rightarrow> map_option (\<lambda>port. (ip, port)) (Atoi portStr))"

definition admin_outbound ::
  "('a, 'i, 's, 'l) ztunnel_caches \<Rightarrow> ztunnelConnection \<Rightarrow> ('a, 'i, 's, 'l) ztunnel_world \<Rightarrow> ('a, 'i, 's, 'l) ztunnel_world" where
  "admin_outbound X conn w =
     (case (parseZTunnelAddress (zn_Src conn), parseZTunnelAddress (zn_OriginalDst conn), parseZTunnelAddress (zn_ActualDst conn)) of
        (Some (srcIP, srcPort), Some (origIP, origPort), Some (actualIP, actualPort)) \<Rightarrow>
          let key = buildIPMappingCacheKey srcIP srcPort origIP origPort;
              w1 = (if ex_get (zx_addr X) (col_ipMappingCache (zw_collector w)) (zw_now w) key = None
                    then with_collector (\<lambda>z. z\<lparr>col_adminOutboundMappingCount := col_adminOutboundMappingCount z + 1\<rparr>) w else w)
          in cache_mapping X key
               \<lparr>lb_IP = actualIP, lb_Port = word_of_int actualPort, lb_From = ZTUNNEL_OUTBOUND_FUNC, lb_Source = sourceAdminDump\<rparr>
               (col_ipMappingExpireDuration (zw_collector w)) w1
      | _ \<Rightarrow> w)"

definition applyAdminConnectionMappings ::
  "('a, 'i, 's, 'l) ztunnel_caches \<Rightarrow> ztunnelConfigDump \<Rightarrow> ('a, 'i, 's, 'l) ztunnel_world \<Rightarrow> ('a, 'i, 's, 'l) ztunnel_world" where
  "applyAdminConnectionMappings X dump w =
     (let states = List.map_filter id (dump_WorkloadState dump);
          w1 = fold (\<lambda>st. fold (admin_outbound X) (cd_Outbound st)) states w
      in with_collector (\<lambda>z. z\<lparr>col_adminInboundSeenCount := sum_list (map (\<lambda>st. length (cd_Inbound st)) states)\<rparr>) w1)"

text \<open>\<^verbatim>\<open>pollAdminConfigDump\<close> once the dump was fetched and parsed.\<close>

definition apply_config_dump ::
  "('a, 'i, 's, 'l) ztunnel_caches \<Rightarrow> ztunnelConfigDump \<Rightarrow> ('a, 'i, 's, 'l) ztunnel_world \<Rightarrow> ('a, 'i, 's, 'l) ztunnel_world" where
  "apply_config_dump X dump w =
     applyAdminConnectionMappings X dump
       (with_collector (\<lambda>z. z\<lparr>col_workloadIdentities := Some (buildWorkloadIdentities dump),
          col_splitHorizonGateways := Some (buildSplitHorizonGateways dump)\<rparr>) w)"

definition newZTunnelCollector :: "('a, 'i, 's, 'l) ztunnel_caches \<Rightarrow> 'l \<Rightarrow> int \<Rightarrow> ('a, 'i, 's, 'l) Collector" where
  "newZTunnelCollector X strs expireTime =
     \<lparr>col_collectingProcess = None, col_ipMappingCache = ex_new (zx_addr X), col_ipMappingExpireDuration = expireTime,
      col_seenEventSrcs = ex_new (zx_seen X), col_accessLogSeenSrcs = ex_new (zx_seen X), col_mappingEventCount = 0,
      col_mappingHitCount = 0, col_mappingMissCount = 0, col_emptyCacheMissCount = 0, col_invalidMappingCount = 0,
      col_resolvedBySource = (\<lambda>_. 0), col_accessLogParsedCount = 0,
      col_identitySource = \<lparr>ids_strings = strs, ids_decoder = None, ids_calibrator = None, ids_probeLinks = 0, ids_pid = 0,
        ids_offsetsConfig = Map.empty, ids_downgraded = False, ids_events = 0, ids_decoded = 0, ids_decodeFailures = 0,
        ids_consecutiveFails = 0, ids_calibrationTries = 0\<rparr>,
      col_accessLogTailerStarted = False, col_accessLogBacklogCutoff = None, col_accessLogBacklogSkipped = 0,
      col_adminOutboundMappingCount = 0, col_adminInboundSeenCount = 0, col_ztunnelConnectEventSeen = 0,
      col_ztunnelInboundTaggedSeen = 0, col_workloadIdentities = None, col_splitHorizonGateways = None,
      col_dstIdentityCache = ex_new (zx_id X), col_peerIdentityCache = ex_new (zx_id X), col_accessLogFollowing = False,
      col_dstIdentityByAccessLog = 0, col_dstIdentityMissed = 0, col_peerIdentityByAccessLog = 0, col_peerIdentityMissed = 0\<rparr>"

section \<open>The collector keeps to the interface of the listeners\<close>

lemma attach_self: "attach (ac_Attachment (ci_RPCConnection conn)) conn = conn"
  by (simp add: attach_def)

interpretation zl: attaching_listeners "[ztunnel_listener X]"
proof
  fix l :: "('a, 'b, 'c, 'd) ztunnel_world flush_listener" and conn :: ConnectionInfo and st
  assume l: "l \<in> set [ztunnel_listener X]"
  then have r: "fl_ready l = ReadyToFlushConnection X" and p: "fl_pending l = IsResolutionPending X"
    by (simp_all add: ztunnel_listener_def)
  let ?old = "ac_Attachment (ci_RPCConnection conn)"
  have self: "\<exists>a. conn = attach a conn \<and> refines_attachment ?old a"
    by (rule exI [of _ ?old]) (simp add: attach_self)
  show "\<exists>a. fst (fl_ready l conn st) = attach a conn \<and> refines_attachment ?old a"
  proof (cases "fst (ReadyToFlushConnection X conn st) = conn")
    case False
    then have "?old = None \<and> (\<exists>z. fst (ReadyToFlushConnection X conn st) = attach (Some z) conn)"
      by (auto simp: ReadyToFlushConnection_def Let_def split: option.splits if_splits)
    then show ?thesis by (auto simp: r refines_attachment_def)
  qed (use self r in simp)
  show "\<exists>a. snd (fl_pending l conn st) = attach a conn \<and> refines_attachment ?old a" if "fl_aware l"
  proof (cases "snd (IsResolutionPending X conn st) = conn")
    case False
    then have "\<exists>z kvs. ?old = Some z \<and> snd (IsResolutionPending X conn st) = attach (Some (z\<lparr>za_Addition := kvs\<rparr>)) conn"
      by (auto simp: IsResolutionPending_def isDstIdentityPending_def Let_def split: option.splits if_splits)
    then show ?thesis by (auto simp: p refines_attachment_def)
  qed (use self p in simp)
qed

end
