(* ===== verification/Ztunnel_Collector_Props.thy ===== *)
theory Ztunnel_Collector_Props
  imports Ztunnel_Collector
begin

text \<open>
  The properties of the correlation with ztunnel. The first ones are the lemmas of the listener
  interface for the collector: the waiting of a connection ends before the connection can be forgotten,
  \<^verbatim>\<open>Find\<close> keeps every connection under its own key, and a connection keeps its identity through its
  life. The others are about the mappings: what a key stands for, and what a new mapping resolves.
\<close>

section \<open>Connections with the collector as listener\<close>

definition example_caches ::
  "((string \<times> LoadBalanceAddress \<times> int) list, (string \<times> WorkloadIdentity \<times> int) list, (string \<times> unit \<times> int) list, unit) ztunnel_caches" where
  "example_caches = \<lparr>zx_addr = list_cache, zx_id = list_cache, zx_seen = list_cache,
     zx_strings = \<lparr>lru_get = (\<lambda>ptr c. (None, c)), lru_add = (\<lambda>ptr str c. c)\<rparr>\<rparr>"

definition example_world ::
  "((string \<times> LoadBalanceAddress \<times> int) list, (string \<times> WorkloadIdentity \<times> int) list, (string \<times> unit \<times> int) list, unit) ztunnel_world" where
  "example_world = \<lparr>zw_now = 0,
     zw_collector = (newZTunnelCollector example_caches () ZTunnelIPMappingExpireDuration)\<lparr>col_collectingProcess := Some 99\<rparr>,
     zw_latency = \<lparr>rl_Under1s = 0, rl_1to5s = 0, rl_5to15s = 0, rl_Over15s = 0, rl_MaxMilli = 0\<rparr>\<rparr>"

text \<open>
  C16: The logs of a connection are held back only for a bounded time, and that time ends while the
  connection is still known. Once a connection was first held back at \<open>t0\<close>, whatever the manager does
  with it from then on, at every time from the end of the grace period to one flush period later it is
  neither held back again nor forgotten. So with rounds at most a flush period apart one of them emits
  its logs.
\<close>

theorem waiting_ends_before_deletion:
  assumes "ci_ResolutionDeadline conn = None" and "ci_DeleteAfter conn = None"
    and "ShouldDeferForResolution (resolutionGraceFor flushPeriod) [ztunnel_listener X] w t0 conn = (True, conn1)"
    and "evolves [ztunnel_listener X] t0 conn1 conn2"
    and "t0 + resolutionGraceFor flushPeriod \<le> t" and "t \<le> t0 + resolutionGraceFor flushPeriod + flushPeriod"
  shows "\<not> fst (ShouldDeferForResolution (resolutionGraceFor flushPeriod) [ztunnel_listener X] w' t conn2) \<and>
    \<not> fst (finish_connection t c conn2)"
  using zl.waiting_ends_in_time [of conn flushPeriod X w t0 conn2 t w' c] assms by simp

lemma example_defer:
  "ShouldDeferForResolution (resolutionGraceFor (5 * second)) [ztunnel_listener example_caches] example_world 0 example_connection
    = (True, example_connection\<lparr>ci_ResolutionDeadline := Some (20 * second)\<rparr>)"
  by (simp add: ShouldDeferForResolution_def resolutionGraceFor_def Let_def resolutionDeferMargin_def connectionDeleteDelayTime_def
      ztunnel_listener_def IsResolutionPending_def example_world_def newZTunnelCollector_def example_connection_def)

theorem waiting_ends_before_deletion_witness:
  "\<not> fst (ShouldDeferForResolution (resolutionGraceFor (5 * second)) [ztunnel_listener example_caches] example_world (21 * second)
       (example_connection\<lparr>ci_ResolutionDeadline := Some (20 * second)\<rparr>))"
proof -
  let ?c1 = "example_connection\<lparr>ci_ResolutionDeadline := Some (20 * second)\<rparr>"
  have g: "resolutionGraceFor (5 * second) = 20 * second"
    by (simp add: resolutionGraceFor_def Let_def resolutionDeferMargin_def connectionDeleteDelayTime_def)
  show ?thesis
    using waiting_ends_before_deletion
      [OF _ _ example_defer evolves.ev_start, of "21 * second" example_world "NewConnectionManager list_cache list_cache 5"]
    by (simp add: g [simplified]) (simp add: example_connection_def)
qed

text \<open>
  \<^verbatim>\<open>Find\<close> answers the connection of the event: the answer has the identifiers of the event and is what
  is stored under its key, nothing else changes, a known connection is continued and never replaced,
  and every connection stays stored under its own identifiers.
\<close>

theorem Find_answers_the_connection:
  assumes "keyed c" and "fe_listeners env = [ztunnel_listener X]" and "Find env event (c, w) = (r, c', w')"
    and "key = connection_key (GetConnectionID event) (GetRandomID event)"
  shows "keyed c' \<and> cm_connections c' key = r \<and> (\<forall>k. k \<noteq> key \<longrightarrow> cm_connections c' k = cm_connections c k) \<and>
    (\<forall>conn. r = Some conn \<longrightarrow> ci_ConnectionID conn = GetConnectionID event \<and> ci_RandomID conn = GetRandomID event) \<and>
    (\<forall>con. cm_connections c key = Some con \<longrightarrow> (\<exists>conn. r = Some conn \<and> continues con conn))"
  by (rule zl.Find_spec [OF assms])

definition example_find_env where
  "example_find_env = \<lparr>fe_breaks = list_cache, fe_now = 0, fe_isLocalHost = (\<lambda>_. False), fe_conntrack = id,
     fe_listeners = [ztunnel_listener example_caches]\<rparr>"

theorem Find_answers_the_connection_witness:
  "\<exists>r c' w'. Find example_find_env (CloseEventWithNotify \<lparr>cl_ConnectionID = 9, cl_RandomID = 3, cl_StartTime = 0, cl_EndTime = 0,
       cl_PID = 7, cl_SocketFD = 9, cl_Success = 1\<rparr>)
     ((NewConnectionManager list_cache list_cache 5 :: ((u32 \<times> ProcessVerdict \<times> int) list, _) ConnectionManager), example_world) = (r, c', w') \<and>
   keyed c' \<and> cm_connections c' (connection_key 9 3) = r"
proof -
  let ?e = "CloseEventWithNotify \<lparr>cl_ConnectionID = 9, cl_RandomID = 3, cl_StartTime = 0, cl_EndTime = 0,
       cl_PID = 7, cl_SocketFD = 9, cl_Success = 1\<rparr>"
  let ?c = "NewConnectionManager list_cache list_cache 5 :: ((u32 \<times> ProcessVerdict \<times> int) list, (string \<times> bool \<times> int) list) ConnectionManager"
  obtain r c' w' where f: "Find example_find_env ?e (?c, example_world) = (r, c', w')" by (metis surj_pair)
  have "keyed ?c" by (simp add: keyed_def NewConnectionManager_def)
  from Find_answers_the_connection [OF this _ f refl] f show ?thesis by (auto simp: example_find_env_def)
qed

text \<open>
  C8: Through its whole life in the manager a connection keeps its identifiers, process, socket,
  addresses and role; its two deadlines are set at most once; a destination that was attached stays;
  the protocol moves from TCP to a detected one, or to TCP for good.
\<close>

theorem connection_continues:
  assumes "evolves [ztunnel_listener X] t0 conn conn'"
  shows "continues conn conn'"
  by (rule zl.evolves_continues [OF assms])

theorem connection_continues_witness:
  "continues example_connection (example_connection\<lparr>ci_ProtocolBreak := True\<rparr>)"
proof -
  have "evolves [ztunnel_listener example_caches] 0 example_connection (example_connection\<lparr>ci_ProtocolBreak := True\<rparr>)"
    by (intro evolves.ev_break evolves.ev_start)
  then show ?thesis by (rule connection_continues)
qed

section \<open>Mappings\<close>

text \<open>The characters of an address in text form: no separators of the keys, and no letter after f.\<close>

definition address_char :: "char \<Rightarrow> bool" where
  "address_char c \<longleftrightarrow> c \<in> set ''0123456789abcdefABCDEF.:[]%''"

lemma not_address_char: "\<not> address_char (CHR ''-'')" "\<not> address_char (CHR ''s'')"
  by (simp_all add: address_char_def)

lemma int_digits_chars: "c \<in> set (int_digits i) \<Longrightarrow> 0 \<le> i \<Longrightarrow> is_digit c"
  using dec_digits_digits by (auto simp: int_digits_def is_digit_def)

lemma int_digits_inject: "0 \<le> i \<Longrightarrow> 0 \<le> j \<Longrightarrow> int_digits i = int_digits j \<longleftrightarrow> i = j"
  by (auto simp: int_digits_def)

lemma digits_no_sep: "0 \<le> i \<Longrightarrow> CHR '':'' \<notin> set (int_digits i) \<and> CHR ''-'' \<notin> set (int_digits i)"
  using int_digits_chars [of "CHR '':''" i] int_digits_chars [of "CHR ''-''" i] by (auto simp: is_digit_def)

text \<open>
  The keys of the mapping cache tell connections apart: for ports and for addresses in text form, a
  key of a source and a destination determines all four parts, a key of a source alone determines the
  source, and no key is of both kinds.
\<close>

theorem mapping_keys_distinct:
  assumes "list_all address_char a" and "list_all address_char b" and "list_all address_char a'" and "list_all address_char b'"
    and "0 \<le> p" and "0 \<le> q" and "0 \<le> p'" and "0 \<le> q'"
  shows "(buildIPMappingCacheKey a p b q = buildIPMappingCacheKey a' p' b' q' \<longleftrightarrow> a = a' \<and> p = p' \<and> b = b' \<and> q = q') \<and>
    (buildSrcOnlyCacheKey a p = buildSrcOnlyCacheKey a' p' \<longleftrightarrow> a = a' \<and> p = p') \<and>
    buildIPMappingCacheKey a p b q \<noteq> buildSrcOnlyCacheKey a' p'"
proof (intro conjI)
  have dash: "CHR ''-'' \<notin> set x" if "list_all address_char x" for x
    using that not_address_char(1) by (auto simp: list_all_iff)
  note d = digits_no_sep
  have inj: "a @ CHR '':'' # int_digits p = a' @ CHR '':'' # int_digits p' \<longleftrightarrow> a = a' \<and> p = p'"
    using append_sep_inject [of "CHR '':''" "int_digits p" "int_digits p'" a a'] d [OF assms(5)] d [OF assms(7)]
      int_digits_inject [OF assms(5,7)] by simp
  have "a @ CHR '':'' # int_digits p = a' @ CHR '':'' # int_digits p' \<and> b = b' \<and> q = q'"
    if "buildIPMappingCacheKey a p b q = buildIPMappingCacheKey a' p' b' q'"
  proof -
    from that have "(a @ CHR '':'' # int_digits p @ CHR ''-'' # b) @ CHR '':'' # int_digits q =
        (a' @ CHR '':'' # int_digits p' @ CHR ''-'' # b') @ CHR '':'' # int_digits q'"
      by (simp add: buildIPMappingCacheKey_def)
    from append_sep_inject [THEN iffD1, OF conjunct1 [OF d [OF assms(6)]] conjunct1 [OF d [OF assms(8)]] this]
    have "a @ CHR '':'' # int_digits p @ CHR ''-'' # b = a' @ CHR '':'' # int_digits p' @ CHR ''-'' # b' \<and>
        int_digits q = int_digits q'" .
    then have e: "(a @ CHR '':'' # int_digits p) @ CHR ''-'' # b = (a' @ CHR '':'' # int_digits p') @ CHR ''-'' # b'" and "q = q'"
      using int_digits_inject [OF assms(6,8)] by simp_all
    then show ?thesis using append_sep_inject [THEN iffD1, OF dash [OF assms(2)] dash [OF assms(4)] e] by simp
  qed
  then show "buildIPMappingCacheKey a p b q = buildIPMappingCacheKey a' p' b' q' \<longleftrightarrow> a = a' \<and> p = p' \<and> b = b' \<and> q = q'"
    using inj by auto
  show "buildSrcOnlyCacheKey a p = buildSrcOnlyCacheKey a' p' \<longleftrightarrow> a = a' \<and> p = p'"
    using inj by (simp add: buildSrcOnlyCacheKey_def)
  show "buildIPMappingCacheKey a p b q \<noteq> buildSrcOnlyCacheKey a' p'"
  proof (cases a)
    case (Cons x xs)
    then have "x \<noteq> CHR ''s''" using assms(1) not_address_char(2) by auto
    then show ?thesis using Cons by (auto simp: buildIPMappingCacheKey_def buildSrcOnlyCacheKey_def)
  qed (simp add: buildIPMappingCacheKey_def buildSrcOnlyCacheKey_def)
qed

theorem mapping_keys_distinct_witness:
  "buildIPMappingCacheKey ''10.0.0.1'' 8080 ''10.0.0.2'' 80 \<noteq> buildSrcOnlyCacheKey ''10.0.0.1'' 8080"
  using mapping_keys_distinct [of "''10.0.0.1''" "''10.0.0.2''" "''10.0.0.1''" "''10.0.0.2''" 8080 80 8080 80]
  by (simp add: address_char_def)

end
