(* ===== verification/Log_Sender.thy ===== *)
theory Log_Sender
  imports Connection_Evolution
begin

text \<open>
  The batches of logs and the sender that streams them to the backend (\<^verbatim>\<open>sender/logs.go\<close>,
  \<^verbatim>\<open>sender/sender.go\<close>). A batch is keyed by the pointer to a connection; \<open>'c\<close> is the type of these
  pointers and the sender reads the connection behind one when it sends. A batch is kept in the order
  in which its map is visited. The gRPC stream is the list of messages that were sent on it, with the
  answers of its calls as arguments.
\<close>

section \<open>Batches\<close>

record ('k, 'p) ConnectionProtocolLog =
  cpl_kernels :: "'k list"
  cpl_protocol :: 'p

record ('k, 'p) ConnectionLogs =
  cls_kernels :: "'k list"
  cls_protocols :: "('k, 'p) ConnectionProtocolLog list"

type_synonym ('c, 'k, 'p) BatchLogs = "('c \<times> ('k, 'p) ConnectionLogs) list"

definition newConnectionLogs :: "('k, 'p) ConnectionLogs" where
  "newConnectionLogs = \<lparr>cls_kernels = [], cls_protocols = []\<rparr>"

fun batch_update :: "'c \<Rightarrow> (('k, 'p) ConnectionLogs \<Rightarrow> ('k, 'p) ConnectionLogs) \<Rightarrow> ('c, 'k, 'p) BatchLogs \<Rightarrow> ('c, 'k, 'p) BatchLogs" where
  "batch_update c f [] = [(c, f newConnectionLogs)]"
| "batch_update c f ((c', l) # b) = (if c' = c then (c, f l) # b else (c', l) # batch_update c f b)"

definition batch_AppendKernelLog :: "'c \<Rightarrow> 'k \<Rightarrow> ('c, 'k, 'p) BatchLogs \<Rightarrow> ('c, 'k, 'p) BatchLogs" where
  "batch_AppendKernelLog c kl = batch_update c (\<lambda>l. l\<lparr>cls_kernels := cls_kernels l @ [kl]\<rparr>)"

definition batch_AppendProtocolLog :: "'c \<Rightarrow> 'k list \<Rightarrow> 'p \<Rightarrow> ('c, 'k, 'p) BatchLogs \<Rightarrow> ('c, 'k, 'p) BatchLogs" where
  "batch_AppendProtocolLog c kernels protocol =
     batch_update c (\<lambda>l. l\<lparr>cls_protocols := cls_protocols l @ [\<lparr>cpl_kernels = kernels, cpl_protocol = protocol\<rparr>]\<rparr>)"

text \<open>The logs of a connection in a batch.\<close>

definition logs_of :: "('c, 'k, 'p) BatchLogs \<Rightarrow> 'c \<Rightarrow> ('k, 'p) ConnectionLogs" where
  "logs_of b c = (case map_of b c of None \<Rightarrow> newConnectionLogs | Some l \<Rightarrow> l)"

lemma logs_of_update: "logs_of (batch_update c f b) c' = (if c' = c then f (logs_of b c) else logs_of b c')"
  by (induction c f b rule: batch_update.induct) (auto simp: logs_of_def)

lemma batch_update_keys: "distinct (map fst b) \<Longrightarrow> distinct (map fst (batch_update c f b)) \<and> fst ` set (batch_update c f b) = insert c (fst ` set b)"
  by (induction c f b rule: batch_update.induct) auto

section \<open>Splitting\<close>

definition maxLogsPerSend :: nat where "maxLogsPerSend = 10000"

text \<open>
  The loop over the map: \<open>n\<close> counts the entries of the current part, and a multiple of the limit starts
  a new part. The finished parts are kept in reverse.
\<close>

fun split_loop :: "nat \<Rightarrow> nat \<Rightarrow> 'e list list \<Rightarrow> 'e list \<Rightarrow> 'e list list" where
  "split_loop k n parts [] = rev parts"
| "split_loop k n parts (e # es) =
     (if n mod k = 0 then split_loop k 1 ([e] # parts) es
      else case parts of [] \<Rightarrow> split_loop k (n + 1) [[e]] es
           | p # ps \<Rightarrow> split_loop k (n + 1) ((p @ [e]) # ps) es)"

definition splitBatchLogs :: "('c, 'k, 'p) BatchLogs \<Rightarrow> ('c, 'k, 'p) BatchLogs list" where
  "splitBatchLogs b = (if b = [] then [] else split_loop maxLogsPerSend 0 [] b)"

text \<open>The parts as a specification: chunks of the limit.\<close>

function chunks :: "nat \<Rightarrow> 'e list \<Rightarrow> 'e list list" where
  "chunks k xs = (if xs = [] then [] else if k = 0 then [xs] else take k xs # chunks k (drop k xs))"
  by pat_completeness auto
termination by (relation "measure (\<lambda>(k, xs). length xs)") auto

declare chunks.simps [simp del]

lemma chunks_Nil [simp]: "chunks k [] = []" by (simp add: chunks.simps)

lemma split_loop_chunks:
  assumes "0 < k"
  shows "length p \<le> k \<Longrightarrow> p \<noteq> [] \<Longrightarrow> split_loop k (length p) (p # ps) es = rev ps @ chunks k (p @ es)"
proof (induction es arbitrary: p ps)
  case Nil
  then show ?case by (simp add: chunks.simps [of k p])
next
  case (Cons e es)
  show ?case
  proof (cases "length p = k")
    case True
    have "chunks k (p @ e # es) = p # chunks k (e # es)"
      using True Cons.prems assms by (subst chunks.simps) simp
    moreover have "split_loop k (Suc 0) ([e] # p # ps) es = rev (p # ps) @ chunks k ([e] @ es)"
      using Cons.IH [of "[e]" "p # ps"] assms by simp
    ultimately show ?thesis using True by simp
  next
    case False
    then have "length p < k" using Cons.prems by simp
    then show ?thesis using Cons.prems Cons.IH [of "p @ [e]" ps] by simp
  qed
qed

lemma split_loop_start: "0 < k \<Longrightarrow> split_loop k 0 [] es = chunks k es"
  using split_loop_chunks [of k "[hd es]" "[]" "tl es"] by (cases es) auto

lemma concat_chunks [simp]: "concat (chunks k xs) = xs"
  by (induction k xs rule: chunks.induct) (subst chunks.simps, simp)

lemma chunks_size: "p \<in> set (chunks k xs) \<Longrightarrow> 0 < k \<Longrightarrow> p \<noteq> [] \<and> length p \<le> k"
proof (induction k xs rule: chunks.induct)
  case (1 k xs)
  then show ?case by (subst (asm) (2) chunks.simps) (auto split: if_splits)
qed

lemma chunks_count: "0 < k \<Longrightarrow> length (chunks k xs) = (length xs + k - 1) div k"
proof (induction k xs rule: chunks.induct)
  case (1 k xs)
  show ?case
  proof (cases "xs = []")
    case False
    have "length (chunks k xs) = Suc ((length xs - k + k - 1) div k)"
      using 1 False by (subst chunks.simps) simp
    also have "\<dots> = (length xs + k - 1) div k"
    proof (cases "k \<le> length xs")
      case True
      then have e: "length xs + k - 1 = (length xs - k + k - 1) + k" using 1(2) by linarith
      show ?thesis unfolding e using 1(2) by (subst div_add_self2) simp_all
    next
      case F: False
      have "0 < length xs" using False by simp
      then have e: "length xs + k - 1 = (length xs - 1) + k" "length xs - k + k - 1 = k - 1" using F by linarith+
      show ?thesis unfolding e using 1(2) F by (subst div_add_self2) simp_all
    qed
    finally show ?thesis .
  qed (use 1 in simp)
qed

section \<open>Messages\<close>

record EBPFAccessLogNodeInfo =
  ni_Name :: string
  ni_NetInterfaces :: "(int \<times> int \<times> string) list"
  ni_BootTime :: "int \<times> int"
  ni_ClusterName :: string
  ni_ExcludeNamespaces :: "string list"

record ('k, 'p) EBPFAccessLogMessage =
  msg_Node :: "EBPFAccessLogNodeInfo option"
  msg_Connection :: "AccessLogConnection option"
  msg_KernelLogs :: "'k list"
  msg_ProtocolLog :: "'p option"

text \<open>
  What the sender reads of its surroundings: the node name, the network interfaces with their index,
  the boot time of the host, the cluster and the excluded namespaces. Times are in nanoseconds.
\<close>

record node_env =
  ne_NodeName :: string
  ne_interfaces :: "(int \<times> int \<times> string) list"
  ne_BootTime :: int
  ne_clusterName :: string
  ne_excludeNamespaces :: "string list"

definition convertTimeToInstant :: "int \<Rightarrow> int \<times> int" where
  "convertTimeToInstant t = (t div 1000000000, t mod 1000000000)"

definition BuildNodeInfo :: "node_env \<Rightarrow> bool \<Rightarrow> EBPFAccessLogNodeInfo option" where
  "BuildNodeInfo env needs =
     (if \<not> needs then None
      else Some \<lparr>ni_Name = ne_NodeName env,
        ni_NetInterfaces = map (\<lambda>(i, mtu, name). (sint (word_of_int i :: u32), sint (word_of_int mtu :: u32), name)) (ne_interfaces env),
        ni_BootTime = convertTimeToInstant (ne_BootTime env), ni_ClusterName = ne_clusterName env,
        ni_ExcludeNamespaces = ne_excludeNamespaces env\<rparr>)"

definition buildAccessLogMessage ::
  "node_env \<Rightarrow> bool \<Rightarrow> bool \<Rightarrow> AccessLogConnection \<Rightarrow> 'k list \<Rightarrow> 'p option \<Rightarrow> ('k, 'p) EBPFAccessLogMessage" where
  "buildAccessLogMessage env firstLog firstConnection conn kernelLogs protocolLog =
     \<lparr>msg_Node = BuildNodeInfo env firstLog, msg_Connection = (if firstConnection then Some conn else None),
      msg_KernelLogs = kernelLogs, msg_ProtocolLog = protocolLog\<rparr>"

section \<open>Sending\<close>

text \<open>
  The variables of \<^verbatim>\<open>sendLogs\<close> and its stream: how often \<^verbatim>\<open>Send\<close> was called, the messages it accepted, and
  the error of the last call. \<open>sok n\<close> tells whether the \<open>n\<close>-th call of \<^verbatim>\<open>Send\<close> on the stream succeeds.
\<close>

record ('k, 'p) send_state =
  ss_calls :: nat
  ss_sent :: "('k, 'p) EBPFAccessLogMessage list"
  ss_firstLog :: bool
  ss_firstConnection :: bool
  ss_sendError :: bool

definition send_message ::
  "(nat \<Rightarrow> bool) \<Rightarrow> node_env \<Rightarrow> AccessLogConnection \<Rightarrow> 'k list \<Rightarrow> 'p option \<Rightarrow> ('k, 'p) send_state \<Rightarrow> ('k, 'p) send_state" where
  "send_message sok env conn kernels protocol s =
     \<lparr>ss_calls = ss_calls s + 1,
      ss_sent = (if sok (ss_calls s)
        then ss_sent s @ [buildAccessLogMessage env (ss_firstLog s) (ss_firstConnection s) conn kernels protocol] else ss_sent s),
      ss_firstLog = False, ss_firstConnection = False, ss_sendError = \<not> sok (ss_calls s)\<rparr>"

definition send_connection ::
  "(nat \<Rightarrow> bool) \<Rightarrow> node_env \<Rightarrow> AccessLogConnection \<Rightarrow> ('k, 'p) ConnectionLogs \<Rightarrow> ('k, 'p) send_state \<Rightarrow> ('k, 'p) send_state" where
  "send_connection sok env conn logs s =
     (let s1 = (if cls_kernels logs \<noteq> [] then send_message sok env conn (cls_kernels logs) None s else s)
      in fold (\<lambda>p. send_message sok env conn (cpl_kernels p) (Some (cpl_protocol p))) (cls_protocols logs) s1)"

fun send_connections ::
  "(nat \<Rightarrow> bool) \<Rightarrow> node_env \<Rightarrow> ('c \<Rightarrow> AccessLogConnection) \<Rightarrow> ('c, 'k, 'p) BatchLogs \<Rightarrow> ('k, 'p) send_state \<Rightarrow> ('k, 'p) send_state" where
  "send_connections sok env rpc [] s = s"
| "send_connections sok env rpc ((c, logs) # b) s =
     (if cls_kernels logs = [] \<and> cls_protocols logs = [] then send_connections sok env rpc b s
      else let s1 = send_connection sok env (rpc c) logs s in
        if ss_sendError s1 then s1 else send_connections sok env rpc b (s1\<lparr>ss_firstConnection := True\<rparr>))"

text \<open>The messages that were accepted, and whether sending failed.\<close>

definition sendLogs ::
  "bool \<Rightarrow> (nat \<Rightarrow> bool) \<Rightarrow> node_env \<Rightarrow> ('c \<Rightarrow> AccessLogConnection) \<Rightarrow> ('c, 'k, 'p) BatchLogs \<Rightarrow> ('k, 'p) EBPFAccessLogMessage list \<times> bool" where
  "sendLogs collectOk sok env rpc b =
     (if \<not> collectOk then ([], True)
      else let s = send_connections sok env rpc b
             \<lparr>ss_calls = 0, ss_sent = [], ss_firstLog = True, ss_firstConnection = True, ss_sendError = False\<rparr>
           in (ss_sent s, ss_sendError s))"

section \<open>What the backend receives\<close>

text \<open>
  The contract of the stream: a message without a connection belongs to the connection of the one
  before it.
\<close>

fun read_stream ::
  "AccessLogConnection option \<Rightarrow> ('k, 'p) EBPFAccessLogMessage list \<Rightarrow> (AccessLogConnection option \<times> 'k list \<times> 'p option) list" where
  "read_stream cur [] = []"
| "read_stream cur (m # ms) =
     (let cur' = (case msg_Connection m of None \<Rightarrow> cur | Some c \<Rightarrow> Some c)
      in (cur', msg_KernelLogs m, msg_ProtocolLog m) # read_stream cur' ms)"

definition connection_entries :: "AccessLogConnection \<Rightarrow> ('k, 'p) ConnectionLogs \<Rightarrow> (AccessLogConnection option \<times> 'k list \<times> 'p option) list" where
  "connection_entries conn logs =
     (if cls_kernels logs \<noteq> [] then [(Some conn, cls_kernels logs, None)] else []) @
     map (\<lambda>p. (Some conn, cpl_kernels p, Some (cpl_protocol p))) (cls_protocols logs)"

definition batch_entries :: "('c \<Rightarrow> AccessLogConnection) \<Rightarrow> ('c, 'k, 'p) BatchLogs \<Rightarrow> (AccessLogConnection option \<times> 'k list \<times> 'p option) list" where
  "batch_entries rpc b = concat (map (\<lambda>(c, logs). connection_entries (rpc c) logs) b)"

definition current_connection :: "AccessLogConnection option \<Rightarrow> ('k, 'p) EBPFAccessLogMessage list \<Rightarrow> AccessLogConnection option" where
  "current_connection cur ms = fold (\<lambda>m cur. case msg_Connection m of None \<Rightarrow> cur | Some c \<Rightarrow> Some c) ms cur"

lemma read_stream_append: "read_stream cur (ms @ ns) = read_stream cur ms @ read_stream (current_connection cur ms) ns"
  by (induction ms arbitrary: cur) (auto simp: current_connection_def Let_def)

lemma current_connection_append [simp]:
  "current_connection cur (ms @ ns) = current_connection (current_connection cur ms) ns"
  by (simp add: current_connection_def)

text \<open>Only the first message has the node.\<close>

definition node_first :: "('k, 'p) EBPFAccessLogMessage list \<Rightarrow> bool" where
  "node_first ms \<longleftrightarrow> (case ms of [] \<Rightarrow> True | m # ms' \<Rightarrow> msg_Node m \<noteq> None \<and> list_all (\<lambda>m. msg_Node m = None) ms')"

text \<open>The documented behaviour of a gRPC stream: a failed \<^verbatim>\<open>Send\<close> ends the stream, and no later one succeeds.\<close>

definition failed_stays_failed :: "(nat \<Rightarrow> bool) \<Rightarrow> bool" where
  "failed_stays_failed sok \<longleftrightarrow> (\<forall>m n. \<not> sok m \<longrightarrow> m \<le> n \<longrightarrow> \<not> sok n)"

text \<open>The state of sending after the entries \<open>es\<close> were tried, while all succeeded and after one failed.\<close>

definition sent_all :: "(nat \<Rightarrow> bool) \<Rightarrow> (AccessLogConnection option \<times> 'k list \<times> 'p option) list \<Rightarrow> ('k, 'p) send_state \<Rightarrow> bool" where
  "sent_all sok es s \<longleftrightarrow> ss_calls s = length es \<and> read_stream None (ss_sent s) = es \<and> \<not> ss_sendError s \<and>
     (ss_firstLog s \<longleftrightarrow> es = []) \<and> node_first (ss_sent s) \<and> (\<forall>k < length es. sok k)"

definition sent_some :: "(nat \<Rightarrow> bool) \<Rightarrow> (AccessLogConnection option \<times> 'k list \<times> 'p option) list \<Rightarrow> ('k, 'p) send_state \<Rightarrow> bool" where
  "sent_some sok es s \<longleftrightarrow> ss_calls s = length es \<and> ss_sendError s \<and> (\<exists>k < length es. \<not> sok k \<and> read_stream None (ss_sent s) = take k es) \<and>
     node_first (ss_sent s)"

definition ready_for :: "AccessLogConnection \<Rightarrow> ('k, 'p) send_state \<Rightarrow> bool" where
  "ready_for conn s \<longleftrightarrow> ss_firstConnection s \<or> current_connection None (ss_sent s) = Some conn"

lemma length_read_stream [simp]: "length (read_stream cur ms) = length ms"
  by (induction ms arbitrary: cur) (auto simp: Let_def)

lemma node_first_snoc: "node_first ms \<Longrightarrow> (msg_Node m \<noteq> None \<longleftrightarrow> ms = []) \<Longrightarrow> node_first (ms @ [m])"
  by (cases ms) (auto simp: node_first_def)

lemma send_message_sent:
  assumes "sent_all sok es s" "ready_for conn s" "sok (length es)"
  shows "sent_all sok (es @ [(Some conn, ks, pr)]) (send_message sok env conn ks pr s)
    \<and> ready_for conn (send_message sok env conn ks pr s)"
proof -
  let ?m = "buildAccessLogMessage env (ss_firstLog s) (ss_firstConnection s) conn ks pr"
  have "ss_sent s = [] \<longleftrightarrow> es = []" using assms(1) length_read_stream [of None "ss_sent s"] by (auto simp: sent_all_def)
  then have "node_first (ss_sent s @ [?m])"
    using assms(1) by (intro node_first_snoc) (auto simp: sent_all_def buildAccessLogMessage_def BuildNodeInfo_def)
  then show ?thesis
    using assms by (auto simp: sent_all_def ready_for_def send_message_def read_stream_append buildAccessLogMessage_def
        current_connection_def Let_def less_Suc_eq)
qed

lemma send_message_failed:
  assumes "failed_stays_failed sok" "sent_some sok es s \<or> sent_all sok es s \<and> \<not> sok (length es)"
  shows "sent_some sok (es @ [e]) (send_message sok env conn ks pr s)"
  using assms(2)
proof
  assume s: "sent_some sok es s"
  then obtain k where k: "k < length es" "\<not> sok k" "read_stream None (ss_sent s) = take k es" by (auto simp: sent_some_def)
  then have f: "\<not> sok (length es)" using assms(1) by (auto simp: failed_stays_failed_def)
  have "\<exists>j < length (es @ [e]). \<not> sok j \<and> read_stream None (ss_sent s) = take j (es @ [e])"
    using k by (intro exI [of _ k]) simp
  then show ?thesis using s f by (simp add: sent_some_def send_message_def)
next
  assume s: "sent_all sok es s \<and> \<not> sok (length es)"
  then have "\<exists>j < length (es @ [e]). \<not> sok j \<and> read_stream None (ss_sent s) = take j (es @ [e])"
    by (intro exI [of _ "length es"]) (simp add: sent_all_def)
  then show ?thesis using s by (simp add: sent_some_def sent_all_def send_message_def)
qed

definition tracks :: "(nat \<Rightarrow> bool) \<Rightarrow> AccessLogConnection \<Rightarrow> (AccessLogConnection option \<times> 'k list \<times> 'p option) list \<Rightarrow> ('k, 'p) send_state \<Rightarrow> bool" where
  "tracks sok conn es s \<longleftrightarrow> sent_all sok es s \<and> ready_for conn s \<or> sent_some sok es s"

lemma send_message_tracks:
  "failed_stays_failed sok \<Longrightarrow> tracks sok conn es s \<Longrightarrow> tracks sok conn (es @ [(Some conn, ks, pr)]) (send_message sok env conn ks pr s)"
  unfolding tracks_def by (metis send_message_sent send_message_failed)

lemma send_protocols_track:
  assumes "failed_stays_failed sok"
  shows "tracks sok conn es s \<Longrightarrow>
    tracks sok conn (es @ map (\<lambda>p. (Some conn, cpl_kernels p, Some (cpl_protocol p))) ps)
      (fold (\<lambda>p. send_message sok env conn (cpl_kernels p) (Some (cpl_protocol p))) ps s)"
proof (induction ps arbitrary: es s)
  case (Cons p ps)
  from Cons.IH [OF send_message_tracks [OF assms Cons.prems]] show ?case by simp
qed simp

lemma send_connection_tracks:
  assumes "failed_stays_failed sok" "tracks sok conn es s"
  shows "tracks sok conn (es @ connection_entries conn logs) (send_connection sok env conn logs s)"
  using send_protocols_track [OF assms(1) send_message_tracks [OF assms, of "cls_kernels logs" None env], of "cls_protocols logs" env]
    send_protocols_track [OF assms, of "cls_protocols logs" env]
  by (simp add: send_connection_def connection_entries_def Let_def)

lemma batch_entries_Cons [simp]: "batch_entries rpc ((c, logs) # b) = connection_entries (rpc c) logs @ batch_entries rpc b"
  by (simp add: batch_entries_def)

lemma send_connections_track:
  assumes "failed_stays_failed sok"
  shows "sent_all sok es s \<Longrightarrow> ss_firstConnection s \<Longrightarrow>
    (let s' = send_connections sok env rpc b s; all = es @ batch_entries rpc b in
       sent_all sok all s' \<or> (ss_sendError s' \<and> node_first (ss_sent s') \<and>
         (\<exists>k < length all. \<not> sok k \<and> read_stream None (ss_sent s') = take k all)))"
proof (induction b arbitrary: es s)
  case Nil
  then show ?case by (simp add: batch_entries_def Let_def)
next
  case (Cons x b)
  obtain c logs where x: "x = (c, logs)" by fastforce
  show ?case
  proof (cases "cls_kernels logs = [] \<and> cls_protocols logs = []")
    case True
    then have "connection_entries (rpc c) logs = []" by (simp add: connection_entries_def)
    then show ?thesis using Cons True by (simp add: x)
  next
    case False
    let ?es = "es @ connection_entries (rpc c) logs" and ?s = "send_connection sok env (rpc c) logs s"
    have "tracks sok (rpc c) ?es ?s"
      using Cons.prems by (intro send_connection_tracks [OF assms]) (simp add: tracks_def ready_for_def)
    then consider "sent_all sok ?es ?s" | "sent_some sok ?es ?s" by (auto simp: tracks_def)
    then show ?thesis
    proof cases
      case 1
      then have "sent_all sok ?es (?s\<lparr>ss_firstConnection := True\<rparr>)" by (simp add: sent_all_def)
      moreover have "send_connections sok env rpc (x # b) s = send_connections sok env rpc b (?s\<lparr>ss_firstConnection := True\<rparr>)"
        using False 1 by (auto simp: x Let_def sent_all_def)
      ultimately show ?thesis using Cons.IH [of ?es "?s\<lparr>ss_firstConnection := True\<rparr>"] by (simp add: x)
    next
      case 2
      then obtain k where "k < length ?es" "\<not> sok k" "read_stream None (ss_sent ?s) = take k ?es" by (auto simp: sent_some_def)
      then have "k < length (es @ batch_entries rpc (x # b))" "read_stream None (ss_sent ?s) = take k (es @ batch_entries rpc (x # b))"
        by (auto simp: x)
      then show ?thesis using 2 False \<open>\<not> sok k\<close> by (auto simp: x Let_def sent_some_def)
    qed
  qed
qed

lemma sendLogs_spec:
  assumes "failed_stays_failed sok" "sendLogs collectOk sok env rpc b = (ms, err)"
  shows "node_first ms \<and> (\<not> err \<longrightarrow> read_stream None ms = batch_entries rpc b) \<and>
    (err \<longrightarrow> (\<exists>k. read_stream None ms = take k (batch_entries rpc b))) \<and>
    (err \<longleftrightarrow> \<not> collectOk \<or> (\<exists>k < length (batch_entries rpc b). \<not> sok k))"
proof (cases collectOk)
  case False
  then show ?thesis using assms(2) by (auto simp: sendLogs_def node_first_def intro: exI [of _ 0])
next
  case True
  let ?s = "\<lparr>ss_calls = 0, ss_sent = [], ss_firstLog = True, ss_firstConnection = True, ss_sendError = False\<rparr> :: ('a, 'b) send_state"
  let ?s' = "send_connections sok env rpc b ?s"
  have "sent_all sok [] ?s" by (simp add: sent_all_def node_first_def)
  from send_connections_track [OF assms(1) this, of env rpc b]
  have t: "sent_all sok (batch_entries rpc b) ?s' \<or> (ss_sendError ?s' \<and> node_first (ss_sent ?s') \<and>
      (\<exists>k < length (batch_entries rpc b). \<not> sok k \<and> read_stream None (ss_sent ?s') = take k (batch_entries rpc b)))"
    by (simp add: Let_def)
  have m: "ms = ss_sent ?s'" "err = ss_sendError ?s'" using assms(2) True by (simp_all add: sendLogs_def Let_def)
  have a: "sok k" if "sent_all sok (batch_entries rpc b) ?s'" "k < length (batch_entries rpc b)" for k
    using that by (simp add: sent_all_def)
  show ?thesis using t a True unfolding m by (auto simp: sent_all_def)
qed

section \<open>The sender\<close>

record ('c, 'k, 'p) GRPCSender =
  gs_logs :: "('c, 'k, 'p) BatchLogs list"
  gs_notify :: bool

definition NewGRPCSender :: "('c, 'k, 'p) GRPCSender" where
  "NewGRPCSender = \<lparr>gs_logs = [], gs_notify = False\<rparr>"

definition AddBatch :: "('c, 'k, 'p) BatchLogs \<Rightarrow> ('c, 'k, 'p) GRPCSender \<Rightarrow> ('c, 'k, 'p) GRPCSender" where
  "AddBatch batch g = g\<lparr>gs_logs := gs_logs g @ splitBatchLogs batch, gs_notify := True\<rparr>"

definition popLogs :: "('c, 'k, 'p) GRPCSender \<Rightarrow> ('c, 'k, 'p) BatchLogs option \<times> ('c, 'k, 'p) GRPCSender" where
  "popLogs g = (case gs_logs g of [] \<Rightarrow> (None, g) | b # bs \<Rightarrow> (Some b, g\<lparr>gs_logs := bs\<rparr>))"

text \<open>
  The surroundings of one call of \<^verbatim>\<open>sendLogs\<close>: the answers of the stream, the node, the connections behind
  the pointers, and the order in which the map of the batch is visited.
\<close>

record ('c, 'k, 'p) send_env =
  se_collectOk :: bool
  se_sendOk :: "nat \<Rightarrow> bool"
  se_node :: node_env
  se_rpc :: "'c \<Rightarrow> AccessLogConnection"
  se_visit :: "('c, 'k, 'p) BatchLogs \<Rightarrow> ('c, 'k, 'p) BatchLogs"

text \<open>
  \<^verbatim>\<open>handleLogs\<close> is called when the sender was notified; \<open>E i\<close> is what its \<open>i\<close>-th call of \<^verbatim>\<open>sendLogs\<close> meets.
  The result is the streams it wrote, the sender, and the number of connections it reports as lost.
\<close>

function handleLogs ::
  "nat \<Rightarrow> (nat \<Rightarrow> ('c, 'k, 'p) send_env) \<Rightarrow> ('c, 'k, 'p) GRPCSender \<Rightarrow>
     ('k, 'p) EBPFAccessLogMessage list list \<times> ('c, 'k, 'p) GRPCSender \<times> nat option" where
  "handleLogs i E g = (case popLogs g of
      (None, g') \<Rightarrow> ([], g', None)
    | (Some b, g') \<Rightarrow>
        (case sendLogs (se_collectOk (E i)) (se_sendOk (E i)) (se_node (E i)) (se_rpc (E i)) (se_visit (E i) b) of
           (ms, True) \<Rightarrow> ([ms], g', Some (length b))
         | (ms, False) \<Rightarrow> (case handleLogs (Suc i) E g' of (rest, g'', lost) \<Rightarrow> (ms # rest, g'', lost))))"
  by pat_completeness auto
termination
  by (relation "measure (\<lambda>(i, E, g). length (gs_logs g))") (auto simp: popLogs_def split: list.splits)

declare handleLogs.simps [simp del]

definition stream_ok :: "('c, 'k, 'p) send_env \<Rightarrow> ('c \<Rightarrow> AccessLogConnection) \<Rightarrow> bool" where
  "stream_ok e rpc \<longleftrightarrow> failed_stays_failed (se_sendOk e) \<and> se_rpc e = rpc \<and> (\<forall>b. mset (se_visit e b) = mset b)"

lemma mset_concat_map: "mset (concat (map f xs)) = sum_mset (image_mset (\<lambda>x. mset (f x)) (mset xs))"
  by (induction xs) auto

lemma batch_entries_mset: "mset b = mset b' \<Longrightarrow> mset (batch_entries rpc b) = mset (batch_entries rpc b')"
  by (simp add: batch_entries_def mset_concat_map)

lemma batch_entries_append [simp]: "batch_entries rpc (b @ b') = batch_entries rpc b @ batch_entries rpc b'"
  by (simp add: batch_entries_def)

lemma batch_entries_Nil [simp]: "batch_entries rpc [] = []"
  by (simp add: batch_entries_def)

lemma batch_entries_concat: "batch_entries rpc (concat bs) = concat (map (batch_entries rpc) bs)"
  by (induction bs) (auto simp: batch_entries_def)

lemma handleLogs_Cons:
  assumes "gs_logs g = b # bs"
  shows "handleLogs i E g = (case sendLogs (se_collectOk (E i)) (se_sendOk (E i)) (se_node (E i)) (se_rpc (E i)) (se_visit (E i) b) of
      (ms, True) \<Rightarrow> ([ms], g\<lparr>gs_logs := bs\<rparr>, Some (length b))
    | (ms, False) \<Rightarrow> (case handleLogs (Suc i) E (g\<lparr>gs_logs := bs\<rparr>) of (rest, g'', lost) \<Rightarrow> (ms # rest, g'', lost)))"
  using assms by (subst handleLogs.simps) (simp add: popLogs_def)

text \<open>
  What the backend receives of the queued batches: all of it when no call fails; otherwise everything
  before the batch whose sending failed, a front of that one, and the later batches stay queued.
\<close>

lemma handleLogs_delivers:
  assumes "\<And>i. stream_ok (E i) rpc"
  shows "handleLogs i E g = (streams, g', lost) \<Longrightarrow>
    list_all node_first streams \<and>
    (case lost of
       None \<Rightarrow> gs_logs g' = [] \<and> length streams = length (gs_logs g) \<and>
         mset (concat (map (read_stream None) streams)) = mset (batch_entries rpc (concat (gs_logs g)))
     | Some n \<Rightarrow> (\<exists>sent b. gs_logs g = sent @ b # gs_logs g' \<and> n = length b \<and>
         mset (batch_entries rpc (concat sent)) \<subseteq># mset (concat (map (read_stream None) streams)) \<and>
         mset (concat (map (read_stream None) streams)) \<subseteq># mset (batch_entries rpc (concat (sent @ [b])))))"
proof (induction "gs_logs g" arbitrary: i g streams g' lost)
  case Nil
  then show ?case by (subst (asm) handleLogs.simps) (auto simp: popLogs_def batch_entries_def split: list.splits)
next
  case (Cons b bs)
  note hb = Cons.hyps(2) [symmetric]
  let ?e = "E i"
  obtain ms err where snd: "sendLogs (se_collectOk ?e) (se_sendOk ?e) (se_node ?e) (se_rpc ?e) (se_visit ?e b) = (ms, err)"
    by fastforce
  have ok: "failed_stays_failed (se_sendOk ?e)" "se_rpc ?e = rpc" "mset (se_visit ?e b) = mset b"
    using assms [of i] by (auto simp: stream_ok_def)
  note sp = sendLogs_spec [OF ok(1) snd, unfolded ok(2)]
  have perm: "mset (batch_entries rpc (se_visit ?e b)) = mset (batch_entries rpc b)" by (rule batch_entries_mset [OF ok(3)])
  show ?case
  proof (cases err)
    case True
    then have r: "streams = [ms]" "g' = g\<lparr>gs_logs := bs\<rparr>" "lost = Some (length b)"
      using Cons.prems snd by (simp_all add: handleLogs_Cons [OF hb])
    obtain k where "read_stream None ms = take k (batch_entries rpc (se_visit ?e b))" using sp True by blast
    then have "mset (read_stream None ms) \<subseteq># mset (batch_entries rpc b)"
      unfolding perm [symmetric] by (metis append_take_drop_id mset_append mset_subset_eq_add_left)
    moreover have "gs_logs g = [] @ b # gs_logs g'" by (simp add: r hb)
    ultimately have "\<exists>sent b'. gs_logs g = sent @ b' # gs_logs g' \<and> length b = length b' \<and>
         mset (batch_entries rpc (concat sent)) \<subseteq># mset (concat (map (read_stream None) streams)) \<and>
         mset (concat (map (read_stream None) streams)) \<subseteq># mset (batch_entries rpc (concat (sent @ [b'])))"
      by (intro exI [of _ "[]"] exI [of _ b]) (simp add: r)
    moreover have "list_all node_first streams" using conjunct1 [OF sp] by (simp add: r(1))
    ultimately show ?thesis unfolding r(3) option.case by (intro conjI)
  next
    case False
    obtain rest g'' lost' where rec: "handleLogs (Suc i) E (g\<lparr>gs_logs := bs\<rparr>) = (rest, g'', lost')" by (metis surj_pair)
    have r: "streams = ms # rest" "g' = g''" "lost = lost'"
      using Cons.prems snd False rec by (simp_all add: handleLogs_Cons [OF hb])
    have full: "mset (read_stream None ms) = mset (batch_entries rpc b)" using sp False perm by simp
    note ih = Cons.hyps(1) [of "g\<lparr>gs_logs := bs\<rparr>", OF _ rec, simplified]
    show ?thesis
    proof (cases lost')
      case None
      then show ?thesis using ih sp full by (simp add: r hb batch_entries_concat)
    next
      case (Some n)
      then obtain sent' b' where d: "bs = sent' @ b' # gs_logs g''" "n = length b'"
        "mset (batch_entries rpc (concat sent')) \<subseteq># mset (concat (map (read_stream None) rest))"
        "mset (concat (map (read_stream None) rest)) \<subseteq># mset (batch_entries rpc (concat (sent' @ [b'])))"
        using ih by auto
      have "gs_logs g = (b # sent') @ b' # gs_logs g''" using d(1) hb by simp
      moreover have "mset (batch_entries rpc (concat (b # sent'))) \<subseteq># mset (concat (map (read_stream None) (ms # rest)))"
        using d(3) full by (simp add: batch_entries_concat)
      moreover have "mset (concat (map (read_stream None) (ms # rest))) \<subseteq># mset (batch_entries rpc (concat ((b # sent') @ [b'])))"
        using d(4) full by (simp add: batch_entries_concat)
      ultimately have "\<exists>sent b. gs_logs g = sent @ b # gs_logs g'' \<and> n = length b \<and>
         mset (batch_entries rpc (concat sent)) \<subseteq># mset (concat (map (read_stream None) (ms # rest))) \<and>
         mset (concat (map (read_stream None) (ms # rest))) \<subseteq># mset (batch_entries rpc (concat (sent @ [b])))"
        using d(2) by blast
      moreover have "list_all node_first (ms # rest)" using conjunct1 [OF sp] conjunct1 [OF ih] by simp
      ultimately show ?thesis unfolding r Some option.case by (intro conjI)
    qed
  qed
qed

lemma handleLogs_all_sent:
  assumes "\<And>i. stream_ok (E i) rpc" "\<And>i. se_collectOk (E i)" "\<And>i n. se_sendOk (E i) n"
  shows "handleLogs i E g = (streams, g', lost) \<Longrightarrow> lost = None"
proof (induction "gs_logs g" arbitrary: i g streams g' lost)
  case Nil
  then show ?case by (subst (asm) handleLogs.simps) (auto simp: popLogs_def split: list.splits)
next
  case (Cons b bs)
  note hb = Cons.hyps(2) [symmetric]
  let ?e = "E i"
  obtain ms err where snd: "sendLogs (se_collectOk ?e) (se_sendOk ?e) (se_node ?e) (se_rpc ?e) (se_visit ?e b) = (ms, err)"
    by fastforce
  have "failed_stays_failed (se_sendOk ?e)" using assms(1) [of i] by (simp add: stream_ok_def)
  from sendLogs_spec [OF this snd] have "\<not> err" using assms(2,3) by simp
  obtain rest g'' lost' where rec: "handleLogs (Suc i) E (g\<lparr>gs_logs := bs\<rparr>) = (rest, g'', lost')" by (metis surj_pair)
  have "lost = lost'" using Cons.prems snd \<open>\<not> err\<close> rec by (simp add: handleLogs_Cons [OF hb])
  then show ?case using Cons.hyps(1) [OF _ rec] by simp
qed

text \<open>
  A batch is cut into parts without loss, reordering or repetition of its connections, no part
  is empty or larger than the limit, and there are as few of them as the limit allows.
\<close>

theorem splitBatchLogs_parts:
  "concat (splitBatchLogs b) = b \<and> list_all (\<lambda>p. p \<noteq> [] \<and> length p \<le> 10000) (splitBatchLogs b) \<and>
   length (splitBatchLogs b) = (length b + 9999) div 10000"
proof -
  have "splitBatchLogs b = chunks 10000 b"
    using split_loop_start [of 10000 b] by (simp add: splitBatchLogs_def maxLogsPerSend_def)
  then show ?thesis using chunks_count [of 10000 b] by (auto simp: list_all_iff dest: chunks_size)
qed


definition example_rpc :: "nat \<Rightarrow> AccessLogConnection" where
  "example_rpc n = \<lparr>ac_Local = IPAddress ''10.0.0.1'' 80, ac_Remote = IPAddress ''10.0.0.2'' (of_nat n), ac_Role = DetectPoint_client,
     ac_TlsMode = TLSMode_Plain, ac_Protocol = ProtocolType_TCP, ac_Attachment = None\<rparr>"

definition example_send_env :: "(nat, nat, nat) send_env" where
  "example_send_env = \<lparr>se_collectOk = True, se_sendOk = (\<lambda>n. True),
     se_node = \<lparr>ne_NodeName = ''node'', ne_interfaces = [], ne_BootTime = 0, ne_clusterName = [], ne_excludeNamespaces = []\<rparr>,
     se_rpc = example_rpc, se_visit = rev\<rparr>"

definition example_batch :: "(nat, nat, nat) BatchLogs" where
  "example_batch = batch_AppendProtocolLog 1 [4] 9 (batch_AppendKernelLog 2 8 (batch_AppendKernelLog 1 7 []))"


end
