(* ===== verification/Log_Runner.thy ===== *)
theory Log_Runner
  imports Log_Sender Ztunnel_Collector
begin

text \<open>
  The runner of the access log module (\<^verbatim>\<open>runner.go\<close>): in every round it takes the logs out of the queue,
  finds the connection of each, holds back what has to wait, and gives the rest to the sender as one
  batch. A connection pointer is represented by the key the manager stores the connection under: no
  connection is forgotten while a round builds its batch, so within a batch the two are the same.
\<close>

section \<open>Handling one log\<close>

definition kernelAccessLogCacheTime :: int where "kernelAccessLogCacheTime = 10 * second"

text \<open>
  The surroundings in which one log is handled: what \<^verbatim>\<open>Find\<close> needs, whether a pid exists (\<open>None\<close> is an
  error of that check), and the boot time that kernel times count from.
\<close>

record ('b, 's) runner_env =
  re_find :: "('b, 's) find_env"
  re_pidExists :: "u32 \<Rightarrow> bool option"
  re_bootTime :: int

definition shouldReportProcessLog :: "('b, 's) runner_env \<Rightarrow> ('v, 'b) ConnectionManager \<Rightarrow> u32 \<Rightarrow> bool" where
  "shouldReportProcessLog env c pid \<longleftrightarrow>
     (if ProcessIsMonitor c pid then True
      else case re_pidExists env pid of None \<Rightarrow> False | Some ex \<Rightarrow> \<not> ex)"

text \<open>The part that kernel and protocol logs share: what becomes of the connection of an event.\<close>

datatype await = NotReported | UnknownOld | UnknownYoung | Waiting | Ready string

abbreviation event_key :: "log_event \<Rightarrow> string" where
  "event_key event \<equiv> connection_key (GetConnectionID event) (GetRandomID event)"

definition await_connection ::
  "('b, 's) runner_env \<Rightarrow> log_event \<Rightarrow> ('v, 'b) ConnectionManager \<times> 's \<Rightarrow> await \<times> ('v, 'b) ConnectionManager \<times> 's" where
  "await_connection env event = (\<lambda>(c, st).
     if \<not> shouldReportProcessLog env c (fst (ParseConnectionID (GetConnectionID event))) then (NotReported, c, st)
     else case Find (re_find env) event (c, st) of
       (None, c1, st1) \<Rightarrow>
         (if fe_now (re_find env) - Timestamp (re_bootTime env) event > kernelAccessLogCacheTime then UnknownOld else UnknownYoung, c1, st1)
     | (Some conn, c1, st1) \<Rightarrow>
         (case ShouldDeferForResolution (cm_resolutionGracePeriod c1) (fe_listeners (re_find env)) st1 (fe_now (re_find env)) conn of
            (defer, conn') \<Rightarrow>
              (if defer then Waiting else Ready (event_key event),
               c1\<lparr>cm_connections := (cm_connections c1)(event_key event \<mapsto> conn')\<rparr>, st1)))"

text \<open>The results are the connection, the log that was built, and whether to delay.\<close>

definition buildKernelLog ::
  "('b, 's) runner_env \<Rightarrow> kernelLogEvent \<Rightarrow> ('v, 'b) ConnectionManager \<times> 's \<Rightarrow>
     ((string option \<times> AccessLogKernelLog option \<times> bool) \<times> ('v, 'b) ConnectionManager \<times> 's) or_panic" where
  "buildKernelLog env kernelLog cs =
     (case await_connection env (kl_event kernelLog) cs of
        (Ready key, cs') \<Rightarrow>
          panic_bind (BuildKernelLogFromEvent (kl_logType kernelLog) (kl_event kernelLog)) (\<lambda>event. Inr ((Some key, event, False), cs'))
      | (a, cs') \<Rightarrow> Inr ((None, None, a = UnknownYoung \<or> a = Waiting), cs'))"

fun build_transfers :: "SocketDetailEvent list \<Rightarrow> AccessLogKernelLog list or_panic" where
  "build_transfers [] = Inr []"
| "build_transfers (kl # kls) =
     panic_bind (BuildKernelLogFromEvent LogTypeKernelTransfer (SocketDetail kl)) (\<lambda>event.
     panic_bind (build_transfers kls) (\<lambda>rest.
       Inr (case event of None \<Rightarrow> rest | Some l \<Rightarrow> l # rest)))"

definition buildProtocolLog ::
  "('b, 's) runner_env \<Rightarrow> 'p ProtocolEventData \<Rightarrow> ('v, 'b) ConnectionManager \<times> 's \<Rightarrow>
     ((string option \<times> AccessLogKernelLog list \<times> 'p option \<times> bool) \<times> ('v, 'b) ConnectionManager \<times> 's) or_panic" where
  "buildProtocolLog env protocolLog cs =
     (case KernelLogs protocolLog of
        [] \<Rightarrow> Inr ((None, [], None, False), cs)
      | first # _ \<Rightarrow>
          (case await_connection env (SocketDetail first) cs of
             (Ready key, cs') \<Rightarrow>
               panic_bind (build_transfers (KernelLogs protocolLog)) (\<lambda>kernelLogs.
                 Inr ((Some key, kernelLogs, Some (ProtocolLogData protocolLog), False), cs'))
           | (a, cs') \<Rightarrow> Inr ((None, [], None, a = UnknownYoung \<or> a = Waiting), cs')))"

section \<open>A round\<close>

type_synonym ('v, 'b, 's, 'p) round_state =
  "(string, AccessLogKernelLog, 'p) BatchLogs \<times> ('v, 'b) ConnectionManager \<times> 's"

text \<open>
  The loops receive until they find the channel empty; the \<open>i\<close>-th log they receive is handled in \<open>E i\<close>.
  The second result is \<^verbatim>\<open>delayAppends\<close>.
\<close>

fun drain_kernels ::
  "nat \<Rightarrow> (nat \<Rightarrow> ('b, 's) runner_env) \<Rightarrow> kernelLogEvent list \<Rightarrow> ('v, 'b, 's, 'p) round_state \<Rightarrow>
     (('v, 'b, 's, 'p) round_state \<times> kernelLogEvent list) or_panic" where
  "drain_kernels i E [] s = Inr (s, [])"
| "drain_kernels i E (kernelLog # ls) (batch, cs) =
     panic_bind (buildKernelLog (E i) kernelLog cs) (\<lambda>((connection, curLog, delay), cs').
       case (connection, curLog) of
         (Some key, Some l) \<Rightarrow> drain_kernels (Suc i) E ls (batch_AppendKernelLog key l batch, cs')
       | _ \<Rightarrow>
         panic_bind (drain_kernels (Suc i) E ls (batch, cs')) (\<lambda>(s', delayed).
           Inr (s', if delay then kernelLog # delayed else delayed)))"

fun drain_protocols ::
  "nat \<Rightarrow> (nat \<Rightarrow> ('b, 's) runner_env) \<Rightarrow> 'p ProtocolEventData list \<Rightarrow> ('v, 'b, 's, 'p) round_state \<Rightarrow>
     (('v, 'b, 's, 'p) round_state \<times> 'p ProtocolEventData list) or_panic" where
  "drain_protocols i E [] s = Inr (s, [])"
| "drain_protocols i E (protocolLog # ls) (batch, cs) =
     panic_bind (buildProtocolLog (E i) protocolLog cs) (\<lambda>((connection, kernelLogs, protocolLogs, delay), cs').
       if connection \<noteq> None \<and> kernelLogs \<noteq> [] \<and> protocolLogs \<noteq> None
       then drain_protocols (Suc i) E ls (batch_AppendProtocolLog (the connection) kernelLogs (the protocolLogs) batch, cs')
       else panic_bind (drain_protocols (Suc i) E ls (batch, cs')) (\<lambda>(s', delayed).
           Inr (s', if delay then protocolLog # delayed else delayed)))"

text \<open>
  The delayed logs go back into the channel one by one until it is full. Before each of them the
  collectors may append: \<open>arrivals\<close> is what they append before each, as far as it fits.
\<close>

fun requeue :: "nat \<Rightarrow> 'l list list \<Rightarrow> 'l list \<Rightarrow> 'l list \<Rightarrow> 'l list" where
  "requeue cap arrivals [] ch = take cap (ch @ concat arrivals)"
| "requeue cap arrivals (d # ds) ch =
     (let ch1 = take cap (ch @ (case arrivals of [] \<Rightarrow> [] | a # _ \<Rightarrow> a))
      in if length ch1 < cap then requeue cap (tl arrivals) ds (ch1 @ [d]) else take cap (ch1 @ concat (tl arrivals)))"

text \<open>
  What the collectors do during a round: the logs they append while the loops receive, which the loops
  receive too, and those they append while the delayed logs go back.
\<close>

record 'p round_arrivals =
  ra_kernels :: "kernelLogEvent list"
  ra_protocols :: "'p ProtocolEventData list"
  ra_kernelsAfter :: "kernelLogEvent list list"
  ra_protocolsAfter :: "'p ProtocolEventData list list"

type_synonym 'p runner_queue = "(kernelLogEvent, 'p ProtocolEventData) log_queue"

definition buildConnectionLogs ::
  "(nat \<Rightarrow> ('b, 's) runner_env) \<Rightarrow> (nat \<Rightarrow> ('b, 's) runner_env) \<Rightarrow> 'p round_arrivals \<Rightarrow> 'p runner_queue \<Rightarrow>
     ('v, 'b) ConnectionManager \<times> 's \<Rightarrow> (('v, 'b, 's, 'p) round_state \<times> 'p runner_queue) or_panic" where
  "buildConnectionLogs EK EP A q cs =
     panic_bind (drain_kernels 0 EK (q_kernelLogs q @ ra_kernels A) ([], cs)) (\<lambda>(s1, delayedK).
     panic_bind (drain_protocols 0 EP (q_protocolLogs q @ ra_protocols A) s1) (\<lambda>(s2, delayedP).
       Inr (s2, q\<lparr>q_kernelLogs := requeue (queue_cap q) (ra_kernelsAfter A) delayedK [],
                  q_protocolLogs := requeue (queue_cap q) (ra_protocolsAfter A) delayedP []\<rparr>)))"

text \<open>
  A whole round, with the time and the order of the connections at its end. Without a connection to
  the backend the queue stays as it is.
\<close>

definition Consume ::
  "bool \<Rightarrow> (nat \<Rightarrow> ('b, 's) runner_env) \<Rightarrow> (nat \<Rightarrow> ('b, 's) runner_env) \<Rightarrow> 'p round_arrivals \<Rightarrow>
     int \<Rightarrow> 's flush_listener list \<Rightarrow> (('v, 'b) ConnectionManager \<Rightarrow> (string \<times> ConnectionInfo) list) \<Rightarrow>
     'p runner_queue \<times> (('v, 'b) ConnectionManager \<times> 's) \<times> (string, AccessLogKernelLog, 'p) GRPCSender \<Rightarrow>
     ('p runner_queue \<times> (('v, 'b) ConnectionManager \<times> 's) \<times> (string, AccessLogKernelLog, 'p) GRPCSender) or_panic" where
  "Consume isConnected EK EP A now listeners order = (\<lambda>(q, cs, g).
     if \<not> isConnected then Inr (q, cs, g)
     else panic_bind (buildConnectionLogs EK EP A q cs) (\<lambda>((batch, c, st), q').
       Inr (q', OnBuildConnectionLogFinished now listeners (order c) (c, st), AddBatch batch g)))"

section \<open>What becomes of the logs\<close>

text \<open>Every log that is received is reported for a connection, delayed or dropped.\<close>

datatype 'l fate = Reported string 'l | Delayed | Dropped

definition delayed_of :: "'a list \<Rightarrow> 'l fate list \<Rightarrow> 'a list" where
  "delayed_of logs fates = map fst (filter (\<lambda>(l, f). f = Delayed) (zip logs fates))"

definition reported_for :: "string \<Rightarrow> 'l fate list \<Rightarrow> 'l list" where
  "reported_for key fates = concat (map (\<lambda>f. case f of Reported k l \<Rightarrow> if k = key then [l] else [] | _ \<Rightarrow> []) fates)"

text \<open>A log whose type is the type of its event, as the forwarder makes them.\<close>

definition typed_log :: "kernelLogEvent \<Rightarrow> bool" where
  "typed_log l \<longleftrightarrow> (case kl_event l of
     ConnectEventWithSocket _ _ \<Rightarrow> kl_logType l = LogTypeConnect
   | SocketDetail _ \<Rightarrow> kl_logType l = LogTypeKernelTransfer
   | CloseEventWithNotify _ \<Rightarrow> kl_logType l = LogTypeClose)"

text \<open>
  When a fate is justified, for an event handled in \<open>env\<close> in a round from manager \<open>c\<close> to manager \<open>c'\<close>:
  \<open>built\<close> tells that something was built of it, \<open>nothing\<close> that there was nothing to build.
\<close>

definition fate_ok ::
  "('b, 's) runner_env \<Rightarrow> ('v, 'b) ConnectionManager \<Rightarrow> ('v, 'b) ConnectionManager \<Rightarrow> log_event \<Rightarrow> ('l \<Rightarrow> bool) \<Rightarrow> bool \<Rightarrow> 'l fate \<Rightarrow> bool" where
  "fate_ok env c c' event built nothing f \<longleftrightarrow>
     (let pid = fst (ParseConnectionID (GetConnectionID event)); key = event_key event;
          now = fe_now (re_find env); age = now - Timestamp (re_bootTime env) event
      in case f of
        Reported k l \<Rightarrow> shouldReportProcessLog env c pid \<and> k = key \<and> cm_connections c' key \<noteq> None \<and> built l
      | Delayed \<Rightarrow> shouldReportProcessLog env c pid \<and>
          (cm_connections c key = None \<and> age \<le> kernelAccessLogCacheTime \<or>
           (\<exists>conn d. cm_connections c' key = Some conn \<and> ci_ResolutionDeadline conn = Some d \<and> now < d))
      | Dropped \<Rightarrow> \<not> shouldReportProcessLog env c pid \<or> cm_connections c key = None \<and> age > kernelAccessLogCacheTime \<or> nothing)"

abbreviation kernel_fate_ok ::
  "('b, 's) runner_env \<Rightarrow> ('v, 'b) ConnectionManager \<Rightarrow> ('v, 'b) ConnectionManager \<Rightarrow> kernelLogEvent \<Rightarrow> AccessLogKernelLog fate \<Rightarrow> bool" where
  "kernel_fate_ok env c c' l \<equiv> fate_ok env c c' (kl_event l)
     (\<lambda>log. BuildKernelLogFromEvent (kl_logType l) (kl_event l) = Inr (Some log))
     (BuildKernelLogFromEvent (kl_logType l) (kl_event l) = Inr None)"

text \<open>A protocol log stands with its first kernel log; it is reported with the kernel logs that could be built.\<close>

definition protocol_fate_ok ::
  "('b, 's) runner_env \<Rightarrow> ('v, 'b) ConnectionManager \<Rightarrow> ('v, 'b) ConnectionManager \<Rightarrow> 'p ProtocolEventData \<Rightarrow>
     (AccessLogKernelLog list \<times> 'p) fate \<Rightarrow> bool" where
  "protocol_fate_ok env c c' l f = (case KernelLogs l of
      [] \<Rightarrow> f = Dropped
    | first # _ \<Rightarrow> fate_ok env c c' (SocketDetail first)
        (\<lambda>(ks, p). build_transfers (KernelLogs l) = Inr ks \<and> ks \<noteq> [] \<and> p = ProtocolLogData l)
        (build_transfers (KernelLogs l) = Inr []) f)"

definition fate_from :: "string option \<Rightarrow> 'l option \<Rightarrow> bool \<Rightarrow> 'l fate" where
  "fate_from conn l delay = (case (conn, l) of (Some k, Some x) \<Rightarrow> Reported k x | _ \<Rightarrow> if delay then Delayed else Dropped)"

lemma typed_build: "typed_log l \<Longrightarrow> \<exists>r. BuildKernelLogFromEvent (kl_logType l) (kl_event l) = Inr r"
  by (cases "kl_event l") (auto simp: typed_log_def BuildKernelLogFromEvent_def connectLogBuilder_def closeLogBuilder_def
      kernelTransferLogBuilder_def)

lemma build_transfers_total: "\<exists>r. build_transfers kls = Inr r"
  by (induction kls) (auto simp: BuildKernelLogFromEvent_def kernelTransferLogBuilder_def split: option.splits)

text \<open>The manager later in a round: the same processes, and every connection continued.\<close>

definition later :: "('v, 'b) ConnectionManager \<Rightarrow> ('v, 'b) ConnectionManager \<Rightarrow> bool" where
  "later c c' \<longleftrightarrow> cm_monitoringProcesses c' = cm_monitoringProcesses c \<and>
     (\<forall>key con. cm_connections c key = Some con \<longrightarrow> (\<exists>con'. cm_connections c' key = Some con' \<and> continues con con'))"

lemma later_refl [simp]: "later c c" by (simp add: later_def)

lemma later_trans: "later a b \<Longrightarrow> later b c \<Longrightarrow> later a c"
  unfolding later_def by (metis continues_trans)

lemma later_unknown: "later c c' \<Longrightarrow> cm_connections c' key = None \<Longrightarrow> cm_connections c key = None"
  unfolding later_def by (metis not_None_eq)

lemma later_report: "later c c' \<Longrightarrow> shouldReportProcessLog env c' pid = shouldReportProcessLog env c pid"
  by (simp add: later_def shouldReportProcessLog_def ProcessIsMonitor_def)

lemma fate_ok_later:
  assumes "fate_ok env b b' event built nothing f" "later c b" "later b' c'"
  shows "fate_ok env c c' event built nothing f"
proof (cases f)
  case (Reported k l)
  then show ?thesis
    using assms(1) later_unknown [OF assms(3), of "event_key event"]
    by (cases "cm_connections c' (event_key event)") (auto simp: fate_ok_def Let_def later_report [OF assms(2)])
next
  case Delayed
  have "\<exists>con'. cm_connections c' key = Some con' \<and> ci_ResolutionDeadline con' = Some d"
    if "cm_connections b' key = Some con" "ci_ResolutionDeadline con = Some d" for key con d
    using assms(3) that by (fastforce simp: later_def continues_def once_set_def)
  then show ?thesis
    using assms(1) Delayed later_unknown [OF assms(2)]
    unfolding fate_ok_def Let_def by (simp add: later_report [OF assms(2)]) blast
next
  case Dropped
  then show ?thesis
    using assms(1) later_unknown [OF assms(2)] by (auto simp: fate_ok_def Let_def later_report [OF assms(2)])
qed

lemma protocol_fate_later:
  "protocol_fate_ok env b b' l f \<Longrightarrow> later c b \<Longrightarrow> later b' c' \<Longrightarrow> protocol_fate_ok env c c' l f"
  by (auto simp: protocol_fate_ok_def intro: fate_ok_later split: list.splits)

lemma Find_monitoring: "Find env event (c, st) = (r, c', st') \<Longrightarrow> cm_monitoringProcesses c' = cm_monitoringProcesses c"
  by (auto simp: Find_def buildRemoteAddress_def buildConnection_def Let_def split: option.splits log_event.splits prod.splits if_splits)

context attaching_listeners
begin

lemma Find_later:
  assumes "fe_listeners env = ls" "Find env event (c, st) = (r, c', st')"
  shows "later c c'"
proof (cases "cm_connections c (event_key event)")
  case (Some con)
  from Find_known [OF this assms] show ?thesis using Some Find_monitoring [OF assms(2)] by (auto simp: later_def)
next
  case None
  show ?thesis
  proof (cases r)
    case None
    then show ?thesis
      using Find_missing [of env event c st c' st'] assms(2) Find_monitoring [OF assms(2)] by (auto simp: later_def)
  next
    case (Some conn)
    with \<open>cm_connections c (event_key event) = None\<close> assms obtain e socket where ev: "event = ConnectEventWithSocket e socket"
      by (cases event) (auto simp: Find_def Let_def)
    have "cm_connections c' = (cm_connections c)(event_key event \<mapsto> conn)"
      using Find_new [of c e env socket st conn c' st'] None Some assms ev by simp
    then show ?thesis using None Find_monitoring [OF assms(2)] by (auto simp: later_def)
  qed
qed

text \<open>The answer of \<^verbatim>\<open>Find\<close> is the connection that is stored.\<close>

lemma Find_stored:
  assumes "fe_listeners env = ls" "Find env event (c, st) = (Some conn, c', st')"
  shows "cm_connections c' (event_key event) = Some conn"
proof (cases "cm_connections c (event_key event)")
  case (Some con)
  from Find_known [OF this assms] show ?thesis by auto
next
  case None
  with assms obtain e socket where ev: "event = ConnectEventWithSocket e socket"
    by (cases event) (auto simp: Find_def Let_def)
  then show ?thesis using Find_new [of c e env socket st conn c' st'] None assms by simp
qed

lemma defer_waits:
  assumes "ShouldDeferForResolution grace ls st now conn = (True, conn')"
  shows "\<exists>d. ci_ResolutionDeadline conn' = Some d \<and> now < d"
  using assms by (auto simp: ShouldDeferForResolution_def split: if_splits prod.splits bool.splits option.splits)

lemma await_spec:
  assumes "fe_listeners (re_find env) = ls" "await_connection env event (c, st) = (a, c1, st1)"
  shows "later c c1 \<and> (case a of
      Ready k \<Rightarrow> shouldReportProcessLog env c (fst (ParseConnectionID (GetConnectionID event))) \<and> k = event_key event \<and>
        cm_connections c1 (event_key event) \<noteq> None
    | _ \<Rightarrow> fate_ok env c c1 event built nothing (if a = UnknownYoung \<or> a = Waiting then Delayed else Dropped))"
proof (cases "shouldReportProcessLog env c (fst (ParseConnectionID (GetConnectionID event)))")
  case False
  then show ?thesis using assms(2) by (auto simp: await_connection_def fate_ok_def)
next
  case True
  obtain r c2 st2 where f: "Find (re_find env) event (c, st) = (r, c2, st2)" by (metis surj_pair)
  have l: "later c c2" by (rule Find_later [OF assms(1) f])
  show ?thesis
  proof (cases r)
    case None
    then have "cm_connections c (event_key event) = None" using Find_missing [of "re_find env" event c st c2 st2] f by simp
    then show ?thesis using assms(2) True f None l by (auto simp: await_connection_def fate_ok_def Let_def)
  next
    case (Some conn)
    obtain d conn' where sd: "ShouldDeferForResolution (cm_resolutionGracePeriod c2) ls st2 (fe_now (re_find env)) conn = (d, conn')"
      by fastforce
    have r: "a = (if d then Waiting else Ready (event_key event))" "c1 = c2\<lparr>cm_connections := (cm_connections c2)(event_key event \<mapsto> conn')\<rparr>"
      using assms True f Some sd by (auto simp: await_connection_def)
    have "continues conn conn'" using defer_continues [of conn "cm_resolutionGracePeriod c2" st2 "fe_now (re_find env)"] sd by simp
    then have "later c2 c1" using Find_stored [of "re_find env" event c st conn c2 st2] assms(1) f Some by (auto simp: r(2) later_def)
    then have l1: "later c c1" using l later_trans by blast
    show ?thesis
    proof (cases d)
      case True
      then have "\<exists>t. ci_ResolutionDeadline conn' = Some t \<and> fe_now (re_find env) < t" using defer_waits sd by simp
      then show ?thesis using l1 True \<open>shouldReportProcessLog env c _\<close> by (auto simp: r fate_ok_def Let_def)
    next
      case False
      then show ?thesis using l1 True by (simp add: r)
    qed
  qed
qed

lemma buildKernelLog_spec:
  assumes "fe_listeners (re_find env) = ls" "typed_log l"
  shows "\<exists>conn log delay c1 st1. buildKernelLog env l (c, st) = Inr ((conn, log, delay), c1, st1) \<and> later c c1 \<and>
    kernel_fate_ok env c c1 l (fate_from conn log delay)"
proof -
  obtain a c1 st1 where w: "await_connection env (kl_event l) (c, st) = (a, c1, st1)" by (metis surj_pair)
  obtain r where r: "BuildKernelLogFromEvent (kl_logType l) (kl_event l) = Inr r" using typed_build [OF assms(2)] by blast
  note sp = await_spec [OF assms(1) w, of "\<lambda>log. BuildKernelLogFromEvent (kl_logType l) (kl_event l) = Inr (Some log)"
      "BuildKernelLogFromEvent (kl_logType l) (kl_event l) = Inr None"]
  show ?thesis
  proof (cases "\<exists>k. a = Ready k")
    case True
    then obtain k where k: "a = Ready k" by blast
    have "buildKernelLog env l (c, st) = Inr ((Some k, r, False), c1, st1)" using w r by (simp add: buildKernelLog_def k)
    moreover have "kernel_fate_ok env c c1 l (fate_from (Some k) r False)"
      using sp r by (cases r) (auto simp: fate_ok_def fate_from_def k Let_def)
    ultimately show ?thesis using sp by blast
  next
    case False
    have "buildKernelLog env l (c, st) = Inr ((None, None, a = UnknownYoung \<or> a = Waiting), c1, st1)"
      using w False by (cases a) (auto simp: buildKernelLog_def)
    moreover have "kernel_fate_ok env c c1 l (fate_from None (None :: AccessLogKernelLog option) (a = UnknownYoung \<or> a = Waiting))"
      using sp False by (cases a) (auto simp: fate_from_def)
    ultimately show ?thesis using sp by blast
  qed
qed

lemma buildProtocolLog_spec:
  assumes "fe_listeners (re_find env) = ls"
  shows "\<exists>conn kernels pr delay c1 st1. buildProtocolLog env l (c, st) = Inr ((conn, kernels, pr, delay), c1, st1) \<and> later c c1 \<and>
    protocol_fate_ok env c c1 l (if conn \<noteq> None \<and> kernels \<noteq> [] \<and> pr \<noteq> None then Reported (the conn) (kernels, the pr)
      else if delay then Delayed else Dropped)"
proof (cases "KernelLogs l")
  case Nil
  then have "buildProtocolLog env l (c, st) = Inr ((None, [], None, False), c, st)" by (simp add: buildProtocolLog_def)
  then show ?thesis using Nil by (auto simp: protocol_fate_ok_def)
next
  case (Cons first rest)
  obtain a c1 st1 where w: "await_connection env (SocketDetail first) (c, st) = (a, c1, st1)" by (metis surj_pair)
  obtain r where r: "build_transfers (KernelLogs l) = Inr r" using build_transfers_total by blast
  note sp = await_spec [OF assms(1) w, of "\<lambda>(ks, p). build_transfers (KernelLogs l) = Inr ks \<and> ks \<noteq> [] \<and> p = ProtocolLogData l"
      "build_transfers (KernelLogs l) = Inr []"]
  show ?thesis
  proof (cases "\<exists>k. a = Ready k")
    case True
    then obtain k where k: "a = Ready k" by blast
    have "buildProtocolLog env l (c, st) = Inr ((Some k, r, Some (ProtocolLogData l), False), c1, st1)"
      using w r Cons by (simp add: buildProtocolLog_def k)
    moreover have "protocol_fate_ok env c c1 l (if r \<noteq> [] then Reported k (r, ProtocolLogData l) else Dropped)"
      using sp r Cons by (auto simp: protocol_fate_ok_def fate_ok_def k Let_def)
    ultimately show ?thesis using sp by fastforce
  next
    case False
    have "buildProtocolLog env l (c, st) = Inr ((None, [], None, a = UnknownYoung \<or> a = Waiting), c1, st1)"
      using w False Cons by (cases a) (auto simp: buildProtocolLog_def)
    moreover have "protocol_fate_ok env c c1 l (if a = UnknownYoung \<or> a = Waiting then Delayed else Dropped)"
      using sp False Cons by (cases a) (auto simp: protocol_fate_ok_def)
    ultimately show ?thesis using sp by fastforce
  qed
qed

lemma drain_kernels_spec:
  assumes E: "\<And>j. fe_listeners (re_find (E j)) = ls"
  shows "list_all typed_log logs \<Longrightarrow> \<exists>batch' c' st' delayed fates.
    drain_kernels i E logs (batch, c, st) = Inr ((batch', c', st'), delayed) \<and> later c c' \<and> length fates = length logs \<and>
    (\<forall>j < length logs. kernel_fate_ok (E (i + j)) c c' (logs ! j) (fates ! j)) \<and> delayed = delayed_of logs fates \<and>
    (\<forall>key. logs_of batch' key = (logs_of batch key)\<lparr>cls_kernels := cls_kernels (logs_of batch key) @ reported_for key fates\<rparr>)"
proof (induction logs arbitrary: i batch c st)
  case Nil
  show ?case by (simp add: delayed_of_def reported_for_def)
next
  case (Cons l logs)
  obtain conn log delay c1 st1 where b: "buildKernelLog (E i) l (c, st) = Inr ((conn, log, delay), c1, st1)" "later c c1"
    "kernel_fate_ok (E i) c c1 l (fate_from conn log delay)"
    using buildKernelLog_spec [of "E i" l c st] E Cons.prems by auto
  let ?f = "fate_from conn log delay"
  let ?batch = "case ?f of Reported k x \<Rightarrow> batch_AppendKernelLog k x batch | _ \<Rightarrow> batch"
  from Cons.IH [of "Suc i" ?batch c1 st1] Cons.prems obtain batch' c' st' delayed fates where
    r: "drain_kernels (Suc i) E logs (?batch, c1, st1) = Inr ((batch', c', st'), delayed)" and
    ih: "later c1 c'" "length fates = length logs"
    "\<forall>j < length logs. kernel_fate_ok (E (Suc i + j)) c1 c' (logs ! j) (fates ! j)" "delayed = delayed_of logs fates"
    "\<And>key. logs_of batch' key = (logs_of ?batch key)\<lparr>cls_kernels := cls_kernels (logs_of ?batch key) @ reported_for key fates\<rparr>"
    by auto
  have "drain_kernels i E (l # logs) (batch, c, st) = Inr ((batch', c', st'), delayed_of (l # logs) (?f # fates))"
    using b(1) r ih(4) by (auto simp: fate_from_def delayed_of_def split: option.splits if_splits)
  moreover have "kernel_fate_ok (E (i + j)) c c' ((l # logs) ! j) ((?f # fates) ! j)" if "j < length (l # logs)" for j
    using that ih(3) fate_ok_later [OF b(3) later_refl ih(1)] by (cases j) (auto intro: fate_ok_later [OF _ b(2) later_refl])
  moreover have "logs_of batch' key = (logs_of batch key)\<lparr>cls_kernels := cls_kernels (logs_of batch key) @ reported_for key (?f # fates)\<rparr>" for key
    by (cases ?f) (auto simp: ih(5) reported_for_def batch_AppendKernelLog_def logs_of_update)
  moreover have "length (?f # fates) = length (l # logs)" using ih(2) by simp
  ultimately show ?case using later_trans [OF b(2) ih(1)] by blast
qed

lemma drain_protocols_spec:
  assumes E: "\<And>j. fe_listeners (re_find (E j)) = ls"
  shows "\<exists>batch' c' st' delayed fates.
    drain_protocols i E logs (batch, c, st) = Inr ((batch', c', st'), delayed) \<and> later c c' \<and> length fates = length logs \<and>
    (\<forall>j < length logs. protocol_fate_ok (E (i + j)) c c' (logs ! j) (fates ! j)) \<and> delayed = delayed_of logs fates \<and>
    (\<forall>key. logs_of batch' key = (logs_of batch key)\<lparr>cls_protocols := cls_protocols (logs_of batch key) @
       map (\<lambda>(ks, p). \<lparr>cpl_kernels = ks, cpl_protocol = p\<rparr>) (reported_for key fates)\<rparr>)"
proof (induction logs arbitrary: i batch c st)
  case Nil
  show ?case by (simp add: delayed_of_def reported_for_def)
next
  case (Cons l logs)
  obtain conn ks pr delay c1 st1 where b: "buildProtocolLog (E i) l (c, st) = Inr ((conn, ks, pr, delay), c1, st1)" "later c c1"
    "protocol_fate_ok (E i) c c1 l (if conn \<noteq> None \<and> ks \<noteq> [] \<and> pr \<noteq> None then Reported (the conn) (ks, the pr)
      else if delay then Delayed else Dropped)"
    using buildProtocolLog_spec [of "E i" l c st] E by metis
  let ?f = "if conn \<noteq> None \<and> ks \<noteq> [] \<and> pr \<noteq> None then Reported (the conn) (ks, the pr) else if delay then Delayed else Dropped"
  let ?batch = "case ?f of Reported k x \<Rightarrow> batch_AppendProtocolLog k (fst x) (snd x) batch | _ \<Rightarrow> batch"
  from Cons.IH [of "Suc i" ?batch c1 st1] obtain batch' c' st' delayed fates where
    r: "drain_protocols (Suc i) E logs (?batch, c1, st1) = Inr ((batch', c', st'), delayed)" and
    ih: "later c1 c'" "length fates = length logs"
    "\<forall>j < length logs. protocol_fate_ok (E (Suc i + j)) c1 c' (logs ! j) (fates ! j)" "delayed = delayed_of logs fates"
    "\<And>key. logs_of batch' key = (logs_of ?batch key)\<lparr>cls_protocols := cls_protocols (logs_of ?batch key) @
       map (\<lambda>(ks, p). \<lparr>cpl_kernels = ks, cpl_protocol = p\<rparr>) (reported_for key fates)\<rparr>"
    by auto
  have "drain_protocols i E (l # logs) (batch, c, st) = Inr ((batch', c', st'), delayed_of (l # logs) (?f # fates))"
    using b(1) r ih(4) by (auto simp: delayed_of_def split: if_splits)
  moreover have "protocol_fate_ok (E (i + j)) c c' ((l # logs) ! j) ((?f # fates) ! j)" if "j < length (l # logs)" for j
    using that ih(3) protocol_fate_later [OF b(3) later_refl ih(1)] by (cases j) (auto intro: protocol_fate_later [OF _ b(2) later_refl])
  moreover have "logs_of batch' key = (logs_of batch key)\<lparr>cls_protocols := cls_protocols (logs_of batch key) @
       map (\<lambda>(ks, p). \<lparr>cpl_kernels = ks, cpl_protocol = p\<rparr>) (reported_for key (?f # fates))\<rparr>" for key
    by (cases ?f) (auto simp: ih(5) reported_for_def batch_AppendProtocolLog_def logs_of_update)
  moreover have "length (?f # fates) = length (l # logs)" using ih(2) by simp
  ultimately show ?case using later_trans [OF b(2) ih(1)] by blast
qed

lemma buildConnectionLogs_spec:
  fixes A :: "'p round_arrivals"
  assumes E: "\<And>j. fe_listeners (re_find (EK j)) = ls" "\<And>j. fe_listeners (re_find (EP j)) = ls"
    and ks: "ks = q_kernelLogs q @ ra_kernels A" and ps: "ps = q_protocolLogs q @ ra_protocols A" and "list_all typed_log ks"
  shows "\<exists>batch c' st' q' fk fp. buildConnectionLogs EK EP A q (c, st) = Inr ((batch, c', st'), q') \<and> later c c' \<and>
    length fk = length ks \<and> (\<forall>j < length ks. kernel_fate_ok (EK j) c c' (ks ! j) (fk ! j)) \<and>
    length fp = length ps \<and> (\<forall>j < length ps. protocol_fate_ok (EP j) c c' (ps ! j) (fp ! j)) \<and>
    (\<forall>key. logs_of batch key = \<lparr>cls_kernels = reported_for key fk,
       cls_protocols = map (\<lambda>(ks, p). \<lparr>cpl_kernels = ks, cpl_protocol = p\<rparr>) (reported_for key fp)\<rparr>) \<and>
    q' = q\<lparr>q_kernelLogs := requeue (queue_cap q) (ra_kernelsAfter A) (delayed_of ks fk) [],
          q_protocolLogs := requeue (queue_cap q) (ra_protocolsAfter A) (delayed_of ps fp) []\<rparr>"
proof -
  let ?none = "[] :: (string, AccessLogKernelLog, 'p) BatchLogs"
  obtain b1 c1 st1 dk fk where k: "drain_kernels 0 EK ks (?none, c, st) = Inr ((b1, c1, st1), dk)" "later c c1" "length fk = length ks"
    "\<forall>j < length ks. kernel_fate_ok (EK j) c c1 (ks ! j) (fk ! j)" "dk = delayed_of ks fk"
    "\<forall>key. logs_of b1 key = (logs_of ?none key)\<lparr>cls_kernels := cls_kernels (logs_of ?none key) @ reported_for key fk\<rparr>"
    using drain_kernels_spec [of EK ks 0 ?none c st] E(1) assms(5) by auto
  obtain b2 c2 st2 dp fp where p: "drain_protocols 0 EP ps (b1, c1, st1) = Inr ((b2, c2, st2), dp)" "later c1 c2" "length fp = length ps"
    "\<forall>j < length ps. protocol_fate_ok (EP j) c1 c2 (ps ! j) (fp ! j)" "dp = delayed_of ps fp"
    "\<forall>key. logs_of b2 key = (logs_of b1 key)\<lparr>cls_protocols := cls_protocols (logs_of b1 key) @
       map (\<lambda>(ks, p). \<lparr>cpl_kernels = ks, cpl_protocol = p\<rparr>) (reported_for key fp)\<rparr>"
    using drain_protocols_spec [of EP 0 ps b1 c1 st1] E(2) by auto
  have "buildConnectionLogs EK EP A q (c, st) = Inr ((b2, c2, st2),
      q\<lparr>q_kernelLogs := requeue (queue_cap q) (ra_kernelsAfter A) (delayed_of ks fk) [],
        q_protocolLogs := requeue (queue_cap q) (ra_protocolsAfter A) (delayed_of ps fp) []\<rparr>)"
    using k(1) p(1) by (simp add: buildConnectionLogs_def ks [symmetric] ps [symmetric] k(5) p(5))
  moreover have "\<forall>j < length ks. kernel_fate_ok (EK j) c c2 (ks ! j) (fk ! j)"
    using k(4) by (auto intro: fate_ok_later [OF _ later_refl p(2)])
  moreover have "\<forall>j < length ps. protocol_fate_ok (EP j) c c2 (ps ! j) (fp ! j)"
    using p(4) by (auto intro: protocol_fate_later [OF _ k(2) later_refl])
  moreover have "\<forall>key. logs_of b2 key = \<lparr>cls_kernels = reported_for key fk,
       cls_protocols = map (\<lambda>(ks, p). \<lparr>cpl_kernels = ks, cpl_protocol = p\<rparr>) (reported_for key fp)\<rparr>"
    using k(6) p(6) by (simp add: logs_of_def newConnectionLogs_def)
  ultimately show ?thesis using later_trans [OF k(2) p(2)] k(3) p(3) by blast
qed

end

lemma requeue_all: "concat arrivals = [] \<Longrightarrow> length ch + length ds \<le> cap \<Longrightarrow> requeue cap arrivals ds ch = ch @ ds"
proof (induction cap arrivals ds ch rule: requeue.induct)
  case (2 cap arrivals d ds ch)
  then show ?case by (cases arrivals) (simp_all add: Let_def)
qed simp

end
