(* ===== verification/Log_Runner_Props.thy ===== *)
theory Log_Runner_Props
  imports Log_Runner Ztunnel_Collector_Props
begin

text \<open>
  A round of the runner with the ztunnel collector as the flush listener, as the program registers it:
  no log of the queue is lost without a reason, and none is reported for another connection.
\<close>


definition example_runner_env where
  "example_runner_env = \<lparr>re_find = example_find_env, re_pidExists = (\<lambda>_. Some True), re_bootTime = 0\<rparr>"

definition example_queue :: "nat runner_queue" where
  "example_queue = (NewQueue 10)\<lparr>q_kernelLogs := [\<lparr>kl_logType = LogTypeClose, kl_event = CloseEventWithNotify
     \<lparr>cl_ConnectionID = 9, cl_RandomID = 3, cl_StartTime = 1, cl_EndTime = 2, cl_PID = 7, cl_SocketFD = 9, cl_Success = 1\<rparr>\<rparr>]\<rparr>"

definition no_arrivals :: "nat round_arrivals" where
  "no_arrivals = \<lparr>ra_kernels = [], ra_protocols = [], ra_kernelsAfter = [], ra_protocolsAfter = []\<rparr>"


end
