(* ===== verification/Protocol_Details.thy ===== *)
theory Protocol_Details
  imports Socket_Buffer_Order
begin

text \<open>
  Collecting the kernel details of a message from the buffers of its parts
  (\<^verbatim>\<open>collector/protocols/protocol.go\<close>): a message is complete when every part that it has found its details.
\<close>

section \<open>Collecting\<close>

text \<open>A detail that is the last one collected is not collected again.\<close>

fun append_new :: "SocketDetailEvent golist \<Rightarrow> SocketDetailEvent golist \<Rightarrow> SocketDetailEvent golist" where
  "append_new result [] = result"
| "append_new result (e # es) =
     (if result \<noteq> [] \<and> fst (last result) = fst e then append_new result es else append_new (result @ [e]) es)"

type_synonym collected = "SocketDetailEvent golist \<times> DataIDRange option \<times> bool"

text \<open>\<^verbatim>\<open>IsIncludeAllDetails\<close> of a nil range reads its bounds as soon as there is a detail.\<close>

definition AppendSocketDetailsFromBuffer :: "buffer_store \<Rightarrow> Buffer option \<Rightarrow> collected \<Rightarrow> collected or_panic" where
  "AppendSocketDetailsFromBuffer store buf = (\<lambda>(result, dataIDRange, allDetailInclude).
     if \<not> allDetailInclude then Inr (result, dataIDRange, False)
     else case buf of
       None \<Rightarrow> Inr (result, dataIDRange, True)
     | Some b \<Rightarrow>
         panic_bind (BuildDetails store b) (\<lambda>details.
           if details = [] then Inr (result, dataIDRange, False)
           else panic_bind (BuildTotalDataIDRange b) (\<lambda>current. case current of
               None \<Rightarrow> Inl NilDereference
             | Some cur \<Rightarrow>
                 if \<not> IsIncludeAllDetails cur details then Inr (result, dataIDRange, False)
                 else Inr (append_new result details,
                   Some (case dataIDRange of None \<Rightarrow> cur | Some r \<Rightarrow> DataIDRange_Append r cur), True))))"

definition DataIDRangeBounds :: "DataIDRange option \<Rightarrow> u64 \<times> u64" where
  "DataIDRangeBounds r = (case r of None \<Rightarrow> (0, 0) | Some i \<Rightarrow> (rg_From i, rg_To i))"

text \<open>The four parts of a message, in the order in which both HTTP analyzers collect them.\<close>

fun collect_parts :: "buffer_store \<Rightarrow> Buffer option list \<Rightarrow> collected \<Rightarrow> collected or_panic" where
  "collect_parts store [] s = Inr s"
| "collect_parts store (b # bs) s = panic_bind (AppendSocketDetailsFromBuffer store b s) (collect_parts store bs)"

section \<open>The details of a message\<close>

text \<open>
  A part that was sliced out of the buffer at \<open>addr\<close>: it knows where it starts and ends, and its
  first and last chunk have the data ids \<open>from\<close> and \<open>to\<close>.
\<close>

definition part_range :: "nat \<Rightarrow> Buffer \<Rightarrow> u64 \<Rightarrow> u64 \<Rightarrow> bool" where
  "part_range addr b from to \<longleftrightarrow> originalBuffer b = Some addr \<and> dataEvents b \<noteq> [] \<and> endPosition b \<noteq> None \<and>
     Position_DataID (buf_head b) = Inr from \<and> Position_DataID (endPosition b) = Inr to"

definition in_range :: "u64 \<times> u64 \<Rightarrow> SocketDetailEvent element \<Rightarrow> bool" where
  "in_range = (\<lambda>(from, to) e. from \<le> dt_DataID0 (snd e) \<and> dt_DataID0 (snd e) \<le> to)"

lemma BuildDetails_part:
  assumes "part_range addr b from to" "store addr = Some orig"
  shows "BuildDetails store b = Inr (filter (in_range (from, to)) (detailEvents orig))"
  using assms by (auto simp: part_range_def BuildDetails_def in_range_def)

lemma BuildTotalDataIDRange_part:
  assumes "part_range addr b from to"
  shows "\<exists>fin. BuildTotalDataIDRange b = Inr (Some \<lparr>rg_From = from, rg_To = to, IsToBufferReadFinished = fin\<rparr>)"
  using assms
  by (cases "Position_value (endPosition b)"; cases "Position_value (buf_head b)")
    (auto simp: part_range_def BuildTotalDataIDRange_def Position_DataID_def Let_def)

lemma Append_part:
  assumes "part_range addr b from to" "store addr = Some orig" "filter (in_range (from, to)) (detailEvents orig) \<noteq> []"
  shows "\<exists>fin. AppendSocketDetailsFromBuffer store (Some b) (result, r, True) =
    Inr (append_new result (filter (in_range (from, to)) (detailEvents orig)),
      Some (let cur = \<lparr>rg_From = from, rg_To = to, IsToBufferReadFinished = fin\<rparr> in case r of None \<Rightarrow> cur | Some r' \<Rightarrow> DataIDRange_Append r' cur), True)"
proof -
  obtain fin where f: "BuildTotalDataIDRange b = Inr (Some \<lparr>rg_From = from, rg_To = to, IsToBufferReadFinished = fin\<rparr>)"
    using BuildTotalDataIDRange_part [OF assms(1)] by blast
  have "IsIncludeAllDetails \<lparr>rg_From = from, rg_To = to, IsToBufferReadFinished = fin\<rparr> (filter (in_range (from, to)) (detailEvents orig))"
    using assms(3) by (auto simp: IsIncludeAllDetails_def list_all_iff in_range_def not_less)
  then show ?thesis
    using assms(3) f by (intro exI [of _ fin]) (simp add: AppendSocketDetailsFromBuffer_def Let_def BuildDetails_part [where store = store, OF assms(1,2)])
qed

lemma append_new_append:
  "distinct (map fst es) \<Longrightarrow> es \<noteq> [] \<Longrightarrow>
   append_new result es = (if result \<noteq> [] \<and> fst (last result) = fst (hd es) then result @ tl es else result @ es)"
proof (induction es arbitrary: result)
  case (Cons e es)
  show ?case
  proof (cases es)
    case (Cons e' es')
    then have "fst e \<noteq> fst e'" "append_new (result @ [e]) es = result @ [e] @ es" "result \<noteq> [] \<Longrightarrow> fst (last result) = fst e \<Longrightarrow>
        append_new result es = result @ es"
      using Cons.prems Cons.IH [of "result @ [e]"] Cons.IH [of result] by auto
    then show ?thesis by auto
  qed auto
qed simp

text \<open>Details with increasing data ids, each an object of its own: what a buffer holds when every data id has one detail.\<close>

definition details_ok :: "SocketDetailEvent golist \<Rightarrow> bool" where
  "details_ok l \<longleftrightarrow> distinct (map fst l) \<and> sorted_wrt (\<lambda>a b. dt_DataID0 (snd a) < dt_DataID0 (snd b)) l"

lemma details_split:
  assumes "details_ok l"
  shows "\<exists>l1 l2. l = l1 @ l2 \<and> (\<forall>e \<in> set l1. dt_DataID0 (snd e) < f) \<and> (\<forall>e \<in> set l2. f \<le> dt_DataID0 (snd e)) \<and>
    (\<forall>x l3. l2 = x # l3 \<longrightarrow> (\<forall>e \<in> set l3. f < dt_DataID0 (snd e)))"
proof -
  let ?P = "\<lambda>e. dt_DataID0 (snd e) < f"
  have s: "sorted_wrt (\<lambda>a b. dt_DataID0 (snd a) < dt_DataID0 (snd b)) (dropWhile ?P l)"
    using assms unfolding dropWhile_eq_drop details_ok_def by (simp only: sorted_wrt_drop)
  have h: "f \<le> dt_DataID0 (snd x)" if "dropWhile ?P l = x # l3" for x l3
    using hd_dropWhile [of ?P l] that by simp
  have "\<forall>e \<in> set (dropWhile ?P l). f \<le> dt_DataID0 (snd e)"
  proof (cases "dropWhile ?P l")
    case Nil
    show ?thesis unfolding Nil by simp
  next
    case (Cons x l3)
    show ?thesis
      unfolding Cons using h [OF Cons] s [unfolded Cons] by (auto dest!: bspec intro: order_trans [OF h [OF Cons] less_imp_le])
  qed
  moreover have "\<forall>x l3. dropWhile ?P l = x # l3 \<longrightarrow> (\<forall>e \<in> set l3. f < dt_DataID0 (snd e))"
  proof (intro allI impI ballI)
    fix x l3 e
    assume a: "dropWhile ?P l = x # l3" and "e \<in> set l3"
    then have "dt_DataID0 (snd x) < dt_DataID0 (snd e)" using s [unfolded a] by simp
    then show "f < dt_DataID0 (snd e)" by (rule le_less_trans [OF h [OF a]])
  qed
  moreover have "\<forall>e \<in> set (takeWhile ?P l). dt_DataID0 (snd e) < f" by (auto dest: set_takeWhileD)
  moreover have "l = takeWhile ?P l @ dropWhile ?P l" by simp
  ultimately show ?thesis by blast
qed

lemma append_new_filter:
  assumes "details_ok l" and P: "\<And>e. e \<in> set l \<Longrightarrow> P e \<Longrightarrow> dt_DataID0 (snd e) \<le> f" and "f \<le> t"
    and ne: "filter (in_range (f, t)) l \<noteq> []"
  shows "append_new (filter P l) (filter (in_range (f, t)) l) = filter (\<lambda>e. P e \<or> in_range (f, t) e) l"
proof -
  obtain l1 l2 where l: "l = l1 @ l2" "\<forall>e \<in> set l1. dt_DataID0 (snd e) < f" "\<forall>e \<in> set l2. f \<le> dt_DataID0 (snd e)"
    "\<forall>x l3. l2 = x # l3 \<longrightarrow> (\<forall>e \<in> set l3. f < dt_DataID0 (snd e))"
    using details_split [OF assms(1), of f] by blast
  have r1: "filter (in_range (f, t)) l1 = []" "filter (\<lambda>e. P e \<or> in_range (f, t) e) l1 = filter P l1"
    using l(2) by (auto simp: in_range_def filter_empty_conv intro!: filter_cong)
  obtain x l3 where x: "l2 = x # l3" using ne r1(1) l(1) by (cases l2) auto
  have p3: "filter P l3 = []" "filter (\<lambda>e. P e \<or> in_range (f, t) e) l3 = filter (in_range (f, t)) l3"
    using l(4) P x l(1) by (auto simp: filter_empty_conv not_le [symmetric] intro!: filter_cong)
  have d: "distinct (map fst (l1 @ x # l3))" using assms(1) l(1) x by (simp add: details_ok_def)
  then have d': "distinct (map fst (filter (in_range (f, t)) l))" using l(1) x by (metis distinct_map_filter)
  show ?thesis
  proof (cases "P x")
    case True
    then have "dt_DataID0 (snd x) = f" using P [of x] l(1,3) x by (intro antisym) auto
    then have "in_range (f, t) x" using \<open>f \<le> t\<close> by (simp add: in_range_def)
    then have e: "filter P l = filter P l1 @ [x]" "filter (in_range (f, t)) l = x # filter (in_range (f, t)) l3"
      "filter (\<lambda>e. P e \<or> in_range (f, t) e) l = filter P l1 @ x # filter (in_range (f, t)) l3"
      using True by (simp_all add: l(1) x r1 p3)
    show ?thesis unfolding e using append_new_append [OF d' ne, of "filter P l1 @ [x]"] by (simp add: e)
  next
    case False
    have "fst (last (filter P l1)) \<noteq> fst (hd (filter (in_range (f, t)) l))" if "filter P l1 \<noteq> []"
    proof -
      have "last (filter P l1) \<in> set l1" using that last_in_set [of "filter P l1"] by auto
      moreover have "hd (filter (in_range (f, t)) l) \<in> set (x # l3)" 
        using hd_in_set [OF ne] unfolding l(1) x filter_append r1(1) by auto
      ultimately show ?thesis using d unfolding map_append distinct_append set_map by (metis disjoint_iff image_eqI)
    qed
    moreover have e: "filter P l = filter P l1" "filter (\<lambda>e. P e \<or> in_range (f, t) e) l = filter P l1 @ filter (in_range (f, t)) l"
      using False by (simp_all add: l(1) x r1 p3)
    ultimately show ?thesis unfolding e using append_new_append [OF d' ne, of "filter P l1"]
      by (cases "filter P l1 = []") simp_all
  qed
qed

text \<open>The parts that are there, with their ranges: one after the other, each with details of its own.\<close>

fun parts_ok :: "nat \<Rightarrow> SocketDetailEvent golist \<Rightarrow> u64 \<Rightarrow> Buffer option list \<Rightarrow> (u64 \<times> u64) list \<Rightarrow> bool" where
  "parts_ok addr l lo [] rs \<longleftrightarrow> rs = []"
| "parts_ok addr l lo (None # bs) rs \<longleftrightarrow> parts_ok addr l lo bs rs"
| "parts_ok addr l lo (Some b # bs) [] \<longleftrightarrow> False"
| "parts_ok addr l lo (Some b # bs) ((f, t) # rs) \<longleftrightarrow>
     part_range addr b f t \<and> lo \<le> f \<and> f \<le> t \<and> filter (in_range (f, t)) l \<noteq> [] \<and> parts_ok addr l t bs rs"

definition range_of :: "(u64 \<times> u64) list \<Rightarrow> DataIDRange option \<Rightarrow> bool" where
  "range_of rs r \<longleftrightarrow> (case rs of [] \<Rightarrow> r = None | _ \<Rightarrow> (\<exists>fin. r = Some \<lparr>rg_From = fst (hd rs), rg_To = snd (last rs), IsToBufferReadFinished = fin\<rparr>))"

lemma range_of_Append:
  assumes "range_of qs rng" "\<forall>r \<in> set qs. fst r \<le> snd r \<and> snd r \<le> f" "f \<le> t"
  shows "range_of (qs @ [(f, t)]) (Some (let cur = \<lparr>rg_From = f, rg_To = t, IsToBufferReadFinished = fin\<rparr> in
      case rng of None \<Rightarrow> cur | Some r' \<Rightarrow> DataIDRange_Append r' cur))"
proof (cases qs)
  case Nil
  then show ?thesis using assms(1) by (simp add: range_of_def)
next
  case (Cons q qs')
  then have "fst q \<le> f" using assms(2) by (auto intro: order_trans)
  moreover have "snd (last qs) \<le> t" using assms(2,3) Cons last_in_set [of qs] by (auto intro: order_trans)
  ultimately show ?thesis using assms(1) Cons by (auto simp: range_of_def DataIDRange_Append_def Let_def not_less antisym)
qed

lemma collect_parts_step:
  assumes "details_ok (detailEvents orig)" "store addr = Some orig"
  shows "parts_ok addr (detailEvents orig) lo bs rs \<Longrightarrow>
    (\<forall>r \<in> set qs. fst r \<le> snd r \<and> snd r \<le> lo) \<Longrightarrow> range_of qs rng \<Longrightarrow>
    \<exists>rng'. collect_parts store bs (filter (\<lambda>e. \<exists>r \<in> set qs. in_range r e) (detailEvents orig), rng, True) =
      Inr (filter (\<lambda>e. \<exists>r \<in> set (qs @ rs). in_range r e) (detailEvents orig), rng', True) \<and> range_of (qs @ rs) rng'"
proof (induction bs arbitrary: lo rs qs rng)
  case Nil
  then show ?case by simp
next
  case (Cons x bs)
  let ?l = "detailEvents orig" and ?P = "\<lambda>e. \<exists>r \<in> set qs. in_range r e"
  show ?case
  proof (cases x)
    case None
    then show ?thesis using Cons by (simp add: AppendSocketDetailsFromBuffer_def)
  next
    case (Some b)
    then obtain f t rs' where rs: "rs = (f, t) # rs'" using Cons.prems(1) by (cases rs) auto
    have p: "part_range addr b f t" "lo \<le> f" "f \<le> t" "filter (in_range (f, t)) ?l \<noteq> []" "parts_ok addr ?l t bs rs'"
      using Cons.prems(1) Some rs by auto
    have q: "\<forall>r \<in> set qs. fst r \<le> snd r \<and> snd r \<le> f" using Cons.prems(2) order_trans [OF _ p(2)] by blast
    obtain fin where a: "AppendSocketDetailsFromBuffer store (Some b) (filter ?P ?l, rng, True) =
        Inr (append_new (filter ?P ?l) (filter (in_range (f, t)) ?l),
          Some (let cur = \<lparr>rg_From = f, rg_To = t, IsToBufferReadFinished = fin\<rparr> in
            case rng of None \<Rightarrow> cur | Some r' \<Rightarrow> DataIDRange_Append r' cur), True)"
      using Append_part [where store = store, OF p(1) assms(2) p(4)] by blast
    have "dt_DataID0 (snd e) \<le> f" if "?P e" for e
      using that q by (force simp: in_range_def intro: order_trans [where y = "snd _"])
    then have "append_new (filter ?P ?l) (filter (in_range (f, t)) ?l) = filter (\<lambda>e. \<exists>r \<in> set (qs @ [(f, t)]). in_range r e) ?l"
      using append_new_filter [OF assms(1) _ p(3,4), of ?P] by (simp add: Un_commute) meson
    moreover have "\<forall>r \<in> set (qs @ [(f, t)]). fst r \<le> snd r \<and> snd r \<le> t" using q p(3) order_trans [OF _ p(3)] by auto
    moreover note Cons.IH [OF p(5), of "qs @ [(f, t)]", OF _ range_of_Append [OF Cons.prems(3) q p(3), of fin]]
    ultimately show ?thesis using a Some rs by simp
  qed
qed

end
