(* ===== verification/Tracing_Context.thy ===== *)
theory Tracing_Context
  imports Rover_Prelude
begin

text \<open>
  The tracing context of a request (\<^verbatim>\<open>tools/tracing/tracing.go\<close>): the SkyWalking \<^verbatim>\<open>sw8\<close> header, whose
  values are in the base64 encoding of Go's \<^verbatim>\<open>base64.StdEncoding\<close>, and the Zipkin headers. A header that
  is absent is the empty string.
\<close>

section \<open>Base64\<close>

definition b64_alphabet :: string where
  "b64_alphabet = ''ABCDEFGHIJKLMNOPQRSTUVWXYZabcdefghijklmnopqrstuvwxyz0123456789+/''"

definition b64_char :: "nat \<Rightarrow> char" where
  "b64_char n = b64_alphabet ! n"

definition b64_val :: "char \<Rightarrow> nat option" where
  "b64_val c = map_of (zip b64_alphabet [0..<64]) c"

text \<open>Line breaks are skipped; a padded group is the last one; bits beyond the last byte are ignored.\<close>

fun b64_groups :: "string \<Rightarrow> string option" where
  "b64_groups [] = Some []"
| "b64_groups (a # b # c # d # rest) =
     (case (b64_val a, b64_val b) of
        (Some v0, Some v1) \<Rightarrow>
          if d = CHR ''='' then
            if rest \<noteq> [] then None
            else if c = CHR ''='' then Some [char_of (v0 * 4 + v1 div 16)]
            else (case b64_val c of None \<Rightarrow> None
              | Some v2 \<Rightarrow> Some [char_of (v0 * 4 + v1 div 16), char_of (v1 mod 16 * 16 + v2 div 4)])
          else (case (b64_val c, b64_val d, b64_groups rest) of
              (Some v2, Some v3, Some bs) \<Rightarrow>
                Some (char_of (v0 * 4 + v1 div 16) # char_of (v1 mod 16 * 16 + v2 div 4) # char_of (v2 mod 4 * 64 + v3) # bs)
            | _ \<Rightarrow> None)
      | _ \<Rightarrow> None)"
| "b64_groups _ = None"

definition DecodeString :: "string \<Rightarrow> string option" where
  "DecodeString s = b64_groups (filter (\<lambda>c. c \<noteq> CHR 0x0D \<and> c \<noteq> CHR 0x0A) s)"

text \<open>What a SkyWalking agent does to write a value.\<close>

fun b64_encode :: "string \<Rightarrow> string" where
  "b64_encode [] = []"
| "b64_encode [a] = (let x = of_char a in [b64_char (x div 4), b64_char (x mod 4 * 16), CHR ''='', CHR ''=''])"
| "b64_encode [a, b] = (let x = of_char a; y = of_char b in
     [b64_char (x div 4), b64_char (x mod 4 * 16 + y div 16), b64_char (y mod 16 * 4), CHR ''=''])"
| "b64_encode (a # b # c # rest) = (let x = of_char a; y = of_char b; z = of_char c in
     b64_char (x div 4) # b64_char (x mod 4 * 16 + y div 16) # b64_char (y mod 16 * 4 + z div 64) # b64_char (z mod 64) # b64_encode rest)"

definition b64_plain :: "char \<Rightarrow> bool" where
  "b64_plain c \<longleftrightarrow> c \<notin> {CHR ''-'', CHR 0x0D, CHR 0x0A}"

lemma b64_char_val_all: "list_all (\<lambda>n. b64_val (b64_char n) = Some n \<and> b64_plain (b64_char n) \<and> b64_char n \<noteq> CHR ''='') [0..<64]"
  by code_simp

lemma b64_char_val [simp]: "n < 64 \<Longrightarrow> b64_val (b64_char n) = Some n"
  and b64_char_plain [simp]: "n < 64 \<Longrightarrow> b64_plain (b64_char n)"
  and b64_char_pad [simp]: "n < 64 \<Longrightarrow> b64_char n \<noteq> CHR ''=''"
  using b64_char_val_all by (auto simp: list_all_iff)

lemma b64_plain_pad [simp]: "b64_plain (CHR ''='')"
  by (simp add: b64_plain_def)

lemma of_char_bound [simp]: "(of_char c :: nat) < 256"
  by (metis of_char_mod_256 mod_less_divisor zero_less_numeral)

lemma byte_sextets:
  fixes x y z :: nat
  shows "x < 256 \<Longrightarrow> x div 4 < 64" "y < 256 \<Longrightarrow> x mod 4 * 16 + y div 16 < 64" "x mod 4 * 16 < 64" "y mod 16 * 4 < 64"
    "z < 256 \<Longrightarrow> y mod 16 * 4 + z div 64 < 64" "z mod 64 < 64"
  by linarith+

lemma byte_halves [simp]:
  "(of_char c :: nat) div 16 div 16 = 0" "(of_char c :: nat) div 16 mod 16 = of_char c div 16"
  "(of_char c :: nat) div 64 div 4 = 0" "(of_char c :: nat) div 64 mod 4 = of_char c div 64"
proof -
  have "(of_char c :: nat) div 16 < 16" "(of_char c :: nat) div 64 < 4" using of_char_bound [of c] by linarith+
  then show "(of_char c :: nat) div 16 div 16 = 0" "(of_char c :: nat) div 16 mod 16 = of_char c div 16"
    "(of_char c :: nat) div 64 div 4 = 0" "(of_char c :: nat) div 64 mod 4 = of_char c div 64"
    by simp_all
qed

lemma b64_groups_encode: "b64_groups (b64_encode s) = Some s"
  by (induction s rule: b64_encode.induct) (simp_all add: Let_def byte_sextets)

lemma b64_encode_plain: "list_all b64_plain (b64_encode s)"
  by (induction s rule: b64_encode.induct) (simp_all add: Let_def byte_sextets)

lemma DecodeString_encode: "DecodeString (b64_encode s) = Some s"
  using b64_encode_plain [of s] b64_groups_encode [of s]
  by (simp add: DecodeString_def filter_id_conv list_all_iff b64_plain_def)

section \<open>Tracing contexts\<close>

record SkyWalkingTracingContext =
  tc_TraceID :: string
  tc_SegmentID :: string
  tc_SpanID :: string
  tc_ParentService :: string
  tc_ParentServiceInstance :: string
  tc_ParentEndpoint :: string
  tc_AddressUsedAtClient :: string

datatype Context = SkyWalking SkyWalkingTracingContext | Zipkin string string

text \<open>\<^verbatim>\<open>decodeBase64StringValue\<close> passes an earlier error on; \<open>None\<close> is an error.\<close>

definition decodeBase64StringValue :: "bool \<Rightarrow> string \<Rightarrow> string option" where
  "decodeBase64StringValue failed v = (if failed then None else DecodeString v)"

definition analyzeSkyWalking8TracingContext :: "string \<Rightarrow> SkyWalkingTracingContext option" where
  "analyzeSkyWalking8TracingContext v =
     (case str_split (CHR ''-'') v of
        [_, p1, p2, p3, p4, p5, p6, p7] \<Rightarrow>
          let d1 = decodeBase64StringValue False p1; d2 = decodeBase64StringValue (d1 = None) p2;
              d4 = decodeBase64StringValue (d2 = None) p4; d5 = decodeBase64StringValue (d4 = None) p5;
              d6 = decodeBase64StringValue (d5 = None) p6; d7 = decodeBase64StringValue (d6 = None) p7
          in if d7 = None then None
             else Some \<lparr>tc_TraceID = the d1, tc_SegmentID = the d2, tc_SpanID = p3, tc_ParentService = the d4,
               tc_ParentServiceInstance = the d5, tc_ParentEndpoint = the d6, tc_AddressUsedAtClient = the d7\<rparr>
      | _ \<Rightarrow> None)"

definition analyzeZipkinTracingContextWithSingleData :: "string \<Rightarrow> Context option" where
  "analyzeZipkinTracingContextWithSingleData singleData =
     (case str_split (CHR ''-'') singleData of t # s # _ \<Rightarrow> Some (Zipkin t s) | _ \<Rightarrow> None)"

text \<open>An error is \<open>Inl ()\<close>; no context is \<open>Inr None\<close>.\<close>

definition AnalyzeTracingContext :: "(string \<Rightarrow> string) \<Rightarrow> unit + Context option" where
  "AnalyzeTracingContext fetcher =
     (if fetcher ''sw8'' \<noteq> [] then
        (case analyzeSkyWalking8TracingContext (fetcher ''sw8'') of None \<Rightarrow> Inl () | Some c \<Rightarrow> Inr (Some (SkyWalking c)))
      else
        let single = (if fetcher ''b3'' \<noteq> [] then analyzeZipkinTracingContextWithSingleData (fetcher ''b3'') else None) in
        case single of
          Some c \<Rightarrow> Inr (Some c)
        | None \<Rightarrow>
            if fetcher ''x-b3-traceid'' \<noteq> [] \<and> fetcher ''x-b3-spanid'' \<noteq> []
            then Inr (Some (Zipkin (fetcher ''x-b3-traceid'') (fetcher ''x-b3-spanid''))) else Inr None)"

primrec TraceID :: "Context \<Rightarrow> string" where
  "TraceID (SkyWalking c) = tc_TraceID c" | "TraceID (Zipkin t s) = t"

primrec TraceSegmentID :: "Context \<Rightarrow> string" where
  "TraceSegmentID (SkyWalking c) = tc_SegmentID c" | "TraceSegmentID (Zipkin t s) = []"

primrec SpanID :: "Context \<Rightarrow> string" where
  "SpanID (SkyWalking c) = tc_SpanID c" | "SpanID (Zipkin t s) = s"

datatype TraceInfoProvider = Provider_SkyWalking | Provider_Zipkin

primrec AccessLogType :: "Context \<Rightarrow> TraceInfoProvider" where
  "AccessLogType (SkyWalking c) = Provider_SkyWalking" | "AccessLogType (Zipkin t s) = Provider_Zipkin"

record AccessLogTraceInfo =
  ti_TraceId :: string
  ti_TraceSegmentId :: string
  ti_SpanId :: string
  ti_Provider :: TraceInfoProvider

definition AnalyzeTraceInfo :: "(string \<Rightarrow> string) \<Rightarrow> AccessLogTraceInfo option" where
  "AnalyzeTraceInfo fetcher = (case AnalyzeTracingContext fetcher of
      Inl _ \<Rightarrow> None
    | Inr None \<Rightarrow> None
    | Inr (Some c) \<Rightarrow> Some \<lparr>ti_TraceId = TraceID c, ti_TraceSegmentId = TraceSegmentID c, ti_SpanId = SpanID c,
        ti_Provider = AccessLogType c\<rparr>)"

text \<open>The header a SkyWalking agent sends: a sampling flag and the seven parts.\<close>

definition sw8_header :: "string \<Rightarrow> SkyWalkingTracingContext \<Rightarrow> string" where
  "sw8_header sample c = str_join ''-'' [sample, b64_encode (tc_TraceID c), b64_encode (tc_SegmentID c), tc_SpanID c,
     b64_encode (tc_ParentService c), b64_encode (tc_ParentServiceInstance c), b64_encode (tc_ParentEndpoint c),
     b64_encode (tc_AddressUsedAtClient c)]"

lemma str_split_sep: "c \<notin> set p \<Longrightarrow> str_split c (p @ c # s) = p # str_split c s"
  by (induction p) (auto split: list.splits)

lemma str_split_none: "c \<notin> set p \<Longrightarrow> str_split c p = [p]"
  by (induction p) auto

text \<open>
  C18: Every tracing context that an agent writes into the \<^verbatim>\<open>sw8\<close> header is read back as it was, whatever
  bytes its values have, and takes precedence over the Zipkin headers.
\<close>

theorem sw8_roundtrip:
  assumes "CHR ''-'' \<notin> set sample" and "CHR ''-'' \<notin> set (tc_SpanID c)" and "fetcher ''sw8'' = sw8_header sample c"
  shows "AnalyzeTracingContext fetcher = Inr (Some (SkyWalking c))"
proof -
  have no: "CHR ''-'' \<notin> set (b64_encode s)" for s using b64_encode_plain [of s] by (auto simp: list_all_iff b64_plain_def)
  have "analyzeSkyWalking8TracingContext (sw8_header sample c) = Some c"
    using assms(1,2)
    by (simp add: analyzeSkyWalking8TracingContext_def sw8_header_def str_split_sep str_split_none no decodeBase64StringValue_def
        DecodeString_encode Let_def)
  moreover have "sw8_header sample c \<noteq> []" by (simp add: sw8_header_def)
  ultimately show ?thesis using assms(3) by (simp add: AnalyzeTracingContext_def)
qed

theorem sw8_roundtrip_witness:
  "AnalyzeTracingContext (\<lambda>key. if key = ''sw8'' then ''1-VFJBQ0VJRA==-U0VHTUVOVElE-3-UEFSRU5UX1NFUlZJQ0U=-UEFSRU5UX0lOU1RBTkNF-UEFSRU5UX0VORFBPSU5U-SVBQT1JU''
       else []) =
     Inr (Some (SkyWalking \<lparr>tc_TraceID = ''TRACEID'', tc_SegmentID = ''SEGMENTID'', tc_SpanID = ''3'', tc_ParentService = ''PARENT_SERVICE'',
       tc_ParentServiceInstance = ''PARENT_INSTANCE'', tc_ParentEndpoint = ''PARENT_ENDPOINT'', tc_AddressUsedAtClient = ''IPPORT''\<rparr>))"
  by (rule sw8_roundtrip [of "''1''"]) code_simp+

end
