(* ===== verification/Http2_Protocol.thy ===== *)
theory Http2_Protocol
  imports Protocol_Details Tracing_Context Access_Log Socket_Buffer_Read
begin

text \<open>
  The HTTP/2 analyzer (\<^verbatim>\<open>collector/protocols/http2.go\<close>): it reads the frames of a connection out of its data
  buffer, keeps the parts of every stream as slices of that buffer, and reports a stream as a protocol
  log together with its kernel details when the response ends. The frame header reader and the HPACK
  decoder are those of \<^verbatim>\<open>golang.org/x/net/http2\<close>: they are arguments of the model. The data buffer of the
  connection is at address 0 of the store of buffers; slices point to it.
\<close>

section \<open>Protocol logs\<close>

datatype HTTPMethod = Get | Post | Put | Delete | Head | Options | Trace | Connect | Patch

text \<open>An unknown method is taken for \<^verbatim>\<open>GET\<close>.\<close>

definition TransformHTTPMethod :: "string \<Rightarrow> HTTPMethod" where
  "TransformHTTPMethod method =
     (if method = ''GET'' then Get else if method = ''POST'' then Post else if method = ''PUT'' then Put
      else if method = ''DELETE'' then Delete else if method = ''HEAD'' then Head else if method = ''OPTIONS'' then Options
      else if method = ''TRACE'' then Trace else if method = ''CONNECT'' then Connect else if method = ''PATCH'' then Patch else Get)"

datatype HTTPVersion = HTTP1 | HTTP2

record AccessLogHTTPProtocol =
  ht_StartTime :: u64
  ht_EndTime :: u64
  ht_Version :: HTTPVersion
  ht_Method :: HTTPMethod
  ht_Path :: string
  ht_ReqHeadersBytes :: u64
  ht_ReqBodyBytes :: u64
  ht_Trace :: "AccessLogTraceInfo option"
  ht_Host :: string
  ht_StatusCode :: int
  ht_RespHeadersBytes :: u64
  ht_RespBodyBytes :: u64

type_synonym http_log = "AccessLogHTTPProtocol ProtocolEventData"

section \<open>State\<close>

type_synonym headers = "string \<rightharpoonup> string"

record HTTP2Streaming =
  hs_ReqHeader :: headers
  hs_RespHeader :: headers
  hs_ReqHeaderBuffer :: "Buffer option"
  hs_ReqBodyBuffer :: "Buffer option"
  hs_IsInResponse :: bool
  hs_Status :: int
  hs_RespHeaderBuffer :: "Buffer option"
  hs_RespBodyBuffer :: "Buffer option"

datatype FrameType = FrameData | FrameHeaders | FrameOther

record FrameHeader =
  fh_Type :: FrameType
  fh_EndStream :: bool
  fh_Length :: nat
  fh_StreamID :: u32

text \<open>
  The state of the analyzer of a connection: its data buffer, the next unused identity of list
  elements, the HPACK decoder, the open streams, and the protocol logs it has sent.
\<close>

record 'h http2_state =
  h2_buf :: Buffer
  h2_fresh :: nat
  h2_HpackDecoder :: 'h
  h2_Streams :: "u32 \<rightharpoonup> HTTP2Streaming"
  h2_sent :: "http_log list"

text \<open>
  \<open>e2_frameHeader\<close> is how \<^verbatim>\<open>http2.ReadFrameHeader\<close> decodes the nine bytes it reads, \<open>e2_decode\<close> is \<^verbatim>\<open>DecodeFull\<close>; an
  error is \<open>None\<close>.
\<close>

record 'h http2_env =
  e2_frameHeader :: "u8 list \<Rightarrow> FrameHeader"
  e2_decode :: "'h \<Rightarrow> u8 list \<Rightarrow> (string \<times> string) list option \<times> 'h"
  e2_now :: int
  e2_boot :: int

section \<open>Reporting a stream\<close>

definition header :: "headers \<Rightarrow> string \<Rightarrow> string" where
  "header m k = (case m k of None \<Rightarrow> [] | Some v \<Rightarrow> v)"

definition to_upper :: "string \<Rightarrow> string" where
  "to_upper s = map (\<lambda>c. if 97 \<le> (of_char c :: nat) \<and> (of_char c :: nat) \<le> 122 then char_of ((of_char c :: nat) - 32) else c) s"

definition ParseHTTPMethod :: "HTTP2Streaming \<Rightarrow> HTTPMethod" where
  "ParseHTTPMethod s = (let method = header (hs_ReqHeader s) '':method'' in if method = [] then Get else TransformHTTPMethod (to_upper method))"

definition FirstDetail :: "buffer_store \<Rightarrow> Buffer option \<Rightarrow> SocketDetailEvent \<Rightarrow> SocketDetailEvent or_panic" where
  "FirstDetail store buf def = (case buf of None \<Rightarrow> Inr def
     | Some b \<Rightarrow> panic_bind (BuildDetails store b) (\<lambda>details. Inr (case details of [] \<Rightarrow> def | e # _ \<Rightarrow> snd e)))"

definition BufferSizeOfZero :: "Buffer option \<Rightarrow> u64" where
  "BufferSizeOfZero buf = (case buf of None \<Rightarrow> 0 | Some b \<Rightarrow> word_of_int (snd (DataSize (Some b))))"

text \<open>
  \<^verbatim>\<open>DeleteDetails\<close> of a part goes to the buffer of the connection; the details list of a slice itself is
  always empty.
\<close>

definition delete_range :: "DataIDRange \<Rightarrow> Buffer option \<Rightarrow> Buffer \<Rightarrow> Buffer or_panic" where
  "delete_range i part buf = (case part of None \<Rightarrow> Inl NilDereference
     | Some p \<Rightarrow>
         (case DeleteDetails i 1 [0 \<mapsto> buf, 1 \<mapsto> p] of
            None \<Rightarrow> Inl NilDereference
          | Some r \<Rightarrow> panic_bind r (\<lambda>store. Inr (the (store 0)))))"

definition http2_log :: "buffer_store \<Rightarrow> HTTP2Streaming \<Rightarrow> SocketDetailEvent list \<Rightarrow> http_log or_panic" where
  "http2_log store s details =
     panic_bind (FirstDetail store (hs_ReqBodyBuffer s) (hd details)) (\<lambda>first.
       Inr \<lparr>KernelLogs = details, ProtocolLogData =
         \<lparr>ht_StartTime = dt_StartTime first, ht_EndTime = dt_EndTime (last details), ht_Version = HTTP2,
          ht_Method = ParseHTTPMethod s, ht_Path = header (hs_ReqHeader s) '':path'',
          ht_ReqHeadersBytes = BufferSizeOfZero (hs_ReqHeaderBuffer s), ht_ReqBodyBytes = BufferSizeOfZero (hs_ReqBodyBuffer s),
          ht_Trace = AnalyzeTraceInfo (header (hs_ReqHeader s)),
          ht_Host = (let h = header (hs_ReqHeader s) '':authority'' in if h = [] then header (hs_ReqHeader s) '':host'' else h),
          ht_StatusCode = sint (word_of_int (hs_Status s) :: u32),
          ht_RespHeadersBytes = BufferSizeOfZero (hs_RespHeaderBuffer s), ht_RespBodyBytes = BufferSizeOfZero (hs_RespBodyBuffer s)\<rparr>\<rparr>)"

text \<open>The result tells whether the stream could be reported.\<close>

definition HandleWholeStream :: "HTTP2Streaming \<Rightarrow> 'h http2_state \<Rightarrow> ('h http2_state \<times> bool) or_panic" where
  "HandleWholeStream stream st =
     panic_bind (collect_parts [0 \<mapsto> h2_buf st]
         [hs_ReqHeaderBuffer stream, hs_ReqBodyBuffer stream, hs_RespHeaderBuffer stream, hs_RespBodyBuffer stream] ([], None, True))
       (\<lambda>(details, idRange, allInclude).
         if \<not> allInclude \<or> idRange = None \<or> details = [] then Inr (st, False)
         else panic_bind (delete_range (the idRange) (hs_ReqHeaderBuffer stream) (h2_buf st)) (\<lambda>buf'.
           panic_bind (http2_log [0 \<mapsto> buf'] stream (map snd details)) (\<lambda>log.
             Inr (st\<lparr>h2_buf := buf', h2_sent := h2_sent st @ [log]\<rparr>, True))))"

section \<open>Frames\<close>

datatype ParseResult = ParseResultSuccess | ParseResultSkipPackage

definition parseHeaders :: "(string \<times> string) list \<Rightarrow> headers" where
  "parseHeaders hfs = map_of (rev hfs)"

definition AppendHeaders :: "headers \<Rightarrow> headers \<Rightarrow> headers" where
  "AppendHeaders existing needAppends = existing ++ needAppends"

text \<open>
  The part of the buffer from a position to the current one, added to what a stream already has. Both
  positions were taken by \<^verbatim>\<open>Position\<close>, which clones the current one.
\<close>

definition current_slice :: "Position \<Rightarrow> 'h http2_state \<Rightarrow> (Buffer \<times> 'h http2_state) or_panic" where
  "current_slice startPos st = (case buf_current (h2_buf st) of None \<Rightarrow> Inl NilDereference
     | Some pos \<Rightarrow> panic_bind (Slice (h2_fresh st) 0 (h2_buf st) True startPos pos) (\<lambda>b.
         Inr (b, st\<lparr>h2_fresh := h2_fresh st + length (dataEvents b)\<rparr>)))"

definition combined_slice :: "Position \<Rightarrow> Buffer option \<Rightarrow> 'h http2_state \<Rightarrow> (Buffer option \<times> 'h http2_state) or_panic" where
  "combined_slice startPos part st =
     panic_bind (current_slice startPos st) (\<lambda>(b, st1).
     panic_bind (CombineSlices (h2_fresh st1) True (Some 0) [part, Some b]) (\<lambda>c.
       Inr (c, st1\<lparr>h2_fresh := h2_fresh st1 + (case c of None \<Rightarrow> 0 | Some x \<Rightarrow> length (dataEvents x))\<rparr>)))"

definition put_stream :: "u32 \<Rightarrow> HTTP2Streaming \<Rightarrow> 'h http2_state \<Rightarrow> 'h http2_state" where
  "put_stream sid s st = st\<lparr>h2_Streams := (h2_Streams st)(sid \<mapsto> s)\<rparr>"

text \<open>
  The frame handlers return the result and whether the protocol is broken. \<open>None\<close> is a read that never
  ends. A stream is an object that the map points to, so every change of it is stored.
\<close>

definition header_frame ::
  "FrameHeader \<Rightarrow> Position \<Rightarrow> headers \<Rightarrow> 'h http2_state \<Rightarrow> ('h http2_state \<times> ParseResult \<times> bool) or_panic" where
  "header_frame fh startPos hdrs st =
     (let sid = fh_StreamID fh in
      case h2_Streams st sid of
        None \<Rightarrow>
          panic_bind (current_slice startPos st) (\<lambda>(b, st1).
            Inr (put_stream sid \<lparr>hs_ReqHeader = hdrs, hs_RespHeader = Map.empty, hs_ReqHeaderBuffer = Some b, hs_ReqBodyBuffer = None,
              hs_IsInResponse = False, hs_Status = 0, hs_RespHeaderBuffer = None, hs_RespBodyBuffer = None\<rparr> st1,
              ParseResultSuccess, False))
      | Some s0 \<Rightarrow>
          let s = (case hdrs '':status'' of None \<Rightarrow> s0
                   | Some status \<Rightarrow> s0\<lparr>hs_IsInResponse := True, hs_Status := (case Atoi status of None \<Rightarrow> 200 | Some code \<Rightarrow> code)\<rparr>) in
          if \<not> hs_IsInResponse s then
            panic_bind (combined_slice startPos (hs_ReqHeaderBuffer s) st) (\<lambda>(c, st1).
              Inr (put_stream sid (s\<lparr>hs_ReqHeader := AppendHeaders (hs_ReqHeader s) hdrs, hs_ReqHeaderBuffer := c\<rparr>) st1, ParseResultSuccess, False))
          else
            panic_bind (combined_slice startPos (hs_RespHeaderBuffer s) st) (\<lambda>(c, st1).
              let s1 = s\<lparr>hs_RespHeader := AppendHeaders (hs_RespHeader s) hdrs, hs_RespHeaderBuffer := c\<rparr> in
              if fh_EndStream fh then
                panic_bind (HandleWholeStream s1 st1) (\<lambda>(st2, _).
                  Inr (st2\<lparr>h2_Streams := (h2_Streams st2)(sid := None)\<rparr>, ParseResultSuccess, False))
              else Inr (put_stream sid s1 st1, ParseResultSuccess, False)))"

definition HandleHeader ::
  "'h http2_env \<Rightarrow> FrameHeader \<Rightarrow> Position \<Rightarrow> 'h http2_state \<Rightarrow> ('h http2_state \<times> ParseResult \<times> bool) or_panic option" where
  "HandleHeader env fh startPos st =
     Option.bind (ReadUntilBufferFull (h2_buf st) (replicate (fh_Length fh) 0)) (\<lambda>res. Some (
       panic_bind res (\<lambda>(buf', bytes, err).
         let st1 = st\<lparr>h2_buf := buf'\<rparr> in
         if err \<noteq> None then Inr (st1, ParseResultSkipPackage, True)
         else case e2_decode env (h2_HpackDecoder st1) bytes of
           (None, dec) \<Rightarrow> Inr (st1\<lparr>h2_HpackDecoder := dec\<rparr>, ParseResultSkipPackage, True)
         | (Some hfs, dec) \<Rightarrow> header_frame fh startPos (parseHeaders hfs) (st1\<lparr>h2_HpackDecoder := dec\<rparr>))))"

definition maxHTTP2StreamingTime :: int where "maxHTTP2StreamingTime = 180 * 1000000000"

text \<open>The stream after the check, and the state: a request that is open for too long is reported as it is and its body starts anew.\<close>

definition validateIsStreamOpenTooLong ::
  "'h http2_env \<Rightarrow> HTTP2Streaming \<Rightarrow> 'h http2_state \<Rightarrow> (HTTP2Streaming \<times> 'h http2_state) or_panic" where
  "validateIsStreamOpenTooLong env s st =
     (if hs_IsInResponse s \<or> hs_ReqBodyBuffer s = None then Inr (s, st)
      else case FirstSocketBuffer (hs_ReqBodyBuffer s) of
        None \<Rightarrow> Inr (s, st)
      | Some socketBuffer \<Rightarrow>
          if e2_now env - host_Time (e2_boot env) (StartTime socketBuffer) > maxHTTP2StreamingTime
          then panic_bind (HandleWholeStream s st) (\<lambda>(st1, _).
            Inr (s\<lparr>hs_ReqBodyBuffer := map_option Clean (hs_ReqBodyBuffer s)\<rparr>, st1))
          else Inr (s, st))"

definition HandleData ::
  "'h http2_env \<Rightarrow> FrameHeader \<Rightarrow> Position \<Rightarrow> 'h http2_state \<Rightarrow> ('h http2_state \<times> ParseResult \<times> bool) or_panic option" where
  "HandleData env fh startPos st =
     (case h2_Streams st (fh_StreamID fh) of
        None \<Rightarrow> Some (Inr (st, ParseResultSkipPackage, True))
      | Some s \<Rightarrow>
          Option.bind (ReadUntilBufferFull (h2_buf st) (replicate (fh_Length fh) 0)) (\<lambda>res. Some (
            panic_bind res (\<lambda>(buf', bytes, err).
              let st1 = st\<lparr>h2_buf := buf'\<rparr> in
              if err \<noteq> None then Inr (st1, ParseResultSkipPackage, False)
              else
                panic_bind (combined_slice startPos (if hs_IsInResponse s then hs_RespBodyBuffer s else hs_ReqBodyBuffer s) st1) (\<lambda>(c, st2).
                let s1 = (if hs_IsInResponse s then s\<lparr>hs_RespBodyBuffer := c\<rparr> else s\<lparr>hs_ReqBodyBuffer := c\<rparr>) in
                panic_bind (validateIsStreamOpenTooLong env s1 st2) (\<lambda>(s2, st3).
                  Inr (put_stream (fh_StreamID fh) s2 st3, ParseResultSuccess, False)))))))"

section \<open>The loop\<close>

text \<open>
  \<^verbatim>\<open>ReadFrameHeader\<close> reads nine bytes with \<^verbatim>\<open>io.ReadFull\<close>: it reads on until they are there or an error comes.
\<close>

definition ReadFrameHeader :: "'h http2_env \<Rightarrow> Buffer \<Rightarrow> (Buffer \<times> FrameHeader option) or_panic option" where
  "ReadFrameHeader env buf = Option.bind (Peek_loop Read buf (replicate 9 0) 0) (\<lambda>res. Some (panic_bind res (\<lambda>(buf', bytes, err).
     Inr (buf', if err = None then Some (e2_frameHeader env bytes) else None))))"

text \<open>
  One turn of \<^verbatim>\<open>Analyze\<close>: the state, whether the loop ends, and whether the protocol broke. A frame of
  another type is read over.
\<close>

definition frame_turn ::
  "'h http2_env \<Rightarrow> FrameHeader \<Rightarrow> Position \<Rightarrow> 'h http2_state \<Rightarrow> ('h http2_state \<times> ParseResult \<times> bool) or_panic option" where
  "frame_turn env fh startPos st =
     (case fh_Type fh of
        FrameHeaders \<Rightarrow> HandleHeader env fh startPos st
      | FrameData \<Rightarrow> HandleData env fh startPos st
      | FrameOther \<Rightarrow>
          Option.bind (ReadUntilBufferFull (h2_buf st) (replicate (fh_Length fh) 0)) (\<lambda>res. Some (
            panic_bind res (\<lambda>(buf', bytes, err).
              Inr (st\<lparr>h2_buf := buf'\<rparr>, if err = None then ParseResultSuccess else ParseResultSkipPackage, err = Some EOF)))))"

definition analyze_turn :: "'h http2_env \<Rightarrow> 'h http2_state \<Rightarrow> ('h http2_state \<times> bool \<times> bool) or_panic option" where
  "analyze_turn env st =
     (case PrepareForReading (h2_buf st) of
        (buf1, False) \<Rightarrow> Some (Inr (st\<lparr>h2_buf := buf1\<rparr>, True, False))
      | (buf1, True) \<Rightarrow>
          (case buf_current buf1 of None \<Rightarrow> Some (Inl NilDereference)
           | Some startPos \<Rightarrow>
               Option.bind (ReadFrameHeader env buf1) (\<lambda>read. case read of
                  Inl e \<Rightarrow> Some (Inl e)
                | Inr (buf2, None) \<Rightarrow>
                    Some (panic_bind (SkipCurrentElement buf2) (\<lambda>(buf3, fin). Inr (st\<lparr>h2_buf := buf3\<rparr>, fin, False)))
                | Inr (buf2, Some fh) \<Rightarrow>
                    Option.bind (frame_turn env fh startPos (st\<lparr>h2_buf := buf2\<rparr>)) (\<lambda>res. Some (
                      panic_bind res (\<lambda>(st1, result, protocolBreak).
                        if protocolBreak then Inr (st1, True, True)
                        else panic_bind
                          (case result of ParseResultSuccess \<Rightarrow> RemoveReadElements False (h2_buf st1)
                           | ParseResultSkipPackage \<Rightarrow> SkipCurrentElement (h2_buf st1)) (\<lambda>(buf3, fin).
                          Inr (st1\<lparr>h2_buf := buf3\<rparr>, fin, False))))))))"

text \<open>\<^verbatim>\<open>Analyze\<close>: the state and \<^verbatim>\<open>helper.ProtocolBreak\<close>; \<open>None\<close> is a loop that never ends.\<close>

partial_function (option) analyze_loop ::
  "('s \<Rightarrow> ('s \<times> bool \<times> bool) or_panic option) \<Rightarrow> 's \<Rightarrow> ('s \<times> bool) or_panic option" where
  "analyze_loop turn st = Option.bind (turn st) (\<lambda>res. case res of
      Inl e \<Rightarrow> Some (Inl e)
    | Inr (st', fin, protocolBreak) \<Rightarrow> if fin then Some (Inr (st', protocolBreak)) else analyze_loop turn st')"

definition http2_Analyze :: "'h http2_env \<Rightarrow> 'h http2_state \<Rightarrow> ('h http2_state \<times> bool) or_panic option" where
  "http2_Analyze env st = analyze_loop (analyze_turn env) (st\<lparr>h2_buf := ResetForLoopReading (h2_buf st)\<rparr>)"

section \<open>What a report takes from the buffer\<close>

lemma delete_details_filter:
  assumes "sorted_wrt (\<lambda>a b. dt_DataID0 (snd a) < dt_DataID0 (snd b)) l"
  shows "delete_details i l =
    filter (\<lambda>e. \<not> in_range (rg_From i, rg_To i) e \<or> \<not> IsToBufferReadFinished i \<and> dt_DataID0 (snd e) = rg_To i) l"
  using assms
proof (induction l)
  case (Cons e l)
  have "filter (\<lambda>e. \<not> in_range (rg_From i, rg_To i) e \<or> \<not> IsToBufferReadFinished i \<and> dt_DataID0 (snd e) = rg_To i) l = l"
    if "dt_DataID0 (snd e) = rg_To i"
    using Cons.prems that by (auto simp: in_range_def filter_id_conv)
  then show ?case using Cons by (auto simp: in_range_def Let_def)
qed simp

lemma delete_range_part:
  assumes "originalBuffer buf = None" "originalBuffer p = Some 0"
  shows "delete_range i (Some p) buf = Inr (buf\<lparr>detailEvents := delete_details i (detailEvents buf)\<rparr>)"
  using assms by (simp add: delete_range_def DeleteDetails.simps)

lemma parts_ok_member:
  "parts_ok addr l lo bs rs \<Longrightarrow> Some b \<in> set bs \<Longrightarrow> \<exists>f t. (f, t) \<in> set rs \<and> part_range addr b f t"
  by (induction addr l lo bs rs rule: parts_ok.induct) auto

lemma parts_ok_details:
  "parts_ok addr l lo bs rs \<Longrightarrow> r \<in> set rs \<Longrightarrow> filter (in_range r) l \<noteq> []"
  by (induction addr l lo bs rs rule: parts_ok.induct) auto

lemma FirstDetail_part:
  assumes "part = None \<or> (\<exists>f t. part_range 0 (the part) f t)"
  shows "\<exists>d. FirstDetail [0 \<mapsto> buf] part def = Inr d"
  using assms BuildDetails_part [where addr = 0 and orig = buf and store = "[0 \<mapsto> buf]"]
  by (cases part) (auto simp: FirstDetail_def)

text \<open>Collecting a message and deleting its range, for any message that starts with a part of its own.\<close>

lemma collected_message:
  assumes "details_ok (detailEvents buf)" "originalBuffer buf = None" and parts: "parts_ok 0 (detailEvents buf) 0 (Some p # bs) rs"
  shows "\<exists>r fin. collect_parts [0 \<mapsto> buf] (Some p # bs) ([], None, True) = Inr (filter (\<lambda>e. \<exists>r \<in> set rs. in_range r e) (detailEvents buf), Some r, True) \<and>
    filter (\<lambda>e. \<exists>r \<in> set rs. in_range r e) (detailEvents buf) \<noteq> [] \<and>
    delete_range r (Some p) buf = Inr (buf\<lparr>detailEvents := filter (\<lambda>e. \<not> in_range (fst (hd rs), snd (last rs)) e \<or>
            \<not> fin \<and> dt_DataID0 (snd e) = snd (last rs)) (detailEvents buf)\<rparr>)"
proof -
  let ?ds = "filter (\<lambda>e. \<exists>r \<in> set rs. in_range r e) (detailEvents buf)"
  obtain f t where ft: "(f, t) \<in> set rs" "part_range 0 p f t" using parts_ok_member [OF parts, of p] by auto
  obtain r where c: "collect_parts [0 \<mapsto> buf] (Some p # bs) ([], None, True) = Inr (?ds, r, True)" and "range_of rs r"
    using collect_parts_step [OF assms(1), of "[0 \<mapsto> buf]" 0 0 "Some p # bs" rs "[]" None] parts by (auto simp: range_of_def simp del: collect_parts.simps)
  then obtain fin where r: "r = Some \<lparr>rg_From = fst (hd rs), rg_To = snd (last rs), IsToBufferReadFinished = fin\<rparr>"
    using ft(1) by (auto simp: range_of_def split: list.splits)
  have "?ds \<noteq> []" using parts_ok_details [OF parts ft(1)] ft(1) by (auto simp: filter_empty_conv)
  moreover have "delete_range (the r) (Some p) buf = Inr (buf\<lparr>detailEvents := delete_details (the r) (detailEvents buf)\<rparr>)"
    using delete_range_part [OF assms(2)] ft(2) by (simp add: part_range_def)
  ultimately show ?thesis
    using c r assms(1) by (intro exI [of _ "the r"] exI [of _ fin]) (simp add: delete_details_filter details_ok_def del: collect_parts.simps)
qed

lemma reported_stream:
  assumes "details_ok (detailEvents (h2_buf st))" "originalBuffer (h2_buf st) = None"
    and parts: "parts_ok 0 (detailEvents (h2_buf st)) 0
      [hs_ReqHeaderBuffer s, hs_ReqBodyBuffer s, hs_RespHeaderBuffer s, hs_RespBodyBuffer s] rs"
    and "hs_ReqHeaderBuffer s \<noteq> None"
  shows "\<exists>log fin. HandleWholeStream s st = Inr (st\<lparr>
        h2_buf := (h2_buf st)\<lparr>detailEvents := filter (\<lambda>e. \<not> in_range (fst (hd rs), snd (last rs)) e \<or>
            \<not> fin \<and> dt_DataID0 (snd e) = snd (last rs)) (detailEvents (h2_buf st))\<rparr>,
        h2_sent := h2_sent st @ [log]\<rparr>, True) \<and>
      KernelLogs log = map snd (filter (\<lambda>e. \<exists>r \<in> set rs. in_range r e) (detailEvents (h2_buf st)))"
proof -
  let ?ds = "filter (\<lambda>e. \<exists>r \<in> set rs. in_range r e) (detailEvents (h2_buf st))"
  let ?bs = "[hs_ReqBodyBuffer s, hs_RespHeaderBuffer s, hs_RespBodyBuffer s]"
  obtain p where p: "hs_ReqHeaderBuffer s = Some p" using assms(4) by blast
  then obtain r fin where c: "collect_parts [0 \<mapsto> h2_buf st] (Some p # ?bs) ([], None, True) = Inr (?ds, Some r, True)" "?ds \<noteq> []"
    "delete_range r (Some p) (h2_buf st) = Inr ((h2_buf st)\<lparr>detailEvents := filter (\<lambda>e. \<not> in_range (fst (hd rs), snd (last rs)) e \<or>
            \<not> fin \<and> dt_DataID0 (snd e) = snd (last rs)) (detailEvents (h2_buf st))\<rparr>)" (is "_ = Inr ?buf")
    using collected_message [OF assms(1,2), of p ?bs rs] parts by auto
  have "hs_ReqBodyBuffer s = None \<or> (\<exists>f t. part_range 0 (the (hs_ReqBodyBuffer s)) f t)"
    using parts_ok_member [OF parts, of "the (hs_ReqBodyBuffer s)"] by (cases "hs_ReqBodyBuffer s") auto
  then obtain d where "FirstDetail [0 \<mapsto> ?buf] (hs_ReqBodyBuffer s) (hd (map snd ?ds)) = Inr d" using FirstDetail_part by blast
  then show ?thesis
    using c p by (intro exI [of _ "projr (http2_log [0 \<mapsto> ?buf] s (map snd ?ds))"] exI [of _ fin])
      (simp add: HandleWholeStream_def http2_log_def)
qed


definition example_part :: "u64 \<Rightarrow> Buffer" where
  "example_part i = (let e = (0, example_chunk i 0 [1]) in NewBuffer\<lparr>dataEvents := [e], originalBuffer := Some 0,
     buf_head := Some \<lparr>element = Some e, bufIndex = 0\<rparr>, endPosition := Some \<lparr>element = Some e, bufIndex = 1\<rparr>\<rparr>)"

definition example_stream :: HTTP2Streaming where
  "example_stream = \<lparr>hs_ReqHeader = ['':method'' \<mapsto> ''post''], hs_RespHeader = Map.empty, hs_ReqHeaderBuffer = Some (example_part 1),
     hs_ReqBodyBuffer = Some (example_part 2), hs_IsInResponse = True, hs_Status = 200, hs_RespHeaderBuffer = Some (example_part 4),
     hs_RespBodyBuffer = None\<rparr>"

definition example_http2 :: "unit http2_state" where
  "example_http2 = \<lparr>h2_buf = NewBuffer\<lparr>detailEvents := map (\<lambda>i. (nat i, example_detail (word_of_int i) ConnectionProtocolHTTP2)) [1, 2, 3, 4, 5]\<rparr>,
     h2_fresh = 10, h2_HpackDecoder = (), h2_Streams = Map.empty, h2_sent = []\<rparr>"

lemma example_part_range: "part_range 0 (example_part i) i i"
  by (simp add: part_range_def example_part_def Let_def Position_DataID_def Position_value_def example_chunk_def DataID_def)


text \<open>
  a request that is open for too long is reported before its response, and its body starts anew. The
  part of its header stays, and the details of that part went with the report: whatever arrives later
  under other data ids, the stream is not reported again, and its response is lost.
\<close>

theorem split_stream_is_not_reported_again:
  assumes "details_ok (detailEvents (h2_buf st))" "originalBuffer (h2_buf st) = None"
    and parts: "parts_ok 0 (detailEvents (h2_buf st)) 0 [Some p, Some b, None, None] [(f, t), (f', t')]" and "t < t'"
    and s: "hs_ReqHeaderBuffer s = Some p" "hs_ReqBodyBuffer s = Some b" "hs_RespHeaderBuffer s = None" "hs_RespBodyBuffer s = None"
    and "HandleWholeStream s st = Inr (st1, reported)"
    and later: "\<forall>e \<in> set (detailEvents (h2_buf st2)) - set (detailEvents (h2_buf st1)). \<not> in_range (f, t) e"
    and s': "hs_ReqHeaderBuffer s' = Some p"
  shows "reported \<and> HandleWholeStream s' st2 = Inr (st2, False)"
proof -
  obtain log fin where r: "HandleWholeStream s st = Inr (st\<lparr>
        h2_buf := (h2_buf st)\<lparr>detailEvents := filter (\<lambda>e. \<not> in_range (f, t') e \<or>
            \<not> fin \<and> dt_DataID0 (snd e) = t') (detailEvents (h2_buf st))\<rparr>,
        h2_sent := h2_sent st @ [log]\<rparr>, True)"
    using reported_stream [OF assms(1,2), of s "[(f, t), (f', t')]"] parts s by auto
  have p: "part_range 0 p f t" "t \<le> t'" using parts \<open>t < t'\<close> by auto
  have "\<not> in_range (f, t) e" if "e \<in> set (detailEvents (h2_buf st1))" for e
    using that r assms(9) order_trans [OF _ p(2)] \<open>t < t'\<close> by (auto simp: in_range_def)
  then have "filter (in_range (f, t)) (detailEvents (h2_buf st2)) = []" using later by (auto simp: filter_empty_conv)
  then have "AppendSocketDetailsFromBuffer [0 \<mapsto> h2_buf st2] (Some p) ([], None, True) = Inr ([], None, False)"
    using BuildDetails_part [OF p(1), of "[0 \<mapsto> h2_buf st2]"] by (simp add: AppendSocketDetailsFromBuffer_def)
  then have "HandleWholeStream s' st2 = Inr (st2, False)"
    using s' by (simp add: HandleWholeStream_def AppendSocketDetailsFromBuffer_def)
  then show ?thesis using r assms(9) by simp
qed

theorem split_stream_is_not_reported_again_witness:
  "let s = example_stream\<lparr>hs_IsInResponse := False, hs_RespHeaderBuffer := None\<rparr> in
   \<exists>st1. HandleWholeStream s example_http2 = Inr (st1, True) \<and> HandleWholeStream example_stream st1 = Inr (st1, False)"
proof -
  let ?s = "example_stream\<lparr>hs_IsInResponse := False, hs_RespHeaderBuffer := None\<rparr>"
  have ok: "details_ok (detailEvents (h2_buf example_http2))" "originalBuffer (h2_buf example_http2) = None"
    "parts_ok 0 (detailEvents (h2_buf example_http2)) 0 [Some (example_part 1), Some (example_part 2), None, None] [(1, 1), (2, 2)]"
    by (simp_all add: example_http2_def details_ok_def example_part_range in_range_def NewBuffer_def word_le_nat_alt word_less_nat_alt)
  then obtain st1 where "HandleWholeStream ?s example_http2 = Inr (st1, True)"
    using reported_stream [OF ok(1,2), of ?s "[(1, 1), (2, 2)]"] by (auto simp: example_stream_def)
  then show ?thesis
    using split_stream_is_not_reported_again [OF ok, of ?s st1 True st1 example_stream] by (simp add: example_stream_def Let_def)
qed

end
