(* ===== verification/Http1_Protocol.thy ===== *)
theory Http1_Protocol
  imports Http2_Protocol
begin

text \<open>
  The HTTP/1.x analyzer (\<^verbatim>\<open>collector/protocols/http1.go\<close>): it pairs the requests and responses that are read
  out of the data buffer of a connection, reports a pair together with its kernel details, and tries a
  pair whose details have not all arrived again in the next rounds. The readers of single messages are
  arguments of the model: every statement holds for any of them. The data buffer of the connection is
  at address 0 of the store of buffers.
\<close>

section \<open>Messages\<close>

record Request =
  rq_Method :: string
  rq_Path :: string
  rq_URLHost :: string
  rq_Header :: "string \<Rightarrow> string"
  rq_HeaderBuffer :: Buffer
  rq_BodyBuffer :: "Buffer option"

record Response =
  rs_StatusCode :: int
  rs_HeaderBuffer :: Buffer
  rs_BodyBuffer :: "Buffer option"

definition socket_data_id :: "SocketDataBuffer option \<Rightarrow> int or_panic" where
  "socket_data_id b = (case b of None \<Rightarrow> Inl NilDereference | Some d \<Rightarrow> Inr (sint (DataID d)))"

definition MinDataID :: "Request \<Rightarrow> int or_panic" where
  "MinDataID r = socket_data_id (FirstSocketBuffer (Some (rq_HeaderBuffer r)))"

definition MaxDataID :: "Request \<Rightarrow> int or_panic" where
  "MaxDataID r = socket_data_id (case rq_BodyBuffer r of Some b \<Rightarrow> LastSocketBuffer (Some b) | None \<Rightarrow> LastSocketBuffer (Some (rq_HeaderBuffer r)))"

datatype MessageType = MessageTypeRequest | MessageTypeResponse | MessageTypeUnknown

definition requestMethods :: "string list" where
  "requestMethods = [''GET'', ''POST'', ''OPTIONS'', ''HEAD'', ''PUT'', ''DELETE'', ''CONNECT'', ''TRACE'', ''PATCH'']"

definition byte_string :: "u8 list \<Rightarrow> string" where
  "byte_string bs = map (\<lambda>b. char_of (unat b)) bs"

text \<open>The first 16 bytes tell the type of the message; an error of \<^verbatim>\<open>Peek\<close> is \<open>None\<close> in the second component.\<close>

definition message_type :: "string \<Rightarrow> MessageType" where
  "message_type headerString =
     (if list_ex (\<lambda>m. take (length m) headerString = m) requestMethods then MessageTypeRequest
      else if take 4 headerString = ''HTTP'' then MessageTypeResponse else MessageTypeUnknown)"

definition IdentityMessageType :: "Buffer \<Rightarrow> (Buffer \<times> MessageType option) or_panic option" where
  "IdentityMessageType buf = Option.bind (Peek buf (replicate 16 0)) (\<lambda>res. Some (
     panic_bind res (\<lambda>(buf', bytes, err). Inr (buf', if err \<noteq> None then None else Some (message_type (byte_string bytes))))))"

section \<open>Pairing requests and responses\<close>

record HTTP1AnalyzeUnFinished =
  uf_request :: Request
  uf_response :: Response
  uf_retryCount :: nat

record HTTP1Metrics =
  h1_halfRequests :: "Request list"
  h1_analyzeUnFinished :: "HTTP1AnalyzeUnFinished list"

definition http1_GenerateConnection :: HTTP1Metrics where
  "http1_GenerateConnection = \<lparr>h1_halfRequests = [], h1_analyzeUnFinished = []\<rparr>"

fun insert_request :: "int \<Rightarrow> Request \<Rightarrow> Request list \<Rightarrow> Request list or_panic" where
  "insert_request i req [] = Inr [req]"
| "insert_request i req (r # rs) = panic_bind (MinDataID r) (\<lambda>j.
     if j > i then Inr (req # r # rs) else panic_bind (insert_request i req rs) (\<lambda>rs'. Inr (r # rs')))"

definition appendRequestToList :: "Request \<Rightarrow> HTTP1Metrics \<Rightarrow> HTTP1Metrics or_panic" where
  "appendRequestToList req m =
     (if h1_halfRequests m = [] then Inr (m\<lparr>h1_halfRequests := [req]\<rparr>)
      else panic_bind (MinDataID (last (h1_halfRequests m))) (\<lambda>back. panic_bind (MinDataID req) (\<lambda>i.
        if back < i then Inr (m\<lparr>h1_halfRequests := h1_halfRequests m @ [req]\<rparr>)
        else panic_bind (insert_request i req (h1_halfRequests m)) (\<lambda>rs. Inr (m\<lparr>h1_halfRequests := rs\<rparr>)))))"

fun find_request :: "u64 \<Rightarrow> u64 \<Rightarrow> Request list \<Rightarrow> (Request option \<times> Request list) or_panic" where
  "find_request currentDataID prevDataID [] = Inr (None, [])"
| "find_request currentDataID prevDataID (r # rs) = panic_bind (MaxDataID r) (\<lambda>i.
     if word_of_int i = prevDataID \<or> word_of_int (i + 1) = currentDataID then Inr (Some r, rs)
     else panic_bind (find_request currentDataID prevDataID rs) (\<lambda>(res, rs'). Inr (res, r # rs')))"

definition findMatchesRequest :: "u64 \<Rightarrow> u64 \<Rightarrow> HTTP1Metrics \<Rightarrow> (Request option \<times> HTTP1Metrics) or_panic" where
  "findMatchesRequest currentDataID prevDataID m =
     panic_bind (find_request currentDataID prevDataID (h1_halfRequests m)) (\<lambda>(res, rs). Inr (res, m\<lparr>h1_halfRequests := rs\<rparr>))"

section \<open>Reporting\<close>

record http1_state =
  s1_buf :: Buffer
  s1_metrics :: HTTP1Metrics
  s1_sent :: "http_log list"

definition http1_log :: "Request \<Rightarrow> Response \<Rightarrow> SocketDetailEvent list \<Rightarrow> http_log" where
  "http1_log request response details = \<lparr>KernelLogs = details, ProtocolLogData =
     \<lparr>ht_StartTime = dt_StartTime (hd details), ht_EndTime = dt_EndTime (last details), ht_Version = HTTP1,
      ht_Method = TransformHTTPMethod (rq_Method request), ht_Path = rq_Path request,
      ht_ReqHeadersBytes = BufferSizeOfZero (Some (rq_HeaderBuffer request)), ht_ReqBodyBytes = BufferSizeOfZero (rq_BodyBuffer request),
      ht_Trace = AnalyzeTraceInfo (rq_Header request),
      ht_Host = (let h = rq_Header request ''Host'' in if h = [] then rq_URLHost request else h),
      ht_StatusCode = sint (word_of_int (rs_StatusCode response) :: u32),
      ht_RespHeadersBytes = BufferSizeOfZero (Some (rs_HeaderBuffer response)), ht_RespBodyBytes = BufferSizeOfZero (rs_BodyBuffer response)\<rparr>\<rparr>"

text \<open>The second component tells whether the pair was reported.\<close>

definition HandleHTTPData :: "Request \<Rightarrow> Response \<Rightarrow> http1_state \<Rightarrow> (http1_state \<times> bool) or_panic" where
  "HandleHTTPData request response st =
     panic_bind (collect_parts [0 \<mapsto> s1_buf st]
         [Some (rq_HeaderBuffer request), rq_BodyBuffer request, Some (rs_HeaderBuffer response), rs_BodyBuffer response] ([], None, True))
       (\<lambda>(details, idRange, allInclude).
         if \<not> allInclude \<or> idRange = None \<or> details = [] then Inr (st, False)
         else panic_bind (delete_range (the idRange) (Some (rq_HeaderBuffer request)) (s1_buf st)) (\<lambda>buf'.
           Inr (st\<lparr>s1_buf := buf', s1_sent := s1_sent st @ [http1_log request response (map snd details)]\<rparr>, True)))"

definition http1AnalyzeMaxRetryCount :: nat where "http1AnalyzeMaxRetryCount = 3"

definition appendAnalyzeUnFinished :: "Request \<Rightarrow> Response \<Rightarrow> HTTP1Metrics \<Rightarrow> HTTP1Metrics" where
  "appendAnalyzeUnFinished request response m = m\<lparr>h1_analyzeUnFinished := h1_analyzeUnFinished m @
     [\<lparr>uf_request = request, uf_response = response, uf_retryCount = 0\<rparr>]\<rparr>"

text \<open>One pass over the unfinished pairs: those that stay.\<close>

fun retry_unfinished :: "HTTP1AnalyzeUnFinished list \<Rightarrow> http1_state \<Rightarrow> (HTTP1AnalyzeUnFinished list \<times> http1_state) or_panic" where
  "retry_unfinished [] st = Inr ([], st)"
| "retry_unfinished (u # us) st = panic_bind (HandleHTTPData (uf_request u) (uf_response u) st) (\<lambda>(st1, reported).
     panic_bind (retry_unfinished us st1) (\<lambda>(us', st2).
       let u' = u\<lparr>uf_retryCount := uf_retryCount u + 1\<rparr> in
       Inr (if \<not> reported \<and> uf_retryCount u' < http1AnalyzeMaxRetryCount then u' # us' else us', st2)))"

definition handleUnFinishedEvents :: "http1_state \<Rightarrow> http1_state or_panic" where
  "handleUnFinishedEvents st = panic_bind (retry_unfinished (h1_analyzeUnFinished (s1_metrics st)) st) (\<lambda>(us, st').
     Inr (st'\<lparr>s1_metrics := (s1_metrics st')\<lparr>h1_analyzeUnFinished := us\<rparr>\<rparr>))"

section \<open>Reading messages\<close>

text \<open>
  \<^verbatim>\<open>ReadRequest\<close> and \<^verbatim>\<open>ReadResponse\<close> move the position in the buffer; they give a message when it was read, and
  whether the current chunk is to be skipped otherwise.
\<close>

record http1_env =
  e1_ReadRequest :: "Buffer \<Rightarrow> (Buffer \<times> Request option) or_panic option"
  e1_ReadResponse :: "Request \<Rightarrow> Buffer \<Rightarrow> (Buffer \<times> Response option) or_panic option"

definition handleRequest :: "http1_env \<Rightarrow> http1_state \<Rightarrow> (http1_state \<times> ParseResult) or_panic option" where
  "handleRequest env st = Option.bind (e1_ReadRequest env (s1_buf st)) (\<lambda>res. Some (panic_bind res (\<lambda>(buf', req).
     let st1 = st\<lparr>s1_buf := buf'\<rparr> in
     case req of None \<Rightarrow> Inr (st1, ParseResultSkipPackage)
     | Some r \<Rightarrow> panic_bind (appendRequestToList r (s1_metrics st1)) (\<lambda>m. Inr (st1\<lparr>s1_metrics := m\<rparr>, ParseResultSuccess)))))"

definition handleResponse :: "http1_env \<Rightarrow> http1_state \<Rightarrow> (http1_state \<times> ParseResult) or_panic option" where
  "handleResponse env st =
     (case panic_bind (Position_value (buf_current (s1_buf st))) (\<lambda>cur. findMatchesRequest (DataID cur) (PrevDataID cur) (s1_metrics st)) of
        Inl e \<Rightarrow> Some (Inl e)
      | Inr (None, m) \<Rightarrow> Some (Inr (st\<lparr>s1_metrics := m\<rparr>, ParseResultSkipPackage))
      | Inr (Some request, m) \<Rightarrow>
          Option.bind (e1_ReadResponse env request (s1_buf st)) (\<lambda>res. Some (panic_bind res (\<lambda>(buf', resp).
            let st1 = st\<lparr>s1_buf := buf', s1_metrics := m\<rparr> in
            case resp of
              None \<Rightarrow> Inr (st1\<lparr>s1_metrics := m\<lparr>h1_halfRequests := request # h1_halfRequests m\<rparr>\<rparr>, ParseResultSkipPackage)
            | Some response \<Rightarrow> panic_bind (HandleHTTPData request response st1) (\<lambda>(st2, reported).
                Inr (if reported then st2 else st2\<lparr>s1_metrics := appendAnalyzeUnFinished request response (s1_metrics st2)\<rparr>, ParseResultSuccess))))))"

definition http1_turn :: "http1_env \<Rightarrow> http1_state \<Rightarrow> (http1_state \<times> bool \<times> bool) or_panic option" where
  "http1_turn env st =
     (case PrepareForReading (s1_buf st) of
        (buf1, False) \<Rightarrow> Some (Inr (st\<lparr>s1_buf := buf1\<rparr>, True, False))
      | (buf1, True) \<Rightarrow>
          Option.bind (IdentityMessageType buf1) (\<lambda>res. case res of
            Inl e \<Rightarrow> Some (Inl e)
          | Inr (buf2, None) \<Rightarrow>
              Some (panic_bind (SkipCurrentElement buf2) (\<lambda>(buf3, fin). Inr (st\<lparr>s1_buf := buf3\<rparr>, fin, False)))
          | Inr (buf2, Some messageType) \<Rightarrow>
              Option.bind
                (case messageType of
                   MessageTypeRequest \<Rightarrow> handleRequest env (st\<lparr>s1_buf := buf2\<rparr>)
                 | MessageTypeResponse \<Rightarrow> handleResponse env (st\<lparr>s1_buf := buf2\<rparr>)
                 | MessageTypeUnknown \<Rightarrow> Some (Inr (st\<lparr>s1_buf := buf2\<rparr>, ParseResultSkipPackage)))
                (\<lambda>r. Some (panic_bind r (\<lambda>(st1, result).
                  panic_bind (case result of ParseResultSuccess \<Rightarrow> RemoveReadElements False (s1_buf st1)
                              | ParseResultSkipPackage \<Rightarrow> SkipCurrentElement (s1_buf st1))
                    (\<lambda>(buf3, fin). Inr (st1\<lparr>s1_buf := buf3\<rparr>, fin, False)))))))"

definition http1_Analyze :: "http1_env \<Rightarrow> http1_state \<Rightarrow> (http1_state \<times> bool) or_panic option" where
  "http1_Analyze env st =
     (case handleUnFinishedEvents st of
        Inl e \<Rightarrow> Some (Inl e)
      | Inr st1 \<Rightarrow> analyze_loop (http1_turn env) (st1\<lparr>s1_buf := ResetForLoopReading (s1_buf st1)\<rparr>))"

section \<open>What is reported\<close>

text \<open>
  A pair whose parts are slices of the connection's buffer is reported with exactly the details of its
  parts, each once and in order.
\<close>

lemma exchange_is_reported:
  assumes "details_ok (detailEvents (s1_buf st))" "originalBuffer (s1_buf st) = None"
    and parts: "parts_ok 0 (detailEvents (s1_buf st)) 0
      [Some (rq_HeaderBuffer q), rq_BodyBuffer q, Some (rs_HeaderBuffer p), rs_BodyBuffer p] rs"
  shows "\<exists>fin. HandleHTTPData q p st = Inr (st\<lparr>
        s1_buf := (s1_buf st)\<lparr>detailEvents := filter (\<lambda>e. \<not> in_range (fst (hd rs), snd (last rs)) e \<or>
            \<not> fin \<and> dt_DataID0 (snd e) = snd (last rs)) (detailEvents (s1_buf st))\<rparr>,
        s1_sent := s1_sent st @ [http1_log q p (map snd (filter (\<lambda>e. \<exists>r \<in> set rs. in_range r e) (detailEvents (s1_buf st))))]\<rparr>, True)"
  using collected_message [OF assms] by (auto simp: HandleHTTPData_def simp del: collect_parts.simps)

text \<open>What a pass over the unfinished pairs does to each of them.\<close>

lemma HandleHTTPData_cases:
  assumes "HandleHTTPData q p st = Inr (st', reported)"
  shows "s1_metrics st' = s1_metrics st \<and>
    (if reported then \<exists>ds. s1_sent st' = s1_sent st @ [http1_log q p ds] else st' = st)"
  using assms by (auto simp: HandleHTTPData_def split: sum.splits if_splits; blast)

definition retried :: "HTTP1AnalyzeUnFinished list \<Rightarrow> bool list \<Rightarrow> HTTP1AnalyzeUnFinished list" where
  "retried us oks = map (\<lambda>(u, ok). u\<lparr>uf_retryCount := uf_retryCount u + 1\<rparr>)
     (filter (\<lambda>(u, ok). \<not> ok \<and> uf_retryCount u + 1 < http1AnalyzeMaxRetryCount) (zip us oks))"

definition logs_for :: "HTTP1AnalyzeUnFinished list \<Rightarrow> bool list \<Rightarrow> http_log list \<Rightarrow> bool" where
  "logs_for us oks logs \<longleftrightarrow> list_all2 (\<lambda>u l. \<exists>ds. l = http1_log (uf_request u) (uf_response u) ds) (map fst (filter snd (zip us oks))) logs"

lemma retry_unfinished_spec:
  "retry_unfinished us st = Inr (us', st') \<Longrightarrow> \<exists>oks logs. length oks = length us \<and> us' = retried us oks \<and>
     s1_sent st' = s1_sent st @ logs \<and> logs_for us oks logs \<and> s1_metrics st' = s1_metrics st"
proof (induction us arbitrary: us' st)
  case (Cons u us)
  obtain st1 ok us1 where 1: "HandleHTTPData (uf_request u) (uf_response u) st = Inr (st1, ok)" "retry_unfinished us st1 = Inr (us1, st')"
    "us' = (if \<not> ok \<and> uf_retryCount u + 1 < http1AnalyzeMaxRetryCount then u\<lparr>uf_retryCount := uf_retryCount u + 1\<rparr> # us1 else us1)"
    using Cons.prems by (auto simp: Let_def split: sum.splits)
  obtain oks logs where 2: "length oks = length us" "us1 = retried us oks" "s1_sent st' = s1_sent st1 @ logs" "logs_for us oks logs" "s1_metrics st' = s1_metrics st1"
    using Cons.IH [OF 1(2)] by blast
  show ?case
  proof (cases ok)
    case True
    then obtain ds where "s1_sent st1 = s1_sent st @ [http1_log (uf_request u) (uf_response u) ds]" "s1_metrics st1 = s1_metrics st"
      using HandleHTTPData_cases [OF 1(1)] by auto
    then show ?thesis using 1(3) 2 True
      by (intro exI [of _ "True # oks"] exI [of _ "http1_log (uf_request u) (uf_response u) ds # logs"]) (auto simp: retried_def logs_for_def)
  next
    case False
    then show ?thesis using HandleHTTPData_cases [OF 1(1)] 1(3) 2
      by (intro exI [of _ "False # oks"] exI [of _ logs]) (auto simp: retried_def logs_for_def)
  qed
qed (simp add: retried_def logs_for_def)

text \<open>
  C21: in a pass over the pairs whose details were incomplete, every pair is tried once and in order. Those
  with all their details are reported, one log each, and leave the list; the others stay with their
  count raised by one until it reaches three and they are given up. No pair stays for a fourth pass.
\<close>

theorem unfinished_pairs_are_settled:
  assumes "handleUnFinishedEvents st = Inr st'"
  shows "\<exists>oks logs. let us = h1_analyzeUnFinished (s1_metrics st) in length oks = length us \<and>
     s1_sent st' = s1_sent st @ logs \<and>
     list_all2 (\<lambda>u l. \<exists>ds. l = http1_log (uf_request u) (uf_response u) ds) (map fst (filter snd (zip us oks))) logs \<and>
     s1_metrics st' = (s1_metrics st)\<lparr>h1_analyzeUnFinished := map (\<lambda>(u, ok). u\<lparr>uf_retryCount := uf_retryCount u + 1\<rparr>)
       (filter (\<lambda>(u, ok). \<not> ok \<and> uf_retryCount u + 1 < 3) (zip us oks))\<rparr> \<and>
     (\<forall>u \<in> set (h1_analyzeUnFinished (s1_metrics st')). 0 < uf_retryCount u \<and> uf_retryCount u < 3)"
proof -
  obtain us' st1 where 1: "retry_unfinished (h1_analyzeUnFinished (s1_metrics st)) st = Inr (us', st1)"
    "st' = st1\<lparr>s1_metrics := (s1_metrics st1)\<lparr>h1_analyzeUnFinished := us'\<rparr>\<rparr>"
    using assms by (auto simp: handleUnFinishedEvents_def split: sum.splits)
  obtain oks logs where "length oks = length (h1_analyzeUnFinished (s1_metrics st))" "us' = retried (h1_analyzeUnFinished (s1_metrics st)) oks"
    "s1_sent st1 = s1_sent st @ logs" "logs_for (h1_analyzeUnFinished (s1_metrics st)) oks logs" "s1_metrics st1 = s1_metrics st"
    using retry_unfinished_spec [OF 1(1)] by blast
  then show ?thesis
    using 1(2) by (intro exI [of _ oks] exI [of _ logs]) (auto simp: Let_def retried_def logs_for_def http1AnalyzeMaxRetryCount_def)
qed

definition example_http1 :: http1_state where
  "example_http1 = (let q = \<lparr>rq_Method = ''GET'', rq_Path = ''/'', rq_URLHost = [], rq_Header = \<lambda>_. [], rq_HeaderBuffer = example_part 1, rq_BodyBuffer = None\<rparr>;
       p = \<lparr>rs_StatusCode = 200, rs_HeaderBuffer = example_part 2, rs_BodyBuffer = None\<rparr> in
     \<lparr>s1_buf = NewBuffer, s1_metrics = appendAnalyzeUnFinished q p http1_GenerateConnection, s1_sent = []\<rparr>)"

theorem unfinished_pairs_are_settled_witness:
  "\<exists>st'. handleUnFinishedEvents example_http1 = Inr st' \<and> (\<forall>u \<in> set (h1_analyzeUnFinished (s1_metrics st')). uf_retryCount u < 3)"
proof -
  have "BuildDetails [0 \<mapsto> NewBuffer] (example_part 1) = Inr []"
    using BuildDetails_part [OF example_part_range, of "[0 \<mapsto> NewBuffer]" NewBuffer 1] by (simp add: NewBuffer_def)
  then have "\<exists>st'. handleUnFinishedEvents example_http1 = Inr st'"
    by (simp add: handleUnFinishedEvents_def example_http1_def appendAnalyzeUnFinished_def http1_GenerateConnection_def
        HandleHTTPData_def AppendSocketDetailsFromBuffer_def Let_def)
  then show ?thesis using unfinished_pairs_are_settled unfolding Let_def by blast
qed

end
