(* ===== verification/Http2_Termination.thy ===== *)
theory Http2_Termination
  imports Http2_Protocol Socket_Buffer_Props
begin

text \<open>
  The HTTP/2 analyzer always returns: whatever bytes, frames and headers it reads, every turn of its
  loop removes chunks, or moves the head of the buffer on, or ends the loop.
\<close>

section \<open>Moving forward in a buffer\<close>

definition left_in :: "SocketDataBuffer element \<Rightarrow> nat \<Rightarrow> nat" where
  "left_in x i = nat (BufferLen (snd x) - int i)"

text \<open>Position \<open>c'\<close> is at or behind \<open>c\<close> in the list, and strictly so when \<open>strict\<close> holds.\<close>

definition forward :: "SocketDataBuffer golist \<Rightarrow> bool \<Rightarrow> Position \<Rightarrow> Position \<Rightarrow> bool" where
  "forward l strict c c' \<longleftrightarrow> (\<exists>x y pre. element c = Some x \<and> element c' = Some y \<and> y \<in> set l \<and>
     elem_chain l (Some x) = pre @ elem_chain l (Some y) \<and>
     (pre = [] \<longrightarrow> left_in y (bufIndex c') \<le> left_in x (bufIndex c) \<and> (strict \<longrightarrow> left_in y (bufIndex c') < left_in x (bufIndex c))))"

lemma forward_refl: "element c = Some x \<Longrightarrow> x \<in> set l \<Longrightarrow> forward l False c c"
  by (auto simp: forward_def)

lemma forward_weaken: "forward l s c c' \<Longrightarrow> forward l False c c'"
  unfolding forward_def by blast

lemma forward_trans:
  assumes "forward l s c c'" "forward l s' c' c''"
  shows "forward l (s \<or> s') c c''"
proof -
  obtain x y pre where 1: "element c = Some x" "element c' = Some y" "elem_chain l (Some x) = pre @ elem_chain l (Some y)"
    "pre = [] \<longrightarrow> left_in y (bufIndex c') \<le> left_in x (bufIndex c) \<and> (s \<longrightarrow> left_in y (bufIndex c') < left_in x (bufIndex c))"
    using assms(1) unfolding forward_def by blast
  obtain z pre' where 2: "element c'' = Some z" "z \<in> set l" "elem_chain l (Some y) = pre' @ elem_chain l (Some z)"
    "pre' = [] \<longrightarrow> left_in z (bufIndex c'') \<le> left_in y (bufIndex c') \<and> (s' \<longrightarrow> left_in z (bufIndex c'') < left_in y (bufIndex c'))"
    using assms(2) 1(2) unfolding forward_def by auto
  show ?thesis
    unfolding forward_def using 1 2 by (intro exI [of _ x] exI [of _ z] exI [of _ "pre @ pre'"]) auto
qed

definition moved :: "bool \<Rightarrow> Buffer \<Rightarrow> Buffer \<Rightarrow> bool" where
  "moved strict r r' \<longleftrightarrow> dataEvents r' = dataEvents r \<and> buf_head r' = buf_head r \<and> shouldResetPosition r' = shouldResetPosition r \<and>
     (\<exists>c c'. buf_current r = Some c \<and> buf_current r' = Some c' \<and> forward (dataEvents r) strict c c')"

lemma moved_weaken: "moved s r r' \<Longrightarrow> moved False r r'"
  unfolding moved_def using forward_weaken by blast

lemma moved_any: "moved True r r' \<Longrightarrow> moved s r r'"
  by (cases s) (auto intro: moved_weaken)

lemma moved_trans: "moved s r r' \<Longrightarrow> moved s' r' r'' \<Longrightarrow> moved (s \<or> s') r r''"
  unfolding moved_def using forward_trans by fastforce

definition reading_at :: "Buffer \<Rightarrow> bool" where
  "reading_at r \<longleftrightarrow> distinct (list_ids (dataEvents r)) \<and> (\<exists>c x. buf_current r = Some c \<and> element c = Some x \<and> x \<in> set (dataEvents r))"

lemma moved_reading: "moved s r r' \<Longrightarrow> reading_at r \<Longrightarrow> reading_at r'"
  unfolding moved_def reading_at_def forward_def by auto

lemma moved_refl: "reading_at r \<Longrightarrow> moved False r r"
  unfolding moved_def reading_at_def using forward_refl by blast

lemma Read_moves:
  assumes "reading_at r" "Read r n = Inr (r', res)" "0 < n"
  shows "case res of Inl _ \<Rightarrow> r' = r | Inr _ \<Rightarrow> moved True r r'"
proof -
  obtain c x where c: "buf_current r = Some c" "element c = Some x" "x \<in> set (dataEvents r)" and d: "distinct (list_ids (dataEvents r))"
    using assms(1) by (auto simp: reading_at_def)
  obtain es where es: "elem_chain (dataEvents r) (Some x) = x # es" "elem_next (dataEvents r) (fst x) = list_front es"
    "set es \<subseteq> set (dataEvents r)" "es \<noteq> [] \<longrightarrow> elem_chain (dataEvents r) (Some (hd es)) = es"
    using elem_chain_cases [OF d, of x] c(3) by blast
  have "moved True r (r\<lparr>buf_current := Some (c\<lparr>bufIndex := bufIndex c + k\<rparr>)\<rparr>)" if "0 < k" "BufferLen (snd x) - int (bufIndex c) > 0" for k
    using that c by (auto simp: moved_def forward_def left_in_def intro!: exI [of _ x] exI [of _ "[]"] simp del: split_paired_Ex)
  moreover have "moved True r (r\<lparr>buf_current := Some \<lparr>element = Some y, bufIndex = k\<rparr>\<rparr>)" if "list_front es = Some y" for y k
    using that c es by (cases es) (auto simp: moved_def forward_def intro!: exI [of _ x] exI [of _ y] exI [of _ "[x]"] simp del: split_paired_Ex)
  ultimately show ?thesis
    using assms(2,3) c(1,2) es(2)
    by (auto simp: Read_def ReadFromCurrent_def read0_def nextElement_def Let_def split: if_splits sum.splits option.splits)
qed

definition rank :: "Buffer \<Rightarrow> nat \<times> nat" where
  "rank r = (case buf_current r of None \<Rightarrow> (0, 0) | Some c \<Rightarrow>
     (length (elem_chain (dataEvents r) (element c)), case element c of None \<Rightarrow> 0 | Some x \<Rightarrow> left_in x (bufIndex c)))"

lemma moved_rank: "moved True r r' \<Longrightarrow> rank r' < rank r"
  by (auto simp: moved_def forward_def rank_def less_prod_def)

lemma Peek_loop_moves:
  assumes "reading_at r"
  shows "\<exists>res. Peek_loop Read r p i = Some res \<and> (\<forall>r' q err. res = Inr (r', q, err) \<longrightarrow> moved (i < length p \<and> err = None) r r')"
  using assms
proof (induction "rank r" arbitrary: r p i rule: less_induct)
  case less
  show ?case
  proof (cases "i < length p")
    case False
    then show ?thesis using moved_refl [OF less.prems] by (subst Peek_loop.simps) auto
  next
    case True
    show ?thesis
    proof (cases "Read r (length p - i)")
      case (Inl e)
      then show ?thesis using True by (subst Peek_loop.simps) auto
    next
      case (Inr a)
      obtain r1 res where a: "Read r (length p - i) = Inr (r1, res)" using Inr by (cases a) auto
      note m = Read_moves [OF less.prems a]
      show ?thesis
      proof (cases res)
        case (Inl e)
        then show ?thesis using True a m moved_refl [OF less.prems] by (subst Peek_loop.simps) auto
      next
        case (Inr bytes)
        let ?p = "take i p @ go_copy (drop i p) bytes"
        have mv: "moved True r r1" using m Inr True by simp
        obtain res' where "Peek_loop Read r1 ?p (i + length bytes) = Some res'"
          "\<forall>r' q err. res' = Inr (r', q, err) \<longrightarrow> moved (i + length bytes < length ?p \<and> err = None) r1 r'"
          using less.hyps [OF moved_rank [OF mv] moved_reading [OF mv less.prems]] by blast
        then show ?thesis
          using True a Inr moved_trans [OF mv] by (subst Peek_loop.simps) (auto intro: moved_any)
      qed
    qed
  qed
qed

lemma ReadUntilBufferFull_loop_moves:
  assumes "reading_at r"
  shows "\<exists>res. ReadUntilBufferFull_loop Read r p n = Some res \<and> (\<forall>r' q err. res = Inr (r', q, err) \<longrightarrow> moved False r r')"
  using assms
proof (induction "rank r" arbitrary: r p n rule: less_induct)
  case less
  show ?case
  proof (cases "0 < n")
    case False
    then show ?thesis using moved_refl [OF less.prems] by (subst ReadUntilBufferFull_loop.simps) auto
  next
    case True
    show ?thesis
    proof (cases "Read r n")
      case (Inl e)
      then show ?thesis using True by (subst ReadUntilBufferFull_loop.simps) auto
    next
      case (Inr a)
      obtain r1 res where a: "Read r n = Inr (r1, res)" using Inr by (cases a) auto
      note m = Read_moves [OF less.prems a True]
      show ?thesis
      proof (cases res)
        case (Inl e)
        then show ?thesis using True a m moved_refl [OF less.prems] by (subst ReadUntilBufferFull_loop.simps) auto
      next
        case (Inr bytes)
        have mv: "moved True r r1" using m Inr by simp
        note ih = less.hyps [OF moved_rank [OF mv] moved_reading [OF mv less.prems]]
        have "\<forall>q k. \<exists>res. ReadUntilBufferFull_loop Read r1 q k = Some res \<and> (\<forall>r' q err. res = Inr (r', q, err) \<longrightarrow> moved False r r')"
          using ih moved_trans [OF mv] moved_any by (metis (no_types, lifting))
        then show ?thesis using True a Inr by (subst ReadUntilBufferFull_loop.simps) auto
      qed
    qed
  qed
qed

section \<open>A turn of the loop\<close>

lemma moved_details [simp]: "moved s r (r'\<lparr>detailEvents := d\<rparr>) = moved s r r'"
  by (simp add: moved_def)

lemma DeleteDetails_frame:
  assumes "DeleteDetails i a store = Some res"
  shows "\<forall>store'. res = Inr store' \<longrightarrow> (\<forall>k b. store k = Some b \<longrightarrow> (\<exists>d. store' k = Some (b\<lparr>detailEvents := d\<rparr>)))"
proof (rule DeleteDetails.raw_induct [OF _ assms, where P = "\<lambda>i a store res.
    \<forall>store'. res = Inr store' \<longrightarrow> (\<forall>k b. store k = Some b \<longrightarrow> (\<exists>d. store' k = Some (b\<lparr>detailEvents := d\<rparr>)))"], goal_cases)
  case (1 del i a store res)
  show ?case
  proof (intro allI impI)
    fix store' k b
    assume r: "res = Inr store'" and k: "store k = Some b"
    obtain ba where ba: "store a = Some ba" using 1(2) r by (auto split: option.splits)
    have "\<exists>store1. (\<exists>d. store1 k = Some (b\<lparr>detailEvents := d\<rparr>)) \<and>
      (case store1 a of None \<Rightarrow> Inl NilDereference | Some b' \<Rightarrow> Inr (store1(a \<mapsto> b'\<lparr>detailEvents := delete_details i (detailEvents b')\<rparr>))) = Inr store'"
    proof (cases "originalBuffer ba")
      case None
      have "\<exists>d. store k = Some (b\<lparr>detailEvents := d\<rparr>)" using k by (intro exI [of _ "detailEvents b"]) simp
      then show ?thesis using 1(2) r ba None by (intro exI [of _ store]) simp
    next
      case (Some orig)
      then obtain res1 where res1: "del i orig store = Some res1" "panic_bind res1 (\<lambda>store'.
              case store' a of None \<Rightarrow> Inl NilDereference
              | Some b' \<Rightarrow> Inr (store'(a \<mapsto> b'\<lparr>detailEvents := delete_details i (detailEvents b')\<rparr>))) = Inr store'"
        using 1(2) r ba by (cases "del i orig store") auto
      then obtain store1 where "res1 = Inr store1" by (cases res1) auto
      then show ?thesis using 1(1) [OF res1(1)] k res1(2) by (intro exI [of _ store1]) simp
    qed
    then show "\<exists>d. store' k = Some (b\<lparr>detailEvents := d\<rparr>)" by (auto split: option.splits if_splits; blast)
  qed
qed

lemma HandleWholeStream_frame:
  assumes "HandleWholeStream s st = Inr (st', reported)"
  shows "\<exists>d. h2_buf st' = (h2_buf st)\<lparr>detailEvents := d\<rparr>"
proof -
  have "\<exists>d. buf' = buf\<lparr>detailEvents := d\<rparr>" if del: "delete_range i part buf = Inr buf'" for i part buf buf'
  proof -
    obtain p res where eq: "DeleteDetails i 1 [0 \<mapsto> buf, 1 \<mapsto> p] = Some res" "panic_bind res (\<lambda>store. Inr (the (store 0))) = Inr buf'"
      using del by (auto simp: delete_range_def simp del: One_nat_def split: option.splits)
    then obtain store' where "res = Inr store'" "buf' = the (store' 0)" by (cases res) auto
    then show ?thesis using DeleteDetails_frame [OF eq(1), rule_format, of store' 0 buf] by auto
  qed
  note del = this
  obtain details idRange allInclude where c: "collect_parts [0 \<mapsto> h2_buf st]
      [hs_ReqHeaderBuffer s, hs_ReqBodyBuffer s, hs_RespHeaderBuffer s, hs_RespBodyBuffer s] ([], None, True) = Inr (details, idRange, allInclude)"
    using assms unfolding HandleWholeStream_def by (auto split: sum.splits simp del: collect_parts.simps)
  show ?thesis
  proof (cases "\<not> allInclude \<or> idRange = None \<or> details = []")
    case True
    then have "st' = st" using assms c by (auto simp: HandleWholeStream_def simp del: collect_parts.simps)
    then show ?thesis by (intro exI [of _ "detailEvents (h2_buf st)"]) simp
  next
    case False
    then obtain buf' where "delete_range (the idRange) (hs_ReqHeaderBuffer s) (h2_buf st) = Inr buf'" "h2_buf st' = buf'"
      using assms c by (auto simp: HandleWholeStream_def simp del: collect_parts.simps split: sum.splits)
    then show ?thesis using del by blast
  qed
qed

lemma ReadUntilBufferFull_moves:
  assumes "reading_at r"
  obtains e where "ReadUntilBufferFull r p = Some (Inl e)"
  | r' q err where "ReadUntilBufferFull r p = Some (Inr (r', q, err))" "moved False r r'"
proof -
  obtain res where res: "ReadUntilBufferFull r p = Some res" "\<forall>r' q err. res = Inr (r', q, err) \<longrightarrow> moved False r r'"
    using ReadUntilBufferFull_loop_moves [OF assms] unfolding ReadUntilBufferFull_def by blast
  show thesis
  proof (cases res)
    case (Inl e)
    then show ?thesis using that(1) res(1) by simp
  next
    case (Inr x)
    then show ?thesis using that(2) res by (cases x) auto
  qed
qed

text \<open>Slices are built beside the buffer.\<close>

lemma slice_frame:
  "current_slice startPos st = Inr (b, st') \<Longrightarrow> h2_buf st' = h2_buf st"
  "combined_slice startPos part st = Inr (c, st') \<Longrightarrow> h2_buf st' = h2_buf st"
  by (auto simp: current_slice_def combined_slice_def split: option.splits sum.splits)

definition same_data :: "Buffer \<Rightarrow> Buffer \<Rightarrow> bool" where
  "same_data r r' \<longleftrightarrow> dataEvents r' = dataEvents r \<and> buf_head r' = buf_head r \<and> buf_current r' = buf_current r \<and>
     shouldResetPosition r' = shouldResetPosition r"

lemma same_data_refl [simp]: "same_data r r"
  by (simp add: same_data_def)

lemma moved_same: "moved s r r' \<Longrightarrow> same_data r' r'' \<Longrightarrow> moved s r r''"
  by (simp add: moved_def same_data_def)

lemma HandleWholeStream_same: "HandleWholeStream s st = Inr (st', reported) \<Longrightarrow> same_data (h2_buf st) (h2_buf st')"
  by (drule HandleWholeStream_frame) (auto simp: same_data_def)

lemma header_frame_same:
  "header_frame fh startPos hdrs st = Inr (st', result, b) \<Longrightarrow> same_data (h2_buf st) (h2_buf st')"
  by (auto simp: header_frame_def Let_def put_stream_def split: option.splits sum.splits if_splits
        dest!: slice_frame HandleWholeStream_same)

lemma validate_same:
  "validateIsStreamOpenTooLong env s st = Inr (s', st') \<Longrightarrow> same_data (h2_buf st) (h2_buf st')"
  by (auto simp: validateIsStreamOpenTooLong_def split: option.splits sum.splits if_splits dest!: HandleWholeStream_same)

lemma frame_turn_moves:
  assumes "reading_at (h2_buf st)"
  shows "\<exists>res. frame_turn env fh startPos st = Some res \<and>
    (\<forall>st' result b. res = Inr (st', result, b) \<longrightarrow> moved False (h2_buf st) (h2_buf st'))"
proof (cases rule: ReadUntilBufferFull_moves [OF assms, of "replicate (fh_Length fh) 0"])
  case (1 e)
  then show ?thesis using moved_refl [OF assms]
    by (auto simp: frame_turn_def HandleHeader_def HandleData_def split: FrameType.splits option.splits)
next
  case (2 r' q err)
  then show ?thesis using moved_refl [OF assms]
    by (auto simp: frame_turn_def HandleHeader_def HandleData_def put_stream_def Let_def split: FrameType.splits option.splits prod.splits sum.splits if_splits
        dest!: header_frame_same validate_same slice_frame intro: moved_same)
qed

section \<open>The loop\<close>

definition head_in :: "Buffer \<Rightarrow> bool" where
  "head_in r \<longleftrightarrow> distinct (list_ids (dataEvents r)) \<and>
     (\<forall>h x. buf_head r = Some h \<longrightarrow> element h = Some x \<longrightarrow> x \<in> set (dataEvents r))"

text \<open>What is left for the next turn: the chunks, and the rank of the position where reading starts.\<close>

definition work :: "Buffer \<Rightarrow> nat \<times> nat \<times> nat" where
  "work r = (length (dataEvents r), rank (fst (PrepareForReading r)))"

lemma Prepare_reads:
  assumes "head_in r" "PrepareForReading r = (r1, True)"
  shows "reading_at r1" "buf_current r1 = buf_head r1" "\<not> shouldResetPosition r1" "dataEvents r1 = dataEvents r"
    "work r = (length (dataEvents r1), rank r1)"
proof -
  have "\<exists>x. list_front (dataEvents r) = Some x \<and> x \<in> set (dataEvents r)" if "dataEvents r \<noteq> []"
    using that by (cases "dataEvents r") auto
  then show "reading_at r1"
    using assms by (auto simp: PrepareForReading_def Prepare_positions_def ResetForLoopReading_def reading_at_def head_in_def Let_def
        split: if_splits bind_splits)
  show "buf_current r1 = buf_head r1" "\<not> shouldResetPosition r1" "dataEvents r1 = dataEvents r"
    using assms(2) by (auto simp: PrepareForReading_def Prepare_positions_def ResetForLoopReading_def Let_def split: if_splits)
  then show "work r = (length (dataEvents r1), rank r1)" using assms(2) by (simp add: work_def)
qed

lemma work_at:
  assumes "buf_head r = Some \<lparr>element = Some x, bufIndex = i\<rparr>" "\<not> shouldResetPosition r" "x \<in> set (dataEvents r)"
  shows "work r = (length (dataEvents r), length (elem_chain (dataEvents r) (Some x)), left_in x i)"
proof -
  have "PrepareForReading r = (r\<lparr>buf_current := buf_head r\<rparr>, True)"
    using assms by (auto simp: PrepareForReading_def Prepare_positions_def)
  then show ?thesis using assms(1) by (simp add: work_def rank_def)
qed

lemma moved_split:
  assumes "moved s r1 r" "buf_current r1 = buf_head r1" "reading_at r1"
  obtains x y h c pre mid post where "buf_head r = Some h" "element h = Some x" "buf_current r = Some c" "element c = Some y"
    "dataEvents r = pre @ mid @ y # post" "x = hd (mid @ [y])" "distinct (list_ids (dataEvents r))"
    "rank r1 = (length (mid @ y # post), left_in x (bufIndex h))" "mid = [] \<longrightarrow> s \<longrightarrow> left_in y (bufIndex c) < left_in x (bufIndex h)"
proof -
  obtain h c where hc: "buf_head r1 = Some h" "buf_current r = Some c" "forward (dataEvents r1) s h c" "dataEvents r = dataEvents r1" "buf_head r = Some h"
    using assms(1,2) by (auto simp: moved_def)
  obtain x y mid where xy: "element h = Some x" "element c = Some y" "y \<in> set (dataEvents r)"
    "elem_chain (dataEvents r) (Some x) = mid @ elem_chain (dataEvents r) (Some y)"
    "mid = [] \<longrightarrow> s \<longrightarrow> left_in y (bufIndex c) < left_in x (bufIndex h)"
    using hc(3,4) unfolding forward_def by auto
  have x: "x \<in> set (dataEvents r)" and d: "distinct (list_ids (dataEvents r))" using assms(2,3) hc xy by (auto simp: reading_at_def)
  obtain pre es where 1: "dataEvents r = pre @ x # es" "elem_chain (dataEvents r) (Some x) = x # es" by (rule elem_chain_split [OF d x])
  obtain pre' post where 2: "elem_chain (dataEvents r) (Some y) = y # post" by (rule elem_chain_split [OF d xy(3)])
  have e: "x # es = mid @ y # post" using xy(4) 1(2) 2 by simp
  then have hd: "x = hd (mid @ [y])" by (cases mid) auto
  have l: "dataEvents r = pre @ mid @ y # post" using 1(1) e by simp
  have "rank r1 = (length (x # es), left_in x (bufIndex h))" using assms(2) hc xy(1) 1(2) by (simp add: rank_def)
  then have "rank r1 = (length (mid @ y # post), left_in x (bufIndex h))" using e by (metis (no_types))
  then show thesis by (rule that [OF hc(5) xy(1) hc(2) xy(2) l hd d _ xy(5)])
qed

lemma Skip_works:
  assumes "moved s r1 r" "buf_current r1 = buf_head r1" "reading_at r1" "\<not> shouldResetPosition r1" "SkipCurrentElement r = Inr (r3, False)"
  shows "head_in r3" "work r3 < (length (dataEvents r1), rank r1)"
proof -
  obtain x y h c pre mid post where c: "buf_head r = Some h" "element h = Some x" "buf_current r = Some c" "element c = Some y"
    "dataEvents r = pre @ mid @ y # post" "distinct (list_ids (dataEvents r))" "rank r1 = (length (mid @ y # post), left_in x (bufIndex h))"
    by (rule moved_split [OF assms(1-3)])
  have l: "dataEvents r1 = dataEvents r" "\<not> shouldResetPosition r" using assms(1,4) by (auto simp: moved_def)
  have "elem_next (dataEvents r) (fst y) = list_front post" using elem_next_at [of "pre @ mid" y post] c(5,6) by simp
  then have "nextElement r (element c) = list_front post" using c(4) by (simp add: nextElement_def)
  then obtain z post' where z: "post = z # post'" "r3 = r\<lparr>buf_head := Some (h\<lparr>element := Some z\<rparr>), buf_current := Some (c\<lparr>bufIndex := 0\<rparr>)\<rparr>"
    using assms(5) c(1,3) by (cases post) (auto simp: SkipCurrentElement_def Let_def)
  show "head_in r3" using z c(5,6) by (auto simp: head_in_def)
  have "elem_chain (dataEvents r) (Some z) = z # post'"
    using list_from_at [of "pre @ mid @ [y]" z post'] c(5,6) z(1) by (simp add: elem_chain_def)
  then have "work r3 = (length (dataEvents r), length (z # post'), left_in z (bufIndex h))"
    using work_at [of r3 z "bufIndex h"] l z c(5) by (cases h) simp
  then show "work r3 < (length (dataEvents r1), rank r1)"
    using c(7) z(1) l by (simp add: less_prod_def)
qed

lemma Remove_works:
  assumes "moved True r1 r" "buf_current r1 = buf_head r1" "reading_at r1" "\<not> shouldResetPosition r1" "RemoveReadElements False r = Inr (r3, False)"
  shows "head_in r3 \<and> work r3 < (length (dataEvents r1), rank r1)"
proof -
  obtain x y h c pre mid post where c: "buf_head r = Some h" "element h = Some x" "buf_current r = Some c" "element c = Some y"
    "dataEvents r = pre @ mid @ y # post" "x = hd (mid @ [y])" "distinct (list_ids (dataEvents r))" "rank r1 = (length (mid @ y # post), left_in x (bufIndex h))"
    and m: "mid = [] \<longrightarrow> True \<longrightarrow> left_in y (bufIndex c) < left_in x (bufIndex h)"
    by (rule moved_split [OF assms(1-3)])
  have l: "dataEvents r1 = dataEvents r" "\<not> shouldResetPosition r" using assms(1,4) by (auto simp: moved_def)
  have d: "distinct (list_ids (pre @ mid @ y # post))" "distinct (list_ids (pre @ y # post))" using c(5,7) by auto
  have ru: "remove_until (dataEvents r) (element h) (map_option fst (element c)) True = (pre @ y # post, Some y, mid = [])"
    using remove_until_before [OF d(1), of True] c by simp
  show ?thesis
  proof (cases "BufferLen (snd y) = int (bufIndex c)")
    case True
    have "list_remove (fst y) (pre @ y # post) = pre @ post"
      using d(2) list_remove_notin [of "fst y" pre] list_remove_notin [of "fst y" post] by (simp add: list_remove_def)
    moreover have "elem_next (pre @ y # post) (fst y) = list_front post" using elem_next_at [OF d(2)] by simp
    ultimately have "r3 = r\<lparr>dataEvents := pre @ post, buf_head := Some \<lparr>element = list_front post, bufIndex = 0\<rparr>\<rparr>"
      using assms(5) c(1,2,3,4) ru True by (simp add: RemoveReadElements_def removeElement0_def Let_def)
    then show ?thesis using d(2) l c(5) by (cases post) (auto simp: head_in_def work_def less_prod_def)
  next
    case False
    then have r3: "dataEvents r3 = pre @ y # post" "buf_head r3 = Some \<lparr>element = Some y, bufIndex = bufIndex c\<rparr>"
      "shouldResetPosition r3 = shouldResetPosition r"
      using assms(5) c(1-6) ru by (cases "mid = []"; auto simp: RemoveReadElements_def Let_def)+
    have "elem_chain (pre @ y # post) (Some y) = y # post" using list_from_at [of pre y post] d(2) by (simp add: elem_chain_def)
    then have "work r3 = (length (pre @ y # post), length (y # post), left_in y (bufIndex c))"
      using work_at [of r3 y "bufIndex c"] r3 l(2) by simp
    then show ?thesis using r3 d(2) l c(5,8) m by (cases "mid = []") (auto simp: head_in_def less_prod_def)
  qed
qed

lemma analyze_turn_works:
  assumes "head_in (h2_buf st)"
  shows "\<exists>res. analyze_turn env st = Some res \<and>
    (\<forall>st' b. res = Inr (st', False, b) \<longrightarrow> head_in (h2_buf st') \<and> work (h2_buf st') < work (h2_buf st))"
proof (cases "PrepareForReading (h2_buf st)")
  case (Pair r1 more)
  show ?thesis
  proof (cases more)
    case False
    then show ?thesis using Pair by (simp add: analyze_turn_def)
  next
    case True
    then have P: "PrepareForReading (h2_buf st) = (r1, True)" using Pair by simp
    note p = Prepare_reads [OF assms P]
    obtain c where c: "buf_current r1 = Some c" using p(1) by (auto simp: reading_at_def)
    note skip = Skip_works [OF _ p(2,1,3)] and remove = Remove_works [OF _ p(2,1,3)]
    obtain res where res: "Peek_loop Read r1 (replicate 9 0) 0 = Some res"
      and mv: "\<And>r q err. res = Inr (r, q, err) \<Longrightarrow> moved (err = None) r1 r"
      using Peek_loop_moves [OF p(1), of "replicate 9 0" 0] by auto
    show ?thesis
    proof (cases res)
      case (Inl e)
      then show ?thesis using P c res by (simp add: analyze_turn_def ReadFrameHeader_def)
    next
      case (Inr x)
      obtain r q err where x: "res = Inr (r, q, err)" using Inr by (cases x) auto
      note m = mv [OF x]
      show ?thesis
      proof (cases err)
        case (Some e)
        then show ?thesis using P c res x skip [OF m] p(5)
          by (auto simp: analyze_turn_def ReadFrameHeader_def split: sum.splits)
      next
        case None
        let ?fh = "e2_frameHeader env q"
        have m: "moved True r1 r" using m None by simp
        obtain res' where res': "frame_turn env ?fh c (st\<lparr>h2_buf := r\<rparr>) = Some res'"
          and m': "\<And>st1 result b. res' = Inr (st1, result, b) \<Longrightarrow> moved False r (h2_buf st1)"
          using frame_turn_moves [of "st\<lparr>h2_buf := r\<rparr>" env ?fh c] moved_reading [OF m p(1)] by auto
        show ?thesis
        proof (cases res')
          case (Inl e)
          then show ?thesis using P c res x None res' by (simp add: analyze_turn_def ReadFrameHeader_def)
        next
          case (Inr y)
          obtain st1 result b where y: "res' = Inr (st1, result, b)" using Inr by (cases y) auto
          have m1: "moved True r1 (h2_buf st1)" using moved_trans [OF m m' [OF y]] by simp
          show ?thesis using P c res x None res' y skip [OF m1] remove [OF m1] p(5)
            by (cases result) (auto simp: analyze_turn_def ReadFrameHeader_def split: sum.splits)
        qed
      qed
    qed
  qed
qed

lemma analyze_loop_returns:
  assumes "\<And>st. ok st \<Longrightarrow> \<exists>res. turn st = Some res \<and> (\<forall>st' b. res = Inr (st', False, b) \<longrightarrow> ok st' \<and> w st' < (w st :: nat \<times> nat \<times> nat))"
    and "ok st"
  shows "\<exists>res. analyze_loop turn st = Some res"
  using assms(2)
proof (induction "w st" arbitrary: st rule: less_induct)
  case less
  obtain res where res: "turn st = Some res" "\<forall>st' b. res = Inr (st', False, b) \<longrightarrow> ok st' \<and> w st' < w st"
    using assms(1) [OF less.prems] by blast
  show ?case
    using res less.hyps by (subst analyze_loop.simps) (auto split: sum.splits prod.splits if_splits)
qed

text \<open>
  C20: the HTTP/2 analysis of a connection always returns, whatever data has arrived and whatever its
  frames say: the loop cannot run forever on data that is malformed, incomplete or cut into chunks in
  any way, nor on frames that it skips.
\<close>

theorem http2_Analyze_returns:
  assumes "distinct (list_ids (dataEvents (h2_buf st)))"
  shows "\<exists>res. http2_Analyze env st = Some res"
proof -
  have "head_in (h2_buf (st\<lparr>h2_buf := ResetForLoopReading (h2_buf st)\<rparr>))" using assms by (simp add: head_in_def ResetForLoopReading_def)
  then show ?thesis
    unfolding http2_Analyze_def
    by (intro analyze_loop_returns [where ok = "\<lambda>st. head_in (h2_buf st)" and w = "\<lambda>st. work (h2_buf st)"] analyze_turn_works)
qed

definition example_frames :: "unit http2_env" where
  "example_frames = \<lparr>e2_frameHeader = \<lambda>bs. \<lparr>fh_Type = FrameOther, fh_EndStream = False, fh_Length = unat (bs ! 2), fh_StreamID = 1\<rparr>,
     e2_decode = \<lambda>d bs. (None, d), e2_now = 0, e2_boot = 0\<rparr>"

theorem http2_Analyze_returns_witness:
  "\<exists>res. http2_Analyze example_frames (example_http2\<lparr>h2_buf := NewBuffer\<lparr>dataEvents :=
     [(0, example_chunk 1 0 [0, 0, 2, 4, 0, 0, 0, 0]), (1, example_chunk 1 1 [1, 7])]\<rparr>\<rparr>) = Some res"
  by (rule http2_Analyze_returns) simp

end
