(* ===== verification/Protocol_Partition.thy ===== *)
theory Protocol_Partition
  imports Connection_Manager Socket_Buffer_Order
begin

text \<open>
  A partition of the protocol analyzer (\<^verbatim>\<open>collector/protocols/queue.go\<close>, \<^verbatim>\<open>connection.go\<close>): it sorts the kernel
  events of its connections into one buffer per connection and protocol, hands the buffers to the
  protocol analyzers in intervals, and gives up on a connection whose protocol breaks. The protocol
  analyzers are arguments: every statement holds for any of them.
\<close>

section \<open>State\<close>

text \<open>
  The map of the analyzers of a connection is left out: it always has what the protocol manager
  gives for the protocol, and the manager never changes.
\<close>

record 'm PartitionConnection =
  pc_connectionID :: u64
  pc_randomID :: u64
  pc_dataBuffers :: "ConnectionProtocol \<rightharpoonup> Buffer"
  pc_protocol :: "ConnectionProtocol \<rightharpoonup> u64"
  pc_protocolMetrics :: "ConnectionProtocol \<rightharpoonup> 'm"
  pc_closed :: bool
  pc_skipAllDataAnalyze :: bool
  pc_lastCheckCloseTime :: int

text \<open>
  The interface \<^verbatim>\<open>Protocol\<close>. \<open>pr_Analyze\<close> gives the connection afterwards, the protocol logs that were
  sent, and whether the protocol broke; \<open>None\<close> is an analysis that never returns.
\<close>

type_synonym 'a outcome = "'a or_panic option"

definition outcome_bind :: "'a outcome \<Rightarrow> ('a \<Rightarrow> 'b outcome) \<Rightarrow> 'b outcome" where
  "outcome_bind m f = (case m of None \<Rightarrow> None | Some (Inl e) \<Rightarrow> Some (Inl e) | Some (Inr x) \<Rightarrow> f x)"

lemma outcome_bind_simps [simp]:
  "outcome_bind None f = None" "outcome_bind (Some (Inl e)) f = Some (Inl e)" "outcome_bind (Some (Inr x)) f = f x"
  by (simp_all add: outcome_bind_def)

record ('m, 'p) ProtocolAnalyzer =
  pr_GenerateConnection :: "u64 \<Rightarrow> u64 \<Rightarrow> 'm"
  pr_Analyze :: "'m PartitionConnection \<Rightarrow> ('m PartitionConnection \<times> 'p ProtocolEventData list \<times> bool) outcome"

type_synonym ('m, 'p) ProtocolManager = "ConnectionProtocol \<rightharpoonup> ('m, 'p) ProtocolAnalyzer"

definition NewProtocolManager :: "(ConnectionProtocol \<times> ('m, 'p) ProtocolAnalyzer) list \<Rightarrow> ('m, 'p) ProtocolManager" where
  "NewProtocolManager protocols = map_of (rev protocols)"

text \<open>
  A partition, with the access log queue and the connection manager that all partitions share, and
  the next unused identity of list elements.
\<close>

record ('m, 'p, 'v, 'b) PartitionContext =
  pt_connections :: "string \<rightharpoonup> 'm PartitionConnection"
  pt_queue :: "(kernelLogEvent, 'p ProtocolEventData) log_queue"
  pt_manager :: "('v, 'b) ConnectionManager"
  pt_fresh :: nat

section \<open>Taking events in\<close>

definition appendProtocolIfNeed ::
  "('m, 'p) ProtocolManager \<Rightarrow> u64 \<Rightarrow> u64 \<Rightarrow> ConnectionProtocol \<Rightarrow> u64 \<Rightarrow> 'm PartitionConnection \<Rightarrow> 'm PartitionConnection or_panic" where
  "appendProtocolIfNeed mgr conID ranID protocol currentDataID p =
     (case pc_protocol p protocol of
        None \<Rightarrow>
          (case mgr protocol of None \<Rightarrow> Inl NilDereference
           | Some analyzer \<Rightarrow> Inr (p\<lparr>pc_protocol := (pc_protocol p)(protocol \<mapsto> currentDataID),
               pc_dataBuffers := (pc_dataBuffers p)(protocol \<mapsto> NewBuffer),
               pc_protocolMetrics := (pc_protocolMetrics p)(protocol \<mapsto> pr_GenerateConnection analyzer conID ranID)\<rparr>))
      | Some minDataID \<Rightarrow>
          Inr (if currentDataID < minDataID then p\<lparr>pc_protocol := (pc_protocol p)(protocol \<mapsto> currentDataID)\<rparr> else p))"

definition newPartitionConnection ::
  "int \<Rightarrow> ('m, 'p) ProtocolManager \<Rightarrow> u64 \<Rightarrow> u64 \<Rightarrow> ConnectionProtocol \<Rightarrow> u64 \<Rightarrow> 'm PartitionConnection or_panic" where
  "newPartitionConnection now mgr conID ranID protocol currentDataID =
     appendProtocolIfNeed mgr conID ranID protocol currentDataID
       \<lparr>pc_connectionID = conID, pc_randomID = ranID, pc_dataBuffers = Map.empty, pc_protocol = Map.empty,
        pc_protocolMetrics = Map.empty, pc_closed = False, pc_skipAllDataAnalyze = False, pc_lastCheckCloseTime = now\<rparr>"

text \<open>The connection that is returned is the object in the map: a caller that changes it stores it under its key.\<close>

definition GetConnectionContext ::
  "int \<Rightarrow> ('m, 'p) ProtocolManager \<Rightarrow> u64 \<Rightarrow> u64 \<Rightarrow> ConnectionProtocol \<Rightarrow> u64 \<Rightarrow> ('m, 'p, 'v, 'b) PartitionContext \<Rightarrow>
     'm PartitionConnection or_panic" where
  "GetConnectionContext now mgr conID ranID protocol currentDataID p =
     (case pt_connections p (connection_key conID ranID) of
        Some connection \<Rightarrow> appendProtocolIfNeed mgr conID ranID protocol currentDataID connection
      | None \<Rightarrow> newPartitionConnection now mgr conID ranID protocol currentDataID)"

definition SendTransferNoProtocolEvent :: "SocketDetailEvent \<Rightarrow> ('m, 'p, 'v, 'b) PartitionContext \<Rightarrow> ('m, 'p, 'v, 'b) PartitionContext" where
  "SendTransferNoProtocolEvent detail p =
     p\<lparr>pt_queue := fst (AppendKernelLog \<lparr>kl_logType = LogTypeKernelTransfer, kl_event = SocketDetail detail\<rparr> (pt_queue p))\<rparr>"

definition store_connection :: "u64 \<Rightarrow> u64 \<Rightarrow> 'm PartitionConnection \<Rightarrow> ('m, 'p, 'v, 'b) PartitionContext \<Rightarrow> ('m, 'p, 'v, 'b) PartitionContext" where
  "store_connection conID ranID connection p = p\<lparr>pt_connections := (pt_connections p)(connection_key conID ranID \<mapsto> connection)\<rparr>"

definition AppendDetail :: "SocketDetailEvent \<Rightarrow> 'm PartitionConnection \<Rightarrow> ('m, 'p, 'v, 'b) PartitionContext \<Rightarrow> ('m, 'p, 'v, 'b) PartitionContext or_panic" where
  "AppendDetail detail con p =
     (if pc_skipAllDataAnalyze con
      then Inr (SendTransferNoProtocolEvent detail (store_connection (dt_ConnectionID detail) (dt_RandomID detail) con p))
      else case pc_dataBuffers con (dt_Protocol detail) of None \<Rightarrow> Inl NilDereference
        | Some buf \<Rightarrow> Inr ((store_connection (dt_ConnectionID detail) (dt_RandomID detail) (con\<lparr>pc_dataBuffers := (pc_dataBuffers con)
              (dt_Protocol detail \<mapsto> AppendDetailEvent (pt_fresh p) detail buf)\<rparr>) p)\<lparr>pt_fresh := Suc (pt_fresh p)\<rparr>))"

definition AppendData :: "SocketDataUploadEvent \<Rightarrow> 'm PartitionConnection \<Rightarrow> ('m, 'p, 'v, 'b) PartitionContext \<Rightarrow> ('m, 'p, 'v, 'b) PartitionContext or_panic" where
  "AppendData data con p =
     (if pc_skipAllDataAnalyze con then Inr (store_connection (up_ConnectionID data) (up_RandomID data) con p)
      else case pc_dataBuffers con (up_Protocol0 data) of None \<Rightarrow> Inl NilDereference
        | Some buf \<Rightarrow> panic_bind (AppendDataEvent (pt_fresh p) (Upload data) buf) (\<lambda>buf'.
            Inr ((store_connection (up_ConnectionID data) (up_RandomID data)
              (con\<lparr>pc_dataBuffers := (pc_dataBuffers con)(up_Protocol0 data \<mapsto> buf')\<rparr>) p)\<lparr>pt_fresh := Suc (pt_fresh p)\<rparr>)))"

datatype partition_event = Detail SocketDetailEvent | Data SocketDataUploadEvent

fun partition_Consume ::
  "int \<Rightarrow> ('m, 'p) ProtocolManager \<Rightarrow> partition_event \<Rightarrow> ('m, 'p, 'v, 'b) PartitionContext \<Rightarrow> ('m, 'p, 'v, 'b) PartitionContext or_panic" where
  "partition_Consume now mgr (Detail event) p =
     (if dt_Protocol event = ConnectionProtocolUnknown then Inr (SendTransferNoProtocolEvent event p)
      else panic_bind (GetConnectionContext now mgr (dt_ConnectionID event) (dt_RandomID event) (dt_Protocol event) (dt_DataID0 event) p)
        (\<lambda>con. AppendDetail event con p))"
| "partition_Consume now mgr (Data event) p =
     panic_bind (GetConnectionContext now mgr (up_ConnectionID event) (up_RandomID event) (up_Protocol0 event) (up_DataID0 event) p)
       (\<lambda>con. AppendData event con p)"

section \<open>Analyzing in intervals\<close>

text \<open>
  \<open>protos\<close> is the order in which the loop visits the protocols of the connection. The sort is stable: for
  so few elements it is an insertion sort.
\<close>

fun analyze_protocols ::
  "('m, 'p) ProtocolManager \<Rightarrow> ConnectionProtocol list \<Rightarrow> 'm PartitionConnection \<Rightarrow> bool \<Rightarrow> 'p ProtocolEventData list \<Rightarrow>
     ('m PartitionConnection \<times> bool \<times> 'p ProtocolEventData list) outcome" where
  "analyze_protocols mgr [] con protocolBreak sent = Some (Inr (con, protocolBreak, sent))"
| "analyze_protocols mgr (protocol # protos) con protocolBreak sent =
     (case mgr protocol of None \<Rightarrow> Some (Inl NilDereference)
      | Some analyzer \<Rightarrow> outcome_bind (pr_Analyze analyzer con) (\<lambda>(con', logs, b).
          analyze_protocols mgr protos con' (protocolBreak \<or> b) (sent @ logs)))"

text \<open>Every detail of the buffers is sent on its own and the buffers are emptied.\<close>

fun flush_buffers ::
  "ConnectionProtocol list \<Rightarrow> 'm PartitionConnection \<Rightarrow> ('m, 'p, 'v, 'b) PartitionContext \<Rightarrow> ('m PartitionConnection \<times> ('m, 'p, 'v, 'b) PartitionContext) or_panic" where
  "flush_buffers [] con p = Inr (con, p)"
| "flush_buffers (protocol # protos) con p =
     (case pc_dataBuffers con protocol of None \<Rightarrow> flush_buffers protos con p
      | Some buf \<Rightarrow> panic_bind (BuildDetails Map.empty buf) (\<lambda>details.
          flush_buffers protos (con\<lparr>pc_dataBuffers := (pc_dataBuffers con)(protocol \<mapsto> Clean buf)\<rparr>)
            (fold (\<lambda>e. SendTransferNoProtocolEvent (snd e)) details p)))"

record ('m, 'p, 'v, 'b) partition_env =
  pv_protocolMgr :: "('m, 'p) ProtocolManager"
  pv_now :: int
  pv_boot :: int
  pv_break :: "'b break_cache"
  pv_updateOk :: "u64 \<Rightarrow> bool"
  pv_protocols :: "ConnectionProtocol list"

definition processConnectionEvents ::
  "('m, 'p, 'v, 'b) partition_env \<Rightarrow> 'm PartitionConnection \<Rightarrow> ('m, 'p, 'v, 'b) PartitionContext \<Rightarrow>
     ('m PartitionConnection \<times> ('m, 'p, 'v, 'b) PartitionContext) outcome" where
  "processConnectionEvents env con p =
     (if pc_skipAllDataAnalyze con then Some (Inr (con, p))
      else let protos = filter (\<lambda>k. pc_protocol con k \<noteq> None) (pv_protocols env) in
        outcome_bind (analyze_protocols (pv_protocolMgr env) (sort_key (\<lambda>k. the (pc_protocol con k)) protos) con False [])
          (\<lambda>(con1, protocolBreak, sent).
            let p1 = p\<lparr>pt_queue := append_protocols sent (pt_queue p)\<rparr> in
            if protocolBreak
            then Some (flush_buffers (pv_protocols env) (con1\<lparr>pc_skipAllDataAnalyze := True\<rparr>) (p1\<lparr>pt_manager :=
              SkipAllDataAnalyzeAndDowngradeProtocol (pv_break env) (pv_now env) (pv_updateOk env)
                (pc_connectionID con1) (pc_randomID con1) (pt_manager p1)\<rparr>))
            else Some (Inr (con1, p1))))"

definition checkTheConnectionIsAlreadyClose :: "int \<Rightarrow> ActiveConnection map_lookup \<Rightarrow> 'm PartitionConnection \<Rightarrow> 'm PartitionConnection" where
  "checkTheConnectionIsAlreadyClose now lookup con =
     (if now - pc_lastCheckCloseTime con \<le> 30 * second then con
      else let con' = con\<lparr>pc_lastCheckCloseTime := now\<rparr> in
        case lookup of
          KeyNotExist \<Rightarrow> con'\<lparr>pc_closed := True\<rparr>
        | LookupError \<Rightarrow> con'
        | Found a \<Rightarrow> if act_RandomID a \<noteq> 0 \<and> act_RandomID a \<noteq> pc_randomID con then con'\<lparr>pc_closed := True\<rparr> else con')"

text \<open>
  One connection of a round: the partition after it. A connection that is closed and has no data left
  is removed; the code removes them together at the end of the round.
\<close>

definition buffered_chunks :: "ConnectionProtocol list \<Rightarrow> 'm PartitionConnection \<Rightarrow> nat" where
  "buffered_chunks protos con = (\<Sum>k\<leftarrow>protos. case pc_dataBuffers con k of None \<Rightarrow> 0 | Some b \<Rightarrow> DataLength b)"

definition process_one ::
  "('m, 'p, 'v, 'b) partition_env \<Rightarrow> string \<Rightarrow> ('m, 'p, 'v, 'b) PartitionContext \<Rightarrow> ('m, 'p, 'v, 'b) PartitionContext outcome" where
  "process_one env key p = (case pt_connections p key of None \<Rightarrow> Some (Inr p)
     | Some con \<Rightarrow> outcome_bind (processConnectionEvents env con p) (\<lambda>(con1, p1).
         let con2 = (if buffered_chunks (pv_protocols env) con1 > 0 \<or> pc_closed con1 then con1
               else checkTheConnectionIsAlreadyClose (pv_now env) (cm_activeConnectionMap (pt_manager p1) (pc_connectionID con1)) con1)
         in Some (Inr (p1\<lparr>pt_connections := (pt_connections p1)(key :=
              if buffered_chunks (pv_protocols env) con1 = 0 \<and> pc_closed con2 then None else Some con2)\<rparr>))))"

fun ProcessEvents ::
  "('m, 'p, 'v, 'b) partition_env \<Rightarrow> string list \<Rightarrow> ('m, 'p, 'v, 'b) PartitionContext \<Rightarrow> ('m, 'p, 'v, 'b) PartitionContext outcome" where
  "ProcessEvents env [] p = Some (Inr p)"
| "ProcessEvents env (key # keys) p = outcome_bind (process_one env key p) (ProcessEvents env keys)"

definition maxBufferExpireDuration :: int where "maxBufferExpireDuration = 60 * second"

definition processConnectionExpireEvents :: "int \<Rightarrow> int \<Rightarrow> 'm PartitionConnection \<Rightarrow> 'm PartitionConnection" where
  "processConnectionExpireEvents boot now con =
     con\<lparr>pc_dataBuffers := map_option (\<lambda>b. fst (DeleteExpireEvents boot now maxBufferExpireDuration b)) \<circ> pc_dataBuffers con\<rparr>"

definition ProcessExpireEvents :: "int \<Rightarrow> int \<Rightarrow> ('m, 'p, 'v, 'b) PartitionContext \<Rightarrow> ('m, 'p, 'v, 'b) PartitionContext" where
  "ProcessExpireEvents boot now p =
     p\<lparr>pt_connections := map_option (processConnectionExpireEvents boot now) \<circ> pt_connections p\<rparr>"

section \<open>Where an event goes\<close>

fun known :: "partition_event \<Rightarrow> bool" where
  "known (Detail d) \<longleftrightarrow> dt_Protocol d \<noteq> ConnectionProtocolUnknown"
| "known (Data d) \<longleftrightarrow> True"

fun event_slot :: "partition_event \<Rightarrow> u64 \<times> u64 \<times> ConnectionProtocol" where
  "event_slot (Detail d) = (dt_ConnectionID d, dt_RandomID d, dt_Protocol d)"
| "event_slot (Data d) = (up_ConnectionID d, up_RandomID d, up_Protocol0 d)"

fun event_id :: "partition_event \<Rightarrow> u64" where
  "event_id (Detail d) = dt_DataID0 d"
| "event_id (Data d) = up_DataID0 d"

definition events_for :: "u64 \<times> u64 \<times> ConnectionProtocol \<Rightarrow> partition_event list \<Rightarrow> partition_event list" where
  "events_for k es = filter (\<lambda>e. known e \<and> event_slot e = k) es"

definition chunks_of :: "partition_event list \<Rightarrow> SocketDataBuffer list" where
  "chunks_of es = concat (map (\<lambda>e. case e of Data d \<Rightarrow> [Upload d] | Detail d \<Rightarrow> []) es)"

definition details_of :: "partition_event list \<Rightarrow> SocketDetailEvent list" where
  "details_of es = concat (map (\<lambda>e. case e of Data d \<Rightarrow> [] | Detail d \<Rightarrow> [d]) es)"

text \<open>The details without a protocol, as the logs that are queued for them.\<close>

definition plain_logs :: "partition_event list \<Rightarrow> kernelLogEvent list" where
  "plain_logs es = map (\<lambda>d. \<lparr>kl_logType = LogTypeKernelTransfer, kl_event = SocketDetail d\<rparr>) (details_of (filter (\<lambda>e. \<not> known e) es))"

definition slot_of :: "('m, 'p, 'v, 'b) PartitionContext \<Rightarrow> u64 \<times> u64 \<times> ConnectionProtocol \<Rightarrow> (Buffer \<times> u64) option" where
  "slot_of p = (\<lambda>(con, rnd, proto). case pt_connections p (connection_key con rnd) of None \<Rightarrow> None
     | Some c \<Rightarrow> (case (pc_dataBuffers c proto, pc_protocol c proto) of (Some b, Some m) \<Rightarrow> Some (b, m) | _ \<Rightarrow> None))"

definition partition_ok :: "('m, 'p, 'v, 'b) PartitionContext \<Rightarrow> bool" where
  "partition_ok p \<longleftrightarrow> (\<forall>key c. pt_connections p key = Some c \<longrightarrow>
     \<not> pc_skipAllDataAnalyze c \<and> dom (pc_dataBuffers c) = dom (pc_protocol c))"

definition buffer_holds :: "partition_event list \<Rightarrow> Buffer \<Rightarrow> bool" where
  "buffer_holds es b \<longleftrightarrow> buf_current b = None \<and> list_values (dataEvents b) = sort_key chunk_key (chunks_of es) \<and>
     list_values (detailEvents b) = sort_key dt_DataID0 (details_of es)"

fun buffer_take :: "nat \<Rightarrow> partition_event \<Rightarrow> Buffer \<Rightarrow> Buffer or_panic" where
  "buffer_take fresh (Detail d) b = Inr (AppendDetailEvent fresh d b)"
| "buffer_take fresh (Data d) b = AppendDataEvent fresh (Upload d) b"

lemma sort_key_sorted_append: "sort_key f (sort_key f xs @ ys) = sort_key f (xs @ ys)"
proof -
  have "filter (\<lambda>x. f k = f x) (sort_key f zs) = filter (\<lambda>x. f k = f x) zs" for k zs
    using sort_key_stable [of f "f k" zs] by (simp add: eq_commute [of "f k"])
  then show ?thesis by (intro properties_for_sort_key [symmetric]) simp_all
qed

lemma buffer_take_holds:
  assumes "buffer_holds es b"
  shows "\<exists>b'. buffer_take fresh e b = Inr b' \<and> buffer_holds (es @ [e]) b'"
proof (cases e)
  case (Detail d)
  have "sorted_on dt_DataID0 (detailEvents b)"
    using assms sorted_sort_key [of dt_DataID0] by (simp add: buffer_holds_def sorted_on_def)
  then have "list_values (detail_append fresh d (detailEvents b)) = sort_key dt_DataID0 (list_values (detailEvents b) @ [d])"
    using detail_order.append_all_sort [of "detailEvents b" fresh "[d]"] by simp
  then show ?thesis
    using Detail assms by (simp add: buffer_holds_def AppendDetailEvent_eq details_of_def chunks_of_def sort_key_sorted_append)
next
  case (Data d)
  have "sorted_on chunk_key (dataEvents b)"
    using assms sorted_sort_key [of chunk_key] by (simp add: buffer_holds_def sorted_on_def)
  then have "list_values (data_append fresh (Upload d) (dataEvents b)) = sort_key chunk_key (list_values (dataEvents b) @ [Upload d])"
    using data_order.append_all_sort [of "dataEvents b" fresh "[Upload d]"] by simp
  moreover have "current_ok b" using assms by (simp add: buffer_holds_def current_ok_def)
  ultimately show ?thesis
    using Data assms AppendDataEvent_Inr [of b fresh "Upload d"]
    by (auto simp: buffer_holds_def details_of_def chunks_of_def sort_key_sorted_append)
qed

lemma buffer_holds_new: "buffer_holds [] NewBuffer"
  by (simp add: buffer_holds_def NewBuffer_def chunks_of_def details_of_def)

text \<open>What taking in one event does to the slots.\<close>

lemma appendProtocolIfNeed_slot:
  assumes "mgr proto \<noteq> None" "dom (pc_dataBuffers c) = dom (pc_protocol c)" "\<not> pc_skipAllDataAnalyze c"
  shows "\<exists>c' b m. appendProtocolIfNeed mgr con rnd proto i c = Inr c' \<and> \<not> pc_skipAllDataAnalyze c' \<and>
    dom (pc_dataBuffers c') = dom (pc_protocol c') \<and>
    pc_dataBuffers c' = (pc_dataBuffers c)(proto \<mapsto> b) \<and> pc_protocol c' = (pc_protocol c)(proto \<mapsto> m) \<and>
    (case (pc_dataBuffers c proto, pc_protocol c proto) of (Some b0, Some m0) \<Rightarrow> b = b0 \<and> m = min m0 i | _ \<Rightarrow> b = NewBuffer \<and> m = i)"
proof (cases "pc_protocol c proto")
  case None
  then have "pc_dataBuffers c proto = None" using assms(2) by auto
  then show ?thesis using None assms by (auto simp: appendProtocolIfNeed_def)
next
  case (Some m)
  then obtain b where "pc_dataBuffers c proto = Some b" using assms(2) by blast
  then show ?thesis using Some assms
    by (cases "i < m") (auto simp: appendProtocolIfNeed_def fun_upd_triv min_def intro!: exI [of _ b])
qed

lemma Consume_known:
  assumes "known e" "event_slot e = (con, rnd, proto)" "mgr proto \<noteq> None" "partition_ok p"
    and b: "case slot_of p (con, rnd, proto) of Some (b0, m0) \<Rightarrow> b = b0 \<and> m = min m0 (event_id e) | None \<Rightarrow> b = NewBuffer \<and> m = event_id e"
    and "buffer_take (pt_fresh p) e b = Inr b'"
  shows "\<exists>p'. partition_Consume now mgr e p = Inr p' \<and> partition_ok p' \<and> pt_queue p' = pt_queue p \<and> pt_manager p' = pt_manager p \<and>
     slot_of p' = (slot_of p)((con, rnd, proto) \<mapsto> (b', m))"
proof -
  let ?c0 = "case pt_connections p (connection_key con rnd) of Some c \<Rightarrow> c
     | None \<Rightarrow> \<lparr>pc_connectionID = con, pc_randomID = rnd, pc_dataBuffers = Map.empty, pc_protocol = Map.empty,
        pc_protocolMetrics = Map.empty, pc_closed = False, pc_skipAllDataAnalyze = False, pc_lastCheckCloseTime = now\<rparr>"
  have g: "GetConnectionContext now mgr con rnd proto (event_id e) p = appendProtocolIfNeed mgr con rnd proto (event_id e) ?c0"
    by (simp add: GetConnectionContext_def newPartitionConnection_def split: option.splits)
  have "dom (pc_dataBuffers ?c0) = dom (pc_protocol ?c0)" "\<not> pc_skipAllDataAnalyze ?c0"
    using assms(4) by (auto simp: partition_ok_def split: option.splits)
  then obtain c' b1 m1 where c': "appendProtocolIfNeed mgr con rnd proto (event_id e) ?c0 = Inr c'" "\<not> pc_skipAllDataAnalyze c'"
    "dom (pc_dataBuffers c') = dom (pc_protocol c')"
    "pc_dataBuffers c' = (pc_dataBuffers ?c0)(proto \<mapsto> b1)" "pc_protocol c' = (pc_protocol ?c0)(proto \<mapsto> m1)"
    and bm: "case (pc_dataBuffers ?c0 proto, pc_protocol ?c0 proto) of (Some b0, Some m0) \<Rightarrow> b1 = b0 \<and> m1 = min m0 (event_id e) | _ \<Rightarrow> b1 = NewBuffer \<and> m1 = event_id e"
    using appendProtocolIfNeed_slot [where mgr = mgr and proto = proto, OF assms(3), of ?c0 con rnd "event_id e"] by blast
  have "b1 = b \<and> m1 = m" using b bm by (auto simp: slot_of_def split: option.splits)
  then have bm': "b1 = b" "m1 = m" by auto
  let ?c2 = "c'\<lparr>pc_dataBuffers := (pc_dataBuffers c')(proto \<mapsto> b')\<rparr>"
  let ?p' = "(store_connection con rnd ?c2 p)\<lparr>pt_fresh := Suc (pt_fresh p)\<rparr>"
  have "partition_Consume now mgr e p = Inr ?p'"
    using assms(1,2,6) g c' bm' by (cases e) (auto simp: AppendDetail_def AppendData_def)
  moreover have "partition_ok ?p'" using assms(4) c' by (auto simp: partition_ok_def store_connection_def)
  moreover have "slot_of ?p' k = ((slot_of p)((con, rnd, proto) \<mapsto> (b', m))) k" for k
    using c'(4,5) bm' by (cases k) (auto simp: slot_of_def store_connection_def connection_key_inject split: option.splits)
  ultimately show ?thesis by (intro exI [of _ ?p']) (auto simp: store_connection_def fun_eq_iff)
qed

fun consume_all ::
  "int \<Rightarrow> ('m, 'p) ProtocolManager \<Rightarrow> partition_event list \<Rightarrow> ('m, 'p, 'v, 'b) PartitionContext \<Rightarrow> ('m, 'p, 'v, 'b) PartitionContext or_panic" where
  "consume_all now mgr [] p = Inr p"
| "consume_all now mgr (e # es) p = panic_bind (partition_Consume now mgr e p) (consume_all now mgr es)"

lemma consume_all_append:
  "consume_all now mgr (es @ es') p = panic_bind (consume_all now mgr es p) (consume_all now mgr es')"
proof (induction es arbitrary: p)
  case (Cons e es)
  then show ?case by (cases "partition_Consume now mgr e p") simp_all
qed simp

definition slot_ok :: "partition_event list \<Rightarrow> (Buffer \<times> u64) option \<Rightarrow> bool" where
  "slot_ok es s = (case s of None \<Rightarrow> es = [] | Some (b, m) \<Rightarrow> es \<noteq> [] \<and> buffer_holds es b \<and> m = Min (set (map event_id es)))"

lemma events_for_snoc:
  "events_for k (es @ [e]) = (if known e \<and> event_slot e = k then events_for k es @ [e] else events_for k es)"
  by (simp add: events_for_def)

lemma Consume_slots:
  assumes "known e \<Longrightarrow> mgr (snd (snd (event_slot e))) \<noteq> None" "partition_ok p" "\<forall>k. slot_ok (events_for k es) (slot_of p k)"
    and "pt_queue p = append_kernels (plain_logs es) q"
  shows "\<exists>p'. partition_Consume now mgr e p = Inr p' \<and> partition_ok p' \<and> pt_manager p' = pt_manager p \<and>
     pt_queue p' = append_kernels (plain_logs (es @ [e])) q \<and> (\<forall>k. slot_ok (events_for k (es @ [e])) (slot_of p' k))"
proof (cases "known e")
  case False
  then obtain d where e: "e = Detail d" "dt_Protocol d = ConnectionProtocolUnknown" by (cases e) auto
  have "append_kernels (ls @ [l]) q = fst (AppendKernelLog l (append_kernels ls q))" for l ls
    by (induction ls arbitrary: q) simp_all
  then show ?thesis
    using assms(2-4) e False
    by (simp add: SendTransferNoProtocolEvent_def partition_ok_def slot_of_def events_for_snoc plain_logs_def details_of_def)
next
  case True
  obtain con rnd proto where k: "event_slot e = (con, rnd, proto)" by (cases "event_slot e") auto
  let ?E = "events_for (con, rnd, proto) es" and ?s = "slot_of p (con, rnd, proto)"
  define b where "b = (case ?s of Some (b0, m0) \<Rightarrow> b0 | None \<Rightarrow> NewBuffer)"
  define m where "m = (case ?s of Some (b0, m0) \<Rightarrow> min m0 (event_id e) | None \<Rightarrow> event_id e)"
  have c: "case ?s of Some (b0, m0) \<Rightarrow> b = b0 \<and> m = min m0 (event_id e) | None \<Rightarrow> b = NewBuffer \<and> m = event_id e"
    by (simp add: b_def m_def split: option.splits)
  have s: "slot_ok ?E ?s" using assms(3) by blast
  then have "buffer_holds ?E b" using buffer_holds_new by (auto simp: slot_ok_def b_def split: option.splits)
  then obtain b' where b': "buffer_take (pt_fresh p) e b = Inr b'" "buffer_holds (?E @ [e]) b'" using buffer_take_holds by blast
  have m: "m = Min (set (map event_id (?E @ [e])))"
    using s by (auto simp: slot_ok_def m_def min.commute split: option.splits)
  obtain p' where p': "partition_Consume now mgr e p = Inr p'" "partition_ok p'" "pt_queue p' = pt_queue p" "pt_manager p' = pt_manager p"
     "slot_of p' = (slot_of p)((con, rnd, proto) \<mapsto> (b', m))"
    using Consume_known [where mgr = mgr and proto = proto, OF True k _ assms(2) c b'(1), of now] assms(1) [OF True] k by auto
  have "slot_ok (events_for k' (es @ [e])) (slot_of p' k')" for k'
    using spec [OF assms(3), of k'] p'(5) b'(2) m True k by (auto simp: events_for_snoc slot_ok_def)
  moreover have "plain_logs (es @ [e]) = plain_logs es" using True by (simp add: plain_logs_def)
  ultimately show ?thesis using p'(1-4) assms(4) by (intro exI [of _ p']) metis
qed


definition example_partition :: "(unit, unit, (u32 \<times> ProcessVerdict \<times> int) list, (string \<times> bool \<times> int) list) PartitionContext" where
  "example_partition = \<lparr>pt_connections = Map.empty, pt_queue = NewQueue 10, pt_manager = NewConnectionManager list_cache list_cache 5, pt_fresh = 0\<rparr>"

definition example_protocol :: "(unit, unit) ProtocolAnalyzer" where
  "example_protocol = \<lparr>pr_GenerateConnection = \<lambda>_ _. (), pr_Analyze = \<lambda>con. Some (Inr (con, [], True))\<rparr>"


section \<open>When a protocol breaks\<close>

lemma send_fold:
  "fold (\<lambda>e. SendTransferNoProtocolEvent (snd e)) l p = p\<lparr>pt_queue :=
     append_kernels (map (\<lambda>d. \<lparr>kl_logType = LogTypeKernelTransfer, kl_event = SocketDetail d\<rparr>) (list_values l)) (pt_queue p)\<rparr>"
  by (induction l arbitrary: p) (simp_all add: SendTransferNoProtocolEvent_def)

lemma append_kernels_append: "append_kernels (ks @ ls) q = append_kernels ls (append_kernels ks q)"
  by (induction ks arbitrary: q) simp_all

definition buffered_details :: "ConnectionProtocol list \<Rightarrow> 'm PartitionConnection \<Rightarrow> SocketDetailEvent list" where
  "buffered_details protos con = concat (map (\<lambda>k. case pc_dataBuffers con k of None \<Rightarrow> [] | Some b \<Rightarrow> list_values (detailEvents b)) protos)"

lemma flush_buffers_spec:
  assumes "distinct protos" "\<And>k b. pc_dataBuffers con k = Some b \<Longrightarrow> originalBuffer b = None"
  shows "flush_buffers protos con p = Inr
     (con\<lparr>pc_dataBuffers := \<lambda>k. if k \<in> set protos then map_option Clean (pc_dataBuffers con k) else pc_dataBuffers con k\<rparr>,
      p\<lparr>pt_queue := append_kernels (map (\<lambda>d. \<lparr>kl_logType = LogTypeKernelTransfer, kl_event = SocketDetail d\<rparr>)
          (buffered_details protos con)) (pt_queue p)\<rparr>)"
  using assms
proof (induction protos arbitrary: con p)
  case (Cons k protos)
  show ?case
  proof (cases "pc_dataBuffers con k")
    case None
    then have "(\<lambda>k'. if k' \<in> set protos then map_option Clean (pc_dataBuffers con k') else pc_dataBuffers con k') =
      (\<lambda>k'. if k' \<in> set (k # protos) then map_option Clean (pc_dataBuffers con k') else pc_dataBuffers con k')"
      by (auto simp: fun_eq_iff)
    then show ?thesis using None Cons.IH [of con p] Cons.prems by (simp add: buffered_details_def)
  next
    case (Some b)
    let ?con = "con\<lparr>pc_dataBuffers := (pc_dataBuffers con)(k \<mapsto> Clean b)\<rparr>"
    have o: "originalBuffer b = None" using Cons.prems(2) Some by blast
    have d: "distinct protos" using Cons.prems(1) by simp
    have q: "originalBuffer b' = None" if "pc_dataBuffers ?con k' = Some b'" for k' b'
      using that o Cons.prems(2) [of k' b'] by (auto simp: Clean_def split: if_splits)
    note ih = Cons.IH [of ?con, OF d q]
    have "(\<lambda>k'. if k' \<in> set protos then map_option Clean (pc_dataBuffers ?con k') else pc_dataBuffers ?con k') =
      (\<lambda>k'. if k' \<in> set (k # protos) then map_option Clean (pc_dataBuffers con k') else pc_dataBuffers con k')"
      using Some Cons.prems(1) by (auto simp: fun_eq_iff)
    moreover have "buffered_details protos ?con = buffered_details protos con"
      using Cons.prems(1) unfolding buffered_details_def by (intro arg_cong [of _ _ concat] map_cong) auto
    ultimately show ?thesis
      using Some o ih by (simp add: BuildDetails_def send_fold append_kernels_append buffered_details_def)
  qed
qed (simp add: buffered_details_def)

abbreviation transfer_log :: "SocketDetailEvent \<Rightarrow> kernelLogEvent" where
  "transfer_log d \<equiv> \<lparr>kl_logType = LogTypeKernelTransfer, kl_event = SocketDetail d\<rparr>"

text \<open>
  when an analyzer breaks, every detail that is still buffered for the connection, of all its
  protocols, is queued as a kernel log exactly once, after the protocol logs that were built, and the
  buffers are empty. From then on each new detail of the connection is queued at once: giving up the
  protocol loses no kernel detail.
\<close>

theorem broken_protocol_keeps_the_details:
  assumes "\<not> pc_skipAllDataAnalyze con"
    and "analyze_protocols (pv_protocolMgr env) (sort_key (\<lambda>k. the (pc_protocol con k)) (filter (\<lambda>k. pc_protocol con k \<noteq> None) (pv_protocols env)))
       con False [] = Some (Inr (con1, True, sent))"
    and "distinct (pv_protocols env)" "dom (pc_dataBuffers con1) \<subseteq> set (pv_protocols env)"
    and "\<And>k b. pc_dataBuffers con1 k = Some b \<Longrightarrow> originalBuffer b = None"
  shows "\<exists>con2 p2. processConnectionEvents env con p = Some (Inr (con2, p2)) \<and>
     pt_queue p2 = append_kernels (map transfer_log (buffered_details (pv_protocols env) con1)) (append_protocols sent (pt_queue p)) \<and>
     (\<forall>k b. pc_dataBuffers con2 k = Some b \<longrightarrow> dataEvents b = [] \<and> detailEvents b = []) \<and>
     (\<forall>p3 d. pt_connections p3 (connection_key (dt_ConnectionID d) (dt_RandomID d)) = Some con2 \<longrightarrow>
        pv_protocolMgr env (dt_Protocol d) \<noteq> None \<longrightarrow>
        (\<exists>p4. partition_Consume (pv_now env) (pv_protocolMgr env) (Detail d) p3 = Inr p4 \<and>
           pt_queue p4 = append_kernels [transfer_log d] (pt_queue p3)))"
proof -
  let ?con2 = "con1\<lparr>pc_skipAllDataAnalyze := True,
      pc_dataBuffers := \<lambda>k. if k \<in> set (pv_protocols env) then map_option Clean (pc_dataBuffers con1 k) else pc_dataBuffers con1 k\<rparr>"
  let ?p1 = "p\<lparr>pt_queue := append_protocols sent (pt_queue p), pt_manager := SkipAllDataAnalyzeAndDowngradeProtocol (pv_break env) (pv_now env)
      (pv_updateOk env) (pc_connectionID con1) (pc_randomID con1) (pt_manager p)\<rparr>"
  have "flush_buffers (pv_protocols env) (con1\<lparr>pc_skipAllDataAnalyze := True\<rparr>) ?p1 =
      Inr (?con2, ?p1\<lparr>pt_queue := append_kernels (map transfer_log (buffered_details (pv_protocols env) con1)) (pt_queue ?p1)\<rparr>)"
    using flush_buffers_spec [OF assms(3), of "con1\<lparr>pc_skipAllDataAnalyze := True\<rparr>" ?p1] assms(5) by (simp add: buffered_details_def cong: if_cong)
  then have "processConnectionEvents env con p = Some (Inr (?con2,
      ?p1\<lparr>pt_queue := append_kernels (map transfer_log (buffered_details (pv_protocols env) con1)) (pt_queue ?p1)\<rparr>))"
    using assms(1,2) by (simp add: processConnectionEvents_def Let_def)
  moreover have "\<forall>k b. pc_dataBuffers ?con2 k = Some b \<longrightarrow> dataEvents b = [] \<and> detailEvents b = []"
    using assms(4) by (auto simp: Clean_def)
  moreover have "\<exists>p4. partition_Consume (pv_now env) (pv_protocolMgr env) (Detail d) p3 = Inr p4 \<and>
      pt_queue p4 = append_kernels [transfer_log d] (pt_queue p3)"
    if "pt_connections p3 (connection_key (dt_ConnectionID d) (dt_RandomID d)) = Some ?con2" "pv_protocolMgr env (dt_Protocol d) \<noteq> None" for p3 d
    using that by (auto simp: GetConnectionContext_def appendProtocolIfNeed_def AppendDetail_def SendTransferNoProtocolEvent_def
        store_connection_def split: option.splits)
  moreover have "pt_queue (?p1\<lparr>pt_queue := append_kernels (map transfer_log (buffered_details (pv_protocols env) con1)) (pt_queue ?p1)\<rparr>) =
      append_kernels (map transfer_log (buffered_details (pv_protocols env) con1)) (append_protocols sent (pt_queue p))"
    by simp
  ultimately show ?thesis by blast
qed

definition example_partition_connection :: "unit PartitionConnection" where
  "example_partition_connection = \<lparr>pc_connectionID = 9, pc_randomID = 3, pc_dataBuffers = [1 \<mapsto> NewBuffer\<lparr>detailEvents := [(0, example_detail 5 1)]\<rparr>],
     pc_protocol = [1 \<mapsto> 5], pc_protocolMetrics = [1 \<mapsto> ()], pc_closed = False, pc_skipAllDataAnalyze = False, pc_lastCheckCloseTime = 0\<rparr>"

definition example_partition_env :: "(unit, unit, (u32 \<times> ProcessVerdict \<times> int) list, (string \<times> bool \<times> int) list) partition_env" where
  "example_partition_env = \<lparr>pv_protocolMgr = [1 \<mapsto> example_protocol], pv_now = 0, pv_boot = 0, pv_break = list_cache,
     pv_updateOk = \<lambda>_. True, pv_protocols = [1, 2]\<rparr>"

theorem broken_protocol_keeps_the_details_witness:
  "\<exists>con2 p2. processConnectionEvents example_partition_env example_partition_connection example_partition = Some (Inr (con2, p2)) \<and>
     q_kernelLogs (pt_queue p2) = [transfer_log (example_detail 5 1)]"
proof -
  let ?con = example_partition_connection and ?env = example_partition_env
  have "\<not> pc_skipAllDataAnalyze ?con" "distinct (pv_protocols ?env)" "dom (pc_dataBuffers ?con) \<subseteq> set (pv_protocols ?env)"
    by (simp_all add: example_partition_connection_def example_partition_env_def)
  moreover have "originalBuffer b = None" if "pc_dataBuffers ?con k = Some b" for k b
    using that by (auto simp: example_partition_connection_def NewBuffer_def split: if_splits)
  moreover have "analyze_protocols (pv_protocolMgr ?env) (sort_key (\<lambda>k. the (pc_protocol ?con k)) (filter (\<lambda>k. pc_protocol ?con k \<noteq> None) (pv_protocols ?env)))
       ?con False [] = Some (Inr (?con, True, []))"
    by (simp add: example_partition_connection_def example_partition_env_def example_protocol_def)
  ultimately obtain con2 p2 where "processConnectionEvents ?env ?con example_partition = Some (Inr (con2, p2))"
    "pt_queue p2 = append_kernels (map transfer_log (buffered_details (pv_protocols ?env) ?con)) (append_protocols [] (pt_queue example_partition))"
    using broken_protocol_keeps_the_details [of ?con ?env ?con "[]" example_partition] by blast
  then show ?thesis
    by (auto simp: buffered_details_def example_partition_connection_def example_partition_env_def example_partition_def NewBuffer_def
        NewQueue_def AppendKernelLog_def queue_cap_def Let_def)
qed

end
