(* ===== verification/Event_Queue.thy ===== *)
theory Event_Queue
  imports Rover_Prelude
begin

text \<open>
  The event queue between the readers of the kernel maps and the partitions that consume their events
  (\<^verbatim>\<open>tools/btf/queue.go\<close>): one bounded channel per partition, filled by any number of readers and emptied by
  one goroutine each. The steps of the goroutines are the transitions of a relation.
\<close>

section \<open>State and operations\<close>

record ('d, 'c) partition =
  pn_index :: nat
  pn_channel :: "'d list"
  pn_cap :: nat
  pn_ctx :: 'c

record ('d, 'c) EventQueue =
  eq_count :: nat
  eq_partitions :: "('d, 'c) partition list"

definition newPartition :: "nat \<Rightarrow> nat \<Rightarrow> 'c \<Rightarrow> ('d, 'c) partition" where
  "newPartition index cap ctx = \<lparr>pn_index = index, pn_channel = [], pn_cap = cap, pn_ctx = ctx\<rparr>"

definition NewEventQueue :: "nat \<Rightarrow> nat \<Rightarrow> (nat \<Rightarrow> 'c) \<Rightarrow> ('d, 'c) EventQueue" where
  "NewEventQueue partitionCount sizePerPartition contextGenerator =
     \<lparr>eq_count = partitionCount, eq_partitions = map (\<lambda>i. newPartition i sizePerPartition (contextGenerator i)) [0..<partitionCount]\<rparr>"

text \<open>
  The router turns the 64 bit id of an event into a signed integer, and \<^verbatim>\<open>%\<close> keeps the sign: an index below
  zero or a queue without partitions is a panic. A full channel blocks the reader; \<open>None\<close> is a reader that
  waits.
\<close>

definition route :: "u64 \<Rightarrow> int" where
  "route key = sint key"

definition go_rem :: "int \<Rightarrow> int \<Rightarrow> int" where
  "go_rem a b = sgn a * (\<bar>a\<bar> mod \<bar>b\<bar>)"

definition Push :: "int \<Rightarrow> 'd \<Rightarrow> ('d, 'c) EventQueue \<Rightarrow> ('d, 'c) EventQueue or_panic option" where
  "Push key d e =
     (if eq_count e = 0 then Some (Inl DivideByZero)
      else let i = go_rem key (int (eq_count e)) in
        if i < 0 \<or> nat i \<ge> length (eq_partitions e) then Some (Inl IndexOutOfRange)
        else let p = eq_partitions e ! nat i in
          if length (pn_channel p) < pn_cap p
          then Some (Inr (e\<lparr>eq_partitions := (eq_partitions e)[nat i := p\<lparr>pn_channel := pn_channel p @ [d]\<rparr>]\<rparr>))
          else None)"

definition routerTransformer :: "('d \<Rightarrow> u64) \<Rightarrow> 'd \<Rightarrow> ('d, 'c) EventQueue \<Rightarrow> ('d, 'c) EventQueue or_panic option" where
  "routerTransformer routeGenerator d e = Push (route (routeGenerator d)) d e"

text \<open>The consumer of a partition takes the first event of its channel and gives it to its context.\<close>

definition consume_next :: "('d \<Rightarrow> 'c \<Rightarrow> 'c) \<Rightarrow> nat \<Rightarrow> ('d, 'c) EventQueue \<Rightarrow> ('d, 'c) EventQueue option" where
  "consume_next Consume i e =
     (if i < length (eq_partitions e)
      then (case pn_channel (eq_partitions e ! i) of [] \<Rightarrow> None
            | d # ds \<Rightarrow> Some (e\<lparr>eq_partitions := (eq_partitions e)[i := (eq_partitions e ! i)
                \<lparr>pn_channel := ds, pn_ctx := Consume d (pn_ctx (eq_partitions e ! i))\<rparr>]\<rparr>))
      else None)"

definition PartitionContexts :: "('d, 'c) EventQueue \<Rightarrow> 'c list" where
  "PartitionContexts e = map pn_ctx (eq_partitions e)"

section \<open>Runs\<close>

text \<open>A run of readers and consumers, with the events in the order in which they were pushed.\<close>

inductive queue_run ::
  "('d \<Rightarrow> u64) \<Rightarrow> ('d \<Rightarrow> 'c \<Rightarrow> 'c) \<Rightarrow> ('d, 'c) EventQueue \<Rightarrow> 'd list \<Rightarrow> ('d, 'c) EventQueue \<Rightarrow> bool"
  for key :: "'d \<Rightarrow> u64" and Consume :: "'d \<Rightarrow> 'c \<Rightarrow> 'c" and e0 :: "('d, 'c) EventQueue" where
  start: "queue_run key Consume e0 [] e0"
| pushed: "queue_run key Consume e0 ds e \<Longrightarrow> routerTransformer key d e = Some (Inr e') \<Longrightarrow> queue_run key Consume e0 (ds @ [d]) e'"
| consumed: "queue_run key Consume e0 ds e \<Longrightarrow> consume_next Consume i e = Some e' \<Longrightarrow> queue_run key Consume e0 ds e'"

definition partition_of :: "nat \<Rightarrow> u64 \<Rightarrow> nat" where
  "partition_of n key = unat key mod n"

lemma route_index:
  assumes "key < 2 ^ 63" "0 < n"
  shows "go_rem (route key) (int n) = int (partition_of n key)" "partition_of n key < n"
proof -
  have "uint key < 2 ^ 63" using assms(1) by (simp add: word_less_def)
  then have "signed_take_bit 63 (uint key) = uint key" by (intro signed_take_bit_int_eq_self) (simp_all add: order_trans [OF _ uint_ge_0])
  then have "sint key = int (unat key)" by (simp add: sint_uint)
  moreover have "0 < uint key \<or> uint key = 0" using uint_ge_0 [of key] by linarith
  ultimately show "go_rem (route key) (int n) = int (partition_of n key)"
    by (auto simp: go_rem_def route_def partition_of_def sgn_if zmod_int)
  show "partition_of n key < n" using assms(2) by (simp add: partition_of_def)
qed

definition partition_inv ::
  "('d \<Rightarrow> u64) \<Rightarrow> ('d \<Rightarrow> 'c \<Rightarrow> 'c) \<Rightarrow> nat \<Rightarrow> nat \<Rightarrow> (nat \<Rightarrow> 'c) \<Rightarrow> 'd list \<Rightarrow> nat \<Rightarrow> ('d, 'c) partition \<Rightarrow> bool" where
  "partition_inv key Consume n cap gen ds i p \<longleftrightarrow> pn_cap p = cap \<and> length (pn_channel p) \<le> cap \<and>
     (\<exists>taken. filter (\<lambda>d. partition_of n (key d) = i) ds = taken @ pn_channel p \<and> pn_ctx p = fold Consume taken (gen i))"

definition queue_inv ::
  "('d \<Rightarrow> u64) \<Rightarrow> ('d \<Rightarrow> 'c \<Rightarrow> 'c) \<Rightarrow> nat \<Rightarrow> nat \<Rightarrow> (nat \<Rightarrow> 'c) \<Rightarrow> 'd list \<Rightarrow> ('d, 'c) EventQueue \<Rightarrow> bool" where
  "queue_inv key Consume n cap gen ds e \<longleftrightarrow> eq_count e = n \<and> length (eq_partitions e) = n \<and>
     (\<forall>i < n. partition_inv key Consume n cap gen ds i (eq_partitions e ! i))"

lemma Push_route:
  assumes "queue_inv key Consume n cap gen ds e" "key d < 2 ^ 63" "0 < n"
  shows "routerTransformer key d e =
    (let i = partition_of n (key d); p = eq_partitions e ! i in
     if length (pn_channel p) < cap then Some (Inr (e\<lparr>eq_partitions := (eq_partitions e)[i := p\<lparr>pn_channel := pn_channel p @ [d]\<rparr>]\<rparr>)) else None)"
  using assms route_index [OF assms(2,3)]
  by (auto simp: routerTransformer_def Push_def queue_inv_def partition_inv_def Let_def)

lemma queue_run_inv:
  assumes "queue_run key Consume (NewEventQueue n cap gen) ds e" "\<forall>d \<in> set ds. key d < 2 ^ 63" "0 < n"
  shows "queue_inv key Consume n cap gen ds e"
  using assms(1,2)
proof induction
  case start
  show ?case by (auto simp: queue_inv_def partition_inv_def NewEventQueue_def newPartition_def)
next
  case (pushed ds e d e')
  let ?i = "partition_of n (key d)"
  have inv: "queue_inv key Consume n cap gen ds e" and k: "key d < 2 ^ 63" using pushed by auto
  then have i: "partition_inv key Consume n cap gen ds ?i (eq_partitions e ! ?i)" "?i < n"
    using route_index(2) [OF k assms(3)] by (auto simp: queue_inv_def)
  have e': "e' = e\<lparr>eq_partitions := (eq_partitions e)[?i := (eq_partitions e ! ?i)\<lparr>pn_channel := pn_channel (eq_partitions e ! ?i) @ [d]\<rparr>]\<rparr>"
    "length (pn_channel (eq_partitions e ! ?i)) < cap"
    using Push_route [where key = key, OF inv k assms(3)] pushed.hyps(2) by (auto simp: Let_def split: if_splits)
  have "partition_inv key Consume n cap gen (ds @ [d]) j (eq_partitions e' ! j)" if "j < n" for j
    using inv i e' that by (cases "j = ?i") (auto simp: queue_inv_def partition_inv_def)
  then show ?case using inv e' by (simp add: queue_inv_def)
next
  case (consumed ds e i e')
  then have inv: "queue_inv key Consume n cap gen ds e" by simp
  obtain d rest where c: "pn_channel (eq_partitions e ! i) = d # rest" "i < n" and
    e': "e' = e\<lparr>eq_partitions := (eq_partitions e)[i := (eq_partitions e ! i)
                \<lparr>pn_channel := rest, pn_ctx := Consume d (pn_ctx (eq_partitions e ! i))\<rparr>]\<rparr>"
    using consumed.hyps(2) inv by (auto simp: consume_next_def queue_inv_def split: if_splits list.splits)
  obtain taken where t: "filter (\<lambda>d. partition_of n (key d) = i) ds = taken @ d # rest" "pn_ctx (eq_partitions e ! i) = fold Consume taken (gen i)"
    "pn_cap (eq_partitions e ! i) = cap" "Suc (length rest) \<le> cap"
    using inv c by (auto simp: queue_inv_def partition_inv_def)
  have "partition_inv key Consume n cap gen ds i (eq_partitions e' ! i)"
    using inv c(2) e' t by (auto simp: queue_inv_def partition_inv_def intro!: exI [of _ "taken @ [d]"])
  then have "partition_inv key Consume n cap gen ds j (eq_partitions e' ! j)" if "j < n" for j
    using inv e' that by (cases "j = i") (auto simp: queue_inv_def)
  then show ?case using inv e' by (simp add: queue_inv_def)
qed

text \<open>
  C19: in every run of the readers and the consumers, whatever their interleaving, each partition has
  consumed a front of the events that were pushed for its connections, in the order of the pushes, and
  the rest waits in its channel, which never exceeds its size. All events of a connection go to one
  partition, and a reader of an event with an id below 2 to the 63 never panics: it pushes, or waits for
  a full channel that its consumer can empty.
\<close>

theorem partitions_consume_in_order:
  assumes "queue_run key Consume (NewEventQueue n cap gen) ds e" "\<forall>d \<in> set ds. key d < 2 ^ 63" "0 < n"
  shows "length (PartitionContexts e) = n \<and>
    (\<forall>i < n. \<exists>taken. filter (\<lambda>d. unat (key d) mod n = i) ds = taken @ pn_channel (eq_partitions e ! i) \<and>
       PartitionContexts e ! i = fold Consume taken (gen i) \<and> length (pn_channel (eq_partitions e ! i)) \<le> cap) \<and>
    (\<forall>d. key d < 2 ^ 63 \<longrightarrow> (\<exists>e'. routerTransformer key d e = Some (Inr e')) \<or>
       routerTransformer key d e = None \<and> (0 < cap \<longrightarrow> consume_next Consume (unat (key d) mod n) e \<noteq> None))"
proof -
  have inv: "queue_inv key Consume n cap gen ds e" by (rule queue_run_inv [OF assms])
  have c: "0 < cap \<longrightarrow> consume_next Consume i e \<noteq> None"
    if "i < n" "length (pn_channel (eq_partitions e ! i)) = cap" for i
    using inv that by (cases "pn_channel (eq_partitions e ! i)") (auto simp: consume_next_def queue_inv_def)
  have "(\<exists>e'. routerTransformer key d e = Some (Inr e')) \<or>
       routerTransformer key d e = None \<and> (0 < cap \<longrightarrow> consume_next Consume (unat (key d) mod n) e \<noteq> None)" if "key d < 2 ^ 63" for d
    using Push_route [where key = key, OF inv that assms(3)] route_index(2) [OF that assms(3)] inv c [of "partition_of n (key d)"]
    by (auto simp: Let_def partition_of_def queue_inv_def partition_inv_def dest!: spec [where x = "unat (key d) mod n"])
  then show ?thesis using inv by (auto simp: queue_inv_def partition_inv_def PartitionContexts_def partition_of_def)
qed

theorem partitions_consume_in_order_witness:
  "let e1 = NewEventQueue 2 4 (\<lambda>i. []) in
   \<exists>e2 e3. routerTransformer id 5 e1 = Some (Inr e2) \<and> consume_next (\<lambda>d c. c @ [d]) 1 e2 = Some e3 \<and> PartitionContexts e3 ! 1 = [5]"
proof -
  let ?C = "\<lambda>d c. c @ [d :: u64]" and ?e1 = "NewEventQueue 2 4 (\<lambda>i. []) :: (u64, u64 list) EventQueue"
  have "go_rem (route 5) 2 = 1" by (simp add: route_def go_rem_def)
  moreover have "eq_partitions ?e1 = [newPartition 0 4 [], newPartition 1 4 []]" "eq_count ?e1 = 2"
    by (simp_all add: NewEventQueue_def upt_conv_Cons)
  ultimately obtain e2 where e2: "routerTransformer id 5 ?e1 = Some (Inr e2)" and p: "pn_channel (eq_partitions e2 ! 1) = [5]" "length (eq_partitions e2) = 2"
    by (simp add: routerTransformer_def Push_def newPartition_def Let_def)
  then obtain e3 where e3: "consume_next ?C 1 e2 = Some e3" "pn_channel (eq_partitions e3 ! 1) = []" by (simp add: consume_next_def)
  have "queue_run id ?C ?e1 ([] @ [5]) e3"
    by (rule queue_run.consumed [OF queue_run.pushed [OF queue_run.start e2] e3(1)])
  then have "\<exists>taken. filter (\<lambda>d. unat (id d) mod 2 = 1) [5] = taken @ pn_channel (eq_partitions e3 ! 1) \<and> PartitionContexts e3 ! 1 = fold ?C taken []"
    using partitions_consume_in_order [of id ?C 2 4 "\<lambda>i. []" "[5]" e3] by (auto dest!: spec [where x = 1])
  then show ?thesis using e2 e3 by (auto simp: Let_def)
qed

end
