(* ===== verification/Ztunnel_Source.thy ===== *)
theory Ztunnel_Source
  imports Ztunnel_Collector
begin

text \<open>
  Where the identities of ztunnel connections come from: the probe on ztunnel itself
  (\<^verbatim>\<open>ztunnel_identity_source.go\<close>, \<^verbatim>\<open>HandleCompactEvent\<close> of \<^verbatim>\<open>ztunnel_identity_decode.go\<close>), with offsets that are resolved,
  calibrated or given up, and the access log of ztunnel (\<^verbatim>\<open>ztunnel_accesslog.go\<close>) that is read when the probe
  does not cover everything. What comes from outside is an argument: the offsets found in the binary,
  the memory of ztunnel, whether the kernel map accepts an update, and the decoded JSON lines.
\<close>

section \<open>The identity source\<close>

definition with_source ::
  "('l ztunnelIdentitySource \<Rightarrow> 'l ztunnelIdentitySource) \<Rightarrow> ('a, 'i, 's, 'l) ztunnel_world \<Rightarrow> ('a, 'i, 's, 'l) ztunnel_world" where
  "with_source f = with_collector (\<lambda>z. z\<lparr>col_identitySource := f (col_identitySource z)\<rparr>)"

abbreviation source_of :: "('a, 'i, 's, 'l) ztunnel_world \<Rightarrow> 'l ztunnelIdentitySource" where
  "source_of w \<equiv> col_identitySource (zw_collector w)"

definition ZTunnelIdentityDecodeFailureLimit :: nat where "ZTunnelIdentityDecodeFailureLimit = 50"

definition pushOffsetsConfig :: "bool \<Rightarrow> Offsets \<Rightarrow> 'l ztunnelIdentitySource \<Rightarrow> 'l ztunnelIdentitySource" where
  "pushOffsetsConfig updateOk offsets s =
     (if sint (ids_pid s) \<le> 0 \<or> \<not> updateOk then s else s\<lparr>ids_offsetsConfig := (ids_offsetsConfig s)(ids_pid s \<mapsto> offsets)\<rparr>)"

definition adopt :: "bool \<Rightarrow> Offsets \<Rightarrow> 'l ztunnelIdentitySource \<Rightarrow> 'l ztunnelIdentitySource \<times> bool" where
  "adopt updateOk offsets s =
     (if of_Window offsets > int ZTunnelConnectionResultWindow then (s, False)
      else (pushOffsetsConfig updateOk offsets (s\<lparr>ids_decoder := Some offsets, ids_consecutiveFails := 0\<rparr>),
            of_SourcePrincipal offsets \<noteq> OffsetAbsent))"

definition Prepare :: "bool \<Rightarrow> Offsets option \<Rightarrow> u32 \<Rightarrow> 'l ztunnelIdentitySource \<Rightarrow> 'l ztunnelIdentitySource \<times> bool" where
  "Prepare updateOk resolved pid s =
     (let s1 = s\<lparr>ids_pid := pid\<rparr> in
      case resolved of
        None \<Rightarrow> (s1\<lparr>ids_calibrator := Some (newZTunnelOffsetCalibrator ZTunnelConnectionResultWindow)\<rparr>, False)
      | Some offsets \<Rightarrow> adopt updateOk offsets s1)"

text \<open>The flag that the tailer was started, and the time before which its lines are ignored.\<close>

definition startAccessLogTailer :: "('a, 'i, 's, 'l) ztunnel_world \<Rightarrow> ('a, 'i, 's, 'l) ztunnel_world" where
  "startAccessLogTailer w = with_collector (\<lambda>z. if col_accessLogTailerStarted z then z
     else z\<lparr>col_accessLogTailerStarted := True, col_accessLogBacklogCutoff := Some (zw_now w - 30 * second)\<rparr>) w"

definition detachProbe :: "'l ztunnelIdentitySource \<Rightarrow> 'l ztunnelIdentitySource" where
  "detachProbe s = s\<lparr>ids_probeLinks := 0\<rparr>"

definition downgrade :: "('a, 'i, 's, 'l) ztunnel_world \<Rightarrow> ('a, 'i, 's, 'l) ztunnel_world" where
  "downgrade w = (if ids_downgraded (source_of w) then w
     else startAccessLogTailer (with_source (\<lambda>s. detachProbe (s\<lparr>ids_downgraded := True\<rparr>)) w))"

definition setProbeLinks :: "nat \<Rightarrow> 'l ztunnelIdentitySource \<Rightarrow> 'l ztunnelIdentitySource" where
  "setProbeLinks links s = s\<lparr>ids_probeLinks := links\<rparr>"

definition prepareIdentityProbe ::
  "bool \<Rightarrow> Offsets option \<Rightarrow> u32 \<Rightarrow> ('a, 'i, 's, 'l) ztunnel_world \<Rightarrow> ('a, 'i, 's, 'l) ztunnel_world" where
  "prepareIdentityProbe updateOk resolved pid w =
     (case Prepare updateOk resolved pid (source_of w) of
        (s, coversEverything) \<Rightarrow>
          let w1 = with_source (\<lambda>_. s) w in if coversEverything then w1 else startAccessLogTailer w1)"

text \<open>What \<^verbatim>\<open>collectZTunnelProcess\<close> does for the identities of a ztunnel it found; \<open>links\<close> is the number of probes that attach.\<close>

definition collect_identities ::
  "bool \<Rightarrow> bool \<Rightarrow> Offsets option \<Rightarrow> u32 \<Rightarrow> nat \<Rightarrow> ('a, 'i, 's, 'l) ztunnel_world \<Rightarrow> ('a, 'i, 's, 'l) ztunnel_world" where
  "collect_identities enabled updateOk resolved pid links w =
     (if \<not> enabled then startAccessLogTailer w
      else let w1 = with_source (setProbeLinks links) (prepareIdentityProbe updateOk resolved pid w) in
        if links = 0 then startAccessLogTailer w1 else w1)"

section \<open>Events of the probe\<close>

definition note_source_seen ::
  "('a, 'i, 's, 'l) ztunnel_caches \<Rightarrow> string \<Rightarrow> ('a, 'i, 's, 'l) ztunnel_world \<Rightarrow> ('a, 'i, 's, 'l) ztunnel_world" where
  "note_source_seen X key w = with_collector (\<lambda>z. z\<lparr>col_accessLogSeenSrcs :=
     ex_set (zx_seen X) (zw_now w) key () ZTunnelSrcOnlyMappingExpireDuration (col_accessLogSeenSrcs z)\<rparr>) w"

text \<open>A mapping for a source that has none yet.\<close>

definition fill_mapping ::
  "('a, 'i, 's, 'l) ztunnel_caches \<Rightarrow> string \<Rightarrow> string \<Rightarrow> u16 \<Rightarrow> ztunnelMappingSource \<Rightarrow> ('a, 'i, 's, 'l) ztunnel_world \<Rightarrow> ('a, 'i, 's, 'l) ztunnel_world" where
  "fill_mapping X key podIP podPort src w =
     (if ex_get (zx_addr X) (col_ipMappingCache (zw_collector w)) (zw_now w) key \<noteq> None then w
      else cache_mapping X key \<lparr>lb_IP = podIP, lb_Port = podPort, lb_From = ZTUNNEL_OUTBOUND_FUNC, lb_Source = src\<rparr>
        ZTunnelSrcOnlyMappingExpireDuration (with_collector (\<lambda>z. z\<lparr>col_mappingEventCount := col_mappingEventCount z + 1\<rparr>) w))"

definition apply_sample ::
  "('a, 'i, 's, 'l) ztunnel_caches \<Rightarrow> string list \<Rightarrow> ztunnelProbeSample \<Rightarrow>
     ('v, 'b) ConnectionManager \<times> ('a, 'i, 's, 'l) ztunnel_world \<Rightarrow> ('v, 'b) ConnectionManager \<times> ('a, 'i, 's, 'l) ztunnel_world" where
  "apply_sample X order sample = (\<lambda>(c, w).
     if \<not> ps_DirectionKnown sample \<or> ps_Outbound sample
     then let w1 = (if ps_MutualTLS sample \<or> \<not> ps_DirectionKnown sample
                    then cacheDstIdentity X (ps_SrcIP sample) (uint (ps_SrcPort sample)) (ps_Destination sample) w else w);
              key = buildSrcOnlyCacheKey (ps_SrcIP sample) (uint (ps_SrcPort sample));
              w2 = note_source_seen X key w1;
              w3 = (if ps_DstIP sample \<noteq> [] then fill_mapping X key (ps_DstIP sample) (ps_DstPort sample) sourceRecordInternal w2 else w2)
          in retroResolve X order (ps_SrcIP sample) (ps_SrcPort sample) (c, w3)
     else if ps_MutualTLS sample then (c, cachePeerIdentity X (ps_SrcIP sample) (ps_Source sample) w) else (c, w))"

definition realDestinationFor :: "('a, 'i, 's, 'l) ztunnel_caches \<Rightarrow> ('a, 'i, 's, 'l) ztunnel_world \<Rightarrow> string \<Rightarrow> u16 \<Rightarrow> string" where
  "realDestinationFor X w srcIP srcPort =
     (case ex_get (zx_addr X) (col_ipMappingCache (zw_collector w)) (zw_now w) (buildSrcOnlyCacheKey srcIP (uint srcPort)) of
        None \<Rightarrow> [] | Some a \<Rightarrow> if lb_Source a = sourceRecordInternal then [] else lb_IP a)"

definition calibrate ::
  "('a, 'i, 's, 'l) ztunnel_caches \<Rightarrow> bool \<Rightarrow> u8 list \<Rightarrow> memory_reader \<Rightarrow> ('a, 'i, 's, 'l) ztunnel_world \<Rightarrow> ('a, 'i, 's, 'l) ztunnel_world" where
  "calibrate X updateOk window mem w = (case ids_calibrator (source_of w) of
      None \<Rightarrow> w
    | Some calibrator \<Rightarrow>
        (case Observe (zx_strings X) window mem (col_workloadIdentities (zw_collector w)) (realDestinationFor X w)
               (calibrator, ids_strings (source_of w)) of
           (offsets, calibrator', strs) \<Rightarrow>
             let w1 = with_source (\<lambda>s. s\<lparr>ids_calibrationTries := ids_calibrationTries s + 1, ids_calibrator := Some calibrator', ids_strings := strs\<rparr>) w
             in case offsets of
                  None \<Rightarrow> if Exhausted calibrator' then downgrade w1 else w1
                | Some ofs \<Rightarrow>
                    (case adopt updateOk ofs (source_of w1) of
                       (s, covers) \<Rightarrow> let w2 = with_source (\<lambda>_. s) w1 in if covers then w2 else startAccessLogTailer w2)))"

text \<open>A failed decoding is counted, and too many of them in a row end the path.\<close>

definition decode_failed :: "('a, 'i, 's, 'l) ztunnel_world \<Rightarrow> ('a, 'i, 's, 'l) ztunnel_world" where
  "decode_failed w =
     (let w1 = with_source (\<lambda>s. s\<lparr>ids_decodeFailures := ids_decodeFailures s + 1, ids_consecutiveFails := ids_consecutiveFails s + 1\<rparr>) w in
      if ids_consecutiveFails (source_of w1) \<ge> ZTunnelIdentityDecodeFailureLimit then downgrade w1 else w1)"

definition decode_done :: "('a, 'i, 's, 'l) ztunnel_world \<Rightarrow> ('a, 'i, 's, 'l) ztunnel_world" where
  "decode_done w = with_source (\<lambda>s. s\<lparr>ids_consecutiveFails := 0, ids_decoded := ids_decoded s + 1\<rparr>) w"

definition HandleEvent ::
  "('a, 'i, 's, 'l) ztunnel_caches \<Rightarrow> bool \<Rightarrow> (u32 \<Rightarrow> memory_reader) \<Rightarrow> string list \<Rightarrow> ZTunnelConnectionResultEvent \<Rightarrow>
     ('v, 'b) ConnectionManager \<times> ('a, 'i, 's, 'l) ztunnel_world \<Rightarrow> ('v, 'b) ConnectionManager \<times> ('a, 'i, 's, 'l) ztunnel_world" where
  "HandleEvent X updateOk mem order e = (\<lambda>(c, w).
     let w1 = with_source (\<lambda>s. s\<lparr>ids_events := ids_events s + 1\<rparr>) w in
     if ids_downgraded (source_of w1) then (c, w1)
     else case ids_decoder (source_of w1) of
       None \<Rightarrow> (c, calibrate X updateOk (zr_Data e) (mem (zr_PID e)) w1)
     | Some offsets \<Rightarrow>
         (case Decode (zx_strings X) offsets (zr_Data e) (mem (zr_PID e)) (ids_strings (source_of w1)) of
            (sample, strs) \<Rightarrow>
              let w2 = with_source (\<lambda>s. s\<lparr>ids_strings := strs\<rparr>) w1 in
              (case sample of None \<Rightarrow> (c, decode_failed w2) | Some smp \<Rightarrow> apply_sample X order smp (c, decode_done w2))))"

definition HandleCompactEvent ::
  "('a, 'i, 's, 'l) ztunnel_caches \<Rightarrow> (u32 \<Rightarrow> memory_reader) \<Rightarrow> string list \<Rightarrow> ZTunnelConnectionResultCompactEvent \<Rightarrow>
     ('v, 'b) ConnectionManager \<times> ('a, 'i, 's, 'l) ztunnel_world \<Rightarrow> ('v, 'b) ConnectionManager \<times> ('a, 'i, 's, 'l) ztunnel_world" where
  "HandleCompactEvent X mem order e = (\<lambda>(c, w).
     let w1 = with_source (\<lambda>s. s\<lparr>ids_events := ids_events s + 1\<rparr>) w in
     if ids_downgraded (source_of w1) then (c, w1)
     else case decodeCompact (zx_strings X)
            (case ids_decoder (source_of w1) of None \<Rightarrow> False | Some d \<Rightarrow> of_SecurityPolicy d \<noteq> OffsetAbsent)
            e (mem (zc_PID e)) (ids_strings (source_of w1)) of
       (sample, strs) \<Rightarrow>
         let w2 = with_source (\<lambda>s. s\<lparr>ids_strings := strs\<rparr>) w1 in
         (case sample of
            None \<Rightarrow> (c, if compactShippedIdentityPointer e then decode_failed w2 else w2)
          | Some smp \<Rightarrow> apply_sample X order smp (c, decode_done w2)))"

section \<open>The access log\<close>

definition newline :: char where "newline = CHR 0x0A"

text \<open>
  \<^verbatim>\<open>bufio.Reader.ReadString\<close> on what the file has: the line with its end, what is left, and whether the end of
  the file came first. In that case everything that was left is returned and is no longer in the reader.
\<close>

definition ReadString :: "string \<Rightarrow> string \<times> string \<times> bool" where
  "ReadString buf = (let line = takeWhile (\<lambda>c. c \<noteq> newline) buf in
     if length line < length buf then (line @ [newline], drop (Suc (length line)) buf, False) else (buf, [], True))"

text \<open>The bytes consumed, the state after the lines, and what is left in the reader.\<close>

function drainReader :: "(string \<Rightarrow> 'st \<Rightarrow> 'st) \<Rightarrow> string \<Rightarrow> 'st \<Rightarrow> nat \<times> 'st \<times> string" where
  "drainReader handle buf st =
     (case ReadString buf of (line, rest, eof) \<Rightarrow>
        let st' = (if line \<noteq> [] \<and> last line = newline then handle line st else st) in
        if eof then (length line, st', rest)
        else (case drainReader handle rest st' of (n, st'', rest') \<Rightarrow> (length line + n, st'', rest')))"
  by auto

termination
  by (relation "measure (\<lambda>(_, buf, _). length buf)") (auto simp: ReadString_def Let_def split: if_splits)

declare drainReader.simps [simp del]

definition extractLogField :: "string \<Rightarrow> string \<Rightarrow> string" where
  "extractLogField s key = (case str_cut key s of None \<Rightarrow> []
     | Some (_, rest) \<Rightarrow> takeWhile (\<lambda>c. c \<noteq> CHR '' '' \<and> c \<noteq> CHR 0x09) rest)"

record ztunnelAccessLogFields =
  lf_srcAddr :: string
  lf_podAddr :: string
  lf_direction :: string
  lf_message :: string
  lf_dstCluster :: string
  lf_dstIdentity :: string
  lf_srcCluster :: string
  lf_srcIdentity :: string

text \<open>
  The JSON decoders give the string fields of an object, empty when a field is missing or is no string;
  \<open>None\<close> is text that does not decode. \<open>le_parseTime\<close> is \<^verbatim>\<open>time.Parse\<close> with the format of the log.
\<close>

record log_env =
  le_jsonObject :: "string \<Rightarrow> (string \<Rightarrow> string) option"
  le_jsonStrings :: "string \<Rightarrow> (string \<Rightarrow> string) option"
  le_parseTime :: "string \<Rightarrow> int option"

definition msgConnectionComplete :: string where "msgConnectionComplete = ''connection complete''"
definition msgConnectionOpened :: string where "msgConnectionOpened = ''connection opened''"

definition is_space :: "char \<Rightarrow> bool" where
  "is_space c \<longleftrightarrow> c = CHR '' '' \<or> (9 \<le> (of_char c :: nat) \<and> (of_char c :: nat) \<le> 13)"

definition unquote :: "string \<Rightarrow> string" where
  "unquote s = str_trim (\<lambda>c. c = CHR 0x22) s"

definition parseZTunnelAccessLogFields :: "log_env \<Rightarrow> string \<Rightarrow> ztunnelAccessLogFields option" where
  "parseZTunnelAccessLogFields env payload =
     (if take 1 (dropWhile is_space payload) = ''{''
      then map_option (\<lambda>m.
        \<lparr>lf_srcAddr = m ''src.addr'', lf_podAddr = (if m ''dst.hbone_addr'' = [] then m ''dst.addr'' else m ''dst.hbone_addr''),
         lf_direction = m ''direction'', lf_message = m ''message'', lf_dstCluster = m ''dst.cluster'',
         lf_dstIdentity = m ''dst.identity'', lf_srcCluster = m ''src.cluster'', lf_srcIdentity = m ''src.identity''\<rparr>)
        (le_jsonObject env payload)
      else if \<not> str_contains payload (CHR 0x09 # ''access'' @ [CHR 0x09]) then None
      else let pod = extractLogField payload ''dst.hbone_addr='' in Some
        \<lparr>lf_srcAddr = extractLogField payload ''src.addr='',
         lf_podAddr = (if pod = [] then extractLogField payload ''dst.addr='' else pod),
         lf_direction = unquote (extractLogField payload ''direction=''),
         lf_message = (if str_contains payload msgConnectionComplete then msgConnectionComplete
           else if str_contains payload msgConnectionOpened then msgConnectionOpened else []),
         lf_dstCluster = unquote (extractLogField payload ''dst.cluster=''),
         lf_dstIdentity = unquote (extractLogField payload ''dst.identity=''),
         lf_srcCluster = unquote (extractLogField payload ''src.cluster=''),
         lf_srcIdentity = unquote (extractLogField payload ''src.identity='')\<rparr>)"

text \<open>The time stamp and the payload of a line in one of the two formats on disk.\<close>

definition log_payload :: "log_env \<Rightarrow> string \<Rightarrow> (string \<times> string) option" where
  "log_payload env line0 =
     (let line = str_trim_right (\<lambda>c. c = newline) line0 in
      if take 1 line = ''{''
      then map_option (\<lambda>m. (m ''time'', str_trim_right (\<lambda>c. c = newline) (m ''log''))) (le_jsonStrings env line)
      else let parts = str_splitN (CHR '' '') 4 line in
        if length parts < 4 \<or> parts ! 2 \<noteq> ''F'' then None else Some (parts ! 0, parts ! 3))"

definition is_backlog :: "log_env \<Rightarrow> string \<Rightarrow> int option \<Rightarrow> bool" where
  "is_backlog env stamp cutoff \<longleftrightarrow> (case (cutoff, le_parseTime env stamp) of (Some t, Some ts) \<Rightarrow> ts < t | _ \<Rightarrow> False)"

text \<open>An outbound line: the identity of the destination, and the mapping when there is none.\<close>

definition outbound_line ::
  "('a, 'i, 's, 'l) ztunnel_caches \<Rightarrow> string list \<Rightarrow> ztunnelAccessLogFields \<Rightarrow>
     ('v, 'b) ConnectionManager \<times> ('a, 'i, 's, 'l) ztunnel_world \<Rightarrow> ('v, 'b) ConnectionManager \<times> ('a, 'i, 's, 'l) ztunnel_world" where
  "outbound_line X order f = (\<lambda>(c, w).
     if lf_direction f \<noteq> ''outbound'' \<or> lf_srcAddr f = [] \<or> lf_podAddr f = [] then (c, w)
     else if lf_message f \<noteq> msgConnectionComplete \<and> lf_message f \<noteq> msgConnectionOpened then (c, w)
     else case (parseZTunnelAddress (lf_srcAddr f), parseZTunnelAddress (lf_podAddr f)) of
       (Some (srcIP, sp), Some (podIP, pp)) \<Rightarrow>
         if podIP = [] \<or> has_prefix podIP ''127.'' then (c, w)
         else let key = buildSrcOnlyCacheKey srcIP sp;
                  w1 = with_collector (\<lambda>z. z\<lparr>col_accessLogParsedCount := col_accessLogParsedCount z + 1\<rparr>) w;
                  w2 = cacheDstIdentity X srcIP sp (identityFromAccessLog (lf_dstCluster f) (lf_dstIdentity f)) w1;
                  w3 = fill_mapping X key podIP (word_of_int pp) sourceAccessLog (note_source_seen X key w2)
              in retroResolve X order srcIP (word_of_int sp) (c, w3)
     | _ \<Rightarrow> (c, w))"

definition handleAccessLogLine ::
  "('a, 'i, 's, 'l) ztunnel_caches \<Rightarrow> log_env \<Rightarrow> string list \<Rightarrow> string \<Rightarrow>
     ('v, 'b) ConnectionManager \<times> ('a, 'i, 's, 'l) ztunnel_world \<Rightarrow> ('v, 'b) ConnectionManager \<times> ('a, 'i, 's, 'l) ztunnel_world" where
  "handleAccessLogLine X env order line = (\<lambda>(c, w).
     case log_payload env line of
       None \<Rightarrow> (c, w)
     | Some (stamp, payload) \<Rightarrow>
         if payload = [] then (c, w)
         else if is_backlog env stamp (col_accessLogBacklogCutoff (zw_collector w))
         then (c, with_collector (\<lambda>z. z\<lparr>col_accessLogBacklogSkipped := col_accessLogBacklogSkipped z + 1\<rparr>) w)
         else case parseZTunnelAccessLogFields env payload of
           None \<Rightarrow> (c, w)
         | Some f \<Rightarrow>
             if lf_direction f = ''inbound''
             then (case parseZTunnelAddress (lf_srcAddr f) of
                     Some (srcIP, _) \<Rightarrow> if srcIP = [] then (c, w)
                       else (c, cachePeerIdentity X srcIP (identityFromAccessLog (lf_srcCluster f) (lf_srcIdentity f)) w)
                   | None \<Rightarrow> (c, w))
             else outbound_line X order f (c, w))"

section \<open>The reader of the access log\<close>

text \<open>
  The log files of the node: the matches of a pattern in their order, the modification time and the file
  behind a path when it can be stated, and what each file holds. A file that is open stays readable under
  its number after its path was renamed.
\<close>

record log_files =
  lfs_glob :: "string \<Rightarrow> string list"
  lfs_modTime :: "string \<Rightarrow> int option"
  lfs_inode :: "string \<Rightarrow> nat option"
  lfs_data :: "nat \<Rightarrow> string"

definition newestMatch :: "log_files \<Rightarrow> string \<Rightarrow> string" where
  "newestMatch fs pattern = fst (foldl (\<lambda>(newest, newestMod) m. case lfs_modTime fs m of
       None \<Rightarrow> (newest, newestMod)
     | Some t \<Rightarrow> if newest = [] \<or> newestMod < t then (m, t) else (newest, newestMod)) ([], 0) (lfs_glob fs pattern))"

text \<open>\<^verbatim>\<open>filepath.Dir\<close> of a clean absolute path, and \<^verbatim>\<open>filepath.Join\<close> of it with the two patterns.\<close>

definition filepath_Dir :: "string \<Rightarrow> string" where
  "filepath_Dir p = (let d = rev (drop 1 (dropWhile (\<lambda>c. c \<noteq> CHR ''/'') (rev p))) in if d = [] then ''/'' else d)"

definition scopedGlobForNewest :: "string \<Rightarrow> string" where
  "scopedGlobForNewest newestLogFile =
     (if newestLogFile = [] then []
      else let d = filepath_Dir (filepath_Dir newestLogFile) in (if d = ''/'' then [] else d) @ ''/*/*.log'')"

definition resolveAccessLogGlob :: "log_files \<Rightarrow> string \<Rightarrow> string" where
  "resolveAccessLogGlob fs podsGlob =
     (let scoped = scopedGlobForNewest (newestMatch fs podsGlob) in if scoped \<noteq> [] then scoped else podsGlob)"

text \<open>
  The variables of the goroutine: the path it follows, the file that is open with the position up to which it
  was read (\<open>None\<close> before the first one, a closed file is one that failed to be replaced), and the bytes counted.
\<close>

record tailer =
  tl_current :: string
  tl_file :: "(nat \<times> bool) option"
  tl_position :: nat
  tl_offset :: nat

definition new_tailer :: tailer where
  "new_tailer = \<lparr>tl_current = [], tl_file = None, tl_position = 0, tl_offset = 0\<rparr>"

text \<open>The unread bytes of the open file are read; a closed file gives nothing.\<close>

definition drain_file :: "(string \<Rightarrow> 'st \<Rightarrow> 'st) \<Rightarrow> log_files \<Rightarrow> tailer \<Rightarrow> 'st \<Rightarrow> tailer \<times> 'st" where
  "drain_file handle fs t st = (case tl_file t of
      Some (i, True) \<Rightarrow>
        (case drainReader handle (drop (tl_position t) (lfs_data fs i)) st of
           (n, st', _) \<Rightarrow> (t\<lparr>tl_position := tl_position t + n, tl_offset := tl_offset t + n\<rparr>, st'))
    | _ \<Rightarrow> (t, st))"

definition must_reopen :: "log_files \<Rightarrow> string \<Rightarrow> tailer \<Rightarrow> bool" where
  "must_reopen fs latest t \<longleftrightarrow> (case tl_file t of
      None \<Rightarrow> True
    | Some (i, opened) \<Rightarrow> latest \<noteq> tl_current t \<or>
        (case lfs_inode fs latest of None \<Rightarrow> False | Some j \<Rightarrow> \<not> opened \<or> j \<noteq> i))"

text \<open>A file that shrank is read from its beginning.\<close>

definition check_truncated :: "log_files \<Rightarrow> tailer \<Rightarrow> tailer" where
  "check_truncated fs t = (case tl_file t of
      Some (i, True) \<Rightarrow> if length (lfs_data fs i) < tl_offset t then t\<lparr>tl_position := 0, tl_offset := 0\<rparr> else t
    | _ \<Rightarrow> t)"

definition set_following :: "bool \<Rightarrow> ('a, 'i, 's, 'l) ztunnel_world \<Rightarrow> ('a, 'i, 's, 'l) ztunnel_world" where
  "set_following b = with_collector (\<lambda>z. z\<lparr>col_accessLogFollowing := b\<rparr>)"

text \<open>One tick of the poll.\<close>

definition tailer_tick ::
  "('a, 'i, 's, 'l) ztunnel_caches \<Rightarrow> log_env \<Rightarrow> string list \<Rightarrow> string \<Rightarrow> log_files \<Rightarrow>
     tailer \<times> ('v, 'b) ConnectionManager \<times> ('a, 'i, 's, 'l) ztunnel_world \<Rightarrow>
     tailer \<times> ('v, 'b) ConnectionManager \<times> ('a, 'i, 's, 'l) ztunnel_world" where
  "tailer_tick X env order podsGlob fs = (\<lambda>(t, c, w).
     if col_collectingProcess (zw_collector w) = None then (t, c, set_following False w)
     else let latest = newestMatch fs (resolveAccessLogGlob fs podsGlob);
              handle = handleAccessLogLine X env order in
       if latest = [] then (t, c, set_following False w)
       else if must_reopen fs latest t
       then (case drain_file handle fs t (c, w) of (t1, c1, w1) \<Rightarrow>
               case lfs_inode fs latest of
                 None \<Rightarrow> (t1\<lparr>tl_file := map_option (\<lambda>(i, _). (i, False)) (tl_file t1)\<rparr>, c1, w1)
               | Some i \<Rightarrow> drain_file handle fs \<lparr>tl_current = latest, tl_file = Some (i, True), tl_position = 0, tl_offset = 0\<rparr>
                             (c1, set_following True w1))
       else drain_file handle fs (check_truncated fs t) (c, w))"

end
