(* ===== verification/Ztunnel_Source_Props.thy ===== *)
theory Ztunnel_Source_Props
  imports Ztunnel_Source Ztunnel_Collector_Props
begin

text \<open>
  The identity source hands over to the access log whenever it cannot cover everything, once and for all
  when it gives up; and what the reader of the access log does with a line that is not complete yet.
\<close>

section \<open>What the operations leave alone\<close>

definition identity_state :: "('a, 'i, 's, 'l) ztunnel_world \<Rightarrow> 'l ztunnelIdentitySource \<times> bool" where
  "identity_state w = (source_of w, col_accessLogTailerStarted (zw_collector w))"

lemma identity_state_source:
  "identity_state (with_source f w) = (f (source_of w), col_accessLogTailerStarted (zw_collector w))"
  by (simp add: identity_state_def with_source_def with_collector_def)

lemma source_of_with_source [simp]: "source_of (with_source f w) = f (source_of w)"
  by (simp add: with_source_def with_collector_def)

lemma tailer_with_source [simp]:
  "col_accessLogTailerStarted (zw_collector (with_source f w)) = col_accessLogTailerStarted (zw_collector w)"
  by (simp add: with_source_def with_collector_def)

lemma identity_state_ready: "identity_state (snd (ReadyToFlushConnection X conn w)) = identity_state w"
  by (auto simp: ReadyToFlushConnection_def identity_state_def with_collector_def Let_def split: option.splits)

lemma identity_state_retro: "identity_state (snd (retroResolve X order srcIP srcPort (c, w))) = identity_state w"
  unfolding retroResolve_def RetroResolveBySrc_def
proof (induction order arbitrary: c w)
  case (Cons key order)
  show ?case
  proof (cases "\<exists>conn. cm_connections c key = Some conn \<and> retro_candidate srcIP srcPort conn")
    case False
    then show ?thesis using Cons by (auto split: option.splits)
  next
    case True
    then obtain conn where conn: "cm_connections c key = Some conn" "retro_candidate srcIP srcPort conn" by blast
    obtain conn' w' where r: "ReadyToFlushConnection X conn w = (conn', w')" by fastforce
    then have "identity_state w' = identity_state w" using identity_state_ready [of X conn w] by simp
    then show ?thesis using Cons conn r by (simp add: ready_all_def ztunnel_listener_def)
  qed
qed simp

lemma identity_state_frames [simp]:
  "identity_state (cacheDstIdentity X ip port i w) = identity_state w"
  "identity_state (cachePeerIdentity X ip i w) = identity_state w"
  "identity_state (note_source_seen X key w) = identity_state w"
  "identity_state (fill_mapping X key ip p src w) = identity_state w"
  by (auto simp: identity_state_def cacheDstIdentity_def cachePeerIdentity_def note_source_seen_def fill_mapping_def cache_mapping_def
      with_collector_def split: option.splits)

lemma identity_state_apply: "identity_state (snd (apply_sample X order smp (c, w))) = identity_state w"
  by (auto simp: apply_sample_def Let_def identity_state_retro)

lemma identity_state_outbound: "identity_state (snd (outbound_line X order f (c, w))) = identity_state w"
proof -
  have "identity_state (with_collector (\<lambda>z. z\<lparr>col_accessLogParsedCount := n z\<rparr>) w) = identity_state w" for n
    by (simp add: identity_state_def with_collector_def)
  then show ?thesis by (auto simp: outbound_line_def Let_def identity_state_retro split: option.splits)
qed

lemma identity_state_line: "identity_state (snd (handleAccessLogLine X env order line (c, w))) = identity_state w"
proof -
  have "identity_state (with_collector (\<lambda>z. z\<lparr>col_accessLogBacklogSkipped := n z\<rparr>) w) = identity_state w" for n
    by (simp add: identity_state_def with_collector_def)
  then show ?thesis by (auto simp: handleAccessLogLine_def identity_state_outbound split: option.splits)
qed

lemma startAccessLogTailer_state [simp]: "identity_state (startAccessLogTailer w) = (source_of w, True)"
  by (auto simp: startAccessLogTailer_def identity_state_def with_collector_def)

section \<open>The fallback\<close>

text \<open>
  The identities of both directions have a source: a probe that is attached, with offsets that reach the source
  side, or the reader of the access log; and a path that was given up left the reader running.
\<close>

definition covered :: "'l ztunnelIdentitySource \<times> bool \<Rightarrow> bool" where
  "covered = (\<lambda>(s, tailer). (ids_downgraded s \<longrightarrow> tailer) \<and>
     (tailer \<or> 0 < ids_probeLinks s \<and> (\<exists>ofs. ids_decoder s = Some ofs \<and> of_SourcePrincipal ofs \<noteq> OffsetAbsent)))"

definition fresh_source :: "'l ztunnelIdentitySource \<times> bool \<Rightarrow> bool" where
  "fresh_source = (\<lambda>(s, tailer). ids_downgraded s \<longrightarrow> tailer)"

lemma covered_downgrade: "covered (identity_state (downgrade w)) \<longleftrightarrow> covered (identity_state w) \<or> \<not> ids_downgraded (source_of w)"
  by (simp add: downgrade_def) (simp add: covered_def)

lemma adopt_cases:
  assumes "adopt ok ofs s = (s', covers)"
  shows "ids_downgraded s' = ids_downgraded s \<and> ids_probeLinks s' = ids_probeLinks s \<and>
    (covers \<longrightarrow> (\<exists>ofs. ids_decoder s' = Some ofs \<and> of_SourcePrincipal ofs \<noteq> OffsetAbsent))"
  using assms by (auto simp: adopt_def pushOffsetsConfig_def split: if_splits)

lemma collect_covered:
  assumes "fresh_source (identity_state w)"
  shows "covered (identity_state (collect_identities enabled ok resolved pid links w))"
proof -
  obtain s covers where p: "Prepare ok resolved pid (source_of w) = (s, covers)" by fastforce
  then have "ids_downgraded s = ids_downgraded (source_of w) \<and>
      (covers \<longrightarrow> (\<exists>ofs. ids_decoder s = Some ofs \<and> of_SourcePrincipal ofs \<noteq> OffsetAbsent))"
    using adopt_cases by (fastforce simp: Prepare_def Let_def split: option.splits)
  then show ?thesis
    using assms p by (auto simp: collect_identities_def prepareIdentityProbe_def Let_def covered_def fresh_source_def setProbeLinks_def identity_state_def
        startAccessLogTailer_def with_source_def with_collector_def)
qed


lemma identity_state_cases:
  "ids_downgraded (source_of w) = ids_downgraded (fst (identity_state w))"
  "ids_decoder (source_of w) = ids_decoder (fst (identity_state w))"
  "ids_probeLinks (source_of w) = ids_probeLinks (fst (identity_state w))"
  "col_accessLogTailerStarted (zw_collector w) = snd (identity_state w)"
  by (simp_all add: identity_state_def)

lemma covered_counters:
  assumes "\<And>s. ids_downgraded (f s) = ids_downgraded s" "\<And>s. ids_decoder (f s) = ids_decoder s" "\<And>s. ids_probeLinks (f s) = ids_probeLinks s"
  shows "covered (identity_state (with_source f w)) = covered (identity_state w)"
  using assms by (simp add: covered_def identity_state_source) (simp add: identity_state_def)

lemma covered_failed: "covered (identity_state w) \<Longrightarrow> covered (identity_state (decode_failed w))"
  by (auto simp: decode_failed_def Let_def covered_downgrade covered_counters)

lemma covered_tailer: "covered (identity_state (startAccessLogTailer w))"
  by (simp add: covered_def)

lemma covered_calibrate:
  assumes "covered (identity_state w)"
  shows "covered (identity_state (calibrate X ok window mem w))"
proof (cases "ids_calibrator (source_of w)")
  case (Some cal)
  obtain offsets cal' strs where o: "Observe (zx_strings X) window mem (col_workloadIdentities (zw_collector w)) (realDestinationFor X w)
      (cal, ids_strings (source_of w)) = (offsets, cal', strs)" by (metis prod_cases3)
  define w1 where "w1 = with_source (\<lambda>s. s\<lparr>ids_calibrationTries := Suc (ids_calibrationTries s), ids_calibrator := Some cal', ids_strings := strs\<rparr>) w"
  have w1: "covered (identity_state w1)" using assms by (simp add: w1_def covered_counters)
  show ?thesis
  proof (cases offsets)
    case None
    then show ?thesis using Some o w1 by (simp add: calibrate_def Let_def w1_def [symmetric] covered_downgrade)
  next
    case ofs: (Some ofs)
    obtain s covers where a: "adopt ok ofs (source_of w1) = (s, covers)" by fastforce
    have "covered (s, snd (identity_state w1))" if covers
      using adopt_cases [OF a] w1 that by (auto simp: covered_def identity_state_def)
    then show ?thesis using Some o ofs a
      by (simp add: calibrate_def Let_def w1_def covered_tailer identity_state_source) (simp add: covered_def)
  qed
qed (use assms in \<open>simp add: calibrate_def\<close>)

lemma covered_sample:
  assumes "covered (identity_state w)"
  shows "covered (identity_state (snd (apply_sample X order smp (c, decode_done w))))"
  using assms by (simp add: identity_state_apply decode_done_def covered_counters)

lemma covered_event:
  assumes "covered (identity_state w)"
  shows "covered (identity_state (snd (HandleEvent X ok mem order e (c, w))))"
  using assms
  by (auto simp: HandleEvent_def Let_def covered_counters covered_sample covered_failed intro!: covered_calibrate split: option.splits prod.splits)

lemma covered_compact:
  assumes "covered (identity_state w)"
  shows "covered (identity_state (snd (HandleCompactEvent X mem order e (c, w))))"
  using assms
  by (auto simp: HandleCompactEvent_def Let_def covered_counters covered_sample covered_failed split: option.splits prod.splits)

lemma covered_line:
  assumes "covered (identity_state w)"
  shows "covered (identity_state (snd (handleAccessLogLine X env order line (c, w))))"
  using assms by (simp add: identity_state_line)


section \<open>Runs\<close>

text \<open>What happens to the identities of a node, in the order in which it happens.\<close>

datatype identity_move =
    Found bool bool "Offsets option" u32 nat
  | Event bool "u32 \<Rightarrow> memory_reader" "string list" ZTunnelConnectionResultEvent
  | Compact "u32 \<Rightarrow> memory_reader" "string list" ZTunnelConnectionResultCompactEvent
  | Line "string list" string

fun identity_step ::
  "('a, 'i, 's, 'l) ztunnel_caches \<Rightarrow> log_env \<Rightarrow> identity_move \<Rightarrow>
     ('v, 'b) ConnectionManager \<times> ('a, 'i, 's, 'l) ztunnel_world \<Rightarrow> ('v, 'b) ConnectionManager \<times> ('a, 'i, 's, 'l) ztunnel_world" where
  "identity_step X env (Found enabled ok resolved pid links) (c, w) = (c, collect_identities enabled ok resolved pid links w)"
| "identity_step X env (Event ok mem order e) (c, w) = HandleEvent X ok mem order e (c, w)"
| "identity_step X env (Compact mem order e) (c, w) = HandleCompactEvent X mem order e (c, w)"
| "identity_step X env (Line order l) (c, w) = handleAccessLogLine X env order l (c, w)"

definition identity_run ::
  "('a, 'i, 's, 'l) ztunnel_caches \<Rightarrow> log_env \<Rightarrow> identity_move list \<Rightarrow>
     ('v, 'b) ConnectionManager \<times> ('a, 'i, 's, 'l) ztunnel_world \<Rightarrow> ('v, 'b) ConnectionManager \<times> ('a, 'i, 's, 'l) ztunnel_world" where
  "identity_run X env = fold (identity_step X env)"

lemma identity_run_simps [simp]:
  "identity_run X env [] = id"
  "identity_run X env (s # steps) cw = identity_run X env steps (identity_step X env s cw)"
  by (simp_all add: identity_run_def)

lemma covered_step:
  assumes "covered (identity_state (snd cw))"
  shows "covered (identity_state (snd (identity_step X env s cw)))"
proof -
  obtain c w where cw: "cw = (c, w)" by fastforce
  have "fresh_source (identity_state w)" if "covered (identity_state w)" using that by (auto simp: covered_def fresh_source_def)
  then show ?thesis
    using assms cw by (cases s) (simp_all add: covered_event covered_compact covered_line collect_covered)
qed

lemma covered_run: "covered (identity_state (snd cw)) \<Longrightarrow> covered (identity_state (snd (identity_run X env steps cw)))"
  by (induction steps arbitrary: cw) (simp_all add: covered_step)

text \<open>A path that was given up: events only count, and nothing touches the links.\<close>

lemma given_up_event:
  assumes "ids_downgraded (source_of w)"
  shows "HandleEvent X ok mem order e (c, w) = (c, with_source (\<lambda>s. s\<lparr>ids_events := ids_events s + 1\<rparr>) w)"
    and "HandleCompactEvent X mem order e' (c, w) = (c, with_source (\<lambda>s. s\<lparr>ids_events := ids_events s + 1\<rparr>) w)"
  using assms by (simp_all add: HandleEvent_def HandleCompactEvent_def Let_def)

fun found_step :: "identity_move \<Rightarrow> bool" where
  "found_step (Found enabled ok resolved pid links) \<longleftrightarrow> True"
| "found_step s \<longleftrightarrow> False"

lemma given_up_step:
  assumes "ids_downgraded (source_of (snd cw))"
  shows "ids_downgraded (source_of (snd (identity_step X env s cw))) \<and>
    (\<not> found_step s \<longrightarrow> ids_probeLinks (source_of (snd (identity_step X env s cw))) = ids_probeLinks (source_of (snd cw)))"
proof -
  obtain c w where cw: "cw = (c, w)" by fastforce
  have "ids_downgraded (source_of (collect_identities enabled ok resolved pid links w))" for enabled ok resolved pid links
    using assms cw
    by (auto simp: collect_identities_def prepareIdentityProbe_def Prepare_def adopt_def pushOffsetsConfig_def startAccessLogTailer_def
        with_source_def with_collector_def setProbeLinks_def Let_def split: option.splits prod.splits)
  then show ?thesis
    using assms cw by (cases s) (simp_all add: given_up_event identity_state_cases identity_state_line identity_state_source)
qed

lemma given_up_run:
  assumes "ids_downgraded (source_of (snd cw))"
  shows "ids_downgraded (source_of (snd (identity_run X env steps cw))) \<and>
    (list_all (\<lambda>s. \<not> found_step s) steps \<longrightarrow>
     ids_probeLinks (source_of (snd (identity_run X env steps cw))) = ids_probeLinks (source_of (snd cw)))"
  using assms
proof (induction steps arbitrary: cw)
  case (Cons s steps)
  then show ?case using Cons.IH [of "identity_step X env s cw"] given_up_step [OF Cons.prems, of X env s] by auto
qed simp



definition example_env :: log_env where
  "example_env = \<lparr>le_jsonObject = (\<lambda>_. None), le_jsonStrings = (\<lambda>_. None), le_parseTime = (\<lambda>_. None)\<rparr>"


text \<open>
  Giving up the probe detaches it, but finding a ztunnel again attaches it to the new one: the links stay,
  whatever events and lines follow, because every later event is only counted and the decision to give up,
  which would close them, was already made.
\<close>

theorem probe_comes_back_after_giving_up:
  assumes "ids_downgraded (source_of w)" and "0 < links" and "list_all (\<lambda>s. \<not> found_step s) steps"
    and "identity_run X env steps (c, collect_identities True ok resolved pid links w) = (c', w')"
  shows "ids_probeLinks (source_of w') = links \<and> ids_downgraded (source_of w')"
proof -
  have "ids_downgraded (source_of (collect_identities True ok resolved pid links w))"
    using given_up_step [of "(c, w)" X env "Found True ok resolved pid links"] assms(1) by simp
  moreover have "ids_probeLinks (source_of (collect_identities True ok resolved pid links w)) = links"
    using assms(2) by (simp add: collect_identities_def setProbeLinks_def Let_def)
  ultimately show ?thesis
    using given_up_run [of "(c, collect_identities True ok resolved pid links w)" X env steps] assms(3, 4) by simp
qed

theorem probe_comes_back_after_giving_up_witness:
  "ids_probeLinks (source_of (collect_identities True True None 8 2 (downgrade example_world))) = 2"
proof -
  have "ids_downgraded (source_of (downgrade example_world))"
    by (simp add: downgrade_def startAccessLogTailer_def with_source_def with_collector_def detachProbe_def)
  from probe_comes_back_after_giving_up [OF this, of 2 "[]" example_caches example_env
      "NewConnectionManager list_cache list_cache 5 :: ((u32 \<times> ProcessVerdict \<times> int) list, (string \<times> bool \<times> int) list) ConnectionManager"
      True None 8, OF _ _ prod.collapse [symmetric]]
  show ?thesis by simp
qed

section \<open>Lines of the access log\<close>

text \<open>The lines of a text that are complete, each with its end.\<close>

fun complete_lines :: "string \<Rightarrow> string \<Rightarrow> string list" where
  "complete_lines begun [] = []"
| "complete_lines begun (c # cs) = (if c = newline then (begun @ [c]) # complete_lines [] cs else complete_lines (begun @ [c]) cs)"

lemma complete_lines_line:
  assumes "newline \<notin> set line"
  shows "complete_lines begun (line @ cs) = complete_lines (begun @ line) cs"
  using assms by (induction line arbitrary: begun) auto

lemma complete_lines_append:
  assumes "old = [] \<or> last old = newline"
  shows "complete_lines begun (old @ new) = complete_lines begun old @ complete_lines (if old = [] then begun else []) new"
  using assms
proof (induction begun old rule: complete_lines.induct)
  case (2 begun c cs)
  then show ?case by (cases cs) auto
qed simp

lemma drainReader_lines:
  "drainReader handle buf st = (length buf, fold handle (complete_lines [] buf) st, [])"
proof (induction handle buf st rule: drainReader.induct)
  case (1 handle buf st)
  let ?line = "takeWhile (\<lambda>c. c \<noteq> newline) buf"
  have nl: "newline \<notin> set ?line" by (auto dest: set_takeWhileD)
  show ?case
  proof (cases "length ?line < length buf")
    case True
    then obtain rest where buf: "buf = ?line @ newline # rest"
      by (metis (mono_tags, lifting) takeWhile_dropWhile_id dropWhile_eq_Nil_conv hd_dropWhile list.collapse
          append_Nil2 nat_neq_iff)
    have d: "drop (Suc (length ?line)) buf = rest" by (subst buf) simp
    have r: "ReadString buf = (?line @ [newline], rest, False)" using True d by (simp add: ReadString_def Let_def)
    have l: "complete_lines [] buf = (?line @ [newline]) # complete_lines [] rest"
      by (subst buf) (simp add: complete_lines_line [OF nl])
    have n: "length buf = Suc (length ?line + length rest)" using arg_cong [OF buf, of length] by simp
    have ih: "drainReader handle rest (handle (?line @ [newline]) st) =
        (length rest, fold handle (complete_lines [] rest) (handle (?line @ [newline]) st), [])"
      using 1 [OF r [symmetric] refl refl] by simp
    show ?thesis by (subst drainReader.simps) (simp add: r l n ih)
  next
    case False
    then have "?line = buf" by (metis length_takeWhile_le nat_less_le takeWhile_eq_take take_all)
    then have nl: "newline \<notin> set buf" using nl by metis
    then have "complete_lines [] buf = []" using complete_lines_line [of buf "[]" "[]"] by simp
    moreover have "\<not> (buf \<noteq> [] \<and> last buf = newline)" using nl by (metis last_in_set)
    ultimately show ?thesis using False by (subst drainReader.simps) (auto simp: ReadString_def Let_def)
  qed
qed


text \<open>The reader follows a file that is still the newest, and has read it up to a length.\<close>

definition following :: "log_files \<Rightarrow> string \<Rightarrow> tailer \<Rightarrow> nat \<Rightarrow> nat \<Rightarrow> bool" where
  "following fs podsGlob t i n \<longleftrightarrow> tl_current t \<noteq> [] \<and> newestMatch fs (resolveAccessLogGlob fs podsGlob) = tl_current t \<and>
     lfs_inode fs (tl_current t) = Some i \<and> tl_file t = Some (i, True) \<and> tl_position t = n \<and> tl_offset t = n"

lemma tailer_tick_following:
  assumes "following fs podsGlob t i (length old)" and "lfs_data fs i = old @ new"
    and "col_collectingProcess (zw_collector w) \<noteq> None"
  shows "tailer_tick X env order podsGlob fs (t, c, w) =
    (t\<lparr>tl_position := length (old @ new), tl_offset := length (old @ new)\<rparr>,
     fold (handleAccessLogLine X env order) (complete_lines [] new) (c, w))"
proof -
  have "check_truncated fs t = t" "\<not> must_reopen fs (tl_current t) t"
    using assms(1, 2) by (auto simp: following_def check_truncated_def must_reopen_def)
  then show ?thesis
    using assms by (auto simp: tailer_tick_def following_def drain_file_def drainReader_lines)
qed

definition example_files :: log_files where
  "example_files = \<lparr>lfs_glob = (\<lambda>_. [''/var/log/pods/istio-system_ztunnel-1/istio-proxy/0.log'']), lfs_modTime = (\<lambda>_. Some 1),
     lfs_inode = (\<lambda>_. Some 3), lfs_data = (\<lambda>_. ''ab'')\<rparr>"

definition example_tailer :: tailer where
  "example_tailer = \<lparr>tl_current = ''/var/log/pods/istio-system_ztunnel-1/istio-proxy/0.log'', tl_file = Some (3, True), tl_position = 0, tl_offset = 0\<rparr>"

lemma example_following: "following example_files pattern example_tailer 3 (length ([] :: string))"
  by (simp add: following_def example_files_def example_tailer_def newestMatch_def)

lemma example_collecting: "col_collectingProcess (zw_collector example_world) \<noteq> None"
  by (simp add: example_world_def)

text \<open>
  A poll of the access log handles exactly the lines that were completed since the last one, each once and in
  order, provided the last poll stopped at the end of a line. Then the lines of the file are the lines
  handled before and the ones handled now.
\<close>

theorem poll_handles_the_new_lines:
  assumes "following fs podsGlob t i (length old)" and "lfs_data fs i = old @ new"
    and "old = [] \<or> last old = newline" and "col_collectingProcess (zw_collector w) \<noteq> None"
  shows "\<exists>lines. tailer_tick X env order podsGlob fs (t, c, w) =
      (t\<lparr>tl_position := length (old @ new), tl_offset := length (old @ new)\<rparr>, fold (handleAccessLogLine X env order) lines (c, w)) \<and>
    complete_lines [] (old @ new) = complete_lines [] old @ lines"
  using tailer_tick_following [OF assms(1, 2, 4)] complete_lines_append [OF assms(3), of "[]" new] by (simp split: if_splits)

theorem poll_handles_the_new_lines_witness:
  "tl_position (fst (tailer_tick example_caches example_env [] ''*'' example_files
     (example_tailer, NewConnectionManager list_cache list_cache 5 :: ((u32 \<times> ProcessVerdict \<times> int) list, (string \<times> bool \<times> int) list) ConnectionManager,
      example_world))) = 2"
  using poll_handles_the_new_lines [OF example_following, of "''ab''" example_world example_caches example_env "[]" "''*''"
      "NewConnectionManager list_cache list_cache 5 :: ((u32 \<times> ProcessVerdict \<times> int) list, (string \<times> bool \<times> int) list) ConnectionManager"]
    example_collecting by (auto simp: example_files_def)

text \<open>
  A line that is only partly written when the log is polled is lost: the poll consumes its beginning
  without handling anything, and the next poll hands on only the rest of it.
\<close>

theorem torn_line_is_lost:
  assumes "following fs podsGlob t i (length old)" and "lfs_data fs i = old @ begun" and "newline \<notin> set begun"
    and "fs' = fs\<lparr>lfs_data := (lfs_data fs)(i := old @ begun @ rest @ [newline])\<rparr>" and "newline \<notin> set rest"
    and "col_collectingProcess (zw_collector w) \<noteq> None"
  shows "snd (tailer_tick X env order podsGlob fs' (tailer_tick X env order podsGlob fs (t, c, w)))
    = handleAccessLogLine X env order (rest @ [newline]) (c, w)"
proof -
  let ?t = "t\<lparr>tl_position := length (old @ begun), tl_offset := length (old @ begun)\<rparr>"
  have "complete_lines [] begun = []" using complete_lines_line [OF assms(3), of "[]" "[]"] by simp
  then have first: "tailer_tick X env order podsGlob fs (t, c, w) = (?t, c, w)"
    using tailer_tick_following [OF assms(1, 2, 6)] by simp
  have "following fs' podsGlob ?t i (length (old @ begun))"
    using assms(1, 4) by (simp add: following_def newestMatch_def resolveAccessLogGlob_def)
  from tailer_tick_following [OF this, of "rest @ [newline]" w X env order c] assms(4, 6) first
  show ?thesis using complete_lines_line [OF assms(5), of "[]" "[newline]"] by simp
qed

theorem torn_line_is_lost_witness:
  "snd (tailer_tick example_caches example_env [] ''*'' (example_files\<lparr>lfs_data := (lfs_data example_files)(3 := ''abcd'' @ [newline])\<rparr>)
     (tailer_tick example_caches example_env [] ''*'' example_files
       (example_tailer, NewConnectionManager list_cache list_cache 5 :: ((u32 \<times> ProcessVerdict \<times> int) list, (string \<times> bool \<times> int) list) ConnectionManager,
        example_world)))
   = handleAccessLogLine example_caches example_env [] (''cd'' @ [newline])
       (NewConnectionManager list_cache list_cache 5 :: ((u32 \<times> ProcessVerdict \<times> int) list, (string \<times> bool \<times> int) list) ConnectionManager, example_world)"
  using torn_line_is_lost [OF example_following _ _ refl _ example_collecting, of "''ab''" "''cd''" example_caches example_env "[]" "''*''"
      "NewConnectionManager list_cache list_cache 5 :: ((u32 \<times> ProcessVerdict \<times> int) list, (string \<times> bool \<times> int) list) ConnectionManager"]
  by (simp add: example_files_def newline_def)

end
