(* ===== verification/Kernel_Upload.thy ===== *)
theory Kernel_Upload
  imports Socket_Events
begin

text \<open>
  How the kernel programs send the bytes of a socket operation to user space
  (\<^verbatim>\<open>bpf/include/socket_data.h\<close>, \<^verbatim>\<open>bpf/include/queue.h\<close>): the bytes are cut into at most six chunks, each
  chunk is written into a scratch area of the CPU and submitted as one event. The scratch area keeps
  what the event before left in it. Sizes are natural numbers: the callers reject operations that
  transferred nothing, and no subtraction of the code goes below zero. The maps are partial functions;
  an entry that a least-recently-used map dropped is one that is not there.
\<close>

section \<open>The events and the scratch area\<close>

definition SOCKET_UPLOAD_CHUNK_LIMIT :: nat where "SOCKET_UPLOAD_CHUNK_LIMIT = 6"
definition MAX_TRANSMIT_SOCKET_READ_LENGTH :: nat where "MAX_TRANSMIT_SOCKET_READ_LENGTH = 20480"

record socket_data_sequence_t =
  sq_data_id :: u64
  sq_sequence :: u16

record socket_data_last_id_t =
  la_random_id :: u64
  la_socket_data_id :: u64

text \<open>
  \<open>us_heap\<close> is the per-CPU scratch area (\<^verbatim>\<open>rover_data_heap\<close>) in which every event is built, \<open>us_uploads\<close> what was submitted.
\<close>

record upload_state =
  us_heap :: "u8 list"
  us_sequences :: "u64 \<rightharpoonup> socket_data_sequence_t"
  us_last_ids :: "u64 \<rightharpoonup> socket_data_last_id_t"
  us_uploads :: "SocketDataUploadEvent list"

text \<open>The buffer and the array of segments are addresses, zero for a null pointer.\<close>

record upload_data_args =
  ua_start_time :: u64
  ua_end_time :: u64
  ua_con_id :: u64
  ua_random_id :: u64
  ua_socket_data_id :: u64
  ua_prev_socket_data_id :: u64
  ua_socket_data_iovec :: int
  ua_socket_data_iovlen :: nat
  ua_bytes_count :: nat
  ua_socket_data_buf :: int
  ua_data_direction :: u32
  ua_connection_protocol :: u8
  ua_connection_ssl :: bool
  ua_socket_ssl_buffer_force_unfinished :: bool
  ua_connection_skip_data_upload :: bool
  ua_socket_data_ssl :: bool

definition generate_socket_sequence :: "u64 \<Rightarrow> u64 \<Rightarrow> upload_state \<Rightarrow> u16 \<times> upload_state" where
  "generate_socket_sequence conid data_id s =
     (case us_sequences s conid of
        None \<Rightarrow> (0, s\<lparr>us_sequences := (us_sequences s)(conid \<mapsto> \<lparr>sq_data_id = data_id, sq_sequence = 0\<rparr>)\<rparr>)
      | Some sq \<Rightarrow>
          let sq' = (if sq_data_id sq \<noteq> data_id then \<lparr>sq_data_id = data_id, sq_sequence = 0\<rparr>
                     else sq\<lparr>sq_sequence := sq_sequence sq + 1\<rparr>)
          in (sq_sequence sq', s\<lparr>us_sequences := (us_sequences s)(conid \<mapsto> sq')\<rparr>))"

text \<open>
  The number of bytes copied is the size with only its eleven lowest bits; a copy that fails fills with
  zeros. The rest of the buffer of the event is what the scratch area held there, behind the 64 bytes of
  the other members.
\<close>

definition copied_size :: "nat \<Rightarrow> nat" where
  "copied_size n = unat ((of_nat n :: u64) AND 0x7ff)"

definition chunk_buffer :: "memory_image \<Rightarrow> int \<Rightarrow> nat \<Rightarrow> u8 list \<Rightarrow> u8 list" where
  "chunk_buffer mem buf n heap =
     (case probe_read mem buf n of None \<Rightarrow> replicate n 0 | Some bs \<Rightarrow> bs) @
     drop n (take MAX_TRANSMIT_SOCKET_READ_LENGTH (drop 64 heap))"

definition chunk_event ::
  "memory_image \<Rightarrow> u8 \<Rightarrow> int \<Rightarrow> nat \<Rightarrow> bool \<Rightarrow> bool \<Rightarrow> upload_data_args \<Rightarrow> u8 list \<Rightarrow> SocketDataUploadEvent" where
  "chunk_event mem index buf sz is_finished have_reduce args heap =
     \<lparr>up_Protocol0 = ua_connection_protocol args, up_HaveReduce = (if have_reduce then 1 else 0),
      up_Direction0 = ucast (ua_data_direction args), up_Finished = (if is_finished then 1 else 0),
      up_Sequence0 = ucast index, up_DataLen = of_nat sz, up_StartTime0 = ua_start_time args,
      up_EndTime0 = ua_end_time args, up_ConnectionID = ua_con_id args, up_RandomID = ua_random_id args,
      up_DataID0 = ua_socket_data_id args, up_PrevDataID0 = ua_prev_socket_data_id args,
      up_TotalSize0 = of_nat (ua_bytes_count args), up_Buffer = chunk_buffer mem buf (copied_size sz) heap\<rparr>"

definition write_heap :: "u8 list \<Rightarrow> u8 list \<Rightarrow> u8 list" where
  "write_heap bytes heap = bytes @ drop (length bytes) heap"

definition upload_chunk ::
  "memory_image \<Rightarrow> u8 \<Rightarrow> int \<Rightarrow> nat \<Rightarrow> bool \<Rightarrow> bool \<Rightarrow> upload_data_args \<Rightarrow> upload_state \<Rightarrow> upload_state" where
  "upload_chunk mem index buf bytes is_finished have_reduce args s =
     (let sz = min bytes MAX_TRANSMIT_SOCKET_READ_LENGTH in
      if sz = 0 then s
      else let e = chunk_event mem index buf sz is_finished have_reduce args (us_heap s)
           in s\<lparr>us_heap := write_heap (SocketDataUploadEvent_layout e) (us_heap s), us_uploads := us_uploads s @ [e]\<rparr>)"

section \<open>A buffer\<close>

definition buf_turn ::
  "memory_image \<Rightarrow> int \<Rightarrow> nat \<Rightarrow> upload_data_args \<Rightarrow> bool \<Rightarrow> nat \<Rightarrow> nat \<times> upload_state \<Rightarrow> nat \<times> upload_state" where
  "buf_turn mem buf dsize args force_unfinished index = (\<lambda>(already_send, s).
     let remaining = dsize - already_send;
         have_reduce = remaining > MAX_TRANSMIT_SOCKET_READ_LENGTH;
         need_send = (if have_reduce then MAX_TRANSMIT_SOCKET_READ_LENGTH else remaining);
         is_finished = (need_send + already_send \<ge> dsize \<or> index = SOCKET_UPLOAD_CHUNK_LIMIT - 1)
     in if force_unfinished \<and> need_send > 0
        then (case generate_socket_sequence (ua_con_id args) (ua_socket_data_id args) s of
                (sequence, s1) \<Rightarrow>
                  (already_send + need_send, upload_chunk mem (ucast sequence) (buf + int already_send) need_send False have_reduce args s1))
        else (already_send + need_send, upload_chunk mem (of_nat index) (buf + int already_send) need_send is_finished have_reduce args s))"

definition upload_socket_data_buf ::
  "memory_image \<Rightarrow> int \<Rightarrow> nat \<Rightarrow> upload_data_args \<Rightarrow> bool \<Rightarrow> upload_state \<Rightarrow> upload_state" where
  "upload_socket_data_buf mem buf dsize args force_unfinished s =
     snd (fold (buf_turn mem buf dsize args force_unfinished) [0..<SOCKET_UPLOAD_CHUNK_LIMIT] (0, s))"

section \<open>An array of segments\<close>

text \<open>The address and the length of a segment (\<^verbatim>\<open>struct iovec\<close>), both zero when they cannot be read.\<close>

definition read_iovec :: "memory_image \<Rightarrow> int \<Rightarrow> nat \<Rightarrow> int \<times> nat" where
  "read_iovec mem iov i = (case probe_read mem (iov + 16 * int i) 16 of
      None \<Rightarrow> (0, 0) | Some bs \<Rightarrow> (uint (le_word (take 8 bs) :: u64), unat (le_word (drop 8 bs) :: u64)))"

record iov_walk =
  iw_already_send :: nat
  iw_cur_iov_sended :: nat
  iw_iov_index :: nat
  iw_loop_count :: nat

text \<open>One expansion of \<^verbatim>\<open>UPLOAD_PER_SOCKET_DATA_IOV\<close>.\<close>

definition iov_turn ::
  "memory_image \<Rightarrow> int \<Rightarrow> nat \<Rightarrow> nat \<Rightarrow> upload_data_args \<Rightarrow> iov_walk \<times> upload_state \<Rightarrow> iov_walk \<times> upload_state" where
  "iov_turn mem iov iovlen dsize args = (\<lambda>(k, s).
     if iw_iov_index k < iovlen
     then let (base, len) = read_iovec mem iov (iw_iov_index k);
              remaining = dsize - iw_already_send k;
              need_send = remaining - iw_cur_iov_sended k;
              (need, have_reduce, k1) =
                (if iw_cur_iov_sended k + need_send > len
                 then let rest = len - iw_cur_iov_sended k in
                   if rest > MAX_TRANSMIT_SOCKET_READ_LENGTH then (MAX_TRANSMIT_SOCKET_READ_LENGTH, True, k)
                   else (rest, False, k\<lparr>iw_iov_index := iw_iov_index k + 1, iw_cur_iov_sended := 0\<rparr>)
                 else if need_send > MAX_TRANSMIT_SOCKET_READ_LENGTH then (MAX_TRANSMIT_SOCKET_READ_LENGTH, True, k)
                 else (need_send, False, k));
              is_finished = (need + iw_already_send k \<ge> dsize \<or> iw_loop_count k = SOCKET_UPLOAD_CHUNK_LIMIT - 1)
          in (k1\<lparr>iw_already_send := iw_already_send k + need, iw_loop_count := iw_loop_count k + 1\<rparr>,
              upload_chunk mem (of_nat (iw_loop_count k)) (base + int (iw_cur_iov_sended k1)) need is_finished have_reduce args s)
     else (k, s))"

definition upload_socket_data_iov ::
  "memory_image \<Rightarrow> int \<Rightarrow> nat \<Rightarrow> nat \<Rightarrow> upload_data_args \<Rightarrow> upload_state \<Rightarrow> upload_state" where
  "upload_socket_data_iov mem iov iovlen dsize args s =
     snd ((iov_turn mem iov iovlen dsize args ^^ SOCKET_UPLOAD_CHUNK_LIMIT)
       (\<lparr>iw_already_send = 0, iw_cur_iov_sended = 0, iw_iov_index = 0, iw_loop_count = 0\<rparr>, s))"

section \<open>An operation\<close>

definition upload_socket_data :: "memory_image \<Rightarrow> upload_data_args \<Rightarrow> upload_state \<Rightarrow> upload_state" where
  "upload_socket_data mem args0 s =
     (if ua_connection_protocol args0 = 0 \<or> ua_connection_ssl args0 \<noteq> ua_socket_data_ssl args0 \<or> ua_connection_skip_data_upload args0
      then s
      else let latest = us_last_ids s (ua_con_id args0);
               args = args0\<lparr>ua_prev_socket_data_id := (case latest of
                   Some la \<Rightarrow> if la_random_id la = ua_random_id args0 then la_socket_data_id la else 0 | None \<Rightarrow> 0)\<rparr>;
               s1 = (if ua_socket_data_buf args \<noteq> 0
                     then upload_socket_data_buf mem (ua_socket_data_buf args) (ua_bytes_count args) args
                            (ua_socket_ssl_buffer_force_unfinished args) s
                     else if ua_socket_data_iovec args \<noteq> 0
                     then upload_socket_data_iov mem (ua_socket_data_iovec args) (ua_socket_data_iovlen args) (ua_bytes_count args) args s
                     else s)
           in if (case latest of None \<Rightarrow> True | Some la \<Rightarrow> la_socket_data_id la \<noteq> ua_socket_data_id args)
              then s1\<lparr>us_last_ids := (us_last_ids s1)(ua_con_id args \<mapsto>
                \<lparr>la_random_id = ua_random_id args, la_socket_data_id = ua_socket_data_id args\<rparr>)\<rparr>
              else s1)"

end
