(* ===== verification/Kernel_Connection.thy ===== *)
theory Kernel_Connection
  imports Kernel_Upload
begin

text \<open>
  The connections and processes that the kernel programs track: which processes are traced
  (\<^verbatim>\<open>bpf/accesslog/process/process.c\<close>, \<^verbatim>\<open>process.h\<close>), the events for new and closed connections and the map of
  the active ones (\<^verbatim>\<open>bpf/accesslog/common/connection.h\<close>), the system calls that open and close them
  (\<^verbatim>\<open>bpf/accesslog/syscalls/connect.c\<close>, \<^verbatim>\<open>connect_conntrack.c\<close>, \<^verbatim>\<open>close.c\<close>) and the numbering of operations
  (\<^verbatim>\<open>bpf/accesslog/common/data_args.h\<close>). What a program reads from the kernel (the clock, random numbers, the
  socket behind a descriptor, whether a map has room for a new key) is an argument.
\<close>

unbundle bit_operations_syntax

section \<open>The state\<close>

definition AF_UNKNOWN :: "'a::len word" where "AF_UNKNOWN = 0xff"
definition AF_INET :: "'a::len word" where "AF_INET = 2"
definition AF_INET6 :: "'a::len word" where "AF_INET6 = 10"

definition SOCKET_OPTS_TYPE_CONNECT :: u32 where "SOCKET_OPTS_TYPE_CONNECT = 1"
definition SOCKET_OPTS_TYPE_ACCEPT :: u32 where "SOCKET_OPTS_TYPE_ACCEPT = 2"

definition CONNECTION_ROLE_TYPE_UNKNOWN :: "'a::len word" where "CONNECTION_ROLE_TYPE_UNKNOWN = 0"
definition CONNECTION_ROLE_TYPE_CLIENT :: "'a::len word" where "CONNECTION_ROLE_TYPE_CLIENT = 1"
definition CONNECTION_ROLE_TYPE_SERVER :: "'a::len word" where "CONNECTION_ROLE_TYPE_SERVER = 2"

record active_connection_t =
  kc_random_id :: u64
  kc_pid :: u32
  kc_sockfd :: u32
  kc_role :: u32
  kc_socket_family :: u32
  kc_protocol :: u8
  kc_ssl :: bool
  kc_skip_data_upload :: bool

record connect_track_remote =
  tr_iph :: u64
  tr_ipl :: u64
  tr_port :: u16

text \<open>Addresses of kernel and user objects are integers, zero for a null pointer.\<close>

record connect_args_t =
  cn_fd :: u32
  cn_has_remote :: bool
  cn_addr :: int
  cn_sock :: int
  cn_start_nacs :: u64
  cn_remote :: connect_track_remote

record accept_args_t =
  ap_addr :: int
  ap_socket :: int
  ap_start_nacs :: u64

record sock_close_args_t =
  cz_fd :: u32
  cz_start_nacs :: u64

record sock_data_args_t =
  da_fd :: u32
  da_is_sock_event :: bool
  da_iovlen :: nat
  da_msg_len :: int
  da_start_nacs :: u64
  da_buf :: int
  da_iovec :: int
  da_data_id :: u64
  da_excepted_size :: u32
  da_ifindex :: u32
  da_total_package_size :: u64
  da_package_count :: u8
  da_retransmit_package_count :: u8
  da_ssl_buffer_force_unfinished :: bool
  da_sk_role :: u8
  da_l2_enter_queue_count :: u32
  da_buffer :: int
  da_enter_l4_time :: u64
  da_exit_l4_time :: u64
  da_l3_duration :: u64
  da_l3_rcv_duration :: u64
  da_l3_local_duration :: u64
  da_l3_output_duration :: u64
  da_total_resolve_mac_count :: u32
  da_total_net_filter_count :: u32
  da_total_resolve_mac_time :: u64
  da_total_net_filter_time :: u64
  da_total_package_to_queue_time :: u64
  da_total_package_receive_from_queue_time :: u64
  da_l2_duration :: u64
  da_l2_enter_queue_package_count :: u64
  da_l2_ready_send_duration :: u64
  da_l2_send_duration :: u64

text \<open>What the programs submitted: connections, closings, details and processes; the chunks of data are in the upload state.\<close>

record process_execute_event =
  px_pid :: u32
  px_cgroup_id :: u64
  px_comm :: "u8 list"

datatype kernel_output =
    ConnectOut SocketConnectEvent
  | CloseOut SocketCloseEvent
  | DetailOut SocketDetailEvent
  | ProcessOut process_execute_event

datatype kernel_map =
    ActiveConnections | ConnectingArgs | AcceptingArgs | ClosingArgs | SocketDataArgs | ProcessMonitor
  | ReceiveDetails | TransmitDetails | TempArgs | ListArgs | OpensslArgs | NodeWrapArgs | NodeWrapMapping | GoTlsArgs

record kernel_state =
  ks_process_monitor_control :: "u32 \<rightharpoonup> u32"
  ks_process_not_monitor :: "u32 \<rightharpoonup> u32"
  ks_cgroup_monitor_allowlist :: "u64 \<rightharpoonup> u32"
  ks_cgroup_filter_enabled :: u32
  ks_ztunnel_process_pid :: u32
  ks_active_connection_map :: "u64 \<rightharpoonup> active_connection_t"
  ks_socket_data_id_generate_map :: "u64 \<rightharpoonup> u64"
  ks_conecting_args :: "u64 \<rightharpoonup> connect_args_t"
  ks_accepting_args :: "u64 \<rightharpoonup> accept_args_t"
  ks_closing_args :: "u64 \<rightharpoonup> sock_close_args_t"
  ks_socket_data_args :: "u64 \<rightharpoonup> sock_data_args_t"
  ks_openssl_sock_data_args :: "u64 \<rightharpoonup> sock_data_args_t"
  ks_reader_buffer :: "nat \<Rightarrow> u8"
  ks_upload :: upload_state
  ks_out :: "kernel_output list"

text \<open>What is read from a \<^verbatim>\<open>struct socket\<close> and from a \<^verbatim>\<open>struct sockaddr\<close>; ports in network order where the kernel has them so.\<close>

record sock_info =
  si_family :: u16
  si_num :: u16
  si_dport :: u16
  si_rcv_saddr :: u32
  si_daddr :: u32
  si_v6_rcv_saddr :: "u8 list"
  si_v6_daddr :: "u8 list"

record sockaddr_info =
  sa_family :: u16
  sa_port :: u16
  sa_addr :: u32
  sa_addr6 :: "u8 list"

text \<open>
  What a program finds when it runs: the identifier of the current thread and process, the clock, a random number,
  whether a map has room for a new key, the objects at an address and the private data of a descriptor of the process.
\<close>

record kernel_env =
  ke_pid_tgid :: u64
  ke_now :: u64
  ke_random :: u32
  ke_room :: "kernel_map \<Rightarrow> bool"
  ke_mem :: memory_image
  ke_fd_private_data :: "u32 \<Rightarrow> int"
  ke_sk_socket :: "int \<Rightarrow> int"
  ke_socket :: "int \<Rightarrow> sock_info"
  ke_sockaddr :: "int \<Rightarrow> sockaddr_info"
  ke_cgroup_id :: u64
  ke_comm :: "u8 list"

text \<open>An update of a bounded map fails when the key is new and the map is full.\<close>

definition update_elem :: "bool \<Rightarrow> 'k \<Rightarrow> 'v \<Rightarrow> ('k \<rightharpoonup> 'v) \<Rightarrow> ('k \<rightharpoonup> 'v)" where
  "update_elem room k v m = (if m k \<noteq> None \<or> room then m(k \<mapsto> v) else m)"

definition delete_elem :: "'k \<Rightarrow> ('k \<rightharpoonup> 'v) \<Rightarrow> ('k \<rightharpoonup> 'v)" where
  "delete_elem k m = m(k := None)"

text \<open>A member of an entry that is changed in place.\<close>

definition modify_elem :: "'k \<Rightarrow> ('v \<Rightarrow> 'v) \<Rightarrow> ('k \<rightharpoonup> 'v) \<Rightarrow> ('k \<rightharpoonup> 'v)" where
  "modify_elem k f m = m(k := map_option f (m k))"

section \<open>Processes\<close>

definition env_tgid :: "kernel_env \<Rightarrow> u32" where
  "env_tgid env = ucast (drop_bit 32 (ke_pid_tgid env))"

definition tgid_should_trace :: "u32 \<Rightarrow> 'a kernel_state_scheme \<Rightarrow> bool" where
  "tgid_should_trace tgid st \<longleftrightarrow> ks_process_monitor_control st tgid = Some 1"

definition tgid_is_ztunnel :: "u32 \<Rightarrow> 'a kernel_state_scheme \<Rightarrow> bool" where
  "tgid_is_ztunnel tgid st \<longleftrightarrow> ks_ztunnel_process_pid st > 0 \<and> tgid = ks_ztunnel_process_pid st"

definition report_running_process :: "kernel_env \<Rightarrow> 'a kernel_state_scheme \<Rightarrow> 'a kernel_state_scheme" where
  "report_running_process env st =
     (let tgid = env_tgid env;
          filtered = (ks_cgroup_filter_enabled st \<noteq> 0);
          cgroup_id = (if filtered then ke_cgroup_id env else 0) in
      if filtered \<and> ks_cgroup_monitor_allowlist st cgroup_id = None then st
      else if \<not> filtered \<and> ks_process_not_monitor st tgid \<noteq> None then st
      else if ks_process_monitor_control st tgid \<noteq> None then st
      else st\<lparr>ks_process_monitor_control := update_elem (ke_room env ProcessMonitor) tgid 1 (ks_process_monitor_control st),
              ks_out := ks_out st @ [ProcessOut \<lparr>px_pid = tgid, px_cgroup_id = cgroup_id, px_comm = ke_comm env\<rparr>]\<rparr>)"

definition sched_process_exec :: "kernel_env \<Rightarrow> 'a kernel_state_scheme \<Rightarrow> 'a kernel_state_scheme" where
  "sched_process_exec env st = report_running_process env st"

definition sched_process_fork :: "u32 \<Rightarrow> kernel_env \<Rightarrow> 'a kernel_state_scheme \<Rightarrow> 'a kernel_state_scheme" where
  "sched_process_fork child env st = report_running_process env
     (st\<lparr>ks_process_monitor_control := delete_elem child (ks_process_monitor_control st),
         ks_process_not_monitor := delete_elem child (ks_process_not_monitor st)\<rparr>)"

section \<open>New connections\<close>

definition gen_tgid_fd :: "u32 \<Rightarrow> u32 \<Rightarrow> u64" where
  "gen_tgid_fd tgid sockfd = push_bit 32 (ucast tgid) OR ucast sockfd"

definition bpf_ntohs :: "u16 \<Rightarrow> u16" where
  "bpf_ntohs w = push_bit 8 w OR drop_bit 8 w"

definition family_should_trace :: "u32 \<Rightarrow> bool" where
  "family_should_trace family \<longleftrightarrow> \<not> (family \<noteq> AF_UNKNOWN \<and> family \<noteq> AF_INET \<and> family \<noteq> AF_INET6)"

text \<open>The members of the event that no branch sets keep what the scratch area held at their place.\<close>

definition heap_at :: "u8 list \<Rightarrow> nat \<Rightarrow> nat \<Rightarrow> u8 list" where
  "heap_at heap off n = take n (drop off heap)"

definition stale_connect :: "u8 list \<Rightarrow> SocketConnectEvent" where
  "stale_connect heap = \<lparr>co_ConID = 0, co_RandomID = 0, co_StartTime = 0, co_EndTime = 0, co_PID = 0, co_SocketFD = 0, co_FuncName = 0,
     co_Role = 0, co_SocketFamily = 0, co_ConnectSuccess = 0, co_Pad0 = le_word (heap_at heap 44 4),
     co_RemoteAddrV4 = le_word (heap_at heap 48 4), co_RemoteAddrPort = 0, co_RemoteAddrV6 = heap_at heap 56 16,
     co_LocalAddrV4 = le_word (heap_at heap 72 4), co_LocalAddrPort = 0, co_LocalAddrV6 = heap_at heap 80 16,
     co_ConnTrackUpstreamIPl = 0, co_ConnTrackUpstreamIPh = 0, co_ConnTrackUpstreamPort = 0\<rparr>"

text \<open>The family and the addresses, from the socket if there is one and else from the address of the call.\<close>

definition fill_socket :: "sock_info \<Rightarrow> SocketConnectEvent \<Rightarrow> SocketConnectEvent" where
  "fill_socket si e0 =
     (let family = ucast (si_family si); e = e0\<lparr>co_SocketFamily := family\<rparr> in
      if family = AF_INET
      then e\<lparr>co_LocalAddrPort := ucast (si_num si), co_LocalAddrV4 := si_rcv_saddr si,
             co_RemoteAddrPort := ucast (bpf_ntohs (si_dport si)), co_RemoteAddrV4 := si_daddr si\<rparr>
      else if family = AF_INET6
      then e\<lparr>co_LocalAddrPort := ucast (si_num si), co_LocalAddrV6 := si_v6_rcv_saddr si,
             co_RemoteAddrPort := ucast (bpf_ntohs (si_dport si)), co_RemoteAddrV6 := si_v6_daddr si\<rparr>
      else e)"

definition fill_sockaddr :: "sockaddr_info \<Rightarrow> SocketConnectEvent \<Rightarrow> SocketConnectEvent" where
  "fill_sockaddr sa e0 =
     (let family = ucast (sa_family sa); e = e0\<lparr>co_SocketFamily := family\<rparr> in
      if family = AF_INET
      then e\<lparr>co_RemoteAddrV4 := sa_addr sa, co_RemoteAddrPort := ucast (bpf_ntohs (sa_port sa)), co_LocalAddrV4 := 0\<rparr>
      else if family = AF_INET6
      then e\<lparr>co_RemoteAddrV6 := sa_addr6 sa, co_RemoteAddrPort := ucast (bpf_ntohs (sa_port sa)), co_LocalAddrV6 := replicate 16 0\<rparr>
      else e)"

definition connect_event ::
  "kernel_env \<Rightarrow> bool \<Rightarrow> u32 \<Rightarrow> u32 \<Rightarrow> u32 \<Rightarrow> u64 \<Rightarrow> int \<Rightarrow> int \<Rightarrow> connect_track_remote option \<Rightarrow> u8 \<Rightarrow> u8 list \<Rightarrow> SocketConnectEvent" where
  "connect_event env success func_name tgid fd start_nacs addr socket0 conntrack role heap =
     (let e = (stale_connect heap)\<lparr>co_ConID := gen_tgid_fd tgid fd, co_RandomID := ucast (ke_random env), co_StartTime := start_nacs,
                co_EndTime := ke_now env, co_FuncName := ucast func_name, co_Role := role, co_PID := tgid, co_SocketFD := fd,
                co_ConnTrackUpstreamIPh := (case conntrack of None \<Rightarrow> 0 | Some r \<Rightarrow> tr_iph r),
                co_ConnTrackUpstreamIPl := (case conntrack of None \<Rightarrow> 0 | Some r \<Rightarrow> tr_ipl r),
                co_ConnTrackUpstreamPort := (case conntrack of None \<Rightarrow> 0 | Some r \<Rightarrow> ucast (tr_port r)),
                co_ConnectSuccess := (if success then 1 else 0)\<rparr>;
          socket = (if socket0 = 0 then ke_fd_private_data env fd else socket0)
      in if socket \<noteq> 0 then fill_socket (ke_socket env socket) e
         else if addr \<noteq> 0 then fill_sockaddr (ke_sockaddr env addr) e
         else e\<lparr>co_SocketFamily := AF_UNKNOWN\<rparr>)"

text \<open>A submitted event leaves its bytes in the scratch area.\<close>

definition submit :: "u8 list \<Rightarrow> kernel_output \<Rightarrow> 'a kernel_state_scheme \<Rightarrow> 'a kernel_state_scheme" where
  "submit bytes ev st = st\<lparr>ks_upload := (ks_upload st)\<lparr>us_heap := write_heap bytes (us_heap (ks_upload st))\<rparr>, ks_out := ks_out st @ [ev]\<rparr>"

definition submit_new_connection ::
  "kernel_env \<Rightarrow> bool \<Rightarrow> u32 \<Rightarrow> u32 \<Rightarrow> u32 \<Rightarrow> u64 \<Rightarrow> int \<Rightarrow> int \<Rightarrow> connect_track_remote option \<Rightarrow> u8 \<Rightarrow>
     'a kernel_state_scheme \<Rightarrow> 'a kernel_state_scheme" where
  "submit_new_connection env success func_name tgid fd start_nacs addr socket conntrack role0 st =
     (let role = (if func_name = SOCKET_OPTS_TYPE_CONNECT then CONNECTION_ROLE_TYPE_CLIENT
                  else if func_name = SOCKET_OPTS_TYPE_ACCEPT then CONNECTION_ROLE_TYPE_SERVER else role0);
          e = connect_event env success func_name tgid fd start_nacs addr socket conntrack role (us_heap (ks_upload st));
          st1 = submit (SocketConnectEvent_layout e) (ConnectOut e) st
      in if \<not> success \<or> tgid_is_ztunnel tgid st then st1
         else st1\<lparr>ks_active_connection_map := update_elem (ke_room env ActiveConnections) (gen_tgid_fd tgid fd)
           \<lparr>kc_random_id = ucast (ke_random env), kc_pid = tgid, kc_sockfd = fd, kc_role = ucast role,
            kc_socket_family = ucast (co_SocketFamily e), kc_protocol = 0, kc_ssl = False, kc_skip_data_upload = False\<rparr>
           (ks_active_connection_map st1)\<rparr>)"

definition get_or_create_active_conn ::
  "kernel_env \<Rightarrow> u32 \<Rightarrow> u32 \<Rightarrow> u32 \<Rightarrow> u8 \<Rightarrow> 'a kernel_state_scheme \<Rightarrow> active_connection_t option \<times> 'a kernel_state_scheme" where
  "get_or_create_active_conn env tgid fd func_name role st =
     (case ks_active_connection_map st (gen_tgid_fd tgid fd) of
        Some conn \<Rightarrow> (Some conn, st)
      | None \<Rightarrow> let st1 = submit_new_connection env True func_name tgid fd 0 0 0 None role st
                in (ks_active_connection_map st1 (gen_tgid_fd tgid fd), st1))"

definition submit_connection_when_not_exists ::
  "kernel_env \<Rightarrow> connect_args_t \<Rightarrow> u32 \<Rightarrow> u8 \<Rightarrow> 'a kernel_state_scheme \<Rightarrow> 'a kernel_state_scheme" where
  "submit_connection_when_not_exists env args func_name role st =
     (if ks_active_connection_map st (gen_tgid_fd (env_tgid env) (cn_fd args)) \<noteq> None then st
      else submit_new_connection env True func_name (env_tgid env) (cn_fd args) (cn_start_nacs args) (cn_addr args) 0
             (Some (cn_remote args)) role st)"

section \<open>Closing\<close>

text \<open>The members of the closing are all set, in the order of the code.\<close>

definition notify_close_connection ::
  "u64 \<Rightarrow> active_connection_t \<Rightarrow> u64 \<Rightarrow> u64 \<Rightarrow> int \<Rightarrow> 'a kernel_state_scheme \<Rightarrow> 'a kernel_state_scheme" where
  "notify_close_connection conid con start_time end_time ret st =
     (let st1 = st\<lparr>ks_upload := (ks_upload st)\<lparr>us_last_ids := delete_elem conid (us_last_ids (ks_upload st))\<rparr>,
                   ks_socket_data_id_generate_map := delete_elem conid (ks_socket_data_id_generate_map st)\<rparr>;
          e = \<lparr>cl_ConnectionID = conid, cl_RandomID = kc_random_id con, cl_StartTime = start_time, cl_EndTime = end_time,
               cl_PID = kc_pid con, cl_SocketFD = kc_sockfd con, cl_Success = (if ret > 0 then 1 else 0)\<rparr>
      in submit (SocketCloseEvent_layout e) (CloseOut e) st1)"

definition submit_close_connection :: "kernel_env \<Rightarrow> u32 \<Rightarrow> u64 \<Rightarrow> int \<Rightarrow> 'a kernel_state_scheme \<Rightarrow> 'a kernel_state_scheme" where
  "submit_close_connection env fd start_nacs ret st =
     (let conid = gen_tgid_fd (env_tgid env) fd in
      case ks_active_connection_map st conid of
        None \<Rightarrow> st
      | Some con \<Rightarrow> let st1 = notify_close_connection conid con start_nacs (ke_now env) ret st
                    in st1\<lparr>ks_active_connection_map := delete_elem conid (ks_active_connection_map st1)\<rparr>)"

definition process_close_sock :: "kernel_env \<Rightarrow> sock_close_args_t \<Rightarrow> int \<Rightarrow> 'a kernel_state_scheme \<Rightarrow> 'a kernel_state_scheme" where
  "process_close_sock env args ret st =
     (if sint (cz_fd args) < 0 then st else submit_close_connection env (cz_fd args) (cz_start_nacs args) ret st)"

definition enter_close :: "u32 \<Rightarrow> kernel_env \<Rightarrow> 'a kernel_state_scheme \<Rightarrow> 'a kernel_state_scheme" where
  "enter_close fd env st =
     (if \<not> tgid_should_trace (env_tgid env) st then st
      else st\<lparr>ks_closing_args := update_elem (ke_room env ClosingArgs) (ke_pid_tgid env)
                \<lparr>cz_fd = fd, cz_start_nacs = ke_now env\<rparr> (ks_closing_args st)\<rparr>)"

definition exit_close :: "int \<Rightarrow> kernel_env \<Rightarrow> 'a kernel_state_scheme \<Rightarrow> 'a kernel_state_scheme" where
  "exit_close ret env st =
     (let st1 = (case ks_closing_args st (ke_pid_tgid env) of None \<Rightarrow> st | Some args \<Rightarrow> process_close_sock env args ret st)
      in st1\<lparr>ks_closing_args := delete_elem (ke_pid_tgid env) (ks_closing_args st1)\<rparr>)"

section \<open>Connecting and accepting\<close>

definition EINPROGRESS :: int where "EINPROGRESS = 115"

definition sock_socket :: "kernel_env \<Rightarrow> int \<Rightarrow> int" where
  "sock_socket env sock = (if sock = 0 then 0 else ke_sk_socket env sock)"

definition process_connect :: "kernel_env \<Rightarrow> connect_args_t \<Rightarrow> int \<Rightarrow> 'a kernel_state_scheme \<Rightarrow> 'a kernel_state_scheme" where
  "process_connect env args ret st =
     submit_new_connection env (\<not> (ret < 0 \<and> ret \<noteq> - EINPROGRESS)) SOCKET_OPTS_TYPE_CONNECT (env_tgid env) (cn_fd args)
       (cn_start_nacs args) (cn_addr args) (sock_socket env (cn_sock args)) (Some (cn_remote args)) 0 st"

definition process_accept :: "kernel_env \<Rightarrow> accept_args_t \<Rightarrow> int \<Rightarrow> 'a kernel_state_scheme \<Rightarrow> 'a kernel_state_scheme" where
  "process_accept env args ret st =
     submit_new_connection env True SOCKET_OPTS_TYPE_ACCEPT (env_tgid env) (word_of_int ret)
       (ap_start_nacs args) (ap_addr args) (ap_socket args) None 0 st"

definition no_remote :: connect_track_remote where
  "no_remote = \<lparr>tr_iph = 0, tr_ipl = 0, tr_port = 0\<rparr>"

definition enter_connect :: "u32 \<Rightarrow> int \<Rightarrow> kernel_env \<Rightarrow> 'a kernel_state_scheme \<Rightarrow> 'a kernel_state_scheme" where
  "enter_connect fd addr env st =
     (if \<not> tgid_should_trace (env_tgid env) st \<and> \<not> tgid_is_ztunnel (env_tgid env) st then st
      else st\<lparr>ks_conecting_args := update_elem (ke_room env ConnectingArgs) (ke_pid_tgid env)
                \<lparr>cn_fd = fd, cn_has_remote = False, cn_addr = addr, cn_sock = 0, cn_start_nacs = ke_now env, cn_remote = no_remote\<rparr>
                (ks_conecting_args st)\<rparr>)"

definition exit_connect :: "int \<Rightarrow> kernel_env \<Rightarrow> 'a kernel_state_scheme \<Rightarrow> 'a kernel_state_scheme" where
  "exit_connect ret env st =
     (let st1 = (case ks_conecting_args st (ke_pid_tgid env) of None \<Rightarrow> st | Some args \<Rightarrow> process_connect env args ret st)
      in st1\<lparr>ks_conecting_args := delete_elem (ke_pid_tgid env) (ks_conecting_args st1)\<rparr>)"

definition tcp_connect :: "int \<Rightarrow> kernel_env \<Rightarrow> 'a kernel_state_scheme \<Rightarrow> 'a kernel_state_scheme" where
  "tcp_connect sock env st = st\<lparr>ks_conecting_args := modify_elem (ke_pid_tgid env) (\<lambda>a. a\<lparr>cn_sock := sock\<rparr>) (ks_conecting_args st)\<rparr>"

definition enter_accept :: "int \<Rightarrow> kernel_env \<Rightarrow> 'a kernel_state_scheme \<Rightarrow> 'a kernel_state_scheme" where
  "enter_accept addr env st =
     (if \<not> tgid_should_trace (env_tgid env) st then st
      else st\<lparr>ks_accepting_args := update_elem (ke_room env AcceptingArgs) (ke_pid_tgid env)
                \<lparr>ap_addr = addr, ap_socket = 0, ap_start_nacs = ke_now env\<rparr> (ks_accepting_args st)\<rparr>)"

definition exit_accept :: "int \<Rightarrow> kernel_env \<Rightarrow> 'a kernel_state_scheme \<Rightarrow> 'a kernel_state_scheme" where
  "exit_accept ret env st =
     (let st1 = (case ks_accepting_args st (ke_pid_tgid env) of None \<Rightarrow> st | Some args \<Rightarrow> process_accept env args ret st)
      in st1\<lparr>ks_accepting_args := delete_elem (ke_pid_tgid env) (ks_accepting_args st1)\<rparr>)"

definition sock_alloc_ret :: "int \<Rightarrow> kernel_env \<Rightarrow> 'a kernel_state_scheme \<Rightarrow> 'a kernel_state_scheme" where
  "sock_alloc_ret sock env st = st\<lparr>ks_accepting_args := modify_elem (ke_pid_tgid env) (\<lambda>a. a\<lparr>ap_socket := sock\<rparr>) (ks_accepting_args st)\<rparr>"

definition ip4_udp_datagram_connect :: "int \<Rightarrow> kernel_env \<Rightarrow> 'a kernel_state_scheme \<Rightarrow> 'a kernel_state_scheme" where
  "ip4_udp_datagram_connect sock env st =
     st\<lparr>ks_conecting_args := modify_elem (ke_pid_tgid env) (\<lambda>a. a\<lparr>cn_sock := sock\<rparr>) (ks_conecting_args st)\<rparr>"

section \<open>Connection tracking\<close>

text \<open>The tuple of the reply direction; the two addresses are unions of sixteen bytes, the ports in network order.\<close>

record nf_conntrack_tuple =
  nt_src_u3 :: "u8 list"
  nt_src_port :: u16
  nt_src_l3num :: u16
  nt_dst_u3 :: "u8 list"
  nt_dst_port :: u16
  nt_dst_protonum :: u8

record conntrack_tuple_t =
  ct_saddr_h :: u64
  ct_saddr_l :: u64
  ct_daddr_h :: u64
  ct_daddr_l :: u64
  ct_sport :: u16
  ct_dport :: u16

definition IPPROTO_TCP :: u8 where "IPPROTO_TCP = 6"
definition IPPROTO_UDP :: u8 where "IPPROTO_UDP = 17"
definition IPS_CONFIRMED :: u32 where "IPS_CONFIRMED = 8"
definition IPS_NAT_MASK :: u32 where "IPS_NAT_MASK = 0x30"

definition u3_ip :: "u8 list \<Rightarrow> u64" where "u3_ip bs = ucast (le_word (take 4 bs) :: u32)"
definition u3_high :: "u8 list \<Rightarrow> u64" where "u3_high bs = le_word (take 8 bs)"
definition u3_low :: "u8 list \<Rightarrow> u64" where "u3_low bs = le_word (take 8 (drop 8 bs))"

definition nf_conntrack_tuple_to_conntrack_tuple ::
  "kernel_env \<Rightarrow> connect_args_t \<Rightarrow> nf_conntrack_tuple \<Rightarrow> conntrack_tuple_t option" where
  "nf_conntrack_tuple_to_conntrack_tuple env args ct =
     (let t0 = \<lparr>ct_saddr_h = 0, ct_saddr_l = 0, ct_daddr_h = 0, ct_daddr_l = 0,
                ct_sport = bpf_ntohs (nt_src_port ct), ct_dport = bpf_ntohs (nt_dst_port ct)\<rparr>;
          t = (if nt_src_l3num ct = AF_INET then t0\<lparr>ct_saddr_l := u3_ip (nt_src_u3 ct), ct_daddr_l := u3_ip (nt_dst_u3 ct)\<rparr>
               else if nt_src_l3num ct = AF_INET6
               then t0\<lparr>ct_saddr_h := u3_high (nt_src_u3 ct), ct_saddr_l := u3_low (nt_src_u3 ct),
                       ct_daddr_h := u3_high (nt_dst_u3 ct), ct_daddr_l := u3_low (nt_dst_u3 ct)\<rparr>
               else t0);
          socket = sock_socket env (cn_sock args);
          si = ke_socket env socket
      in if nt_dst_protonum ct \<noteq> IPPROTO_TCP \<and> nt_dst_protonum ct \<noteq> IPPROTO_UDP then None
         else if ct_sport t = 0 \<or> ct_dport t = 0 then None
         else if nt_src_l3num ct = AF_INET \<and> (ct_saddr_l t = 0 \<or> ct_daddr_l t = 0) then None
         else if nt_src_l3num ct = AF_INET6 \<and> (ct_saddr_h t = 0 \<or> ct_saddr_l t = 0 \<or> ct_daddr_h t = 0 \<or> ct_daddr_l t = 0) then None
         else if socket \<noteq> 0 \<and> si_family si = AF_INET \<and> (ucast (si_rcv_saddr si) \<noteq> ct_daddr_l t \<or> si_num si \<noteq> ct_dport t) then None
         else Some t)"

text \<open>The connection that netfilter confirms: its status and the tuple of its reply, nothing when they cannot be read.\<close>

definition nf_conn_aware :: "u32 option \<Rightarrow> nf_conntrack_tuple option \<Rightarrow> kernel_env \<Rightarrow> 'a kernel_state_scheme \<Rightarrow> 'a kernel_state_scheme" where
  "nf_conn_aware status reply env st =
     (case ks_conecting_args st (ke_pid_tgid env) of
        None \<Rightarrow> st
      | Some args \<Rightarrow>
          if cn_has_remote args then st
          else (case status of
              None \<Rightarrow> st
            | Some w \<Rightarrow>
                if w AND IPS_CONFIRMED = 0 \<or> w AND IPS_NAT_MASK = 0 then st
                else (case reply of
                    None \<Rightarrow> st
                  | Some tuple \<Rightarrow>
                      (case nf_conntrack_tuple_to_conntrack_tuple env args tuple of
                         None \<Rightarrow> st
                       | Some t \<Rightarrow> st\<lparr>ks_conecting_args := update_elem (ke_room env ConnectingArgs) (ke_pid_tgid env)
                           (args\<lparr>cn_remote := \<lparr>tr_iph = ct_saddr_h t, tr_ipl = ct_saddr_l t, tr_port = ct_sport t\<rparr>, cn_has_remote := True\<rparr>)
                           (ks_conecting_args st)\<rparr>))))"

section \<open>The numbers of operations\<close>

definition get_socket_data_id :: "kernel_env \<Rightarrow> u32 \<Rightarrow> 'a kernel_state_scheme \<Rightarrow> u64" where
  "get_socket_data_id env fd st = (case ks_socket_data_id_generate_map st (gen_tgid_fd (env_tgid env) fd) of None \<Rightarrow> 0 | Some n \<Rightarrow> n)"

definition generate_socket_data_id :: "kernel_env \<Rightarrow> u32 \<Rightarrow> bool \<Rightarrow> 'a kernel_state_scheme \<Rightarrow> u64 \<times> 'a kernel_state_scheme" where
  "generate_socket_data_id env fd check st =
     (let key = gen_tgid_fd (env_tgid env) fd in
      if check \<and> \<not> tgid_should_trace (env_tgid env) st then (0, st)
      else let n = (case ks_socket_data_id_generate_map st key of None \<Rightarrow> 0 | Some n \<Rightarrow> n) + 1
           in (n, st\<lparr>ks_socket_data_id_generate_map := (ks_socket_data_id_generate_map st)(key \<mapsto> n)\<rparr>))"

end
