(* ===== verification/Kernel_Packets.thy ===== *)
theory Kernel_Packets
  imports Kernel_Connection
begin

text \<open>
  What happens to the packets of an operation below the socket (\<^verbatim>\<open>bpf/accesslog/l24\<close>): the programs attached to the
  functions of the network stack note the times at which a packet passes, in a record for each packet that
  is received or transmitted, and add the durations to the operation of the current thread. A packet is its
  address. What a program reads from the packet (its length, its device, the backlog of its socket) is an
  argument.
\<close>

section \<open>The records of packets\<close>

record skb_receive_detail =
  rd_netif_receive_time :: u64
  rd_enter_ip_rcv_time :: u64
  rd_exit_ip_rcv_time :: u64
  rd_ip_rcv_finish_time :: u64
  rd_ip_local_time :: u64
  rd_ip_local_finish_time :: u64
  rd_enter_tcp_rcv_time :: u64
  rd_exit_tcp_rcv_time :: u64
  rd_enter_nf_time :: u64
  rd_ifindex :: u32
  rd_total_nf_count :: u32
  rd_total_nf_time :: u64

record skb_transmit_detail =
  td_l3_enter_time :: u64
  td_l3_local_time :: u64
  td_l3_output_time :: u64
  td_l3_finish_time :: u64
  td_total_nf_count :: u16
  td_total_resolve_neigh_count :: u16
  td_ifindex :: u32
  td_enter_nf_time :: u64
  td_enter_resolve_neigh_time :: u64
  td_total_nf_time :: u64
  td_total_resolve_neigh_time :: u64
  td_l2_enter_time :: u64
  td_l2_exit_time :: u64
  td_l2_start_xmit_time :: u64
  td_l2_finish_xmit_time :: u64
  td_loss_package :: "(u64 \<times> u16) list"

text \<open>
  A list of packets that the programs build: the packet, and whether the pointer to the next node is set. The
  nodes are copies of one local variable, so that the next node is the node itself.
\<close>

record c_bpf_list_head =
  bl_data :: int
  bl_next :: bool

record packet_state = kernel_state +
  ks_sk_buff_receive_detail_map :: "int \<rightharpoonup> skb_receive_detail"
  ks_sk_buff_transmit_detail_map :: "int \<rightharpoonup> skb_transmit_detail"
  ks_sk_temp_args_map :: "u64 \<times> u64 \<rightharpoonup> int"
  ks_ip_list_rcv_args_map :: "u64 \<rightharpoonup> c_bpf_list_head"

definition L24_TEMP_ARGS_TRANSMIT_NF_HOOK_SLOW :: u64 where "L24_TEMP_ARGS_TRANSMIT_NF_HOOK_SLOW = 1"
definition L24_TEMP_ARGS_NEIGHT_RESOLVE_OUTPUT :: u64 where "L24_TEMP_ARGS_NEIGHT_RESOLVE_OUTPUT = 2"
definition L24_TEMP_ARGS_DEV_QUEUE_EMIT :: u64 where "L24_TEMP_ARGS_DEV_QUEUE_EMIT = 3"
definition L24_TEMP_ARGS_IP_RCV :: u64 where "L24_TEMP_ARGS_IP_RCV = 4"
definition L24_TEMP_ARGS_TCP_RCV :: u64 where "L24_TEMP_ARGS_TCP_RCV = 5"
definition L24_TEMP_ARGS_RCV_NF_HOOK_SLOW :: u64 where "L24_TEMP_ARGS_RCV_NF_HOOK_SLOW = 1"

definition save_l24_tmp_args :: "u64 \<Rightarrow> int \<Rightarrow> kernel_env \<Rightarrow> 'a packet_state_scheme \<Rightarrow> 'a packet_state_scheme" where
  "save_l24_tmp_args tpe skb env st =
     st\<lparr>ks_sk_temp_args_map := update_elem (ke_room env TempArgs) (ke_pid_tgid env, tpe) skb (ks_sk_temp_args_map st)\<rparr>"

text \<open>The saved packet is removed; the result is that packet if it has a record.\<close>

definition get_l24_transmit_tmp_args :: "u64 \<Rightarrow> kernel_env \<Rightarrow> 'a packet_state_scheme \<Rightarrow> int option \<times> 'a packet_state_scheme" where
  "get_l24_transmit_tmp_args tpe env st =
     (case ks_sk_temp_args_map st (ke_pid_tgid env, tpe) of
        None \<Rightarrow> (None, st)
      | Some buff \<Rightarrow> (if ks_sk_buff_transmit_detail_map st buff = None then None else Some buff,
                      st\<lparr>ks_sk_temp_args_map := delete_elem (ke_pid_tgid env, tpe) (ks_sk_temp_args_map st)\<rparr>))"

definition get_l24_rcv_tmp_args :: "u64 \<Rightarrow> kernel_env \<Rightarrow> 'a packet_state_scheme \<Rightarrow> int option \<times> 'a packet_state_scheme" where
  "get_l24_rcv_tmp_args tpe env st =
     (case ks_sk_temp_args_map st (ke_pid_tgid env, tpe) of
        None \<Rightarrow> (None, st)
      | Some buff \<Rightarrow> (if ks_sk_buff_receive_detail_map st buff = None then None else Some buff,
                      st\<lparr>ks_sk_temp_args_map := delete_elem (ke_pid_tgid env, tpe) (ks_sk_temp_args_map st)\<rparr>))"

text \<open>Changes of the record of a packet and of the operation of the current thread, in place, when there is one.\<close>

definition set_rcv :: "int \<Rightarrow> (skb_receive_detail \<Rightarrow> skb_receive_detail) \<Rightarrow> 'a packet_state_scheme \<Rightarrow> 'a packet_state_scheme" where
  "set_rcv skb f st = st\<lparr>ks_sk_buff_receive_detail_map := modify_elem skb f (ks_sk_buff_receive_detail_map st)\<rparr>"

definition set_transmit :: "int \<Rightarrow> (skb_transmit_detail \<Rightarrow> skb_transmit_detail) \<Rightarrow> 'a packet_state_scheme \<Rightarrow> 'a packet_state_scheme" where
  "set_transmit skb f st = st\<lparr>ks_sk_buff_transmit_detail_map := modify_elem skb f (ks_sk_buff_transmit_detail_map st)\<rparr>"

definition set_args :: "(sock_data_args_t \<Rightarrow> sock_data_args_t) \<Rightarrow> kernel_env \<Rightarrow> 'a kernel_state_scheme \<Rightarrow> 'a kernel_state_scheme" where
  "set_args f env st = st\<lparr>ks_socket_data_args := modify_elem (ke_pid_tgid env) f (ks_socket_data_args st)\<rparr>"

section \<open>Netfilter\<close>

definition nf_hook_slow :: "int \<Rightarrow> kernel_env \<Rightarrow> 'a packet_state_scheme \<Rightarrow> 'a packet_state_scheme" where
  "nf_hook_slow skb env st =
     (if ks_sk_buff_transmit_detail_map st skb \<noteq> None
      then save_l24_tmp_args L24_TEMP_ARGS_TRANSMIT_NF_HOOK_SLOW skb env (set_transmit skb (\<lambda>d. d\<lparr>td_enter_nf_time := ke_now env\<rparr>) st)
      else if ks_sk_buff_receive_detail_map st skb \<noteq> None
      then save_l24_tmp_args L24_TEMP_ARGS_RCV_NF_HOOK_SLOW skb env (set_rcv skb (\<lambda>d. d\<lparr>rd_enter_nf_time := ke_now env\<rparr>) st)
      else st)"

definition nf_hook_slow_ret :: "kernel_env \<Rightarrow> 'a packet_state_scheme \<Rightarrow> 'a packet_state_scheme" where
  "nf_hook_slow_ret env st =
     (case get_l24_transmit_tmp_args L24_TEMP_ARGS_TRANSMIT_NF_HOOK_SLOW env st of
        (Some skb, st1) \<Rightarrow> set_transmit skb (\<lambda>d. d\<lparr>td_total_nf_count := td_total_nf_count d + 1,
                                                   td_total_nf_time := ke_now env - td_enter_nf_time d\<rparr>) st1
      | (None, st1) \<Rightarrow>
          (case get_l24_rcv_tmp_args L24_TEMP_ARGS_RCV_NF_HOOK_SLOW env st1 of
             (Some skb, st2) \<Rightarrow> set_rcv skb (\<lambda>d. d\<lparr>rd_total_nf_count := rd_total_nf_count d + 1,
                                                   rd_total_nf_time := ke_now env - rd_enter_nf_time d\<rparr>) st2
           | (None, st2) \<Rightarrow> st2))"

section \<open>Receiving\<close>

definition netif_receive_skb :: "int \<Rightarrow> u32 \<Rightarrow> kernel_env \<Rightarrow> 'a packet_state_scheme \<Rightarrow> 'a packet_state_scheme" where
  "netif_receive_skb skb ifindex env st =
     st\<lparr>ks_sk_buff_receive_detail_map := update_elem (ke_room env ReceiveDetails) skb
          \<lparr>rd_netif_receive_time = ke_now env, rd_enter_ip_rcv_time = 0, rd_exit_ip_rcv_time = 0, rd_ip_rcv_finish_time = 0,
           rd_ip_local_time = 0, rd_ip_local_finish_time = 0, rd_enter_tcp_rcv_time = 0, rd_exit_tcp_rcv_time = 0,
           rd_enter_nf_time = 0, rd_ifindex = ifindex, rd_total_nf_count = 0, rd_total_nf_time = 0\<rparr>
          (ks_sk_buff_receive_detail_map st)\<rparr>"

definition ip_rcv :: "int \<Rightarrow> kernel_env \<Rightarrow> 'a packet_state_scheme \<Rightarrow> 'a packet_state_scheme" where
  "ip_rcv skb env st =
     (if ks_sk_buff_receive_detail_map st skb = None then st
      else save_l24_tmp_args L24_TEMP_ARGS_IP_RCV skb env (set_rcv skb (\<lambda>d. d\<lparr>rd_enter_ip_rcv_time := ke_now env\<rparr>) st))"

definition ip_rcv_ret :: "kernel_env \<Rightarrow> 'a packet_state_scheme \<Rightarrow> 'a packet_state_scheme" where
  "ip_rcv_ret env st =
     (case get_l24_rcv_tmp_args L24_TEMP_ARGS_IP_RCV env st of
        (Some skb, st1) \<Rightarrow> set_rcv skb (\<lambda>d. d\<lparr>rd_exit_ip_rcv_time := ke_now env\<rparr>) st1
      | (None, st1) \<Rightarrow> st1)"

text \<open>A batch of packets: the loop is written out ten times.\<close>

definition init_bpf_list_head :: c_bpf_list_head where
  "init_bpf_list_head = \<lparr>bl_data = 0, bl_next = False\<rparr>"

definition append_bpf_list_head :: "int \<Rightarrow> c_bpf_list_head" where
  "append_bpf_list_head skb = \<lparr>bl_data = skb, bl_next = True\<rparr>"

definition ip_list_foreach_skb ::
  "(skb_receive_detail \<Rightarrow> skb_receive_detail) \<Rightarrow> int \<Rightarrow> c_bpf_list_head \<times> 'a packet_state_scheme \<Rightarrow> c_bpf_list_head \<times> 'a packet_state_scheme" where
  "ip_list_foreach_skb f skb = (\<lambda>(skb_list, st).
     if ks_sk_buff_receive_detail_map st skb \<noteq> None then (append_bpf_list_head skb, set_rcv skb f st) else (skb_list, st))"

definition ip_list_rcv :: "int list \<Rightarrow> kernel_env \<Rightarrow> 'a packet_state_scheme \<Rightarrow> 'a packet_state_scheme" where
  "ip_list_rcv skbs env st =
     (case fold (ip_list_foreach_skb (\<lambda>d. d\<lparr>rd_enter_ip_rcv_time := ke_now env\<rparr>)) (take 10 skbs) (init_bpf_list_head, st) of
        (skb_list, st1) \<Rightarrow> st1\<lparr>ks_ip_list_rcv_args_map := update_elem (ke_room env ListArgs) (ke_pid_tgid env) skb_list (ks_ip_list_rcv_args_map st1)\<rparr>)"

text \<open>One turn of \<^verbatim>\<open>bpf_list_for_each_foreach\<close>: nothing clears the mark of the first turn, so that the node is always the head.\<close>

definition bpf_list_foreach_skb ::
  "(skb_receive_detail \<Rightarrow> skb_receive_detail) \<Rightarrow> c_bpf_list_head \<Rightarrow> 'a packet_state_scheme \<Rightarrow> 'a packet_state_scheme" where
  "bpf_list_foreach_skb f head st = (if bl_next head then set_rcv (bl_data head) f st else st)"

definition ip_list_rcv_ret :: "kernel_env \<Rightarrow> 'a packet_state_scheme \<Rightarrow> 'a packet_state_scheme" where
  "ip_list_rcv_ret env st =
     (case ks_ip_list_rcv_args_map st (ke_pid_tgid env) of
        None \<Rightarrow> st
      | Some head \<Rightarrow> let st1 = (bpf_list_foreach_skb (\<lambda>d. d\<lparr>rd_exit_ip_rcv_time := ke_now env\<rparr>) head ^^ 10) st
          in st1\<lparr>ks_ip_list_rcv_args_map := delete_elem (ke_pid_tgid env) (ks_ip_list_rcv_args_map st1)\<rparr>)"

definition ip_rcv_finish :: "int \<Rightarrow> kernel_env \<Rightarrow> 'a packet_state_scheme \<Rightarrow> 'a packet_state_scheme" where
  "ip_rcv_finish skb env st = set_rcv skb (\<lambda>d. d\<lparr>rd_ip_rcv_finish_time := ke_now env\<rparr>) st"

definition ip_sublist_rcv_finish :: "int list \<Rightarrow> kernel_env \<Rightarrow> 'a packet_state_scheme \<Rightarrow> 'a packet_state_scheme" where
  "ip_sublist_rcv_finish skbs env st =
     snd (fold (ip_list_foreach_skb (\<lambda>d. d\<lparr>rd_ip_rcv_finish_time := ke_now env\<rparr>)) (take 10 skbs) (init_bpf_list_head, st))"

definition ip_local_deliver :: "int \<Rightarrow> kernel_env \<Rightarrow> 'a packet_state_scheme \<Rightarrow> 'a packet_state_scheme" where
  "ip_local_deliver skb env st = set_rcv skb (\<lambda>d. d\<lparr>rd_ip_local_time := ke_now env\<rparr>) st"

definition ip_local_deliver_finish :: "int \<Rightarrow> kernel_env \<Rightarrow> 'a packet_state_scheme \<Rightarrow> 'a packet_state_scheme" where
  "ip_local_deliver_finish skb env st = set_rcv skb (\<lambda>d. d\<lparr>rd_ip_local_finish_time := ke_now env\<rparr>) st"

definition tcp_v4_rcv :: "int \<Rightarrow> kernel_env \<Rightarrow> 'a packet_state_scheme \<Rightarrow> 'a packet_state_scheme" where
  "tcp_v4_rcv skb env st =
     (if ks_sk_buff_receive_detail_map st skb = None then st
      else save_l24_tmp_args L24_TEMP_ARGS_TCP_RCV skb env (set_rcv skb (\<lambda>d. d\<lparr>rd_enter_tcp_rcv_time := ke_now env\<rparr>) st))"

definition tcp_v4_rcv_ret :: "kernel_env \<Rightarrow> 'a packet_state_scheme \<Rightarrow> 'a packet_state_scheme" where
  "tcp_v4_rcv_ret env st =
     (case get_l24_rcv_tmp_args L24_TEMP_ARGS_TCP_RCV env st of
        (Some skb, st1) \<Rightarrow> set_rcv skb (\<lambda>d. d\<lparr>rd_exit_tcp_rcv_time := ke_now env\<rparr>) st1
      | (None, st1) \<Rightarrow> st1)"

text \<open>The programs for the sixth version of the protocol are the same.\<close>

definition tcp_v6_rcv :: "int \<Rightarrow> kernel_env \<Rightarrow> 'a packet_state_scheme \<Rightarrow> 'a packet_state_scheme" where
  "tcp_v6_rcv skb env st =
     (if ks_sk_buff_receive_detail_map st skb = None then st
      else save_l24_tmp_args L24_TEMP_ARGS_TCP_RCV skb env (set_rcv skb (\<lambda>d. d\<lparr>rd_enter_tcp_rcv_time := ke_now env\<rparr>) st))"

definition tcp_v6_rcv_ret :: "kernel_env \<Rightarrow> 'a packet_state_scheme \<Rightarrow> 'a packet_state_scheme" where
  "tcp_v6_rcv_ret env st =
     (case get_l24_rcv_tmp_args L24_TEMP_ARGS_TCP_RCV env st of
        (Some skb, st1) \<Rightarrow> set_rcv skb (\<lambda>d. d\<lparr>rd_exit_tcp_rcv_time := ke_now env\<rparr>) st1
      | (None, st1) \<Rightarrow> st1)"

definition get_sock_role :: "u8 \<Rightarrow> u32 option \<Rightarrow> u8" where
  "get_sock_role current_role max_ack_backlog =
     (if current_role \<noteq> CONNECTION_ROLE_TYPE_UNKNOWN then current_role
      else case max_ack_backlog of
        None \<Rightarrow> CONNECTION_ROLE_TYPE_UNKNOWN
      | Some n \<Rightarrow> if n = 0 then CONNECTION_ROLE_TYPE_CLIENT else CONNECTION_ROLE_TYPE_SERVER)"

text \<open>The difference of two times is added when both were noted.\<close>

definition span :: "u64 \<Rightarrow> u64 \<Rightarrow> u64" where
  "span finish start = (if finish > 0 \<and> start > 0 then finish - start else 0)"

definition add_receive_detail :: "u64 \<Rightarrow> skb_receive_detail \<Rightarrow> sock_data_args_t \<Rightarrow> sock_data_args_t" where
  "add_receive_detail now d a = a\<lparr>
     da_enter_l4_time := rd_enter_tcp_rcv_time d, da_exit_l4_time := rd_exit_tcp_rcv_time d,
     da_l3_duration := da_l3_duration a + span (rd_exit_ip_rcv_time d) (rd_enter_ip_rcv_time d),
     da_l3_rcv_duration := da_l3_rcv_duration a + span (rd_ip_rcv_finish_time d) (rd_enter_ip_rcv_time d),
     da_l3_local_duration := da_l3_local_duration a + span (rd_ip_local_finish_time d) (rd_ip_local_time d),
     da_total_net_filter_count := da_total_net_filter_count a + rd_total_nf_count d,
     da_total_net_filter_time := da_total_net_filter_time a + rd_total_nf_time d,
     da_ifindex := rd_ifindex d,
     da_total_package_to_queue_time := da_total_package_to_queue_time a + span (rd_ip_local_time d) (rd_netif_receive_time d),
     da_total_package_receive_from_queue_time := da_total_package_receive_from_queue_time a +
       (if rd_ip_local_time d > 0 then now - rd_ip_local_time d else 0)\<rparr>"

text \<open>The socket of the packet is nothing when there is none.\<close>

definition skb_copy_datagram_iovec ::
  "int \<Rightarrow> u32 option option \<Rightarrow> u32 \<Rightarrow> kernel_env \<Rightarrow> 'a packet_state_scheme \<Rightarrow> 'a packet_state_scheme" where
  "skb_copy_datagram_iovec buff sock len env st =
     (let forget = (\<lambda>st :: 'a packet_state_scheme. st\<lparr>ks_sk_buff_receive_detail_map := delete_elem buff (ks_sk_buff_receive_detail_map st)\<rparr>) in
      if ks_socket_data_args st (ke_pid_tgid env) = None then forget st
      else let st1 = set_args (\<lambda>a. a\<lparr>da_sk_role := (case sock of None \<Rightarrow> da_sk_role a | Some backlog \<Rightarrow> get_sock_role (da_sk_role a) backlog),
                                    da_package_count := da_package_count a + 1,
                                    da_total_package_size := da_total_package_size a + ucast len\<rparr>) env st
        in (case ks_sk_buff_receive_detail_map st1 buff of
              None \<Rightarrow> st1
            | Some d \<Rightarrow> set_args (add_receive_detail (ke_now env) d) env (forget st1)))"

section \<open>Transmitting\<close>

definition tcp_sendmsg :: "u32 option \<Rightarrow> kernel_env \<Rightarrow> 'a kernel_state_scheme \<Rightarrow> 'a kernel_state_scheme" where
  "tcp_sendmsg backlog env st = set_args (\<lambda>a. a\<lparr>da_enter_l4_time := ke_now env, da_sk_role := get_sock_role (da_sk_role a) backlog\<rparr>) env st"

definition tcp_sendmsg_ret :: "kernel_env \<Rightarrow> 'a kernel_state_scheme \<Rightarrow> 'a kernel_state_scheme" where
  "tcp_sendmsg_ret env st = set_args (\<lambda>a. a\<lparr>da_exit_l4_time := ke_now env\<rparr>) env st"

definition tcp_transmit_skb :: "u32 \<Rightarrow> kernel_env \<Rightarrow> 'a kernel_state_scheme \<Rightarrow> 'a kernel_state_scheme" where
  "tcp_transmit_skb len env st =
     set_args (\<lambda>a. a\<lparr>da_package_count := da_package_count a + 1, da_total_package_size := da_total_package_size a + ucast len\<rparr>) env st"

definition tcp_retransmit_skb :: "kernel_env \<Rightarrow> 'a kernel_state_scheme \<Rightarrow> 'a kernel_state_scheme" where
  "tcp_retransmit_skb env st = set_args (\<lambda>a. a\<lparr>da_retransmit_package_count := da_retransmit_package_count a + 1\<rparr>) env st"

text \<open>The places at which packets were lost: four at most, the others are not counted.\<close>

fun update_loss_package :: "u64 \<Rightarrow> (u64 \<times> u16) list \<Rightarrow> (u64 \<times> u16) list" where
  "update_loss_package location [] = []"
| "update_loss_package location ((loc, cnt) # rest) =
     (if loc = 0 then (location, 1) # rest
      else if loc = location then (loc, cnt + 1) # rest
      else (loc, cnt) # update_loss_package location rest)"

definition kfree_skb :: "int \<Rightarrow> u64 \<Rightarrow> 'a packet_state_scheme \<Rightarrow> 'a packet_state_scheme" where
  "kfree_skb skb location st =
     (if skb = 0 \<or> location = 0 then st
      else set_transmit skb (\<lambda>d. d\<lparr>td_loss_package := update_loss_package location (td_loss_package d)\<rparr>) st)"

definition no_transmit_detail :: skb_transmit_detail where
  "no_transmit_detail = \<lparr>td_l3_enter_time = 0, td_l3_local_time = 0, td_l3_output_time = 0, td_l3_finish_time = 0,
     td_total_nf_count = 0, td_total_resolve_neigh_count = 0, td_ifindex = 0, td_enter_nf_time = 0, td_enter_resolve_neigh_time = 0,
     td_total_nf_time = 0, td_total_resolve_neigh_time = 0, td_l2_enter_time = 0, td_l2_exit_time = 0, td_l2_start_xmit_time = 0,
     td_l2_finish_xmit_time = 0, td_loss_package = replicate 4 (0, 0)\<rparr>"

definition ip_queue_xmit :: "int \<Rightarrow> kernel_env \<Rightarrow> 'a packet_state_scheme \<Rightarrow> 'a packet_state_scheme" where
  "ip_queue_xmit skb env st =
     (if ks_socket_data_args st (ke_pid_tgid env) = None then st
      else let st1 = set_args (\<lambda>a. a\<lparr>da_buffer := skb\<rparr>) env st
        in st1\<lparr>ks_sk_buff_transmit_detail_map := update_elem (ke_room env TransmitDetails) skb
             (no_transmit_detail\<lparr>td_l3_enter_time := ke_now env\<rparr>) (ks_sk_buff_transmit_detail_map st1)\<rparr>)"

definition add_transmit_detail :: "u64 \<Rightarrow> skb_transmit_detail \<Rightarrow> sock_data_args_t \<Rightarrow> sock_data_args_t" where
  "add_transmit_detail now d a =
     (let queued = (td_l2_enter_time d > 0 \<and> td_l2_exit_time d > 0) in
      a\<lparr>da_l3_duration := da_l3_duration a + (now - td_l3_enter_time d),
        da_l3_local_duration := da_l3_local_duration a + span (td_l3_output_time d) (td_l3_local_time d),
        da_l3_output_duration := da_l3_output_duration a + span (td_l3_finish_time d) (td_l3_output_time d),
        da_total_resolve_mac_count := ucast (td_total_resolve_neigh_count d),
        da_total_resolve_mac_time := td_total_resolve_neigh_time d,
        da_total_net_filter_count := ucast (td_total_nf_count d),
        da_total_net_filter_time := td_total_nf_time d,
        da_l2_duration := (if queued then td_l2_exit_time d - td_l2_enter_time d else da_l2_duration a),
        da_l2_enter_queue_count := (if queued then da_l2_enter_queue_count a + 1 else da_l2_enter_queue_count a),
        da_ifindex := td_ifindex d,
        da_l2_enter_queue_package_count := da_l2_enter_queue_package_count a + (if td_l2_enter_time d > 0 then 1 else 0),
        da_l2_ready_send_duration := da_l2_ready_send_duration a + span (td_l2_start_xmit_time d) (td_l2_enter_time d),
        da_l2_send_duration := da_l2_send_duration a + span (td_l2_finish_xmit_time d) (td_l2_start_xmit_time d)\<rparr>)"

definition ip_queue_xmit_ret :: "kernel_env \<Rightarrow> 'a packet_state_scheme \<Rightarrow> 'a packet_state_scheme" where
  "ip_queue_xmit_ret env st =
     (case ks_socket_data_args st (ke_pid_tgid env) of
        None \<Rightarrow> st
      | Some a \<Rightarrow> (case ks_sk_buff_transmit_detail_map st (da_buffer a) of
          None \<Rightarrow> st
        | Some d \<Rightarrow> set_args (add_transmit_detail (ke_now env) d) env st))"

definition ip_local :: "int \<Rightarrow> kernel_env \<Rightarrow> 'a packet_state_scheme \<Rightarrow> 'a packet_state_scheme" where
  "ip_local skb env st = set_transmit skb (\<lambda>d. d\<lparr>td_l3_local_time := ke_now env\<rparr>) st"

definition ip_output :: "int \<Rightarrow> kernel_env \<Rightarrow> 'a packet_state_scheme \<Rightarrow> 'a packet_state_scheme" where
  "ip_output skb env st = set_transmit skb (\<lambda>d. d\<lparr>td_l3_output_time := ke_now env\<rparr>) st"

definition ip_finish_output2 :: "int \<Rightarrow> u32 \<Rightarrow> kernel_env \<Rightarrow> 'a packet_state_scheme \<Rightarrow> 'a packet_state_scheme" where
  "ip_finish_output2 skb ifindex env st = set_transmit skb (\<lambda>d. d\<lparr>td_ifindex := ifindex, td_l3_finish_time := ke_now env\<rparr>) st"

definition neigh_resolve_output :: "int \<Rightarrow> kernel_env \<Rightarrow> 'a packet_state_scheme \<Rightarrow> 'a packet_state_scheme" where
  "neigh_resolve_output skb env st =
     (if ks_sk_buff_transmit_detail_map st skb = None then st
      else save_l24_tmp_args L24_TEMP_ARGS_NEIGHT_RESOLVE_OUTPUT skb env
             (set_transmit skb (\<lambda>d. d\<lparr>td_enter_resolve_neigh_time := ke_now env\<rparr>) st))"

definition neigh_resolve_output_ret :: "kernel_env \<Rightarrow> 'a packet_state_scheme \<Rightarrow> 'a packet_state_scheme" where
  "neigh_resolve_output_ret env st =
     (case get_l24_transmit_tmp_args L24_TEMP_ARGS_NEIGHT_RESOLVE_OUTPUT env st of
        (Some skb, st1) \<Rightarrow> set_transmit skb (\<lambda>d. d\<lparr>td_total_resolve_neigh_count := td_total_resolve_neigh_count d + 1,
                               td_total_resolve_neigh_time := ke_now env - td_enter_resolve_neigh_time d\<rparr>) st1
      | (None, st1) \<Rightarrow> st1)"

definition dev_queue_emit :: "int \<Rightarrow> kernel_env \<Rightarrow> 'a packet_state_scheme \<Rightarrow> 'a packet_state_scheme" where
  "dev_queue_emit skb env st =
     (if ks_sk_buff_transmit_detail_map st skb = None then st
      else save_l24_tmp_args L24_TEMP_ARGS_DEV_QUEUE_EMIT skb env (set_transmit skb (\<lambda>d. d\<lparr>td_l2_enter_time := ke_now env\<rparr>) st))"

definition dev_queue_emit_ret :: "kernel_env \<Rightarrow> 'a packet_state_scheme \<Rightarrow> 'a packet_state_scheme" where
  "dev_queue_emit_ret env st =
     (case get_l24_transmit_tmp_args L24_TEMP_ARGS_DEV_QUEUE_EMIT env st of
        (Some skb, st1) \<Rightarrow> set_transmit skb (\<lambda>d. d\<lparr>td_l2_exit_time := ke_now env\<rparr>) st1
      | (None, st1) \<Rightarrow> st1)"

definition net_dev_start_xmit :: "int \<Rightarrow> kernel_env \<Rightarrow> 'a packet_state_scheme \<Rightarrow> 'a packet_state_scheme" where
  "net_dev_start_xmit skb env st = set_transmit skb (\<lambda>d. d\<lparr>td_l2_start_xmit_time := ke_now env\<rparr>) st"

definition net_dev_xmit :: "int \<Rightarrow> kernel_env \<Rightarrow> 'a packet_state_scheme \<Rightarrow> 'a packet_state_scheme" where
  "net_dev_xmit skb env st = set_transmit skb (\<lambda>d. d\<lparr>td_l2_finish_xmit_time := ke_now env\<rparr>) st"

end
