(* ===== verification/Kernel_Protocol.thy ===== *)
theory Kernel_Protocol
  imports Http1_Protocol
begin

text \<open>
  How the kernel programs recognise the protocol of a connection from the first bytes of an operation
  (\<^verbatim>\<open>bpf/include/protocol_analyzer.h\<close>, \<^verbatim>\<open>bpf/include/socket_reader.h\<close>). The buffer is given by index: the
  frames of HTTP/2 are read past the 31 bytes that were copied. For HTTP/1 the kernel decides as the reader
  of the access log does.
\<close>

unbundle bit_operations_syntax

section \<open>Reading the first bytes\<close>

definition MAX_PROTOCOL_SOCKET_READ_LENGTH :: nat where "MAX_PROTOCOL_SOCKET_READ_LENGTH = 31"

text \<open>
  The number of bytes and the buffer. A null buffer or array of segments is the address zero; \<open>segment\<close> is the
  first segment. A copy that fails leaves zeros, what follows is what the buffer held before.
\<close>

definition read_socket_data ::
  "memory_image \<Rightarrow> int \<Rightarrow> int \<Rightarrow> int \<times> nat \<Rightarrow> nat \<Rightarrow> (nat \<Rightarrow> u8) \<Rightarrow> (nat \<times> (nat \<Rightarrow> u8)) option" where
  "read_socket_data mem buf iovec segment bytes_count old =
     (let (data_buf, dsize) = (if buf \<noteq> 0 then (buf, bytes_count)
            else if iovec \<noteq> 0 then (fst segment, min (snd segment) bytes_count) else (0, 0)) in
      if dsize = 0 then None
      else let n = min dsize MAX_PROTOCOL_SOCKET_READ_LENGTH;
               bytes = (case probe_read mem data_buf n of None \<Rightarrow> replicate n 0 | Some bs \<Rightarrow> bs)
           in Some (n, \<lambda>i. if i < n then bytes ! i else old i))"

section \<open>HTTP/1\<close>

datatype message_kind = MESSAGE_UNKNOWN | MESSAGE_REQUEST | MESSAGE_RESPONSE

abbreviation ascii :: "char \<Rightarrow> u8" where "ascii c \<equiv> of_nat (of_char c)"

definition starts :: "(nat \<Rightarrow> u8) \<Rightarrow> string \<Rightarrow> bool" where
  "starts buf m \<longleftrightarrow> list_all (\<lambda>i. buf i = ascii (m ! i)) [0..<length m]"

definition infer_http1_message :: "(nat \<Rightarrow> u8) \<Rightarrow> nat \<Rightarrow> message_kind" where
  "infer_http1_message buf n =
     (if n < 16 then MESSAGE_UNKNOWN
      else if starts buf ''HTTP'' then MESSAGE_RESPONSE
      else if starts buf ''GET'' then MESSAGE_REQUEST
      else if starts buf ''POST'' then MESSAGE_REQUEST
      else if starts buf ''OPTIONS'' then MESSAGE_REQUEST
      else if starts buf ''HEAD'' then MESSAGE_REQUEST
      else if starts buf ''PUT'' then MESSAGE_REQUEST
      else if starts buf ''DELETE'' then MESSAGE_REQUEST
      else if starts buf ''CONNECT'' then MESSAGE_REQUEST
      else if starts buf ''TRACE'' then MESSAGE_REQUEST
      else if starts buf ''PATCH'' then MESSAGE_REQUEST
      else MESSAGE_UNKNOWN)"

section \<open>HTTP/2\<close>

definition is_http2_magic :: "(nat \<Rightarrow> u8) \<Rightarrow> bool" where
  "is_http2_magic buf \<longleftrightarrow> starts buf ''PRI * HTTP/2''"

text \<open>The kind of a header block by its first indexed field; at most six bytes are looked at.\<close>

fun header_kind :: "nat \<Rightarrow> (nat \<Rightarrow> u8) \<Rightarrow> nat \<Rightarrow> nat \<Rightarrow> message_kind option" where
  "header_kind n frame off 0 = None"
| "header_kind n frame off (Suc j) =
     (if off > n then Some MESSAGE_UNKNOWN
      else let staticInx = frame off AND 0x7f in
        if staticInx \<le> 61 \<and> staticInx > 0
        then Some (if staticInx \<in> {1, 2, 3, 4, 5} then MESSAGE_REQUEST else MESSAGE_RESPONSE)
        else header_kind n frame (off + 1) j)"

definition frame_length :: "(nat \<Rightarrow> u8) \<Rightarrow> nat" where
  "frame_length frame = unat (frame 0) * 65536 + unat (frame 1) * 256 + unat (frame 2)"

text \<open>The loop over at most five frames; offsets are 32 bit wide.\<close>

fun infer_frames :: "(nat \<Rightarrow> u8) \<Rightarrow> nat \<Rightarrow> u32 \<Rightarrow> nat \<Rightarrow> message_kind" where
  "infer_frames buf n frameOffset 0 = MESSAGE_UNKNOWN"
| "infer_frames buf n frameOffset (Suc k) =
     (if unat frameOffset \<ge> n then MESSAGE_UNKNOWN
      else let frame = (\<lambda>i. buf (unat frameOffset + i));
               next_offset = frameOffset + of_nat (frame_length frame) + 9 in
        if frame 3 > 9 then MESSAGE_UNKNOWN
        else if frame 3 \<noteq> 1 then infer_frames buf n next_offset k
        else if frame 4 AND 0xd2 \<noteq> 0 \<or> frame 5 AND 1 \<noteq> 0 then MESSAGE_UNKNOWN
        else if frame 5 AND 0x7f = 0 \<and> frame 6 = 0 \<and> frame 7 = 0 \<and> frame 8 = 0 then MESSAGE_UNKNOWN
        else let off = 9 + (if frame 4 AND 8 \<noteq> 0 then 1 else 0) + (if frame 4 AND 0x20 \<noteq> 0 then 5 else 0) in
          (case header_kind n frame off 6 of Some m \<Rightarrow> m | None \<Rightarrow> infer_frames buf n next_offset k))"

definition infer_http2_message :: "(nat \<Rightarrow> u8) \<Rightarrow> nat \<Rightarrow> message_kind" where
  "infer_http2_message buf n =
     (if n < 9 then MESSAGE_UNKNOWN else infer_frames buf n (if is_http2_magic buf then 24 else 0) 5)"

section \<open>The protocol of a connection\<close>

text \<open>The kind of the message and the protocol, which stays as it was when neither is recognised.\<close>

definition analyze_protocol :: "(nat \<Rightarrow> u8) \<Rightarrow> nat \<Rightarrow> u8 \<Rightarrow> message_kind \<times> u8" where
  "analyze_protocol buf n protocol =
     (let t1 = infer_http1_message buf n in
      if t1 \<noteq> MESSAGE_UNKNOWN then (t1, 1)
      else let t2 = infer_http2_message buf n in
        if t2 \<noteq> MESSAGE_UNKNOWN then (t2, 2) else (MESSAGE_UNKNOWN, protocol))"

section \<open>The kernel and the reader agree\<close>

lemma ascii_char: "(char_of (unat (b :: u8)) = c) \<longleftrightarrow> b = ascii c"
proof
  assume "char_of (unat b) = c"
  then have "of_char c = unat b mod 256" by (metis of_char_of)
  moreover have "unat b < 256" using unsigned_less [where 'a = nat, of b] by simp
  ultimately show "b = ascii c" by simp
next
  assume "b = ascii c"
  moreover have "(of_char c :: nat) < 256" by (cases c) (simp add: of_char_Char horner_sum_simps)
  ultimately show "char_of (unat b) = c" by (simp add: unsigned_of_nat take_bit_eq_mod)
qed

lemma starts_prefix:
  assumes "length m \<le> length bytes" "\<And>i. i < length m \<Longrightarrow> buf i = bytes ! i"
  shows "starts buf m \<longleftrightarrow> take (length m) (byte_string bytes) = m"
proof -
  have "take (length m) (byte_string bytes) = m \<longleftrightarrow> (\<forall>i < length m. char_of (unat (bytes ! i)) = m ! i)"
    using assms(1) by (auto simp: byte_string_def list_eq_iff_nth_eq)
  also have "\<dots> \<longleftrightarrow> (\<forall>i < length m. buf i = ascii (m ! i))" using assms(2) by (simp add: ascii_char)
  also have "\<dots> \<longleftrightarrow> starts buf m" by (auto simp: starts_def list_all_iff)
  finally show ?thesis by simp
qed

text \<open>What the type of a message that user space sees is in the kernel.\<close>

fun kind_of :: "MessageType \<Rightarrow> message_kind" where
  "kind_of MessageTypeRequest = MESSAGE_REQUEST"
| "kind_of MessageTypeResponse = MESSAGE_RESPONSE"
| "kind_of MessageTypeUnknown = MESSAGE_UNKNOWN"

text \<open>
  For HTTP/1 the kernel and user space decide alike: when at least sixteen bytes of an operation are there, the
  programs that recognise the protocol give its message the type that the reader of the access log gives to
  the same sixteen bytes.
\<close>

theorem kernel_and_reader_agree:
  assumes "length bytes = 16" and "\<And>i. i < 16 \<Longrightarrow> buf i = bytes ! i" and "16 \<le> n"
  shows "infer_http1_message buf n = kind_of (message_type (byte_string bytes))"
proof -
  have s: "starts buf m \<longleftrightarrow> take (length m) (byte_string bytes) = m" if "length m \<le> 16" for m
    by (rule starts_prefix) (use assms that in auto)
  have excl: "\<not> list_ex (\<lambda>m. take (length m) (byte_string bytes) = m) requestMethods" if "take 4 (byte_string bytes) = ''HTTP''"
  proof -
    have b: "byte_string bytes = ''HTTP'' @ drop 4 (byte_string bytes)" using that by (metis append_take_drop_id)
    show ?thesis by (subst b) (simp add: requestMethods_def)
  qed
  show ?thesis
  proof (cases "take 4 (byte_string bytes) = ''HTTP''")
    case True
    moreover have "starts buf ''HTTP''" using s [of "''HTTP''"] True by (simp add: eval_nat_numeral)
    ultimately show ?thesis using excl [OF True] assms(3) by (simp add: infer_http1_message_def message_type_def)
  next
    case False
    moreover have "\<not> starts buf ''HTTP''" using s [of "''HTTP''"] False by (simp add: eval_nat_numeral)
    ultimately show ?thesis using s assms(3) by (simp add: infer_http1_message_def message_type_def requestMethods_def)
  qed
qed

theorem kernel_and_reader_agree_witness:
  "infer_http1_message (\<lambda>i. ([71, 69, 84, 32, 47, 32, 72, 84, 84, 80, 47, 49, 46, 49, 13, 10] :: u8 list) ! i) 31 = MESSAGE_REQUEST"
proof -
  have "message_type (byte_string [71, 69, 84, 32, 47, 32, 72, 84, 84, 80, 47, 49, 46, 49, 13, 10]) = MessageTypeRequest"
    by code_simp
  then show ?thesis
    using kernel_and_reader_agree [of "[71, 69, 84, 32, 47, 32, 72, 84, 84, 80, 47, 49, 46, 49, 13, 10]"
        "\<lambda>i. [71, 69, 84, 32, 47, 32, 72, 84, 84, 80, 47, 49, 46, 49, 13, 10] ! i" 31] by simp
qed

end
