(* ===== verification/Kernel_Transfer.thy ===== *)
theory Kernel_Transfer
  imports Kernel_Packets Kernel_Protocol
begin

text \<open>
  The system calls that transfer data (\<^verbatim>\<open>bpf/accesslog/syscalls/transfer.c\<close>, \<^verbatim>\<open>transfer.h\<close>): when a call is entered its
  arguments are kept under the identifier of the thread, and when it returns the bytes, the role and the
  protocol of the connection and the times of its packets are sent to user space. The arguments of the calls
  and the values they return are arguments of the programs.
\<close>

section \<open>The data of an operation\<close>

definition SOCK_DATA_DIRECTION_INGRESS :: u32 where "SOCK_DATA_DIRECTION_INGRESS = 1"
definition SOCK_DATA_DIRECTION_EGRESS :: u32 where "SOCK_DATA_DIRECTION_EGRESS = 2"

text \<open>Inside a call of a TLS library that does not know its descriptor, the descriptor is the one of the operation.\<close>

definition mark_ssl :: "kernel_env \<Rightarrow> u32 \<Rightarrow> bool \<Rightarrow> active_connection_t \<Rightarrow> 'a kernel_state_scheme \<Rightarrow> active_connection_t \<times> 'a kernel_state_scheme" where
  "mark_ssl env fd ssl conn st =
     (if (case ks_openssl_sock_data_args st (ke_pid_tgid env) of None \<Rightarrow> False | Some a \<Rightarrow> da_fd a = 0)
      then (conn\<lparr>kc_ssl := True\<rparr>,
            st\<lparr>ks_openssl_sock_data_args := modify_elem (ke_pid_tgid env) (\<lambda>a. a\<lparr>da_fd := fd\<rparr>) (ks_openssl_sock_data_args st)\<rparr>)
      else if ssl then (conn\<lparr>kc_ssl := True\<rparr>, st) else (conn, st))"

text \<open>The role that the kind of the message and its direction give.\<close>

definition role_of_message :: "message_kind \<Rightarrow> u32 \<Rightarrow> u32 \<Rightarrow> u32" where
  "role_of_message kind direction role =
     (if kind = MESSAGE_REQUEST \<and> direction = SOCK_DATA_DIRECTION_EGRESS \<or> kind = MESSAGE_RESPONSE \<and> direction = SOCK_DATA_DIRECTION_INGRESS
      then CONNECTION_ROLE_TYPE_CLIENT
      else if kind = MESSAGE_RESPONSE \<and> direction = SOCK_DATA_DIRECTION_EGRESS \<or> kind = MESSAGE_REQUEST \<and> direction = SOCK_DATA_DIRECTION_INGRESS
      then CONNECTION_ROLE_TYPE_SERVER
      else role)"

definition infer_connection ::
  "kernel_env \<Rightarrow> sock_data_args_t \<Rightarrow> int \<Rightarrow> u32 \<Rightarrow> bool \<Rightarrow> active_connection_t \<Rightarrow> 'a kernel_state_scheme \<Rightarrow> active_connection_t \<times> 'a kernel_state_scheme" where
  "infer_connection env args bytes_count direction ssl conn st =
     (if (kc_role conn = CONNECTION_ROLE_TYPE_UNKNOWN \<or> kc_protocol conn = 0) \<and> kc_ssl conn = ssl
      then (case read_socket_data (ke_mem env) (da_buf args) (da_iovec args) (read_iovec (ke_mem env) (da_iovec args) 0)
                   (unat (word_of_int bytes_count :: u32)) (ks_reader_buffer st) of
              None \<Rightarrow> (conn, st)
            | Some (n, buffer) \<Rightarrow>
                (case analyze_protocol buffer n (kc_protocol conn) of
                   (kind, protocol) \<Rightarrow> (conn\<lparr>kc_protocol := protocol, kc_role := role_of_message kind direction (kc_role conn)\<rparr>,
                                        st\<lparr>ks_reader_buffer := buffer\<rparr>)))
      else (conn, st))"

definition socket_detail :: "u64 \<Rightarrow> u64 \<Rightarrow> u8 \<Rightarrow> active_connection_t \<Rightarrow> sock_data_args_t \<Rightarrow> SocketDetailEvent" where
  "socket_detail now conid func_name conn args =
     \<lparr>dt_ConnectionID = conid, dt_RandomID = kc_random_id conn, dt_DataID0 = da_data_id args, dt_StartTime = da_start_nacs args, dt_EndTime = now,
      dt_L4Duration = ucast (da_exit_l4_time args - da_enter_l4_time args), dt_L3Duration = ucast (da_l3_duration args),
      dt_L3LocalDuration = ucast (da_l3_local_duration args), dt_L3OutputDuration = ucast (da_l3_output_duration args),
      dt_L3ResolveMacDuration = ucast (da_total_resolve_mac_time args), dt_L3NetFilterDuration = ucast (da_total_net_filter_time args),
      dt_L2Duration = ucast (da_l2_duration args), dt_L2ReadySendDuration = ucast (da_l2_ready_send_duration args),
      dt_L2SendDuration = ucast (da_l2_send_duration args), dt_L2PackageToQueueDuration = ucast (da_total_package_to_queue_time args),
      dt_L3TotalRcvDuration = ucast (da_l3_rcv_duration args), dt_IfIndex = da_ifindex args,
      dt_L4PackageRcvFromQueueDuration = da_total_package_receive_from_queue_time args, dt_L4TotalPackageSize = da_total_package_size args,
      dt_L2EnterQueueCount = ucast (da_l2_enter_queue_count args), dt_L4PackageCount = da_package_count args,
      dt_L4RetransmitPackageCount = da_retransmit_package_count args, dt_L3ResolveMacCount = ucast (da_total_resolve_mac_count args),
      dt_L3NetFilterCount = ucast (da_total_net_filter_count args), dt_FunctionName = func_name, dt_Protocol = kc_protocol conn,
      dt_SSL = (if kc_ssl conn then 1 else 0)\<rparr>"

definition upload_args :: "u64 \<Rightarrow> u64 \<Rightarrow> nat \<Rightarrow> u32 \<Rightarrow> bool \<Rightarrow> active_connection_t \<Rightarrow> sock_data_args_t \<Rightarrow> upload_data_args" where
  "upload_args now conid bytes_count direction ssl conn args =
     \<lparr>ua_start_time = da_start_nacs args, ua_end_time = now, ua_con_id = conid, ua_random_id = kc_random_id conn,
      ua_socket_data_id = da_data_id args, ua_prev_socket_data_id = 0, ua_socket_data_iovec = da_iovec args,
      ua_socket_data_iovlen = da_iovlen args, ua_bytes_count = bytes_count, ua_socket_data_buf = da_buf args, ua_data_direction = direction,
      ua_connection_protocol = kc_protocol conn, ua_connection_ssl = kc_ssl conn,
      ua_socket_ssl_buffer_force_unfinished = da_ssl_buffer_force_unfinished args,
      ua_connection_skip_data_upload = kc_skip_data_upload conn, ua_socket_data_ssl = ssl\<rparr>"

text \<open>An operation whose packets were not seen counts as one packet.\<close>

definition package_defaults :: "int \<Rightarrow> sock_data_args_t \<Rightarrow> sock_data_args_t" where
  "package_defaults bytes_count args =
     (if da_total_package_size args = 0 \<and> da_package_count args = 0
      then args\<lparr>da_total_package_size := word_of_int bytes_count, da_package_count := 1\<rparr> else args)"

text \<open>The connection is changed in place; the arguments are those of an entry that the caller removes afterwards.\<close>

definition process_write_data ::
  "kernel_env \<Rightarrow> sock_data_args_t \<Rightarrow> int \<Rightarrow> u32 \<Rightarrow> bool \<Rightarrow> u8 \<Rightarrow> bool \<Rightarrow> 'a kernel_state_scheme \<Rightarrow> 'a kernel_state_scheme" where
  "process_write_data env args0 bytes_count direction vecs func_name ssl st =
     (if vecs \<and> da_iovlen args0 = 0 \<or> bytes_count \<le> 0 then st
      else (case get_or_create_active_conn env (env_tgid env) (da_fd args0) (ucast func_name) (da_sk_role args0) st of
          (None, st1) \<Rightarrow> st1
        | (Some conn, st1) \<Rightarrow>
            if \<not> family_should_trace (kc_socket_family conn) then st1
            else let conid = gen_tgid_fd (env_tgid env) (da_fd args0);
                     (conn1, st2) = mark_ssl env (da_fd args0) ssl conn st1;
                     args = package_defaults bytes_count args0;
                     (conn2, st3) = infer_connection env args bytes_count direction ssl conn1 st2;
                     st4 = st3\<lparr>ks_active_connection_map := (ks_active_connection_map st3)(conid \<mapsto> conn2)\<rparr>;
                     detail = socket_detail (ke_now env) conid func_name conn2 args;
                     st5 = (if kc_ssl conn2 = ssl then submit (SocketDetailEvent_layout detail) (DetailOut detail) st4 else st4)
                 in st5\<lparr>ks_upload := upload_socket_data (ke_mem env)
                      (upload_args (ke_now env) conid (nat bytes_count) direction ssl conn2 args) (ks_upload st5)\<rparr>))"

definition SOCKET_OPTS_TYPE_SENDTO :: "'a::len word" where "SOCKET_OPTS_TYPE_SENDTO = 5"
definition SOCKET_OPTS_TYPE_SENDMSG :: "'a::len word" where "SOCKET_OPTS_TYPE_SENDMSG = 6"
definition SOCKET_OPTS_TYPE_SENDMMSG :: "'a::len word" where "SOCKET_OPTS_TYPE_SENDMMSG = 7"
definition SOCKET_OPTS_TYPE_WRITE :: "'a::len word" where "SOCKET_OPTS_TYPE_WRITE = 9"
definition SOCKET_OPTS_TYPE_WRITEV :: "'a::len word" where "SOCKET_OPTS_TYPE_WRITEV = 10"
definition SOCKET_OPTS_TYPE_READ :: "'a::len word" where "SOCKET_OPTS_TYPE_READ = 11"
definition SOCKET_OPTS_TYPE_READV :: "'a::len word" where "SOCKET_OPTS_TYPE_READV = 12"
definition SOCKET_OPTS_TYPE_RECV :: "'a::len word" where "SOCKET_OPTS_TYPE_RECV = 13"
definition SOCKET_OPTS_TYPE_RECVFROM :: "'a::len word" where "SOCKET_OPTS_TYPE_RECVFROM = 14"
definition SOCKET_OPTS_TYPE_RECVMSG :: "'a::len word" where "SOCKET_OPTS_TYPE_RECVMSG = 15"
definition SOCKET_OPTS_TYPE_RECVMMSG :: "'a::len word" where "SOCKET_OPTS_TYPE_RECVMMSG = 16"

section \<open>Entering and leaving a call\<close>

definition no_data_args :: sock_data_args_t where
  "no_data_args = \<lparr>da_fd = 0, da_is_sock_event = False, da_iovlen = 0, da_msg_len = 0, da_start_nacs = 0, da_buf = 0, da_iovec = 0,
     da_data_id = 0, da_excepted_size = 0, da_ifindex = 0, da_total_package_size = 0, da_package_count = 0, da_retransmit_package_count = 0,
     da_ssl_buffer_force_unfinished = False, da_sk_role = 0, da_l2_enter_queue_count = 0, da_buffer = 0, da_enter_l4_time = 0,
     da_exit_l4_time = 0, da_l3_duration = 0, da_l3_rcv_duration = 0, da_l3_local_duration = 0, da_l3_output_duration = 0,
     da_total_resolve_mac_count = 0, da_total_net_filter_count = 0, da_total_resolve_mac_time = 0, da_total_net_filter_time = 0,
     da_total_package_to_queue_time = 0, da_total_package_receive_from_queue_time = 0, da_l2_duration = 0,
     da_l2_enter_queue_package_count = 0, da_l2_ready_send_duration = 0, da_l2_send_duration = 0\<rparr>"

text \<open>The part that entering a call has in common: a new number, and the arguments under the thread.\<close>

definition enter_data :: "u32 \<Rightarrow> (sock_data_args_t \<Rightarrow> sock_data_args_t) \<Rightarrow> kernel_env \<Rightarrow> 'a kernel_state_scheme \<Rightarrow> 'a kernel_state_scheme" where
  "enter_data fd f env st =
     (case generate_socket_data_id env fd False st of
        (data_id, st1) \<Rightarrow> st1\<lparr>ks_socket_data_args := update_elem (ke_room env SocketDataArgs) (ke_pid_tgid env)
           (f (no_data_args\<lparr>da_fd := fd, da_start_nacs := ke_now env, da_data_id := data_id\<rparr>)) (ks_socket_data_args st1)\<rparr>)"

definition enter_address :: "u32 \<Rightarrow> int \<Rightarrow> u64 \<Rightarrow> kernel_env \<Rightarrow> 'a kernel_state_scheme \<Rightarrow> 'a kernel_state_scheme" where
  "enter_address fd addr start_nacs env st =
     (if addr = 0 then st
      else st\<lparr>ks_conecting_args := update_elem (ke_room env ConnectingArgs) (ke_pid_tgid env)
                \<lparr>cn_fd = fd, cn_has_remote = False, cn_addr = addr, cn_sock = 0, cn_start_nacs = start_nacs, cn_remote = no_remote\<rparr>
                (ks_conecting_args st)\<rparr>)"

definition exit_data ::
  "bool \<Rightarrow> (sock_data_args_t \<Rightarrow> int) \<Rightarrow> u32 \<Rightarrow> bool \<Rightarrow> u8 \<Rightarrow> kernel_env \<Rightarrow> 'a kernel_state_scheme \<Rightarrow> 'a kernel_state_scheme" where
  "exit_data only_sockets bytes_count direction vecs func_name env st =
     (let st1 = (case ks_socket_data_args st (ke_pid_tgid env) of
                   None \<Rightarrow> st
                 | Some args \<Rightarrow> if only_sockets \<and> \<not> da_is_sock_event args then st
                     else process_write_data env args (bytes_count args) direction vecs func_name False st)
      in st1\<lparr>ks_socket_data_args := delete_elem (ke_pid_tgid env) (ks_socket_data_args st1)\<rparr>)"

definition exit_address :: "int \<Rightarrow> u32 \<Rightarrow> u8 \<Rightarrow> kernel_env \<Rightarrow> 'a kernel_state_scheme \<Rightarrow> 'a kernel_state_scheme" where
  "exit_address bytes_count func_name role env st =
     (let st1 = (case ks_conecting_args st (ke_pid_tgid env) of
                   None \<Rightarrow> st
                 | Some args \<Rightarrow> if bytes_count > 0 then submit_connection_when_not_exists env args func_name role st else st)
      in st1\<lparr>ks_conecting_args := delete_elem (ke_pid_tgid env) (ks_conecting_args st1)\<rparr>)"

text \<open>A message header in the memory of the process: the address, the segments and their number.\<close>

definition read_u64 :: "memory_image \<Rightarrow> int \<Rightarrow> u64" where
  "read_u64 mem a = (case probe_read mem a 8 of None \<Rightarrow> 0 | Some bs \<Rightarrow> le_word bs)"

definition msg_name :: "memory_image \<Rightarrow> int \<Rightarrow> int" where "msg_name mem msghdr = uint (read_u64 mem msghdr)"
definition msg_iov :: "memory_image \<Rightarrow> int \<Rightarrow> int" where "msg_iov mem msghdr = uint (read_u64 mem (msghdr + 16))"
definition msg_iovlen :: "memory_image \<Rightarrow> int \<Rightarrow> nat" where "msg_iovlen mem msghdr = unat (read_u64 mem (msghdr + 24))"

text \<open>The length that the calls for several messages report, read from the address they kept.\<close>

definition read_msg_len :: "kernel_env \<Rightarrow> sock_data_args_t \<Rightarrow> int" where
  "read_msg_len env args = (case probe_read (ke_mem env) (da_msg_len args) 4 of None \<Rightarrow> 0 | Some bs \<Rightarrow> uint (le_word bs :: u32))"

section \<open>Sending\<close>

definition enter_write :: "u32 \<Rightarrow> int \<Rightarrow> kernel_env \<Rightarrow> 'a kernel_state_scheme \<Rightarrow> 'a kernel_state_scheme" where
  "enter_write fd buf env st =
     (if \<not> tgid_should_trace (env_tgid env) st then st else enter_data fd (\<lambda>a. a\<lparr>da_buf := buf\<rparr>) env st)"

definition exit_write :: "int \<Rightarrow> kernel_env \<Rightarrow> 'a kernel_state_scheme \<Rightarrow> 'a kernel_state_scheme" where
  "exit_write ret env st = exit_data True (\<lambda>_. ret) SOCK_DATA_DIRECTION_EGRESS False SOCKET_OPTS_TYPE_WRITE env st"

definition enter_sendto :: "u32 \<Rightarrow> int \<Rightarrow> int \<Rightarrow> kernel_env \<Rightarrow> 'a kernel_state_scheme \<Rightarrow> 'a kernel_state_scheme" where
  "enter_sendto fd buf addr env st =
     (if \<not> tgid_should_trace (env_tgid env) st then st else enter_data fd (\<lambda>a. a\<lparr>da_buf := buf\<rparr>) env (enter_address fd addr 0 env st))"

definition exit_sendto :: "int \<Rightarrow> kernel_env \<Rightarrow> 'a kernel_state_scheme \<Rightarrow> 'a kernel_state_scheme" where
  "exit_sendto ret env st =
     exit_data False (\<lambda>_. ret) SOCK_DATA_DIRECTION_EGRESS False SOCKET_OPTS_TYPE_SENDTO env (exit_address ret SOCKET_OPTS_TYPE_SENDTO CONNECTION_ROLE_TYPE_CLIENT env st)"

definition enter_writev :: "u32 \<Rightarrow> int \<Rightarrow> nat \<Rightarrow> kernel_env \<Rightarrow> 'a kernel_state_scheme \<Rightarrow> 'a kernel_state_scheme" where
  "enter_writev fd iov iovlen env st =
     (if \<not> tgid_should_trace (env_tgid env) st then st else enter_data fd (\<lambda>a. a\<lparr>da_iovec := iov, da_iovlen := iovlen\<rparr>) env st)"

definition exit_writev :: "int \<Rightarrow> kernel_env \<Rightarrow> 'a kernel_state_scheme \<Rightarrow> 'a kernel_state_scheme" where
  "exit_writev ret env st = exit_data True (\<lambda>_. ret) SOCK_DATA_DIRECTION_EGRESS True SOCKET_OPTS_TYPE_WRITEV env st"

definition enter_sendmsg :: "u32 \<Rightarrow> int \<Rightarrow> kernel_env \<Rightarrow> 'a kernel_state_scheme \<Rightarrow> 'a kernel_state_scheme" where
  "enter_sendmsg fd msghdr env st =
     (if \<not> tgid_should_trace (env_tgid env) st \<or> msghdr = 0 then st
      else enter_data fd (\<lambda>a. a\<lparr>da_iovec := msg_iov (ke_mem env) msghdr, da_iovlen := msg_iovlen (ke_mem env) msghdr\<rparr>) env
             (enter_address fd (msg_name (ke_mem env) msghdr) (ke_now env) env st))"

definition exit_sendmsg :: "int \<Rightarrow> kernel_env \<Rightarrow> 'a kernel_state_scheme \<Rightarrow> 'a kernel_state_scheme" where
  "exit_sendmsg ret env st =
     exit_data False (\<lambda>_. ret) SOCK_DATA_DIRECTION_EGRESS True SOCKET_OPTS_TYPE_SENDMSG env (exit_address ret SOCKET_OPTS_TYPE_SENDMSG CONNECTION_ROLE_TYPE_CLIENT env st)"

definition enter_sendmmsg :: "u32 \<Rightarrow> int \<Rightarrow> u32 \<Rightarrow> kernel_env \<Rightarrow> 'a kernel_state_scheme \<Rightarrow> 'a kernel_state_scheme" where
  "enter_sendmmsg fd mmsghdr vlen env st =
     (if \<not> tgid_should_trace (env_tgid env) st \<or> mmsghdr = 0 \<or> vlen = 0 then st
      else enter_data fd (\<lambda>a. a\<lparr>da_iovec := msg_iov (ke_mem env) mmsghdr, da_iovlen := msg_iovlen (ke_mem env) mmsghdr,
                                da_msg_len := mmsghdr + 24\<rparr>) env
             (enter_address fd (msg_name (ke_mem env) mmsghdr) (ke_now env) env st))"

definition exit_sendmmsg :: "int \<Rightarrow> kernel_env \<Rightarrow> 'a kernel_state_scheme \<Rightarrow> 'a kernel_state_scheme" where
  "exit_sendmmsg ret env st =
     exit_data False (read_msg_len env) SOCK_DATA_DIRECTION_EGRESS True SOCKET_OPTS_TYPE_SENDMMSG env (exit_address ret SOCKET_OPTS_TYPE_SENDMMSG CONNECTION_ROLE_TYPE_CLIENT env st)"

definition security_socket_sendmsg :: "kernel_env \<Rightarrow> 'a kernel_state_scheme \<Rightarrow> 'a kernel_state_scheme" where
  "security_socket_sendmsg env st = set_args (\<lambda>a. a\<lparr>da_is_sock_event := True\<rparr>) env st"

section \<open>Receiving\<close>

definition enter_read :: "u32 \<Rightarrow> int \<Rightarrow> kernel_env \<Rightarrow> 'a kernel_state_scheme \<Rightarrow> 'a kernel_state_scheme" where
  "enter_read fd buf env st =
     (if \<not> tgid_should_trace (env_tgid env) st then st else enter_data fd (\<lambda>a. a\<lparr>da_buf := buf\<rparr>) env st)"

definition exit_read :: "int \<Rightarrow> kernel_env \<Rightarrow> 'a kernel_state_scheme \<Rightarrow> 'a kernel_state_scheme" where
  "exit_read ret env st = exit_data True (\<lambda>_. ret) SOCK_DATA_DIRECTION_INGRESS False SOCKET_OPTS_TYPE_READ env st"

definition enter_readv :: "u32 \<Rightarrow> int \<Rightarrow> nat \<Rightarrow> kernel_env \<Rightarrow> 'a kernel_state_scheme \<Rightarrow> 'a kernel_state_scheme" where
  "enter_readv fd iov iovlen env st =
     (if \<not> tgid_should_trace (env_tgid env) st then st else enter_data fd (\<lambda>a. a\<lparr>da_iovec := iov, da_iovlen := iovlen\<rparr>) env st)"

definition exit_readv :: "int \<Rightarrow> kernel_env \<Rightarrow> 'a kernel_state_scheme \<Rightarrow> 'a kernel_state_scheme" where
  "exit_readv ret env st = exit_data True (\<lambda>_. ret) SOCK_DATA_DIRECTION_INGRESS True SOCKET_OPTS_TYPE_READV env st"

definition enter_recv :: "u32 \<Rightarrow> int \<Rightarrow> kernel_env \<Rightarrow> 'a kernel_state_scheme \<Rightarrow> 'a kernel_state_scheme" where
  "enter_recv fd buf env st =
     (if \<not> tgid_should_trace (env_tgid env) st then st else enter_data fd (\<lambda>a. a\<lparr>da_buf := buf\<rparr>) env st)"

definition exit_recv :: "int \<Rightarrow> kernel_env \<Rightarrow> 'a kernel_state_scheme \<Rightarrow> 'a kernel_state_scheme" where
  "exit_recv ret env st = exit_data False (\<lambda>_. ret) SOCK_DATA_DIRECTION_INGRESS False SOCKET_OPTS_TYPE_RECV env st"

definition enter_recvfrom :: "u32 \<Rightarrow> int \<Rightarrow> int \<Rightarrow> kernel_env \<Rightarrow> 'a kernel_state_scheme \<Rightarrow> 'a kernel_state_scheme" where
  "enter_recvfrom fd buf addr env st =
     (if \<not> tgid_should_trace (env_tgid env) st then st else enter_data fd (\<lambda>a. a\<lparr>da_buf := buf\<rparr>) env (enter_address fd addr 0 env st))"

definition exit_recvfrom :: "int \<Rightarrow> kernel_env \<Rightarrow> 'a kernel_state_scheme \<Rightarrow> 'a kernel_state_scheme" where
  "exit_recvfrom ret env st =
     exit_data False (\<lambda>_. ret) SOCK_DATA_DIRECTION_INGRESS False SOCKET_OPTS_TYPE_RECVFROM env (exit_address ret SOCKET_OPTS_TYPE_RECVFROM CONNECTION_ROLE_TYPE_SERVER env st)"

definition enter_recvmsg :: "u32 \<Rightarrow> int \<Rightarrow> kernel_env \<Rightarrow> 'a kernel_state_scheme \<Rightarrow> 'a kernel_state_scheme" where
  "enter_recvmsg fd msghdr env st =
     (if \<not> tgid_should_trace (env_tgid env) st \<or> msghdr = 0 then st
      else enter_data fd (\<lambda>a. a\<lparr>da_iovec := msg_iov (ke_mem env) msghdr, da_iovlen := msg_iovlen (ke_mem env) msghdr\<rparr>) env
             (enter_address fd (msg_name (ke_mem env) msghdr) (ke_now env) env st))"

definition exit_recvmsg :: "int \<Rightarrow> kernel_env \<Rightarrow> 'a kernel_state_scheme \<Rightarrow> 'a kernel_state_scheme" where
  "exit_recvmsg ret env st =
     exit_data False (\<lambda>_. ret) SOCK_DATA_DIRECTION_INGRESS True SOCKET_OPTS_TYPE_RECVMSG env (exit_address ret SOCKET_OPTS_TYPE_RECVMSG CONNECTION_ROLE_TYPE_SERVER env st)"

definition enter_recvmmsg :: "u32 \<Rightarrow> int \<Rightarrow> u32 \<Rightarrow> kernel_env \<Rightarrow> 'a kernel_state_scheme \<Rightarrow> 'a kernel_state_scheme" where
  "enter_recvmmsg fd mmsghdr vlen env st =
     (if \<not> tgid_should_trace (env_tgid env) st \<or> mmsghdr = 0 \<or> vlen = 0 then st
      else enter_data fd (\<lambda>a. a\<lparr>da_iovec := msg_iov (ke_mem env) mmsghdr, da_iovlen := msg_iovlen (ke_mem env) mmsghdr,
                                da_msg_len := mmsghdr + 24\<rparr>) env
             (enter_address fd (msg_name (ke_mem env) mmsghdr) (ke_now env) env st))"

definition exit_recvmmsg :: "int \<Rightarrow> kernel_env \<Rightarrow> 'a kernel_state_scheme \<Rightarrow> 'a kernel_state_scheme" where
  "exit_recvmmsg ret env st =
     exit_data False (read_msg_len env) SOCK_DATA_DIRECTION_INGRESS True SOCKET_OPTS_TYPE_RECVMMSG env (exit_address ret SOCKET_OPTS_TYPE_RECVMMSG CONNECTION_ROLE_TYPE_SERVER env st)"

definition security_socket_recvmsg :: "kernel_env \<Rightarrow> 'a kernel_state_scheme \<Rightarrow> 'a kernel_state_scheme" where
  "security_socket_recvmsg env st = set_args (\<lambda>a. a\<lparr>da_is_sock_event := True\<rparr>) env st"

end
