(* ===== verification/Kernel_Tls.thy ===== *)
theory Kernel_Tls
  imports Kernel_Transfer
begin

text \<open>
  The programs attached to TLS libraries (\<^verbatim>\<open>bpf/accesslog/tls\<close>): they see the bytes before they are encrypted and after
  they are decrypted, in OpenSSL, in OpenSSL inside Node.js and in the library of Go. The offsets of members
  inside the objects of a process come from user space (\<^verbatim>\<open>bpf/include/symbol_offsets.h\<close>, \<^verbatim>\<open>goid.h\<close>). The registers of
  the current call, its stack pointer and the base of the thread-local storage are arguments; a copy that
  fails gives zeros.
\<close>

section \<open>The offsets\<close>

record openssl_symaddr =
  os_bio_read_offset :: u32
  os_bio_write_offset :: u32
  os_fd_offset :: u32

record node_tls_symaddr_t =
  ns_tlsWrapStreamListenerOffset :: u32
  ns_streamListenerStreamOffset :: u32
  ns_streamBaseStreamResourceOffset :: u32
  ns_libuvStreamWrapStreamBaseOffset :: u32
  ns_libuvStreamWrapStreamOffset :: u32
  ns_uvStreamSIOWatcherOffset :: u32
  ns_uvIOSFDOffset :: u32

record go_tls_arg_location_t =
  gl_type :: u32
  gl_offset :: u32

record go_tls_args_symaddr_t =
  gs_fd_sys_offset :: u64
  gs_tls_conn_offset :: u64
  gs_gid_offset :: u64
  gs_tcp_conn_offset :: u64
  gs_read_connection_loc :: go_tls_arg_location_t
  gs_read_buffer_loc :: go_tls_arg_location_t
  gs_read_ret0_loc :: go_tls_arg_location_t
  gs_read_ret1_loc :: go_tls_arg_location_t
  gs_write_connection_loc :: go_tls_arg_location_t
  gs_write_buffer_loc :: go_tls_arg_location_t
  gs_write_ret0_loc :: go_tls_arg_location_t
  gs_write_ret1_loc :: go_tls_arg_location_t

record go_tls_connection_args_t =
  ga_buffer_ptr :: int
  ga_start_nacs :: u64
  ga_fd :: u32

record tls_state = packet_state +
  ks_openssl_symaddr_map :: "u32 \<rightharpoonup> openssl_symaddr"
  ks_node_tls_symaddr_map :: "u32 \<rightharpoonup> node_tls_symaddr_t"
  ks_node_tls_wrap_construct_args_map :: "u64 \<rightharpoonup> int"
  ks_node_tls_ssl_wrap_mapping :: "int \<rightharpoonup> int"
  ks_go_tls_args_symaddr_map :: "u32 \<rightharpoonup> go_tls_args_symaddr_t"
  ks_go_tls_active_connection_args :: "u64 \<times> u64 \<rightharpoonup> go_tls_connection_args_t"

text \<open>An attached call: the stack pointer, the nine registers of the Go convention, and the base of the thread-local storage.\<close>

record go_call =
  gc_sp :: int
  gc_regs :: "u64 list"
  gc_fs_base :: int

definition read_ptr :: "memory_image \<Rightarrow> int \<Rightarrow> int" where
  "read_ptr mem a = uint (read_u64 mem a)"

definition set_conn_as_ssl :: "u32 \<Rightarrow> u32 \<Rightarrow> kernel_env \<Rightarrow> 'a kernel_state_scheme \<Rightarrow> 'a kernel_state_scheme" where
  "set_conn_as_ssl fd func_name env st =
     (if fd = 0 then st
      else (case get_or_create_active_conn env (env_tgid env) fd func_name CONNECTION_ROLE_TYPE_UNKNOWN st of
          (None, st1) \<Rightarrow> st1
        | (Some conn, st1) \<Rightarrow> st1\<lparr>ks_active_connection_map :=
            (ks_active_connection_map st1)(gen_tgid_fd (env_tgid env) fd \<mapsto> conn\<lparr>kc_ssl := True\<rparr>)\<rparr>))"

definition SOCKET_OPTS_TYPE_SSL_WRITE :: "'a::len word" where "SOCKET_OPTS_TYPE_SSL_WRITE = 18"
definition SOCKET_OPTS_TYPE_SSL_READ :: "'a::len word" where "SOCKET_OPTS_TYPE_SSL_READ = 19"
definition SOCKET_OPTS_TYPE_GOTLS_WRITE :: "'a::len word" where "SOCKET_OPTS_TYPE_GOTLS_WRITE = 20"
definition SOCKET_OPTS_TYPE_GOTLS_READ :: "'a::len word" where "SOCKET_OPTS_TYPE_GOTLS_READ = 21"

section \<open>Node.js\<close>

text \<open>The descriptors are C integers of 32 bit.\<close>

definition get_node_tls_wrap_fd :: "kernel_env \<Rightarrow> int \<Rightarrow> 'a tls_state_scheme \<Rightarrow> u32" where
  "get_node_tls_wrap_fd env tlsWrap st =
     (case ks_node_tls_symaddr_map st (env_tgid env) of
        None \<Rightarrow> -1
      | Some addr \<Rightarrow>
          let stream = read_ptr (ke_mem env) (tlsWrap + uint (ns_tlsWrapStreamListenerOffset addr) + uint (ns_streamListenerStreamOffset addr));
              uv_stream = read_ptr (ke_mem env) (stream - uint (ns_streamBaseStreamResourceOffset addr)
                 - uint (ns_libuvStreamWrapStreamBaseOffset addr) + uint (ns_libuvStreamWrapStreamOffset addr))
          in if stream = 0 then -1
             else if uv_stream = 0 then -1
             else ucast (read_u64 (ke_mem env) (uv_stream + uint (ns_uvStreamSIOWatcherOffset addr) + uint (ns_uvIOSFDOffset addr))))"

definition get_node_tls_fd :: "kernel_env \<Rightarrow> int \<Rightarrow> 'a tls_state_scheme \<Rightarrow> u32" where
  "get_node_tls_fd env ssl st =
     (case ks_node_tls_ssl_wrap_mapping st ssl of None \<Rightarrow> -1 | Some tlsWrap \<Rightarrow> get_node_tls_wrap_fd env tlsWrap st)"

definition node_tls_wrap :: "int \<Rightarrow> kernel_env \<Rightarrow> 'a tls_state_scheme \<Rightarrow> 'a tls_state_scheme" where
  "node_tls_wrap tls_wrap env st =
     st\<lparr>ks_node_tls_wrap_construct_args_map := update_elem (ke_room env NodeWrapArgs) (ke_pid_tgid env) tls_wrap (ks_node_tls_wrap_construct_args_map st)\<rparr>"

definition node_tls_wrap_ret :: "kernel_env \<Rightarrow> 'a tls_state_scheme \<Rightarrow> 'a tls_state_scheme" where
  "node_tls_wrap_ret env st =
     st\<lparr>ks_node_tls_wrap_construct_args_map := delete_elem (ke_pid_tgid env) (ks_node_tls_wrap_construct_args_map st)\<rparr>"

definition node_tls_ret_ssl :: "int \<Rightarrow> kernel_env \<Rightarrow> 'a tls_state_scheme \<Rightarrow> 'a tls_state_scheme" where
  "node_tls_ret_ssl ssl env st =
     (if ssl = 0 then st
      else case ks_node_tls_wrap_construct_args_map st (ke_pid_tgid env) of
        None \<Rightarrow> st
      | Some wrap \<Rightarrow> st\<lparr>ks_node_tls_ssl_wrap_mapping := update_elem (ke_room env NodeWrapMapping) ssl wrap (ks_node_tls_ssl_wrap_mapping st)\<rparr>)"

section \<open>OpenSSL\<close>

definition process_openssl_data :: "int \<Rightarrow> u32 \<Rightarrow> sock_data_args_t \<Rightarrow> u8 \<Rightarrow> kernel_env \<Rightarrow> 'a kernel_state_scheme \<Rightarrow> 'a kernel_state_scheme" where
  "process_openssl_data bytes_count direction args func_name env st =
     process_write_data env
       (if direction = SOCK_DATA_DIRECTION_INGRESS \<and> bytes_count > 0 \<and> bytes_count \<ge> uint (da_excepted_size args)
        then args\<lparr>da_ssl_buffer_force_unfinished := True\<rparr> else args)
       bytes_count direction False func_name True st"

definition get_fd_symaddr :: "kernel_env \<Rightarrow> bool \<Rightarrow> int \<Rightarrow> 'a tls_state_scheme \<Rightarrow> u32" where
  "get_fd_symaddr env rd ssl st =
     (case ks_openssl_symaddr_map st (env_tgid env) of
        None \<Rightarrow> -1
      | Some addr \<Rightarrow>
          let bio = read_ptr (ke_mem env) (ssl + uint (if rd then os_bio_read_offset addr else os_bio_write_offset addr))
          in (case probe_read (ke_mem env) (bio + uint (os_fd_offset addr)) 4 of None \<Rightarrow> 0 | Some bs \<Rightarrow> le_word bs))"

definition get_fd :: "kernel_env \<Rightarrow> bool \<Rightarrow> int \<Rightarrow> 'a tls_state_scheme \<Rightarrow> u32" where
  "get_fd env rd ssl st =
     (if sint (get_fd_symaddr env rd ssl st) > 2 then get_fd_symaddr env rd ssl st
      else if sint (get_node_tls_fd env ssl st) > 0 then get_node_tls_fd env ssl st else 0)"

definition openssl_write :: "int \<Rightarrow> int \<Rightarrow> kernel_env \<Rightarrow> 'a tls_state_scheme \<Rightarrow> 'a tls_state_scheme" where
  "openssl_write ssl buf env st =
     (let fd = get_fd env False ssl st;
          st1 = st\<lparr>ks_openssl_sock_data_args := update_elem (ke_room env OpensslArgs) (ke_pid_tgid env)
                     (no_data_args\<lparr>da_fd := fd, da_buf := buf, da_start_nacs := ke_now env\<rparr>) (ks_openssl_sock_data_args st)\<rparr>
      in set_conn_as_ssl fd SOCKET_OPTS_TYPE_SSL_WRITE env st1)"

definition openssl_write_ret :: "int \<Rightarrow> kernel_env \<Rightarrow> 'a kernel_state_scheme \<Rightarrow> 'a kernel_state_scheme" where
  "openssl_write_ret ret env st =
     (let st1 = (case ks_openssl_sock_data_args st (ke_pid_tgid env) of
                   None \<Rightarrow> st
                 | Some args \<Rightarrow> if da_fd args > 0
                     then process_openssl_data ret SOCK_DATA_DIRECTION_EGRESS (args\<lparr>da_data_id := get_socket_data_id env (da_fd args) st\<rparr>)
                            SOCKET_OPTS_TYPE_SSL_WRITE env st
                     else st)
      in st1\<lparr>ks_openssl_sock_data_args := delete_elem (ke_pid_tgid env) (ks_openssl_sock_data_args st1)\<rparr>)"

definition openssl_read :: "int \<Rightarrow> int \<Rightarrow> u64 \<Rightarrow> kernel_env \<Rightarrow> 'a tls_state_scheme \<Rightarrow> 'a tls_state_scheme" where
  "openssl_read ssl buf excepted_size env st =
     (let fd = get_fd env True ssl st;
          st1 = st\<lparr>ks_openssl_sock_data_args := update_elem (ke_room env OpensslArgs) (ke_pid_tgid env)
                     (no_data_args\<lparr>da_fd := fd, da_buf := buf, da_excepted_size := ucast excepted_size, da_start_nacs := ke_now env\<rparr>)
                     (ks_openssl_sock_data_args st)\<rparr>
      in set_conn_as_ssl fd SOCKET_OPTS_TYPE_SSL_WRITE env st1)"

definition openssl_read_ret :: "int \<Rightarrow> kernel_env \<Rightarrow> 'a kernel_state_scheme \<Rightarrow> 'a kernel_state_scheme" where
  "openssl_read_ret ret env st =
     (let st1 = (case ks_openssl_sock_data_args st (ke_pid_tgid env) of
                   None \<Rightarrow> st
                 | Some args \<Rightarrow> if da_fd args > 0
                     then process_openssl_data ret SOCK_DATA_DIRECTION_INGRESS (args\<lparr>da_data_id := get_socket_data_id env (da_fd args) st\<rparr>)
                            SOCKET_OPTS_TYPE_SSL_READ env st
                     else st)
      in st1\<lparr>ks_openssl_sock_data_args := delete_elem (ke_pid_tgid env) (ks_openssl_sock_data_args st1)\<rparr>)"

section \<open>Go\<close>

definition get_goid :: "go_call \<Rightarrow> kernel_env \<Rightarrow> 'a tls_state_scheme \<Rightarrow> u64" where
  "get_goid call env st =
     (case ks_go_tls_args_symaddr_map st (env_tgid env) of
        None \<Rightarrow> 0
      | Some symaddrs \<Rightarrow> let g_addr = read_ptr (ke_mem env) (gc_fs_base call - 8)
                          in read_u64 (ke_mem env) (g_addr + uint (gs_gid_offset symaddrs)))"

text \<open>The bytes of an argument, from the stack or from the saved registers.\<close>

definition assign_go_tls_arg :: "memory_image \<Rightarrow> nat \<Rightarrow> go_tls_arg_location_t \<Rightarrow> go_call \<Rightarrow> u8 list" where
  "assign_go_tls_arg mem n loc call =
     (if gl_type loc = 1 then (case probe_read mem (gc_sp call + uint (gl_offset loc)) n of None \<Rightarrow> replicate n 0 | Some bs \<Rightarrow> bs)
      else if gl_type loc = 2 \<and> gl_offset loc \<le> 30 then take n (drop (unat (gl_offset loc)) (concat (map (le_bytes 8) (gc_regs call))))
      else replicate n 0)"

definition get_fd_from_go_tls_conn :: "memory_image \<Rightarrow> int \<Rightarrow> go_tls_args_symaddr_t \<Rightarrow> u32" where
  "get_fd_from_go_tls_conn mem conn symaddr =
     (let iface = (case probe_read mem (conn + uint (gs_tls_conn_offset symaddr)) 16 of None \<Rightarrow> replicate 16 0 | Some bs \<Rightarrow> bs)
      in if le_word (take 8 iface) \<noteq> gs_tcp_conn_offset symaddr then 0
         else ucast (read_u64 mem (read_ptr mem (uint (le_word (drop 8 iface) :: u64)) + uint (gs_fd_sys_offset symaddr))))"

definition go_tls_key :: "go_call \<Rightarrow> kernel_env \<Rightarrow> 'a tls_state_scheme \<Rightarrow> u64 \<times> u64" where
  "go_tls_key call env st = (ucast (env_tgid env), get_goid call env st)"

text \<open>The parts that reading and writing have in common; the locations differ.\<close>

definition go_tls_enter ::
  "(go_tls_args_symaddr_t \<Rightarrow> go_tls_arg_location_t) \<Rightarrow> (go_tls_args_symaddr_t \<Rightarrow> go_tls_arg_location_t) \<Rightarrow> u32 \<Rightarrow>
     go_call \<Rightarrow> kernel_env \<Rightarrow> 'a tls_state_scheme \<Rightarrow> 'a tls_state_scheme" where
  "go_tls_enter connection_loc buffer_loc func_name call env st =
     (case ks_go_tls_args_symaddr_map st (env_tgid env) of
        None \<Rightarrow> st
      | Some symaddrs \<Rightarrow>
          if get_goid call env st = 0 then st
          else let connection_ptr = uint (le_word (assign_go_tls_arg (ke_mem env) 8 (connection_loc symaddrs) call) :: u64);
                   buffer_ptr = uint (le_word (assign_go_tls_arg (ke_mem env) 8 (buffer_loc symaddrs) call) :: u64);
                   fd = get_fd_from_go_tls_conn (ke_mem env) connection_ptr symaddrs;
                   st1 = set_conn_as_ssl fd func_name env st
            in st1\<lparr>ks_go_tls_active_connection_args := update_elem (ke_room env GoTlsArgs) (go_tls_key call env st)
                 \<lparr>ga_buffer_ptr = buffer_ptr, ga_start_nacs = ke_now env, ga_fd = fd\<rparr> (ks_go_tls_active_connection_args st1)\<rparr>)"

definition go_tls_exit ::
  "(go_tls_args_symaddr_t \<Rightarrow> go_tls_arg_location_t) \<Rightarrow> (go_tls_args_symaddr_t \<Rightarrow> go_tls_arg_location_t) \<Rightarrow> u32 \<Rightarrow> u8 \<Rightarrow>
     go_call \<Rightarrow> kernel_env \<Rightarrow> 'a tls_state_scheme \<Rightarrow> 'a tls_state_scheme" where
  "go_tls_exit ret0_loc ret1_loc direction func_name call env st =
     (case ks_go_tls_args_symaddr_map st (env_tgid env) of
        None \<Rightarrow> st
      | Some symaddrs \<Rightarrow>
          if get_goid call env st = 0 then st
          else let retval0 = sint (le_word (assign_go_tls_arg (ke_mem env) 8 (ret0_loc symaddrs) call) :: u64);
                   retval1 = le_word (drop 8 (assign_go_tls_arg (ke_mem env) 16 (ret1_loc symaddrs) call)) :: u64
            in if retval1 \<noteq> 0 then st
               else let st1 = (case ks_go_tls_active_connection_args st (go_tls_key call env st) of
                      None \<Rightarrow> st
                    | Some args \<Rightarrow> process_write_data env (no_data_args\<lparr>da_fd := ga_fd args, da_buf := ga_buffer_ptr args,
                          da_start_nacs := ga_start_nacs args, da_data_id := get_socket_data_id env (ga_fd args) st\<rparr>)
                        retval0 direction False func_name True st)
                 in st1\<lparr>ks_go_tls_active_connection_args := delete_elem (go_tls_key call env st) (ks_go_tls_active_connection_args st1)\<rparr>)"

definition go_tls_write :: "go_call \<Rightarrow> kernel_env \<Rightarrow> 'a tls_state_scheme \<Rightarrow> 'a tls_state_scheme" where
  "go_tls_write = go_tls_enter gs_write_connection_loc gs_write_buffer_loc SOCKET_OPTS_TYPE_GOTLS_WRITE"

definition go_tls_write_ret :: "go_call \<Rightarrow> kernel_env \<Rightarrow> 'a tls_state_scheme \<Rightarrow> 'a tls_state_scheme" where
  "go_tls_write_ret = go_tls_exit gs_write_ret0_loc gs_write_ret1_loc SOCK_DATA_DIRECTION_EGRESS SOCKET_OPTS_TYPE_GOTLS_WRITE"

definition go_tls_read :: "go_call \<Rightarrow> kernel_env \<Rightarrow> 'a tls_state_scheme \<Rightarrow> 'a tls_state_scheme" where
  "go_tls_read = go_tls_enter gs_read_connection_loc gs_read_buffer_loc SOCKET_OPTS_TYPE_GOTLS_READ"

definition go_tls_read_ret :: "go_call \<Rightarrow> kernel_env \<Rightarrow> 'a tls_state_scheme \<Rightarrow> 'a tls_state_scheme" where
  "go_tls_read_ret = go_tls_exit gs_read_ret0_loc gs_read_ret1_loc SOCK_DATA_DIRECTION_INGRESS SOCKET_OPTS_TYPE_GOTLS_WRITE"

end
