(* ===== verification/Kernel_Stream.thy ===== *)
theory Kernel_Stream
  imports Kernel_Upload Socket_Buffer_Props Socket_Buffer_Order
begin

text \<open>
  From the system calls of a process to the bytes that an analyzer reads: what the kernel programs
  upload for the operations of a connection, in whatever order the events arrive, is read back from the
  buffer as the bytes that were transferred; and the operations for which this is not so.
\<close>

section \<open>One chunk\<close>

lemma copied_size_mod: "n < 2 ^ 64 \<Longrightarrow> copied_size n = n mod 2048"
proof -
  assume n: "n < 2 ^ 64"
  have "(of_nat n :: u64) AND 0x7ff = take_bit 11 (of_nat n)"
    by (subst take_bit_eq_mask) (simp add: mask_eq_exp_minus_1)
  then have "copied_size n = take_bit 11 (unat (of_nat n :: u64))" by (simp only: copied_size_def unsigned_take_bit_eq)
  then show ?thesis using n by (simp add: unsigned_of_nat take_bit_eq_mod)
qed

lemma copied_size_small: "n \<le> 2047 \<Longrightarrow> copied_size n = n"
  by (simp add: copied_size_mod)

lemma length_upload_layout [simp]: "length (SocketDataUploadEvent_layout e) = 64 + length (up_Buffer e)"
  by (simp add: SocketDataUploadEvent_layout_def)

lemma length_chunk_buffer:
  assumes "n \<le> MAX_TRANSMIT_SOCKET_READ_LENGTH" "64 + MAX_TRANSMIT_SOCKET_READ_LENGTH \<le> length heap"
  shows "length (chunk_buffer mem buf n heap) = MAX_TRANSMIT_SOCKET_READ_LENGTH"
proof -
  have "length bs = n" if "probe_read mem buf n = Some bs" for bs using that by (simp add: probe_read_Some)
  then show ?thesis using assms by (simp add: chunk_buffer_def split: option.split)
qed

text \<open>The event of a chunk: its place in the operation, and the bytes it holds.\<close>

definition carries :: "upload_data_args \<Rightarrow> nat \<Rightarrow> u8 list \<Rightarrow> bool \<Rightarrow> SocketDataUploadEvent \<Rightarrow> bool" where
  "carries args seq bytes fin e \<longleftrightarrow>
     up_ConnectionID e = ua_con_id args \<and> up_RandomID e = ua_random_id args \<and> up_DataID0 e = ua_socket_data_id args \<and>
     up_PrevDataID0 e = ua_prev_socket_data_id args \<and> unat (up_Sequence0 e) = seq \<and> up_Finished e = (if fin then 1 else 0) \<and>
     up_HaveReduce e = 0 \<and> unat (up_DataLen e) = length bytes \<and> length bytes \<le> length (up_Buffer e) \<and>
     take (length bytes) (up_Buffer e) = bytes"

definition heap_ok :: "upload_state \<Rightarrow> bool" where
  "heap_ok s \<longleftrightarrow> 64 + MAX_TRANSMIT_SOCKET_READ_LENGTH \<le> length (us_heap s)"

lemma write_heap_ok: "heap_ok s \<Longrightarrow> heap_ok (s\<lparr>us_heap := write_heap bytes (us_heap s), us_uploads := es\<rparr>)"
  by (simp add: heap_ok_def write_heap_def)

lemma chunk_event_carries:
  assumes "heap_ok s" "length bytes \<le> 2047" "probe_read mem buf (length bytes) = Some bytes" "i < 256"
  shows "carries args i bytes fin (chunk_event mem (of_nat i) buf (length bytes) fin False args (us_heap s))"
proof -
  let ?n = "length bytes"
  have l: "length (chunk_buffer mem buf ?n (us_heap s)) = 20480"
    using length_chunk_buffer [of ?n "us_heap s"] assms(1, 2) by (simp add: heap_ok_def MAX_TRANSMIT_SOCKET_READ_LENGTH_def)
  have c: "take ?n (chunk_buffer mem buf ?n (us_heap s)) = bytes" using assms(3) by (simp add: chunk_buffer_def)
  have u: "unat (of_nat ?n :: u16) = ?n" using assms(2) by (simp add: unsigned_of_nat take_bit_eq_mod)
  have i: "unat (ucast (of_nat i :: u8) :: u16) = i" using assms(4) by (simp add: unsigned_ucast_eq unsigned_of_nat take_bit_eq_mod)
  show ?thesis using assms(2) l c u i by (simp add: chunk_event_def copied_size_small carries_def)
qed

lemma upload_chunk_small:
  assumes "heap_ok s" "bytes \<noteq> []" "length bytes \<le> 2047" "probe_read mem buf (length bytes) = Some bytes" "i < 256"
  shows "\<exists>e s'. upload_chunk mem (of_nat i) buf (length bytes) fin False args s = s' \<and> heap_ok s' \<and>
      us_uploads s' = us_uploads s @ [e] \<and> us_last_ids s' = us_last_ids s \<and> carries args i bytes fin e"
proof -
  have m: "min (length bytes) MAX_TRANSMIT_SOCKET_READ_LENGTH = length bytes"
    using assms(3) by (simp add: MAX_TRANSMIT_SOCKET_READ_LENGTH_def)
  show ?thesis
    using assms(1, 2) chunk_event_carries [OF assms(1, 3-5), of args fin]
    by (simp add: upload_chunk_def m Let_def write_heap_ok)
qed

section \<open>One operation\<close>

text \<open>The segments of an operation, cut after the number of bytes that were transferred.\<close>

fun cut_after :: "nat \<Rightarrow> u8 list list \<Rightarrow> u8 list list" where
  "cut_after n [] = []"
| "cut_after n (x # xs) = (if n \<le> length x then [take n x] else x # cut_after (n - length x) xs)"

lemma concat_cut_after: "concat (cut_after n segs) = take n (concat segs)"
  by (induction n segs rule: cut_after.induct) auto

lemma cut_after_Nil [simp]: "cut_after n segs = [] \<longleftrightarrow> segs = []" "[] = cut_after n segs \<longleftrightarrow> segs = []"
  by (cases segs; auto)+

lemma length_cut_after: "length (cut_after n segs) \<le> length segs"
  by (induction n segs rule: cut_after.induct) auto

text \<open>The events of a list of pieces: numbered from \<open>i\<close> on, and the last one finishes the message.\<close>

fun piece_events :: "upload_data_args \<Rightarrow> nat \<Rightarrow> u8 list list \<Rightarrow> SocketDataUploadEvent list \<Rightarrow> bool" where
  "piece_events args i [] es \<longleftrightarrow> es = []"
| "piece_events args i (p # ps) es \<longleftrightarrow> (\<exists>e es'. es = e # es' \<and> carries args i p (ps = []) e \<and> piece_events args (Suc i) ps es')"

definition segments_at :: "memory_image \<Rightarrow> int \<Rightarrow> u8 list list \<Rightarrow> bool" where
  "segments_at mem iov segs \<longleftrightarrow> (\<forall>i < length segs. segs ! i \<noteq> [] \<and> length (segs ! i) \<le> 2047 \<and>
     (\<exists>base. read_iovec mem iov i = (base, length (segs ! i)) \<and> probe_read mem base (length (segs ! i)) = Some (segs ! i)))"

lemma probe_read_front:
  assumes "probe_read mem base (length bs) = Some bs" "n \<le> length bs"
  shows "probe_read mem base n = Some (take n bs)"
  using assms by (simp add: probe_read_Some)

text \<open>Nothing is uploaded once the bytes are used up.\<close>

lemma iov_turns_done:
  assumes "dsize \<le> iw_already_send k" "iw_cur_iov_sended k = 0"
  shows "snd ((iov_turn mem iov iovlen dsize args ^^ m) (k, s)) = s"
  using assms
proof (induction m arbitrary: k)
  case (Suc m)
  define k' where "k' = (if iw_iov_index k < iovlen then k\<lparr>iw_loop_count := iw_loop_count k + 1\<rparr> else k)"
  obtain base len where "read_iovec mem iov (iw_iov_index k) = (base, len)" by fastforce
  then have "iov_turn mem iov iovlen dsize args (k, s) = (k', s)"
    using Suc.prems by (simp add: iov_turn_def k'_def upload_chunk_def)
  moreover have "snd ((iov_turn mem iov iovlen dsize args ^^ m) (k', s)) = s"
    by (rule Suc.IH) (use Suc.prems in \<open>simp_all add: k'_def\<close>)
  ultimately show ?case by (simp only: funpow_Suc_right comp_apply)
qed simp

lemma iov_turns_pieces:
  assumes "segments_at mem iov segs" "heap_ok s" "i < length segs" "i + m = SOCKET_UPLOAD_CHUNK_LIMIT"
    and "0 < r" "r \<le> length (concat (drop i segs))" "length (cut_after r (drop i segs)) \<le> m" "sent + r = dsize"
  shows "\<exists>s' es. snd ((iov_turn mem iov (length segs) dsize args ^^ m)
        (\<lparr>iw_already_send = sent, iw_cur_iov_sended = 0, iw_iov_index = i, iw_loop_count = i\<rparr>, s)) = s' \<and>
      heap_ok s' \<and> us_uploads s' = us_uploads s @ es \<and> us_last_ids s' = us_last_ids s \<and> piece_events args i (cut_after r (drop i segs)) es"
  using assms
proof (induction m arbitrary: i r sent s)
  case 0
  then have "drop i segs \<noteq> []" by simp
  then have "cut_after r (drop i segs) \<noteq> []" by (cases "drop i segs") auto
  then show ?case using 0 by simp
next
  case (Suc m)
  let ?x = "segs ! i" and ?k = "\<lparr>iw_already_send = sent, iw_cur_iov_sended = 0, iw_iov_index = i, iw_loop_count = i\<rparr>"
  have d: "drop i segs = ?x # drop (Suc i) segs" using Suc.prems(3) by (simp add: Cons_nth_drop_Suc)
  obtain base where x: "?x \<noteq> []" "length ?x \<le> 2047" "read_iovec mem iov i = (base, length ?x)"
    "probe_read mem base (length ?x) = Some ?x"
    using Suc.prems(1, 3) by (auto simp: segments_at_def)
  have rr: "dsize - sent = r" using Suc.prems(8) by simp
  have i: "i < 256" using Suc.prems(4) by (simp add: SOCKET_UPLOAD_CHUNK_LIMIT_def)
  have pow: "(iov_turn mem iov (length segs) dsize args ^^ Suc m) (?k, s) =
      (iov_turn mem iov (length segs) dsize args ^^ m) (iov_turn mem iov (length segs) dsize args (?k, s))"
    by (simp only: funpow_Suc_right comp_apply)
  show ?case
  proof (cases "r \<le> length ?x")
    case True
    let ?p = "take r ?x"
    have p: "?p \<noteq> []" "length ?p \<le> 2047" "length ?p = r" using True x(1, 2) Suc.prems(5) by auto
    have "probe_read mem base (length ?p) = Some ?p" using probe_read_front [OF x(4) True] p(3) by simp
    from upload_chunk_small [OF Suc.prems(2) p(1, 2) this i, of True args] obtain e s' where
      u: "upload_chunk mem (of_nat i) base r True False args s = s'" "heap_ok s'" "us_uploads s' = us_uploads s @ [e]"
        "us_last_ids s' = us_last_ids s" "carries args i ?p True e"
      unfolding p(3) by blast
    have t: "iov_turn mem iov (length segs) dsize args (?k, s) = (?k\<lparr>iw_already_send := dsize, iw_loop_count := i + 1\<rparr>, s')"
      using Suc.prems(3, 8) x(3) True p(2, 3) u(1) rr by (simp add: iov_turn_def MAX_TRANSMIT_SOCKET_READ_LENGTH_def Let_def)
    have "snd ((iov_turn mem iov (length segs) dsize args ^^ m) (?k\<lparr>iw_already_send := dsize, iw_loop_count := i + 1\<rparr>, s')) = s'"
      by (rule iov_turns_done) simp_all
    then have "snd ((iov_turn mem iov (length segs) dsize args ^^ Suc m) (?k, s)) = s'" by (simp only: pow t)
    then show ?thesis using u(2-5) d True by auto
  next
    case False
    then have more: "0 < r - length ?x" "r - length ?x \<le> length (concat (drop (Suc i) segs))"
      using Suc.prems(6) d by auto
    then have i': "Suc i < length segs" by (cases "Suc i < length segs") auto
    have c: "cut_after r (drop i segs) = ?x # cut_after (r - length ?x) (drop (Suc i) segs)" using d False by simp
    then have "cut_after (r - length ?x) (drop (Suc i) segs) \<noteq> []" using i' by (cases "drop (Suc i) segs") auto
    then have nl: "i \<noteq> SOCKET_UPLOAD_CHUNK_LIMIT - 1" using Suc.prems(4, 7) c by (cases m) auto
    from upload_chunk_small [OF Suc.prems(2) x(1, 2, 4) i, of False args] obtain e s' where
      u: "upload_chunk mem (of_nat i) base (length ?x) False False args s = s'" "heap_ok s'" "us_uploads s' = us_uploads s @ [e]"
        "us_last_ids s' = us_last_ids s" "carries args i ?x False e" by blast
    have t: "iov_turn mem iov (length segs) dsize args (?k, s) =
        (\<lparr>iw_already_send = sent + length ?x, iw_cur_iov_sended = 0, iw_iov_index = Suc i, iw_loop_count = Suc i\<rparr>, s')"
      using Suc.prems(3, 8) x(2, 3) False nl u(1) rr by (simp add: iov_turn_def MAX_TRANSMIT_SOCKET_READ_LENGTH_def Let_def)
    from Suc.IH [OF Suc.prems(1) u(2) i' _ more _, of "sent + length ?x"] obtain s'' es where
      "snd ((iov_turn mem iov (length segs) dsize args ^^ m)
        (\<lparr>iw_already_send = sent + length ?x, iw_cur_iov_sended = 0, iw_iov_index = Suc i, iw_loop_count = Suc i\<rparr>, s')) = s''"
      "heap_ok s''" "us_uploads s'' = us_uploads s' @ es" "us_last_ids s'' = us_last_ids s'"
      "piece_events args (Suc i) (cut_after (r - length ?x) (drop (Suc i) segs)) es"
      using Suc.prems(4, 7, 8) c False by auto
    then show ?thesis using u(3-5) c \<open>cut_after (r - length ?x) (drop (Suc i) segs) \<noteq> []\<close> by (simp only: pow t) auto
  qed
qed

lemma buf_turns_done:
  assumes "dsize \<le> sent"
  shows "snd (fold (buf_turn mem buf dsize args False) is (sent, s)) = s"
  using assms by (induction "is") (simp_all add: buf_turn_def upload_chunk_def Let_def)

lemma upload_buf_small:
  assumes "heap_ok s" "bytes \<noteq> []" "length bytes \<le> 2047" "probe_read mem buf (length bytes) = Some bytes"
  shows "\<exists>s' es. upload_socket_data_buf mem buf (length bytes) args False s = s' \<and> heap_ok s' \<and>
      us_uploads s' = us_uploads s @ es \<and> us_last_ids s' = us_last_ids s \<and> piece_events args 0 [bytes] es"
proof -
  obtain e s' where u: "upload_chunk mem 0 buf (length bytes) True False args s = s'" "heap_ok s'" "us_uploads s' = us_uploads s @ [e]"
    "us_last_ids s' = us_last_ids s" "carries args 0 bytes True e"
    using upload_chunk_small [OF assms, of 0 True args] by auto
  have "[0..<SOCKET_UPLOAD_CHUNK_LIMIT] = 0 # [1..<SOCKET_UPLOAD_CHUNK_LIMIT]"
    by (simp add: SOCKET_UPLOAD_CHUNK_LIMIT_def upt_conv_Cons)
  moreover have "buf_turn mem buf (length bytes) args False 0 (0, s) = (length bytes, s')"
    using assms(3) u(1) by (simp add: buf_turn_def MAX_TRANSMIT_SOCKET_READ_LENGTH_def)
  ultimately have "upload_socket_data_buf mem buf (length bytes) args False s = s'"
    by (simp add: upload_socket_data_buf_def buf_turns_done)
  then show ?thesis using u(2-5) by auto
qed

text \<open>
  An operation whose bytes the programs upload whole: a connection with a protocol whose data is to be
  sent, and a buffer of at most 2047 bytes or segments of at most 2047 bytes each, six of which hold all bytes
  that were transferred. \<open>pieces\<close> are the bytes.
\<close>

definition uploadable :: "memory_image \<Rightarrow> upload_data_args \<Rightarrow> u8 list list \<Rightarrow> bool" where
  "uploadable mem args pieces \<longleftrightarrow>
     ua_connection_protocol args \<noteq> 0 \<and> ua_connection_ssl args = ua_socket_data_ssl args \<and> \<not> ua_connection_skip_data_upload args \<and>
     (ua_socket_data_buf args \<noteq> 0 \<and> \<not> ua_socket_ssl_buffer_force_unfinished args \<and>
        (\<exists>bytes. pieces = [bytes] \<and> bytes \<noteq> [] \<and> length bytes \<le> 2047 \<and> ua_bytes_count args = length bytes \<and>
           probe_read mem (ua_socket_data_buf args) (length bytes) = Some bytes) \<or>
      ua_socket_data_buf args = 0 \<and> ua_socket_data_iovec args \<noteq> 0 \<and>
        (\<exists>segs. segments_at mem (ua_socket_data_iovec args) segs \<and> ua_socket_data_iovlen args = length segs \<and>
           0 < ua_bytes_count args \<and> ua_bytes_count args \<le> length (concat segs) \<and>
           pieces = cut_after (ua_bytes_count args) segs \<and> length pieces \<le> SOCKET_UPLOAD_CHUNK_LIMIT))"

lemma uploadable_not_Nil: "uploadable mem args pieces \<Longrightarrow> pieces \<noteq> []"
  by (auto simp: uploadable_def)

lemma upload_operation:
  assumes "uploadable mem args pieces" "heap_ok s"
  shows "\<exists>s' es prev. upload_socket_data mem args s = s' \<and> heap_ok s' \<and> us_uploads s' = us_uploads s @ es \<and>
      piece_events (args\<lparr>ua_prev_socket_data_id := prev\<rparr>) 0 pieces es"
proof -
  define prev where "prev = (case us_last_ids s (ua_con_id args) of
     Some la \<Rightarrow> if la_random_id la = ua_random_id args then la_socket_data_id la else 0 | None \<Rightarrow> 0)"
  let ?args = "args\<lparr>ua_prev_socket_data_id := prev\<rparr>"
  define s1 where "s1 = (if ua_socket_data_buf args \<noteq> 0
     then upload_socket_data_buf mem (ua_socket_data_buf args) (ua_bytes_count args) ?args False s
     else upload_socket_data_iov mem (ua_socket_data_iovec args) (ua_socket_data_iovlen args) (ua_bytes_count args) ?args s)"
  have "\<exists>es. heap_ok s1 \<and> us_uploads s1 = us_uploads s @ es \<and> piece_events ?args 0 pieces es"
  proof (cases "ua_socket_data_buf args = 0")
    case False
    then obtain bytes where b: "pieces = [bytes]" "bytes \<noteq> []" "length bytes \<le> 2047" "ua_bytes_count args = length bytes"
      "probe_read mem (ua_socket_data_buf args) (length bytes) = Some bytes"
      using assms(1) by (auto simp: uploadable_def)
    from upload_buf_small [OF assms(2) b(2, 3, 5), of ?args] show ?thesis
      using False b(1, 4) by (auto simp: s1_def)
  next
    case True
    then obtain segs where g: "segments_at mem (ua_socket_data_iovec args) segs" "ua_socket_data_iovlen args = length segs"
      "0 < ua_bytes_count args" "ua_bytes_count args \<le> length (concat segs)" "pieces = cut_after (ua_bytes_count args) segs"
      "length pieces \<le> SOCKET_UPLOAD_CHUNK_LIMIT"
      using assms(1) by (auto simp: uploadable_def)
    have "0 < length segs" using g(3, 4) by (cases segs) auto
    from iov_turns_pieces [OF g(1) assms(2) this _ g(3), of SOCKET_UPLOAD_CHUNK_LIMIT 0 "ua_bytes_count args" ?args] show ?thesis
      using True g(2, 4-6) by (auto simp: s1_def upload_socket_data_iov_def)
  qed
  moreover have "upload_socket_data mem args s = s1 \<or> (\<exists>ids. upload_socket_data mem args s = s1\<lparr>us_last_ids := ids\<rparr>)"
    using assms(1) unfolding upload_socket_data_def uploadable_def s1_def prev_def Let_def by auto
  ultimately show ?thesis by (auto simp: heap_ok_def)
qed

section \<open>The chunks of a connection\<close>

lemma carries_chunk:
  assumes "carries args i p fin e"
  shows "chunk_key (Upload e) = (ua_socket_data_id args, i)" "chunk_ok (Upload e)" "chunk_content (Upload e) = p"
    "IsFinished (Upload e) = fin" "IsStart (Upload e) = (i = 0)"
  using assms by (auto simp: carries_def chunk_key_def DataID_def DataSequence_def chunk_ok_def chunk_content_def IsFinished_def IsStart_def
      unat_eq_0)

lemma piece_events_chunks:
  assumes "piece_events args i ps es"
  shows "map (chunk_key \<circ> Upload) es = map (Pair (ua_socket_data_id args)) [i..<i + length ps]"
    "map (chunk_content \<circ> Upload) es = ps" "\<forall>e \<in> set es. chunk_ok (Upload e)" "successively follows (map Upload es)"
    "ps \<noteq> [] \<longrightarrow> es \<noteq> [] \<and> (i = 0 \<longrightarrow> IsStart (Upload (hd es))) \<and> IsFinished (Upload (last es))"
proof -
  have "map (chunk_key \<circ> Upload) es = map (Pair (ua_socket_data_id args)) [i..<i + length ps] \<and>
    map (chunk_content \<circ> Upload) es = ps \<and> (\<forall>e \<in> set es. chunk_ok (Upload e)) \<and> successively follows (map Upload es) \<and>
    (ps \<noteq> [] \<longrightarrow> es \<noteq> [] \<and> (i = 0 \<longrightarrow> IsStart (Upload (hd es))) \<and> IsFinished (Upload (last es)))"
    using assms
  proof (induction args i ps es rule: piece_events.induct)
    case (2 args i p ps es)
    then obtain e es' where e: "es = e # es'" "carries args i p (ps = []) e" "piece_events args (Suc i) ps es'" by auto
    note ih = "2.IH" [OF e(3)] and c = carries_chunk [OF e(2)]
    have "follows (Upload e) (Upload e2)" if nx: "es' = e2 # es2" for e2 es2
    proof -
      obtain p2 fin where "carries args (Suc i) p2 fin e2" using e(3) nx by (cases ps) auto
      from carries_chunk(1) [OF this] show ?thesis using c(1) by (simp add: follows_def chunk_key_def)
    qed
    moreover have "ps = [] \<Longrightarrow> es' = []" using ih by simp
    moreover have "[i..<i + length (p # ps)] = i # [Suc i..<Suc i + length ps]" by (simp add: upt_conv_Cons del: upt_Suc)
    ultimately show ?case using ih e(1) c by (cases es') (auto simp del: upt_Suc)
  qed simp
  then show "map (chunk_key \<circ> Upload) es = map (Pair (ua_socket_data_id args)) [i..<i + length ps]"
    "map (chunk_content \<circ> Upload) es = ps" "\<forall>e \<in> set es. chunk_ok (Upload e)" "successively follows (map Upload es)"
    "ps \<noteq> [] \<longrightarrow> es \<noteq> [] \<and> (i = 0 \<longrightarrow> IsStart (Upload (hd es))) \<and> IsFinished (Upload (last es))"
    by blast+
qed

text \<open>
  The operations of a connection, one after the other, each with the memory at its time and its bytes. Before an
  operation another event may have been written to the scratch area.
\<close>

type_synonym operation = "u8 list \<times> memory_image \<times> upload_data_args \<times> u8 list list"

definition upload_all :: "operation list \<Rightarrow> upload_state \<Rightarrow> upload_state" where
  "upload_all ops = fold (\<lambda>(other, mem, args, _) s. upload_socket_data mem args (s\<lparr>us_heap := write_heap other (us_heap s)\<rparr>)) ops"

abbreviation operation_id :: "operation \<Rightarrow> u64" where
  "operation_id \<equiv> \<lambda>(_, _, args, _). ua_socket_data_id args"

definition operations_ok :: "operation list \<Rightarrow> bool" where
  "operations_ok ops \<longleftrightarrow> (\<forall>(other, mem, args, pieces) \<in> set ops. uploadable mem args pieces) \<and> sorted_wrt (<) (map operation_id ops)"

definition transferred :: "operation list \<Rightarrow> u8 list" where
  "transferred ops = concat (concat (map (\<lambda>(_, _, _, pieces). pieces) ops))"

text \<open>The events of the operations: in order of their keys, each following the one before it.\<close>

lemma upload_all_chunks:
  assumes "operations_ok ops" "heap_ok s"
  shows "\<exists>es. us_uploads (upload_all ops s) = us_uploads s @ es \<and> heap_ok (upload_all ops s) \<and>
      sorted_wrt (<) (map (chunk_key \<circ> Upload) es) \<and> (\<forall>e \<in> set es. chunk_ok (Upload e) \<and> up_DataID0 e \<in> set (map operation_id ops)) \<and>
      concat (map (chunk_content \<circ> Upload) es) = transferred ops \<and> successively follows (map Upload es) \<and>
      (ops \<noteq> [] \<longrightarrow> es \<noteq> [] \<and> IsStart (Upload (hd es)))"
  using assms
proof (induction ops arbitrary: s)
  case Nil
  then show ?case by (simp add: upload_all_def transferred_def)
next
  case (Cons op ops)
  obtain other mem args pieces where op: "op = (other, mem, args, pieces)" by (metis prod_cases4)
  let ?s = "s\<lparr>us_heap := write_heap other (us_heap s)\<rparr>"
  have h: "heap_ok ?s" using Cons.prems(2) by (simp add: heap_ok_def write_heap_def)
  have u: "uploadable mem args pieces" and later: "\<forall>i \<in> set (map operation_id ops). ua_socket_data_id args < i" and ops: "operations_ok ops"
    using Cons.prems(1) op by (auto simp: operations_ok_def)
  from upload_operation [OF u h] obtain s' es prev where s': "upload_socket_data mem args ?s = s'" "heap_ok s'"
    "us_uploads s' = us_uploads s @ es" "piece_events (args\<lparr>ua_prev_socket_data_id := prev\<rparr>) 0 pieces es" by auto
  note pe = piece_events_chunks [OF s'(4)]
  have ne: "pieces \<noteq> []" by (rule uploadable_not_Nil [OF u])
  from Cons.IH [OF ops s'(2)] obtain es2 where es2: "us_uploads (upload_all ops s') = us_uploads s' @ es2" "heap_ok (upload_all ops s')"
    "sorted_wrt (<) (map (chunk_key \<circ> Upload) es2)" "\<forall>e \<in> set es2. chunk_ok (Upload e) \<and> up_DataID0 e \<in> set (map operation_id ops)"
    "concat (map (chunk_content \<circ> Upload) es2) = transferred ops" "successively follows (map Upload es2)"
    "ops \<noteq> [] \<longrightarrow> es2 \<noteq> [] \<and> IsStart (Upload (hd es2))" by blast
  have ids: "up_DataID0 e = ua_socket_data_id args" if "e \<in> set es" for e
  proof -
    have "(chunk_key \<circ> Upload) e \<in> set (map (chunk_key \<circ> Upload) es)" using that by simp
    then have "chunk_key (Upload e) \<in> Pair (ua_socket_data_id args) ` {0..<length pieces}" unfolding pe(1) by auto
    then show ?thesis by (auto simp: chunk_key_def DataID_def)
  qed
  have "sorted_wrt (<) (map (chunk_key \<circ> Upload) es)" unfolding pe(1) by (simp add: sorted_wrt_map sorted_wrt_upt)
  moreover have "chunk_key (Upload e) < chunk_key (Upload e2)" if "e \<in> set es" "e2 \<in> set es2" for e e2
  proof -
    have "ua_socket_data_id args < up_DataID0 e2" using es2(4) later that(2) by blast
    then show ?thesis using ids [OF that(1)] by (simp add: chunk_key_def DataID_def)
  qed
  ultimately have 1: "sorted_wrt (<) (map (chunk_key \<circ> Upload) (es @ es2))" using es2(3) by (simp add: sorted_wrt_append)
  have 2: "successively follows (map Upload (es @ es2))"
  proof (cases "ops = []")
    case True
    then have "es2 = []" using es2(1) by (simp add: upload_all_def)
    then show ?thesis using pe(4) by simp
  next
    case False
    then show ?thesis using pe(4, 5) ne es2(6, 7)
      by (auto simp: successively_append_iff follows_def last_map hd_map)
  qed
  have "us_uploads (upload_all (op # ops) s) = us_uploads s @ (es @ es2)" "heap_ok (upload_all (op # ops) s)"
    using es2(1, 2) s'(1, 3) op by (simp_all add: upload_all_def)
  moreover have "concat (map (chunk_content \<circ> Upload) (es @ es2)) = transferred (op # ops)"
    using es2(5) pe(2) op by (simp add: transferred_def)
  moreover have "\<forall>e \<in> set (es @ es2). chunk_ok (Upload e) \<and> up_DataID0 e \<in> set (map operation_id (op # ops))"
    using es2(4) pe(3) ids op by auto
  ultimately show ?case using 1 2 pe(5) ne by (intro exI [of _ "es @ es2"]) (auto simp: comp_def)
qed

section \<open>Reading what was transferred\<close>

lemma sort_key_distinct:
  assumes "mset xs = mset ys" "sorted_wrt (<) (map (f :: 'a \<Rightarrow> 'k :: linorder) ys)"
  shows "sort_key f xs = ys"
proof (rule map_sorted_distinct_set_unique)
  have d: "distinct (map f ys)" and s: "sorted (map f ys)" using assms(2) strict_sorted_iff [of "map f ys"] by auto
  have m: "mset (map f (sort_key f xs)) = mset (map f ys)" using assms(1) by simp
  show "sorted (map f (sort_key f xs))" "sorted (map f ys)" "distinct (map f ys)" using d s by simp_all
  show "distinct (map f (sort_key f xs))" using d m by (metis mset_eq_imp_distinct_iff)
  show "set (sort_key f xs) = set ys" using assms(1) by (metis set_mset_mset set_sort)
  then show "inj_on f (set (sort_key f xs) \<union> set ys)" using d by (simp add: distinct_map)
qed

lemma map_number_values: "list_values l = map f vs \<Longrightarrow> contents l = concat (map (chunk_content \<circ> f) vs)"
proof -
  assume "list_values l = map f vs"
  then have "map chunk_content (list_values l) = map chunk_content (map f vs)" by simp
  then show ?thesis by (simp add: comp_def)
qed

lemma prepared_stream:
  assumes "chunks_ok (dataEvents r)" "linked r" "dataEvents r \<noteq> []" "buf_head r = None"
  obtains r' where "PrepareForReading r = (r', True)" "linked_ok r' r'" "unread r' = contents (dataEvents r)" "buf_current r' \<noteq> None"
proof -
  obtain x es where l: "dataEvents r = x # es" using assms(3) by (cases "dataEvents r") auto
  let ?h = "Some \<lparr>element = Some x, bufIndex = 0\<rparr>"
  let ?r = "(if shouldResetPosition r then r\<lparr>shouldResetPosition := False\<rparr> else r)\<lparr>buf_head := ?h, buf_current := ?h\<rparr>"
  have p: "PrepareForReading r = (?r, True)"
    using l assms(4) by (simp add: PrepareForReading_def Prepare_positions_def ResetForLoopReading_def Let_def)
  have d: "dataEvents ?r = dataEvents r" "buf_current ?r = ?h" by simp_all
  have c: "chunk_ok (snd x)" using assms(1) l by (simp add: chunks_ok_def)
  have "position_ok (dataEvents r) ?h" by (rule position_okI) (use c l in simp_all)
  then have "linked_ok ?r ?r" using assms(1, 2) d by (simp add: linked_ok_def reading_ok_def linked_def)
  moreover have "elem_chain (dataEvents r) (Some x) = dataEvents r" unfolding l by (rule elem_chain_front)
  then have "unread ?r = contents (dataEvents r)" unfolding unread_def d stream_from_def by (simp add: l)
  ultimately show thesis using p that d(2) by blast
qed

lemma Peek_linked:
  assumes "linked_ok r r" "length p \<le> length (unread r)" "buf_current r \<noteq> None"
  shows "Peek r p = Some (Inr (r, take (length p) (unread r), None))"
proof -
  obtain cur where cur: "buf_current r = Some cur" using assms(3) by blast
  obtain b where b: "Peek_loop Read r p 0 = Some (Inr (b, take (length p) (unread r), None))" "linked_ok r b"
    using linked_stream.Peek_loop_full [OF assms(1), of 0 p] assms(2) by auto
  have "b\<lparr>buf_current := Some cur\<rparr> = r" using b(2) cur by (cases r; cases b) (simp add: linked_ok_def)
  then show ?thesis using b(1) cur by (simp add: Peek_def)
qed

lemma uploaded_is_read:
  assumes "operations_ok ops" and "ops \<noteq> []" and "heap_ok s"
    and "mset arrivals = mset (map Upload (drop (length (us_uploads s)) (us_uploads (upload_all ops s))))"
  shows "\<exists>r r'. Merge_data 0 arrivals NewBuffer = Inr (length arrivals, r) \<and> PrepareForReading r = (r', True) \<and>
    unread r' = transferred ops \<and>
    (\<forall>p. length p \<le> length (transferred ops) \<longrightarrow> Peek r' p = Some (Inr (r', take (length p) (transferred ops), None)))"
proof -
  obtain es where es: "us_uploads (upload_all ops s) = us_uploads s @ es" "sorted_wrt (<) (map (chunk_key \<circ> Upload) es)"
    "\<forall>e \<in> set es. chunk_ok (Upload e)" "concat (map (chunk_content \<circ> Upload) es) = transferred ops"
    "successively follows (map Upload es)" "es \<noteq> []"
    using upload_all_chunks [OF assms(1, 3)] assms(2) by blast
  have "sort_key chunk_key arrivals = map Upload es"
    using assms(4) es(1, 2) by (intro sort_key_distinct) (simp_all add: comp_def)
  moreover obtain flag where "Merge_data 0 arrivals NewBuffer = Inr (length arrivals,
      NewBuffer\<lparr>dataEvents := data_order.append_all 0 arrivals [], shouldResetPosition := flag\<rparr>)"
    using Merge_data_Inr [of NewBuffer 0 arrivals] by (auto simp: current_ok_def NewBuffer_def)
  ultimately obtain r where r: "Merge_data 0 arrivals NewBuffer = Inr (length arrivals, r)" "buf_head r = None"
      "list_values (dataEvents r) = map Upload es" "distinct (list_ids (dataEvents r))"
    using data_order.append_all_sort [of "[]"] data_order.append_all_ids [of "[]"] by (simp add: NewBuffer_def) 
  have "\<forall>v \<in> set (list_values (dataEvents r)). chunk_ok v" unfolding r(3) using es(3) by simp
  then have "chunks_ok (dataEvents r)" using r(4) by (simp add: chunks_ok_def)
  moreover have "linked r" using es(5) r(3) by (simp add: linked_def)
  moreover have "dataEvents r \<noteq> []" using es(6) r(3) by auto
  ultimately obtain r' where r': "PrepareForReading r = (r', True)" "linked_ok r' r'" "unread r' = contents (dataEvents r)" "buf_current r' \<noteq> None"
    using r(2) by (rule prepared_stream)
  then have "unread r' = transferred ops" using es(4) map_number_values [OF r(3)] by simp
  then show ?thesis using r(1) r'(1) Peek_linked [OF r'(2) _ r'(4)] by auto
qed

text \<open>
  C7: The bytes that a connection transferred are the bytes that an analyzer reads. For any sequence of
  operations with growing data ids, each transferring bytes that the kernel programs upload whole, and for any
  order in which the uploaded events arrive, with any other events built in the same scratch area between them: appending them to the buffer never panics, and a reader that
  starts at the front sees exactly the transferred bytes, up to any length.
\<close>

theorem transferred_bytes_are_read:
  assumes "operations_ok ops" and "ops \<noteq> []" and "heap_ok s"
    and "mset arrivals = mset (map Upload (drop (length (us_uploads s)) (us_uploads (upload_all ops s))))"
  shows "\<exists>r r'. Merge_data 0 arrivals NewBuffer = Inr (length arrivals, r) \<and> PrepareForReading r = (r', True) \<and>
    unread r' = transferred ops \<and>
    (\<forall>p. length p \<le> length (transferred ops) \<longrightarrow> Peek r' p = Some (Inr (r', take (length p) (transferred ops), None)))"
  by (rule uploaded_is_read [OF assms])

definition example_memory :: "u8 list \<Rightarrow> memory_image" where
  "example_memory bytes a = (if 1000 \<le> a \<and> a < 1000 + int (length bytes) then Some (bytes ! nat (a - 1000)) else None)"

lemma example_memory_read: "n \<le> length bytes \<Longrightarrow> probe_read (example_memory bytes) 1000 n = Some (take n bytes)"
  by (simp add: probe_read_Some example_memory_def)

definition example_args :: "u64 \<Rightarrow> nat \<Rightarrow> upload_data_args" where
  "example_args data_id n = \<lparr>ua_start_time = 0, ua_end_time = 0, ua_con_id = 9, ua_random_id = 3, ua_socket_data_id = data_id,
     ua_prev_socket_data_id = 0, ua_socket_data_iovec = 0, ua_socket_data_iovlen = 0, ua_bytes_count = n, ua_socket_data_buf = 1000,
     ua_data_direction = 2, ua_connection_protocol = 1, ua_connection_ssl = False, ua_socket_ssl_buffer_force_unfinished = False,
     ua_connection_skip_data_upload = False, ua_socket_data_ssl = False\<rparr>"

definition example_upload_state :: upload_state where
  "example_upload_state = \<lparr>us_heap = replicate 30960 0, us_sequences = Map.empty, us_last_ids = Map.empty, us_uploads = []\<rparr>"

lemma example_upload_ok: "heap_ok example_upload_state" "us_uploads example_upload_state = []"
  by (simp_all add: heap_ok_def example_upload_state_def MAX_TRANSMIT_SOCKET_READ_LENGTH_def)

definition example_operations :: "operation list" where
  "example_operations = [([9, 9], example_memory [71, 69, 84], example_args 1 3, [[71, 69, 84]]), ([], example_memory [32, 47], example_args 2 2, [[32, 47]])]"

lemma example_operations_ok: "operations_ok example_operations" "transferred example_operations = [71, 69, 84, 32, 47]"
  by (simp_all add: operations_ok_def example_operations_def uploadable_def example_args_def example_memory_read transferred_def word_less_nat_alt)

theorem transferred_bytes_are_read_witness:
  "\<exists>r r'. Merge_data 0 (map Upload (us_uploads (upload_all example_operations example_upload_state))) NewBuffer = Inr (r) \<and>
     PrepareForReading (snd r) = (r', True) \<and> unread r' = [71, 69, 84, 32, 47]"
  using transferred_bytes_are_read [OF example_operations_ok(1) _ example_upload_ok(1), of
      "map Upload (us_uploads (upload_all example_operations example_upload_state))"]
    example_operations_ok(2) example_upload_ok(2) by (fastforce simp: example_operations_def)

section \<open>Bytes that are not uploaded\<close>

text \<open>
  The size of a chunk is cut to eleven bits when its bytes are copied. A buffer of 2048 to 20480 bytes is
  sent as one chunk that claims all of them, but only the remainder by 2048 is copied: the bytes after it are
  those that the event before left in the scratch area, whatever the process transferred.
\<close>

theorem large_chunk_is_stale:
  assumes "heap_ok s" and "2048 \<le> n" and "n \<le> MAX_TRANSMIT_SOCKET_READ_LENGTH"
  shows "\<exists>e. us_uploads (upload_socket_data_buf mem buf n args False s) = us_uploads s @ [e] \<and>
    BufferLen (Upload e) = int n \<and> IsFinished (Upload e) \<and>
    drop (n mod 2048) (take n (up_Buffer e)) = drop (n mod 2048) (take n (drop 64 (us_heap s)))"
proof -
  let ?e = "chunk_event mem 0 buf n True False args (us_heap s)"
  let ?s = "s\<lparr>us_heap := write_heap (SocketDataUploadEvent_layout ?e) (us_heap s), us_uploads := us_uploads s @ [?e]\<rparr>"
  have n: "n \<le> 20480" "copied_size n = n mod 2048" using assms(3) by (simp_all add: MAX_TRANSMIT_SOCKET_READ_LENGTH_def copied_size_mod)
  have "buf_turn mem buf n args False 0 (0, s) = (n, ?s)"
    using assms(2) n(1) by (simp add: buf_turn_def MAX_TRANSMIT_SOCKET_READ_LENGTH_def upload_chunk_def Let_def)
  moreover have "[0..<SOCKET_UPLOAD_CHUNK_LIMIT] = 0 # [1..<SOCKET_UPLOAD_CHUNK_LIMIT]"
    by (simp add: SOCKET_UPLOAD_CHUNK_LIMIT_def upt_conv_Cons)
  ultimately have "upload_socket_data_buf mem buf n args False s = ?s"
    by (simp add: upload_socket_data_buf_def buf_turns_done)
  moreover have "length bs = n mod 2048" if "probe_read mem buf (n mod 2048) = Some bs" for bs using that by (simp add: probe_read_Some)
  then have "drop (n mod 2048) (take n (up_Buffer ?e)) = drop (n mod 2048) (take n (drop 64 (us_heap s)))"
    using n by (simp add: chunk_event_def chunk_buffer_def MAX_TRANSMIT_SOCKET_READ_LENGTH_def drop_take min_def split: option.split)
  moreover have "unat (of_nat n :: u16) = n" using n(1) by (simp add: unsigned_of_nat take_bit_eq_mod)
  ultimately show ?thesis by (intro exI [of _ ?e]) (simp add: chunk_event_def IsFinished_def)
qed

theorem large_chunk_is_stale_witness:
  "\<exists>e. us_uploads (upload_socket_data_buf (example_memory (replicate 4096 7)) 1000 4096 (example_args 1 4096) False example_upload_state) = [e] \<and>
     BufferLen (Upload e) = 4096 \<and> take 4096 (up_Buffer e) = replicate 4096 0"
  using large_chunk_is_stale [OF example_upload_ok(1), of 4096 "example_memory (replicate 4096 7)" 1000 "example_args 1 4096"] example_upload_ok(2)
  by (auto simp: MAX_TRANSMIT_SOCKET_READ_LENGTH_def example_upload_state_def)

text \<open>
  How far a segment was already sent is never remembered. A segment that holds more than 20480 transferred
  bytes is continued from its beginning: the chunk that should hold its bytes from 20480 on holds its first bytes again.
\<close>

theorem long_segment_is_repeated:
  assumes "heap_ok s" and "read_iovec mem iov 0 = (base, len)" and "0 < k" and "k \<le> 2047"
    and "MAX_TRANSMIT_SOCKET_READ_LENGTH + k \<le> len" and "probe_read mem base k = Some front"
  shows "\<exists>e1 e2. us_uploads (upload_socket_data_iov mem iov 1 (MAX_TRANSMIT_SOCKET_READ_LENGTH + k) args s) = us_uploads s @ [e1, e2] \<and>
    BufferLen (Upload e1) = int MAX_TRANSMIT_SOCKET_READ_LENGTH \<and> DataSequence (Upload e2) = 1 \<and> IsFinished (Upload e2) \<and>
    chunk_content (Upload e2) = front"
proof -
  let ?m = MAX_TRANSMIT_SOCKET_READ_LENGTH
  let ?e1 = "chunk_event mem 0 base ?m False True args (us_heap s)"
  let ?s1 = "s\<lparr>us_heap := write_heap (SocketDataUploadEvent_layout ?e1) (us_heap s), us_uploads := us_uploads s @ [?e1]\<rparr>"
  let ?k1 = "\<lparr>iw_already_send = ?m, iw_cur_iov_sended = 0, iw_iov_index = 0, iw_loop_count = 1\<rparr>"
  have m: "?m = 20480" by (simp add: MAX_TRANSMIT_SOCKET_READ_LENGTH_def)
  have t1: "iov_turn mem iov 1 (?m + k) args (\<lparr>iw_already_send = 0, iw_cur_iov_sended = 0, iw_iov_index = 0, iw_loop_count = 0\<rparr>, s) = (?k1, ?s1)"
    using assms(2, 3, 5) by (simp add: iov_turn_def upload_chunk_def Let_def m SOCKET_UPLOAD_CHUNK_LIMIT_def)
  have front: "length front = k" using assms(6) by (simp add: probe_read_Some)
  have "heap_ok ?s1" using assms(1) by (rule write_heap_ok)
  from upload_chunk_small [OF this, of front mem base 1 True args] obtain e2 s2 where
    u: "upload_chunk mem 1 base k True False args ?s1 = s2" "us_uploads s2 = us_uploads s @ [?e1, e2]" "carries args 1 front True e2"
    using assms(3, 4, 6) front by auto
  have t2: "iov_turn mem iov 1 (?m + k) args (?k1, ?s1) = (?k1\<lparr>iw_already_send := ?m + k, iw_loop_count := 2\<rparr>, s2)"
    using assms(2, 4, 5) u(1) by (simp add: iov_turn_def Let_def m)
  have six: "SOCKET_UPLOAD_CHUNK_LIMIT = Suc (Suc 4)" by (simp add: SOCKET_UPLOAD_CHUNK_LIMIT_def)
  have "upload_socket_data_iov mem iov 1 (?m + k) args s = s2"
    unfolding upload_socket_data_iov_def six funpow_Suc_right comp_apply t1 t2 by (rule iov_turns_done) simp_all
  moreover have "BufferLen (Upload ?e1) = int ?m" by (simp add: chunk_event_def m)
  ultimately show ?thesis using u(2) carries_chunk [OF u(3)] carries_def [of args 1 front True e2] u(3)
    by (intro exI [of _ ?e1] exI [of _ e2]) (auto simp: DataSequence_def)
qed

text \<open>The descriptor of the segments at 500: one segment at 1000.\<close>

definition example_segment :: "nat \<Rightarrow> u8 list \<Rightarrow> memory_image" where
  "example_segment len bytes a = (if 500 \<le> a \<and> a < 516 then Some ((le_bytes 8 (1000 :: u64) @ le_bytes 8 (of_nat len :: u64)) ! nat (a - 500))
     else example_memory bytes a)"

lemma example_segment_reads:
  assumes "len < 2 ^ 64"
  shows "read_iovec (example_segment len bytes) 500 0 = (1000, len)"
    and "n \<le> length bytes \<Longrightarrow> probe_read (example_segment len bytes) 1000 n = Some (take n bytes)"
proof -
  have "probe_read (example_segment len bytes) 500 16 = Some (le_bytes 8 (1000 :: u64) @ le_bytes 8 (of_nat len :: u64))"
    by (simp add: probe_read_Some example_segment_def)
  then show "read_iovec (example_segment len bytes) 500 0 = (1000, len)"
    using assms by (simp add: read_iovec_def le_word_full unsigned_of_nat take_bit_eq_mod)
  show "n \<le> length bytes \<Longrightarrow> probe_read (example_segment len bytes) 1000 n = Some (take n bytes)"
    by (simp add: probe_read_Some example_segment_def example_memory_def)
qed

theorem long_segment_is_repeated_witness:
  "\<exists>e1 e2. us_uploads (upload_socket_data_iov (example_segment 30000 [1, 2, 3]) 500 1 (MAX_TRANSMIT_SOCKET_READ_LENGTH + 2)
       (example_args 1 (MAX_TRANSMIT_SOCKET_READ_LENGTH + 2)) example_upload_state) = [e1, e2] \<and> chunk_content (Upload e2) = [1, 2]"
  using long_segment_is_repeated [OF example_upload_ok(1) example_segment_reads(1), of 30000 2 "[1, 2, 3]" "[1, 2]"
      "example_args 1 (MAX_TRANSMIT_SOCKET_READ_LENGTH + 2)"] example_segment_reads(2) [of 30000 2 "[1, 2, 3]"] example_upload_ok(2)
  by (auto simp: MAX_TRANSMIT_SOCKET_READ_LENGTH_def)

end
