(* ===== verification/Kernel_Run.thy ===== *)
theory Kernel_Run
  imports Kernel_Tls Kernel_Stream
begin

text \<open>
  The kernel programs together: an event is the run of one of them, or a change that user space makes to a map that it
  writes. The states that the programs can reach are an inductive set.
\<close>

section \<open>Events\<close>

text \<open>Processes and connections.\<close>

datatype connection_event =
    Exec | Fork u32 | EnterConnect u32 int | ExitConnect int | TcpConnect int | UdpConnect int
  | NfConn "u32 option" "nf_conntrack_tuple option" | EnterAccept int | ExitAccept int | SockAllocRet int | EnterClose u32
  | ExitClose int

primrec connection_step :: "connection_event \<Rightarrow> kernel_env \<Rightarrow> tls_state \<Rightarrow> tls_state" where
  "connection_step Exec env st = sched_process_exec env st"
| "connection_step (Fork child) env st = sched_process_fork child env st"
| "connection_step (EnterConnect fd addr) env st = enter_connect fd addr env st"
| "connection_step (ExitConnect ret) env st = exit_connect ret env st"
| "connection_step (TcpConnect sock) env st = tcp_connect sock env st"
| "connection_step (UdpConnect sock) env st = ip4_udp_datagram_connect sock env st"
| "connection_step (NfConn status reply) env st = nf_conn_aware status reply env st"
| "connection_step (EnterAccept addr) env st = enter_accept addr env st"
| "connection_step (ExitAccept ret) env st = exit_accept ret env st"
| "connection_step (SockAllocRet sock) env st = sock_alloc_ret sock env st"
| "connection_step (EnterClose fd) env st = enter_close fd env st"
| "connection_step (ExitClose ret) env st = exit_close ret env st"

text \<open>Calls that transfer data.\<close>

datatype transfer_event =
    EnterWrite u32 int | ExitWrite int | EnterSendto u32 int int | ExitSendto int | EnterWritev u32 int nat | ExitWritev int
  | EnterSendmsg u32 int | ExitSendmsg int | EnterSendmmsg u32 int u32 | ExitSendmmsg int | SocketSendmsg | EnterRead u32 int
  | ExitRead int | EnterReadv u32 int nat | ExitReadv int | EnterRecv u32 int | ExitRecv int | EnterRecvfrom u32 int int
  | ExitRecvfrom int | EnterRecvmsg u32 int | ExitRecvmsg int | EnterRecvmmsg u32 int u32 | ExitRecvmmsg int | SocketRecvmsg

primrec transfer_step :: "transfer_event \<Rightarrow> kernel_env \<Rightarrow> tls_state \<Rightarrow> tls_state" where
  "transfer_step (EnterWrite fd buf) env st = enter_write fd buf env st"
| "transfer_step (ExitWrite ret) env st = exit_write ret env st"
| "transfer_step (EnterSendto fd buf addr) env st = enter_sendto fd buf addr env st"
| "transfer_step (ExitSendto ret) env st = exit_sendto ret env st"
| "transfer_step (EnterWritev fd iov n) env st = enter_writev fd iov n env st"
| "transfer_step (ExitWritev ret) env st = exit_writev ret env st"
| "transfer_step (EnterSendmsg fd msg) env st = enter_sendmsg fd msg env st"
| "transfer_step (ExitSendmsg ret) env st = exit_sendmsg ret env st"
| "transfer_step (EnterSendmmsg fd msg n) env st = enter_sendmmsg fd msg n env st"
| "transfer_step (ExitSendmmsg ret) env st = exit_sendmmsg ret env st"
| "transfer_step SocketSendmsg env st = security_socket_sendmsg env st"
| "transfer_step (EnterRead fd buf) env st = enter_read fd buf env st"
| "transfer_step (ExitRead ret) env st = exit_read ret env st"
| "transfer_step (EnterReadv fd iov n) env st = enter_readv fd iov n env st"
| "transfer_step (ExitReadv ret) env st = exit_readv ret env st"
| "transfer_step (EnterRecv fd buf) env st = enter_recv fd buf env st"
| "transfer_step (ExitRecv ret) env st = exit_recv ret env st"
| "transfer_step (EnterRecvfrom fd buf addr) env st = enter_recvfrom fd buf addr env st"
| "transfer_step (ExitRecvfrom ret) env st = exit_recvfrom ret env st"
| "transfer_step (EnterRecvmsg fd msg) env st = enter_recvmsg fd msg env st"
| "transfer_step (ExitRecvmsg ret) env st = exit_recvmsg ret env st"
| "transfer_step (EnterRecvmmsg fd msg n) env st = enter_recvmmsg fd msg n env st"
| "transfer_step (ExitRecvmmsg ret) env st = exit_recvmmsg ret env st"
| "transfer_step SocketRecvmsg env st = security_socket_recvmsg env st"

text \<open>Packets that are received, and netfilter.\<close>

datatype receive_event =
    NfHook int | NfHookRet | NetifReceive int u32 | IpRcv int | IpRcvRet | IpListRcv "int list" | IpListRcvRet
  | IpRcvFinish int | IpSublistRcvFinish "int list" | IpLocalDeliver int | IpLocalDeliverFinish int | TcpV4Rcv int
  | TcpV4RcvRet | TcpV6Rcv int | TcpV6RcvRet | SkbCopy int "u32 option option" u32

primrec receive_step :: "receive_event \<Rightarrow> kernel_env \<Rightarrow> tls_state \<Rightarrow> tls_state" where
  "receive_step (NfHook skb) env st = nf_hook_slow skb env st"
| "receive_step NfHookRet env st = nf_hook_slow_ret env st"
| "receive_step (NetifReceive skb ifindex) env st = netif_receive_skb skb ifindex env st"
| "receive_step (IpRcv skb) env st = ip_rcv skb env st"
| "receive_step IpRcvRet env st = ip_rcv_ret env st"
| "receive_step (IpListRcv skbs) env st = ip_list_rcv skbs env st"
| "receive_step IpListRcvRet env st = ip_list_rcv_ret env st"
| "receive_step (IpRcvFinish skb) env st = ip_rcv_finish skb env st"
| "receive_step (IpSublistRcvFinish skbs) env st = ip_sublist_rcv_finish skbs env st"
| "receive_step (IpLocalDeliver skb) env st = ip_local_deliver skb env st"
| "receive_step (IpLocalDeliverFinish skb) env st = ip_local_deliver_finish skb env st"
| "receive_step (TcpV4Rcv skb) env st = tcp_v4_rcv skb env st"
| "receive_step TcpV4RcvRet env st = tcp_v4_rcv_ret env st"
| "receive_step (TcpV6Rcv skb) env st = tcp_v6_rcv skb env st"
| "receive_step TcpV6RcvRet env st = tcp_v6_rcv_ret env st"
| "receive_step (SkbCopy skb sock len) env st = skb_copy_datagram_iovec skb sock len env st"

text \<open>Packets that are transmitted.\<close>

datatype transmit_event =
    TcpSendmsg "u32 option" | TcpSendmsgRet | TcpTransmit u32 | TcpRetransmit | KfreeSkb int u64 | IpQueueXmit int
  | IpQueueXmitRet | IpLocal int | IpOutput int | IpFinishOutput int u32 | NeighResolve int | NeighResolveRet | DevQueue int
  | DevQueueRet | NetDevStartXmit int | NetDevXmit int

primrec transmit_step :: "transmit_event \<Rightarrow> kernel_env \<Rightarrow> tls_state \<Rightarrow> tls_state" where
  "transmit_step (TcpSendmsg backlog) env st = tcp_sendmsg backlog env st"
| "transmit_step TcpSendmsgRet env st = tcp_sendmsg_ret env st"
| "transmit_step (TcpTransmit len) env st = tcp_transmit_skb len env st"
| "transmit_step TcpRetransmit env st = tcp_retransmit_skb env st"
| "transmit_step (KfreeSkb skb location) env st = kfree_skb skb location st"
| "transmit_step (IpQueueXmit skb) env st = ip_queue_xmit skb env st"
| "transmit_step IpQueueXmitRet env st = ip_queue_xmit_ret env st"
| "transmit_step (IpLocal skb) env st = ip_local skb env st"
| "transmit_step (IpOutput skb) env st = ip_output skb env st"
| "transmit_step (IpFinishOutput skb ifindex) env st = ip_finish_output2 skb ifindex env st"
| "transmit_step (NeighResolve skb) env st = neigh_resolve_output skb env st"
| "transmit_step NeighResolveRet env st = neigh_resolve_output_ret env st"
| "transmit_step (DevQueue skb) env st = dev_queue_emit skb env st"
| "transmit_step DevQueueRet env st = dev_queue_emit_ret env st"
| "transmit_step (NetDevStartXmit skb) env st = net_dev_start_xmit skb env st"
| "transmit_step (NetDevXmit skb) env st = net_dev_xmit skb env st"

text \<open>TLS libraries.\<close>

datatype tls_event =
    OpensslWrite int int | OpensslWriteRet int | OpensslRead int int u64 | OpensslReadRet int | NodeWrap int | NodeWrapRet
  | NodeSsl int | GoTlsWrite go_call | GoTlsWriteRet go_call | GoTlsRead go_call | GoTlsReadRet go_call

primrec tls_step :: "tls_event \<Rightarrow> kernel_env \<Rightarrow> tls_state \<Rightarrow> tls_state" where
  "tls_step (OpensslWrite ssl buf) env st = openssl_write ssl buf env st"
| "tls_step (OpensslWriteRet ret) env st = openssl_write_ret ret env st"
| "tls_step (OpensslRead ssl buf n) env st = openssl_read ssl buf n env st"
| "tls_step (OpensslReadRet ret) env st = openssl_read_ret ret env st"
| "tls_step (NodeWrap w) env st = node_tls_wrap w env st"
| "tls_step NodeWrapRet env st = node_tls_wrap_ret env st"
| "tls_step (NodeSsl ssl) env st = node_tls_ret_ssl ssl env st"
| "tls_step (GoTlsWrite call) env st = go_tls_write call env st"
| "tls_step (GoTlsWriteRet call) env st = go_tls_write_ret call env st"
| "tls_step (GoTlsRead call) env st = go_tls_read call env st"
| "tls_step (GoTlsReadRet call) env st = go_tls_read_ret call env st"

text \<open>Changes that user space makes.\<close>

datatype user_event =
    UserMonitor u32 "u32 option" | UserNotMonitor u32 "u32 option" | UserAllowlist u64 "u32 option" | UserFilter u32
  | UserZtunnel u32 | UserSkip u64 u64 | UserForget u64

primrec user_step :: "user_event \<Rightarrow> kernel_env \<Rightarrow> tls_state \<Rightarrow> tls_state" where
  "user_step (UserMonitor pid v) env st = st\<lparr>ks_process_monitor_control := (ks_process_monitor_control st)(pid := v)\<rparr>"
| "user_step (UserNotMonitor pid v) env st = st\<lparr>ks_process_not_monitor := (ks_process_not_monitor st)(pid := v)\<rparr>"
| "user_step (UserAllowlist g v) env st = st\<lparr>ks_cgroup_monitor_allowlist := (ks_cgroup_monitor_allowlist st)(g := v)\<rparr>"
| "user_step (UserFilter b) env st = st\<lparr>ks_cgroup_filter_enabled := b\<rparr>"
| "user_step (UserZtunnel pid) env st = st\<lparr>ks_ztunnel_process_pid := pid\<rparr>"
| "user_step (UserSkip conid random_id) env st = st\<lparr>ks_active_connection_map :=
     modify_elem conid (\<lambda>c. if kc_random_id c = random_id then c\<lparr>kc_skip_data_upload := True\<rparr> else c) (ks_active_connection_map st)\<rparr>"
| "user_step (UserForget conid) env st = st\<lparr>ks_active_connection_map := delete_elem conid (ks_active_connection_map st)\<rparr>"

text \<open>An event of any kind.\<close>

datatype kernel_event =
    Connection connection_event | Transfer transfer_event | Receive receive_event | Transmit transmit_event | Tls tls_event | User user_event

primrec kernel_step :: "kernel_event \<Rightarrow> kernel_env \<Rightarrow> tls_state \<Rightarrow> tls_state" where
  "kernel_step (Connection ev) env st = connection_step ev env st"
| "kernel_step (Transfer ev) env st = transfer_step ev env st"
| "kernel_step (Receive ev) env st = receive_step ev env st"
| "kernel_step (Transmit ev) env st = transmit_step ev env st"
| "kernel_step (Tls ev) env st = tls_step ev env st"
| "kernel_step (User ev) env st = user_step ev env st"

text \<open>The state when the programs are loaded: every map is empty, the scratch area and the offsets are any.\<close>

definition loaded :: "tls_state \<Rightarrow> bool" where
  "loaded st \<longleftrightarrow> ks_active_connection_map st = Map.empty \<and> ks_sk_buff_receive_detail_map st = Map.empty \<and>
     ks_sk_buff_transmit_detail_map st = Map.empty \<and> ks_process_monitor_control st = Map.empty \<and> ks_out st = [] \<and>
     us_uploads (ks_upload st) = []"

inductive kernel_reachable :: "tls_state \<Rightarrow> bool" where
  load: "loaded st \<Longrightarrow> kernel_reachable st"
| step: "kernel_reachable st \<Longrightarrow> kernel_reachable (kernel_step ev env st)"

end
