(* ===== verification/Kernel_Frame.thy ===== *)
theory Kernel_Frame
  imports Kernel_Run
begin

text \<open>
  What a part of the programs leaves alone. An observation of the state that does not depend on the members which the
  programs for connections, transfers and TLS change is the same after each of them; the processes and the
  packets are such observations.
\<close>

section \<open>Observations that connections do not change\<close>

lemmas packet_defs = nf_hook_slow_def nf_hook_slow_ret_def netif_receive_skb_def ip_rcv_def ip_rcv_ret_def ip_list_rcv_def ip_list_rcv_ret_def
  ip_rcv_finish_def ip_sublist_rcv_finish_def ip_local_deliver_def ip_local_deliver_finish_def tcp_v4_rcv_def tcp_v4_rcv_ret_def
  tcp_v6_rcv_def tcp_v6_rcv_ret_def skb_copy_datagram_iovec_def tcp_sendmsg_def tcp_sendmsg_ret_def tcp_transmit_skb_def
  tcp_retransmit_skb_def kfree_skb_def ip_queue_xmit_def ip_queue_xmit_ret_def ip_local_def ip_output_def ip_finish_output2_def
  neigh_resolve_output_def neigh_resolve_output_ret_def dev_queue_emit_def dev_queue_emit_ret_def net_dev_start_xmit_def net_dev_xmit_def

locale quiet_observation =
  fixes obs :: "tls_state \<Rightarrow> 'o"
  assumes obs_fields [simp]:
      "obs (ks_active_connection_map_update f1 st) = obs st" "obs (ks_socket_data_id_generate_map_update f2 st) = obs st"
      "obs (ks_conecting_args_update f3 st) = obs st" "obs (ks_accepting_args_update f4 st) = obs st"
      "obs (ks_closing_args_update f5 st) = obs st" "obs (ks_socket_data_args_update f6 st) = obs st"
      "obs (ks_openssl_sock_data_args_update f7 st) = obs st" "obs (ks_reader_buffer_update f8 st) = obs st"
      "obs (ks_upload_update f9 st) = obs st" "obs (ks_node_tls_wrap_construct_args_map_update f10 st) = obs st"
      "obs (ks_node_tls_ssl_wrap_mapping_update f11 st) = obs st" "obs (ks_go_tls_active_connection_args_update f12 st) = obs st"
    and obs_submit [simp]: "\<forall>p. ev \<noteq> ProcessOut p \<Longrightarrow> obs (submit bytes ev st) = obs st"
begin

lemma obs_new_connection [simp]: "obs (submit_new_connection env success func tgid fd start addr socket conntrack role st) = obs st"
  by (simp add: submit_new_connection_def Let_def)

lemma obs_get_or_create: "get_or_create_active_conn env tgid fd func role st = (r, st1) \<Longrightarrow> obs st1 = obs st"
  by (auto simp: get_or_create_active_conn_def Let_def split: option.splits)

lemma obs_write_data [simp]: "obs (process_write_data env args n direction vecs func ssl st) = obs st"
proof (cases "vecs \<and> da_iovlen args = 0 \<or> n \<le> 0")
  case False
  obtain r st1 where g: "get_or_create_active_conn env (env_tgid env) (da_fd args) (ucast func) (da_sk_role args) st = (r, st1)" by fastforce
  have o1: "obs st1 = obs st" by (rule obs_get_or_create [OF g])
  have m: "obs (snd (mark_ssl env fd ssl conn st1)) = obs st1" for conn fd by (simp add: mark_ssl_def)
  have i: "obs (snd (infer_connection env a n direction ssl conn s2)) = obs s2" for conn a s2
    by (simp add: infer_connection_def split: option.split prod.split)
  show ?thesis unfolding process_write_data_def if_not_P [OF False] using o1 m i by (simp add: g Let_def case_prod_beta split: option.split)
qed (simp add: process_write_data_def)

lemma obs_ssl [simp]: "obs (set_conn_as_ssl fd func env st) = obs st"
  using obs_get_or_create by (auto simp: set_conn_as_ssl_def split: prod.split option.split)

lemma obs_close [simp]: "obs (submit_close_connection env fd start ret st) = obs st"
  by (simp add: submit_close_connection_def notify_close_connection_def Let_def split: option.split)

lemma obs_connection_step: "ev \<noteq> Exec \<Longrightarrow> \<forall>c. ev \<noteq> Fork c \<Longrightarrow> obs (connection_step ev env st) = obs st"
  by (cases ev) (simp_all add: enter_connect_def exit_connect_def
      process_connect_def tcp_connect_def ip4_udp_datagram_connect_def nf_conn_aware_def enter_accept_def
      exit_accept_def process_accept_def sock_alloc_ret_def enter_close_def exit_close_def process_close_sock_def Let_def
      split: option.split)

lemma obs_transfer_parts [simp]:
  "obs (enter_data fd f env st) = obs st" "obs (enter_address fd addr start env st) = obs st"
  "obs (exit_data only g direction vecs func env st) = obs st" "obs (exit_address n func4 role env st) = obs st"
  "obs (set_args h env st) = obs st"
  by (simp_all add: enter_data_def generate_socket_data_id_def enter_address_def exit_data_def exit_address_def
      submit_connection_when_not_exists_def set_args_def Let_def split: option.split)

lemma obs_transfer_step: "obs (transfer_step ev env st) = obs st"
  by (cases ev) (simp_all add: enter_write_def exit_write_def enter_sendto_def exit_sendto_def enter_writev_def exit_writev_def enter_sendmsg_def
      exit_sendmsg_def enter_sendmmsg_def exit_sendmmsg_def security_socket_sendmsg_def enter_read_def exit_read_def enter_readv_def
      exit_readv_def enter_recv_def exit_recv_def enter_recvfrom_def exit_recvfrom_def enter_recvmsg_def exit_recvmsg_def enter_recvmmsg_def
      exit_recvmmsg_def security_socket_recvmsg_def)

lemma obs_tls_step: "obs (tls_step ev env st) = obs st"
  by (cases ev) (simp_all add: openssl_write_def openssl_write_ret_def openssl_read_def openssl_read_ret_def process_openssl_data_def
      node_tls_wrap_def node_tls_wrap_ret_def node_tls_ret_ssl_def go_tls_write_def
      go_tls_write_ret_def go_tls_read_def go_tls_read_ret_def go_tls_enter_def go_tls_exit_def Let_def split: option.split)

end

section \<open>Observations that packets do not change\<close>

locale receive_observation =
  fixes obs :: "tls_state \<Rightarrow> 'o"
  assumes obs_receive [simp]:
      "obs (ks_socket_data_args_update f1 st) = obs st" "obs (ks_sk_buff_receive_detail_map_update f2 st) = obs st"
      "obs (ks_sk_temp_args_map_update f3 st) = obs st" "obs (ks_ip_list_rcv_args_map_update f4 st) = obs st"
    and obs_set_transmit [simp]: "obs (set_transmit skb g st) = obs st"
begin

lemma obs_packet_parts [simp]:
  "obs (set_rcv skb f st) = obs st" "obs (save_l24_tmp_args tpe skb env st) = obs st" "obs (set_args h env st) = obs st"
  by (simp_all add: set_rcv_def save_l24_tmp_args_def set_args_def)

lemma obs_list_foreach: "obs (snd (fold (ip_list_foreach_skb f) skbs ls)) = obs (snd ls)"
  by (induction skbs arbitrary: ls) (auto simp: ip_list_foreach_skb_def split: prod.split)

lemma obs_bpf_foreach [simp]: "obs ((bpf_list_foreach_skb f head ^^ n) st) = obs st"
proof -
  have "obs (bpf_list_foreach_skb f head st) = obs st" for st by (simp add: bpf_list_foreach_skb_def)
  then show ?thesis by (induction n) simp_all
qed

lemma obs_receive_step: "obs (receive_step ev env st) = obs st"
  by (cases ev) (simp_all add: packet_defs(1-16) get_l24_transmit_tmp_args_def get_l24_rcv_tmp_args_def obs_list_foreach case_prod_beta Let_def
      split: option.split)

end

locale packet_observation = receive_observation +
  assumes obs_transmit [simp]: "obs (ks_sk_buff_transmit_detail_map_update f st) = obs st"
begin

lemma obs_transmit_step: "obs (transmit_step ev env st) = obs st"
  by (cases ev) (simp_all add: packet_defs(17-32) get_l24_transmit_tmp_args_def Let_def split: option.split)

end

section \<open>The observations\<close>

text \<open>The records of packets, and the processes with the number of times that each was reported.\<close>

definition reports :: "u32 \<Rightarrow> kernel_output list \<Rightarrow> nat" where
  "reports pid out = length (filter (\<lambda>ev. case ev of ProcessOut p \<Rightarrow> px_pid p = pid | _ \<Rightarrow> False) out)"

definition process_view :: "u32 \<Rightarrow> tls_state \<Rightarrow> (u32 \<rightharpoonup> u32) \<times> nat" where
  "process_view pid st = (ks_process_monitor_control st, reports pid (ks_out st))"

interpretation received: quiet_observation ks_sk_buff_receive_detail_map
  by unfold_locales (simp_all add: submit_def)

interpretation transmitted: quiet_observation ks_sk_buff_transmit_detail_map
  by unfold_locales (simp_all add: submit_def)

interpretation processes: quiet_observation "process_view pid" for pid
  by unfold_locales (auto simp: process_view_def submit_def reports_def split: kernel_output.split)

interpretation packets: packet_observation "process_view pid" for pid
  by unfold_locales (simp_all add: process_view_def set_transmit_def)

interpretation transmitting: receive_observation "\<lambda>st. dom (ks_sk_buff_transmit_detail_map st)"
  by unfold_locales (auto simp: set_transmit_def modify_elem_def)

end
