(* ===== verification/Kernel_Announced.thy ===== *)
theory Kernel_Announced
  imports Kernel_Frame
begin

text \<open>
  What the kernel programs tell user space about connections: every event names a connection that was announced before.
\<close>

section \<open>What the programs tell about connections\<close>

text \<open>The operations that change the connections or the events about them; all others leave them.\<close>

definition tracked :: "'a kernel_state_scheme \<Rightarrow> (u64 \<rightharpoonup> active_connection_t) \<times> kernel_output list \<times> SocketDataUploadEvent list" where
  "tracked st = (ks_active_connection_map st, ks_out st, us_uploads (ks_upload st))"

definition announced :: "kernel_output list \<Rightarrow> u64 \<Rightarrow> u64 \<Rightarrow> bool" where
  "announced out conid random_id \<longleftrightarrow>
     (\<exists>c. ConnectOut c \<in> set out \<and> co_ConID c = conid \<and> co_RandomID c = random_id \<and> co_ConnectSuccess c = 1)"

fun output_announced :: "kernel_output list \<Rightarrow> kernel_output \<Rightarrow> bool" where
  "output_announced out (DetailOut d) \<longleftrightarrow> announced out (dt_ConnectionID d) (dt_RandomID d)"
| "output_announced out (CloseOut c) \<longleftrightarrow> announced out (cl_ConnectionID c) (cl_RandomID c)"
| "output_announced out (ConnectOut c) \<longleftrightarrow> co_ConID c = gen_tgid_fd (co_PID c) (co_SocketFD c)"
| "output_announced out (ProcessOut p) \<longleftrightarrow> True"

definition announced_ok :: "'a kernel_state_scheme \<Rightarrow> bool" where
  "announced_ok st \<longleftrightarrow>
     (\<forall>conid con. ks_active_connection_map st conid = Some con \<longrightarrow>
        announced (ks_out st) conid (kc_random_id con) \<and> conid = gen_tgid_fd (kc_pid con) (kc_sockfd con)) \<and>
     (\<forall>ev \<in> set (ks_out st). output_announced (ks_out st) ev) \<and>
     (\<forall>e \<in> set (us_uploads (ks_upload st)). announced (ks_out st) (up_ConnectionID e) (up_RandomID e))"

lemma announced_append [simp]: "announced out c r \<Longrightarrow> announced (out @ evs) c r"
  by (auto simp: announced_def)

lemma output_announced_append [simp]: "output_announced out ev \<Longrightarrow> output_announced (out @ evs) ev"
  by (cases ev) simp_all

lemma announced_ok_tracked: "tracked st' = tracked st \<Longrightarrow> announced_ok st' = announced_ok st"
  by (simp add: announced_ok_def tracked_def)

text \<open>Submitting an event about an announced connection.\<close>

lemma announced_ok_submit:
  assumes "announced_ok st" "output_announced (ks_out st @ [ev]) ev"
  shows "announced_ok (submit bytes ev st)"
  using assms by (auto simp: announced_ok_def submit_def)

lemma submit_simps [simp]:
  "ks_out (submit bytes ev st) = ks_out st @ [ev]" "us_uploads (ks_upload (submit bytes ev st)) = us_uploads (ks_upload st)"
  "ks_active_connection_map (submit bytes ev st) = ks_active_connection_map st"
  by (simp_all add: submit_def)

lemma connect_event_simps [simp]:
  "co_ConID (connect_event env success func tgid fd start addr socket conntrack role heap) = gen_tgid_fd tgid fd"
  "co_RandomID (connect_event env success func tgid fd start addr socket conntrack role heap) = ucast (ke_random env)"
  "co_PID (connect_event env success func tgid fd start addr socket conntrack role heap) = tgid"
  "co_SocketFD (connect_event env success func tgid fd start addr socket conntrack role heap) = fd"
  "co_ConnectSuccess (connect_event env success func tgid fd start addr socket conntrack role heap) = (if success then 1 else 0)"
  by (simp_all add: connect_event_def fill_socket_def fill_sockaddr_def Let_def)

lemma new_connection_announced:
  assumes "announced_ok st"
  shows "announced_ok (submit_new_connection env success func tgid fd start addr socket conntrack role st)"
proof -
  define role1 where "role1 = (if func = SOCKET_OPTS_TYPE_CONNECT then CONNECTION_ROLE_TYPE_CLIENT
    else if func = SOCKET_OPTS_TYPE_ACCEPT then CONNECTION_ROLE_TYPE_SERVER else role)"
  define e where "e = connect_event env success func tgid fd start addr socket conntrack role1 (us_heap (ks_upload st))"
  define st1 where "st1 = submit (SocketConnectEvent_layout e) (ConnectOut e) st"
  have e: "co_ConID e = gen_tgid_fd tgid fd" "co_RandomID e = ucast (ke_random env)" "co_ConnectSuccess e = (if success then 1 else 0)"
    "co_PID e = tgid" "co_SocketFD e = fd" by (simp_all add: e_def)
  have ok: "announced_ok st1" unfolding st1_def by (rule announced_ok_submit [OF assms]) (simp add: e)
  have an: "announced (ks_out st1) (gen_tgid_fd tgid fd) (ucast (ke_random env))" if success
    using that e by (auto simp: announced_def st1_def)
  have eq: "submit_new_connection env success func tgid fd start addr socket conntrack role st =
    (if \<not> success \<or> tgid_is_ztunnel tgid st then st1
     else st1\<lparr>ks_active_connection_map := update_elem (ke_room env ActiveConnections) (gen_tgid_fd tgid fd)
       \<lparr>kc_random_id = ucast (ke_random env), kc_pid = tgid, kc_sockfd = fd, kc_role = ucast role1,
        kc_socket_family = ucast (co_SocketFamily e), kc_protocol = 0, kc_ssl = False, kc_skip_data_upload = False\<rparr>
       (ks_active_connection_map st1)\<rparr>)"
    by (simp only: submit_new_connection_def role1_def e_def st1_def Let_def)
  show ?thesis using ok an unfolding eq by (auto simp: announced_ok_def update_elem_def)
qed

lemma announced_ok_active:
  "announced_ok st \<Longrightarrow> ks_active_connection_map st conid = Some con \<Longrightarrow>
     announced (ks_out st) conid (kc_random_id con)"
  by (simp add: announced_ok_def)

lemma get_or_create_announced:
  assumes "announced_ok st" "get_or_create_active_conn env tgid fd func role st = (r, st1)"
  shows "announced_ok st1" "r = ks_active_connection_map st1 (gen_tgid_fd tgid fd)"
  using assms by (auto simp: get_or_create_active_conn_def Let_def new_connection_announced split: option.splits)

text \<open>A connection that keeps its identity may be changed.\<close>

lemma announced_ok_update:
  assumes "announced_ok st" "ks_active_connection_map st conid = Some con" "kc_random_id con' = kc_random_id con"
    "kc_pid con' = kc_pid con" "kc_sockfd con' = kc_sockfd con"
  shows "announced_ok (st\<lparr>ks_active_connection_map := (ks_active_connection_map st)(conid \<mapsto> con')\<rparr>)"
  using assms by (auto simp: announced_ok_def)

text \<open>The chunks of an operation carry the identity of its connection.\<close>

definition belongs :: "upload_data_args \<Rightarrow> upload_state \<Rightarrow> upload_state \<Rightarrow> bool" where
  "belongs args s s' \<longleftrightarrow> (\<forall>e \<in> set (us_uploads s'). e \<in> set (us_uploads s) \<or> up_ConnectionID e = ua_con_id args \<and> up_RandomID e = ua_random_id args)"

lemma belongs_refl [simp]: "belongs args s s"
  by (simp add: belongs_def)

lemma belongs_trans: "belongs args s s1 \<Longrightarrow> belongs args s1 s2 \<Longrightarrow> belongs args s s2"
  by (auto simp: belongs_def)

lemma belongs_chunk: "belongs args s (upload_chunk mem i buf n fin red args s)"
  by (auto simp: belongs_def upload_chunk_def Let_def chunk_event_def)

lemma belongs_sequence: "generate_socket_sequence c d s = (q, s1) \<Longrightarrow> belongs args s s1"
  by (auto simp: belongs_def generate_socket_sequence_def Let_def split: option.splits if_splits)

lemma belongs_buf: "belongs args s (upload_socket_data_buf mem buf n args unfinished s)"
proof -
  have turn: "belongs args (snd ks) (snd (buf_turn mem buf n args unfinished i ks))" for ks i
    by (cases ks) (auto simp: buf_turn_def Let_def intro: belongs_chunk belongs_trans [OF belongs_sequence belongs_chunk] split: prod.splits)
  have "belongs args (snd ks) (snd (fold (buf_turn mem buf n args unfinished) is ks))" for "is" ks
  proof (induction "is" arbitrary: ks)
    case (Cons i "is")
    show ?case using belongs_trans [OF turn Cons.IH] by simp
  qed simp
  from this [of "(0, s)"] show ?thesis by (simp add: upload_socket_data_buf_def)
qed

lemma belongs_iov: "belongs args s (upload_socket_data_iov mem iov k n args s)"
proof -
  have turn: "belongs args (snd ks) (snd (iov_turn mem iov k n args ks))" for ks
    by (cases ks) (auto simp: iov_turn_def Let_def intro: belongs_chunk split: prod.splits if_splits)
  have "belongs args (snd ks) (snd ((iov_turn mem iov k n args ^^ m) ks))" for m ks
    by (induction m) (auto intro: belongs_trans turn)
  from this [where ks = "(_, s)"] show ?thesis by (simp add: upload_socket_data_iov_def)
qed

lemma belongs_last_ids [simp]: "belongs args s (s1\<lparr>us_last_ids := m\<rparr>) = belongs args s s1"
  by (simp add: belongs_def)

lemma belongs_prev [simp]: "belongs (args\<lparr>ua_prev_socket_data_id := p\<rparr>) s s1 = belongs args s s1"
  by (simp add: belongs_def)

lemma belongs_upload: "belongs args s (upload_socket_data mem args s)"
proof -
  define prev where "prev = (case us_last_ids s (ua_con_id args) of
     Some la \<Rightarrow> if la_random_id la = ua_random_id args then la_socket_data_id la else 0 | None \<Rightarrow> 0)"
  have "belongs args s (upload_socket_data_buf mem b n (args\<lparr>ua_prev_socket_data_id := prev\<rparr>) u s)"
    "belongs args s (upload_socket_data_iov mem b k n (args\<lparr>ua_prev_socket_data_id := prev\<rparr>) s)" for b n u k
    using belongs_buf [of "args\<lparr>ua_prev_socket_data_id := prev\<rparr>"] belongs_iov [of "args\<lparr>ua_prev_socket_data_id := prev\<rparr>"] by simp_all
  then show ?thesis by (simp add: upload_socket_data_def Let_def flip: prev_def)
qed

lemma mark_ssl_keeps:
  "mark_ssl env fd ssl conn st = (conn1, st1) \<Longrightarrow> tracked st1 = tracked st \<and> kc_random_id conn1 = kc_random_id conn \<and>
     kc_pid conn1 = kc_pid conn \<and> kc_sockfd conn1 = kc_sockfd conn"
  by (auto simp: mark_ssl_def tracked_def split: if_splits)

lemma infer_connection_keeps:
  "infer_connection env args n direction ssl conn st = (conn1, st1) \<Longrightarrow> tracked st1 = tracked st \<and> kc_random_id conn1 = kc_random_id conn \<and>
     kc_pid conn1 = kc_pid conn \<and> kc_sockfd conn1 = kc_sockfd conn"
  by (auto simp: infer_connection_def tracked_def split: if_splits option.splits prod.splits)

lemma process_write_data_announced:
  assumes ok: "announced_ok st"
  shows "announced_ok (process_write_data env args0 n direction vecs func ssl st)"
proof (cases "vecs \<and> da_iovlen args0 = 0 \<or> n \<le> 0")
  case False
  define conid where "conid = gen_tgid_fd (env_tgid env) (da_fd args0)"
  obtain r st1 where g: "get_or_create_active_conn env (env_tgid env) (da_fd args0) (ucast func) (da_sk_role args0) st = (r, st1)" by fastforce
  note ok1 = get_or_create_announced [OF ok g]
  show ?thesis
  proof (cases "\<exists>conn. r = Some conn \<and> family_should_trace (kc_socket_family conn)")
    case True
    then obtain conn where r: "r = Some conn" "family_should_trace (kc_socket_family conn)" by blast
    define args where "args = package_defaults n args0"
    obtain conn1 st2 where m: "mark_ssl env (da_fd args0) ssl conn st1 = (conn1, st2)" by fastforce
    obtain conn2 st3 where i: "infer_connection env args n direction ssl conn1 st2 = (conn2, st3)" by fastforce
    define st4 where "st4 = st3\<lparr>ks_active_connection_map := (ks_active_connection_map st3)(conid \<mapsto> conn2)\<rparr>"
    define detail where "detail = socket_detail (ke_now env) conid func conn2 args"
    define st5 where "st5 = (if kc_ssl conn2 = ssl then submit (SocketDetailEvent_layout detail) (DetailOut detail) st4 else st4)"
    define uargs where "uargs = upload_args (ke_now env) conid (nat n) direction ssl conn2 args"
    have t: "tracked st3 = tracked st1" "kc_random_id conn2 = kc_random_id conn" "kc_pid conn2 = kc_pid conn" "kc_sockfd conn2 = kc_sockfd conn"
      using mark_ssl_keeps [OF m] infer_connection_keeps [OF i] by simp_all
    have a3: "ks_active_connection_map st3 conid = Some conn" using t(1) ok1(2) r(1) by (simp add: tracked_def conid_def)
    have "announced_ok st3" using announced_ok_tracked [OF t(1)] ok1(1) by simp
    then have ok4: "announced_ok st4" unfolding st4_def by (rule announced_ok_update [OF _ a3 t(2-4)])
    then have an: "announced (ks_out st4) conid (kc_random_id conn2)" using announced_ok_active [of st4 conid conn2] by (simp add: st4_def)
    have ok5: "announced_ok st5" using ok4 an by (simp add: st5_def announced_ok_submit detail_def socket_detail_def)
    have an5: "announced (ks_out st5) conid (kc_random_id conn2)" using an by (simp add: st5_def)
    have "belongs uargs (ks_upload st5) (upload_socket_data (ke_mem env) uargs (ks_upload st5))" by (rule belongs_upload)
    then have "announced_ok (st5\<lparr>ks_upload := upload_socket_data (ke_mem env) uargs (ks_upload st5)\<rparr>)"
      using ok5 an5 by (auto simp: announced_ok_def belongs_def uargs_def upload_args_def)
    moreover have "process_write_data env args0 n direction vecs func ssl st =
      st5\<lparr>ks_upload := upload_socket_data (ke_mem env) uargs (ks_upload st5)\<rparr>"
      unfolding process_write_data_def if_not_P [OF False] using g r m i
      by (simp only: Let_def args_def st5_def st4_def detail_def uargs_def conid_def prod.case option.case if_True if_False not_True_eq_False)
    ultimately show ?thesis by simp
  next
    case outside: False
    have "process_write_data env args0 n direction vecs func ssl st = st1"
      unfolding process_write_data_def if_not_P [OF False] using g outside by (cases r) simp_all
    then show ?thesis using ok1(1) by simp
  qed
qed (use ok in \<open>simp add: process_write_data_def\<close>)

lemma set_conn_as_ssl_announced:
  assumes "announced_ok st"
  shows "announced_ok (set_conn_as_ssl fd func env st)"
proof -
  obtain r st1 where g: "get_or_create_active_conn env (env_tgid env) fd func CONNECTION_ROLE_TYPE_UNKNOWN st = (r, st1)" by fastforce
  note ok1 = get_or_create_announced [OF assms g]
  show ?thesis
  proof (cases r)
    case (Some conn)
    then show ?thesis using assms g announced_ok_update [OF ok1(1), of _ conn "conn\<lparr>kc_ssl := True\<rparr>"] ok1(2)
      by (simp add: set_conn_as_ssl_def)
  qed (use assms ok1(1) g in \<open>simp add: set_conn_as_ssl_def\<close>)
qed

lemma close_announced:
  assumes "announced_ok st"
  shows "announced_ok (submit_close_connection env fd start ret st)"
proof (cases "ks_active_connection_map st (gen_tgid_fd (env_tgid env) fd)")
  case (Some con)
  define conid where "conid = gen_tgid_fd (env_tgid env) fd"
  define e where "e = \<lparr>cl_ConnectionID = conid, cl_RandomID = kc_random_id con, cl_StartTime = start, cl_EndTime = ke_now env,
    cl_PID = kc_pid con, cl_SocketFD = kc_sockfd con, cl_Success = (if ret > 0 then 1 else 0)\<rparr>"
  define st1 where "st1 = st\<lparr>ks_upload := (ks_upload st)\<lparr>us_last_ids := delete_elem conid (us_last_ids (ks_upload st))\<rparr>,
    ks_socket_data_id_generate_map := delete_elem conid (ks_socket_data_id_generate_map st)\<rparr>"
  have "tracked st1 = tracked st" by (simp add: tracked_def st1_def)
  then have "announced_ok st1" using announced_ok_tracked [of st1 st] assms by simp
  moreover have "announced (ks_out st1) conid (kc_random_id con)" using assms Some by (simp add: announced_ok_def conid_def st1_def)
  ultimately have ok: "announced_ok (submit (SocketCloseEvent_layout e) (CloseOut e) st1)"
    by (intro announced_ok_submit) (simp_all add: e_def)
  define st2 where "st2 = submit (SocketCloseEvent_layout e) (CloseOut e) st1"
  have "submit_close_connection env fd start ret st = st2\<lparr>ks_active_connection_map := delete_elem conid (ks_active_connection_map st2)\<rparr>"
    using Some by (simp only: submit_close_connection_def notify_close_connection_def Let_def conid_def e_def st1_def st2_def option.case)
  then show ?thesis using ok by (auto simp: announced_ok_def delete_elem_def st2_def)
qed (use assms in \<open>simp add: submit_close_connection_def\<close>)

text \<open>The members that do not matter for the connections.\<close>

lemma announced_ok_quiet [simp]:
  "announced_ok (ks_process_monitor_control_update f0 st) = announced_ok st"
  "announced_ok (ks_process_not_monitor_update f1 st) = announced_ok st"
  "announced_ok (ks_cgroup_monitor_allowlist_update f2 st) = announced_ok st"
  "announced_ok (ks_cgroup_filter_enabled_update f3 st) = announced_ok st"
  "announced_ok (ks_ztunnel_process_pid_update f4 st) = announced_ok st"
  "announced_ok (ks_socket_data_id_generate_map_update f5 st) = announced_ok st"
  "announced_ok (ks_conecting_args_update f6 st) = announced_ok st"
  "announced_ok (ks_accepting_args_update f7 st) = announced_ok st"
  "announced_ok (ks_closing_args_update f8 st) = announced_ok st"
  "announced_ok (ks_socket_data_args_update f9 st) = announced_ok st"
  "announced_ok (ks_openssl_sock_data_args_update f10 st) = announced_ok st"
  "announced_ok (ks_reader_buffer_update f11 st) = announced_ok st"
  "announced_ok (ks_sk_buff_receive_detail_map_update f12 sp) = announced_ok sp"
  "announced_ok (ks_sk_buff_transmit_detail_map_update f13 sp) = announced_ok sp"
  "announced_ok (ks_sk_temp_args_map_update f14 sp) = announced_ok sp"
  "announced_ok (ks_ip_list_rcv_args_map_update f15 sp) = announced_ok sp"
  "announced_ok (ks_openssl_symaddr_map_update f16 su) = announced_ok su"
  "announced_ok (ks_node_tls_wrap_construct_args_map_update f17 su) = announced_ok su"
  "announced_ok (ks_node_tls_ssl_wrap_mapping_update f18 su) = announced_ok su"
  "announced_ok (ks_go_tls_active_connection_args_update f19 su) = announced_ok su"
  by (simp_all add: announced_ok_def)

lemma report_process_announced: "announced_ok st \<Longrightarrow> announced_ok (report_running_process env st)"
  by (simp add: report_running_process_def Let_def) (auto simp: announced_ok_def)

lemma connection_step_announced: "announced_ok st \<Longrightarrow> announced_ok (connection_step ev env st)"
  by (cases ev) (simp_all add: sched_process_exec_def sched_process_fork_def report_process_announced enter_connect_def exit_connect_def
      process_connect_def new_connection_announced tcp_connect_def ip4_udp_datagram_connect_def nf_conn_aware_def enter_accept_def
      exit_accept_def process_accept_def sock_alloc_ret_def enter_close_def exit_close_def process_close_sock_def close_announced Let_def
      split: option.split)

lemma enter_data_announced: "announced_ok st \<Longrightarrow> announced_ok (enter_data fd f env st)"
  by (simp add: enter_data_def generate_socket_data_id_def Let_def)

lemma enter_address_announced: "announced_ok st \<Longrightarrow> announced_ok (enter_address fd addr start env st)"
  by (simp add: enter_address_def)

lemma exit_data_announced: "announced_ok st \<Longrightarrow> announced_ok (exit_data only f direction vecs func env st)"
  by (simp add: exit_data_def Let_def process_write_data_announced split: option.split)

lemma exit_address_announced: "announced_ok st \<Longrightarrow> announced_ok (exit_address n func role env st)"
  by (simp add: exit_address_def Let_def submit_connection_when_not_exists_def new_connection_announced split: option.split)

lemma set_args_announced [simp]: "announced_ok (set_args f env st) = announced_ok st"
  by (simp add: set_args_def)

lemma transfer_step_announced: "announced_ok st \<Longrightarrow> announced_ok (transfer_step ev env st)"
  by (cases ev) (simp_all add: enter_write_def exit_write_def enter_sendto_def exit_sendto_def enter_writev_def exit_writev_def enter_sendmsg_def
      exit_sendmsg_def enter_sendmmsg_def exit_sendmmsg_def security_socket_sendmsg_def enter_read_def exit_read_def enter_readv_def
      exit_readv_def enter_recv_def exit_recv_def enter_recvfrom_def exit_recvfrom_def enter_recvmsg_def exit_recvmsg_def enter_recvmmsg_def
      exit_recvmmsg_def security_socket_recvmsg_def enter_data_announced enter_address_announced exit_data_announced exit_address_announced)

text \<open>Packets are no matter of the connections.\<close>

interpretation announcements: packet_observation announced_ok
  by unfold_locales (simp_all add: set_transmit_def)

lemma tls_step_announced: "announced_ok st \<Longrightarrow> announced_ok (tls_step ev env st)"
  by (cases ev) (simp_all add: openssl_write_def openssl_write_ret_def openssl_read_def openssl_read_ret_def process_openssl_data_def
      set_conn_as_ssl_announced process_write_data_announced node_tls_wrap_def node_tls_wrap_ret_def node_tls_ret_ssl_def go_tls_write_def
      go_tls_write_ret_def go_tls_read_def go_tls_read_ret_def go_tls_enter_def go_tls_exit_def Let_def split: option.split)

lemma user_step_announced: "announced_ok st \<Longrightarrow> announced_ok (user_step ev env st)"
proof (cases ev)
  case (UserSkip conid random_id)
  assume ok: "announced_ok st"
  show ?thesis
  proof (cases "ks_active_connection_map st conid")
    case None
    then show ?thesis using ok UserSkip by (auto simp: announced_ok_def modify_elem_def)
  next
    case (Some con)
    then show ?thesis
      using announced_ok_update [OF ok Some, of "if kc_random_id con = random_id then con\<lparr>kc_skip_data_upload := True\<rparr> else con"] UserSkip
      by (simp add: modify_elem_def)
  qed
next
  case (UserForget conid)
  assume "announced_ok st"
  then show ?thesis using UserForget by (auto simp: announced_ok_def delete_elem_def)
qed simp_all

lemma kernel_step_announced: "announced_ok st \<Longrightarrow> announced_ok (kernel_step ev env st)"
  by (cases ev) (simp_all add: connection_step_announced transfer_step_announced tls_step_announced user_step_announced
      announcements.obs_receive_step announcements.obs_transmit_step)

lemma reachable_announced: "kernel_reachable st \<Longrightarrow> announced_ok st"
proof (induction rule: kernel_reachable.induct)
  case (load st)
  then show ?case by (simp add: loaded_def announced_ok_def)
qed (rule kernel_step_announced)

end
