(* ===== verification/Kernel_Run_Props.thy ===== *)
theory Kernel_Run_Props
  imports Kernel_Announced
begin

text \<open>
  What holds of every run of the kernel programs: whose events they submit, how often a process is reported, and what
  becomes of the records of packets.
\<close>

section \<open>Every event has its connection\<close>

text \<open>
  C2: User space finds the connection of everything it is told. In every state that the programs reach, each
  uploaded chunk, each detail and each closing names a connection (its identifier and its random number)
  that was announced as established, and the identifier of an announced connection is made of the process
  and the descriptor that the announcement names.
\<close>

theorem every_event_has_its_connection:
  assumes "kernel_reachable st"
  shows "(\<forall>e \<in> set (us_uploads (ks_upload st)). \<exists>c. ConnectOut c \<in> set (ks_out st) \<and>
           co_ConID c = up_ConnectionID e \<and> co_RandomID c = up_RandomID e \<and> co_ConnectSuccess c = 1) \<and>
         (\<forall>d. DetailOut d \<in> set (ks_out st) \<longrightarrow> (\<exists>c. ConnectOut c \<in> set (ks_out st) \<and>
           co_ConID c = dt_ConnectionID d \<and> co_RandomID c = dt_RandomID d \<and> co_ConnectSuccess c = 1)) \<and>
         (\<forall>d. CloseOut d \<in> set (ks_out st) \<longrightarrow> (\<exists>c. ConnectOut c \<in> set (ks_out st) \<and>
           co_ConID c = cl_ConnectionID d \<and> co_RandomID c = cl_RandomID d \<and> co_ConnectSuccess c = 1)) \<and>
         (\<forall>c. ConnectOut c \<in> set (ks_out st) \<longrightarrow> co_ConID c = gen_tgid_fd (co_PID c) (co_SocketFD c))"
proof -
  note ok = reachable_announced [OF assms]
  have "output_announced (ks_out st) ev" if "ev \<in> set (ks_out st)" for ev using ok that by (simp add: announced_ok_def)
  from this [of "DetailOut _"] this [of "CloseOut _"] this [of "ConnectOut _"] show ?thesis
    using ok by (simp add: announced_ok_def announced_def)
qed

section \<open>Runs\<close>

definition kernel_run :: "(kernel_event \<times> kernel_env) list \<Rightarrow> tls_state \<Rightarrow> tls_state" where
  "kernel_run evs = fold (\<lambda>(ev, env). kernel_step ev env) evs"

lemma kernel_run_simps [simp]:
  "kernel_run [] st = st" "kernel_run ((ev, env) # evs) st = kernel_run evs (kernel_step ev env st)"
  by (simp_all add: kernel_run_def)

lemma run_reachable: "kernel_reachable st \<Longrightarrow> kernel_reachable (kernel_run evs st)"
  by (induction evs arbitrary: st) (auto simp: kernel_reachable.step)

text \<open>A law that every step keeps holds of every run.\<close>

lemma run_law:
  assumes "\<And>ev env st. R st (kernel_step ev env st)" "\<And>st. R st st" "\<And>a b c. R a b \<Longrightarrow> R b c \<Longrightarrow> R a c"
  shows "R st (kernel_run evs st)"
proof (induction evs arbitrary: st)
  case (Cons x evs)
  show ?case using assms(3) [OF assms(1) Cons.IH] by (cases x) simp
qed (simp add: assms(2))

section \<open>Processes\<close>

lemma reports_append [simp]: "reports pid (out @ [ev]) = reports pid out + reports pid [ev]"
  by (simp add: reports_def)

text \<open>A process that is decided is not reported again, and a process that is reported is decided.\<close>

definition decided_law :: "u32 \<Rightarrow> tls_state \<Rightarrow> tls_state \<Rightarrow> bool" where
  "decided_law pid st st' \<longleftrightarrow>
     (if ks_process_monitor_control st pid \<noteq> None
      then ks_process_monitor_control st' pid \<noteq> None \<and> reports pid (ks_out st') = reports pid (ks_out st)
      else reports pid (ks_out st') = reports pid (ks_out st) \<or>
           reports pid (ks_out st') = reports pid (ks_out st) + 1 \<and> ks_process_monitor_control st' pid \<noteq> None)"

lemma decided_law_view: "process_view pid st' = process_view pid st \<Longrightarrow> decided_law pid st st'"
  by (simp add: decided_law_def process_view_def)

lemma report_decided: "ke_room env ProcessMonitor \<Longrightarrow> decided_law pid st (report_running_process env st)"
  by (auto simp: decided_law_def report_running_process_def Let_def update_elem_def reports_def)

lemma decided_law_pre:
  assumes "decided_law pid st1 st'" "ks_process_monitor_control st1 pid = ks_process_monitor_control st pid" "ks_out st1 = ks_out st"
  shows "decided_law pid st st'"
  using assms by (auto simp: decided_law_def split: if_splits)

text \<open>Nobody takes the decision back: the number of the process is not reused, and user space does not remove it.\<close>

definition keeps_process :: "u32 \<Rightarrow> kernel_event \<Rightarrow> bool" where
  "keeps_process pid ev \<longleftrightarrow> ev \<noteq> Connection (Fork pid) \<and> ev \<noteq> User (UserMonitor pid None)"

lemma step_decided:
  assumes "keeps_process pid ev" "ke_room env ProcessMonitor"
  shows "decided_law pid st (kernel_step ev env st)"
proof (cases ev)
  case (Connection c)
  show ?thesis
  proof (cases "c = Exec \<or> (\<exists>child. c = Fork child)")
    case True
    then show ?thesis
    proof
      assume "c = Exec"
      then show ?thesis using report_decided [OF assms(2)] Connection by (simp add: sched_process_exec_def)
    next
      assume "\<exists>child. c = Fork child"
      then obtain child where c: "c = Fork child" "child \<noteq> pid" using assms(1) Connection by (auto simp: keeps_process_def)
      then show ?thesis using Connection
        by (auto simp: sched_process_fork_def delete_elem_def intro: decided_law_pre [OF report_decided [OF assms(2)]])
    qed
  next
    case False
    then show ?thesis using Connection processes.obs_connection_step [of c pid] by (simp add: decided_law_view)
  qed
next
  case (User u)
  then show ?thesis using assms(1) by (cases u) (auto simp: decided_law_def keeps_process_def)
qed (simp_all add: decided_law_view processes.obs_transfer_step processes.obs_tls_step packets.obs_receive_step packets.obs_transmit_step)

lemma run_decided:
  assumes "\<forall>(ev, env) \<in> set evs. keeps_process pid ev \<and> ke_room env ProcessMonitor"
  shows "decided_law pid st (kernel_run evs st)"
  using assms
proof (induction evs arbitrary: st)
  case (Cons x evs)
  obtain ev env where x: "x = (ev, env)" by fastforce
  have "decided_law pid st (kernel_step ev env st)" using Cons.prems x by (auto intro: step_decided)
  moreover have "decided_law pid (kernel_step ev env st) (kernel_run evs (kernel_step ev env st))" by (rule Cons.IH) (use Cons.prems in auto)
  ultimately show ?case using x by (auto simp: decided_law_def split: if_splits)
qed (simp add: decided_law_def)


section \<open>Packets\<close>

text \<open>The programs of netfilter find no received packet: the two kinds of saved packets have the same key.\<close>

definition unfiltered :: "tls_state \<Rightarrow> bool" where
  "unfiltered st \<longleftrightarrow> (\<forall>skb d. ks_sk_buff_receive_detail_map st skb = Some d \<longrightarrow> rd_total_nf_count d = 0 \<and> rd_total_nf_time d = 0)"

lemma unfiltered_fields [simp]:
  "unfiltered (ks_socket_data_args_update f1 st) = unfiltered st" "unfiltered (ks_sk_temp_args_map_update f2 st) = unfiltered st"
  "unfiltered (ks_ip_list_rcv_args_map_update f3 st) = unfiltered st" "unfiltered (ks_sk_buff_transmit_detail_map_update f4 st) = unfiltered st"
  by (simp_all add: unfiltered_def)

lemma unfiltered_set_rcv:
  assumes "unfiltered st" "\<And>d. rd_total_nf_count (f d) = rd_total_nf_count d \<and> rd_total_nf_time (f d) = rd_total_nf_time d"
  shows "unfiltered (set_rcv skb f st)"
  using assms by (auto simp: unfiltered_def set_rcv_def modify_elem_def)

lemma unfiltered_delete: "unfiltered st \<Longrightarrow> unfiltered (st\<lparr>ks_sk_buff_receive_detail_map := delete_elem skb (ks_sk_buff_receive_detail_map st)\<rparr>)"
  by (auto simp: unfiltered_def delete_elem_def)

lemma unfiltered_list:
  assumes "\<And>d. rd_total_nf_count (f d) = rd_total_nf_count d \<and> rd_total_nf_time (f d) = rd_total_nf_time d" "unfiltered (snd ls)"
  shows "unfiltered (snd (fold (ip_list_foreach_skb f) skbs ls))"
  using assms(2)
proof (induction skbs arbitrary: ls)
  case (Cons skb skbs)
  have "unfiltered (snd (ip_list_foreach_skb f skb ls))"
    using Cons.prems unfiltered_set_rcv [OF _ assms(1)] by (cases ls) (simp add: ip_list_foreach_skb_def)
  then show ?case using Cons.IH by simp
qed simp

lemma unfiltered_bpf_list:
  assumes "\<And>d. rd_total_nf_count (f d) = rd_total_nf_count d \<and> rd_total_nf_time (f d) = rd_total_nf_time d" "unfiltered st"
  shows "unfiltered ((bpf_list_foreach_skb f head ^^ n) st)"
proof -
  have "unfiltered st \<Longrightarrow> unfiltered (bpf_list_foreach_skb f head st)" for st
    using unfiltered_set_rcv [OF _ assms(1)] by (simp add: bpf_list_foreach_skb_def)
  then show ?thesis using assms(2) by (induction n) simp_all
qed

lemma nf_hook_slow_ret_unfiltered: "unfiltered st \<Longrightarrow> unfiltered (nf_hook_slow_ret env st)"
  by (simp add: nf_hook_slow_ret_def get_l24_transmit_tmp_args_def get_l24_rcv_tmp_args_def set_transmit_def delete_elem_def
      L24_TEMP_ARGS_TRANSMIT_NF_HOOK_SLOW_def L24_TEMP_ARGS_RCV_NF_HOOK_SLOW_def split: option.split)

lemma unfiltered_saved:
  assumes "unfiltered st" "\<And>d. rd_total_nf_count (f d) = rd_total_nf_count d \<and> rd_total_nf_time (f d) = rd_total_nf_time d"
  shows "unfiltered (case get_l24_rcv_tmp_args tpe env st of (None, st1) \<Rightarrow> st1 | (Some skb, st1) \<Rightarrow> set_rcv skb f st1)"
  using unfiltered_set_rcv [OF _ assms(2)] assms(1) by (simp add: get_l24_rcv_tmp_args_def split: option.split)

lemma receive_step_unfiltered:
  assumes "unfiltered st"
  shows "unfiltered (receive_step ev env st)"
proof -
  have "unfiltered (ip_list_rcv skbs env st)" for skbs
    using unfiltered_list [of "rd_enter_ip_rcv_time_update (\<lambda>_. ke_now env)" "(init_bpf_list_head, st)" "take 10 skbs"] assms
    by (simp add: ip_list_rcv_def case_prod_beta)
  moreover have "unfiltered (ip_list_rcv_ret env st)"
    using unfiltered_bpf_list [of "rd_exit_ip_rcv_time_update (\<lambda>_. ke_now env)"] assms by (simp add: ip_list_rcv_ret_def Let_def split: option.split)
  moreover have "unfiltered (ip_sublist_rcv_finish skbs env st)" for skbs
    using unfiltered_list [of "rd_ip_rcv_finish_time_update (\<lambda>_. ke_now env)" "(init_bpf_list_head, st)" "take 10 skbs"] assms
    by (simp add: ip_sublist_rcv_finish_def)
  moreover have "unfiltered (netif_receive_skb skb ifindex env st)" for skb ifindex
    using assms by (auto simp: unfiltered_def netif_receive_skb_def update_elem_def)
  moreover have "unfiltered (skb_copy_datagram_iovec skb sock len env st)" for skb sock len
    using assms by (simp add: skb_copy_datagram_iovec_def Let_def set_args_def unfiltered_delete split: option.split)
  ultimately show ?thesis using assms
    by (cases ev) (simp_all add: packet_defs(1, 4, 5, 8, 10-15) nf_hook_slow_ret_unfiltered save_l24_tmp_args_def unfiltered_set_rcv
        set_transmit_def unfiltered_saved)
qed

lemma transmit_step_unfiltered: "unfiltered st \<Longrightarrow> unfiltered (transmit_step ev env st)"
  by (cases ev) (simp_all add: packet_defs(17-32) get_l24_transmit_tmp_args_def set_transmit_def set_args_def save_l24_tmp_args_def Let_def
      split: option.split)

lemma unfiltered_cong: "ks_sk_buff_receive_detail_map st' = ks_sk_buff_receive_detail_map st \<Longrightarrow> unfiltered st' = unfiltered st"
  by (simp add: unfiltered_def)

lemma connection_step_packets [simp]:
  "ks_sk_buff_receive_detail_map (connection_step ev env st) = ks_sk_buff_receive_detail_map st"
  "ks_sk_buff_transmit_detail_map (connection_step ev env st) = ks_sk_buff_transmit_detail_map st"
proof -
  have "ks_sk_buff_receive_detail_map (report_running_process env st) = ks_sk_buff_receive_detail_map st"
    "ks_sk_buff_transmit_detail_map (report_running_process env st) = ks_sk_buff_transmit_detail_map st" for st :: tls_state
    by (simp_all add: report_running_process_def Let_def)
  then show "ks_sk_buff_receive_detail_map (connection_step ev env st) = ks_sk_buff_receive_detail_map st"
    "ks_sk_buff_transmit_detail_map (connection_step ev env st) = ks_sk_buff_transmit_detail_map st"
    using received.obs_connection_step [of ev] transmitted.obs_connection_step [of ev]
    by (cases "ev = Exec \<or> (\<exists>c. ev = Fork c)"; auto simp: sched_process_exec_def sched_process_fork_def)+
qed

lemma user_step_packets [simp]:
  "ks_sk_buff_receive_detail_map (user_step ev env st) = ks_sk_buff_receive_detail_map st"
  "ks_sk_buff_transmit_detail_map (user_step ev env st) = ks_sk_buff_transmit_detail_map st"
  by (cases ev; simp)+

lemma kernel_step_unfiltered: "unfiltered st \<Longrightarrow> unfiltered (kernel_step ev env st)"
proof (cases ev)
  case (Receive x)
  assume "unfiltered st"
  then show ?thesis using Receive by (simp add: receive_step_unfiltered)
next
  case (Transmit x)
  assume "unfiltered st"
  then show ?thesis using Transmit by (simp add: transmit_step_unfiltered)
qed (simp_all add: unfiltered_def received.obs_transfer_step received.obs_tls_step)

text \<open>
  The time that netfilter spends on received packets is never reported. The programs that enter and leave
  its hook save a received packet under the key of the transmitted ones; leaving looks for a transmitted
  packet first and removes the key, so that the received packet is not found. In every state that the
  programs reach the records of received packets have no count and no time of netfilter.
\<close>

theorem receive_filter_is_never_counted:
  assumes "kernel_reachable st" and "ks_sk_buff_receive_detail_map st skb = Some d"
  shows "rd_total_nf_count d = 0 \<and> rd_total_nf_time d = 0"
proof -
  have "unfiltered st" using assms(1)
  proof (induction rule: kernel_reachable.induct)
    case (load st)
    then show ?case by (simp add: loaded_def unfiltered_def)
  qed (rule kernel_step_unfiltered)
  then show ?thesis using assms(2) by (simp add: unfiltered_def)
qed

text \<open>Records of transmitted packets are made and changed.\<close>

lemma dom_set_transmit [simp]: "dom (ks_sk_buff_transmit_detail_map (set_transmit skb f sp)) = dom (ks_sk_buff_transmit_detail_map sp)"
  by (auto simp: set_transmit_def modify_elem_def)

lemma transmit_step_dom: "dom (ks_sk_buff_transmit_detail_map st) \<subseteq> dom (ks_sk_buff_transmit_detail_map (transmit_step ev env st))"
  by (cases ev) (auto simp: packet_defs(17-32) get_l24_transmit_tmp_args_def set_transmit_def modify_elem_def set_args_def save_l24_tmp_args_def
      update_elem_def Let_def split: option.split)

text \<open>
  The record of a transmitted packet is never removed: no program and no change of user space takes an
  entry out of the map of transmitted packets. Once it is full, no packet at a new address is measured, and
  the operation gets no time and no count below the socket from it.
\<close>

theorem transmit_records_stay:
  "dom (ks_sk_buff_transmit_detail_map st) \<subseteq> dom (ks_sk_buff_transmit_detail_map (kernel_run evs st)) \<and>
   (ks_sk_buff_transmit_detail_map st skb = None \<and> \<not> ke_room env TransmitDetails \<longrightarrow>
      ip_queue_xmit_ret env' (ip_queue_xmit skb env st) = ip_queue_xmit skb env st \<or> ke_pid_tgid env' \<noteq> ke_pid_tgid env)"
proof -
  have "dom (ks_sk_buff_transmit_detail_map st) \<subseteq> dom (ks_sk_buff_transmit_detail_map (kernel_step ev env st))" for ev env st
    by (cases ev) (simp_all add: transmitted.obs_transfer_step transmitted.obs_tls_step transmitting.obs_receive_step transmit_step_dom)
  then have "dom (ks_sk_buff_transmit_detail_map st) \<subseteq> dom (ks_sk_buff_transmit_detail_map (kernel_run evs st))"
    by (rule run_law) auto
  then show ?thesis
    by (auto simp: ip_queue_xmit_def ip_queue_xmit_ret_def set_args_def modify_elem_def update_elem_def Let_def split: option.split)
qed

section \<open>Examples\<close>

definition example_loaded :: tls_state where
  "example_loaded = \<lparr>ks_process_monitor_control = Map.empty, ks_process_not_monitor = Map.empty, ks_cgroup_monitor_allowlist = Map.empty,
     ks_cgroup_filter_enabled = 0, ks_ztunnel_process_pid = 0, ks_active_connection_map = Map.empty,
     ks_socket_data_id_generate_map = Map.empty, ks_conecting_args = Map.empty, ks_accepting_args = Map.empty, ks_closing_args = Map.empty,
     ks_socket_data_args = Map.empty, ks_openssl_sock_data_args = Map.empty, ks_reader_buffer = (\<lambda>_. 0), ks_upload = example_upload_state,
     ks_out = [], ks_sk_buff_receive_detail_map = Map.empty, ks_sk_buff_transmit_detail_map = Map.empty, ks_sk_temp_args_map = Map.empty,
     ks_ip_list_rcv_args_map = Map.empty, ks_openssl_symaddr_map = Map.empty, ks_node_tls_symaddr_map = Map.empty,
     ks_node_tls_wrap_construct_args_map = Map.empty, ks_node_tls_ssl_wrap_mapping = Map.empty, ks_go_tls_args_symaddr_map = Map.empty,
     ks_go_tls_active_connection_args = Map.empty\<rparr>"

definition example_socket :: sock_info where
  "example_socket = \<lparr>si_family = 2, si_num = 80, si_dport = 0x901f, si_rcv_saddr = 1, si_daddr = 2, si_v6_rcv_saddr = replicate 16 0,
     si_v6_daddr = replicate 16 0\<rparr>"

text \<open>Thread 7 of process 7 at the time \<open>now\<close>.\<close>

definition example_env :: "u64 \<Rightarrow> kernel_env" where
  "example_env now = \<lparr>ke_pid_tgid = 0x700000007, ke_now = now, ke_random = 3, ke_room = (\<lambda>_. True), ke_mem = example_memory [71, 69, 84, 32, 47],
     ke_fd_private_data = (\<lambda>_. 0), ke_sk_socket = (\<lambda>_. 0), ke_socket = (\<lambda>_. example_socket),
     ke_sockaddr = (\<lambda>_. \<lparr>sa_family = 2, sa_port = 0, sa_addr = 0, sa_addr6 = []\<rparr>), ke_cgroup_id = 0, ke_comm = []\<rparr>"

lemma example_tgid [simp]: "env_tgid (example_env now) = 7"
  by (simp add: env_tgid_def example_env_def)

lemma example_env_simps [simp]:
  "ke_pid_tgid (example_env now) = 0x700000007" "ke_now (example_env now) = now" "ke_random (example_env now) = 3"
  "ke_room (example_env now) m = True" "ke_comm (example_env now) = []"
  by (simp_all add: example_env_def)

lemma example_loaded_ok: "loaded example_loaded"
  by (simp add: loaded_def example_loaded_def example_upload_state_def)

definition example_events :: "(kernel_event \<times> kernel_env) list" where
  "example_events = [(Connection Exec, example_env 1), (Connection (EnterAccept 0), example_env 2), (Connection (ExitAccept 5), example_env 3)]"

lemma example_run_out: "ks_out (kernel_run example_events example_loaded) =
   [ProcessOut \<lparr>px_pid = 7, px_cgroup_id = 0, px_comm = []\<rparr>,
    ConnectOut (connect_event (example_env 3) True SOCKET_OPTS_TYPE_ACCEPT 7 5 2 0 0 None CONNECTION_ROLE_TYPE_SERVER
      (us_heap example_upload_state))]"
  by (simp add: example_events_def example_loaded_def sched_process_exec_def report_running_process_def enter_accept_def exit_accept_def
      process_accept_def submit_new_connection_def tgid_should_trace_def tgid_is_ztunnel_def update_elem_def Let_def
      SOCKET_OPTS_TYPE_ACCEPT_def SOCKET_OPTS_TYPE_CONNECT_def)

theorem every_event_has_its_connection_witness:
  "kernel_reachable (kernel_run example_events example_loaded) \<and>
   (\<exists>c. ConnectOut c \<in> set (ks_out (kernel_run example_events example_loaded)) \<and> co_ConID c = gen_tgid_fd (co_PID c) (co_SocketFD c))"
proof -
  have r: "kernel_reachable (kernel_run example_events example_loaded)"
    by (rule run_reachable) (rule kernel_reachable.load [OF example_loaded_ok])
  then show ?thesis using every_event_has_its_connection [OF r] by (auto simp: example_run_out)
qed


definition example_receive :: "(kernel_event \<times> kernel_env) list" where
  "example_receive = [(Receive (NetifReceive 64 1), example_env 1), (Receive (NfHook 64), example_env 2), (Receive NfHookRet, example_env 5)]"

theorem receive_filter_is_never_counted_witness:
  "\<exists>d. ks_sk_buff_receive_detail_map (kernel_run example_receive example_loaded) 64 = Some d \<and> rd_enter_nf_time d = 2 \<and> rd_total_nf_count d = 0"
proof -
  have r: "kernel_reachable (kernel_run example_receive example_loaded)"
    by (rule run_reachable) (rule kernel_reachable.load [OF example_loaded_ok])
  have "\<exists>d. ks_sk_buff_receive_detail_map (kernel_run example_receive example_loaded) 64 = Some d \<and> rd_enter_nf_time d = 2"
    by (simp add: example_receive_def example_loaded_def netif_receive_skb_def nf_hook_slow_def nf_hook_slow_ret_def get_l24_transmit_tmp_args_def
        get_l24_rcv_tmp_args_def save_l24_tmp_args_def set_rcv_def modify_elem_def update_elem_def delete_elem_def
        L24_TEMP_ARGS_TRANSMIT_NF_HOOK_SLOW_def L24_TEMP_ARGS_RCV_NF_HOOK_SLOW_def)
  then show ?thesis using receive_filter_is_never_counted [OF r] by blast
qed

theorem transmit_records_stay_witness:
  "let st = example_loaded\<lparr>ks_socket_data_args := [0x700000007 \<mapsto> no_data_args]\<rparr>;
       st1 = ip_queue_xmit 64 (example_env 1\<lparr>ke_room := \<lambda>_. False\<rparr>) st
   in da_buffer (the (ks_socket_data_args st1 0x700000007)) = 64 \<and> ip_queue_xmit_ret (example_env 2) st1 = st1"
  using transmit_records_stay [of "example_loaded\<lparr>ks_socket_data_args := [0x700000007 \<mapsto> no_data_args]\<rparr>" "[]" 64
      "example_env 1\<lparr>ke_room := \<lambda>_. False\<rparr>" "example_env 2"]
  by (simp add: example_loaded_def Let_def) (simp add: ip_queue_xmit_def set_args_def modify_elem_def Let_def)

end
