(* ===== verification/Kernel_Calls.thy ===== *)
theory Kernel_Calls
  imports Kernel_Run_Props
begin

text \<open>
  What single calls of a process become: the bytes it writes reach the reader of the access log, a closed connection is
  forgotten, and the calls whose events are not what the process did.
\<close>

section \<open>Writing\<close>

text \<open>A call of \<^verbatim>\<open>write\<close> on a socket: the buffer, its bytes, and what the three programs find that see it.\<close>

record write_call =
  wr_buf :: int
  wr_bytes :: "u8 list"
  wr_enter :: kernel_env
  wr_socket :: kernel_env
  wr_exit :: kernel_env

definition write_events :: "u32 \<Rightarrow> write_call \<Rightarrow> (kernel_event \<times> kernel_env) list" where
  "write_events fd w = [(Transfer (EnterWrite fd (wr_buf w)), wr_enter w), (Transfer SocketSendmsg, wr_socket w),
     (Transfer (ExitWrite (int (length (wr_bytes w)))), wr_exit w)]"

definition write_ok :: "u64 \<Rightarrow> write_call \<Rightarrow> bool" where
  "write_ok pid w \<longleftrightarrow> ke_pid_tgid (wr_enter w) = pid \<and> ke_pid_tgid (wr_socket w) = pid \<and> ke_pid_tgid (wr_exit w) = pid \<and>
     ke_room (wr_enter w) SocketDataArgs \<and> wr_buf w \<noteq> 0 \<and> wr_bytes w \<noteq> [] \<and> length (wr_bytes w) \<le> 2047 \<and>
     probe_read (ke_mem (wr_exit w)) (wr_buf w) (length (wr_bytes w)) = Some (wr_bytes w)"

definition tgid_of :: "u64 \<Rightarrow> u32" where
  "tgid_of pid = ucast (drop_bit 32 pid)"

lemma env_tgid_of: "ke_pid_tgid env = pid \<Longrightarrow> env_tgid env = tgid_of pid"
  by (simp add: env_tgid_def tgid_of_def)

text \<open>A traced connection whose protocol and role are known, without TLS.\<close>

definition plain_connection :: "u64 \<Rightarrow> u32 \<Rightarrow> active_connection_t \<Rightarrow> 'a kernel_state_scheme \<Rightarrow> bool" where
  "plain_connection pid fd con st \<longleftrightarrow> tgid_should_trace (tgid_of pid) st \<and> ks_active_connection_map st (gen_tgid_fd (tgid_of pid) fd) = Some con \<and>
     kc_protocol con \<noteq> 0 \<and> kc_role con \<noteq> CONNECTION_ROLE_TYPE_UNKNOWN \<and> \<not> kc_ssl con \<and> \<not> kc_skip_data_upload con \<and>
     family_should_trace (kc_socket_family con) \<and> ks_openssl_sock_data_args st pid = None"

definition last_data_id :: "u64 \<Rightarrow> 'a kernel_state_scheme \<Rightarrow> u64" where
  "last_data_id conid st = (case ks_socket_data_id_generate_map st conid of None \<Rightarrow> 0 | Some n \<Rightarrow> n)"

definition write_args :: "u32 \<Rightarrow> u64 \<Rightarrow> write_call \<Rightarrow> sock_data_args_t" where
  "write_args fd n w = package_defaults (int (length (wr_bytes w))) (no_data_args\<lparr>da_fd := fd, da_start_nacs := ke_now (wr_enter w),
     da_data_id := n, da_buf := wr_buf w, da_is_sock_event := True\<rparr>)"

lemma write_args_simps [simp]: "da_fd (write_args fd n w) = fd" "da_data_id (write_args fd n w) = n" "da_buf (write_args fd n w) = wr_buf w"
  "da_ssl_buffer_force_unfinished (write_args fd n w) = False"
  by (simp_all add: write_args_def package_defaults_def no_data_args_def)

definition write_operation :: "u64 \<Rightarrow> u32 \<Rightarrow> active_connection_t \<Rightarrow> u64 \<Rightarrow> write_call \<Rightarrow> operation" where
  "write_operation pid fd con n w =
     (let conid = gen_tgid_fd (tgid_of pid) fd; args = write_args fd n w; now = ke_now (wr_exit w) in
      (SocketDetailEvent_layout (socket_detail now conid SOCKET_OPTS_TYPE_WRITE con args), ke_mem (wr_exit w),
       upload_args now conid (length (wr_bytes w)) SOCK_DATA_DIRECTION_EGRESS False con args, [wr_bytes w]))"

lemma process_write_plain:
  assumes "plain_connection pid fd con st" "write_ok pid w"
    and a: "a = no_data_args\<lparr>da_fd := fd, da_start_nacs := ke_now (wr_enter w), da_data_id := n, da_buf := wr_buf w, da_is_sock_event := True\<rparr>"
    and p: "st' = process_write_data (wr_exit w) a (int (length (wr_bytes w))) SOCK_DATA_DIRECTION_EGRESS False SOCKET_OPTS_TYPE_WRITE False st"
  shows "ks_upload st' = upload_all [write_operation pid fd con n w] (ks_upload st)" "plain_connection pid fd con st'"
    "ks_socket_data_id_generate_map st' = ks_socket_data_id_generate_map st"
proof -
  let ?env = "wr_exit w"
  define conid where "conid = gen_tgid_fd (tgid_of pid) fd"
  have t: "env_tgid ?env = tgid_of pid" "ke_pid_tgid ?env = pid" using assms(2) by (simp_all add: write_ok_def env_tgid_of)
  have f: "da_fd a = fd" by (simp add: a)
  have n: "\<not> (False \<and> da_iovlen a = 0 \<or> int (length (wr_bytes w)) \<le> 0)" using assms(2) by (simp add: write_ok_def)
  have args: "package_defaults (int (length (wr_bytes w))) a = write_args fd n w" by (simp add: write_args_def a)
  have c: "ks_active_connection_map st conid = Some con" "ks_openssl_sock_data_args st pid = None" "kc_protocol con \<noteq> 0"
    "kc_role con \<noteq> CONNECTION_ROLE_TYPE_UNKNOWN" "\<not> kc_ssl con" "family_should_trace (kc_socket_family con)"
    using assms(1) by (simp_all add: plain_connection_def conid_def)
  have g: "get_or_create_active_conn ?env (tgid_of pid) fd func role st = (Some con, st)" for func role
    using c(1) by (simp add: get_or_create_active_conn_def conid_def)
  have m: "mark_ssl ?env fd False con st = (con, st)" using c(2) t by (simp add: mark_ssl_def)
  have i: "infer_connection ?env b k d False con st = (con, st)" for b k d using c by (simp add: infer_connection_def)
  define detail where "detail = socket_detail (ke_now ?env) conid SOCKET_OPTS_TYPE_WRITE con (write_args fd n w)"
  define st1 where "st1 = submit (SocketDetailEvent_layout detail) (DetailOut detail)
    (st\<lparr>ks_active_connection_map := (ks_active_connection_map st)(conid \<mapsto> con)\<rparr>)"
  have eq: "st' = st1\<lparr>ks_upload := upload_socket_data (ke_mem ?env)
       (upload_args (ke_now ?env) conid (length (wr_bytes w)) SOCK_DATA_DIRECTION_EGRESS False con (write_args fd n w)) (ks_upload st1)\<rparr>"
    unfolding p process_write_data_def if_not_P [OF n] t f args g using c(5, 6)
    by (simp add: m i Let_def st1_def detail_def flip: conid_def)
  show "ks_upload st' = upload_all [write_operation pid fd con n w] (ks_upload st)"
    unfolding eq by (simp add: upload_all_def write_operation_def Let_def st1_def detail_def submit_def flip: conid_def)
  show "plain_connection pid fd con st'"
    using assms(1) unfolding eq plain_connection_def by (simp add: st1_def submit_def tgid_should_trace_def conid_def)
  show "ks_socket_data_id_generate_map st' = ks_socket_data_id_generate_map st" unfolding eq by (simp add: st1_def submit_def)
qed

lemma write_call_run:
  assumes "plain_connection pid fd con st" "write_ok pid w" and conid: "conid = gen_tgid_fd (tgid_of pid) fd"
    and run: "st' = kernel_run (write_events fd w) st"
  shows "ks_upload st' = upload_all [write_operation pid fd con (last_data_id conid st + 1) w] (ks_upload st)"
    "plain_connection pid fd con st'" "last_data_id conid st' = last_data_id conid st + 1"
proof -
  have t: "env_tgid (wr_enter w) = tgid_of pid" "ke_pid_tgid (wr_enter w) = pid" "ke_pid_tgid (wr_socket w) = pid" "ke_pid_tgid (wr_exit w) = pid"
    "ke_room (wr_enter w) SocketDataArgs"
    using assms(2) by (simp_all add: write_ok_def env_tgid_of)
  define n where "n = last_data_id conid st + 1"
  define a where "a = no_data_args\<lparr>da_fd := fd, da_start_nacs := ke_now (wr_enter w), da_data_id := n, da_buf := wr_buf w, da_is_sock_event := True\<rparr>"
  define st2 where "st2 = st\<lparr>ks_socket_data_id_generate_map := (ks_socket_data_id_generate_map st)(conid \<mapsto> n),
    ks_socket_data_args := (ks_socket_data_args st)(pid \<mapsto> a)\<rparr>"
  have trace: "tgid_should_trace (tgid_of pid) st" using assms(1) by (simp add: plain_connection_def)
  have st2: "kernel_run (butlast (write_events fd w)) st = st2"
    using trace t by (simp add: write_events_def enter_write_def enter_data_def generate_socket_data_id_def security_socket_sendmsg_def
        set_args_def modify_elem_def update_elem_def Let_def st2_def n_def last_data_id_def a_def flip: conid)
  have p2: "plain_connection pid fd con st2" using assms(1) by (simp add: plain_connection_def st2_def tgid_should_trace_def)
  define st3 where "st3 = process_write_data (wr_exit w) a (int (length (wr_bytes w))) SOCK_DATA_DIRECTION_EGRESS False SOCKET_OPTS_TYPE_WRITE False st2"
  note w3 = process_write_plain [OF p2 assms(2) a_def st3_def]
  have "st' = kernel_step (Transfer (ExitWrite (int (length (wr_bytes w))))) (wr_exit w) st2"
    unfolding run st2 [symmetric] by (simp add: write_events_def)
  also have "\<dots> = st3\<lparr>ks_socket_data_args := delete_elem pid (ks_socket_data_args st3)\<rparr>"
    using t by (simp add: exit_write_def exit_data_def Let_def st3_def st2_def a_def)
  finally have eq: "st' = st3\<lparr>ks_socket_data_args := delete_elem pid (ks_socket_data_args st3)\<rparr>" .
  show "ks_upload st' = upload_all [write_operation pid fd con (last_data_id conid st + 1) w] (ks_upload st)"
    using w3(1) by (simp add: eq st2_def n_def)
  show "plain_connection pid fd con st'" using w3(2) by (simp add: eq plain_connection_def tgid_should_trace_def)
  show "last_data_id conid st' = last_data_id conid st + 1" using w3(3) by (simp add: eq last_data_id_def st2_def n_def)
qed

text \<open>Several calls, one after the other.\<close>

fun write_operations :: "u64 \<Rightarrow> u32 \<Rightarrow> active_connection_t \<Rightarrow> u64 \<Rightarrow> write_call list \<Rightarrow> operation list" where
  "write_operations pid fd con n [] = []"
| "write_operations pid fd con n (w # ws) = write_operation pid fd con (n + 1) w # write_operations pid fd con (n + 1) ws"

lemma upload_all_Cons: "upload_all (op # ops) s = upload_all ops (upload_all [op] s)"
  by (simp add: upload_all_def)

lemma write_calls_run:
  assumes "plain_connection pid fd con st" "\<forall>w \<in> set ws. write_ok pid w"
  shows "ks_upload (kernel_run (concat (map (write_events fd) ws)) st) =
    upload_all (write_operations pid fd con (last_data_id (gen_tgid_fd (tgid_of pid) fd) st) ws) (ks_upload st)"
  using assms
proof (induction ws arbitrary: st)
  case (Cons w ws)
  define st1 where "st1 = kernel_run (write_events fd w) st"
  note w1 = write_call_run [OF Cons.prems(1) _ refl st1_def]
  have "kernel_run (concat (map (write_events fd) (w # ws))) st = kernel_run (concat (map (write_events fd) ws)) st1"
    by (simp add: st1_def kernel_run_def)
  moreover have "ks_upload (kernel_run (concat (map (write_events fd) ws)) st1) =
      upload_all (write_operations pid fd con (last_data_id (gen_tgid_fd (tgid_of pid) fd) st + 1) ws) (ks_upload st1)"
    using Cons.IH [of st1] Cons.prems(2) w1(2, 3) by simp
  moreover have "ks_upload st1 = upload_all [write_operation pid fd con (last_data_id (gen_tgid_fd (tgid_of pid) fd) st + 1) w] (ks_upload st)"
    using w1(1) Cons.prems(2) by simp
  ultimately show ?case by (simp only: write_operations.simps upload_all_Cons [of _ "write_operations _ _ _ _ ws"])
qed (simp add: upload_all_def)

lemma write_operation_ok:
  assumes "plain_connection pid fd con st" "write_ok pid w"
  obtains other mem args where "write_operation pid fd con n w = (other, mem, args, [wr_bytes w])" "ua_socket_data_id args = n"
    "uploadable mem args [wr_bytes w]"
proof -
  let ?args = "upload_args (ke_now (wr_exit w)) (gen_tgid_fd (tgid_of pid) fd) (length (wr_bytes w)) SOCK_DATA_DIRECTION_EGRESS False con (write_args fd n w)"
  have "uploadable (ke_mem (wr_exit w)) ?args [wr_bytes w]"
    using assms by (simp add: uploadable_def upload_args_def plain_connection_def write_ok_def)
  then show ?thesis by (intro that [of _ "ke_mem (wr_exit w)" ?args]) (simp_all add: write_operation_def Let_def upload_args_def)
qed

lemma word_next: "unat (n :: 'a::len word) + 1 < 2 ^ LENGTH('a) \<Longrightarrow> unat (n + 1) = unat n + 1 \<and> n < n + 1"
  by (simp add: unat_word_ariths word_less_nat_alt)

lemma write_operations_ok:
  assumes "plain_connection pid fd con st" "\<forall>w \<in> set ws. write_ok pid w" "unat n + length ws < 2 ^ 64"
  shows "operations_ok (write_operations pid fd con n ws) \<and> (\<forall>op \<in> set (write_operations pid fd con n ws). n < operation_id op) \<and>
    transferred (write_operations pid fd con n ws) = concat (map wr_bytes ws)"
  using assms(2, 3)
proof (induction ws arbitrary: n)
  case (Cons w ws)
  have n: "unat (n + 1) = unat n + 1" "n < n + 1" using word_next [of n] Cons.prems(2) by simp_all
  obtain other mem args where op: "write_operation pid fd con (n + 1) w = (other, mem, args, [wr_bytes w])" "ua_socket_data_id args = n + 1"
    "uploadable mem args [wr_bytes w]" using write_operation_ok [OF assms(1)] Cons.prems(1) by (metis list.set_intros(1))
  have IH: "operations_ok (write_operations pid fd con (n + 1) ws)" "\<forall>op \<in> set (write_operations pid fd con (n + 1) ws). n + 1 < operation_id op"
    "transferred (write_operations pid fd con (n + 1) ws) = concat (map wr_bytes ws)"
    using Cons.IH [of "n + 1"] Cons.prems n(1) by simp_all
  have "n < operation_id op" if "op \<in> set (write_operations pid fd con (n + 1) ws)" for op using IH(2) n(2) that less_trans by blast
  then show ?case using IH n(2) op by (simp add: operations_ok_def transferred_def)
qed (simp add: operations_ok_def transferred_def)


definition example_http :: active_connection_t where
  "example_http = \<lparr>kc_random_id = 3, kc_pid = 7, kc_sockfd = 5, kc_role = 1, kc_socket_family = 2, kc_protocol = 1, kc_ssl = False,
     kc_skip_data_upload = False\<rparr>"

definition example_connected :: tls_state where
  "example_connected = example_loaded\<lparr>ks_process_monitor_control := [7 \<mapsto> 1], ks_active_connection_map := [gen_tgid_fd 7 5 \<mapsto> example_http]\<rparr>"

definition example_write :: write_call where
  "example_write = \<lparr>wr_buf = 1000, wr_bytes = [71, 69, 84], wr_enter = example_env 1, wr_socket = example_env 2, wr_exit = example_env 3\<rparr>"

lemma example_plain: "plain_connection 0x700000007 5 example_http example_connected"
  by (simp add: plain_connection_def example_connected_def example_loaded_def example_http_def tgid_of_def tgid_should_trace_def
      CONNECTION_ROLE_TYPE_UNKNOWN_def family_should_trace_def AF_INET_def)

lemma example_write_ok: "write_ok 0x700000007 example_write"
  using example_memory_read [of "Suc (Suc (Suc 0))" "[71, 69, 84, 32, 47]"] by (simp add: write_ok_def example_write_def example_env_def)


section \<open>Closing\<close>

text \<open>
  A connection that is closed is forgotten. When the call returns, the connection is not active any more,
  its operations have no numbers and no last operation, its closing was submitted with its identity, the
  entry of the call is gone, and no other connection has changed.
\<close>

theorem closed_connection_is_forgotten:
  assumes "ks_closing_args st (ke_pid_tgid env) = Some \<lparr>cz_fd = fd, cz_start_nacs = start\<rparr>" and "0 \<le> sint fd"
    and "conid = gen_tgid_fd (env_tgid env) fd" and "ks_active_connection_map st conid = Some con" and "st' = exit_close ret env st"
  shows "ks_active_connection_map st' conid = None \<and> ks_socket_data_id_generate_map st' conid = None \<and>
    us_last_ids (ks_upload st') conid = None \<and> ks_closing_args st' (ke_pid_tgid env) = None \<and>
    (\<exists>e. ks_out st' = ks_out st @ [CloseOut e] \<and> cl_ConnectionID e = conid \<and> cl_RandomID e = kc_random_id con \<and>
       cl_StartTime e = start \<and> cl_EndTime e = ke_now env) \<and>
    (\<forall>other. other \<noteq> conid \<longrightarrow> ks_active_connection_map st' other = ks_active_connection_map st other \<and>
       ks_socket_data_id_generate_map st' other = ks_socket_data_id_generate_map st other)"
  using assms by (simp add: exit_close_def process_close_sock_def submit_close_connection_def notify_close_connection_def submit_def
      delete_elem_def Let_def)

text \<open>
  A close that succeeds is reported as failed. The call returns zero when it succeeds, and the program
  takes only a positive result for a success, so that the closing of every connection says that it failed.
\<close>

theorem successful_close_is_reported_as_failed:
  assumes "ks_closing_args st (ke_pid_tgid env) = Some \<lparr>cz_fd = fd, cz_start_nacs = start\<rparr>" and "0 \<le> sint fd"
    and "ks_active_connection_map st (gen_tgid_fd (env_tgid env) fd) \<noteq> None"
  shows "\<exists>e. ks_out (exit_close 0 env st) = ks_out st @ [CloseOut e] \<and> cl_Success e = 0"
  using assms by (auto simp: exit_close_def process_close_sock_def submit_close_connection_def notify_close_connection_def submit_def Let_def)

definition example_closing :: tls_state where
  "example_closing = enter_close 5 (example_env 8) example_connected"

lemma example_closing_args: "ks_closing_args example_closing 0x700000007 = Some \<lparr>cz_fd = 5, cz_start_nacs = 8\<rparr>"
  "ks_active_connection_map example_closing (gen_tgid_fd 7 5) = Some example_http" "0 \<le> sint (5 :: u32)"
  by (simp_all add: example_closing_def enter_close_def example_connected_def tgid_should_trace_def update_elem_def)

theorem closed_connection_is_forgotten_witness:
  "ks_active_connection_map (exit_close 0 (example_env 9) example_closing) (gen_tgid_fd 7 5) = None"
  using closed_connection_is_forgotten [of example_closing "example_env 9" 5 8 "gen_tgid_fd 7 5" example_http "exit_close 0 (example_env 9) example_closing" 0]
    example_closing_args by simp

theorem successful_close_is_reported_as_failed_witness:
  "\<exists>e. ks_out (exit_close 0 (example_env 9) example_closing) = ks_out example_closing @ [CloseOut e] \<and> cl_Success e = 0"
  using successful_close_is_reported_as_failed [of example_closing "example_env 9" 5 8] example_closing_args by simp

section \<open>Accepting\<close>

text \<open>
  A call of \<^verbatim>\<open>accept\<close> that fails makes a connection. The result is taken for a descriptor without looking at
  its sign: a negative result is announced as an established connection with a descriptor that the process
  does not have, and such a connection stays active.
\<close>

theorem failed_accept_is_announced:
  assumes "ks_accepting_args st (ke_pid_tgid env) = Some args" and "ret < 0" and "- 2147483648 \<le> ret"
    and "\<not> tgid_is_ztunnel (env_tgid env) st" and "ke_room env ActiveConnections" and "st' = exit_accept ret env st"
  shows "\<exists>c con. ks_out st' = ks_out st @ [ConnectOut c] \<and> co_ConnectSuccess c = 1 \<and> sint (co_SocketFD c) = ret \<and>
    ks_active_connection_map st' (gen_tgid_fd (env_tgid env) (co_SocketFD c)) = Some con \<and> sint (kc_sockfd con) < 0"
proof -
  have r: "sint (word_of_int ret :: u32) = ret" using assms(2, 3) by (simp add: sint_sbintrunc' signed_take_bit_int_eq_self)
  then show ?thesis using assms(1, 2, 4-6)
    by (simp add: exit_accept_def process_accept_def submit_new_connection_def update_elem_def delete_elem_def Let_def)
qed

theorem failed_accept_is_announced_witness:
  "\<exists>c. ks_out (exit_accept (- 11) (example_env 3) (enter_accept 0 (example_env 2) example_connected)) = [ConnectOut c] \<and> sint (co_SocketFD c) = - 11"
  using failed_accept_is_announced [of "enter_accept 0 (example_env 2) example_connected" "example_env 3"
      "\<lparr>ap_addr = 0, ap_socket = 0, ap_start_nacs = 2\<rparr>" "- 11"]
  by (auto simp: enter_accept_def example_connected_def tgid_should_trace_def update_elem_def tgid_is_ztunnel_def example_loaded_def)

section \<open>Several messages at once\<close>

lemma bit_le_word:
  "bit (le_word bs :: 'a::len word) m \<longleftrightarrow> m < LENGTH('a) \<and> m div 8 < length bs \<and> bit (bs ! (m div 8)) (m mod 8)"
proof (induction bs arbitrary: m)
  case (Cons b bs)
  show ?case
  proof (cases "m < 8")
    case True
    then show ?thesis by (simp add: bit_or_iff bit_ucast_iff bit_push_bit_iff)
  next
    case False
    then have "\<not> bit b m" using bit_imp_le_length [of b m] by fastforce
    moreover have "m div 8 = Suc ((m - 8) div 8)" "m mod 8 = (m - 8) mod 8" using False by (simp_all add: div_if mod_if)
    ultimately show ?thesis using False Cons.IH [of "m - 8"] by (auto simp: bit_or_iff bit_ucast_iff bit_push_bit_iff)
  qed
qed simp

lemma le_word_low: "le_word (take 4 bs) = (ucast (le_word bs :: u64) :: u32)"
  by (rule bit_word_eqI) (auto simp: bit_ucast_iff bit_le_word)

lemma exit_address_none:
  assumes "ks_conecting_args st (ke_pid_tgid env) = None"
  shows "exit_address n func role env st = st"
proof -
  have "delete_elem (ke_pid_tgid env) (ks_conecting_args st) = ks_conecting_args st" using assms by (auto simp: delete_elem_def)
  then show ?thesis using assms by (simp add: exit_address_def)
qed

text \<open>
  The length of \<^verbatim>\<open>sendmmsg\<close> is the number of segments. The program keeps the address of the member that counts
  the segments of the first message instead of the address of its length, and reads it back as the number of
  transferred bytes when the call returns, whatever the call transferred.
\<close>

theorem sendmmsg_length_is_the_number_of_segments:
  assumes "tgid_should_trace (env_tgid env) st" and "mmsghdr \<noteq> 0" and "vlen \<noteq> 0" and "msg_name (ke_mem env) mmsghdr = 0"
    and "ke_room env SocketDataArgs" and "ke_pid_tgid env' = ke_pid_tgid env" and "ke_mem env' = ke_mem env"
    and "msg_iovlen (ke_mem env) mmsghdr = k" and "0 < k" and "k < 2 ^ 32" and "ks_conecting_args st (ke_pid_tgid env) = None"
    and "st1 = enter_sendmmsg fd mmsghdr vlen env st"
  shows "\<exists>args. ks_socket_data_args st1 (ke_pid_tgid env) = Some args \<and>
    exit_sendmmsg ret env' st1 = (let st2 = process_write_data env' args (int k) SOCK_DATA_DIRECTION_EGRESS True SOCKET_OPTS_TYPE_SENDMMSG False st1
      in st2\<lparr>ks_socket_data_args := delete_elem (ke_pid_tgid env) (ks_socket_data_args st2)\<rparr>)"
proof -
  obtain bs where bs: "probe_read (ke_mem env) (mmsghdr + 24) 8 = Some bs" "k = unat (le_word bs :: u64)"
    using assms(8, 9) by (auto simp: msg_iovlen_def read_u64_def split: option.splits)
  have "probe_read (ke_mem env) (mmsghdr + 24) 4 = Some (take 4 bs)" "length bs = 8" using bs(1) by (simp_all add: probe_read_Some)
  moreover have low: "uint (ucast (le_word bs :: u64) :: u32) = int k"
  proof -
    have k: "int k = uint (le_word bs :: u64)" by (simp add: bs(2))
    moreover have "int k < 2 ^ 32" using assms(10) by simp
    ultimately have "uint (le_word bs :: u64) < 2 ^ 32" by simp
    then show ?thesis unfolding k by (simp add: unsigned_ucast_eq take_bit_int_eq_self)
  qed
  ultimately have len: "read_msg_len env' a = int k" if "da_msg_len a = mmsghdr + 24" for a
    using that assms(7) low by (simp add: read_msg_len_def le_word_low)
  have e: "st1 = enter_data fd (\<lambda>a. a\<lparr>da_iovec := msg_iov (ke_mem env) mmsghdr, da_iovlen := msg_iovlen (ke_mem env) mmsghdr,
      da_msg_len := mmsghdr + 24\<rparr>) env st"
    using assms(1-4, 12) by (simp add: enter_sendmmsg_def enter_address_def)
  obtain args where args: "ks_socket_data_args st1 (ke_pid_tgid env) = Some args" "da_msg_len args = mmsghdr + 24"
    using assms(5) by (simp add: e enter_data_def generate_socket_data_id_def update_elem_def Let_def)
  have "ks_conecting_args st1 (ke_pid_tgid env') = None" using assms(6, 11) by (simp add: e enter_data_def generate_socket_data_id_def Let_def)
  from exit_address_none [OF this] show ?thesis using args len [OF args(2)] assms(6) by (simp add: exit_sendmmsg_def exit_data_def)
qed

definition example_message :: "u8 list" where
  "example_message = replicate 16 0 @ [0xd0, 7] @ replicate 6 0 @ [2] @ replicate 7 0"

definition example_message_env :: "u64 \<Rightarrow> kernel_env" where
  "example_message_env now = example_env now\<lparr>ke_mem := example_memory example_message\<rparr>"

lemma example_memory_at: "k + n \<le> length bs \<Longrightarrow> probe_read (example_memory bs) (1000 + int k) n = Some (take n (drop k bs))"
  by (auto simp: probe_read_Some example_memory_def nat_add_distrib)

lemma example_message_read: "msg_name (example_memory example_message) 1000 = 0" "msg_iovlen (example_memory example_message) 1000 = 2"
proof -
  have t: "take 8 (drop 0 example_message) = replicate 8 0" "take 8 (drop 24 example_message) = 2 # replicate 7 0" "length example_message = 32"
    by (simp_all add: example_message_def eval_nat_numeral)
  have z: "le_word (replicate n 0) = (0 :: 'a::len word)" for n by (induction n) simp_all
  show "msg_name (example_memory example_message) 1000 = 0" "msg_iovlen (example_memory example_message) 1000 = 2"
    using example_memory_at [of 0 8 example_message, unfolded t] example_memory_at [of 24 8 example_message, unfolded t]
    by (simp_all add: msg_name_def msg_iovlen_def read_u64_def z)
qed

theorem sendmmsg_length_is_the_number_of_segments_witness:
  "\<exists>args. exit_sendmmsg 900 (example_message_env 2) (enter_sendmmsg 5 1000 1 (example_message_env 1) example_connected) =
     (let st2 = process_write_data (example_message_env 2) args 2 SOCK_DATA_DIRECTION_EGRESS True SOCKET_OPTS_TYPE_SENDMMSG False
            (enter_sendmmsg 5 1000 1 (example_message_env 1) example_connected)
      in st2\<lparr>ks_socket_data_args := delete_elem 0x700000007 (ks_socket_data_args st2)\<rparr>)"
  using sendmmsg_length_is_the_number_of_segments [of "example_message_env 1" example_connected 1000 1 "example_message_env 2" 2
      "enter_sendmmsg 5 1000 1 (example_message_env 1) example_connected" 5 900] example_message_read
  by (auto simp: example_message_env_def env_tgid_def tgid_should_trace_def example_connected_def example_loaded_def)

section \<open>Batches of packets\<close>

abbreviation exit_time :: "'a packet_state_scheme \<Rightarrow> int \<Rightarrow> u64 option" where
  "exit_time st skb \<equiv> map_option rd_exit_ip_rcv_time (ks_sk_buff_receive_detail_map st skb)"

lemma batch_enter:
  assumes "\<forall>skb \<in> set skbs. ks_sk_buff_receive_detail_map (snd ls) skb \<noteq> None" "\<And>d. rd_exit_ip_rcv_time (f d) = rd_exit_ip_rcv_time d"
  shows "fst (fold (ip_list_foreach_skb f) skbs ls) = (if skbs = [] then fst ls else append_bpf_list_head (last skbs)) \<and>
    (\<forall>skb. exit_time (snd (fold (ip_list_foreach_skb f) skbs ls)) skb = exit_time (snd ls) skb)"
  using assms(1)
proof (induction skbs arbitrary: ls)
  case (Cons x skbs)
  have x: "ip_list_foreach_skb f x ls = (append_bpf_list_head x, set_rcv x f (snd ls))"
    using Cons.prems by (cases ls) (simp add: ip_list_foreach_skb_def)
  have e: "exit_time (set_rcv x f (snd ls)) skb = exit_time (snd ls) skb" for skb
    using assms(2) by (simp add: set_rcv_def modify_elem_def option.map_comp comp_def)
  have "\<forall>skb \<in> set skbs. ks_sk_buff_receive_detail_map (set_rcv x f (snd ls)) skb \<noteq> None"
    using Cons.prems by (simp add: set_rcv_def modify_elem_def)
  then show ?case using Cons.IH [of "ip_list_foreach_skb f x ls"] e by (simp add: x)
qed simp

lemma batch_exit:
  "ks_sk_buff_receive_detail_map ((bpf_list_foreach_skb (\<lambda>d. d\<lparr>rd_exit_ip_rcv_time := t\<rparr>) (append_bpf_list_head skb) ^^ Suc n) st) =
     modify_elem skb (\<lambda>d. d\<lparr>rd_exit_ip_rcv_time := t\<rparr>) (ks_sk_buff_receive_detail_map st)"
proof -
  let ?turn = "bpf_list_foreach_skb (\<lambda>d. d\<lparr>rd_exit_ip_rcv_time := t\<rparr>) (append_bpf_list_head skb)"
  have turn: "ks_sk_buff_receive_detail_map (?turn sp) = modify_elem skb (\<lambda>d. d\<lparr>rd_exit_ip_rcv_time := t\<rparr>) (ks_sk_buff_receive_detail_map sp)"
    for sp :: "'a packet_state_scheme" by (simp add: bpf_list_foreach_skb_def append_bpf_list_head_def set_rcv_def)
  show ?thesis
  proof (induction n)
    case (Suc n)
    have "ks_sk_buff_receive_detail_map ((?turn ^^ Suc (Suc n)) st) =
      modify_elem skb (\<lambda>d. d\<lparr>rd_exit_ip_rcv_time := t\<rparr>) (ks_sk_buff_receive_detail_map ((?turn ^^ Suc n) st))"
      unfolding funpow.simps(2) [of "Suc n"] comp_apply by (rule turn)
    then show ?case unfolding Suc.IH by (simp add: modify_elem_def option.map_comp comp_def)
  qed (simp add: turn)
qed

text \<open>
  Of a batch of received packets only the last one gets the time at which the protocol was left. The list that
  the programs build from the batch keeps one packet, and the loop over it always starts anew at its head: all
  other packets of the batch keep the time they had, so that no duration is reported for them.
\<close>

theorem batch_has_one_exit_time:
  assumes "skbs \<noteq> []" and "length skbs \<le> 10" and "\<forall>skb \<in> set skbs. ks_sk_buff_receive_detail_map st skb \<noteq> None"
    and "ke_room env ListArgs" and "ke_pid_tgid env' = ke_pid_tgid env" and "st' = ip_list_rcv_ret env' (ip_list_rcv skbs env st)"
  shows "exit_time st' (last skbs) = Some (ke_now env') \<and> (\<forall>skb. skb \<noteq> last skbs \<longrightarrow> exit_time st' skb = exit_time st skb)"
proof -
  define r where "r = fold (ip_list_foreach_skb (\<lambda>d. d\<lparr>rd_enter_ip_rcv_time := ke_now env\<rparr>)) skbs (init_bpf_list_head, st)"
  have r: "fst r = append_bpf_list_head (last skbs)" "\<And>skb. exit_time (snd r) skb = exit_time st skb"
    using batch_enter [of skbs "(init_bpf_list_head, st)" "\<lambda>d. d\<lparr>rd_enter_ip_rcv_time := ke_now env\<rparr>"] assms(1, 3) by (simp_all add: r_def)
  define st1 where "st1 = (snd r)\<lparr>ks_ip_list_rcv_args_map := update_elem True (ke_pid_tgid env) (append_bpf_list_head (last skbs)) (ks_ip_list_rcv_args_map (snd r))\<rparr>"
  have "ip_list_rcv skbs env st = st1"
    using assms(2, 4) r(1) by (simp add: ip_list_rcv_def st1_def case_prod_beta flip: r_def)
  moreover have "ks_ip_list_rcv_args_map st1 (ke_pid_tgid env') = Some (append_bpf_list_head (last skbs))"
    using assms(5) by (simp add: st1_def update_elem_def)
  ultimately have "ks_sk_buff_receive_detail_map st' =
      modify_elem (last skbs) (\<lambda>d. d\<lparr>rd_exit_ip_rcv_time := ke_now env'\<rparr>) (ks_sk_buff_receive_detail_map (snd r))"
    using batch_exit [where t = "ke_now env'" and skb = "last skbs" and n = 9 and st = st1] unfolding assms(6) by (simp add: ip_list_rcv_ret_def Let_def st1_def)
  moreover have "ks_sk_buff_receive_detail_map (snd r) (last skbs) \<noteq> None"
    using r(2) [of "last skbs"] bspec [OF assms(3) last_in_set [OF assms(1)]] by (metis option.map_disc_iff)
  ultimately show ?thesis using r(2) by (auto simp: modify_elem_def)
qed

theorem batch_has_one_exit_time_witness:
  "\<exists>st st'. st = netif_receive_skb 65 1 (example_env 2) (netif_receive_skb 64 1 (example_env 1) example_loaded) \<and>
     st' = ip_list_rcv_ret (example_env 4) (ip_list_rcv [64, 65] (example_env 3) st) \<and> exit_time st' 65 = Some 4 \<and> exit_time st' 64 = Some 0"
proof -
  define st where "st = netif_receive_skb 65 1 (example_env 2) (netif_receive_skb 64 1 (example_env 1) example_loaded)"
  have "exit_time st 64 = Some 0" "ks_sk_buff_receive_detail_map st 65 \<noteq> None" by (simp_all add: st_def netif_receive_skb_def update_elem_def)
  then have "exit_time (ip_list_rcv_ret (example_env 4) (ip_list_rcv [64, 65] (example_env 3) st)) 65 = Some 4 \<and>
      exit_time (ip_list_rcv_ret (example_env 4) (ip_list_rcv [64, 65] (example_env 3) st)) 64 = exit_time st 64"
    using batch_has_one_exit_time [of "[64, 65]" st "example_env 3" "example_env 4", OF _ _ _ _ _ refl] by fastforce
  then show ?thesis using \<open>exit_time st 64 = Some 0\<close> st_def by auto
qed

end
