(* ===== verification/Socket_Address.thy ===== *)
theory Socket_Address
  imports Access_Log Ztunnel_Decode "HOL-Library.AList"
begin

text \<open>
  The addresses of a socket: \<^verbatim>\<open>pkg/tools/ip\<close> with the addresses that the kernel programs report and the connection
  tracking of the host, and the addresses of the host itself in \<^verbatim>\<open>pkg/tools/ip.go\<close>. A \<^verbatim>\<open>net.IP\<close> is its bytes,
  nil is the empty list; printing and parsing are those of the standard library. The netlink query of the tracking table and
  the table of the sockets of a process are arguments.
\<close>

section \<open>Internet addresses\<close>

definition v4InV6Prefix :: "u8 list" where
  "v4InV6Prefix = replicate 10 0 @ [255, 255]"

definition ip_To4 :: "u8 list \<Rightarrow> u8 list option" where
  "ip_To4 bs =
     (if length bs = 4 then Some bs
      else if length bs = 16 \<and> take 12 bs = v4InV6Prefix then Some (drop 12 bs) else None)"

definition ip_To16 :: "u8 list \<Rightarrow> u8 list option" where
  "ip_To16 bs = (if length bs = 4 then Some (v4InV6Prefix @ bs) else if length bs = 16 then Some bs else None)"

definition ip_Equal :: "u8 list \<Rightarrow> u8 list \<Rightarrow> bool" where
  "ip_Equal a b \<longleftrightarrow>
     (if length a = length b then a = b
      else if length a = 4 \<and> length b = 16 then take 12 b = v4InV6Prefix \<and> a = drop 12 b
      else if length a = 16 \<and> length b = 4 then take 12 a = v4InV6Prefix \<and> drop 12 a = b
      else False)"

definition hex_digit :: "nat \<Rightarrow> char" where
  "hex_digit n = (if n < 10 then char_of (48 + n) else char_of (87 + n))"

definition hex_group :: "nat \<Rightarrow> string" where
  "hex_group n = map hex_digit (dropWhile (\<lambda>d. d = 0) [n div 4096 mod 16, n div 256 mod 16, n div 16 mod 16] @ [n mod 16])"

fun byte_pairs :: "u8 list \<Rightarrow> nat list" where
  "byte_pairs (a # b # bs) = (unat a * 256 + unat b) # byte_pairs bs"
| "byte_pairs _ = []"

text \<open>The first of the longest runs of zero groups, which is written as two colons when it has more than one group.\<close>

definition zero_run :: "nat list \<Rightarrow> nat \<times> nat" where
  "zero_run gs = fold (\<lambda>i (pos, n). let m = length (takeWhile (\<lambda>g. g = 0) (drop i gs)) in if m > n then (i, m) else (pos, n))
     [0..<length gs] (0, 0)"

definition v6_string :: "nat list \<Rightarrow> string" where
  "v6_string gs =
     (let (pos, n) = zero_run gs in
      if n \<le> 1 then str_join '':'' (map hex_group gs)
      else str_join '':'' (map hex_group (take pos gs)) @ ''::'' @ str_join '':'' (map hex_group (drop (pos + n) gs)))"

definition ip_String :: "u8 list \<Rightarrow> string" where
  "ip_String bs =
     (if bs = [] then ''<nil>''
      else case ip_To4 bs of
        Some b4 \<Rightarrow> dotted (map unat b4)
      | None \<Rightarrow> if length bs = 16 then v6_string (byte_pairs bs)
                else CHR ''?'' # concat (map (\<lambda>b. [hex_digit (unat b div 16), hex_digit (unat b mod 16)]) bs))"

text \<open>\<^verbatim>\<open>net.ParseIP\<close>: the sixteen bytes of an address, nil for every other string.\<close>

definition parse_octet :: "string \<Rightarrow> u8 option" where
  "parse_octet s =
     (if s \<noteq> [] \<and> length s \<le> 3 \<and> list_all (\<lambda>c. 48 \<le> (of_char c :: nat) \<and> (of_char c :: nat) \<le> 57) s \<and> (length s > 1 \<longrightarrow> hd s \<noteq> CHR ''0'') \<and> dec_value s < 256
      then Some (of_nat (dec_value s)) else None)"

definition parse_v4 :: "string \<Rightarrow> u8 list option" where
  "parse_v4 s = (let octets = map parse_octet (str_split (CHR ''.'') s) in
     if length octets = 4 \<and> None \<notin> set octets then Some (map the octets) else None)"

definition hex_value :: "char \<Rightarrow> nat option" where
  "hex_value c = (let n = of_char c in
     if 48 \<le> n \<and> n \<le> 57 then Some (n - 48) else if 97 \<le> n \<and> n \<le> 102 then Some (n - 87)
     else if 65 \<le> n \<and> n \<le> 70 then Some (n - 55) else None)"

definition parse_group :: "string \<Rightarrow> u8 list option" where
  "parse_group s =
     (if s \<noteq> [] \<and> length s \<le> 4 \<and> None \<notin> set (map hex_value s)
      then let n = foldl (\<lambda>a c. 16 * a + the (hex_value c)) 0 s in Some [of_nat (n div 256), of_nat (n mod 256)] else None)"

text \<open>A sequence of groups separated by colons; the last may be the dotted form of four bytes.\<close>

definition parse_groups :: "bool \<Rightarrow> string \<Rightarrow> u8 list option" where
  "parse_groups final s =
     (if s = [] then Some []
      else let parts = str_split (CHR '':'') s;
               bytes = map parse_group (butlast parts) @
                 [if final \<and> CHR ''.'' \<in> set (last parts) then parse_v4 (last parts) else parse_group (last parts)]
           in if None \<in> set bytes then None else Some (concat (map the bytes)))"

definition parse_v6 :: "string \<Rightarrow> u8 list option" where
  "parse_v6 s = (case str_cut ''::'' s of
      None \<Rightarrow> (case parse_groups True s of Some bs \<Rightarrow> if length bs = 16 then Some bs else None | None \<Rightarrow> None)
    | Some (l, r) \<Rightarrow> (case (parse_groups False l, parse_groups True r) of
         (Some a, Some b) \<Rightarrow> if length a + length b < 16 then Some (a @ replicate (16 - length a - length b) 0 @ b) else None
       | _ \<Rightarrow> None))"

definition ParseIP :: "string \<Rightarrow> u8 list" where
  "ParseIP s =
     (case find (\<lambda>c. c = CHR ''.'' \<or> c = CHR '':'') s of
        None \<Rightarrow> []
      | Some c \<Rightarrow> if c = CHR ''.'' then (case parse_v4 s of Some b4 \<Rightarrow> v4InV6Prefix @ b4 | None \<Rightarrow> [])
                  else (case parse_v6 s of Some bs \<Rightarrow> bs | None \<Rightarrow> []))"

section \<open>Addresses from the kernel programs\<close>

definition ParseIPV4 :: "u32 \<Rightarrow> string" where
  "ParseIPV4 bpfVal = (if bpfVal = 0 then [] else ip_String [ucast bpfVal, ucast (drop_bit 8 bpfVal), ucast (drop_bit 16 bpfVal), ucast (drop_bit 24 bpfVal)])"

definition ParseIPV6 :: "u8 list \<Rightarrow> string" where
  "ParseIPV6 bpfVal = ip_String bpfVal"

section \<open>The addresses of the host\<close>

record hostIPAddress =
  hi_ipV4 :: string
  hi_ipV6 :: string

record hostInfo =
  ho_name :: string
  ho_ipAddressesByName :: "(string \<times> hostIPAddress) list"
  ho_ipAddressesByIP :: "string list"
  ho_defaultIPAddr :: string

definition analyzeIPAddresses :: "u8 list list \<Rightarrow> string \<times> string" where
  "analyzeIPAddresses addrs = fold (\<lambda>ip (ipv4, ipv6).
      (case ip_To4 ip of Some b \<Rightarrow> ip_String b | None \<Rightarrow> ipv4, case ip_To16 ip of Some b \<Rightarrow> ip_String b | None \<Rightarrow> ipv6)) addrs ([], [])"

text \<open>The interfaces with the addresses of each, nothing when they cannot be read.\<close>

fun collect_interfaces ::
  "(string \<times> u8 list list option) list \<Rightarrow> (string \<times> hostIPAddress) list \<Rightarrow> string \<Rightarrow> string \<Rightarrow>
     ((string \<times> hostIPAddress) list \<times> string \<times> string) option" where
  "collect_interfaces [] m defV4 defV6 = Some (m, defV4, defV6)"
| "collect_interfaces ((name, None) # ifaces) m defV4 defV6 = None"
| "collect_interfaces ((name, Some addrs) # ifaces) m defV4 defV6 =
     (let (ipv4, ipv6) = analyzeIPAddresses addrs in
      if ipv4 \<noteq> [] \<or> ipv6 \<noteq> []
      then collect_interfaces ifaces (AList.update name \<lparr>hi_ipV4 = ipv4, hi_ipV6 = ipv6\<rparr> m)
             (if defV4 = [] then ipv4 else defV4) (if defV6 = [] then ipv6 else defV6)
      else collect_interfaces ifaces m defV4 defV6)"

definition localIPAddress0 :: "(string \<times> u8 list list option) list option \<Rightarrow> ((string \<times> hostIPAddress) list \<times> string) option" where
  "localIPAddress0 ifaces = (case ifaces of None \<Rightarrow> None
    | Some ifs \<Rightarrow> (case collect_interfaces ifs [] [] [] of None \<Rightarrow> None
        | Some (m, defV4, defV6) \<Rightarrow> if m = [] then None else Some (m, if defV4 \<noteq> [] then defV4 else defV6)))"

text \<open>The package initialiser panics when the addresses or the name of the host cannot be read.\<close>

definition queryHostInfo :: "(string \<times> u8 list list option) list option \<Rightarrow> string option \<Rightarrow> hostInfo option" where
  "queryHostInfo ifaces hostname = (case localIPAddress0 ifaces of None \<Rightarrow> None
    | Some (byName, def) \<Rightarrow> (case hostname of None \<Rightarrow> None
        | Some name \<Rightarrow> Some \<lparr>ho_name = name, ho_ipAddressesByName = byName,
            ho_ipAddressesByIP = concat (map (\<lambda>(_, a). [hi_ipV4 a, hi_ipV6 a]) byName), ho_defaultIPAddr = def\<rparr>))"

definition DefaultHostIPAddress :: "hostInfo \<Rightarrow> string" where
  "DefaultHostIPAddress h = ho_defaultIPAddr h"

definition HostIPAddressV4 :: "hostInfo \<Rightarrow> string \<Rightarrow> string" where
  "HostIPAddressV4 h name = (case map_of (ho_ipAddressesByName h) name of None \<Rightarrow> [] | Some a \<Rightarrow> hi_ipV4 a)"

definition HostIPAddressV6 :: "hostInfo \<Rightarrow> string \<Rightarrow> string" where
  "HostIPAddressV6 h name = (case map_of (ho_ipAddressesByName h) name of None \<Rightarrow> [] | Some a \<Rightarrow> hi_ipV6 a)"

definition IsLocalHostAddress :: "hostInfo \<Rightarrow> string \<Rightarrow> bool" where
  "IsLocalHostAddress h address \<longleftrightarrow> address \<in> set (ho_ipAddressesByIP h) \<or> address = ''0.0.0.0''"

section \<open>Connection tracking\<close>

record ProtoTuple =
  pt_Number :: "u8 option"
  pt_SrcPort :: "u16 option"
  pt_DstPort :: "u16 option"

record IPTuple =
  tu_Src :: "u8 list option"
  tu_Dst :: "u8 list option"
  tu_Proto :: "ProtoTuple option"

record Con =
  con_Origin :: "IPTuple option"
  con_Reply :: "IPTuple option"

record ConnTrack =
  ct_queryCount :: nat
  ct_resolvedCount :: nat
  ct_notFoundCount :: nat
  ct_ignoredCount :: nat

definition ShouldIgnoreConntrack :: "hostInfo \<Rightarrow> string \<Rightarrow> string \<Rightarrow> u16 \<Rightarrow> bool" where
  "ShouldIgnoreConntrack h originalDestIP conntrackIP conntrackPort \<longleftrightarrow>
     conntrackPort = 15001 \<and> IsLocalHostAddress h conntrackIP \<and> \<not> IsLocalHostAddress h originalDestIP"

definition parseSocketToTuple :: "SocketPair \<Rightarrow> IPTuple" where
  "parseSocketToTuple addr = \<lparr>tu_Src = Some (ParseIP (sp_SrcIP addr)), tu_Dst = Some (ParseIP (sp_DestIP addr)),
     tu_Proto = Some \<lparr>pt_Number = Some 6, pt_SrcPort = Some (sp_SrcPort addr), pt_DstPort = Some (sp_DestPort addr)\<rparr>\<rparr>"

definition ipTupleValid :: "IPTuple option \<Rightarrow> bool" where
  "ipTupleValid t = (case t of None \<Rightarrow> False
    | Some t \<Rightarrow> if tu_Src t = None \<or> tu_Dst t = None then False
        else (case tu_Proto t of None \<Rightarrow> False | Some p \<Rightarrow> pt_SrcPort p \<noteq> None \<and> pt_DstPort p \<noteq> None))"

definition tuple_src :: "IPTuple \<Rightarrow> u8 list" where "tuple_src t = the (tu_Src t)"
definition tuple_dst :: "IPTuple \<Rightarrow> u8 list" where "tuple_dst t = the (tu_Dst t)"
definition tuple_sport :: "IPTuple \<Rightarrow> u16" where "tuple_sport t = the (pt_SrcPort (the (tu_Proto t)))"
definition tuple_dport :: "IPTuple \<Rightarrow> u16" where "tuple_dport t = the (pt_DstPort (the (tu_Proto t)))"

definition ipTuplesEqual :: "IPTuple \<Rightarrow> IPTuple \<Rightarrow> bool" where
  "ipTuplesEqual a b \<longleftrightarrow> ip_Equal (tuple_src a) (tuple_src b) \<and> ip_Equal (tuple_dst a) (tuple_dst b) \<and>
     tuple_sport a = tuple_sport b \<and> tuple_dport a = tuple_dport b"

fun filterValidateReply :: "Con list \<Rightarrow> IPTuple \<Rightarrow> IPTuple option" where
  "filterValidateReply [] origin = None"
| "filterValidateReply (s # sessions) origin =
     (if \<not> ipTupleValid (con_Origin s) \<or> \<not> ipTupleValid (con_Reply s) then filterValidateReply sessions origin
      else if ipTuplesEqual origin (the (con_Origin s)) then con_Reply s
      else filterValidateReply sessions origin)"

text \<open>The families of a query and the protocols that are tried.\<close>

datatype conntrack_family = ConntrackIPv4 | ConntrackIPv6

definition numberStrategies :: "u8 list" where
  "numberStrategies = [6]"

definition with_number :: "u8 \<Rightarrow> IPTuple \<Rightarrow> IPTuple" where
  "with_number n t = t\<lparr>tu_Proto := map_option (\<lambda>p. p\<lparr>pt_Number := Some n\<rparr>) (tu_Proto t)\<rparr>"

fun try_strategies ::
  "hostInfo \<Rightarrow> (conntrack_family \<Rightarrow> IPTuple \<Rightarrow> Con list option) \<Rightarrow> conntrack_family \<Rightarrow> IPTuple \<Rightarrow> SocketPair \<Rightarrow> u8 list \<Rightarrow> ConnTrack \<Rightarrow>
     bool \<times> SocketPair \<times> ConnTrack" where
  "try_strategies h get family tuple addr [] c = (True, addr, c\<lparr>ct_notFoundCount := ct_notFoundCount c + 1\<rparr>)"
| "try_strategies h get family tuple addr (n # ns) c =
     (case get family (with_number n tuple) of
        None \<Rightarrow> (False, addr, c\<lparr>ct_notFoundCount := ct_notFoundCount c + 1\<rparr>)
      | Some session \<Rightarrow>
          (case filterValidateReply session (with_number n tuple) of
             None \<Rightarrow> try_strategies h get family (with_number n tuple) addr ns c
           | Some res \<Rightarrow>
               if \<not> ShouldIgnoreConntrack h (sp_DestIP addr) (ip_String (tuple_src res)) (tuple_sport res)
               then (True, addr\<lparr>sp_DestIP := ip_String (tuple_src res), sp_NeedConnTrack := False, sp_ConnTrackResolved := True\<rparr>,
                     c\<lparr>ct_resolvedCount := ct_resolvedCount c + 1\<rparr>)
               else (True, addr, c\<lparr>ct_ignoredCount := ct_ignoredCount c + 1\<rparr>)))"

definition UpdateRealPeerAddress ::
  "hostInfo \<Rightarrow> (conntrack_family \<Rightarrow> IPTuple \<Rightarrow> Con list option) \<Rightarrow> SocketPair \<Rightarrow> ConnTrack \<Rightarrow> bool \<times> SocketPair \<times> ConnTrack" where
  "UpdateRealPeerAddress h get addr c =
     try_strategies h get (if sp_Family addr = 10 then ConntrackIPv6 else ConntrackIPv4) (parseSocketToTuple addr) addr numberStrategies
       (c\<lparr>ct_queryCount := ct_queryCount c + 1\<rparr>)"

definition StatsString :: "ConnTrack \<Rightarrow> string" where
  "StatsString c = ''queries: '' @ dec_digits (ct_queryCount c) @ '', resolved: '' @ dec_digits (ct_resolvedCount c) @
     '', not found: '' @ dec_digits (ct_notFoundCount c) @ '', ignored: '' @ dec_digits (ct_ignoredCount c)"

section \<open>The sockets of a process\<close>

record ConnectionStat =
  cs_Fd :: u32
  cs_Family :: u32
  cs_LaddrIP :: string
  cs_LaddrPort :: u32
  cs_RaddrIP :: string
  cs_RaddrPort :: u32

definition ParseSocket :: "(u32 \<Rightarrow> ConnectionStat list option) \<Rightarrow> u32 \<Rightarrow> u32 \<Rightarrow> SocketPair option" where
  "ParseSocket connectionsPid pid sockfd = (case connectionsPid pid of None \<Rightarrow> None
    | Some connections \<Rightarrow> map_option (\<lambda>k. \<lparr>sp_Family = cs_Family k, sp_Role = 0, sp_SrcIP = cs_LaddrIP k, sp_SrcPort = ucast (cs_LaddrPort k),
         sp_DestIP = cs_RaddrIP k, sp_DestPort = ucast (cs_RaddrPort k), sp_NeedConnTrack = False, sp_ConnTrackResolved = False\<rparr>)
       (find (\<lambda>k. cs_Fd k = sockfd) connections))"

section \<open>Printing and parsing\<close>

lemma dec_digits_no_dot: "CHR ''.'' \<notin> set (dec_digits n)" "CHR '':'' \<notin> set (dec_digits n)"
  by (simp_all add: dec_digits_not)

lemma dec_digits_length: "n < 10 ^ Suc k \<Longrightarrow> length (dec_digits n) \<le> Suc k"
proof (induction k arbitrary: n)
  case 0
  then show ?case by (subst dec_digits.simps) simp
next
  case (Suc k)
  have "n div 10 < 10 ^ Suc k" using Suc.prems by (simp add: less_mult_imp_div_less)
  from Suc.IH [OF this] show ?case by (subst dec_digits.simps) simp
qed

lemma dec_digits_hd: "0 < n \<Longrightarrow> hd (dec_digits n) \<noteq> CHR ''0''"
proof (induction n rule: dec_digits.induct)
  case (1 n)
  have "n = 0" if "char_of (48 + n) = CHR ''0''" "n < 10"
  proof -
    have "(of_char (char_of (48 + n) :: char) :: nat) = 48" using that by simp
    then show ?thesis using that(2) by simp
  qed
  then show ?case using 1 by (subst dec_digits.simps) auto
qed

lemma parse_octet_digits: "n < 256 \<Longrightarrow> parse_octet (dec_digits n) = Some (of_nat n)"
proof -
  assume n: "n < 256"
  have "length (dec_digits n) \<le> 3" using dec_digits_length [of n 2] n by simp
  moreover have "length (dec_digits n) > 1 \<longrightarrow> hd (dec_digits n) \<noteq> CHR ''0''"
    using dec_digits_hd [of n] by (cases "n = 0") (auto simp: dec_digits.simps [of 0])
  moreover have "list_all (\<lambda>c. 48 \<le> (of_char c :: nat) \<and> (of_char c :: nat) \<le> 57) (dec_digits n)"
    using dec_digits_digits [of _ n] by (simp add: list_all_iff)
  ultimately show ?thesis using n by (simp add: parse_octet_def dec_value_digits)
qed

lemma str_split_part: "c \<notin> set p \<Longrightarrow> str_split c p = [p]"
  by (induction p) auto

lemma str_split_append: "c \<notin> set p \<Longrightarrow> str_split c (p @ c # s) = p # str_split c s"
  by (induction p) auto

lemma str_split_join: "ps \<noteq> [] \<Longrightarrow> \<forall>p \<in> set ps. c \<notin> set p \<Longrightarrow> str_split c (str_join [c] ps) = ps"
proof (induction ps)
  case (Cons p ps)
  then show ?case by (cases ps) (auto simp: str_split_part str_split_append)
qed simp

lemma parse_v4_dotted: "length bs = 4 \<Longrightarrow> parse_v4 (dotted (map unat bs)) = Some (bs :: u8 list)"
proof -
  assume l: "length bs = 4"
  have "str_split (CHR ''.'') (dotted (map unat bs)) = map dec_digits (map unat bs)"
    unfolding dotted_def using l dec_digits_no_dot by (intro str_split_join) auto
  moreover have "parse_octet (dec_digits (unat b)) = Some b" for b :: u8
    using parse_octet_digits [of "unat b"] unsigned_less [of b] by simp
  ultimately show ?thesis using l by (simp add: parse_v4_def o_def)
qed

lemma find_after: "\<forall>x \<in> set xs. \<not> P x \<Longrightarrow> P y \<Longrightarrow> find P (xs @ y # ys) = Some y"
  by (induction xs) auto

lemma find_dotted: "length bs = 4 \<Longrightarrow> find (\<lambda>c. c = CHR ''.'' \<or> c = CHR '':'') (dotted (map unat (bs :: u8 list))) = Some (CHR ''.'')"
proof -
  have f: "find (\<lambda>c. c = CHR ''.'' \<or> c = CHR '':'') (dec_digits n @ CHR ''.'' # s) = Some (CHR ''.'')" for n s
    using dec_digits_no_dot [of n] by (intro find_after) auto
  assume "length bs = 4"
  then obtain a b c d where "bs = [a, b, c, d]" by (auto simp: numeral_eq_Suc length_Suc_conv)
  then show ?thesis using f by (simp add: dotted_def)
qed

lemma ParseIP_v4: "length bs = 4 \<Longrightarrow> ParseIP (ip_String bs) = v4InV6Prefix @ bs"
  by (auto simp: ParseIP_def ip_String_def ip_To4_def find_dotted parse_v4_dotted)

end
