(* ===== verification/Connection_Collector.thy ===== *)
theory Connection_Collector
  imports Kernel_Calls Socket_Address Ztunnel_Collector_Props
begin

text \<open>
  The collectors of the access log that turn what the kernel programs report into logs and tasks:
  \<^verbatim>\<open>pkg/accesslog/collector/connection.go\<close>, \<^verbatim>\<open>process.go\<close> and \<^verbatim>\<open>tls.go\<close>. The registry of the
  Kubernetes pods, the table of the sockets of a process and the registration of the TLS probes are arguments.
\<close>

section \<open>The socket of a connection\<close>

record ('v, 'b) connect_context =
  cx_host :: hostInfo
  cx_isPodIP :: "string \<Rightarrow> bool"
  cx_connectionsPid :: "u32 \<Rightarrow> ConnectionStat list option"
  cx_manager :: "('v, 'b) ConnectionManager"

definition FixSocketFamilyIfNeed :: "SocketPair \<Rightarrow> SocketPair" where
  "FixSocketFamilyIfNeed result =
     (let ip = ParseIP (sp_SrcIP result) in
      if ip = [] then result
      else let actual = (if ip_To4 ip \<noteq> None then 2 else 10)
           in if sp_Family result \<noteq> actual then result\<lparr>sp_Family := actual\<rparr> else result)"

definition IsOnlyLocalPortEmpty :: "SocketPair option \<Rightarrow> bool" where
  "IsOnlyLocalPortEmpty pair = (case pair of None \<Rightarrow> False | Some p \<Rightarrow> SocketPair_IsValid (p\<lparr>sp_SrcPort := 1\<rparr>))"

definition CheckNeedConntrack :: "('v, 'b) connect_context \<Rightarrow> SocketConnectEvent \<Rightarrow> SocketPair \<Rightarrow> SocketPair" where
  "CheckNeedConntrack c event socket =
     (if \<not> SocketPair_IsValid socket \<or> IsLocalHostAddress (cx_host c) (sp_DestIP socket) \<or> co_FuncName event = 2 \<or>
         \<not> ProcessIsDetectByKubernetes (cx_manager c) (co_PID event) then socket
      else if cx_isPodIP c (sp_DestIP socket) then socket
      else socket\<lparr>sp_NeedConnTrack := True\<rparr>)"

text \<open>The destination: what the kernel programs learned from connection tracking, if anything and if it is to be used.\<close>

definition choose_destination :: "hostInfo \<Rightarrow> SocketConnectEvent \<Rightarrow> string \<Rightarrow> string \<Rightarrow> SocketPair \<Rightarrow> bool \<times> SocketPair" where
  "choose_destination h event remoteAddr conntrackIP result =
     (let port = ucast (co_ConnTrackUpstreamPort event);
          plain = result\<lparr>sp_DestIP := remoteAddr, sp_DestPort := ucast (co_RemoteAddrPort event)\<rparr> in
      if co_ConnTrackUpstreamIPl event \<noteq> 0 \<and> co_ConnTrackUpstreamPort event \<noteq> 0
      then (True, if \<not> ShouldIgnoreConntrack h remoteAddr conntrackIP port
                  then result\<lparr>sp_DestIP := conntrackIP, sp_DestPort := port, sp_ConnTrackResolved := True\<rparr> else plain)
      else (False, plain))"

definition socket_from :: "SocketConnectEvent \<Rightarrow> string \<Rightarrow> SocketPair" where
  "socket_from event src = \<lparr>sp_Family = ucast (co_SocketFamily event), sp_Role = ucast (co_Role event), sp_SrcIP = src,
     sp_SrcPort = ucast (co_LocalAddrPort event), sp_DestIP = [], sp_DestPort = 0, sp_NeedConnTrack = False, sp_ConnTrackResolved = False\<rparr>"

text \<open>\<^verbatim>\<open>binary.BigEndian.PutUint64\<close>.\<close>

definition be_bytes8 :: "u64 \<Rightarrow> u8 list" where
  "be_bytes8 w = rev (le_bytes 8 w)"

definition conntrack_v6 :: "SocketConnectEvent \<Rightarrow> string" where
  "conntrack_v6 event =
     (if co_ConnTrackUpstreamIPh event \<noteq> 0
      then ParseIPV6 (be_bytes8 (co_ConnTrackUpstreamIPh event) @ be_bytes8 (co_ConnTrackUpstreamIPl event))
      else ParseIPV4 (ucast (co_ConnTrackUpstreamIPl event)))"

definition BuildSocketPair :: "('v, 'b) connect_context \<Rightarrow> SocketConnectEvent \<Rightarrow> SocketPair option" where
  "BuildSocketPair c event =
     (let settle = (\<lambda>(haveConnTrack, result). if haveConnTrack then Some result
                      else Some (CheckNeedConntrack c event (FixSocketFamilyIfNeed result))) in
      if co_SocketFamily event = 2
      then settle (choose_destination (cx_host c) event (ParseIPV4 (co_RemoteAddrV4 event))
                     (ParseIPV4 (ucast (co_ConnTrackUpstreamIPl event))) (socket_from event (ParseIPV4 (co_LocalAddrV4 event))))
      else if co_SocketFamily event = 10
      then settle (choose_destination (cx_host c) event (ParseIPV6 (co_RemoteAddrV6 event))
                     (conntrack_v6 event) (socket_from event (ParseIPV6 (co_LocalAddrV6 event))))
      else None)"

text \<open>The socket, with the event, whose success is taken back when only the local port is missing.\<close>

definition BuildSocketFromConnectEvent ::
  "('v, 'b) connect_context \<Rightarrow> SocketConnectEvent \<Rightarrow> SocketPair option \<times> SocketConnectEvent" where
  "BuildSocketFromConnectEvent c event =
     (if co_SocketFamily event \<noteq> 2 \<and> co_SocketFamily event \<noteq> 10 \<and> co_SocketFamily event \<noteq> 0xff then (None, event)
      else let pair = BuildSocketPair c event in
        if (case pair of None \<Rightarrow> False | Some p \<Rightarrow> SocketPair_IsValid p) then (pair, event)
        else if IsOnlyLocalPortEmpty pair then (pair, event\<lparr>co_ConnectSuccess := 0\<rparr>)
        else (case ParseSocket (cx_connectionsPid c) (co_PID event) (co_SocketFD event) of
            None \<Rightarrow> (None, event)
          | Some p \<Rightarrow> (Some (CheckNeedConntrack c event (FixSocketFamilyIfNeed (p\<lparr>sp_Role := ucast (co_Role event)\<rparr>))), event)))"

section \<open>Consuming events\<close>

fun run_filters :: "('w \<Rightarrow> bool \<times> 'w) list \<Rightarrow> 'w \<Rightarrow> bool \<times> 'w" where
  "run_filters [] w = (True, w)"
| "run_filters (f # fs) w = (case f w of (go, w') \<Rightarrow> if go then run_filters fs w' else (False, w'))"

definition SendConnectEvent :: "SocketConnectEvent \<Rightarrow> SocketPair \<Rightarrow> (kernelLogEvent, 'p) log_queue \<Rightarrow> (kernelLogEvent, 'p) log_queue" where
  "SendConnectEvent event pair q = fst (AppendKernelLog \<lparr>kl_logType = LogTypeConnect, kl_event = ConnectEventWithSocket event pair\<rparr> q)"

definition OnConnectionClose :: "SocketCloseEvent \<Rightarrow> log_event" where
  "OnConnectionClose event = CloseEventWithNotify event"

definition SendCloseEvent :: "log_event \<Rightarrow> (kernelLogEvent, 'p) log_queue \<Rightarrow> (kernelLogEvent, 'p) log_queue" where
  "SendCloseEvent event q = fst (AppendKernelLog \<lparr>kl_logType = LogTypeClose, kl_event = event\<rparr> q)"

definition Consume_connect ::
  "('v, 'b) connect_context \<Rightarrow> (SocketConnectEvent \<Rightarrow> SocketPair \<Rightarrow> 'w \<Rightarrow> bool \<times> 'w) list \<Rightarrow> SocketConnectEvent \<Rightarrow>
     'w \<times> (kernelLogEvent, 'p) log_queue \<Rightarrow> 'w \<times> (kernelLogEvent, 'p) log_queue" where
  "Consume_connect c filters event = (\<lambda>(w, q).
     if sint (co_SocketFD event) < 0 then (w, q)
     else (case BuildSocketFromConnectEvent c event of
         (None, _) \<Rightarrow> (w, q)
       | (Some pair, event') \<Rightarrow>
           (case run_filters (map (\<lambda>f. f event' pair) filters) w of
              (go, w') \<Rightarrow> (w', if go then SendConnectEvent event' pair q else q))))"

definition Consume_close :: "SocketCloseEvent \<Rightarrow> 'w \<times> (kernelLogEvent, 'p) log_queue \<Rightarrow> 'w \<times> (kernelLogEvent, 'p) log_queue" where
  "Consume_close event = (\<lambda>(w, q). (w, SendCloseEvent (OnConnectionClose event) q))"

text \<open>The filters that \<^verbatim>\<open>Collectors\<close> gives to the collector of connections: the one of ztunnel.\<close>

definition connection_filters ::
  "('a, 'i, 's, 'l) ztunnel_caches \<Rightarrow> (SocketConnectEvent \<Rightarrow> SocketPair \<Rightarrow> ('a, 'i, 's, 'l) ztunnel_world \<Rightarrow> bool \<times> ('a, 'i, 's, 'l) ztunnel_world) list" where
  "connection_filters X = [ztunnel_OnConnectEvent X]"

section \<open>Processes\<close>

definition CommString :: "u8 list \<Rightarrow> string" where
  "CommString comm = map (\<lambda>b. char_of (unat b)) (takeWhile (\<lambda>b. b \<noteq> 0) comm)"

text \<open>
  The probes for the TLS libraries of a process: the processes that have them, and whether registering them succeeds.
\<close>

definition addProcess :: "(u32 \<Rightarrow> bool) \<Rightarrow> u32 \<Rightarrow> u32 set \<Rightarrow> u32 set" where
  "addProcess registers pid monitored =
     (if pid \<in> monitored then monitored else if registers pid then insert pid monitored else monitored - {pid})"

definition TLS_OnProcessRemoved :: "u32 \<Rightarrow> u32 set \<Rightarrow> u32 set" where
  "TLS_OnProcessRemoved pid monitored = monitored - {pid}"

section \<open>Basic facts\<close>

lemma ParseIPV4_nonempty: "v \<noteq> 0 \<Longrightarrow> ParseIPV4 v \<noteq> []"
  by (simp add: ParseIPV4_def ip_String_def ip_To4_def dotted_def)

lemma ParseIP_ParseIPV4:
  "v \<noteq> 0 \<Longrightarrow> ParseIP (ParseIPV4 v) = v4InV6Prefix @ [ucast v, ucast (drop_bit 8 v), ucast (drop_bit 16 v), ucast (drop_bit 24 v)]"
  by (simp add: ParseIPV4_def ParseIP_v4)

lemma v4InV6Prefix_length: "length v4InV6Prefix = 12"
  by (simp add: v4InV6Prefix_def)

lemma FixSocketFamily_v4: "v \<noteq> 0 \<Longrightarrow> sp_SrcIP p = ParseIPV4 v \<Longrightarrow> FixSocketFamilyIfNeed p = p\<lparr>sp_Family := 2\<rparr>"
  by (auto simp add: FixSocketFamilyIfNeed_def ParseIP_ParseIPV4 ip_To4_def v4InV6Prefix_length Let_def)

section \<open>An accepted connection\<close>

lemma bpf_ntohs_zero: "bpf_ntohs w = 0 \<longleftrightarrow> w = 0"
proof
  assume z: "bpf_ntohs w = 0"
  show "w = 0"
  proof (rule bit_word_eqI)
    fix n assume n: "n < LENGTH(16)"
    have "\<not> bit (bpf_ntohs w) (if n < 8 then n + 8 else n - 8)" using z by simp
    then show "bit w n = bit 0 n" using n by (auto simp: bpf_ntohs_def bit_or_iff bit_push_bit_iff bit_drop_bit_eq split: if_splits)
  qed
qed (simp add: bpf_ntohs_def)

text \<open>A socket of IPv4 whose addresses and ports are all known.\<close>

definition known_v4 :: "sock_info \<Rightarrow> bool" where
  "known_v4 si \<longleftrightarrow> si_family si = 2 \<and> si_rcv_saddr si \<noteq> 0 \<and> si_daddr si \<noteq> 0 \<and> si_num si \<noteq> 0 \<and> si_dport si \<noteq> 0"

definition server_pair :: "sock_info \<Rightarrow> SocketPair" where
  "server_pair si = \<lparr>sp_Family = 2, sp_Role = ConnectionRoleServer, sp_SrcIP = ParseIPV4 (si_rcv_saddr si), sp_SrcPort = si_num si,
     sp_DestIP = ParseIPV4 (si_daddr si), sp_DestPort = bpf_ntohs (si_dport si), sp_NeedConnTrack = False, sp_ConnTrackResolved = False\<rparr>"

lemma server_pair_valid: "known_v4 si \<Longrightarrow> SocketPair_IsValid (server_pair si)"
  by (simp add: known_v4_def server_pair_def SocketPair_IsValid_def ParseIPV4_nonempty bpf_ntohs_zero)

lemma ucast_u16_back: "(ucast (ucast (w :: u16) :: u32) :: u16) = w"
  by (rule bit_word_eqI) (simp add: bit_ucast_iff)

lemma BuildSocketPair_server:
  assumes "known_v4 si" "co_ConnTrackUpstreamIPl e0 = 0" "co_FuncName e0 = 2" "co_Role e0 = 2"
  shows "BuildSocketPair c (fill_socket si e0) = Some (server_pair si)"
proof -
  let ?e = "fill_socket si e0"
  have e: "co_SocketFamily ?e = 2" "co_LocalAddrV4 ?e = si_rcv_saddr si" "co_RemoteAddrV4 ?e = si_daddr si"
    "co_LocalAddrPort ?e = ucast (si_num si)" "co_RemoteAddrPort ?e = ucast (bpf_ntohs (si_dport si))"
    "co_ConnTrackUpstreamIPl ?e = 0" "co_FuncName ?e = 2" "co_Role ?e = 2"
    using assms by (simp_all add: known_v4_def fill_socket_def Let_def AF_INET_def)
  define p where "p = server_pair si"
  have p: "(socket_from ?e (ParseIPV4 (si_rcv_saddr si)))\<lparr>sp_DestIP := ParseIPV4 (si_daddr si), sp_DestPort := ucast (co_RemoteAddrPort ?e)\<rparr> = p"
    by (simp add: socket_from_def e p_def server_pair_def ucast_u16_back)
  have f: "FixSocketFamilyIfNeed p = p"
    using FixSocketFamily_v4 [of "si_rcv_saddr si" p] assms(1) by (simp add: p_def server_pair_def known_v4_def)
  have "CheckNeedConntrack c ?e p = p" by (simp add: CheckNeedConntrack_def e)
  then show ?thesis using f by (simp add: BuildSocketPair_def e choose_destination_def Let_def flip: p_def) (simp add: flip: p e)
qed

text \<open>The three programs that see a call of \<^verbatim>\<open>accept\<close>, and what the last of them submits.\<close>

definition accept_events :: "int \<Rightarrow> int \<Rightarrow> int \<Rightarrow> kernel_env \<Rightarrow> kernel_env \<Rightarrow> kernel_env \<Rightarrow> (kernel_event \<times> kernel_env) list" where
  "accept_events addr sock ret e1 e2 e3 =
     [(Connection (EnterAccept addr), e1), (Connection (SockAllocRet sock), e2), (Connection (ExitAccept ret), e3)]"

lemma accept_events_out:
  assumes "ke_pid_tgid e1 = pid" "ke_pid_tgid e2 = pid" "ke_pid_tgid e3 = pid" "tgid_should_trace (tgid_of pid) st" "ke_room e1 AcceptingArgs"
  shows "ks_out (kernel_run (accept_events addr sock ret e1 e2 e3) st) = ks_out st @
    [ConnectOut (connect_event e3 True SOCKET_OPTS_TYPE_ACCEPT (tgid_of pid) (word_of_int ret) (ke_now e1) addr sock None
       CONNECTION_ROLE_TYPE_SERVER (us_heap (ks_upload st)))]"
  using assms by (simp add: accept_events_def enter_accept_def sock_alloc_ret_def exit_accept_def process_accept_def env_tgid_of
      update_elem_def modify_elem_def submit_new_connection_def submit_def Let_def SOCKET_OPTS_TYPE_ACCEPT_def SOCKET_OPTS_TYPE_CONNECT_def)

lemma ztunnel_keeps_servers: "sp_Role s \<noteq> ConnectionRoleClient \<Longrightarrow> fst (ztunnel_OnConnectEvent X e s w)"
  by (auto simp: ztunnel_OnConnectEvent_def Let_def split: option.splits)

lemma Consume_server:
  assumes "known_v4 si" "co_ConnTrackUpstreamIPl e0 = 0" "co_FuncName e0 = 2" "co_Role e0 = 2" "0 \<le> sint (co_SocketFD e0)"
    and "length (q_kernelLogs q) < queue_cap q"
  shows "q_kernelLogs (snd (Consume_connect c (connection_filters X) (fill_socket si e0) (w, q))) =
    q_kernelLogs q @ [\<lparr>kl_logType = LogTypeConnect, kl_event = ConnectEventWithSocket (fill_socket si e0) (server_pair si)\<rparr>]"
proof -
  let ?e = "fill_socket si e0"
  have e: "co_SocketFamily ?e = 2" "co_SocketFD ?e = co_SocketFD e0" using assms(1) by (simp_all add: known_v4_def fill_socket_def Let_def AF_INET_def)
  have b: "BuildSocketFromConnectEvent c ?e = (Some (server_pair si), ?e)"
    using BuildSocketPair_server [OF assms(1-4), of c] server_pair_valid [OF assms(1)] by (simp add: BuildSocketFromConnectEvent_def e Let_def)
  obtain w' where z: "ztunnel_OnConnectEvent X ?e (server_pair si) w = (True, w')"
    using ztunnel_keeps_servers [of "server_pair si" X ?e w] by (cases "ztunnel_OnConnectEvent X ?e (server_pair si) w") (simp add: server_pair_def)
  show ?thesis using assms(5, 6) by (simp add: Consume_connect_def e b connection_filters_def z SendConnectEvent_def AppendKernelLog_def Let_def)
qed


section \<open>A failed accept\<close>


section \<open>Tracked connections\<close>

lemma le_bytes_le_word: "8 * length bs \<le> LENGTH('a) \<Longrightarrow> le_bytes (length bs) (le_word bs :: 'a::len word) = bs"
proof (induction bs)
  case (Cons b bs)
  have "drop_bit 8 (le_word (b # bs) :: 'a word) = le_word bs"
  proof (rule bit_word_eqI)
    fix n assume n: "n < LENGTH('a)"
    show "bit (drop_bit 8 (le_word (b # bs) :: 'a word)) n = bit (le_word bs :: 'a word) n"
    proof (cases "n div 8 < length bs")
      case True
      then have "8 + n < LENGTH('a)" using Cons.prems by simp
      then show ?thesis using n by (simp add: bit_drop_bit_eq bit_le_word del: le_word.simps)
    next
      case False
      then show ?thesis by (simp add: bit_drop_bit_eq bit_le_word del: le_word.simps)
    qed
  qed
  moreover have "(ucast (le_word (b # bs) :: 'a word) :: u8) = b"
    using Cons.prems by (intro bit_word_eqI) (simp add: bit_ucast_iff bit_le_word del: le_word.simps)
  ultimately show ?case using Cons by (simp del: le_word.simps)
qed simp

lemma be_bytes8_le_word: "length bs = 8 \<Longrightarrow> be_bytes8 (le_word bs) = rev bs"
  using le_bytes_le_word [of bs, where 'a = 64] by (simp add: be_bytes8_def)

text \<open>A translated connection of IPv6 that netfilter has confirmed: the tuple of its reply has addresses and ports.\<close>

definition tracked_v6 :: "u32 \<Rightarrow> nf_conntrack_tuple \<Rightarrow> bool" where
  "tracked_v6 status t \<longleftrightarrow> status AND IPS_CONFIRMED \<noteq> 0 \<and> status AND IPS_NAT_MASK \<noteq> 0 \<and> nt_src_l3num t = 10 \<and> nt_dst_protonum t = IPPROTO_TCP \<and>
     length (nt_src_u3 t) = 16 \<and> nt_src_port t \<noteq> 0 \<and> nt_dst_port t \<noteq> 0 \<and>
     u3_high (nt_src_u3 t) \<noteq> 0 \<and> u3_low (nt_src_u3 t) \<noteq> 0 \<and> u3_high (nt_dst_u3 t) \<noteq> 0 \<and> u3_low (nt_dst_u3 t) \<noteq> 0"

lemma tracked_v6_remote:
  assumes "tracked_v6 status t" "ks_conecting_args st (ke_pid_tgid env) = Some args" "\<not> cn_has_remote args"
    and "si_family (ke_socket env (sock_socket env (cn_sock args))) = 10"
  shows "ks_conecting_args (nf_conn_aware (Some status) (Some t) env st) (ke_pid_tgid env) =
    Some (args\<lparr>cn_remote := \<lparr>tr_iph = u3_high (nt_src_u3 t), tr_ipl = u3_low (nt_src_u3 t), tr_port = bpf_ntohs (nt_src_port t)\<rparr>, cn_has_remote := True\<rparr>)"
    "ks_out (nf_conn_aware (Some status) (Some t) env st) = ks_out st"
  using assms by (simp_all add: nf_conn_aware_def tracked_v6_def nf_conntrack_tuple_to_conntrack_tuple_def Let_def bpf_ntohs_zero update_elem_def
      AF_INET_def AF_INET6_def)

lemma exit_connect_out:
  assumes "ks_conecting_args st (ke_pid_tgid env) = Some args"
  shows "ks_out (exit_connect ret env st) = ks_out st @ [ConnectOut (connect_event env (\<not> (ret < 0 \<and> ret \<noteq> - EINPROGRESS)) SOCKET_OPTS_TYPE_CONNECT
    (env_tgid env) (cn_fd args) (cn_start_nacs args) (cn_addr args) (sock_socket env (cn_sock args)) (Some (cn_remote args))
    CONNECTION_ROLE_TYPE_CLIENT (us_heap (ks_upload st)))]"
proof -
  have "ks_out (submit_new_connection env b SOCKET_OPTS_TYPE_CONNECT tg fd s a k r role st) =
    ks_out st @ [ConnectOut (connect_event env b SOCKET_OPTS_TYPE_CONNECT tg fd s a k r CONNECTION_ROLE_TYPE_CLIENT (us_heap (ks_upload st)))]"
    for b tg fd s a k r role
    by (simp add: submit_new_connection_def submit_def Let_def)
  then show ?thesis using assms by (simp add: exit_connect_def process_connect_def Let_def)
qed

lemma conntrack_v6_reversed:
  assumes "tracked_v6 status t" "co_ConnTrackUpstreamIPh e = u3_high (nt_src_u3 t)" "co_ConnTrackUpstreamIPl e = u3_low (nt_src_u3 t)"
  shows "conntrack_v6 e = ip_String (rev (take 8 (nt_src_u3 t)) @ rev (drop 8 (nt_src_u3 t)))"
proof -
  have l: "length (take 8 (nt_src_u3 t)) = 8" "take 8 (drop 8 (nt_src_u3 t)) = drop 8 (nt_src_u3 t)" "length (drop 8 (nt_src_u3 t)) = 8"
    using assms(1) by (simp_all add: tracked_v6_def)
  show ?thesis using assms be_bytes8_le_word [OF l(1)] be_bytes8_le_word [OF l(3)]
    by (simp add: conntrack_v6_def tracked_v6_def ParseIPV6_def u3_high_def u3_low_def l(2))
qed

text \<open>
  C24: The tracked destination of IPv6 is reported with its bytes reversed. The kernel program loads each half of the address as
  a number in the byte order of the machine, and the collector writes the two numbers in network order: each half of the address
  that is logged is the reverse of the half that netfilter has.
\<close>

theorem tracked_v6_is_reversed:
  assumes "tracked_v6 status t" and "ks_conecting_args st (ke_pid_tgid env) = Some args" and "\<not> cn_has_remote args"
    and "sock_socket env (cn_sock args) \<noteq> 0" and "si_family (ke_socket env (sock_socket env (cn_sock args))) = 10"
    and "bpf_ntohs (nt_src_port t) \<noteq> 15001"
  shows "\<exists>e p. ks_out (exit_connect ret env (nf_conn_aware (Some status) (Some t) env st)) = ks_out st @ [ConnectOut e] \<and>
    BuildSocketPair c e = Some p \<and> sp_DestIP p = ip_String (rev (take 8 (nt_src_u3 t)) @ rev (drop 8 (nt_src_u3 t))) \<and>
    sp_DestPort p = bpf_ntohs (nt_src_port t) \<and> sp_ConnTrackResolved p"
proof -
  let ?st = "nf_conn_aware (Some status) (Some t) env st"
  let ?si = "ke_socket env (sock_socket env (cn_sock args))"
  obtain e0 where e0: "ks_out (exit_connect ret env ?st) = ks_out st @ [ConnectOut (fill_socket ?si e0)]"
    "co_ConnTrackUpstreamIPh e0 = u3_high (nt_src_u3 t)" "co_ConnTrackUpstreamIPl e0 = u3_low (nt_src_u3 t)"
    "co_ConnTrackUpstreamPort e0 = ucast (bpf_ntohs (nt_src_port t))"
    using exit_connect_out [OF tracked_v6_remote(1) [OF assms(1, 2, 3, 5)], of ret] tracked_v6_remote(2) [OF assms(1, 2, 3, 5)] assms(4)
    by (simp add: connect_event_def Let_def)
  let ?e = "fill_socket ?si e0"
  have e: "co_ConnTrackUpstreamIPh ?e = u3_high (nt_src_u3 t)" "co_ConnTrackUpstreamIPl ?e = u3_low (nt_src_u3 t)"
    "co_ConnTrackUpstreamPort ?e = ucast (bpf_ntohs (nt_src_port t))" "co_SocketFamily ?e = 10"
    using assms(5) by (simp_all add: fill_socket_def Let_def AF_INET_def AF_INET6_def e0)
  have port: "(ucast (bpf_ntohs (nt_src_port t)) :: u32) \<noteq> 0" "u3_low (nt_src_u3 t) \<noteq> 0"
    using assms(1) bpf_ntohs_zero [of "nt_src_port t"] ucast_u16_back [of "bpf_ntohs (nt_src_port t)"] by (auto simp: tracked_v6_def)
  obtain p where "BuildSocketPair c ?e = Some p" "sp_DestIP p = conntrack_v6 ?e" "sp_DestPort p = bpf_ntohs (nt_src_port t)" "sp_ConnTrackResolved p"
    using port assms(6) by (simp add: BuildSocketPair_def e choose_destination_def Let_def ShouldIgnoreConntrack_def ucast_u16_back)
  then show ?thesis using e0(1) conntrack_v6_reversed [OF assms(1) e(1, 2)] by auto
qed

section \<open>Queries of the tracking table\<close>

lemma filterValidateReply_Some:
  "filterValidateReply sessions t = Some reply \<Longrightarrow>
     \<exists>s o'. s \<in> set sessions \<and> con_Origin s = Some o' \<and> ipTuplesEqual t o' \<and> con_Reply s = Some reply \<and> ipTupleValid (Some reply)"
proof (induction sessions)
  case (Cons s sessions)
  then show ?case
  proof (cases "\<not> ipTupleValid (con_Origin s) \<or> \<not> ipTupleValid (con_Reply s) \<or> \<not> ipTuplesEqual t (the (con_Origin s))")
    case True
    then show ?thesis using Cons by (auto split: if_splits)
  next
    case False
    then obtain o' where "con_Origin s = Some o'" by (auto simp: ipTupleValid_def split: option.splits)
    then show ?thesis using Cons.prems False by (intro exI [of _ s] exI [of _ o']) auto
  qed
qed simp

definition tracked_queries :: "ConnTrack \<Rightarrow> bool" where
  "tracked_queries c \<longleftrightarrow> ct_queryCount c = ct_resolvedCount c + ct_notFoundCount c + ct_ignoredCount c"

text \<open>
  A query of the tracking table rewrites a destination only to the source of the reply of a session whose origin is that
  socket, never to the local proxy, and otherwise leaves the socket alone; and every query is counted once, as
  resolved, not found or ignored, so that the counters always add up.
\<close>

theorem conntrack_query_is_accounted:
  assumes "UpdateRealPeerAddress h get addr c = (ok, addr', c')" and "tracked_queries c"
  shows "tracked_queries c' \<and> ct_queryCount c' = ct_queryCount c + 1 \<and>
    (addr' = addr \<and> ct_resolvedCount c' = ct_resolvedCount c \<or>
     (\<exists>family sessions s o' reply. get family (parseSocketToTuple addr) = Some sessions \<and> s \<in> set sessions \<and>
        con_Origin s = Some o' \<and> ipTuplesEqual (parseSocketToTuple addr) o' \<and> con_Reply s = Some reply \<and>
        \<not> ShouldIgnoreConntrack h (sp_DestIP addr) (ip_String (tuple_src reply)) (tuple_sport reply) \<and>
        addr' = addr\<lparr>sp_DestIP := ip_String (tuple_src reply), sp_NeedConnTrack := False, sp_ConnTrackResolved := True\<rparr> \<and>
        ct_resolvedCount c' = ct_resolvedCount c + 1))"
proof -
  define family where "family = (if sp_Family addr = 10 then ConntrackIPv6 else ConntrackIPv4)"
  define t where "t = with_number 6 (parseSocketToTuple addr)"
  have t: "t = parseSocketToTuple addr" by (simp add: t_def with_number_def parseSocketToTuple_def)
  have u: "try_strategies h get family (parseSocketToTuple addr) addr [6] (c\<lparr>ct_queryCount := ct_queryCount c + 1\<rparr>) = (ok, addr', c')"
    using assms(1) by (simp add: UpdateRealPeerAddress_def numberStrategies_def family_def)
  show ?thesis
  proof (cases "get family t")
    case None
    then show ?thesis using u assms(2) by (auto simp: t_def tracked_queries_def)
  next
    case (Some sessions)
    show ?thesis
    proof (cases "filterValidateReply sessions t")
      case None
      then show ?thesis using u Some assms(2) by (auto simp: t_def tracked_queries_def)
    next
      case (Some reply)
      then obtain s o' where s: "s \<in> set sessions" "con_Origin s = Some o'" "ipTuplesEqual t o'" "con_Reply s = Some reply"
        using filterValidateReply_Some [OF Some] by auto
      show ?thesis
      proof (cases "ShouldIgnoreConntrack h (sp_DestIP addr) (ip_String (tuple_src reply)) (tuple_sport reply)")
        case True
        then show ?thesis using u Some \<open>get family t = _\<close> assms(2) by (auto simp: t_def tracked_queries_def)
      next
        case False
        then have "addr' = addr\<lparr>sp_DestIP := ip_String (tuple_src reply), sp_NeedConnTrack := False, sp_ConnTrackResolved := True\<rparr>"
          "c' = c\<lparr>ct_queryCount := ct_queryCount c + 1, ct_resolvedCount := ct_resolvedCount c + 1\<rparr>"
          using u Some \<open>get family t = _\<close> by (auto simp: t_def)
        then show ?thesis using s False \<open>get family t = _\<close> assms(2) unfolding t
          by (intro conjI disjI2 exI [of _ family] exI [of _ sessions] exI [of _ s] exI [of _ o'] exI [of _ reply]) (simp_all add: tracked_queries_def)
      qed
    qed
  qed
qed

section \<open>Examples\<close>

definition example_host :: hostInfo where
  "example_host = \<lparr>ho_name = ''node'', ho_ipAddressesByName = [], ho_ipAddressesByIP = [''127.0.0.1''], ho_defaultIPAddr = ''10.0.0.1''\<rparr>"

definition example_context :: "((u32 \<times> ProcessVerdict \<times> int) list, (string \<times> bool \<times> int) list) connect_context" where
  "example_context = \<lparr>cx_host = example_host, cx_isPodIP = (\<lambda>_. False), cx_connectionsPid = (\<lambda>_. None),
     cx_manager = NewConnectionManager list_cache list_cache 5\<rparr>"

definition example_v4 :: sock_info where
  "example_v4 = \<lparr>si_family = 2, si_num = 80, si_dport = 0x3930, si_rcv_saddr = 0x0100000a, si_daddr = 0x0200000a, si_v6_rcv_saddr = [], si_v6_daddr = []\<rparr>"

definition example_env4 :: "u64 \<Rightarrow> kernel_env" where
  "example_env4 now = (Kernel_Run_Props.example_env now)\<lparr>ke_socket := (\<lambda>_. example_v4)\<rparr>"

definition example_queue :: "(kernelLogEvent, unit) log_queue" where
  "example_queue = NewQueue 10"



definition example_tuple :: nf_conntrack_tuple where
  "example_tuple = \<lparr>nt_src_u3 = [0x20, 1, 0xd, 0xb8, 0, 0, 0, 1, 0, 0, 0, 0, 0, 0, 0, 9], nt_src_port = 0x901f, nt_src_l3num = 10,
     nt_dst_u3 = [0x20, 1, 0xd, 0xb8, 0, 0, 0, 1, 0, 0, 0, 0, 0, 0, 0, 8], nt_dst_port = 0x3930, nt_dst_protonum = 6\<rparr>"

definition example_env6 :: "u64 \<Rightarrow> kernel_env" where
  "example_env6 now = (Kernel_Run_Props.example_env now)\<lparr>ke_sk_socket := (\<lambda>_. 4), ke_socket := (\<lambda>_. \<lparr>si_family = 10, si_num = 80, si_dport = 0x3930,
     si_rcv_saddr = 0, si_daddr = 0, si_v6_rcv_saddr = replicate 16 1, si_v6_daddr = replicate 16 2\<rparr>)\<rparr>"

definition example_connecting :: tls_state where
  "example_connecting = tcp_connect 3 (example_env6 2) (enter_connect 5 0 (example_env6 1) example_connected)"

lemma example_groups: "hex_group 0 = ''0''" "hex_group (Suc 0) = ''1''" "hex_group 9 = ''9''" "hex_group 0x2001 = ''2001''" "hex_group 0xdb8 = ''db8''"
  "hex_group 0x100 = ''100''" "hex_group 0xb80d = ''b80d''" "hex_group 0x120 = ''120''" "hex_group 0x900 = ''900''"
  by (simp_all add: hex_group_def hex_digit_def char_of_def bit_Suc_0_iff)

lemma example_runs: "zero_run [0x2001, 0xdb8, 0, Suc 0, 0, 0, 0, 9] = (4, 3)" "zero_run [0x100, 0, 0xb80d, 0x120, 0x900, 0, 0, 0] = (5, 3)"
  by (simp_all add: zero_run_def upt_rec)

theorem tracked_v6_is_reversed_witness:
  "\<exists>e p. ks_out (exit_connect 0 (example_env6 3) (nf_conn_aware (Some 0x18) (Some example_tuple) (example_env6 3) example_connecting)) = [ConnectOut e] \<and>
     BuildSocketPair example_context e = Some p \<and> sp_DestIP p = ''100:0:b80d:120:900::'' \<and> sp_DestPort p = 8080 \<and>
     ip_String (nt_src_u3 example_tuple) = ''2001:db8:0:1::9''"
proof -
  have t: "tracked_v6 0x18 example_tuple"
    by (simp add: tracked_v6_def example_tuple_def IPS_CONFIRMED_def IPS_NAT_MASK_def IPPROTO_TCP_def u3_high_def u3_low_def)
  have a: "ks_conecting_args example_connecting (ke_pid_tgid (example_env6 3)) =
     Some \<lparr>cn_fd = 5, cn_has_remote = False, cn_addr = 0, cn_sock = 3, cn_start_nacs = 1, cn_remote = no_remote\<rparr>" "ks_out example_connecting = []"
    by (simp_all add: example_connecting_def tcp_connect_def modify_elem_def enter_connect_def example_connected_def tgid_should_trace_def
        update_elem_def example_env6_def env_tgid_def example_loaded_def)
  have s: "ip_String (rev (take 8 (nt_src_u3 example_tuple)) @ rev (drop 8 (nt_src_u3 example_tuple))) = ''100:0:b80d:120:900::''"
    "ip_String (nt_src_u3 example_tuple) = ''2001:db8:0:1::9''" "bpf_ntohs (nt_src_port example_tuple) = 8080"
    by (simp_all add: example_tuple_def ip_String_def ip_To4_def v4InV6Prefix_def v6_string_def example_runs example_groups bpf_ntohs_def)
  show ?thesis
    using tracked_v6_is_reversed [of "0x18" example_tuple example_connecting "example_env6 3", OF t a(1), of 0 example_context] a(2) s
    by (auto simp: sock_socket_def example_env6_def)
qed

definition example_pair :: SocketPair where
  "example_pair = \<lparr>sp_Family = 2, sp_Role = 1, sp_SrcIP = ''10.0.0.1'', sp_SrcPort = 4000, sp_DestIP = ''10.96.0.1'', sp_DestPort = 80,
     sp_NeedConnTrack = True, sp_ConnTrackResolved = False\<rparr>"

definition example_sessions :: "conntrack_family \<Rightarrow> IPTuple \<Rightarrow> Con list option" where
  "example_sessions family t = Some [\<lparr>con_Origin = None, con_Reply = None\<rparr>, \<lparr>con_Origin = Some t, con_Reply = Some \<lparr>tu_Src = Some [10, 0, 0, 7],
     tu_Dst = Some [10, 0, 0, 1], tu_Proto = Some \<lparr>pt_Number = Some 6, pt_SrcPort = Some 8080, pt_DstPort = Some 4000\<rparr>\<rparr>\<rparr>]"

theorem conntrack_query_is_accounted_witness:
  "\<exists>c'. UpdateRealPeerAddress example_host example_sessions example_pair \<lparr>ct_queryCount = 0, ct_resolvedCount = 0, ct_notFoundCount = 0, ct_ignoredCount = 0\<rparr> =
       (True, example_pair\<lparr>sp_DestIP := ''10.0.0.7'', sp_NeedConnTrack := False, sp_ConnTrackResolved := True\<rparr>, c') \<and>
     tracked_queries c' \<and> ct_queryCount c' = 1"
proof -
  let ?c = "\<lparr>ct_queryCount = 0, ct_resolvedCount = 0, ct_notFoundCount = 0, ct_ignoredCount = 0\<rparr>"
  let ?c' = "\<lparr>ct_queryCount = 1, ct_resolvedCount = 1, ct_notFoundCount = 0, ct_ignoredCount = 0\<rparr>"
  have u: "UpdateRealPeerAddress example_host example_sessions example_pair ?c =
    (True, example_pair\<lparr>sp_DestIP := ''10.0.0.7'', sp_NeedConnTrack := False, sp_ConnTrackResolved := True\<rparr>, ?c')"
    by code_simp
  show ?thesis using conntrack_query_is_accounted [OF u] u by (auto simp: tracked_queries_def)
qed

end
