(* ===== verification/Time_Windows.thy ===== *)
theory Time_Windows
  imports Rover_Prelude
begin

text \<open>
  The time windows of continuous profiling, \<^verbatim>\<open>pkg/profiling/continuous/base\<close>: one slot for each of the last
  seconds, newest at the back, and the rules that are checked against them. The data of a slot is an interface; its operations are
  an argument of the definitions, and what the windows rely on is the contract of the locale below.
\<close>

section \<open>Policies\<close>

record PolicyItem =
  pi_Threshold :: string
  pi_Period :: int
  pi_Count :: int
  pi_URIList :: "string list"
  pi_URIRegex :: string
  pi_TargetProfilingType :: string

definition SameURIFilter :: "PolicyItem \<Rightarrow> PolicyItem \<Rightarrow> bool" where
  "SameURIFilter p other \<longleftrightarrow>
     (if pi_URIRegex p \<noteq> [] \<and> pi_URIRegex p = pi_URIRegex other then True
      else if length (pi_URIList p) > 0 \<and> pi_URIList p = pi_URIList other then True
      else if pi_URIRegex p = [] \<and> pi_URIRegex other = [] \<and> length (pi_URIList p) = 0 \<and> length (pi_URIList other) = 0 then True
      else False)"

definition max_period :: "PolicyItem list \<Rightarrow> int" where
  "max_period items = foldl (\<lambda>m i. if pi_Period i > m then pi_Period i else m) 0 items"

section \<open>Slots\<close>

record ('v, 'd, 'r) WindowData =
  wo_new :: 'd
  wo_Reset :: "'d \<Rightarrow> 'd"
  wo_Accept :: "'v \<Rightarrow> 'd \<Rightarrow> 'd"
  wo_Get :: "'d \<Rightarrow> 'r"

text \<open>Only the last value of a second is kept; the type of the values has a zero.\<close>

definition LatestWindowData :: "'v \<Rightarrow> ('v, 'v, 'v) WindowData" where
  "LatestWindowData zero = \<lparr>wo_new = zero, wo_Reset = (\<lambda>_. zero), wo_Accept = (\<lambda>v _. v), wo_Get = (\<lambda>d. d)\<rparr>"

record 'd windowDataWrapper =
  wd_data :: 'd
  wd_hasData :: bool

definition newWindowDataWrapper :: "('v, 'd, 'r) WindowData \<Rightarrow> 'd windowDataWrapper" where
  "newWindowDataWrapper D = \<lparr>wd_data = wo_new D, wd_hasData = False\<rparr>"

definition wrapper_Reset :: "('v, 'd, 'r) WindowData \<Rightarrow> 'd windowDataWrapper \<Rightarrow> 'd windowDataWrapper" where
  "wrapper_Reset D t = \<lparr>wd_data = wo_Reset D (wd_data t), wd_hasData = False\<rparr>"

definition wrapper_Accept :: "('v, 'd, 'r) WindowData \<Rightarrow> 'v \<Rightarrow> 'd windowDataWrapper \<Rightarrow> 'd windowDataWrapper" where
  "wrapper_Accept D data t = \<lparr>wd_data = wo_Accept D data (wd_data t), wd_hasData = True\<rparr>"

definition wrapper_Get :: "('v, 'd, 'r) WindowData \<Rightarrow> 'd windowDataWrapper \<Rightarrow> 'r" where
  "wrapper_Get D t = wo_Get D (wd_data t)"

section \<open>Windows\<close>

text \<open>The list of slots from front to back. Times are nanoseconds; a pointer to a time is the time or nothing.\<close>

record 'd TimeWindows =
  tw_data :: "'d windowDataWrapper list"
  tw_endTime :: "int option"
  tw_lastFlushTime :: "int option"

definition NewTimeWindows :: "('v, 'd, 'r) WindowData \<Rightarrow> PolicyItem list \<Rightarrow> 'd TimeWindows" where
  "NewTimeWindows D items = \<lparr>tw_data = replicate (nat (max_period items)) (newWindowDataWrapper D), tw_endTime = None, tw_lastFlushTime = None\<rparr>"

text \<open>\<^verbatim>\<open>int(d.Seconds())\<close>: whole seconds, towards zero.\<close>

definition whole_seconds :: "int \<Rightarrow> int" where
  "whole_seconds d = (if d < 0 then - ((- d) div second) else d div second)"

text \<open>From the newest slot to the oldest; nothing matched is \<open>None\<close>, where the code has the zero of the type.\<close>

definition MatchRule :: "('v, 'd, 'r) WindowData \<Rightarrow> PolicyItem \<Rightarrow> ('r \<Rightarrow> bool) \<Rightarrow> 'd TimeWindows \<Rightarrow> 'r option \<times> bool" where
  "MatchRule D policy check t =
     (case foldl (\<lambda>(lastMatch, n) e. let v = wrapper_Get D e in if check v then (Some v, n + 1) else (lastMatch, n))
             (None, 0 :: int) (rev (tw_data t)) of
        (lastMatch, matchedCount) \<Rightarrow> (lastMatch, matchedCount \<ge> pi_Count policy))"

definition ScalePeriod :: "('v, 'd, 'r) WindowData \<Rightarrow> PolicyItem list \<Rightarrow> 'd TimeWindows \<Rightarrow> 'd TimeWindows" where
  "ScalePeriod D items t =
     (let n = max_period items; len = int (length (tw_data t)) in
      if len = n then t
      else if n - len > 0 then t\<lparr>tw_data := tw_data t @ replicate (nat (n - len)) (newWindowDataWrapper D)\<rparr>
      else t\<lparr>tw_data := (butlast ^^ nat (len - n)) (tw_data t)\<rparr>)"

definition rotate_slot :: "('v, 'd, 'r) WindowData \<Rightarrow> 'd windowDataWrapper list \<Rightarrow> 'd windowDataWrapper list" where
  "rotate_slot D ds = (case ds of [] \<Rightarrow> [] | d # ds' \<Rightarrow> ds' @ [wrapper_Reset D d])"

definition moveTo :: "('v, 'd, 'r) WindowData \<Rightarrow> int \<Rightarrow> int \<Rightarrow> 'd TimeWindows \<Rightarrow> 'd TimeWindows" where
  "moveTo D endTime tm t =
     (let addSeconds = whole_seconds (tm - endTime) in
      if addSeconds \<le> 0 then t
      else t\<lparr>tw_data := (if addSeconds > int (length (tw_data t)) then map (wrapper_Reset D) (tw_data t)
                         else (rotate_slot D ^^ nat addSeconds) (tw_data t)),
             tw_endTime := Some tm\<rparr>)"

definition appendDataToSlot :: "('v, 'd, 'r) WindowData \<Rightarrow> int \<Rightarrow> 'v \<Rightarrow> 'd TimeWindows \<Rightarrow> 'd TimeWindows" where
  "appendDataToSlot D index data t =
     (if index < 0 \<or> index > int (length (tw_data t)) then t
      else t\<lparr>tw_data := (tw_data t)[nat index := wrapper_Accept D data (tw_data t ! nat index)]\<rparr>)"

definition Add :: "('v, 'd, 'r) WindowData \<Rightarrow> int \<Rightarrow> 'v \<Rightarrow> 'd TimeWindows \<Rightarrow> 'd TimeWindows" where
  "Add D tm val t0 =
     (let endTime = (case tw_endTime t0 of None \<Rightarrow> tm | Some e \<Rightarrow> e);
          t = t0\<lparr>tw_endTime := Some endTime\<rparr>;
          back0 = whole_seconds (endTime - tm);
          (t1, back) = (if back0 < 0 then (moveTo D endTime tm t, 0) else (t, back0))
      in if back \<ge> int (length (tw_data t1)) then t1
         else appendDataToSlot D (int (length (tw_data t1)) - back - 1) val t1)"

definition shouldFlush :: "'d TimeWindows \<Rightarrow> bool" where
  "shouldFlush t = (case tw_endTime t of None \<Rightarrow> False | Some e \<Rightarrow> (case tw_lastFlushTime t of None \<Rightarrow> True | Some f \<Rightarrow> f < e))"

definition FlushMostRecentData :: "('v, 'd, 'r) WindowData \<Rightarrow> 'd TimeWindows \<Rightarrow> ('r option \<times> 'd TimeWindows) or_panic" where
  "FlushMostRecentData D t =
     (if \<not> shouldFlush t then Inr (None, t)
      else if tw_data t = [] then Inl NilDereference
      else Inr (Some (wrapper_Get D (last (tw_data t))), t\<lparr>tw_lastFlushTime := tw_endTime t\<rparr>))"

definition FlushMultipleRecentData :: "('v, 'd, 'r) WindowData \<Rightarrow> 'd TimeWindows \<Rightarrow> 'r list option \<times> 'd TimeWindows" where
  "FlushMultipleRecentData D t =
     (if \<not> shouldFlush t then (None, t)
      else let slotCount = (case (tw_lastFlushTime t, tw_endTime t) of
                 (Some f, Some e) \<Rightarrow> whole_seconds (e - f) - 1 | _ \<Rightarrow> int (length (tw_data t)))
           in (Some (map (wrapper_Get D) (filter wd_hasData (take (nat (slotCount + 1)) (rev (tw_data t))))),
               t\<lparr>tw_lastFlushTime := tw_endTime t\<rparr>))"

section \<open>What the windows hold\<close>

lemma whole_seconds_mult [simp]: "whole_seconds (a * second) = a"
proof -
  have "- (a * second) div second = - a" by (simp flip: mult_minus_left)
  then show ?thesis by (simp add: whole_seconds_def)
qed

lemma whole_seconds_diff [simp]: "whole_seconds (a * second - b * second) = a - b"
  using whole_seconds_mult [of "a - b"] by (simp only: left_diff_distrib)

text \<open>The values of the second \<open>s\<close>, in the order of their arrival, as one slot.\<close>

definition slot_of :: "('v, 'd, 'r) WindowData \<Rightarrow> (int \<times> 'v) list \<Rightarrow> int \<Rightarrow> 'd windowDataWrapper" where
  "slot_of D xs s = (let vs = map snd (filter (\<lambda>x. fst x = s) xs) in \<lparr>wd_data = fold (wo_Accept D) vs (wo_new D), wd_hasData = (vs \<noteq> [])\<rparr>)"

definition add_all :: "('v, 'd, 'r) WindowData \<Rightarrow> int \<Rightarrow> (int \<times> 'v) list \<Rightarrow> 'd TimeWindows \<Rightarrow> 'd TimeWindows" where
  "add_all D base xs t = foldl (\<lambda>t (s, v). Add D (base + s * second) v t) t xs"

locale window_data =
  fixes D :: "('v, 'd, 'r) WindowData"
  assumes reset: "wo_Reset D d = wo_new D"
begin

lemma wrapper_reset: "wrapper_Reset D d = newWindowDataWrapper D"
  by (simp add: wrapper_Reset_def newWindowDataWrapper_def reset)

lemma slot_of_none: "\<forall>x \<in> set xs. fst x \<noteq> s \<Longrightarrow> slot_of D xs s = newWindowDataWrapper D"
  by (simp add: slot_of_def newWindowDataWrapper_def filter_empty_conv Let_def)

lemma slot_of_snoc: "slot_of D (xs @ [(t, v)]) s = (if t = s then wrapper_Accept D v (slot_of D xs s) else slot_of D xs s)"
  by (simp add: slot_of_def wrapper_Accept_def Let_def)

lemma rotate_slots: "m \<le> length ds \<Longrightarrow> (rotate_slot D ^^ m) ds = drop m ds @ replicate m (newWindowDataWrapper D)"
proof (induction m)
  case (Suc m)
  then obtain d ds' where d: "drop m ds = d # ds'" "drop (Suc m) ds = ds'"
    by (metis Cons_nth_drop_Suc Suc_le_eq)
  then show ?case using Suc by (simp add: rotate_slot_def wrapper_reset replicate_append_same)
qed simp

text \<open>The slot \<open>k\<close> places before the back is the one of \<open>k\<close> seconds before the end.\<close>

lemma moved_slots:
  assumes "length ds = n" "\<forall>k < n. ds ! (n - 1 - k) = slot_of D xs (e - int k)" "\<forall>x \<in> set xs. fst x \<le> e" "e < t"
  defines "ds' \<equiv> (if t - e > int n then map (wrapper_Reset D) ds else (rotate_slot D ^^ nat (t - e)) ds)"
  shows "length ds' = n" "\<forall>k < n. ds' ! (n - 1 - k) = slot_of D xs (t - int k)"
proof -
  have new: "slot_of D xs (t - int k) = newWindowDataWrapper D" if "int k < t - e" for k
    using assms(3) that by (intro slot_of_none) force
  show "length ds' = n" using assms(1) unfolding ds'_def by (simp add: rotate_slots)
  show "\<forall>k < n. ds' ! (n - 1 - k) = slot_of D xs (t - int k)"
  proof (intro allI impI)
    fix k assume k: "k < n"
    show "ds' ! (n - 1 - k) = slot_of D xs (t - int k)"
    proof (cases "t - e > int n")
      case True
      then show ?thesis using k assms(1) new [of k] by (simp add: ds'_def wrapper_reset)
    next
      case False
      define m where "m = nat (t - e)"
      have m: "m \<le> n" "int m = t - e" using False assms(4) by (simp_all add: m_def)
      have ds': "ds' = drop m ds @ replicate m (newWindowDataWrapper D)"
        using False m(1) assms(1) by (simp add: ds'_def rotate_slots m_def [symmetric])
      show ?thesis
      proof (cases "k < m")
        case True
        then show ?thesis using k m assms(1) new [of k] by (simp add: ds' nth_append)
      next
        case False
        then have "ds' ! (n - 1 - k) = ds ! (n - 1 - (k - m))" using k m assms(1) by (auto simp: ds' nth_append add.commute)
        moreover have "e - int (k - m) = t - int k" using False m by (simp add: of_nat_diff)
        moreover have "ds ! (n - 1 - (k - m)) = slot_of D xs (e - int (k - m))" using assms(2) k by (simp del: One_nat_def)
        ultimately show ?thesis by (simp only:)
      qed
    qed
  qed
qed

lemma Add_slots:
  assumes "length (tw_data w) = n" "\<forall>k < n. tw_data w ! (n - 1 - k) = slot_of D xs (e - int k)" "\<forall>x \<in> set xs. fst x \<le> e"
    and "tw_endTime w = Some (base + e * second)" and w': "w' = Add D (base + t * second) v w"
  shows "length (tw_data w') = n" "\<forall>k < n. tw_data w' ! (n - 1 - k) = slot_of D (xs @ [(t, v)]) (max e t - int k)"
    "tw_endTime w' = Some (base + max e t * second)" "tw_lastFlushTime w' = tw_lastFlushTime w"
proof -
  define e' where "e' = max e t"
  define w1 where "w1 = (if e < t then moveTo D (base + e * second) (base + t * second) w else w)"
  have w1: "length (tw_data w1) = n" "\<forall>k < n. tw_data w1 ! (n - 1 - k) = slot_of D xs (e' - int k)"
    "tw_endTime w1 = Some (base + e' * second)" "tw_lastFlushTime w1 = tw_lastFlushTime w"
    using moved_slots [OF assms(1-3), of t] assms(1, 2, 4) by (auto simp: w1_def e'_def moveTo_def Let_def max_def)
  have same: "w\<lparr>tw_endTime := Some (base + e * second)\<rparr> = w" using assms(4) by (cases w) simp
  have eq: "w' = (if e' - t \<ge> int n then w1 else appendDataToSlot D (int n - (e' - t) - 1) v w1)"
  proof (cases "e < t")
    case True
    then show ?thesis using w1(1) assms(4) by (simp add: w' Add_def w1_def e'_def Let_def same)
  next
    case False
    then show ?thesis using w1(1) assms(4) by (simp add: w' Add_def w1_def e'_def Let_def max_def same)
  qed
  show "length (tw_data w') = n" "tw_endTime w' = Some (base + max e t * second)" "tw_lastFlushTime w' = tw_lastFlushTime w"
    using w1 by (auto simp: eq appendDataToSlot_def e'_def)
  show "\<forall>k < n. tw_data w' ! (n - 1 - k) = slot_of D (xs @ [(t, v)]) (max e t - int k)"
  proof (intro allI impI)
    fix k assume k: "k < n"
    show "tw_data w' ! (n - 1 - k) = slot_of D (xs @ [(t, v)]) (max e t - int k)"
    proof (cases "e' - t \<ge> int n")
      case True
      then show ?thesis using k w1(2) by (simp add: eq slot_of_snoc flip: e'_def)
    next
      case False
      define j where "j = nat (e' - t)"
      have j: "int j = e' - t" "j < n" using False by (auto simp: j_def e'_def)
      have "tw_data w' = (tw_data w1)[n - 1 - j := wrapper_Accept D v (tw_data w1 ! (n - 1 - j))]"
      proof -
        have "nat (int n - (e' - t) - 1) = n - 1 - j" "0 \<le> int n - (e' - t) - 1" "int n - (e' - t) - 1 \<le> int n" using j by linarith+
        then show ?thesis using False by (simp add: eq appendDataToSlot_def w1(1))
      qed
      moreover have "n - 1 - k = n - 1 - j \<longleftrightarrow> k = j" using k j by linarith
      ultimately show ?thesis using k j w1(1, 2) by (auto simp: slot_of_snoc nth_list_update simp flip: e'_def)
    qed
  qed
qed

lemma add_all_slots:
  assumes "xs \<noteq> []" "n = nat (max_period items)" "w = add_all D base xs (NewTimeWindows D items)" "e = Max (fst ` set xs)"
  shows "length (tw_data w) = n \<and> tw_endTime w = Some (base + e * second) \<and> tw_lastFlushTime w = None \<and>
    (\<forall>k < n. tw_data w ! (n - 1 - k) = slot_of D xs (e - int k))"
  using assms(1, 3, 4)
proof (induction xs arbitrary: w e rule: rev_induct)
  case (snoc x xs)
  obtain t v where x: "x = (t, v)" by (cases x)
  show ?case
  proof (cases "xs = []")
    case True
    let ?w0 = "(NewTimeWindows D items)\<lparr>tw_endTime := Some (base + t * second)\<rparr>"
    have "w = Add D (base + t * second) v ?w0"
      using snoc.prems True x by (simp add: add_all_def Add_def NewTimeWindows_def Let_def)
    moreover have "length (tw_data ?w0) = n" "\<forall>k < n. tw_data ?w0 ! (n - 1 - k) = slot_of D [] (t - int k)" "tw_lastFlushTime ?w0 = None"
      using assms(2) by (simp_all add: NewTimeWindows_def slot_of_none)
    ultimately show ?thesis using Add_slots [of ?w0 n "[]" t base w t v] True snoc.prems(3) x by simp
  next
    case False
    define w1 where "w1 = add_all D base xs (NewTimeWindows D items)"
    define e1 where "e1 = Max (fst ` set xs)"
    have i: "length (tw_data w1) = n" "tw_endTime w1 = Some (base + e1 * second)" "tw_lastFlushTime w1 = None"
      "\<forall>k < n. tw_data w1 ! (n - 1 - k) = slot_of D xs (e1 - int k)"
      using snoc.IH [OF False w1_def e1_def] by simp_all
    have w: "w = Add D (base + t * second) v w1" using snoc.prems x by (simp add: add_all_def w1_def)
    have e: "max e1 t = e" using snoc.prems(3) x False by (simp add: e1_def max.commute)
    have m: "\<forall>y \<in> set xs. fst y \<le> e1" by (simp add: e1_def)
    show ?thesis using Add_slots [OF i(1, 4) m i(2) w] i(3) unfolding e x by simp
  qed
qed simp

lemma match_fold:
  "foldl (\<lambda>(lastMatch, n) e. let v = wrapper_Get D e in if check v then (Some v, n + 1) else (lastMatch, n)) (lm, c) es =
     (if filter (\<lambda>e. check (wrapper_Get D e)) es = [] then lm else Some (wrapper_Get D (last (filter (\<lambda>e. check (wrapper_Get D e)) es))),
      c + int (length (filter (\<lambda>e. check (wrapper_Get D e)) es)))"
  by (induction es arbitrary: lm c) (auto simp: Let_def)

lemma MatchRule_count: "snd (MatchRule D item check t) \<longleftrightarrow> pi_Count item \<le> int (length (filter (\<lambda>e. check (wrapper_Get D e)) (tw_data t)))"
  by (simp add: MatchRule_def match_fold rev_filter [symmetric])

lemma slots_count:
  assumes "length ds = n" "\<forall>k < n. ds ! (n - 1 - k) = f k"
  shows "length (filter P ds) = card {k. k < n \<and> P (f k)}"
proof -
  have "rev ds = map f [0..<n]"
    using assms by (intro nth_equalityI) (auto simp: rev_nth)
  then have "length (filter P ds) = length (filter P (map f [0..<n]))" by (metis length_rev rev_filter)
  also have "\<dots> = length (filter (P \<circ> f) [0..<n])" by (simp add: filter_map)
  also have "\<dots> = card (set (filter (P \<circ> f) [0..<n]))" by (rule distinct_card [symmetric]) simp
  also have "set (filter (P \<circ> f) [0..<n]) = {k. k < n \<and> P (f k)}" by auto
  finally show ?thesis .
qed

text \<open>A rule matches when enough of the last seconds pass the check.\<close>

lemma rule_counts_seconds:
  assumes "xs \<noteq> []" "w = add_all D base xs (NewTimeWindows D items)" "e = Max (fst ` set xs)"
  shows "snd (MatchRule D item check w) \<longleftrightarrow>
    pi_Count item \<le> int (card {k. k < nat (max_period items) \<and> check (wrapper_Get D (slot_of D xs (e - int k)))})"
  using slots_count [where P = "\<lambda>s. check (wrapper_Get D s)" and ds = "tw_data w" and f = "\<lambda>k. slot_of D xs (e - int k)"
      and n = "nat (max_period items)"] add_all_slots [OF assms(1) refl assms(2, 3)]
  by (simp add: MatchRule_count)

text \<open>What a later flush reports: the seconds since the last one, the newest first, as far as the windows reach.\<close>

lemma flush_new_seconds:
  assumes "length (tw_data w) = n" "\<forall>k < n. tw_data w ! (n - 1 - k) = slot_of D xs (e - int k)"
    and "tw_endTime w = Some (base + e * second)" "tw_lastFlushTime w = Some (base + f * second)" "f < e"
  shows "FlushMultipleRecentData D w =
    (Some (map (wrapper_Get D) (filter wd_hasData (map (\<lambda>k. slot_of D xs (e - int k)) [0..<min n (nat (e - f))]))),
     w\<lparr>tw_lastFlushTime := Some (base + e * second)\<rparr>)"
proof -
  have "rev (tw_data w) = map (\<lambda>k. slot_of D xs (e - int k)) [0..<n]"
    using assms(1, 2) by (intro nth_equalityI) (auto simp: rev_nth)
  moreover have "f * second < e * second" using assms(5) by simp
  moreover have "take (nat (e - f)) (map (\<lambda>k. slot_of D xs (e - int k)) [0..<n]) = map (\<lambda>k. slot_of D xs (e - int k)) [0..<min n (nat (e - f))]"
    by (rule nth_equalityI) auto
  ultimately show ?thesis using assms(3-5) by (simp add: FlushMultipleRecentData_def shouldFlush_def)
qed

lemma scale_down:
  assumes "length (tw_data w) = n" "\<forall>k < n. tw_data w ! (n - 1 - k) = slot_of D xs (e - int k)" "nat (max_period items) = m" "m < n" "0 \<le> max_period items"
  shows "length (tw_data (ScalePeriod D items w)) = m"
    "\<forall>k < m. tw_data (ScalePeriod D items w) ! (m - 1 - k) = slot_of D xs (e - int (n - m) - int k)"
proof -
  have b: "(butlast ^^ i) ds = take (length ds - i) ds" for i and ds :: "'d windowDataWrapper list"
    by (induction i) (auto simp: butlast_take)
  have "tw_data (ScalePeriod D items w) = take m (tw_data w)"
  proof -
    have "length (tw_data w) - nat (int (length (tw_data w)) - max_period items) = m" using assms(1, 3-5) by linarith
    then show ?thesis using assms(1, 3-5) by (auto simp: ScalePeriod_def Let_def b)
  qed
  moreover have "tw_data w ! (m - 1 - k) = slot_of D xs (e - int (n - m) - int k)" if "k < m" for k
  proof -
    have "n - m + k < n" "n - 1 - (n - m + k) = m - 1 - k" "e - int (n - m + k) = e - int (n - m) - int k" using that assms(4) by linarith+
    then show ?thesis using assms(2) by metis
  qed
  ultimately show "length (tw_data (ScalePeriod D items w)) = m"
    "\<forall>k < m. tw_data (ScalePeriod D items w) ! (m - 1 - k) = slot_of D xs (e - int (n - m) - int k)"
    using assms(1, 4) by auto
qed

end

interpretation latest: window_data "LatestWindowData zero" for zero
  by unfold_locales (simp add: LatestWindowData_def)

end
