(* ===== verification/Continuous_Checker.thy ===== *)
theory Continuous_Checker
  imports Complex_Main Time_Windows "HOL-Library.AList" "HOL-Library.Log_Nat"
begin

text \<open>
  The checkers of continuous profiling, \<^verbatim>\<open>pkg/profiling/continuous/checker\<close>: each keeps windows for the processes
  that a policy covers, feeds them and says which policies are reached. Parsing a threshold, measuring a process and regular
  expressions are arguments. A floating-point number is the rational number that it stands for, and every operation rounds as
  \<^verbatim>\<open>float64\<close> does; a quotient by zero, which is not a number, is \<open>None\<close>.
\<close>

text \<open>\<^verbatim>\<open>m[k] = append(m[k], x)\<close> on a map whose entries are kept in the order of their first insertion.\<close>

definition append_at :: "'k \<Rightarrow> 'x \<Rightarrow> ('k \<times> 'x list) list \<Rightarrow> ('k \<times> 'x list) list" where
  "append_at k x m = AList.update k ((case map_of m k of None \<Rightarrow> [] | Some xs \<Rightarrow> xs) @ [x]) m"

text \<open>\<^verbatim>\<open>strings.ToLower\<close> on ASCII.\<close>

definition str_lower :: "string \<Rightarrow> string" where
  "str_lower = map (\<lambda>c. let n = of_char c :: nat in if 65 \<le> n \<and> n \<le> 90 then char_of (n + 32) else c)"

section \<open>Floating-point numbers\<close>

text \<open>
  The nearest \<^verbatim>\<open>float64\<close> of a number, of two that are equally near the one with the even mantissa: 53 bits of
  mantissa and a smallest exponent of -1074. Numbers that are too large for the format do not occur: counts and durations are
  64-bit integers.
\<close>

definition round_even :: "rat \<Rightarrow> int" where
  "round_even x = (let f = \<lfloor>x\<rfloor>; r = x - of_int f in if r < 1 / 2 \<or> r = 1 / 2 \<and> even f then f else f + 1)"

definition pow2 :: "int \<Rightarrow> rat" where
  "pow2 e = (if 0 \<le> e then 2 ^ nat e else 1 / 2 ^ nat (- e))"

definition float_exponent :: "rat \<Rightarrow> int" where
  "float_exponent x = (case quotient_of x of (a, b) \<Rightarrow> let k = bitlen a - bitlen b in if pow2 k \<le> x then k else k - 1)"

definition float64 :: "rat \<Rightarrow> rat" where
  "float64 x = (if x = 0 then 0 else let e = max (float_exponent \<bar>x\<bar> - 52) (- 1074) in of_int (round_even (x * pow2 (- e))) * pow2 e)"

lemma round_even_int [simp]: "round_even (of_int k) = k"
  by (simp add: round_even_def)

lemma pow2_inverse: "pow2 (- e) * pow2 e = 1"
  by (auto simp: pow2_def)

lemma float_exponent_int: "0 < k \<Longrightarrow> float_exponent (of_int k) \<le> bitlen k - 1"
  by (simp add: float_exponent_def Let_def quotient_of_int bitlen_def floorlog_def)

text \<open>Integers of at most 53 bits are kept.\<close>

lemma float64_int: "\<bar>k\<bar> < 2 ^ 53 \<Longrightarrow> float64 (of_int k) = of_int k"
proof (cases "k = 0")
  case False
  assume k: "\<bar>k\<bar> < 2 ^ 53"
  define e where "e = max (float_exponent \<bar>of_int k\<bar> - 52) (- 1074)"
  have "bitlen \<bar>k\<bar> \<le> 53" using k bitlen_le_iff_power [of "\<bar>k\<bar>" 53] by simp
  then have "e \<le> 0" using float_exponent_int [of "\<bar>k\<bar>"] False by (simp add: e_def)
  then have "of_int k * pow2 (- e) = of_int (k * 2 ^ nat (- e))" by (simp add: pow2_def)
  then have "float64 (of_int k) = of_int k * pow2 (- e) * pow2 e"
    using False by (simp only: float64_def e_def [symmetric] Let_def round_even_int) simp
  then show ?thesis by (simp add: mult.assoc pow2_inverse)
qed (simp add: float64_def)

section \<open>Processes and metrics\<close>

record process_ref =
  pf_ID :: string
  pf_Pid :: int
  pf_ServiceName :: string
  pf_InstanceName :: string
  pf_ProcessName :: string
  pf_Layer :: string
  pf_Labels :: "string list"

record 'x MeterData =
  me_Service :: string
  me_ServiceInstance :: string
  me_Timestamp :: int
  me_Name :: string
  me_Labels :: "(string \<times> string) list"
  me_Value :: 'x

record 'x MetricsAppender =
  ma_prefix :: string
  ma_timestamp :: int
  ma_meters :: "((string \<times> string) \<times> 'x MeterData list) list"

definition NewMetricsAppender :: "string \<Rightarrow> int \<Rightarrow> 'x MetricsAppender" where
  "NewMetricsAppender prefix now = \<lparr>ma_prefix = prefix, ma_timestamp = now, ma_meters = []\<rparr>"

definition AppendProcessSingleValue ::
  "string \<Rightarrow> process_ref \<Rightarrow> (string \<times> string) list \<Rightarrow> 'x \<Rightarrow> 'x MetricsAppender \<Rightarrow> 'x MetricsAppender" where
  "AppendProcessSingleValue name p labels value m = m\<lparr>ma_meters := append_at (pf_ServiceName p, pf_InstanceName p)
     \<lparr>me_Service = pf_ServiceName p, me_ServiceInstance = pf_InstanceName p, me_Timestamp = ma_timestamp m,
      me_Name = ma_prefix m @ ''_'' @ name,
      me_Labels = labels @ [(''process_name'', pf_ProcessName p), (''layer'', pf_Layer p)], me_Value = value\<rparr> (ma_meters m)\<rparr>"

text \<open>
  \<^verbatim>\<open>Flush\<close>: the collections that are sent on the stream, one for each instance, up to the first that cannot be sent.
\<close>

definition Flush_meters :: "('x MeterData list \<Rightarrow> bool) \<Rightarrow> 'x MetricsAppender \<Rightarrow> 'x MeterData list list" where
  "Flush_meters sendOk m = (let cs = map snd (ma_meters m) in takeWhile sendOk cs)"

section \<open>Policies of processes\<close>

type_synonym CheckType = string

record SyncPolicyWithProcesses =
  sy_Items :: "CheckType \<rightharpoonup> PolicyItem"
  sy_Processes :: "process_ref list"

text \<open>The items of each process, in the order of the policies.\<close>

definition policy_items ::
  "((CheckType \<rightharpoonup> PolicyItem) \<Rightarrow> PolicyItem option) \<Rightarrow> SyncPolicyWithProcesses list \<Rightarrow> (process_ref \<times> PolicyItem list) list" where
  "policy_items getEnabledItem policies = foldl (\<lambda>m sp. case getEnabledItem (sy_Items sp) of
      None \<Rightarrow> m | Some item \<Rightarrow> foldl (\<lambda>m p. append_at p item m) m (sy_Processes sp)) [] policies"

text \<open>
  \<^verbatim>\<open>BaseChecker.SyncPolicies\<close>: the new information of every process, made from the old one of the same pid, and what is
  notified: the pids that are new and then those that are gone. Making information may panic and changes the state \<open>'s\<close> that
  the generator works on.
\<close>

type_synonym ('i, 's) info_generator = "process_ref \<Rightarrow> 'i option \<Rightarrow> PolicyItem list \<Rightarrow> 's \<Rightarrow> ('i \<times> 's) or_panic"

fun generate_infos ::
  "('i, 's) info_generator \<Rightarrow> (int \<times> 'i) list \<Rightarrow> (process_ref \<times> PolicyItem list) list \<Rightarrow> (int \<times> 'i) list \<Rightarrow> 's \<Rightarrow>
     ((int \<times> 'i) list \<times> 's) or_panic" where
  "generate_infos gen older [] result st = Inr (result, st)"
| "generate_infos gen older ((p, items) # ps) result st =
     panic_bind (gen p (map_of older (pf_Pid p)) items st) (\<lambda>(info, st').
       generate_infos gen older ps (AList.update (pf_Pid p) info result) st')"

definition SyncPolicies ::
  "('i, 's) info_generator \<Rightarrow> ((CheckType \<rightharpoonup> PolicyItem) \<Rightarrow> PolicyItem option) \<Rightarrow> SyncPolicyWithProcesses list \<Rightarrow>
     (int \<times> 'i) list \<times> 's \<Rightarrow> (((int \<times> 'i) list \<times> 's) \<times> (int \<times> bool) list) or_panic" where
  "SyncPolicies gen getEnabledItem policies = (\<lambda>(infos, st).
     let ps = policy_items getEnabledItem policies in
     panic_bind (generate_infos gen infos ps [] st) (\<lambda>(result, st').
       Inr ((result, st'),
         map (\<lambda>(p, _). (pf_Pid p, False)) (filter (\<lambda>(p, _). map_of infos (pf_Pid p) = None) ps) @
         map (\<lambda>(pid, _). (pid, True)) (filter (\<lambda>(pid, _). map_of result pid = None) infos))))"

text \<open>The item of a check type, when its threshold can be read.\<close>

definition enabled_item :: "(string \<Rightarrow> 'n option) \<Rightarrow> CheckType \<Rightarrow> (CheckType \<rightharpoonup> PolicyItem) \<Rightarrow> PolicyItem option" where
  "enabled_item thresholdGenerate checkType items =
     (case items checkType of None \<Rightarrow> None | Some item \<Rightarrow> if thresholdGenerate (pi_Threshold item) = None then None else Some item)"

text \<open>A reached policy.\<close>

record 'n SingleValueCause =
  sc_process :: process_ref
  sc_policy :: PolicyItem
  sc_threshold :: 'n
  sc_current :: 'n

text \<open>Whether a process may be checked against an item, which the triggers say.\<close>

type_synonym check_context = "process_ref \<Rightarrow> PolicyItem \<Rightarrow> bool or_panic"

section \<open>Checkers of a process\<close>

record 'n ProcessBasedPolicy =
  pp_Threshold :: 'n
  pp_Policy :: PolicyItem

record 'n ProcessBasedInfo =
  pb_Process :: process_ref
  pb_Windows :: "'n TimeWindows"
  pb_Policies :: "'n ProcessBasedPolicy list"

record 'n ProcessBasedChecker =
  pc_CheckType :: CheckType
  pc_ThresholdGenerate :: "string \<Rightarrow> 'n option"
  pc_PidWithInfos :: "(int \<times> 'n ProcessBasedInfo) list"

definition process_info :: "(string \<Rightarrow> 'n option) \<Rightarrow> ('n :: zero ProcessBasedInfo, unit) info_generator" where
  "process_info thresholdGenerate p older items = (\<lambda>_.
     Inr (\<lparr>pb_Process = p,
           pb_Windows = (case older of Some o' \<Rightarrow> ScalePeriod (LatestWindowData 0) items (pb_Windows o')
                         | None \<Rightarrow> NewTimeWindows (LatestWindowData 0) items),
           pb_Policies = map (\<lambda>i. \<lparr>pp_Threshold = (case thresholdGenerate (pi_Threshold i) of None \<Rightarrow> 0 | Some v \<Rightarrow> v), pp_Policy = i\<rparr>) items\<rparr>, ()))"

definition Process_SyncPolicies :: "SyncPolicyWithProcesses list \<Rightarrow> 'n :: zero ProcessBasedChecker \<Rightarrow> 'n ProcessBasedChecker or_panic" where
  "Process_SyncPolicies policies r =
     panic_bind (SyncPolicies (process_info (pc_ThresholdGenerate r)) (enabled_item (pc_ThresholdGenerate r) (pc_CheckType r)) policies
         (pc_PidWithInfos r, ()))
       (\<lambda>((infos, _), _). Inr (r\<lparr>pc_PidWithInfos := infos\<rparr>))"

definition Process_Fetch :: "(process_ref \<Rightarrow> 'n option) \<Rightarrow> int \<Rightarrow> 'n :: zero ProcessBasedChecker \<Rightarrow> 'n ProcessBasedChecker" where
  "Process_Fetch dataGenerate now r = r\<lparr>pc_PidWithInfos := map (\<lambda>(pid, info). (pid,
      case dataGenerate (pb_Process info) of None \<Rightarrow> info
      | Some val \<Rightarrow> info\<lparr>pb_Windows := Add (LatestWindowData 0) now val (pb_Windows info)\<rparr>)) (pc_PidWithInfos r)\<rparr>"

fun check_policies ::
  "check_context \<Rightarrow> CheckType \<Rightarrow> process_ref \<Rightarrow> 'n :: {zero, ord} ProcessBasedPolicy list \<Rightarrow> 'n TimeWindows \<times> 'n MetricsAppender \<times> 'n SingleValueCause list \<Rightarrow>
     ('n TimeWindows \<times> 'n MetricsAppender \<times> 'n SingleValueCause list) or_panic" where
  "check_policies ctx ct p [] s = Inr s"
| "check_policies ctx ct p (t # ts) (w, m, causes) =
     panic_bind (FlushMostRecentData (LatestWindowData 0) w) (\<lambda>(data, w').
       let m' = (case data of None \<Rightarrow> m | Some d \<Rightarrow> AppendProcessSingleValue (str_lower ct) p [] d m) in
       panic_bind (ctx p (pp_Policy t)) (\<lambda>should.
         let causes' = (case MatchRule (LatestWindowData 0) (pp_Policy t) (\<lambda>v. v \<ge> pp_Threshold t) w' of
              (lastMatch, enable) \<Rightarrow> if should \<and> enable
                then causes @ [\<lparr>sc_process = p, sc_policy = pp_Policy t, sc_threshold = pp_Threshold t,
                                sc_current = (case lastMatch of None \<Rightarrow> 0 | Some v \<Rightarrow> v)\<rparr>] else causes)
         in check_policies ctx ct p ts (w', m', causes')))"

fun check_infos ::
  "check_context \<Rightarrow> CheckType \<Rightarrow> (int \<times> 'n :: {zero, ord} ProcessBasedInfo) list \<Rightarrow> 'n MetricsAppender \<times> 'n SingleValueCause list \<Rightarrow>
     ((int \<times> 'n ProcessBasedInfo) list \<times> 'n MetricsAppender \<times> 'n SingleValueCause list) or_panic" where
  "check_infos ctx ct [] (m, causes) = Inr ([], m, causes)"
| "check_infos ctx ct ((pid, info) # is) (m, causes) =
     panic_bind (check_policies ctx ct (pb_Process info) (pb_Policies info) (pb_Windows info, m, causes)) (\<lambda>(w, m', causes').
       panic_bind (check_infos ctx ct is (m', causes')) (\<lambda>(is', r). Inr ((pid, info\<lparr>pb_Windows := w\<rparr>) # is', r)))"

definition Process_Check ::
  "check_context \<Rightarrow> 'n :: {zero, ord} MetricsAppender \<Rightarrow> 'n ProcessBasedChecker \<Rightarrow>
     ('n ProcessBasedChecker \<times> 'n MetricsAppender \<times> 'n SingleValueCause list) or_panic" where
  "Process_Check ctx m r =
     panic_bind (check_infos ctx (pc_CheckType r) (pc_PidWithInfos r) (m, [])) (\<lambda>(infos, rest). Inr (r\<lparr>pc_PidWithInfos := infos\<rparr>, rest))"

section \<open>Checkers of the system\<close>

record 'n SystemBasedPolicy =
  sb_Threshold :: 'n
  sb_Policy :: PolicyItem
  sb_Processes :: "process_ref list"

record 'n SystemBasedChecker =
  sk_CheckType :: CheckType
  sk_ThresholdGenerate :: "string \<Rightarrow> 'n option"
  sk_GlobalWindows :: "'n TimeWindows"
  sk_Policies :: "'n SystemBasedPolicy list"

definition NewSystemBasedChecker :: "CheckType \<Rightarrow> (string \<Rightarrow> 'n option) \<Rightarrow> 'n :: zero SystemBasedChecker" where
  "NewSystemBasedChecker checkType thresholdGenerate = \<lparr>sk_CheckType = checkType, sk_ThresholdGenerate = thresholdGenerate,
     sk_GlobalWindows = NewTimeWindows (LatestWindowData 0) [], sk_Policies = []\<rparr>"

definition system_policy :: "'n SystemBasedChecker \<Rightarrow> SyncPolicyWithProcesses \<Rightarrow> 'n SystemBasedPolicy option" where
  "system_policy s sp = (case sy_Items sp (sk_CheckType s) of None \<Rightarrow> None
    | Some item \<Rightarrow> (case sk_ThresholdGenerate s (pi_Threshold item) of None \<Rightarrow> None
       | Some threshold \<Rightarrow> Some \<lparr>sb_Threshold = threshold, sb_Policy = item, sb_Processes = sy_Processes sp\<rparr>))"

definition System_SyncPolicies :: "SyncPolicyWithProcesses list \<Rightarrow> 'n :: zero SystemBasedChecker \<Rightarrow> 'n SystemBasedChecker" where
  "System_SyncPolicies policies s =
     (let result = List.map_filter (system_policy s) policies
      in s\<lparr>sk_Policies := result, sk_GlobalWindows := ScalePeriod (LatestWindowData 0) (map sb_Policy result) (sk_GlobalWindows s)\<rparr>)"

definition System_Fetch :: "'n option \<Rightarrow> int \<Rightarrow> 'n :: zero SystemBasedChecker \<Rightarrow> 'n SystemBasedChecker" where
  "System_Fetch data now s =
     (if sk_Policies s = [] then s
      else case data of None \<Rightarrow> s | Some val \<Rightarrow> s\<lparr>sk_GlobalWindows := Add (LatestWindowData 0) now val (sk_GlobalWindows s)\<rparr>)"

fun should_processes :: "check_context \<Rightarrow> PolicyItem \<Rightarrow> process_ref list \<Rightarrow> process_ref list or_panic" where
  "should_processes ctx item [] = Inr []"
| "should_processes ctx item (p # ps) =
     panic_bind (ctx p item) (\<lambda>should. panic_bind (should_processes ctx item ps) (\<lambda>rest. Inr (if should then p # rest else rest)))"

fun check_system ::
  "check_context \<Rightarrow> CheckType \<Rightarrow> 'n option \<Rightarrow> 'n :: {zero, ord} TimeWindows \<Rightarrow> 'n SystemBasedPolicy list \<Rightarrow>
     'n MetricsAppender \<times> 'n SingleValueCause list \<Rightarrow> ('n MetricsAppender \<times> 'n SingleValueCause list) or_panic" where
  "check_system ctx ct data w [] s = Inr s"
| "check_system ctx ct data w (policy # ps) (m, causes) =
     (let m' = (case data of None \<Rightarrow> m | Some d \<Rightarrow> fold (\<lambda>p. AppendProcessSingleValue (str_lower ct) p [] d) (sb_Processes policy) m) in
      case MatchRule (LatestWindowData 0) (sb_Policy policy) (\<lambda>v. v \<ge> sb_Threshold policy) w of
        (lastMatch, isMatch) \<Rightarrow>
          if \<not> isMatch then check_system ctx ct data w ps (m', causes)
          else panic_bind (should_processes ctx (sb_Policy policy) (sb_Processes policy)) (\<lambda>procs.
            check_system ctx ct data w ps (m', causes @ map (\<lambda>p. \<lparr>sc_process = p, sc_policy = sb_Policy policy,
               sc_threshold = sb_Threshold policy, sc_current = (case lastMatch of None \<Rightarrow> 0 | Some v \<Rightarrow> v)\<rparr>) procs)))"

definition System_Check ::
  "check_context \<Rightarrow> 'n :: {zero, ord} MetricsAppender \<Rightarrow> 'n SystemBasedChecker \<Rightarrow>
     ('n SystemBasedChecker \<times> 'n MetricsAppender \<times> 'n SingleValueCause list) or_panic" where
  "System_Check ctx m s =
     (if sk_Policies s = [] then Inr (s, m, [])
      else panic_bind (FlushMostRecentData (LatestWindowData 0) (sk_GlobalWindows s)) (\<lambda>(data, w).
        panic_bind (check_system ctx (sk_CheckType s) data w (sk_Policies s) (m, [])) (\<lambda>r. Inr (s\<lparr>sk_GlobalWindows := w\<rparr>, r))))"

section \<open>Checkers of HTTP\<close>

text \<open>A request with its response, as the analyzer of the buffers reports it; times in nanoseconds.\<close>

record BufferEvent =
  be_Pid :: int
  be_RequestURI :: string
  be_IsResponseError :: bool
  be_Duration :: int
  be_StartTime :: int

text \<open>The two kinds of data: the rate of errors in percent and the mean duration in milliseconds.\<close>

definition ErrorStatics :: "(BufferEvent, int \<times> int, rat option) WindowData" where
  "ErrorStatics = \<lparr>wo_new = (0, 0), wo_Reset = (\<lambda>_. (0, 0)),
     wo_Accept = (\<lambda>data (total, errors). (total + 1, if be_IsResponseError data then errors + 1 else errors)),
     wo_Get = (\<lambda>(total, errors). Some (if total = 0 then 0
       else float64 (float64 (float64 (of_int errors) / float64 (of_int total)) * 100)))\<rparr>"

definition millisecond :: int where "millisecond = 1000000"

definition AvgResponseTimeStatics :: "(BufferEvent, int \<times> int, rat option) WindowData" where
  "AvgResponseTimeStatics = \<lparr>wo_new = (0, 0), wo_Reset = (\<lambda>_. (0, 0)),
     wo_Accept = (\<lambda>data (total, duration). (total + 1, duration + sgn (be_Duration data) * (\<bar>be_Duration data\<bar> div millisecond))),
     wo_Get = (\<lambda>(total, duration). if total = 0 then None else Some (float64 (float64 (of_int duration) / float64 (of_int total))))\<rparr>"

text \<open>
  Windows are shared by reference: a policy that takes them over from an older one keeps the references. The store holds the
  windows, a reference is a position in it. A compiled regular expression is its source.
\<close>

type_synonym 'd window_store = "'d TimeWindows list"

record HTTPPolicyWindows =
  hp_item :: PolicyItem
  hp_uriWithTimeWindows :: "(string \<times> nat) list"
  hp_uriRegex :: "string option"
  hp_defaultTimeWindows :: "nat option"
  hp_threshold :: rat

record HTTPProcessInfo =
  hi_Process :: process_ref
  hi_PolicyWithWindows :: "HTTPPolicyWindows list"

record 'd HTTPBasedChecker =
  hc_CheckType :: CheckType
  hc_ThresholdGenerate :: "string \<Rightarrow> rat option"
  hc_PidWithInfos :: "(int \<times> HTTPProcessInfo) list"
  hc_store :: "'d window_store"

record regexps =
  rx_compiles :: "string \<Rightarrow> bool"
  rx_matches :: "string \<Rightarrow> string \<Rightarrow> bool"

definition scale_refs :: "('v, 'd, 'r) WindowData \<Rightarrow> PolicyItem \<Rightarrow> nat list \<Rightarrow> 'd window_store \<Rightarrow> 'd window_store" where
  "scale_refs D item refs st = foldl (\<lambda>st r. st[r := ScalePeriod D [item] (st ! r)]) st refs"

text \<open>Windows taken over from an older policy with the same filter.\<close>

definition take_over ::
  "('v, 'd, 'r) WindowData \<Rightarrow> PolicyItem \<Rightarrow> rat \<Rightarrow> HTTPPolicyWindows \<Rightarrow> 'd window_store \<Rightarrow> (HTTPPolicyWindows \<times> 'd window_store) or_panic" where
  "take_over D item threshold older st =
     (let info = \<lparr>hp_item = item, hp_uriWithTimeWindows = [], hp_uriRegex = None, hp_defaultTimeWindows = None, hp_threshold = threshold\<rparr> in
      if pi_URIList item \<noteq> []
      then Inr (info\<lparr>hp_uriWithTimeWindows := hp_uriWithTimeWindows older\<rparr>, scale_refs D item (map snd (hp_uriWithTimeWindows older)) st)
      else case hp_defaultTimeWindows older of
          None \<Rightarrow> Inl NilDereference
        | Some r \<Rightarrow> Inr (info\<lparr>hp_defaultTimeWindows := Some r\<rparr>, scale_refs D item [r] st))"

fun new_uri_windows :: "('v, 'd, 'r) WindowData \<Rightarrow> PolicyItem \<Rightarrow> string list \<Rightarrow> (string \<times> nat) list \<Rightarrow> 'd window_store \<Rightarrow> (string \<times> nat) list \<times> 'd window_store" where
  "new_uri_windows D item [] m st = (m, st)"
| "new_uri_windows D item (uri # uris) m st =
     new_uri_windows D item uris (AList.update uri (length st) m) (st @ [NewTimeWindows D [item]])"

text \<open>Windows of a policy without an older one; nothing when its regular expression does not compile.\<close>

definition new_windows ::
  "('v, 'd, 'r) WindowData \<Rightarrow> regexps \<Rightarrow> PolicyItem \<Rightarrow> rat \<Rightarrow> 'd window_store \<Rightarrow> HTTPPolicyWindows option \<times> 'd window_store" where
  "new_windows D rx item threshold st =
     (let (uris, st1) = new_uri_windows D item (pi_URIList item) [] st;
          regex = (if pi_URIList item = [] \<and> pi_URIRegex item \<noteq> [] then Some (pi_URIRegex item) else None) in
      if (case regex of None \<Rightarrow> False | Some r \<Rightarrow> \<not> rx_compiles rx r) then (None, st)
      else (Some \<lparr>hp_item = item, hp_uriWithTimeWindows = uris, hp_uriRegex = regex, hp_defaultTimeWindows = Some (length st1),
                  hp_threshold = threshold\<rparr>, st1 @ [NewTimeWindows D [item]]))"

fun http_items ::
  "('v, 'd, 'r) WindowData \<Rightarrow> regexps \<Rightarrow> (string \<Rightarrow> rat option) \<Rightarrow> HTTPPolicyWindows list \<Rightarrow> PolicyItem list \<Rightarrow> 'd window_store \<Rightarrow>
     (HTTPPolicyWindows list \<times> 'd window_store) or_panic" where
  "http_items D rx thresholdGenerate older [] st = Inr ([], st)"
| "http_items D rx thresholdGenerate older (item # items) st =
     (let threshold = (case thresholdGenerate (pi_Threshold item) of None \<Rightarrow> 0 | Some v \<Rightarrow> v) in
      case find (\<lambda>o'. SameURIFilter (hp_item o') item) older of
        Some o' \<Rightarrow>
          panic_bind (take_over D item threshold o' st) (\<lambda>(info, st').
            panic_bind (http_items D rx thresholdGenerate older items st') (\<lambda>(rest, st''). Inr (info # rest, st'')))
      | None \<Rightarrow>
          (case new_windows D rx item threshold st of (info, st') \<Rightarrow>
            panic_bind (http_items D rx thresholdGenerate older items st') (\<lambda>(rest, st'').
              Inr ((case info of None \<Rightarrow> rest | Some i \<Rightarrow> i # rest), st''))))"

definition http_info :: "('v, 'd, 'r) WindowData \<Rightarrow> regexps \<Rightarrow> (string \<Rightarrow> rat option) \<Rightarrow> (HTTPProcessInfo, 'd window_store) info_generator" where
  "http_info D rx thresholdGenerate p older items st =
     panic_bind (http_items D rx thresholdGenerate (case older of None \<Rightarrow> [] | Some i \<Rightarrow> hi_PolicyWithWindows i) items st)
       (\<lambda>(ws, st'). Inr (\<lparr>hi_Process = p, hi_PolicyWithWindows = ws\<rparr>, st'))"

text \<open>Synchronising, with the notifications for the watched processes.\<close>

definition HTTP_SyncPolicies ::
  "('v, 'd, 'r) WindowData \<Rightarrow> regexps \<Rightarrow> SyncPolicyWithProcesses list \<Rightarrow> 'd HTTPBasedChecker \<Rightarrow> ('d HTTPBasedChecker \<times> (int \<times> bool) list) or_panic" where
  "HTTP_SyncPolicies D rx policies n =
     panic_bind (SyncPolicies (http_info D rx (hc_ThresholdGenerate n)) (enabled_item (hc_ThresholdGenerate n) (hc_CheckType n)) policies
         (hc_PidWithInfos n, hc_store n))
       (\<lambda>((infos, st), notes). Inr (n\<lparr>hc_PidWithInfos := infos, hc_store := st\<rparr>, notes))"

text \<open>The windows that an event is added to, for one policy: nothing when its address does not fit.\<close>

definition matching_windows :: "regexps \<Rightarrow> string \<Rightarrow> HTTPPolicyWindows \<Rightarrow> nat option option" where
  "matching_windows rx uri info =
     (if hp_uriWithTimeWindows info \<noteq> [] then map_option Some (map_of (hp_uriWithTimeWindows info) uri)
      else if (case hp_uriRegex info of None \<Rightarrow> False | Some r \<Rightarrow> \<not> rx_matches rx r uri) then None
      else Some (hp_defaultTimeWindows info))"

fun receive_policies ::
  "(BufferEvent, 'd, 'r) WindowData \<Rightarrow> regexps \<Rightarrow> BufferEvent \<Rightarrow> HTTPPolicyWindows list \<Rightarrow> 'd window_store \<Rightarrow> 'd window_store or_panic" where
  "receive_policies D rx event [] st = Inr st"
| "receive_policies D rx event (info # infos) st =
     (case matching_windows rx (be_RequestURI event) info of
        None \<Rightarrow> receive_policies D rx event infos st
      | Some None \<Rightarrow> Inl NilDereference
      | Some (Some r) \<Rightarrow> receive_policies D rx event infos (st[r := Add D (be_StartTime event) event (st ! r)]))"

definition ReceiveBufferEvent ::
  "(BufferEvent, 'd, 'r) WindowData \<Rightarrow> regexps \<Rightarrow> BufferEvent \<Rightarrow> 'd HTTPBasedChecker \<Rightarrow> 'd HTTPBasedChecker or_panic" where
  "ReceiveBufferEvent D rx event n = (case map_of (hc_PidWithInfos n) (be_Pid event) of None \<Rightarrow> Inr n
    | Some info \<Rightarrow> panic_bind (receive_policies D rx event (hi_PolicyWithWindows info) (hc_store n)) (\<lambda>st. Inr (n\<lparr>hc_store := st\<rparr>)))"

record URICause =
  uc_IsRegex :: bool
  uc_URI :: string
  uc_process :: process_ref
  uc_policy :: PolicyItem
  uc_threshold :: rat
  uc_current :: "rat option"

definition reached :: "rat \<Rightarrow> rat option \<Rightarrow> bool" where
  "reached threshold v = (case v of None \<Rightarrow> False | Some x \<Rightarrow> x \<ge> threshold)"

definition flushMetrics ::
  "(BufferEvent, 'd, rat option) WindowData \<Rightarrow> CheckType \<Rightarrow> process_ref \<Rightarrow> string \<Rightarrow> nat \<Rightarrow> 'd window_store \<times> rat option MetricsAppender \<Rightarrow>
     'd window_store \<times> rat option MetricsAppender" where
  "flushMetrics D ct p uri r = (\<lambda>(st, m). case FlushMultipleRecentData D (st ! r) of
      (data, w) \<Rightarrow> (st[r := w], case data of None \<Rightarrow> m
        | Some ds \<Rightarrow> fold (AppendProcessSingleValue (str_lower ct) p [(''uri'', if uri = [] then ''global'' else uri)]) ds m))"

text \<open>One policy of one process: the metrics, and the causes if it may be checked.\<close>

definition check_item ::
  "(BufferEvent, 'd, rat option) WindowData \<Rightarrow> check_context \<Rightarrow> CheckType \<Rightarrow> process_ref \<Rightarrow> HTTPPolicyWindows \<Rightarrow>
     'd window_store \<times> rat option MetricsAppender \<times> URICause list \<Rightarrow> ('d window_store \<times> rat option MetricsAppender \<times> URICause list) or_panic" where
  "check_item D ctx ct p info = (\<lambda>(st, m, causes).
     let globalURI = (case hp_uriRegex info of None \<Rightarrow> [] | Some r \<Rightarrow> r);
         (st1, m1) = fold (\<lambda>(uri, r). flushMetrics D ct p uri r) (hp_uriWithTimeWindows info) (st, m);
         (st2, m2) = (case hp_defaultTimeWindows info of None \<Rightarrow> (st1, m1) | Some r \<Rightarrow> flushMetrics D ct p globalURI r (st1, m1));
         match = (\<lambda>r. MatchRule D (hp_item info) (reached (hp_threshold info)) (st2 ! r));
         cause = (\<lambda>isRegex uri v. \<lparr>uc_IsRegex = isRegex, uc_URI = uri, uc_process = p, uc_policy = hp_item info, uc_threshold = hp_threshold info,
                                  uc_current = v\<rparr>);
         uriCauses = concat (map (\<lambda>(uri, r). case match r of (v, hit) \<Rightarrow> if hit then [cause False uri (case v of None \<Rightarrow> Some 0 | Some x \<Rightarrow> x)] else [])
                       (hp_uriWithTimeWindows info))
     in panic_bind (ctx p (hp_item info)) (\<lambda>should.
          if \<not> should then Inr (st2, m2, causes)
          else case hp_defaultTimeWindows info of
              None \<Rightarrow> Inl NilDereference
            | Some r \<Rightarrow> (case match r of (v, hit) \<Rightarrow> Inr (st2, m2, causes @ uriCauses @
                (if hit then [cause (hp_uriRegex info \<noteq> None) globalURI (case v of None \<Rightarrow> Some 0 | Some x \<Rightarrow> x)] else [])))))"

fun check_items ::
  "(BufferEvent, 'd, rat option) WindowData \<Rightarrow> check_context \<Rightarrow> CheckType \<Rightarrow> (process_ref \<times> HTTPPolicyWindows) list \<Rightarrow>
     'd window_store \<times> rat option MetricsAppender \<times> URICause list \<Rightarrow> ('d window_store \<times> rat option MetricsAppender \<times> URICause list) or_panic" where
  "check_items D ctx ct [] s = Inr s"
| "check_items D ctx ct ((p, info) # ps) s = panic_bind (check_item D ctx ct p info s) (check_items D ctx ct ps)"

definition HTTP_Check ::
  "(BufferEvent, 'd, rat option) WindowData \<Rightarrow> check_context \<Rightarrow> rat option MetricsAppender \<Rightarrow> 'd HTTPBasedChecker \<Rightarrow>
     ('d HTTPBasedChecker \<times> rat option MetricsAppender \<times> URICause list) or_panic" where
  "HTTP_Check D ctx m n =
     panic_bind (check_items D ctx (hc_CheckType n)
         (concat (map (\<lambda>(_, info). map (Pair (hi_Process info)) (hi_PolicyWithWindows info)) (hc_PidWithInfos n))) (hc_store n, m, []))
       (\<lambda>(st, m', causes). Inr (n\<lparr>hc_store := st\<rparr>, m', causes))"

interpretation error_rate: window_data ErrorStatics
  by unfold_locales (simp add: ErrorStatics_def)

interpretation response_time: window_data AvgResponseTimeStatics
  by unfold_locales (simp add: AvgResponseTimeStatics_def)

end
