(* ===== verification/Continuous_Checker_Props.thy ===== *)
theory Continuous_Checker_Props
  imports Continuous_Checker
begin

text \<open>
  What the checkers of continuous profiling do with policies and events: which processes they cover, when a policy of the HTTP
  checkers is reached, and what is lost when policies are synchronised again.
\<close>

section \<open>The covered processes\<close>

lemma map_of_append_at: "map_of (append_at k x m) = (map_of m)(k \<mapsto> (case map_of m k of None \<Rightarrow> [] | Some xs \<Rightarrow> xs) @ [x])"
  by (simp add: append_at_def update_conv')

lemma generate_infos_dom:
  "generate_infos gen older ps result st = Inr (result', st') \<Longrightarrow> dom (map_of result') = dom (map_of result) \<union> (pf_Pid \<circ> fst) ` set ps"
proof (induction ps arbitrary: result st)
  case (Cons x ps)
  obtain p items where x: "x = (p, items)" by (cases x)
  obtain info st1 where g: "gen p (map_of older (pf_Pid p)) items st = Inr (info, st1)"
    using Cons.prems x by (cases "gen p (map_of older (pf_Pid p)) items st") auto
  then have "generate_infos gen older ps (AList.update (pf_Pid p) info result) st1 = Inr (result', st')" using Cons.prems x by simp
  from Cons.IH [OF this] show ?case using x by (auto simp: update_conv')
qed simp

lemma fst_append_at: "fst ` set (append_at k x m) = insert k (fst ` set m)"
  by (simp add: append_at_def dom_update)

lemma policy_items_processes:
  "fst ` set (policy_items en policies) = (\<Union>sp \<in> {sp \<in> set policies. en (sy_Items sp) \<noteq> None}. set (sy_Processes sp))"
proof -
  have inner: "fst ` set (foldl (\<lambda>m p. append_at p item m) m ps) = set ps \<union> fst ` set m" for item and m :: "(process_ref \<times> PolicyItem list) list" and ps
    by (induction ps arbitrary: m) (auto simp: fst_append_at)
  have "fst ` set (foldl (\<lambda>m sp. case en (sy_Items sp) of None \<Rightarrow> m | Some item \<Rightarrow> foldl (\<lambda>m p. append_at p item m) m (sy_Processes sp)) m ps) =
    fst ` set m \<union> (\<Union>sp \<in> {sp \<in> set ps. en (sy_Items sp) \<noteq> None}. set (sy_Processes sp))" for m ps
    by (induction ps arbitrary: m) (auto simp: inner split: option.splits)
  from this [of "[]" policies] show ?thesis by (simp add: policy_items_def)
qed

text \<open>The pids of the processes with an enabled item.\<close>

definition covered_pids :: "((CheckType \<rightharpoonup> PolicyItem) \<Rightarrow> PolicyItem option) \<Rightarrow> SyncPolicyWithProcesses list \<Rightarrow> int set" where
  "covered_pids en policies = (\<Union>sp \<in> {sp \<in> set policies. en (sy_Items sp) \<noteq> None}. pf_Pid ` set (sy_Processes sp))"

lemma SyncPolicies_covers:
  assumes "SyncPolicies gen en policies (infos, st) = Inr ((infos', st'), notes)"
  shows "dom (map_of infos') = covered_pids en policies"
    "(pid, False) \<in> set notes \<longleftrightarrow> pid \<in> covered_pids en policies \<and> pid \<notin> dom (map_of infos)"
    "(pid, True) \<in> set notes \<longleftrightarrow> pid \<in> dom (map_of infos) \<and> pid \<notin> covered_pids en policies"
proof -
  define ps where "ps = policy_items en policies"
  obtain result where g: "generate_infos gen infos ps [] st = Inr (result, st')" and r: "infos' = result" and
    n: "notes = map (\<lambda>(p, _). (pf_Pid p, False)) (filter (\<lambda>(p, _). map_of infos (pf_Pid p) = None) ps) @
         map (\<lambda>(pid, _). (pid, True)) (filter (\<lambda>(pid, _). map_of result pid = None) infos)"
    using assms by (cases "generate_infos gen infos ps [] st") (auto simp: SyncPolicies_def Let_def ps_def)
  have c: "(pf_Pid \<circ> fst) ` set ps = covered_pids en policies"
    unfolding image_comp [symmetric] ps_def policy_items_processes covered_pids_def by (rule image_UN)
  show d: "dom (map_of infos') = covered_pids en policies" using generate_infos_dom [OF g] c r by simp
  have "(pid, False) \<in> set notes \<longleftrightarrow> pid \<in> (pf_Pid \<circ> fst) ` set ps \<and> map_of infos pid = None"
    by (force simp: n image_iff)
  then show "(pid, False) \<in> set notes \<longleftrightarrow> pid \<in> covered_pids en policies \<and> pid \<notin> dom (map_of infos)" using c by (simp add: domIff)
  have "(pid, True) \<in> set notes \<longleftrightarrow> pid \<in> fst ` set infos \<and> map_of infos' pid = None"
    by (force simp: n r image_iff)
  then show "(pid, True) \<in> set notes \<longleftrightarrow> pid \<in> dom (map_of infos) \<and> pid \<notin> covered_pids en policies" unfolding d [symmetric] by (simp add: dom_map_of_conv_image_fst [of infos] domIff)
qed

section \<open>When a policy is reached\<close>

text \<open>The share of failed requests among those of the second \<open>s\<close>, in percent and rounded at each operation.\<close>

definition error_percent :: "(int \<times> BufferEvent) list \<Rightarrow> int \<Rightarrow> rat" where
  "error_percent xs s = (let es = map snd (filter (\<lambda>x. fst x = s) xs) in
     if es = [] then 0
     else float64 (float64 (float64 (of_nat (length (filter be_IsResponseError es))) / float64 (of_nat (length es))) * 100))"

lemma ErrorStatics_fold:
  "fold (wo_Accept ErrorStatics) es (t, n) = (t + int (length es), n + int (length (filter be_IsResponseError es)))"
  by (induction es arbitrary: t n) (auto simp: ErrorStatics_def)

lemma ErrorStatics_slot: "wrapper_Get ErrorStatics (slot_of ErrorStatics xs s) = Some (error_percent xs s)"
proof -
  have n: "wo_new ErrorStatics = (0, 0)"
    and g: "wo_Get ErrorStatics (t, k) = Some (if t = 0 then 0 else float64 (float64 (float64 (of_int k) / float64 (of_int t)) * 100))" for t k
    by (simp_all add: ErrorStatics_def)
  show ?thesis by (simp add: wrapper_Get_def slot_of_def error_percent_def Let_def n ErrorStatics_fold g)
qed

definition NewHTTPChecker :: "CheckType \<Rightarrow> (string \<Rightarrow> rat option) \<Rightarrow> 'd HTTPBasedChecker" where
  "NewHTTPChecker ct thresholdGenerate = \<lparr>hc_CheckType = ct, hc_ThresholdGenerate = thresholdGenerate, hc_PidWithInfos = [], hc_store = []\<rparr>"

fun receive_all ::
  "(BufferEvent, 'd, 'r) WindowData \<Rightarrow> regexps \<Rightarrow> BufferEvent list \<Rightarrow> 'd HTTPBasedChecker \<Rightarrow> 'd HTTPBasedChecker or_panic" where
  "receive_all D rx [] n = Inr n"
| "receive_all D rx (e # es) n = panic_bind (ReceiveBufferEvent D rx e n) (receive_all D rx es)"

lemma Flush_data: "tw_data (snd (FlushMultipleRecentData D w)) = tw_data w"
  by (simp add: FlushMultipleRecentData_def Let_def)

text \<open>A policy of one process for every address.\<close>

definition global_policy :: "CheckType \<Rightarrow> PolicyItem \<Rightarrow> process_ref \<Rightarrow> SyncPolicyWithProcesses list" where
  "global_policy ct item p = [\<lparr>sy_Items = [ct \<mapsto> item], sy_Processes = [p]\<rparr>]"

definition windows_of :: "CheckType \<Rightarrow> (string \<Rightarrow> rat option) \<Rightarrow> PolicyItem \<Rightarrow> process_ref \<Rightarrow> HTTPPolicyWindows \<Rightarrow> 'd window_store \<Rightarrow> 'd HTTPBasedChecker" where
  "windows_of ct tg item p info st = (NewHTTPChecker ct tg)\<lparr>hc_PidWithInfos := [(pf_Pid p, \<lparr>hi_Process = p, hi_PolicyWithWindows = [info]\<rparr>)], hc_store := st\<rparr>"

lemma sync_one:
  assumes "tg (pi_Threshold item) = Some th" "new_windows D rx item th [] = (Some info, st)"
  shows "HTTP_SyncPolicies D rx (global_policy ct item p) (NewHTTPChecker ct tg) = Inr (windows_of ct tg item p info st, [(pf_Pid p, False)])"
  using assms by (simp add: HTTP_SyncPolicies_def SyncPolicies_def policy_items_def global_policy_def NewHTTPChecker_def enabled_item_def append_at_def
      http_info_def windows_of_def)

lemma receive_all_global:
  assumes "hp_uriWithTimeWindows info = []" "hp_uriRegex info = None" "hp_defaultTimeWindows info = Some 0"
    and "\<forall>(s, e) \<in> set xs. be_Pid e = pf_Pid p \<and> be_StartTime e = base + s * second"
  shows "receive_all D rx (map snd xs) (windows_of ct tg item p info [w]) = Inr (windows_of ct tg item p info [add_all D base xs w])"
  using assms(4)
proof (induction xs arbitrary: w)
  case (Cons x xs)
  then show ?case using assms(1-3)
    by (cases x) (simp add: add_all_def windows_of_def ReceiveBufferEvent_def matching_windows_def NewHTTPChecker_def)
qed (simp add: add_all_def)


text \<open>
  Rounding can miss a threshold that is met exactly: the rate of 29 failures in 100 requests is a little less than 29 percent
  after the division and the multiplication, so that a policy with the threshold 29 is not reached.
\<close>

theorem rounded_rate_misses_threshold:
  "\<exists>x. wo_Get ErrorStatics (100, 29) = Some x \<and> 28 < x \<and> x < 29 \<and> \<not> reached 29 (Some x)"
proof -
  have "28 < float64 (float64 (float64 (of_int 29) / float64 (of_int 100)) * 100)"
    "float64 (float64 (float64 (of_int 29) / float64 (of_int 100)) * 100) < 29" by code_simp+
  then show ?thesis by (simp add: ErrorStatics_def reached_def)
qed

section \<open>Synchronising again\<close>

lemma sync_again:
  assumes "tg (pi_Threshold item') = Some th'" "SameURIFilter (hp_item info) item'" "take_over D item' th' info st = Inr (info', st')"
  shows "HTTP_SyncPolicies D rx (global_policy ct item' p) (windows_of ct tg item p info st) = Inr (windows_of ct tg item' p info' st', [])"
  using assms by (simp add: HTTP_SyncPolicies_def SyncPolicies_def policy_items_def global_policy_def NewHTTPChecker_def enabled_item_def append_at_def
      http_info_def windows_of_def)

lemma new_windows_item:
  "new_windows D rx item th st = (Some info, st') \<Longrightarrow> hp_item info = item"
  by (auto simp: new_windows_def Let_def split: prod.splits if_splits)

text \<open>
  C29: A policy with a list of addresses that is synchronised a second time makes the next check panic. Its windows are taken
  over from the older policy, but not the windows for all addresses, and the check asks those without looking.
\<close>

theorem resynced_uri_policy_panics:
  assumes "pi_URIList item \<noteq> []" "pi_URIList item' = pi_URIList item" "tg (pi_Threshold item) = Some th" "tg (pi_Threshold item') = Some th'"
    and "HTTP_SyncPolicies D rx (global_policy ct item p) (NewHTTPChecker ct tg) = Inr (n1, notes1)"
    and "HTTP_SyncPolicies D rx (global_policy ct item' p) n1 = Inr (n2, notes2)" and "ctx p item' = Inr True"
  shows "HTTP_Check D ctx m n2 = Inl NilDereference"
proof -
  obtain info st where nw: "new_windows D rx item th [] = (Some info, st)"
    using assms(1) by (cases "new_uri_windows D item (pi_URIList item) [] []") (simp add: new_windows_def)
  have same: "SameURIFilter (hp_item info) item'" using assms(1, 2) by (simp add: new_windows_item [OF nw] SameURIFilter_def)
  define info' where "info' = \<lparr>hp_item = item', hp_uriWithTimeWindows = hp_uriWithTimeWindows info, hp_uriRegex = None,
    hp_defaultTimeWindows = None, hp_threshold = th'\<rparr>"
  obtain st' where to: "take_over D item' th' info st = Inr (info', st')"
    using assms(1, 2) by (simp add: take_over_def info'_def)
  have n2: "n2 = windows_of ct tg item' p info' st'"
    using sync_one [of tg item th D rx info st ct p, OF assms(3) nw] sync_again [of tg item' th' info D st info' st' rx ct p item, OF assms(4) same to]
      assms(5, 6) by simp
  obtain st1 m1 where "fold (\<lambda>(uri, r). flushMetrics D ct p uri r) (hp_uriWithTimeWindows info) (st', m) = (st1, m1)" by fastforce
  then show ?thesis using assms(7)
    by (simp add: n2 HTTP_Check_def windows_of_def NewHTTPChecker_def check_item_def info'_def Let_def)
qed

text \<open>
  A policy with a regular expression that is synchronised a second time loses it. Before, an event whose address does not
  match leaves every window alone; afterwards the same event is counted for the policy.
\<close>

theorem resynced_regex_is_lost:
  assumes "pi_URIList item = []" "pi_URIRegex item = r" "r \<noteq> []" "rx_compiles rx r" "pi_URIList item' = []" "pi_URIRegex item' = r"
    and "tg (pi_Threshold item) = Some th" "tg (pi_Threshold item') = Some th'" "be_Pid e = pf_Pid p" "\<not> rx_matches rx r (be_RequestURI e)"
    and "HTTP_SyncPolicies D rx (global_policy ct item p) (NewHTTPChecker ct tg) = Inr (n1, notes1)"
    and "HTTP_SyncPolicies D rx (global_policy ct item' p) n1 = Inr (n2, notes2)"
  shows "ReceiveBufferEvent D rx e n1 = Inr n1 \<and>
    ReceiveBufferEvent D rx e n2 = Inr (n2\<lparr>hc_store := [Add D (be_StartTime e) e (hc_store n2 ! 0)]\<rparr>) \<and> length (hc_store n2) = 1"
proof -
  define info where "info = \<lparr>hp_item = item, hp_uriWithTimeWindows = [], hp_uriRegex = Some r, hp_defaultTimeWindows = Some 0, hp_threshold = th\<rparr>"
  have nw: "new_windows D rx item th [] = (Some info, [NewTimeWindows D [item]])"
    using assms(1-4) by (simp add: new_windows_def info_def)
  define info' where "info' = \<lparr>hp_item = item', hp_uriWithTimeWindows = [], hp_uriRegex = None, hp_defaultTimeWindows = Some 0, hp_threshold = th'\<rparr>"
  define w where "w = ScalePeriod D [item'] (NewTimeWindows D [item])"
  have to: "take_over D item' th' info [NewTimeWindows D [item]] = Inr (info', [w])"
    using assms(5) by (simp add: take_over_def info_def info'_def scale_refs_def w_def)
  have same: "SameURIFilter (hp_item info) item'" using assms(2, 3, 6) by (simp add: info_def SameURIFilter_def)
  have n: "n1 = windows_of ct tg item p info [NewTimeWindows D [item]]" "n2 = windows_of ct tg item' p info' [w]"
    using sync_one [of tg item th D rx info _ ct p, OF assms(7) nw] sync_again [of tg item' th' info D _ info' "[w]" rx ct p item, OF assms(8) same to]
      assms(11, 12) by simp_all
  show ?thesis using assms(9, 10)
    by (simp add: n windows_of_def NewHTTPChecker_def ReceiveBufferEvent_def matching_windows_def info_def info'_def)
qed

section \<open>Seconds that are reported twice, and seconds that are forgotten\<close>

text \<open>
  A second can be reported twice. The slots that are moved for each event are counted in whole seconds and the rest is
  dropped, but the slots that are reported are counted over the whole time since the last report: after two events 1.9 seconds
  apart each, two slots have moved and three are reported, and the oldest of them was reported before.
\<close>

theorem flush_repeats_a_second:
  assumes "pi_Period item = 3" "w1 = Add (LatestWindowData 0) t v0 (NewTimeWindows (LatestWindowData 0) [item])"
    and "FlushMultipleRecentData (LatestWindowData 0) w1 = (r1, w2)"
    and "w3 = Add (LatestWindowData 0) (t + 3800000000) v2 (Add (LatestWindowData 0) (t + 1900000000) (v1 :: 'n :: zero) w2)"
  shows "r1 = Some [v0] \<and> fst (FlushMultipleRecentData (LatestWindowData 0) w3) = Some [v2, v1, v0]"
proof -
  have n: "NewTimeWindows (LatestWindowData 0) [item] = \<lparr>tw_data = replicate 3 \<lparr>wd_data = 0 :: 'n, wd_hasData = False\<rparr>, tw_endTime = None, tw_lastFlushTime = None\<rparr>"
    using assms(1) by (simp add: NewTimeWindows_def max_period_def newWindowDataWrapper_def LatestWindowData_def)
  note d = Add_def moveTo_def appendDataToSlot_def whole_seconds_def rotate_slot_def wrapper_Reset_def wrapper_Accept_def wrapper_Get_def
    LatestWindowData_def Let_def FlushMultipleRecentData_def shouldFlush_def numeral_eq_Suc
  have w1: "w1 = \<lparr>tw_data = [\<lparr>wd_data = 0, wd_hasData = False\<rparr>, \<lparr>wd_data = 0, wd_hasData = False\<rparr>, \<lparr>wd_data = v0, wd_hasData = True\<rparr>],
    tw_endTime = Some t, tw_lastFlushTime = None\<rparr>" unfolding assms(2) n by (simp add: d)
  have f: "r1 = Some [v0]" "w2 = w1\<lparr>tw_lastFlushTime := Some t\<rparr>" using assms(3) by (auto simp: w1 d)
  have "w3 = \<lparr>tw_data = [\<lparr>wd_data = v0, wd_hasData = True\<rparr>, \<lparr>wd_data = v1, wd_hasData = True\<rparr>, \<lparr>wd_data = v2, wd_hasData = True\<rparr>],
    tw_endTime = Some (t + 3800000000), tw_lastFlushTime = Some t\<rparr>"
    unfolding assms(4) f(2) w1 by (simp add: Add_def moveTo_def appendDataToSlot_def whole_seconds_def rotate_slot_def wrapper_Reset_def wrapper_Accept_def
        LatestWindowData_def Let_def)
  then show ?thesis using f(1) by (simp add: FlushMultipleRecentData_def shouldFlush_def whole_seconds_def wrapper_Get_def LatestWindowData_def)
qed

text \<open>
  Windows that are made smaller forget their newest seconds. When a policy with a shorter period replaces another, the slots
  are taken away at the end where the newest are, so that what stays is the oldest part, and its last slot, to which new values of
  the present second are added, holds a second that is as far back as the period became shorter.
\<close>

theorem shrinking_forgets_the_newest:
  assumes "xs \<noteq> []" "w = add_all (LatestWindowData zero) base xs (NewTimeWindows (LatestWindowData zero) items)" "e = Max (fst ` set xs)"
    and "n = nat (max_period items)" "m = nat (max_period items')" "m < n" "0 \<le> max_period items'"
    and "w' = ScalePeriod (LatestWindowData zero) items' w"
  shows "length (tw_data w') = m \<and> (\<forall>k < m. tw_data w' ! (m - 1 - k) = slot_of (LatestWindowData zero) xs (e - int (n - m) - int k))"
  using latest.add_all_slots [OF assms(1, 4, 2, 3)] latest.scale_down [of w n zero xs e items' m] assms(5-8) by simp

section \<open>Examples\<close>

definition example_process :: process_ref where
  "example_process = \<lparr>pf_ID = ''p'', pf_Pid = 7, pf_ServiceName = ''s'', pf_InstanceName = ''i'', pf_ProcessName = ''n'', pf_Layer = ''GENERAL'', pf_Labels = []\<rparr>"

definition example_item :: "string list \<Rightarrow> string \<Rightarrow> int \<Rightarrow> PolicyItem" where
  "example_item uris regex period = \<lparr>pi_Threshold = ''50'', pi_Period = period, pi_Count = 2, pi_URIList = uris, pi_URIRegex = regex,
     pi_TargetProfilingType = ''ON_CPU''\<rparr>"

definition example_threshold :: "string \<Rightarrow> rat option" where
  "example_threshold s = Some 50"

definition example_regexps :: regexps where
  "example_regexps = \<lparr>rx_compiles = (\<lambda>_. True), rx_matches = (\<lambda>r s. r = s)\<rparr>"

definition example_request :: "int \<Rightarrow> bool \<Rightarrow> BufferEvent" where
  "example_request s err = \<lparr>be_Pid = 7, be_RequestURI = ''/b'', be_IsResponseError = err, be_Duration = 5000000, be_StartTime = s * second\<rparr>"

definition example_appender :: "rat option MetricsAppender" where
  "example_appender = NewMetricsAppender ''m'' 0"

lemma example_enabled: "example_threshold (pi_Threshold (example_item u r k)) = Some 50"
  by (simp add: example_threshold_def)

definition example_requests :: "(int \<times> BufferEvent) list" where
  "example_requests = [(5, example_request 5 True), (4, example_request 4 True), (5, example_request 5 False)]"

lemma float64_small: "float64 1 = 1" "float64 2 = 2" "float64 100 = 100" "float64 50 = 50" "float64 (1 / 2) = 1 / 2"
  by code_simp+


theorem resynced_uri_policy_panics_witness:
  "\<exists>n1 n2 notes1 notes2.
     HTTP_SyncPolicies ErrorStatics example_regexps (global_policy ''c'' (example_item [''/a''] [] 3) example_process) (NewHTTPChecker ''c'' example_threshold) =
       Inr (n1, notes1) \<and>
     HTTP_SyncPolicies ErrorStatics example_regexps (global_policy ''c'' (example_item [''/a''] [] 4) example_process) n1 = Inr (n2, notes2) \<and>
     HTTP_Check ErrorStatics (\<lambda>_ _. Inr True) example_appender n2 = Inl NilDereference"
proof -
  let ?i = "example_item [''/a''] [] 3" and ?i' = "example_item [''/a''] [] 4"
  obtain info st where nw: "new_windows ErrorStatics example_regexps ?i 50 [] = (Some info, st)"
    by (simp add: new_windows_def example_item_def)
  have f: "SameURIFilter (hp_item info) ?i'" by (simp add: new_windows_item [OF nw] SameURIFilter_def example_item_def)
  obtain info' st' where to: "take_over ErrorStatics ?i' 50 info st = Inr (info', st')" by (simp add: take_over_def example_item_def)
  note s = sync_one [of example_threshold ?i 50 ErrorStatics example_regexps info st "''c''" example_process, OF example_enabled nw]
    sync_again [of example_threshold ?i' 50 info ErrorStatics st info' st' example_regexps "''c''" example_process ?i, OF example_enabled f to]
  have "HTTP_Check ErrorStatics (\<lambda>_ _. Inr True) example_appender (windows_of ''c'' example_threshold ?i' example_process info' st') = Inl NilDereference"
    by (rule resynced_uri_policy_panics [OF _ _ example_enabled example_enabled s]) (simp_all add: example_item_def)
  then show ?thesis using s by blast
qed

theorem resynced_regex_is_lost_witness:
  "\<exists>n1 n2 notes1 notes2.
     HTTP_SyncPolicies ErrorStatics example_regexps (global_policy ''c'' (example_item [] ''/a'' 3) example_process) (NewHTTPChecker ''c'' example_threshold) =
       Inr (n1, notes1) \<and>
     HTTP_SyncPolicies ErrorStatics example_regexps (global_policy ''c'' (example_item [] ''/a'' 3) example_process) n1 = Inr (n2, notes2) \<and>
     ReceiveBufferEvent ErrorStatics example_regexps (example_request 5 True) n1 = Inr n1 \<and>
     ReceiveBufferEvent ErrorStatics example_regexps (example_request 5 True) n2 \<noteq> Inr n2"
proof -
  let ?i = "example_item [] ''/a'' 3" and ?e = "example_request 5 True"
  obtain info st where nw: "new_windows ErrorStatics example_regexps ?i 50 [] = (Some info, st)" "hp_defaultTimeWindows info = Some 0"
    "st = [NewTimeWindows ErrorStatics [?i]]"
    by (simp add: new_windows_def example_item_def example_regexps_def)
  have f: "SameURIFilter (hp_item info) ?i" by (simp add: new_windows_item [OF nw(1)] SameURIFilter_def example_item_def)
  obtain info' where to: "take_over ErrorStatics ?i 50 info st = Inr (info', st)"
    using nw(2, 3) by (simp add: take_over_def example_item_def scale_refs_def ScalePeriod_def NewTimeWindows_def max_period_def)
  note s = sync_one [of example_threshold ?i 50 ErrorStatics example_regexps info st "''c''" example_process, OF example_enabled nw(1)]
    sync_again [of example_threshold ?i 50 info ErrorStatics st info' st example_regexps "''c''" example_process ?i, OF example_enabled f to]
  let ?n1 = "windows_of ''c'' example_threshold ?i example_process info st" and ?n2 = "windows_of ''c'' example_threshold ?i example_process info' st"
  have r: "ReceiveBufferEvent ErrorStatics example_regexps ?e ?n1 = Inr ?n1"
    "ReceiveBufferEvent ErrorStatics example_regexps ?e ?n2 = Inr (?n2\<lparr>hc_store := [Add ErrorStatics (be_StartTime ?e) ?e (hc_store ?n2 ! 0)]\<rparr>)"
    using resynced_regex_is_lost [of ?i "''/a''" example_regexps ?i, OF _ _ _ _ _ _ example_enabled example_enabled _ _ s, of ?e]
    by (simp_all add: example_item_def example_regexps_def example_request_def example_process_def)
  have "Add ErrorStatics (be_StartTime ?e) ?e (NewTimeWindows ErrorStatics [?i]) \<noteq> NewTimeWindows ErrorStatics [?i]"
    by (simp add: Add_def NewTimeWindows_def Let_def appendDataToSlot_def whole_seconds_def max_period_def example_item_def)
  then have "?n2\<lparr>hc_store := [Add ErrorStatics (be_StartTime ?e) ?e (hc_store ?n2 ! 0)]\<rparr> \<noteq> ?n2"
    using nw(3) by (simp add: windows_of_def NewHTTPChecker_def)
  then have "ReceiveBufferEvent ErrorStatics example_regexps ?e ?n2 \<noteq> Inr ?n2" using r(2) by simp
  then show ?thesis using s r(1) by blast
qed

theorem flush_repeats_a_second_witness:
  "let D = LatestWindowData (0 :: int); (r1, w2) = FlushMultipleRecentData D (Add D 5 10 (NewTimeWindows D [example_item [] [] 3]))
   in r1 = Some [10] \<and> fst (FlushMultipleRecentData D (Add D 3800000005 12 (Add D 1900000005 11 w2))) = Some [12, 11, 10]"
proof -
  let ?D = "LatestWindowData (0 :: int)" and ?w = "Add (LatestWindowData (0 :: int)) 5 10 (NewTimeWindows (LatestWindowData 0) [example_item [] [] 3])"
  obtain r1 w2 where f: "FlushMultipleRecentData ?D ?w = (r1, w2)" by fastforce
  show ?thesis using flush_repeats_a_second [OF _ refl f refl, of 12 11] f by (simp add: example_item_def)
qed

theorem shrinking_forgets_the_newest_witness:
  "let D = LatestWindowData (0 :: int); w = add_all D 0 [(1, 10), (2, 20), (3, 30)] (NewTimeWindows D [example_item [] [] 3])
   in map wd_data (tw_data (ScalePeriod D [example_item [] [] 2] w)) = [10, 20]"
proof -
  let ?D = "LatestWindowData (0 :: int)" and ?xs = "[(1, 10), (2, 20), (3, 30)] :: (int \<times> int) list"
  define w' where "w' = ScalePeriod ?D [example_item [] [] 2] (add_all ?D 0 ?xs (NewTimeWindows ?D [example_item [] [] 3]))"
  have p: "max_period [example_item [] [] k] = (if 0 < k then k else 0)" for k by (simp add: max_period_def example_item_def)
  have w: "length (tw_data w') = 2" "\<forall>k < 2. tw_data w' ! (2 - 1 - k) = slot_of ?D ?xs (3 - 1 - int k)"
    using shrinking_forgets_the_newest [of ?xs _ 0 0 "[example_item [] [] 3]" 3 3 2 "[example_item [] [] 2]" w', OF _ refl] unfolding w'_def
    by (simp_all add: p)
  have "slot_of ?D ?xs 2 = \<lparr>wd_data = 20, wd_hasData = True\<rparr>" "slot_of ?D ?xs 1 = \<lparr>wd_data = 10, wd_hasData = True\<rparr>"
    by (simp_all add: slot_of_def LatestWindowData_def)
  then have "tw_data w' = [\<lparr>wd_data = 10, wd_hasData = True\<rparr>, \<lparr>wd_data = 20, wd_hasData = True\<rparr>]"
    using w spec [OF w(2), of 0] spec [OF w(2), of 1] by (intro nth_equalityI) (auto simp: less_2_cases_iff)
  then show ?thesis by (simp add: w'_def Let_def)
qed

end
