(* ===== verification/Continuous_Watch.thy ===== *)
theory Continuous_Watch
  imports Continuous_Checker_Props Socket_Enums
begin

text \<open>
  What feeds the HTTP checkers, \<^verbatim>\<open>pkg/profiling/continuous/checker/bpf/network\<close>: the processes that the kernel
  programs watch, and the pairing of the buffers they send into requests. Loading and linking the programs, finding the TLS
  libraries of a process and updating the kernel map may fail; whether they do is an argument.
\<close>

section \<open>Watched processes\<close>

text \<open>The loaded programs. A load that fails leaves an object behind that has no programs and no maps.\<close>

datatype bpf_objects = NotLoaded | WithoutMaps | Loaded

record watch_env =
  we_load :: bool
  we_link :: bool
  we_ssl :: "int \<Rightarrow> bool"
  we_update :: "int \<Rightarrow> bool"

text \<open>\<open>wt_bpfLinker\<close> is whether there ever was a linker, \<open>wt_control\<close> the pids in the map that the kernel programs look at.\<close>

record watch_state =
  wt_bpf :: bpf_objects
  wt_bpfLinker :: bool
  wt_monitoring :: "(int \<times> string list) list"
  wt_control :: "int set"

definition startBPFIfNeed :: "watch_env \<Rightarrow> watch_state \<Rightarrow> bool \<times> watch_state" where
  "startBPFIfNeed env st =
     (if wt_bpf st \<noteq> NotLoaded then (True, st)
      else if \<not> we_load env then (False, st\<lparr>wt_bpf := WithoutMaps\<rparr>)
      else if \<not> we_link env then (False, st\<lparr>wt_bpfLinker := False\<rparr>)
      else (True, st\<lparr>wt_bpf := Loaded, wt_bpfLinker := True\<rparr>))"

text \<open>The sources of a process, and whether adding one succeeded. Using a map that does not exist is a panic.\<close>

definition AddSource :: "watch_env \<Rightarrow> int \<Rightarrow> string \<Rightarrow> string list \<Rightarrow> watch_state \<Rightarrow> (bool \<times> string list \<times> watch_state) or_panic" where
  "AddSource env pid from sources st =
     (let sources1 = (if sources \<noteq> [] then List.insert from sources else sources) in
      if \<not> we_ssl env pid then Inr (False, sources1, st)
      else if wt_bpf st \<noteq> Loaded then Inl NilDereference
      else if \<not> we_update env pid then Inr (False, sources1, st)
      else Inr (True, List.insert from sources1, st\<lparr>wt_control := insert pid (wt_control st)\<rparr>))"

text \<open>Removing one says whether the process is to be forgotten.\<close>

definition RemoveSource :: "int \<Rightarrow> string \<Rightarrow> string list \<Rightarrow> watch_state \<Rightarrow> (bool \<times> string list \<times> watch_state) or_panic" where
  "RemoveSource pid from sources st =
     (let sources1 = removeAll from sources in
      if sources1 \<noteq> [] then Inr (False, sources1, st)
      else if wt_bpf st \<noteq> Loaded then Inl NilDereference
      else Inr (True, sources1, st\<lparr>wt_control := wt_control st - {pid}\<rparr>))"

definition set_sources :: "int \<Rightarrow> string list \<Rightarrow> watch_state \<Rightarrow> watch_state" where
  "set_sources pid sources st = st\<lparr>wt_monitoring := AList.update pid sources (wt_monitoring st)\<rparr>"

definition forget_process :: "int \<Rightarrow> watch_state \<Rightarrow> watch_state" where
  "forget_process pid st = st\<lparr>wt_monitoring := AList.delete pid (wt_monitoring st)\<rparr>"

definition AddWatchProcess :: "watch_env \<Rightarrow> int \<Rightarrow> string \<Rightarrow> watch_state \<Rightarrow> (bool \<times> watch_state) or_panic" where
  "AddWatchProcess env pid from st0 =
     (case startBPFIfNeed env st0 of
        (False, st) \<Rightarrow> Inr (False, st)
      | (True, st) \<Rightarrow>
          let sources = (case map_of (wt_monitoring st) pid of None \<Rightarrow> [] | Some s \<Rightarrow> s) in
          panic_bind (AddSource env pid from sources st) (\<lambda>(ok, sources1, st1).
            if ok then Inr (True, set_sources pid sources1 st1)
            else panic_bind (RemoveSource pid from sources1 st1) (\<lambda>(deleteProcess, sources2, st2).
              Inr (False, if deleteProcess then forget_process pid st2 else set_sources pid sources2 st2))))"

definition shutdownBPF :: "watch_state \<Rightarrow> watch_state or_panic" where
  "shutdownBPF st =
     (if wt_bpf st = NotLoaded then Inr st
      else if wt_monitoring st \<noteq> [] then Inr st
      else if \<not> wt_bpfLinker st then Inl NilDereference
      else Inr (st\<lparr>wt_bpf := NotLoaded, wt_control := {}\<rparr>))"

definition shutdownBPFIfNoProcesses :: "watch_state \<Rightarrow> watch_state or_panic" where
  "shutdownBPFIfNoProcesses st = (if wt_monitoring st \<noteq> [] then Inr st else shutdownBPF st)"

definition RemoveWatchProcess :: "int \<Rightarrow> string \<Rightarrow> watch_state \<Rightarrow> watch_state or_panic" where
  "RemoveWatchProcess pid from st =
     (case map_of (wt_monitoring st) pid of
        None \<Rightarrow> shutdownBPFIfNoProcesses st
      | Some sources \<Rightarrow> panic_bind (RemoveSource pid from sources st) (\<lambda>(deleteProcess, sources1, st1).
          shutdownBPFIfNoProcesses (if deleteProcess then forget_process pid st1 else set_sources pid sources1 st1)))"

definition ForceShutdownBPF :: "watch_state \<Rightarrow> watch_state or_panic" where
  "ForceShutdownBPF st = shutdownBPF (st\<lparr>wt_monitoring := []\<rparr>)"

text \<open>What a checker notifies, in order; an error is logged.\<close>

fun notify_watch :: "watch_env \<Rightarrow> string \<Rightarrow> (int \<times> bool) list \<Rightarrow> watch_state \<Rightarrow> watch_state or_panic" where
  "notify_watch env from [] st = Inr st"
| "notify_watch env from ((pid, isDelete) # notes) st =
     (if isDelete then panic_bind (RemoveWatchProcess pid from st) (notify_watch env from notes)
      else panic_bind (AddWatchProcess env pid from st) (\<lambda>(_, st'). notify_watch env from notes st'))"

section \<open>Pairing requests with responses\<close>

record networkBufferInBPF =
  nb_Timestamp :: u64
  nb_ChannelRef :: u64
  nb_Protocol :: u8
  nb_Direction :: u8
  nb_Size :: u16
  nb_Pid :: u32
  nb_Buffer :: "u8 list"

record HTTP1BufferEvent =
  h1_pid :: u32
  h1_requestURI :: string
  h1_requestTime :: u64
  h1_statusCode :: int
  h1_responseTime :: u64

definition buffer_text :: "networkBufferInBPF \<Rightarrow> string or_panic" where
  "buffer_text buffer =
     (if unat (nb_Size buffer) > length (nb_Buffer buffer) then Inl SliceBounds
      else Inr (map (\<lambda>b. char_of (unat b)) (take (unat (nb_Size buffer)) (nb_Buffer buffer))))"

definition space_index :: "string \<Rightarrow> nat option" where
  "space_index s = (if CHR '' '' \<in> set s then Some (length (takeWhile (\<lambda>c. c \<noteq> CHR '' '') s)) else None)"

text \<open>What follows the first blank, if that is not the first character and something follows.\<close>

definition after_first_space :: "string \<Rightarrow> string option" where
  "after_first_space s = (case space_index s of None \<Rightarrow> None
    | Some i \<Rightarrow> if i = 0 then None else if length s \<le> i + 1 then None else Some (drop (i + 1) s))"

definition analyzeRequestURI :: "networkBufferInBPF \<Rightarrow> string option or_panic" where
  "analyzeRequestURI buffer = panic_bind (buffer_text buffer) (\<lambda>s. Inr (case after_first_space s of None \<Rightarrow> None
    | Some rest \<Rightarrow> if list_ex (\<lambda>c. c = CHR ''?'' \<or> c = CHR '' '') rest
                   then Some (takeWhile (\<lambda>c. \<not> (c = CHR ''?'' \<or> c = CHR '' '')) rest) else None))"

text \<open>\<^verbatim>\<open>strconv.ParseInt(s, 10, 32)\<close>.\<close>

definition ParseInt32 :: "string \<Rightarrow> int option" where
  "ParseInt32 s = (case Atoi s of None \<Rightarrow> None | Some n \<Rightarrow> if n < - (2 ^ 31) \<or> n \<ge> 2 ^ 31 then None else Some n)"

definition analyzeResponseStatus :: "networkBufferInBPF \<Rightarrow> int option or_panic" where
  "analyzeResponseStatus buffer = panic_bind (buffer_text buffer) (\<lambda>s. case after_first_space s of None \<Rightarrow> Inr None
    | Some rest \<Rightarrow> (case space_index rest of None \<Rightarrow> Inl SliceBounds | Some i \<Rightarrow> Inr (ParseInt32 (take i rest))))"

definition HandleBufferEvent ::
  "networkBufferInBPF \<Rightarrow> (u64 \<rightharpoonup> HTTP1BufferEvent) \<Rightarrow> (HTTP1BufferEvent option \<times> (u64 \<rightharpoonup> HTTP1BufferEvent)) or_panic" where
  "HandleBufferEvent buffer channelEvents =
     (let channel = nb_ChannelRef buffer in
      if nb_Direction buffer = 1
      then panic_bind (analyzeRequestURI buffer) (\<lambda>uri. case uri of None \<Rightarrow> Inr (None, channelEvents)
        | Some u \<Rightarrow> Inr (None, channelEvents(channel \<mapsto>
            \<lparr>h1_pid = nb_Pid buffer, h1_requestURI = u, h1_requestTime = nb_Timestamp buffer, h1_statusCode = 0, h1_responseTime = 0\<rparr>)))
      else case channelEvents channel of None \<Rightarrow> Inr (None, channelEvents)
        | Some event \<Rightarrow> let rest = channelEvents(channel := None) in
            panic_bind (analyzeResponseStatus buffer) (\<lambda>code. case code of None \<Rightarrow> Inr (None, rest)
              | Some n \<Rightarrow> Inr (Some (event\<lparr>h1_statusCode := n, h1_responseTime := nb_Timestamp buffer\<rparr>), rest)))"

definition buffer_event :: "int \<Rightarrow> HTTP1BufferEvent \<Rightarrow> BufferEvent" where
  "buffer_event boot h = \<lparr>be_Pid = sint (h1_pid h), be_RequestURI = h1_requestURI h, be_IsResponseError = (h1_statusCode h \<ge> 500),
     be_Duration = sint (h1_responseTime h - h1_requestTime h), be_StartTime = host_Time boot (h1_requestTime h)\<rparr>"

text \<open>Reading a buffer: only HTTP has an analyzer.\<close>

definition network_Read ::
  "int \<Rightarrow> networkBufferInBPF \<Rightarrow> (u64 \<rightharpoonup> HTTP1BufferEvent) \<Rightarrow> (BufferEvent option \<times> (u64 \<rightharpoonup> HTTP1BufferEvent)) or_panic" where
  "network_Read boot buffer channelEvents =
     (if nb_Protocol buffer \<noteq> ConnectionProtocolHTTP then Inr (None, channelEvents)
      else panic_bind (HandleBufferEvent buffer channelEvents) (\<lambda>(event, ch). Inr (map_option (buffer_event boot) event, ch)))"

section \<open>Watching follows the policies\<close>

text \<open>The pids that each checker covers are those it is a source of; the programs are loaded exactly when a process is watched.\<close>

definition watch_ok :: "(string \<Rightarrow> int set) \<Rightarrow> watch_state \<Rightarrow> bool" where
  "watch_ok cov w \<longleftrightarrow> (\<forall>pid from. pid \<in> cov from \<longleftrightarrow> (\<exists>l. map_of (wt_monitoring w) pid = Some l \<and> from \<in> set l)) \<and>
     (\<forall>pid l. map_of (wt_monitoring w) pid = Some l \<longrightarrow> l \<noteq> []) \<and> wt_control w = dom (map_of (wt_monitoring w)) \<and>
     wt_bpf w = (if wt_monitoring w = [] then NotLoaded else Loaded) \<and> (wt_monitoring w \<noteq> [] \<longrightarrow> wt_bpfLinker w)"

definition no_failure :: "watch_env \<Rightarrow> bool" where
  "no_failure env \<longleftrightarrow> we_load env \<and> we_link env \<and> (\<forall>pid. we_ssl env pid \<and> we_update env pid)"

definition sources_of :: "int \<Rightarrow> watch_state \<Rightarrow> string list" where
  "sources_of pid w = (case map_of (wt_monitoring w) pid of None \<Rightarrow> [] | Some s \<Rightarrow> s)"

lemma AddWatch_ok:
  assumes "watch_ok cov w" "no_failure env"
  shows "\<exists>w'. AddWatchProcess env pid from w = Inr (True, w') \<and> watch_ok (cov(from := insert pid (cov from))) w'"
proof -
  let ?s = "List.insert from (if sources_of pid w \<noteq> [] then List.insert from (sources_of pid w) else sources_of pid w)"
  let ?m = "AList.update pid ?s (wt_monitoring w)"
  let ?w = "w\<lparr>wt_bpf := Loaded, wt_bpfLinker := True, wt_control := insert pid (wt_control w), wt_monitoring := ?m\<rparr>"
  have "startBPFIfNeed env w = (True, w\<lparr>wt_bpf := Loaded, wt_bpfLinker := True\<rparr>)"
    using assms by (cases w) (auto simp: startBPFIfNeed_def watch_ok_def no_failure_def)
  then have a: "AddWatchProcess env pid from w = Inr (True, ?w)"
    using assms(2) by (simp add: AddWatchProcess_def AddSource_def no_failure_def set_sources_def sources_of_def Let_def)
  moreover have s: "set ?s = insert from (set (sources_of pid w))" by auto
  moreover have "?s \<noteq> []" using s by (metis insert_not_empty list.set(1))
  moreover have "?m \<noteq> []" by (cases "wt_monitoring w") auto
  ultimately have "watch_ok (cov(from := insert pid (cov from))) ?w" using assms(1) unfolding watch_ok_def
    by (auto simp: update_conv' sources_of_def split: option.splits)
  then show ?thesis using a by blast
qed

lemma RemoveWatch_ok:
  assumes "watch_ok cov w"
  shows "\<exists>w'. RemoveWatchProcess pid from w = Inr w' \<and> watch_ok (cov(from := cov from - {pid})) w'"
proof (cases "map_of (wt_monitoring w) pid")
  case None
  then have "pid \<notin> cov from" using assms by (auto simp: watch_ok_def)
  moreover have "RemoveWatchProcess pid from w = Inr w"
    using None assms by (auto simp: RemoveWatchProcess_def shutdownBPFIfNoProcesses_def shutdownBPF_def watch_ok_def)
  ultimately show ?thesis using assms by (simp add: fun_upd_idem)
next
  case (Some l)
  then have ne: "wt_monitoring w \<noteq> []" by auto
  then have st: "wt_bpf w = Loaded" "wt_bpfLinker w" using assms by (auto simp: watch_ok_def)
  show ?thesis
  proof (cases "removeAll from l = []")
    case True
    let ?w = "forget_process pid (w\<lparr>wt_control := wt_control w - {pid}\<rparr>)"
    have r: "RemoveWatchProcess pid from w = shutdownBPFIfNoProcesses ?w"
      using Some True st by (simp add: RemoveWatchProcess_def RemoveSource_def Let_def)
    have only: "\<And>c. c \<in> set l \<Longrightarrow> c = from" using True by (auto simp: removeAll_filter_not_eq filter_empty_conv)
    have m: "map_of (wt_monitoring ?w) = (map_of (wt_monitoring w))(pid := None)" by (simp add: forget_process_def delete_conv')
    have rest: "(\<forall>q c. q \<in> (cov(from := cov from - {pid})) c \<longleftrightarrow> (\<exists>k. map_of (wt_monitoring ?w) q = Some k \<and> c \<in> set k)) \<and>
        (\<forall>q k. map_of (wt_monitoring ?w) q = Some k \<longrightarrow> k \<noteq> []) \<and> wt_control ?w = dom (map_of (wt_monitoring ?w))"
      unfolding m using assms Some only by (auto simp: watch_ok_def forget_process_def)
    show ?thesis
    proof (cases "wt_monitoring ?w = []")
      case True
      then have "RemoveWatchProcess pid from w = Inr (?w\<lparr>wt_bpf := NotLoaded, wt_control := {}\<rparr>)"
        unfolding r using st by (simp add: shutdownBPFIfNoProcesses_def shutdownBPF_def forget_process_def)
      then show ?thesis using rest True by (auto simp: watch_ok_def)
    next
      case False
      then have "RemoveWatchProcess pid from w = Inr ?w" unfolding r by (simp add: shutdownBPFIfNoProcesses_def)
      then show ?thesis using rest False st by (auto simp: watch_ok_def forget_process_def)
    qed
  next
    case False
    let ?w = "set_sources pid (removeAll from l) w"
    have "wt_monitoring ?w \<noteq> []" using ne by (cases "wt_monitoring w") (auto simp: set_sources_def)
    then have "RemoveWatchProcess pid from w = Inr ?w"
      using Some False by (simp add: RemoveWatchProcess_def RemoveSource_def shutdownBPFIfNoProcesses_def Let_def)
    moreover have "watch_ok (cov(from := cov from - {pid})) ?w"
      using assms Some False \<open>wt_monitoring ?w \<noteq> []\<close> by (auto simp: set_sources_def watch_ok_def update_conv')
    ultimately show ?thesis by blast
  qed
qed

lemma notify_ok:
  assumes "watch_ok cov w" "no_failure env" "\<And>pid. (pid, False) \<in> set ns \<Longrightarrow> (pid, True) \<notin> set ns"
  shows "\<exists>w'. notify_watch env from ns w = Inr w' \<and>
    watch_ok (cov(from := (cov from \<union> {pid. (pid, False) \<in> set ns}) - {pid. (pid, True) \<in> set ns})) w'"
  using assms(1,3)
proof (induction ns arbitrary: cov w)
  case (Cons x ns)
  obtain pid d where x: "x = (pid, d)" by (cases x)
  show ?case
  proof (cases d)
    case True
    obtain w1 where w1: "RemoveWatchProcess pid from w = Inr w1" "watch_ok (cov(from := cov from - {pid})) w1"
      using RemoveWatch_ok [OF Cons.prems(1)] by blast
    have "((cov from - {pid}) \<union> {q. (q, False) \<in> set ns}) - {q. (q, True) \<in> set ns} =
        (cov from \<union> {q. (q, False) \<in> set (x # ns)}) - {q. (q, True) \<in> set (x # ns)}"
      using Cons.prems(2) [of pid] x True by auto
    then show ?thesis using Cons.IH [OF w1(2)] Cons.prems(2) w1(1) x True by (auto simp del: fun_upd_apply simp add: fun_upd_same)
  next
    case False
    obtain w1 where w1: "AddWatchProcess env pid from w = Inr (True, w1)" "watch_ok (cov(from := insert pid (cov from))) w1"
      using AddWatch_ok [OF Cons.prems(1) assms(2)] by blast
    have "(insert pid (cov from) \<union> {q. (q, False) \<in> set ns}) - {q. (q, True) \<in> set ns} =
        (cov from \<union> {q. (q, False) \<in> set (x # ns)}) - {q. (q, True) \<in> set (x # ns)}"
      using x False by auto
    then show ?thesis using Cons.IH [OF w1(2)] Cons.prems(2) w1(1) x False by (auto simp del: fun_upd_apply simp add: fun_upd_same)
  qed
qed simp

text \<open>The two HTTP checkers share the watched processes: each synchronises in turn and notifies what changed.\<close>

type_synonym http_checker = "(int \<times> int) HTTPBasedChecker"

definition sync_one_checker ::
  "watch_env \<Rightarrow> (BufferEvent, int \<times> int, rat option) WindowData \<Rightarrow> regexps \<Rightarrow> SyncPolicyWithProcesses list \<Rightarrow> http_checker \<Rightarrow> watch_state \<Rightarrow>
     (http_checker \<times> watch_state) or_panic" where
  "sync_one_checker env D rx policies n w = panic_bind (HTTP_SyncPolicies D rx policies n) (\<lambda>(n', changes).
     panic_bind (notify_watch env (hc_CheckType n) changes w) (\<lambda>w'. Inr (n', w')))"

definition sync_checkers ::
  "watch_env \<Rightarrow> regexps \<Rightarrow> SyncPolicyWithProcesses list \<Rightarrow> http_checker \<times> http_checker \<times> watch_state \<Rightarrow>
     (http_checker \<times> http_checker \<times> watch_state) or_panic" where
  "sync_checkers env rx policies = (\<lambda>(a, b, w).
     panic_bind (sync_one_checker env ErrorStatics rx policies a w) (\<lambda>(a', w').
     panic_bind (sync_one_checker env AvgResponseTimeStatics rx policies b w') (\<lambda>(b', w''). Inr (a', b', w''))))"

fun sync_run ::
  "watch_env \<Rightarrow> regexps \<Rightarrow> SyncPolicyWithProcesses list list \<Rightarrow> http_checker \<times> http_checker \<times> watch_state \<Rightarrow>
     (http_checker \<times> http_checker \<times> watch_state) or_panic" where
  "sync_run env rx [] s = Inr s"
| "sync_run env rx (policies # rest) s = panic_bind (sync_checkers env rx policies s) (sync_run env rx rest)"

definition nothing_watched :: watch_state where
  "nothing_watched = \<lparr>wt_bpf = NotLoaded, wt_bpfLinker = False, wt_monitoring = [], wt_control = {}\<rparr>"

definition checker_pids :: "http_checker \<Rightarrow> int set" where
  "checker_pids n = dom (map_of (hc_PidWithInfos n))"

definition wanted_pids :: "http_checker \<Rightarrow> SyncPolicyWithProcesses list \<Rightarrow> int set" where
  "wanted_pids n policies = covered_pids (enabled_item (hc_ThresholdGenerate n) (hc_CheckType n)) policies"

lemma sync_one_ok:
  assumes "watch_ok cov w" "no_failure env" "cov (hc_CheckType n) = checker_pids n" "sync_one_checker env D rx policies n w = Inr (n', w')"
  shows "watch_ok (cov(hc_CheckType n := checker_pids n')) w'" "checker_pids n' = wanted_pids n policies"
    "hc_CheckType n' = hc_CheckType n" "hc_ThresholdGenerate n' = hc_ThresholdGenerate n"
proof -
  let ?en = "enabled_item (hc_ThresholdGenerate n) (hc_CheckType n)"
  obtain changes where s: "HTTP_SyncPolicies D rx policies n = Inr (n', changes)" and c: "notify_watch env (hc_CheckType n) changes w = Inr w'"
    using assms(4) by (auto simp: sync_one_checker_def split: sum.splits)
  obtain infos st where b: "SyncPolicies (http_info D rx (hc_ThresholdGenerate n)) ?en policies (hc_PidWithInfos n, hc_store n) = Inr ((infos, st), changes)"
    and n': "n' = n\<lparr>hc_PidWithInfos := infos, hc_store := st\<rparr>"
    using s by (auto simp: HTTP_SyncPolicies_def split: sum.splits)
  note cov = SyncPolicies_covers [OF b]
  show w: "checker_pids n' = wanted_pids n policies" using cov(1) n' by (simp add: checker_pids_def wanted_pids_def)
  have "(checker_pids n \<union> {pid. (pid, False) \<in> set changes}) - {pid. (pid, True) \<in> set changes} = checker_pids n'"
    using cov(2,3) w by (auto simp: checker_pids_def wanted_pids_def)
  then show "watch_ok (cov(hc_CheckType n := checker_pids n')) w'"
    using notify_ok [OF assms(1,2), of changes "hc_CheckType n"] cov(2,3) assms(3) c by auto
  show "hc_CheckType n' = hc_CheckType n" "hc_ThresholdGenerate n' = hc_ThresholdGenerate n" by (simp_all add: n')
qed

lemma sync_checkers_ok:
  assumes ok: "watch_ok cov w" "no_failure env" "cov (hc_CheckType a) = checker_pids a" "cov (hc_CheckType b) = checker_pids b"
    and ne: "hc_CheckType a \<noteq> hc_CheckType b" and s: "sync_checkers env rx policies (a, b, w) = Inr (a', b', w')"
  shows "watch_ok (cov(hc_CheckType a := checker_pids a', hc_CheckType b := checker_pids b')) w'"
    "checker_pids a' = wanted_pids a policies" "checker_pids b' = wanted_pids b policies"
    "hc_CheckType a' = hc_CheckType a" "hc_ThresholdGenerate a' = hc_ThresholdGenerate a"
    "hc_CheckType b' = hc_CheckType b" "hc_ThresholdGenerate b' = hc_ThresholdGenerate b"
proof -
  obtain w1 where 1: "sync_one_checker env ErrorStatics rx policies a w = Inr (a', w1)"
    and 2: "sync_one_checker env AvgResponseTimeStatics rx policies b w1 = Inr (b', w')"
    using s by (auto simp: sync_checkers_def split: sum.splits)
  note o1 = sync_one_ok [OF ok(1,2,3) 1]
  have "(cov(hc_CheckType a := checker_pids a')) (hc_CheckType b) = checker_pids b" using ok(4) ne by simp
  note o2 = sync_one_ok [OF o1(1) ok(2) this 2]
  show "watch_ok (cov(hc_CheckType a := checker_pids a', hc_CheckType b := checker_pids b')) w'" by (rule o2(1))
  show "checker_pids a' = wanted_pids a policies" by (rule o1(2))
  show "checker_pids b' = wanted_pids b policies" by (rule o2(2))
  show "hc_CheckType a' = hc_CheckType a" by (rule o1(3))
  show "hc_ThresholdGenerate a' = hc_ThresholdGenerate a" by (rule o1(4))
  show "hc_CheckType b' = hc_CheckType b" by (rule o2(3))
  show "hc_ThresholdGenerate b' = hc_ThresholdGenerate b" by (rule o2(4))
qed

lemma sync_run_ok:
  assumes "watch_ok cov w" "no_failure env" "cov (hc_CheckType a) = checker_pids a" "cov (hc_CheckType b) = checker_pids b"
    "hc_CheckType a \<noteq> hc_CheckType b" "\<And>c. c \<noteq> hc_CheckType a \<Longrightarrow> c \<noteq> hc_CheckType b \<Longrightarrow> cov c = {}"
    "sync_run env rx pss (a, b, w) = Inr (a', b', w')" "pss \<noteq> []"
  shows "watch_ok (\<lambda>c. if c = hc_CheckType a then wanted_pids a (last pss) else if c = hc_CheckType b then wanted_pids b (last pss) else {}) w'"
  using assms
proof (induction pss arbitrary: cov w a b)
  case (Cons ps pss)
  obtain a1 b1 w1 where 1: "sync_checkers env rx ps (a, b, w) = Inr (a1, b1, w1)" and 2: "sync_run env rx pss (a1, b1, w1) = Inr (a', b', w')"
    using Cons.prems(7) by (auto split: sum.splits)
  note st = sync_checkers_ok [OF Cons.prems(1-5) 1]
  have w: "wanted_pids a1 = wanted_pids a" "wanted_pids b1 = wanted_pids b" using st by (auto simp: wanted_pids_def)
  show ?case
  proof (cases "pss = []")
    case True
    have "cov(hc_CheckType a := checker_pids a1, hc_CheckType b := checker_pids b1) =
      (\<lambda>c. if c = hc_CheckType a then wanted_pids a ps else if c = hc_CheckType b then wanted_pids b ps else {})"
      using Cons.prems(5,6) st(2,3) by (auto simp: fun_eq_iff)
    moreover have "w1 = w'" using 2 True by simp
    ultimately show ?thesis using st(1) True by (simp cong: if_cong)
  next
    case False
    have "watch_ok (\<lambda>c. if c = hc_CheckType a1 then wanted_pids a1 (last pss) else if c = hc_CheckType b1 then wanted_pids b1 (last pss) else {}) w'"
      using Cons.prems(5,6) st False by (intro Cons.IH [OF st(1) Cons.prems(2) _ _ _ _ 2]) auto
    then show ?thesis using False by (simp add: w st(4,6) cong: if_cong)
  qed
qed simp

lemma watch_sources: "watch_ok cov w \<Longrightarrow> pid \<in> dom (map_of (wt_monitoring w)) \<longleftrightarrow> (\<exists>c. pid \<in> cov c)"
  unfolding watch_ok_def domIff by (metis list.set_intros(1) neq_Nil_conv not_None_eq option.inject)

definition http_wanted :: "CheckType \<Rightarrow> (string \<Rightarrow> rat option) \<Rightarrow> CheckType \<Rightarrow> (string \<Rightarrow> rat option) \<Rightarrow> SyncPolicyWithProcesses list \<Rightarrow> int set" where
  "http_wanted ctA tgA ctB tgB policies = covered_pids (enabled_item tgA ctA) policies \<union> covered_pids (enabled_item tgB ctB) policies"


text \<open>when loading the kernel programs fails, the next process that is to be watched finds them there and the program stops, whatever
  would succeed by then.\<close>

theorem failed_load_is_fatal:
  assumes "\<not> we_load env" "AddWatchProcess env pid from nothing_watched = Inr (ok, w)"
  shows "\<not> ok \<and> AddWatchProcess env' pid' from' w = Inl NilDereference"
proof -
  have w: "w = nothing_watched\<lparr>wt_bpf := WithoutMaps\<rparr>" "\<not> ok"
    using assms by (auto simp: AddWatchProcess_def startBPFIfNeed_def nothing_watched_def)
  then show ?thesis by (simp add: AddWatchProcess_def startBPFIfNeed_def nothing_watched_def AddSource_def RemoveSource_def)
qed

section \<open>Requests and responses\<close>

lemma space_index_split: "CHR '' '' \<notin> set m \<Longrightarrow> space_index (m @ CHR '' '' # r) = Some (length m)"
  by (simp add: space_index_def) (subst takeWhile_append2, auto)

lemma after_first_space_split: "CHR '' '' \<notin> set m \<Longrightarrow> m \<noteq> [] \<Longrightarrow> r \<noteq> [] \<Longrightarrow> after_first_space (m @ CHR '' '' # r) = Some r"
  by (simp add: after_first_space_def space_index_split)

fun handle_all ::
  "networkBufferInBPF list \<Rightarrow> (u64 \<rightharpoonup> HTTP1BufferEvent) \<Rightarrow> (HTTP1BufferEvent list \<times> (u64 \<rightharpoonup> HTTP1BufferEvent)) or_panic" where
  "handle_all [] ch = Inr ([], ch)"
| "handle_all (b # bs) ch = panic_bind (HandleBufferEvent b ch) (\<lambda>(e, ch1). panic_bind (handle_all bs ch1) (\<lambda>(es, ch2).
     Inr ((case e of None \<Rightarrow> es | Some x \<Rightarrow> x # es), ch2)))"

lemma HandleBufferEvent_other: "HandleBufferEvent b ch = Inr (e, ch') \<Longrightarrow> nb_ChannelRef b \<noteq> c \<Longrightarrow> ch' c = ch c"
  by (auto simp: HandleBufferEvent_def Let_def split: sum.splits option.splits if_splits)

lemma handle_all_other: "handle_all bs ch = Inr (es, ch') \<Longrightarrow> \<forall>b \<in> set bs. nb_ChannelRef b \<noteq> c \<Longrightarrow> ch' c = ch c"
  by (induction bs arbitrary: ch es) (auto simp: HandleBufferEvent_other split: sum.splits option.splits)

text \<open>C27: a request and its response on one channel become an event, whatever is handled on the other channels in between: the address is
  what stands between the first blank and the next blank or question mark, the status is the second word of the response, and the duration
  is the difference of the two times.\<close>

theorem request_and_response_are_paired:
  assumes "nb_Direction q = 1" "buffer_text q = Inr (m @ CHR '' '' # uri @ c # r)" "m \<noteq> []" "CHR '' '' \<notin> set m"
    "c = CHR ''?'' \<or> c = CHR '' ''" "\<forall>d \<in> set uri. d \<noteq> CHR ''?'' \<and> d \<noteq> CHR '' ''"
    and "handle_all (q # mid) ch = Inr (es, ch')" "\<forall>b \<in> set mid. nb_ChannelRef b \<noteq> nb_ChannelRef q"
    and "nb_Direction p \<noteq> 1" "nb_ChannelRef p = nb_ChannelRef q" "buffer_text p = Inr (v @ CHR '' '' # code @ CHR '' '' # r')"
    "v \<noteq> []" "CHR '' '' \<notin> set v" "CHR '' '' \<notin> set code" "ParseInt32 code = Some n"
  shows "\<exists>e. HandleBufferEvent p ch' = Inr (Some e, ch'(nb_ChannelRef q := None)) \<and> buffer_event boot e =
    \<lparr>be_Pid = sint (nb_Pid q), be_RequestURI = uri, be_IsResponseError = (n \<ge> 500), be_Duration = sint (nb_Timestamp p - nb_Timestamp q),
     be_StartTime = host_Time boot (nb_Timestamp q)\<rparr>"
proof -
  let ?e = "\<lparr>h1_pid = nb_Pid q, h1_requestURI = uri, h1_requestTime = nb_Timestamp q, h1_statusCode = 0, h1_responseTime = 0\<rparr>"
  have "takeWhile (\<lambda>d. \<not> (d = CHR ''?'' \<or> d = CHR '' '')) (uri @ c # r) = uri"
    using assms(5,6) by (subst takeWhile_append2) auto
  then have "analyzeRequestURI q = Inr (Some uri)" using assms(2-6) by (auto simp: analyzeRequestURI_def after_first_space_split list_ex_iff)
  then have "HandleBufferEvent q ch = Inr (None, ch(nb_ChannelRef q \<mapsto> ?e))" using assms(1) by (simp add: HandleBufferEvent_def)
  then obtain es' where "handle_all mid (ch(nb_ChannelRef q \<mapsto> ?e)) = Inr (es', ch')"
    using assms(7) by (auto split: sum.splits)
  from handle_all_other [OF this assms(8)] have "ch' (nb_ChannelRef q) = Some ?e" by simp
  moreover have "analyzeResponseStatus p = Inr (Some n)"
    using assms(11-15) by (simp add: analyzeResponseStatus_def after_first_space_split space_index_split)
  ultimately show ?thesis using assms(9,10) by (simp add: HandleBufferEvent_def buffer_event_def)
qed

text \<open>a response whose status line ends with the status stops the program.\<close>

theorem short_status_line_panics:
  assumes "ch (nb_ChannelRef p) \<noteq> None" "nb_Direction p \<noteq> 1" "buffer_text p = Inr (v @ CHR '' '' # code)"
    "v \<noteq> []" "code \<noteq> []" "CHR '' '' \<notin> set v" "CHR '' '' \<notin> set code"
  shows "HandleBufferEvent p ch = Inl SliceBounds"
  using assms by (auto simp: HandleBufferEvent_def analyzeResponseStatus_def after_first_space_split space_index_def)

section \<open>Examples\<close>

definition example_watch_env :: watch_env where
  "example_watch_env = \<lparr>we_load = True, we_link = True, we_ssl = (\<lambda>_. True), we_update = (\<lambda>_. True)\<rparr>"

definition example_policies :: "SyncPolicyWithProcesses list" where
  "example_policies = global_policy ''HTTP_ERROR_RATE'' (example_item [] [] 3) example_process"


theorem failed_load_is_fatal_witness:
  "AddWatchProcess (example_watch_env\<lparr>we_load := False\<rparr>) 7 ''a'' nothing_watched = Inr (False, nothing_watched\<lparr>wt_bpf := WithoutMaps\<rparr>) \<and>
   AddWatchProcess example_watch_env 8 ''b'' (nothing_watched\<lparr>wt_bpf := WithoutMaps\<rparr>) = Inl NilDereference"
proof -
  have "AddWatchProcess (example_watch_env\<lparr>we_load := False\<rparr>) 7 ''a'' nothing_watched = Inr (False, nothing_watched\<lparr>wt_bpf := WithoutMaps\<rparr>)"
    by (simp add: AddWatchProcess_def startBPFIfNeed_def nothing_watched_def)
  from failed_load_is_fatal [OF _ this, of example_watch_env 8 "''b''"] this show ?thesis by simp
qed

definition text_buffer :: "u8 \<Rightarrow> u64 \<Rightarrow> string \<Rightarrow> networkBufferInBPF" where
  "text_buffer dir t s = \<lparr>nb_Timestamp = t, nb_ChannelRef = 1, nb_Protocol = 1, nb_Direction = dir, nb_Size = of_nat (length s), nb_Pid = 7,
     nb_Buffer = map (\<lambda>c. of_nat (of_char c)) s @ replicate (256 - length s) 0\<rparr>"

lemma text_buffer_text: "length s \<le> 256 \<Longrightarrow> buffer_text (text_buffer dir t s) = Inr s"
proof -
  assume "length s \<le> 256"
  then have "unat (of_nat (length s) :: u16) = length s" by (simp add: unat_of_nat)
  moreover have "char_of (unat (of_nat (of_char c) :: u8)) = c" for c
    by (simp add: unat_of_nat)
  ultimately show ?thesis by (simp add: buffer_text_def text_buffer_def comp_def)
qed

theorem request_and_response_are_paired_witness:
  "\<exists>ch e. handle_all [text_buffer 1 5 ''GET /a?b''] Map.empty = Inr ([], ch) \<and>
     HandleBufferEvent (text_buffer 2 9 ''HTTP/1.1 500 E'') ch = Inr (Some e, ch(1 := None)) \<and>
     be_RequestURI (buffer_event 0 e) = ''/a'' \<and> be_IsResponseError (buffer_event 0 e) \<and> be_Duration (buffer_event 0 e) = 4"
proof -
  let ?q = "text_buffer 1 5 ''GET /a?b''" and ?p = "text_buffer 2 9 ''HTTP/1.1 500 E''"
  have q: "nb_Direction ?q = 1" "nb_ChannelRef ?q = 1" "nb_Timestamp ?q = 5" and p: "nb_Direction ?p \<noteq> 1" "nb_ChannelRef ?p = nb_ChannelRef ?q" "nb_Timestamp ?p = 9"
    by (simp_all add: text_buffer_def)
  have tq: "buffer_text ?q = Inr (''GET'' @ CHR '' '' # ''/a'' @ CHR ''?'' # ''b'')"
    and tp: "buffer_text ?p = Inr (''HTTP/1.1'' @ CHR '' '' # ''500'' @ CHR '' '' # ''E'')"
    by (simp_all add: text_buffer_text)
  have code: "ParseInt32 ''500'' = Some 500" by (simp add: ParseInt32_def Atoi_def is_digit_def dec_value_def)
  have "analyzeRequestURI ?q = Inr (Some ''/a'')"
    using tq by (simp add: analyzeRequestURI_def after_first_space_def space_index_def)
  then obtain ch where ch: "handle_all [?q] Map.empty = Inr ([], ch)" using q by (simp add: HandleBufferEvent_def)
  show ?thesis
    using request_and_response_are_paired [OF q(1) tq _ _ _ _ ch _ p(1,2) tp _ _ _ code, of 0] ch q p by auto
qed

theorem short_status_line_panics_witness:
  "HandleBufferEvent (text_buffer 2 9 ''HTTP/1.1 200'') [1 \<mapsto> \<lparr>h1_pid = 7, h1_requestURI = ''/'', h1_requestTime = 5, h1_statusCode = 0, h1_responseTime = 0\<rparr>] =
     Inl SliceBounds"
proof -
  let ?p = "text_buffer 2 9 ''HTTP/1.1 200''"
  have tp: "buffer_text ?p = Inr (''HTTP/1.1'' @ CHR '' '' # ''200'')" by (simp add: text_buffer_text)
  show ?thesis by (rule short_status_line_panics [OF _ _ tp]) (simp_all add: text_buffer_def)
qed

end
