(* ===== verification/Profiling_Task.thy ===== *)
theory Profiling_Task
  imports Continuous_Checker "HOL-Library.Char_ord" "HOL-Library.List_Lexorder"
begin

text \<open>
  The profiling tasks, \<^verbatim>\<open>pkg/profiling/task\<close>: reading them from a command, which of them are the same, and the manager that
  starts, extends, stops and removes them. A context is a pointer in the code, held by the manager, by its goroutines and by the
  triggers of continuous profiling; here it is an address in a store of contexts. The runner of a task, the decoding of JSON and
  the process registry are arguments. Times are nanoseconds, except the start of a task, which is in milliseconds.
\<close>

section \<open>Tasks\<close>

record NetworkSamplingRule =
  ns_URIRegex :: "string option"
  ns_MinDuration :: "int option"
  ns_When4XX :: bool
  ns_When5XX :: bool
  ns_Settings :: "(bool \<times> int \<times> bool \<times> int) option"

record ProfilingTask =
  pt_TaskID :: string
  pt_ProcessIDList :: "string list"
  pt_UpdateTime :: int
  pt_StartTime :: int
  pt_TriggerType :: string
  pt_TargetType :: string
  pt_MaxRunningDuration :: int
  pt_ExtensionConfig :: "NetworkSamplingRule list option"

record Command =
  cmd_Command :: string
  cmd_Args :: "(string \<times> string) list"

definition getCommandStringValue :: "Command \<Rightarrow> string \<Rightarrow> string option" where
  "getCommandStringValue command key = map_of (cmd_Args command) key"

definition getCommandIntValue :: "Command \<Rightarrow> string \<Rightarrow> int option" where
  "getCommandIntValue command key = Option.bind (getCommandStringValue command key) Atoi"

abbreviation TriggerTypeFixedTime :: string where "TriggerTypeFixedTime \<equiv> ''FIXED_TIME''"
abbreviation TargetTypeOnCPU :: string where "TargetTypeOnCPU \<equiv> ''ON_CPU''"
abbreviation TargetTypeOffCPU :: string where "TargetTypeOffCPU \<equiv> ''OFF_CPU''"
abbreviation TargetTypeNetworkTopology :: string where "TargetTypeNetworkTopology \<equiv> ''NETWORK''"

definition ParseTriggerType :: "string \<Rightarrow> string option" where
  "ParseTriggerType val = (if val = TriggerTypeFixedTime then Some TriggerTypeFixedTime else None)"

definition ParseTargetType :: "string \<Rightarrow> string option" where
  "ParseTargetType val = (if val \<in> {TargetTypeOnCPU, TargetTypeOffCPU, TargetTypeNetworkTopology} then Some val else None)"

text \<open>The duration is a signed 64-bit number of nanoseconds; the product wraps around.\<close>

definition TriggerType_InitTask :: "Command \<Rightarrow> ProfilingTask \<Rightarrow> ProfilingTask option" where
  "TriggerType_InitTask command task =
     (if pt_TriggerType task = TriggerTypeFixedTime
      then map_option (\<lambda>val. task\<lparr>pt_MaxRunningDuration := sint (of_int (val * second) :: 64 word)\<rparr>) (getCommandIntValue command ''FixedTriggerDuration'')
      else Some task)"

definition ProfilingTaskFromCommand :: "(string \<Rightarrow> NetworkSamplingRule list option) \<Rightarrow> Command \<Rightarrow> ProfilingTask option" where
  "ProfilingTaskFromCommand unmarshal command =
     (if cmd_Command command \<noteq> ''EBPFProfilingTaskQuery'' then None
      else Option.bind (getCommandStringValue command ''TaskId'') (\<lambda>taskID.
        Option.bind (getCommandStringValue command ''ProcessId'') (\<lambda>processIDList.
        Option.bind (getCommandIntValue command ''TaskUpdateTime'') (\<lambda>taskUpdateTime.
        Option.bind (Option.bind (getCommandStringValue command ''TriggerType'') ParseTriggerType) (\<lambda>triggerType.
        Option.bind (Option.bind (getCommandStringValue command ''TargetType'') ParseTargetType) (\<lambda>targetType.
        Option.bind (getCommandIntValue command ''TaskStartTime'') (\<lambda>taskStartTime.
        Option.bind (Option.bind (getCommandStringValue command ''ExtensionConfigJSON'') unmarshal) (\<lambda>extensionConfig.
          TriggerType_InitTask command
            \<lparr>pt_TaskID = taskID, pt_ProcessIDList = str_split (CHR '','') processIDList, pt_UpdateTime = taskUpdateTime, pt_StartTime = taskStartTime,
             pt_TriggerType = triggerType, pt_TargetType = targetType, pt_MaxRunningDuration = 0, pt_ExtensionConfig = Some extensionConfig\<rparr>))))))))"

definition ProfilingTaskFromContinuous :: "process_ref list \<Rightarrow> (ProfilingTask \<Rightarrow> ProfilingTask) \<Rightarrow> ProfilingTask" where
  "ProfilingTaskFromContinuous processes taskSetter = taskSetter
     \<lparr>pt_TaskID = [], pt_ProcessIDList = map pf_ID processes, pt_UpdateTime = 0, pt_StartTime = 0,
      pt_TriggerType = TriggerTypeFixedTime, pt_TargetType = [], pt_MaxRunningDuration = 0, pt_ExtensionConfig = None\<rparr>"

section \<open>Contexts\<close>

datatype RunningStatus = NotRunning | Running | Stopped

text \<open>
  A run of a task is a goroutine that calls the runner. Its phases are the writes that it makes one after the other: when the runner
  says that it has started, the status and then the time of the start are written and a goroutine is started that waits for the end of the
  task; when the runner has returned, the wait group is released and then the status is written. The runs are kept in the order in which
  they were started; the wait group of the context is that of the last one.
\<close>

datatype run_phase = RunStarting | RunStatusWritten | RunTimeWritten | RunNotified | RunReturned | RunFinished

text \<open>
  The goroutine that waits for the end of a task: it computes the end, waits for it (for that time, a message or the end of the context),
  has told the runner to stop and waits for the wait group of a run, or is done.
\<close>

datatype watcher = Computing | Waiting int | Stopping nat | Ended

text \<open>
  \<open>cx_recalc\<close> is the number of messages in the channel that asks for a new end time (its capacity is 1), and \<open>cx_cancelled\<close> whether the
  context of the task is done.
\<close>

record TaskContext =
  cx_task :: ProfilingTask
  cx_processes :: "process_ref list"
  cx_status :: RunningStatus
  cx_startRunningTime :: "int option"
  cx_runs :: "run_phase list"
  cx_recalc :: nat
  cx_watchers :: "watcher list"
  cx_cancelled :: bool

definition new_context :: "ProfilingTask \<Rightarrow> process_ref list \<Rightarrow> TaskContext" where
  "new_context task processes = \<lparr>cx_task = task, cx_processes = processes, cx_status = NotRunning, cx_startRunningTime = None, cx_runs = [],
     cx_recalc = 0, cx_watchers = [], cx_cancelled = False\<rparr>"

definition BuildTaskIdentity :: "TaskContext \<Rightarrow> string" where
  "BuildTaskIdentity c = ''['' @ str_join '' '' (pt_ProcessIDList (cx_task c)) @ '']'' @ ''_'' @ pt_TargetType (cx_task c) @ ''_'' @ pt_TriggerType (cx_task c)"

text \<open>Comparing two tasks sorts the process identifiers of both in place.\<close>

definition sort_processes :: "TaskContext \<Rightarrow> TaskContext" where
  "sort_processes c = c\<lparr>cx_task := (cx_task c)\<lparr>pt_ProcessIDList := sort (pt_ProcessIDList (cx_task c))\<rparr>\<rparr>"

definition IsSameTask :: "TaskContext \<Rightarrow> TaskContext \<Rightarrow> bool" where
  "IsSameTask c other \<longleftrightarrow>
     (let task1 = cx_task (sort_processes c); task2 = cx_task (sort_processes other) in
      pt_TaskID task1 = pt_TaskID task2 \<and> pt_ProcessIDList task1 = pt_ProcessIDList task2 \<and> pt_StartTime task1 = pt_StartTime task2 \<and>
      pt_TriggerType task1 = pt_TriggerType task2 \<and> pt_TargetType task1 = pt_TargetType task2)"

definition CheckTaskRunnable :: "int \<Rightarrow> TaskContext \<Rightarrow> bool" where
  "CheckTaskRunnable now c =
     (pt_TriggerType (cx_task c) = TriggerTypeFixedTime \<longrightarrow>
      now div 1000000 \<le> (pt_StartTime (cx_task c) * 1000000 + pt_MaxRunningDuration (cx_task c)) div 1000000)"

section \<open>The manager\<close>

text \<open>
  The tasks by identity, and the store of contexts; \<open>tm_delayed\<close> holds the runs that wait for a timer, with the time at which it fires.
\<close>

record TaskManager =
  tm_tasks :: "(string \<times> nat) list"
  tm_contexts :: "TaskContext list"
  tm_lastUpdateTime :: int
  tm_delayed :: "(int \<times> nat) list"

abbreviation ctx_at :: "TaskManager \<Rightarrow> nat \<Rightarrow> TaskContext" where
  "ctx_at m a \<equiv> tm_contexts m ! a"

definition set_ctx :: "nat \<Rightarrow> TaskContext \<Rightarrow> TaskManager \<Rightarrow> TaskManager" where
  "set_ctx a c m = m\<lparr>tm_contexts := (tm_contexts m)[a := c]\<rparr>"

text \<open>A runner for the task, when its type is known and the runner can be made and initialised.\<close>

definition initTaskContext :: "(ProfilingTask \<Rightarrow> bool) \<Rightarrow> TaskContext \<Rightarrow> TaskManager \<Rightarrow> nat option \<times> TaskManager" where
  "initTaskContext init_ok c m =
     (if pt_TargetType (cx_task c) \<notin> {TargetTypeOnCPU, TargetTypeOffCPU, TargetTypeNetworkTopology} \<or> \<not> init_ok (cx_task c) then (None, m)
      else (Some (length (tm_contexts m)), m\<lparr>tm_contexts := tm_contexts m @ [c]\<rparr>))"

record task_env =
  te_unmarshal :: "string \<Rightarrow> NetworkSamplingRule list option"
  te_FindProcessByID :: "string \<Rightarrow> process_ref option"
  te_init_ok :: "ProfilingTask \<Rightarrow> bool"

definition BuildContextFromCommand :: "task_env \<Rightarrow> Command \<Rightarrow> TaskManager \<Rightarrow> nat option \<times> TaskManager" where
  "BuildContextFromCommand env command m =
     (case ProfilingTaskFromCommand (te_unmarshal env) command of None \<Rightarrow> (None, m)
      | Some t \<Rightarrow>
          let found = map (te_FindProcessByID env) (pt_ProcessIDList t) in
          if None \<in> set found then (None, m)
          else let c = new_context t (map the found) in
            (case map_of (tm_tasks m) (BuildTaskIdentity c) of
               None \<Rightarrow> initTaskContext (te_init_ok env) c m
             | Some a \<Rightarrow> let e = sort_processes (ctx_at m a); c' = sort_processes c in
                 if IsSameTask (ctx_at m a) c then (Some a, set_ctx a (e\<lparr>cx_task := cx_task c'\<rparr>) m)
                 else initTaskContext (te_init_ok env) c' (set_ctx a e m)))"

text \<open>For continuous profiling; the identifier of the task is asked from the backend once nothing is in the way.\<close>

definition BuildContextFromContinuous ::
  "task_env \<Rightarrow> process_ref list \<Rightarrow> (ProfilingTask \<Rightarrow> ProfilingTask) \<Rightarrow> string option or_panic \<Rightarrow> TaskManager \<Rightarrow> (nat option \<times> TaskManager) or_panic" where
  "BuildContextFromContinuous env processes taskSetter taskIDGenerator m =
     (let task = ProfilingTaskFromContinuous processes taskSetter; c = new_context task processes;
          init = (\<lambda>c m. panic_bind taskIDGenerator (\<lambda>taskID. Inr (case taskID of None \<Rightarrow> (None, m)
            | Some i \<Rightarrow> initTaskContext (te_init_ok env) (c\<lparr>cx_task := (cx_task c)\<lparr>pt_TaskID := i\<rparr>\<rparr>) m))) in
      case map_of (tm_tasks m) (BuildTaskIdentity c) of
        None \<Rightarrow> init c m
      | Some a \<Rightarrow> let m' = set_ctx a (sort_processes (ctx_at m a)) m in
          if IsSameTask (ctx_at m a) c then Inr (None, m') else init (sort_processes c) m')"

definition runTask :: "nat \<Rightarrow> TaskManager \<Rightarrow> TaskManager" where
  "runTask a m = set_ctx a ((ctx_at m a)\<lparr>cx_runs := cx_runs (ctx_at m a) @ [RunStarting]\<rparr>) m"

text \<open>The wait group of the last run is released.\<close>

definition run_over :: "TaskContext \<Rightarrow> bool" where
  "run_over c \<longleftrightarrow> cx_runs c \<noteq> [] \<and> last (cx_runs c) \<in> {RunReturned, RunFinished}"

text \<open>
  Stopping a task tells its runner to stop, waits until the last run has returned, and cancels the context. \<open>None\<close> means that it
  still waits: nothing is assumed about whether a runner returns. The flag is whether the runner could be stopped; a task that never ran
  needs no stopping.
\<close>

definition shutdownTask :: "(nat \<Rightarrow> bool) \<Rightarrow> nat \<Rightarrow> TaskManager \<Rightarrow> (bool \<times> TaskManager) option" where
  "shutdownTask stop_ok a m =
     (if cx_runs (ctx_at m a) = [] then Some (True, m)
      else if run_over (ctx_at m a) then Some (stop_ok a, set_ctx a ((ctx_at m a)\<lparr>cx_cancelled := True\<rparr>) m) else None)"

definition ShutdownAndRemoveTask :: "(nat \<Rightarrow> bool) \<Rightarrow> nat \<Rightarrow> TaskManager \<Rightarrow> (bool \<times> TaskManager) option" where
  "ShutdownAndRemoveTask stop_ok a m =
     map_option (\<lambda>(ok, m'). (ok, m'\<lparr>tm_tasks := AList.delete (BuildTaskIdentity (ctx_at m' a)) (tm_tasks m')\<rparr>)) (shutdownTask stop_ok a m)"

text \<open>A task whose time has come runs; otherwise a timer is set.\<close>

definition start_now :: "int \<Rightarrow> string \<Rightarrow> nat \<Rightarrow> TaskManager \<Rightarrow> TaskManager" where
  "start_now now k a m = (let m' = m\<lparr>tm_tasks := AList.update k a (tm_tasks m)\<rparr> in
     if now div 1000000 \<ge> pt_StartTime (cx_task (ctx_at m a)) then runTask a m'
     else let afterRun = now - pt_StartTime (cx_task (ctx_at m a)) * 1000000 in m'\<lparr>tm_delayed := tm_delayed m' @ [(now + afterRun, a)]\<rparr>)"

text \<open>
  Starting a task. \<open>None\<close> means that the caller does not go on: it sends on a full channel until a goroutine takes the message out, or
  waits for the runner of the task that it stops.
\<close>

definition StartTask :: "int \<Rightarrow> (nat \<Rightarrow> bool) \<Rightarrow> nat \<Rightarrow> TaskManager \<Rightarrow> TaskManager option" where
  "StartTask now stop_ok a m0 =
     (let k = BuildTaskIdentity (ctx_at m0 a) in
      case map_of (tm_tasks m0) k of
        None \<Rightarrow> Some (start_now now k a m0)
      | Some e \<Rightarrow>
          let m1 = set_ctx e (sort_processes (ctx_at m0 e)) (set_ctx a (sort_processes (ctx_at m0 a)) m0) in
          if IsSameTask (ctx_at m0 a) (ctx_at m0 e)
          then if cx_recalc (ctx_at m1 a) \<ge> 1 then None else Some (set_ctx a ((ctx_at m1 a)\<lparr>cx_recalc := 1\<rparr>) m1)
          else (case ShutdownAndRemoveTask stop_ok e m1 of None \<Rightarrow> None
             | Some (ok, m2) \<Rightarrow> if ok then Some (start_now now k a m2) else Some m2))"

definition checkStoppedTaskAndRemoved :: "TaskManager \<Rightarrow> TaskManager" where
  "checkStoppedTaskAndRemoved m = m\<lparr>tm_tasks := filter (\<lambda>(_, a). cx_status (ctx_at m a) \<noteq> Stopped) (tm_tasks m)\<rparr>"

text \<open>The contexts of a list of commands that can run, and the newest update time seen.\<close>

fun watch_commands :: "task_env \<Rightarrow> int \<Rightarrow> Command list \<Rightarrow> int \<Rightarrow> TaskManager \<Rightarrow> nat list \<times> int \<times> TaskManager" where
  "watch_commands env now [] lastUpdateTime m = ([], lastUpdateTime, m)"
| "watch_commands env now (cmd # cmds) lastUpdateTime m =
     (case BuildContextFromCommand env cmd m of
        (None, m') \<Rightarrow> watch_commands env now cmds lastUpdateTime m'
      | (Some a, m') \<Rightarrow>
          let (as, u, m'') = watch_commands env now cmds (max lastUpdateTime (pt_UpdateTime (cx_task (ctx_at m' a)))) m' in
          (if CheckTaskRunnable now (ctx_at m' a) then a # as else as, u, m''))"

fun start_tasks :: "int \<Rightarrow> (nat \<Rightarrow> bool) \<Rightarrow> nat list \<Rightarrow> TaskManager \<Rightarrow> TaskManager option" where
  "start_tasks now stop_ok [] m = Some m"
| "start_tasks now stop_ok (a # as) m = Option.bind (StartTask now stop_ok a m) (start_tasks now stop_ok as)"

text \<open>The commands that the backend answers with; none when the query fails.\<close>

definition StartingWatchTask :: "task_env \<Rightarrow> int \<Rightarrow> (nat \<Rightarrow> bool) \<Rightarrow> Command list option \<Rightarrow> TaskManager \<Rightarrow> TaskManager option" where
  "StartingWatchTask env now stop_ok commands m =
     (case commands of None \<Rightarrow> Some m
      | Some cmds \<Rightarrow> if cmds = [] then Some m
          else let (as, u, m') = watch_commands env now cmds (tm_lastUpdateTime m) m in
            start_tasks now stop_ok as (m'\<lparr>tm_lastUpdateTime := u\<rparr>))"

text \<open>
  Flushing: the data of every task is sent, the first piece of each with its metadata; the first send that fails ends it. The
  tasks that have stopped are removed afterwards in every case. The result is what was sent.
\<close>

record TaskMetadata =
  md_TaskId :: string
  md_ProcessId :: string
  md_ProfilingStartTime :: int
  md_CurrentTime :: int

definition zero_time :: int where
  "zero_time = - 62135596800000000000"

definition with_metadata :: "int \<Rightarrow> TaskContext \<Rightarrow> 'd list \<Rightarrow> (TaskMetadata option \<times> 'd) list or_panic" where
  "with_metadata now c data =
     (case data of [] \<Rightarrow> Inr []
      | d # ds \<Rightarrow> (case pt_ProcessIDList (cx_task c) of [] \<Rightarrow> Inl IndexOutOfRange
          | p # _ \<Rightarrow> Inr ((Some \<lparr>md_TaskId = pt_TaskID (cx_task c), md_ProcessId = p,
              md_ProfilingStartTime = (case cx_startRunningTime c of None \<Rightarrow> zero_time | Some t \<Rightarrow> t) div 1000000, md_CurrentTime = now div 1000000\<rparr>, d)
              # map (Pair None) ds)))"

fun send_data :: "('d \<Rightarrow> bool) \<Rightarrow> (TaskMetadata option \<times> 'd) list \<Rightarrow> (TaskMetadata option \<times> 'd) list \<times> bool" where
  "send_data send_ok [] = ([], True)"
| "send_data send_ok (x # xs) = (if send_ok (snd x) then (let (sent, ok) = send_data send_ok xs in (x # sent, ok)) else ([], False))"

fun flush_tasks ::
  "int \<Rightarrow> (nat \<Rightarrow> 'd list option) \<Rightarrow> ('d \<Rightarrow> bool) \<Rightarrow> TaskManager \<Rightarrow> nat list \<Rightarrow> ((TaskMetadata option \<times> 'd) list \<times> bool) or_panic" where
  "flush_tasks now flushData send_ok m [] = Inr ([], True)"
| "flush_tasks now flushData send_ok m (a # as) =
     (case flushData a of None \<Rightarrow> flush_tasks now flushData send_ok m as
      | Some data \<Rightarrow> panic_bind (with_metadata now (ctx_at m a) data) (\<lambda>xs.
          let (sent, ok) = send_data send_ok xs in
          if \<not> ok then Inr (sent, False)
          else panic_bind (flush_tasks now flushData send_ok m as) (\<lambda>(rest, ok'). Inr (sent @ rest, ok'))))"

definition FlushProfilingData ::
  "int \<Rightarrow> bool \<Rightarrow> (nat \<Rightarrow> 'd list option) \<Rightarrow> ('d \<Rightarrow> bool) \<Rightarrow> TaskManager \<Rightarrow> ((TaskMetadata option \<times> 'd) list \<times> bool \<times> TaskManager) or_panic" where
  "FlushProfilingData now stream_ok flushData send_ok m =
     (let m' = checkStoppedTaskAndRemoved m in
      if tm_tasks m = [] then Inr ([], True, m')
      else if \<not> stream_ok then Inr ([], False, m')
      else panic_bind (flush_tasks now flushData send_ok m (map snd (tm_tasks m))) (\<lambda>(sent, ok). Inr (sent, ok, m')))"

section \<open>The goroutines\<close>

text \<open>
  What happens to tasks beside the calls of the module, each step at a time \<open>now\<close>: the goroutines of the runs and those that wait for the
  end of a task make their next write, a runner returns (before or after it has said that it started), and a timer starts a delayed task.
\<close>

definition end_time :: "TaskContext \<Rightarrow> int" where
  "end_time c = (case cx_startRunningTime c of None \<Rightarrow> zero_time | Some t \<Rightarrow> t) + pt_MaxRunningDuration (cx_task c)"

inductive context_step :: "int \<Rightarrow> TaskContext \<Rightarrow> TaskContext \<Rightarrow> bool" for now where
  said_running: "i < length (cx_runs c) \<Longrightarrow> cx_runs c ! i = RunStarting \<Longrightarrow>
    context_step now c (c\<lparr>cx_runs := (cx_runs c)[i := RunStatusWritten], cx_status := Running\<rparr>)"
| start_noted: "i < length (cx_runs c) \<Longrightarrow> cx_runs c ! i = RunStatusWritten \<Longrightarrow>
    context_step now c (c\<lparr>cx_runs := (cx_runs c)[i := RunTimeWritten], cx_startRunningTime := Some now\<rparr>)"
| watch_begun: "i < length (cx_runs c) \<Longrightarrow> cx_runs c ! i = RunTimeWritten \<Longrightarrow>
    context_step now c (c\<lparr>cx_runs := (cx_runs c)[i := RunNotified], cx_watchers := cx_watchers c @ [Computing]\<rparr>)"
| run_returned: "i < length (cx_runs c) \<Longrightarrow> cx_runs c ! i \<in> {RunStarting, RunNotified} \<Longrightarrow>
    context_step now c (c\<lparr>cx_runs := (cx_runs c)[i := RunReturned]\<rparr>)"
| run_finished: "i < length (cx_runs c) \<Longrightarrow> cx_runs c ! i = RunReturned \<Longrightarrow>
    context_step now c (c\<lparr>cx_runs := (cx_runs c)[i := RunFinished], cx_status := Stopped\<rparr>)"
| end_computed: "j < length (cx_watchers c) \<Longrightarrow> cx_watchers c ! j = Computing \<Longrightarrow>
    context_step now c (c\<lparr>cx_watchers := (cx_watchers c)[j := Waiting (end_time c)]\<rparr>)"
| extended: "j < length (cx_watchers c) \<Longrightarrow> cx_watchers c ! j = Waiting t \<Longrightarrow> cx_recalc c = Suc n \<Longrightarrow>
    context_step now c (c\<lparr>cx_recalc := n, cx_watchers := (cx_watchers c)[j := Computing]\<rparr>)"
| timed_out: "j < length (cx_watchers c) \<Longrightarrow> cx_watchers c ! j = Waiting t \<Longrightarrow> t \<le> now \<Longrightarrow>
    context_step now c (c\<lparr>cx_watchers := (cx_watchers c)[j := Stopping (length (cx_runs c) - 1)]\<rparr>)"
| context_done: "j < length (cx_watchers c) \<Longrightarrow> cx_watchers c ! j = Waiting t \<Longrightarrow> cx_cancelled c \<Longrightarrow>
    context_step now c (c\<lparr>cx_watchers := (cx_watchers c)[j := Stopping (length (cx_runs c) - 1)]\<rparr>)"
| stopped: "j < length (cx_watchers c) \<Longrightarrow> cx_watchers c ! j = Stopping i \<Longrightarrow> i < length (cx_runs c) \<Longrightarrow> cx_runs c ! i \<in> {RunReturned, RunFinished} \<Longrightarrow>
    context_step now c (c\<lparr>cx_watchers := (cx_watchers c)[j := Ended], cx_cancelled := True\<rparr>)"

inductive goroutine_step :: "int \<Rightarrow> TaskManager \<Rightarrow> TaskManager \<Rightarrow> bool" for now where
  in_context: "a < length (tm_contexts m) \<Longrightarrow> context_step now (ctx_at m a) c \<Longrightarrow> goroutine_step now m (set_ctx a c m)"
| delayed: "(fire, a) \<in> set (tm_delayed m) \<Longrightarrow> fire \<le> now \<Longrightarrow> a < length (tm_contexts m) \<Longrightarrow>
    goroutine_step now m (runTask a (m\<lparr>tm_delayed := remove1 (fire, a) (tm_delayed m)\<rparr>))"
| given_up: "(fire, a) \<in> set (tm_delayed m) \<Longrightarrow> a < length (tm_contexts m) \<Longrightarrow> cx_cancelled (ctx_at m a) \<Longrightarrow>
    goroutine_step now m (m\<lparr>tm_delayed := remove1 (fire, a) (tm_delayed m)\<rparr>)"

text \<open>The module: it asks for tasks, flushes, and starts tasks of continuous profiling.\<close>

inductive module_step :: "task_env \<Rightarrow> TaskManager \<Rightarrow> TaskManager \<Rightarrow> bool" for env where
  queried: "StartingWatchTask env now stop_ok commands m = Some m' \<Longrightarrow> module_step env m m'"
| flushed: "FlushProfilingData now stream_ok flushData send_ok m = Inr (sent :: (TaskMetadata option \<times> string) list, ok, m') \<Longrightarrow> module_step env m m'"
| continuous: "BuildContextFromContinuous env ps taskSetter taskIDGenerator m = Inr (Some a, m') \<Longrightarrow> StartTask now stop_ok a m' = Some m'' \<Longrightarrow> module_step env m m''"
| refused: "BuildContextFromContinuous env ps taskSetter taskIDGenerator m = Inr (None, m') \<Longrightarrow> module_step env m m'"
| goroutine: "goroutine_step now m m' \<Longrightarrow> module_step env m m'"

definition no_tasks :: TaskManager where
  "no_tasks = \<lparr>tm_tasks = [], tm_contexts = [], tm_lastUpdateTime = 0, tm_delayed = []\<rparr>"

inductive task_reachable :: "task_env \<Rightarrow> TaskManager \<Rightarrow> bool" for env where
  initial: "task_reachable env no_tasks"
| further: "task_reachable env m \<Longrightarrow> module_step env m m' \<Longrightarrow> task_reachable env m'"

section \<open>What holds of every task\<close>

text \<open>
  A task with the status of running has a run that has not finished, a goroutine that waits for the end of a task knows its start, and the
  channel holds at most one message.
\<close>

definition context_ok :: "TaskContext \<Rightarrow> bool" where
  "context_ok c \<longleftrightarrow>
     (cx_status c = Running \<longrightarrow> (\<exists>r \<in> set (cx_runs c). r \<in> {RunStatusWritten, RunTimeWritten, RunNotified, RunReturned})) \<and>
     (cx_watchers c \<noteq> [] \<or> RunTimeWritten \<in> set (cx_runs c) \<or> RunNotified \<in> set (cx_runs c) \<longrightarrow> cx_startRunningTime c \<noteq> None) \<and> cx_recalc c \<le> 1"

definition stays :: "TaskContext \<Rightarrow> TaskContext \<Rightarrow> bool" where
  "stays c c' \<longleftrightarrow> (context_ok c \<longrightarrow> context_ok c')"

definition manager_ok :: "TaskManager \<Rightarrow> bool" where
  "manager_ok m \<longleftrightarrow> (\<forall>a < length (tm_contexts m). context_ok (ctx_at m a)) \<and> (\<forall>x \<in> set (tm_tasks m). snd x < length (tm_contexts m)) \<and>
     (\<forall>x \<in> set (tm_delayed m). snd x < length (tm_contexts m))"

definition grows :: "TaskManager \<Rightarrow> TaskManager \<Rightarrow> bool" where
  "grows m m' \<longleftrightarrow> length (tm_contexts m) \<le> length (tm_contexts m') \<and> (\<forall>a < length (tm_contexts m). stays (ctx_at m a) (ctx_at m' a)) \<and>
     (manager_ok m \<longrightarrow> manager_ok m')"

lemma stays_refl [simp]: "stays c c" by (simp add: stays_def)
lemma stays_trans: "stays a b \<Longrightarrow> stays b c \<Longrightarrow> stays a c" by (auto simp: stays_def)
lemma grows_refl [simp]: "grows m m" by (simp add: grows_def)
lemma grows_trans: "grows a b \<Longrightarrow> grows b c \<Longrightarrow> grows a c"
  unfolding grows_def by (meson order_less_le_trans order_trans stays_trans)

lemma grows_length: "grows m m' \<Longrightarrow> a < length (tm_contexts m) \<Longrightarrow> a < length (tm_contexts m')" by (auto simp: grows_def)
lemma grows_ok: "grows m m' \<Longrightarrow> manager_ok m \<Longrightarrow> manager_ok m'" by (simp add: grows_def)

lemma stays_sort [simp]: "stays c (sort_processes c)"
  by (auto simp: stays_def sort_processes_def context_ok_def)

lemma stays_task [simp]: "stays c (c'\<lparr>cx_task := t\<rparr>) \<longleftrightarrow> stays c c'"
  by (simp add: stays_def context_ok_def)

lemma set_ctx_simps [simp]: "tm_tasks (set_ctx a c m) = tm_tasks m" "tm_delayed (set_ctx a c m) = tm_delayed m"
  "length (tm_contexts (set_ctx a c m)) = length (tm_contexts m)" "tm_lastUpdateTime (set_ctx a c m) = tm_lastUpdateTime m"
  by (simp_all add: set_ctx_def)

lemma set_ctx_at: "b < length (tm_contexts m) \<Longrightarrow> ctx_at (set_ctx a c m) b = (if a = b then c else ctx_at m b)"
  by (simp add: set_ctx_def nth_list_update)

lemma grows_set_ctx: "a < length (tm_contexts m) \<Longrightarrow> stays (ctx_at m a) c \<Longrightarrow> grows m (set_ctx a c m)"
  by (auto simp: grows_def manager_ok_def set_ctx_at stays_def)

lemma grows_tasks: "(\<And>x. x \<in> set ts \<Longrightarrow> x \<in> set (tm_tasks m) \<or> snd x < length (tm_contexts m)) \<Longrightarrow> grows m (m\<lparr>tm_tasks := ts\<rparr>)"
  by (auto simp: grows_def manager_ok_def)

lemma grows_lastUpdateTime [simp]: "grows m (m\<lparr>tm_lastUpdateTime := u\<rparr>)"
  by (simp add: grows_def manager_ok_def)

lemma grows_delayed: "set ds \<subseteq> set (tm_delayed m) \<Longrightarrow> grows m (m\<lparr>tm_delayed := ds\<rparr>)"
  by (auto simp: grows_def manager_ok_def)

lemma init_grows:
  assumes "initTaskContext init_ok c m = (r, m')" "context_ok c"
  shows "grows m m' \<and> (\<forall>a. r = Some a \<longrightarrow> a < length (tm_contexts m'))"
  using assms by (fastforce simp: initTaskContext_def grows_def manager_ok_def nth_append less_Suc_eq split: if_splits)

lemma context_ok_new [simp]: "context_ok (new_context t ps)" "context_ok (sort_processes c) = context_ok c" "context_ok (c\<lparr>cx_task := t\<rparr>) = context_ok c"
  by (simp_all add: context_ok_def new_context_def sort_processes_def)

lemma tasks_in_store: "manager_ok m \<Longrightarrow> map_of (tm_tasks m) k = Some a \<Longrightarrow> a < length (tm_contexts m)"
  by (auto simp: manager_ok_def dest!: map_of_SomeD)

lemma BuildContextFromCommand_grows:
  assumes "BuildContextFromCommand env cmd m = (r, m')" "manager_ok m"
  shows "grows m m' \<and> (\<forall>a. r = Some a \<longrightarrow> a < length (tm_contexts m'))"
proof (cases "ProfilingTaskFromCommand (te_unmarshal env) cmd")
  case (Some t)
  let ?found = "map (te_FindProcessByID env) (pt_ProcessIDList t)"
  let ?c = "new_context t (map the ?found)"
  show ?thesis
  proof (cases "None \<in> set ?found")
    case True
    then show ?thesis using assms Some by (auto simp: BuildContextFromCommand_def)
  next
    case found: False
    show ?thesis
    proof (cases "map_of (tm_tasks m) (BuildTaskIdentity ?c)")
      case None
      then have "initTaskContext (te_init_ok env) ?c m = (r, m')" using assms(1) Some found by (simp add: BuildContextFromCommand_def)
      from init_grows [OF this] show ?thesis by simp
    next
      case a: (Some a)
      note al = tasks_in_store [OF assms(2) a]
      have g: "grows m (set_ctx a (sort_processes (ctx_at m a)) m)" "grows m (set_ctx a (sort_processes (ctx_at m a)\<lparr>cx_task := t'\<rparr>) m)" for t'
        using al by (auto intro!: grows_set_ctx)
      show ?thesis
      proof (cases "IsSameTask (ctx_at m a) ?c")
        case True
        then show ?thesis using assms(1) Some found a al g by (auto simp: BuildContextFromCommand_def)
      next
        case False
        then have "initTaskContext (te_init_ok env) (sort_processes ?c) (set_ctx a (sort_processes (ctx_at m a)) m) = (r, m')"
          using assms(1) Some found a by (simp add: BuildContextFromCommand_def)
        from init_grows [OF this] g(1) show ?thesis by (auto intro: grows_trans)
      qed
    qed
  qed
qed (use assms in \<open>auto simp: BuildContextFromCommand_def\<close>)

lemma BuildContextFromContinuous_grows:
  assumes "BuildContextFromContinuous env ps taskSetter taskIDGenerator m = Inr (r, m')" "manager_ok m"
  shows "grows m m' \<and> (\<forall>a. r = Some a \<longrightarrow> a < length (tm_contexts m'))"
proof -
  let ?c = "new_context (ProfilingTaskFromContinuous ps taskSetter) ps"
  show ?thesis
  proof (cases "map_of (tm_tasks m) (BuildTaskIdentity ?c)")
    case None
    then show ?thesis using assms(1) by (auto simp: BuildContextFromContinuous_def Let_def dest!: init_grows split: option.splits sum.splits)
  next
    case (Some a)
    let ?m = "set_ctx a (sort_processes (ctx_at m a)) m"
    have g: "grows m ?m" using tasks_in_store [OF assms(2) Some] by (auto intro!: grows_set_ctx)
    have "(r, m') = (None, ?m) \<or> (\<exists>c. context_ok c \<and> initTaskContext (te_init_ok env) c ?m = (r, m'))"
      using assms(1) Some by (fastforce simp: BuildContextFromContinuous_def Let_def split: option.splits if_splits sum.splits)
    then show ?thesis using g by (auto dest!: init_grows intro: grows_trans)
  qed
qed

lemma runTask_grows: "a < length (tm_contexts m) \<Longrightarrow> grows m (runTask a m)"
  unfolding runTask_def by (rule grows_set_ctx) (auto simp: stays_def context_ok_def)

lemma shutdownTask_grows: "a < length (tm_contexts m) \<Longrightarrow> shutdownTask stop_ok a m = Some (ok, m') \<Longrightarrow> grows m m'"
  by (auto simp: shutdownTask_def stays_def context_ok_def intro!: grows_set_ctx split: if_splits)

lemma in_alist_delete: "x \<in> set (AList.delete k al) \<Longrightarrow> x \<in> set al"
  by (simp add: AList.delete_eq)

lemma in_alist_update: "x \<in> set (AList.update k v al) \<Longrightarrow> x = (k, v) \<or> x \<in> set al"
  by (induction al) (auto split: if_splits)

lemma ShutdownAndRemoveTask_grows:
  assumes "a < length (tm_contexts m)" "ShutdownAndRemoveTask stop_ok a m = Some (ok, m')"
  shows "grows m m'"
proof -
  obtain m1 where s: "shutdownTask stop_ok a m = Some (ok, m1)" "m' = m1\<lparr>tm_tasks := AList.delete (BuildTaskIdentity (ctx_at m1 a)) (tm_tasks m1)\<rparr>"
    using assms(2) by (auto simp: ShutdownAndRemoveTask_def)
  have "grows m1 m'" unfolding s(2) by (rule grows_tasks) (auto dest: in_alist_delete)
  then show ?thesis using shutdownTask_grows [OF assms(1) s(1)] by (blast intro: grows_trans)
qed

lemma start_now_grows:
  assumes "a < length (tm_contexts m)"
  shows "grows m (start_now now k a m)"
proof -
  let ?m = "m\<lparr>tm_tasks := AList.update k a (tm_tasks m)\<rparr>"
  have g: "grows m ?m" using assms by (intro grows_tasks) (auto dest!: in_alist_update)
  have "grows ?m (runTask a ?m)" using assms by (intro runTask_grows) simp
  moreover have "grows ?m (?m\<lparr>tm_delayed := tm_delayed ?m @ [(d, a)]\<rparr>)" for d using assms by (auto simp: grows_def manager_ok_def)
  ultimately show ?thesis using g by (auto simp: start_now_def Let_def intro: grows_trans)
qed

lemma StartTask_grows:
  assumes "StartTask now stop_ok a m = Some m'" "manager_ok m" "a < length (tm_contexts m)"
  shows "grows m m'"
proof (cases "map_of (tm_tasks m) (BuildTaskIdentity (ctx_at m a))")
  case None
  then show ?thesis using assms by (auto simp: StartTask_def Let_def start_now_grows)
next
  case (Some e)
  let ?m0 = "set_ctx a (sort_processes (ctx_at m a)) m"
  define m1 where "m1 = set_ctx e (sort_processes (ctx_at m e)) ?m0"
  have e: "e < length (tm_contexts m)" by (rule tasks_in_store [OF assms(2) Some])
  have "stays (ctx_at ?m0 e) (sort_processes (ctx_at m e))" using assms(3) e by (auto simp: set_ctx_at sort_processes_def stays_def context_ok_def)
  then have "grows ?m0 m1" unfolding m1_def using e by (intro grows_set_ctx) auto
  moreover have "grows m ?m0" using assms(3) by (intro grows_set_ctx) auto
  ultimately have g: "grows m m1" by (blast intro: grows_trans)
  have l: "a < length (tm_contexts m1)" "e < length (tm_contexts m1)" using assms(3) e by (simp_all add: m1_def)
  have st: "StartTask now stop_ok a m = (if IsSameTask (ctx_at m a) (ctx_at m e)
      then if cx_recalc (ctx_at m1 a) \<ge> 1 then None else Some (set_ctx a ((ctx_at m1 a)\<lparr>cx_recalc := 1\<rparr>) m1)
      else (case ShutdownAndRemoveTask stop_ok e m1 of None \<Rightarrow> None
         | Some (ok, m2) \<Rightarrow> if ok then Some (start_now now (BuildTaskIdentity (ctx_at m a)) a m2) else Some m2))"
    using Some by (simp add: StartTask_def Let_def m1_def)
  have "grows m1 m'"
  proof (cases "IsSameTask (ctx_at m a) (ctx_at m e)")
    case True
    then have "m' = set_ctx a ((ctx_at m1 a)\<lparr>cx_recalc := 1\<rparr>) m1" using assms(1) unfolding st by (simp split: if_splits)
    then show ?thesis using l(1) by (simp only:) (rule grows_set_ctx, auto simp: stays_def context_ok_def)
  next
    case False
    then obtain ok m2 where s: "ShutdownAndRemoveTask stop_ok e m1 = Some (ok, m2)"
      "m' = (if ok then start_now now (BuildTaskIdentity (ctx_at m a)) a m2 else m2)"
      using assms(1) unfolding st by (simp split: option.splits prod.splits if_splits)
    note g2 = ShutdownAndRemoveTask_grows [OF l(2) s(1)]
    show ?thesis
    proof (cases ok)
      case True
      then show ?thesis using s(2) grows_trans [OF g2 start_now_grows [OF grows_length [OF g2 l(1)]]] by simp
    qed (use s(2) g2 in simp)
  qed
  then show ?thesis by (rule grows_trans [OF g])
qed

lemma watch_commands_grows:
  "watch_commands env now cmds u m = (as, u', m') \<Longrightarrow> manager_ok m \<Longrightarrow> grows m m' \<and> (\<forall>a \<in> set as. a < length (tm_contexts m'))"
proof (induction cmds arbitrary: u m as u' m')
  case (Cons cmd cmds)
  obtain r m1 where b: "BuildContextFromCommand env cmd m = (r, m1)" by (cases "BuildContextFromCommand env cmd m")
  note g = BuildContextFromCommand_grows [OF b Cons.prems(2)]
  then have ok: "manager_ok m1" using Cons.prems(2) grows_ok by blast
  show ?case
  proof (cases r)
    case None
    then show ?thesis using Cons.IH [OF _ ok] Cons.prems(1) b g by (auto intro: grows_trans)
  next
    case (Some a)
    obtain as1 u1 m2 where w: "watch_commands env now cmds (max u (pt_UpdateTime (cx_task (ctx_at m1 a)))) m1 = (as1, u1, m2)"
      by (metis prod_cases3)
    then have "m' = m2" "set as \<subseteq> insert a (set as1)" using Cons.prems(1) b Some by (auto split: if_splits)
    then show ?thesis using Cons.IH [OF w ok] g Some by (auto intro: grows_trans dest: grows_length)
  qed
qed simp

lemma start_tasks_grows:
  "start_tasks now stop_ok as m = Some m' \<Longrightarrow> manager_ok m \<Longrightarrow> \<forall>a \<in> set as. a < length (tm_contexts m) \<Longrightarrow> grows m m'"
proof (induction as arbitrary: m)
  case (Cons a as)
  obtain m1 where s: "StartTask now stop_ok a m = Some m1" "start_tasks now stop_ok as m1 = Some m'"
    using Cons.prems(1) by (auto simp: bind_eq_Some_conv)
  have g: "grows m m1" using StartTask_grows [OF s(1) Cons.prems(2)] Cons.prems(3) by simp
  then show ?case using Cons.IH [OF s(2) grows_ok [OF g Cons.prems(2)]] Cons.prems(3) by (auto intro: grows_trans dest: grows_length)
qed simp

lemma updated_member: "x \<in> set (xs[i := y]) \<Longrightarrow> x = y \<or> x \<in> set xs"
  using set_update_subset_insert [of xs i y] by blast

lemma kept_run: "x \<in> set (xs[i := y]) \<Longrightarrow> x \<noteq> y \<Longrightarrow> x \<in> set xs"
  using updated_member by fast

text \<open>The two parts of the invariant that are about runs.\<close>

lemma context_ok_running:
  "context_ok c \<Longrightarrow> i < length (cx_runs c) \<Longrightarrow> y \<in> {RunStatusWritten, RunTimeWritten, RunNotified, RunReturned} \<Longrightarrow>
     (y = RunTimeWritten \<or> y = RunNotified \<or> cx_watchers c' \<noteq> cx_watchers c \<longrightarrow> cx_startRunningTime c' \<noteq> None) \<Longrightarrow>
     (cx_startRunningTime c \<noteq> None \<longrightarrow> cx_startRunningTime c' \<noteq> None) \<Longrightarrow>
     cx_runs c' = (cx_runs c)[i := y] \<Longrightarrow> cx_recalc c' = cx_recalc c \<Longrightarrow> context_ok c'"
  unfolding context_ok_def using kept_run [of _ "cx_runs c" i y] set_update_memI [of i "cx_runs c" y] by metis

lemma context_ok_watching:
  "context_ok c \<Longrightarrow> cx_watchers c \<noteq> [] \<Longrightarrow> cx_status c' = cx_status c \<Longrightarrow> cx_runs c' = cx_runs c \<Longrightarrow>
     cx_startRunningTime c' = cx_startRunningTime c \<Longrightarrow> cx_recalc c' \<le> cx_recalc c \<Longrightarrow> context_ok c'"
  unfolding context_ok_def by simp

lemma context_step_ok:
  assumes "context_step now c c'" "context_ok c"
  shows "context_ok c'"
  using assms
proof (induction rule: context_step.induct)
  case (said_running i c)
  show ?case by (rule context_ok_running [of c i RunStatusWritten]) (use said_running in simp_all)
next
  case (start_noted i c)
  show ?case by (rule context_ok_running [of c i RunTimeWritten]) (use start_noted in simp_all)
next
  case (watch_begun i c)
  then have "cx_startRunningTime c \<noteq> None" using nth_mem [of i "cx_runs c"] by (auto simp: context_ok_def)
  then show ?case by - (rule context_ok_running [of c i RunNotified], use watch_begun in simp_all)
next
  case (run_returned i c)
  show ?case by (rule context_ok_running [of c i RunReturned]) (use run_returned in simp_all)
next
  case (run_finished i c)
  then show ?case using kept_run [of RunTimeWritten "cx_runs c" i RunFinished] kept_run [of RunNotified "cx_runs c" i RunFinished]
    by (simp add: context_ok_def) blast
next
  case (end_computed j c)
  show ?case by (rule context_ok_watching [of c]) (use end_computed in auto)
next
  case (extended j c t n)
  show ?case by (rule context_ok_watching [of c]) (use extended in auto)
next
  case (timed_out j c t)
  show ?case by (rule context_ok_watching [of c]) (use timed_out in auto)
next
  case (context_done j c t)
  show ?case by (rule context_ok_watching [of c]) (use context_done in auto)
next
  case (stopped j c i)
  show ?case by (rule context_ok_watching [of c]) (use stopped in auto)
qed

lemma goroutine_step_grows: "goroutine_step now m m' \<Longrightarrow> manager_ok m \<Longrightarrow> grows m m'"
proof (induction rule: goroutine_step.induct)
  case (in_context a m c)
  have "stays (ctx_at m a) c" using context_step_ok [OF in_context(2)] by (simp add: stays_def)
  then show ?case using in_context(1) by (rule grows_set_ctx [rotated])
next
  case (delayed fire a m)
  let ?m = "m\<lparr>tm_delayed := remove1 (fire, a) (tm_delayed m)\<rparr>"
  have "grows m ?m" by (rule grows_delayed) (rule set_remove1_subset)
  moreover have "grows ?m (runTask a ?m)" using delayed(3) by (intro runTask_grows) simp
  ultimately show ?case by (blast intro: grows_trans)
next
  case (given_up fire a m)
  show ?case by (rule grows_delayed) (rule set_remove1_subset)
qed

lemma module_step_grows: "module_step env m m' \<Longrightarrow> manager_ok m \<Longrightarrow> grows m m'"
proof (induction rule: module_step.induct)
  case (queried now stop_ok commands m m')
  show ?case
  proof (cases "commands = None \<or> commands = Some []")
    case False
    then obtain cmds where c: "commands = Some cmds" "cmds \<noteq> []" by auto
    obtain as u m1 where w: "watch_commands env now cmds (tm_lastUpdateTime m) m = (as, u, m1)" by (metis prod_cases3)
    note g = watch_commands_grows [OF w queried.prems]
    have m2: "grows m (m1\<lparr>tm_lastUpdateTime := u\<rparr>)" using g by (blast intro: grows_trans grows_lastUpdateTime)
    have "grows (m1\<lparr>tm_lastUpdateTime := u\<rparr>) m'"
      using queried.hyps c w g grows_ok [OF m2 queried.prems] by (intro start_tasks_grows) (auto simp: StartingWatchTask_def)
    then show ?thesis using m2 by (blast intro: grows_trans)
  qed (use queried in \<open>auto simp: StartingWatchTask_def\<close>)
next
  case (flushed now stream_ok flushData send_ok m sent ok m')
  then have "m' = checkStoppedTaskAndRemoved m" by (auto simp: FlushProfilingData_def Let_def split: if_splits sum.splits)
  then show ?case by (auto simp: checkStoppedTaskAndRemoved_def intro!: grows_tasks)
next
  case (continuous ps taskSetter taskIDGenerator m a m' now stop_ok m'')
  note g = BuildContextFromContinuous_grows [OF continuous(1,3)]
  then have "grows m' m''" using continuous grows_ok by (intro StartTask_grows [OF continuous(2)]) auto
  then show ?case using g by (blast intro: grows_trans)
qed (auto dest: BuildContextFromContinuous_grows goroutine_step_grows)

lemma task_reachable_ok: "task_reachable env m \<Longrightarrow> manager_ok m"
proof (induction rule: task_reachable.induct)
  case initial
  then show ?case by (simp add: no_tasks_def manager_ok_def)
next
  case (further m m')
  then show ?case using module_step_grows grows_ok by blast
qed

section \<open>Tasks that are over\<close>

text \<open>A context whose runs have finished and whose goroutines have ended is left alone by the goroutines.\<close>

lemma finished_stays: "set (cx_runs c) \<subseteq> {RunFinished} \<Longrightarrow> set (cx_watchers c) \<subseteq> {Ended} \<Longrightarrow> \<not> context_step now c c'"
proof
  assume "set (cx_runs c) \<subseteq> {RunFinished}" "set (cx_watchers c) \<subseteq> {Ended}"
  then have r: "i < length (cx_runs c) \<Longrightarrow> cx_runs c ! i = RunFinished" "j < length (cx_watchers c) \<Longrightarrow> cx_watchers c ! j = Ended" for i j
    by (auto dest: nth_mem)
  assume "context_step now c c'"
  then show False by cases (auto simp: r)
qed

lemma finished_context_stays:
  assumes "(\<lambda>m m'. \<exists>t. goroutine_step t m m')\<^sup>*\<^sup>* m m'" "a < length (tm_contexts m)" "set (cx_runs (ctx_at m a)) \<subseteq> {RunFinished}"
    "set (cx_watchers (ctx_at m a)) \<subseteq> {Ended}" "a \<notin> snd ` set (tm_delayed m)"
  shows "tm_tasks m' = tm_tasks m \<and> ctx_at m' a = ctx_at m a \<and> a < length (tm_contexts m') \<and> a \<notin> snd ` set (tm_delayed m')"
  using assms(1)
proof (induction rule: rtranclp_induct)
  case (step m1 m2)
  then obtain t where "goroutine_step t m1 m2" by blast
  then show ?case
  proof cases
    case (in_context b c)
    then have "b \<noteq> a" using finished_stays [of "ctx_at m a" t c] assms(3,4) step.IH by auto
    then show ?thesis using in_context step.IH by (simp add: set_ctx_at)
  next
    case (delayed fire b)
    then have "b \<noteq> a" using step.IH by force
    then show ?thesis using delayed step.IH set_remove1_subset [of "(fire, b)" "tm_delayed m1"] by (auto simp: runTask_def set_ctx_at)
  next
    case (given_up fire b)
    then show ?thesis using step.IH set_remove1_subset [of "(fire, b)" "tm_delayed m1"] by auto
  qed
qed (use assms in auto)

end
