(* ===== verification/Profiling_Task_Props.thy ===== *)
theory Profiling_Task_Props
  imports Profiling_Task Continuous_Checker_Props
begin

text \<open>
  What becomes of profiling tasks: a task that runs is ended, a task that is sent again is extended, and the ways in which a task
  runs twice, runs early, or stops the module.
\<close>

section \<open>A task from its start to its end\<close>

text \<open>
  The life of the context at \<open>a\<close>: it is run for the first time, and from then on the goroutines make their steps as time goes by. Whatever
  else happens to the manager leaves the context alone, except that it may be sent again with the same duration.
\<close>

inductive task_life :: "nat \<Rightarrow> int \<Rightarrow> TaskManager \<Rightarrow> bool" for a where
  begun: "a < length (tm_contexts m) \<Longrightarrow> cx_runs (ctx_at m a) = [] \<Longrightarrow> cx_watchers (ctx_at m a) = [] \<Longrightarrow>
    cx_startRunningTime (ctx_at m a) = None \<Longrightarrow> \<not> cx_cancelled (ctx_at m a) \<Longrightarrow> a \<notin> snd ` set (tm_delayed m) \<Longrightarrow> task_life a now (runTask a m)"
| goroutine: "task_life a now m \<Longrightarrow> now \<le> now' \<Longrightarrow> goroutine_step now' m m' \<Longrightarrow> task_life a now' m'"
| other: "task_life a now m \<Longrightarrow> now \<le> now' \<Longrightarrow> a < length (tm_contexts m') \<Longrightarrow> a \<notin> snd ` set (tm_delayed m') \<Longrightarrow>
    ctx_at m' a = (ctx_at m a)\<lparr>cx_task := t, cx_recalc := r\<rparr> \<Longrightarrow> pt_MaxRunningDuration t = pt_MaxRunningDuration (cx_task (ctx_at m a)) \<Longrightarrow>
    task_life a now' m'"

fun watcher_ok :: "int \<Rightarrow> int \<Rightarrow> bool \<Rightarrow> watcher \<Rightarrow> bool" where
  "watcher_ok now e cancelled Computing = (\<not> cancelled)"
| "watcher_ok now e cancelled (Waiting d) = (d = e \<and> \<not> cancelled)"
| "watcher_ok now e cancelled (Stopping i) = (i = 0 \<and> e \<le> now \<and> \<not> cancelled)"
| "watcher_ok now e cancelled Ended = (e \<le> now \<and> cancelled)"

text \<open>One run; nobody waits for its end before its start is known, and then one goroutine does.\<close>

definition unwatched :: "run_phase \<Rightarrow> TaskContext \<Rightarrow> bool" where
  "unwatched p c \<longleftrightarrow> cx_watchers c = [] \<and> \<not> cx_cancelled c \<and> p \<noteq> RunNotified \<and> (cx_startRunningTime c \<noteq> None \<longleftrightarrow> p = RunTimeWritten)"

definition watched :: "int \<Rightarrow> run_phase \<Rightarrow> TaskContext \<Rightarrow> bool" where
  "watched now p c \<longleftrightarrow> (\<exists>w. cx_watchers c = [w] \<and> watcher_ok now (end_time c) (cx_cancelled c) w) \<and> p \<in> {RunNotified, RunReturned, RunFinished} \<and>
     cx_startRunningTime c \<noteq> None"

definition life_ok :: "int \<Rightarrow> TaskContext \<Rightarrow> bool" where
  "life_ok now c \<longleftrightarrow> (\<exists>p. cx_runs c = [p] \<and> (p = RunFinished \<longrightarrow> cx_status c = Stopped) \<and> (unwatched p c \<or> watched now p c))"

lemma watcher_ok_later: "watcher_ok now e d w \<Longrightarrow> now \<le> now' \<Longrightarrow> watcher_ok now' e d w"
  by (cases w) auto

lemma life_ok_later: "life_ok now c \<Longrightarrow> now \<le> now' \<Longrightarrow> life_ok now' c"
  unfolding life_ok_def watched_def using watcher_ok_later by blast

lemma life_ok_step:
  assumes "context_step now c c'" "life_ok now c"
  shows "life_ok now c'"
  using assms by cases (auto simp: life_ok_def unwatched_def watched_def end_time_def less_Suc_eq split: option.splits)

lemma life_start_kept:
  assumes "context_step now c c'" "life_ok now c" "cx_startRunningTime c = Some start"
  shows "cx_startRunningTime c' = Some start \<and> cx_task c' = cx_task c"
  using assms by cases (auto simp: life_ok_def unwatched_def watched_def less_Suc_eq)

lemma task_life_ok:
  assumes "task_life a now m"
  shows "a < length (tm_contexts m) \<and> a \<notin> snd ` set (tm_delayed m) \<and> life_ok now (ctx_at m a)"
  using assms
proof (induction rule: task_life.induct)
  case (begun m now)
  then show ?case by (simp add: runTask_def set_ctx_at life_ok_def unwatched_def)
next
  case (goroutine now m now' m')
  then have ok: "a < length (tm_contexts m)" "a \<notin> snd ` set (tm_delayed m)" "life_ok now' (ctx_at m a)" by (auto intro: life_ok_later)
  from goroutine.hyps(3) show ?case
  proof cases
    case (in_context b c)
    then show ?thesis using ok life_ok_step by (auto simp: set_ctx_at)
  next
    case (delayed fire b)
    then have "b \<noteq> a" using ok(2) by force
    then show ?thesis using delayed ok set_remove1_subset [of "(fire, b)" "tm_delayed m"] by (auto simp: runTask_def set_ctx_at)
  next
    case (given_up fire b)
    then show ?thesis using ok set_remove1_subset [of "(fire, b)" "tm_delayed m"] by auto
  qed
next
  case (other now m now' m' t r)
  then have "life_ok now' (ctx_at m a)" by (auto intro: life_ok_later)
  then show ?case using other.hyps by (auto simp: life_ok_def unwatched_def watched_def end_time_def)
qed

lemma life_steps:
  assumes "(context_step now)\<^sup>*\<^sup>* c c'" "life_ok now c" "cx_startRunningTime c = Some start"
  shows "life_ok now c' \<and> cx_startRunningTime c' = Some start \<and> cx_task c' = cx_task c"
  using assms
proof (induction rule: rtranclp_induct)
  case (step d d')
  then show ?case using life_ok_step [OF step(2)] life_start_kept [OF step(2)] by simp
qed simp

text \<open>When no goroutine of the task can make a step and its time has come, it is over.\<close>

lemma stuck_is_over:
  assumes "life_ok now c" "cx_startRunningTime c = Some start" "start + pt_MaxRunningDuration (cx_task c) \<le> now" "\<And>d. \<not> context_step now c d"
  shows "cx_status c = Stopped \<and> cx_cancelled c"
proof -
  obtain p where p: "cx_runs c = [p]" "p = RunFinished \<longrightarrow> cx_status c = Stopped" "unwatched p c \<or> watched now p c"
    using assms(1) by (auto simp: life_ok_def)
  have f: "p = RunFinished"
  proof (rule ccontr)
    assume "p \<noteq> RunFinished"
    then show False using p(1) assms(4) context_step.said_running [of 0 c now] context_step.start_noted [of 0 c now] context_step.watch_begun [of 0 c now]
        context_step.run_returned [of 0 c now] context_step.run_finished [of 0 c now] by (cases p) auto
  qed
  then obtain w where w: "cx_watchers c = [w]" "watcher_ok now (end_time c) (cx_cancelled c) w"
    using p(3) assms(2) by (auto simp: unwatched_def watched_def)
  have e: "end_time c \<le> now" using assms(2,3) by (simp add: end_time_def)
  have "w = Ended"
  proof (rule ccontr)
    assume "w \<noteq> Ended"
    then show False using w p(1) f e assms(4) context_step.end_computed [of 0 c now] context_step.timed_out [of 0 c "end_time c" now]
        context_step.stopped [of 0 c 0 now] by (cases w) auto
  qed
  then show ?thesis using w p(2) f by simp
qed

text \<open>The goroutines of a task cannot go on for ever at one time.\<close>

fun run_weight :: "run_phase \<Rightarrow> nat" where
  "run_weight RunStarting = 8" | "run_weight RunStatusWritten = 7" | "run_weight RunTimeWritten = 6" | "run_weight RunNotified = 2"
| "run_weight RunReturned = 1" | "run_weight RunFinished = 0"

fun watcher_weight :: "watcher \<Rightarrow> nat" where
  "watcher_weight Computing = 3" | "watcher_weight (Waiting d) = 2" | "watcher_weight (Stopping i) = 1" | "watcher_weight Ended = 0"

definition context_weight :: "TaskContext \<Rightarrow> nat" where
  "context_weight c = sum_list (map run_weight (cx_runs c)) + sum_list (map watcher_weight (cx_watchers c)) + 2 * cx_recalc c"

lemma sum_updated: "i < length ns \<Longrightarrow> sum_list (ns[i := v]) + ns ! i = sum_list ns + (v :: nat)"
  by (induction ns arbitrary: i) (auto split: nat.splits)

lemma lighter: "i < length ns \<Longrightarrow> v < ns ! i \<Longrightarrow> sum_list (ns[i := v]) < (sum_list ns :: nat)"
  using sum_updated [of i ns v] by simp

lemma context_step_weight: "context_step now c c' \<Longrightarrow> context_weight c' < context_weight c"
proof (induction rule: context_step.induct)
  case (watch_begun i c)
  then show ?case using sum_updated [of i "map run_weight (cx_runs c)" 2] by (simp add: context_weight_def map_update)
next
  case (extended j c t n)
  then show ?case using sum_updated [of j "map watcher_weight (cx_watchers c)" 3] by (simp add: context_weight_def map_update)
qed (auto simp: context_weight_def map_update intro!: lighter)

lemma context_steps_end: "\<not> (f 0 = c \<and> (\<forall>i. context_step now (f i) (f (Suc i))))"
  using wf_no_infinite_down_chainE [OF wf_measure [of context_weight], of f] context_step_weight by (metis in_measure)


section \<open>Tasks that are sent again\<close>

lemma sort_processes_sorted: "sorted (pt_ProcessIDList (cx_task c)) \<Longrightarrow> sort_processes c = c"
  by (simp add: sort_processes_def sorted_sort_id)

lemma IsSameTask_refl [simp]: "IsSameTask c c" by (simp add: IsSameTask_def Let_def)

definition resent_context :: "task_env \<Rightarrow> ProfilingTask \<Rightarrow> TaskContext" where
  "resent_context env t = new_context t (map (the \<circ> te_FindProcessByID env) (pt_ProcessIDList t))"

lemma resent_found:
  assumes "ProfilingTaskFromCommand (te_unmarshal env) cmd = Some t" "\<forall>p \<in> set (pt_ProcessIDList t). te_FindProcessByID env p \<noteq> None"
    "map_of (tm_tasks m) (BuildTaskIdentity (resent_context env t)) = Some a" "IsSameTask (ctx_at m a) (resent_context env t)"
  shows "BuildContextFromCommand env cmd m = (Some a, set_ctx a (sort_processes (ctx_at m a)\<lparr>cx_task := cx_task (sort_processes (resent_context env t))\<rparr>) m)"
proof -
  have "None \<notin> set (map (te_FindProcessByID env) (pt_ProcessIDList t))" using assms(2) by (auto simp: image_iff)
  then show ?thesis using assms by (simp add: BuildContextFromCommand_def resent_context_def)
qed

lemma set_ctx_same: "ctx_at m a = c \<Longrightarrow> set_ctx a c m = m"
  by (cases m) (auto simp: set_ctx_def)

lemma start_last: "Option.bind x (start_tasks now stop_ok []) = x"
  by (cases x) auto

lemma set_ctx_twice: "set_ctx a c (set_ctx a d m) = set_ctx a c m"
  by (simp add: set_ctx_def)

lemma context_steps_lift: "(context_step now)\<^sup>*\<^sup>* (ctx_at m a) c \<Longrightarrow> a < length (tm_contexts m) \<Longrightarrow> (goroutine_step now)\<^sup>*\<^sup>* m (set_ctx a c m)"
proof (induction rule: rtranclp_induct)
  case base
  then show ?case by (simp add: set_ctx_same)
next
  case (step c c')
  have "goroutine_step now (set_ctx a c m) (set_ctx a c' m)"
    using goroutine_step.in_context [of a "set_ctx a c m" now c'] step by (simp add: set_ctx_at set_ctx_twice)
  then show ?case using step by (meson rtranclp.rtrancl_into_rtrancl)
qed

lemma resent_started:
  assumes "ProfilingTaskFromCommand (te_unmarshal env) cmd = Some t" "\<forall>p \<in> set (pt_ProcessIDList t). te_FindProcessByID env p \<noteq> None"
    "map_of (tm_tasks m) (BuildTaskIdentity (resent_context env t)) = Some a" "IsSameTask (ctx_at m a) (resent_context env t)"
    "a < length (tm_contexts m)" "CheckTaskRunnable now (resent_context env t)"
  shows "\<exists>u. StartingWatchTask env now stop_ok (Some [cmd]) m =
    StartTask now stop_ok a ((set_ctx a (sort_processes (ctx_at m a)\<lparr>cx_task := cx_task (sort_processes (resent_context env t))\<rparr>) m)\<lparr>tm_lastUpdateTime := u\<rparr>)"
proof -
  have "CheckTaskRunnable now (c\<lparr>cx_task := cx_task (sort_processes (resent_context env t))\<rparr>)" for c :: TaskContext
    using assms(6) by (simp add: CheckTaskRunnable_def sort_processes_def)
  then show ?thesis using resent_found [OF assms(1-4)] assms(5) by (auto simp: StartingWatchTask_def Let_def set_ctx_at start_last)
qed

text \<open>A task that runs and is sent again with a new duration is extended: no second context is made, the task keeps its start, and once
  a goroutine that waits for its end has taken the message it waits for the new end.\<close>

theorem resent_task_is_extended:
  assumes "ProfilingTaskFromCommand (te_unmarshal env) cmd = Some t" "\<forall>p \<in> set (pt_ProcessIDList t). te_FindProcessByID env p \<noteq> None"
    "map_of (tm_tasks m) (BuildTaskIdentity (resent_context env t)) = Some a" "IsSameTask (ctx_at m a) (resent_context env t)"
    "a < length (tm_contexts m)" "CheckTaskRunnable now (resent_context env t)" "sorted (pt_ProcessIDList t)"
    "cx_recalc (ctx_at m a) = 0" "cx_startRunningTime (ctx_at m a) = Some start" "j < length (cx_watchers (ctx_at m a))" "cx_watchers (ctx_at m a) ! j = Waiting d"
  shows "\<exists>m' m''. StartingWatchTask env now stop_ok (Some [cmd]) m = Some m' \<and> (goroutine_step now)\<^sup>*\<^sup>* m' m'' \<and> tm_tasks m'' = tm_tasks m \<and>
    tm_contexts m'' = (tm_contexts m)[a := (ctx_at m a)\<lparr>cx_task := t,
      cx_watchers := (cx_watchers (ctx_at m a))[j := Waiting (start + pt_MaxRunningDuration t)]\<rparr>]"
proof -
  note l = assms(5)
  define c where "c = (ctx_at m a)\<lparr>cx_task := t\<rparr>"
  have c': "sort_processes (ctx_at m a)\<lparr>cx_task := cx_task (sort_processes (resent_context env t))\<rparr> = c"
    using assms(7) by (simp add: c_def sort_processes_def resent_context_def new_context_def sorted_sort_id)
  obtain u where u: "StartingWatchTask env now stop_ok (Some [cmd]) m = StartTask now stop_ok a ((set_ctx a c m)\<lparr>tm_lastUpdateTime := u\<rparr>)"
    using resent_started [OF assms(1-4) l assms(6), of stop_ok] unfolding c' by blast
  let ?m = "(set_ctx a c m)\<lparr>tm_lastUpdateTime := u\<rparr>"
  have at: "ctx_at ?m a = c" "ctx_at (set_ctx a c m) a = c" using l by (simp_all add: set_ctx_def)
  have sc: "sort_processes c = c" using assms(7) by (simp add: c_def sort_processes_sorted)
  have k: "map_of (tm_tasks ?m) (BuildTaskIdentity c) = Some a"
    using assms(3) by (simp add: c_def BuildTaskIdentity_def resent_context_def new_context_def)
  let ?m' = "set_ctx a (c\<lparr>cx_recalc := 1\<rparr>) ?m" and ?w = "cx_watchers c"
  have r: "cx_recalc c = 0" using assms(8) by (simp add: c_def)
  have st: "StartTask now stop_ok a ?m = Some ?m'" using k r by (simp add: StartTask_def at sc set_ctx_same [OF at(1)] Let_def)
  let ?c1 = "c\<lparr>cx_recalc := 0, cx_watchers := ?w[j := Computing]\<rparr>"
  have "context_step now (c\<lparr>cx_recalc := 1\<rparr>) ?c1"
    using context_step.extended [of j "c\<lparr>cx_recalc := 1\<rparr>" d 0 now] assms(10,11) by (simp add: c_def)
  moreover have "context_step now ?c1 (c\<lparr>cx_recalc := 0, cx_watchers := ?w[j := Waiting (end_time c)]\<rparr>)"
    using context_step.end_computed [of j ?c1 now] assms(10) by (simp add: c_def end_time_def)
  ultimately have "(context_step now)\<^sup>*\<^sup>* (ctx_at ?m' a) (c\<lparr>cx_recalc := 0, cx_watchers := ?w[j := Waiting (end_time c)]\<rparr>)"
    using l by (simp add: set_ctx_at)
  then have "(goroutine_step now)\<^sup>*\<^sup>* ?m' (set_ctx a (c\<lparr>cx_recalc := 0, cx_watchers := ?w[j := Waiting (end_time c)]\<rparr>) ?m')"
    using l by (intro context_steps_lift) simp_all
  moreover have "c\<lparr>cx_recalc := 0\<rparr> = c" "end_time c = start + pt_MaxRunningDuration t" using r assms(9) by (simp_all add: c_def end_time_def)
  ultimately show ?thesis using u st r by (fastforce simp: set_ctx_def c_def)
qed

text \<open>C32: a task of several processes whose identifiers are not in order is run a second time when it is sent again while it runs: comparing
  it with itself sorts the identifiers, so that it is looked up under another identity and not found.\<close>

theorem unsorted_task_is_run_again:
  assumes "ProfilingTaskFromCommand (te_unmarshal env) cmd = Some t" "\<forall>p \<in> set (pt_ProcessIDList t). te_FindProcessByID env p \<noteq> None"
    "map_of (tm_tasks m) (BuildTaskIdentity (resent_context env t)) = Some a" "IsSameTask (ctx_at m a) (resent_context env t)"
    "a < length (tm_contexts m)" "CheckTaskRunnable now (resent_context env t)" "cx_status (ctx_at m a) = Running"
    "map_of (tm_tasks m) (BuildTaskIdentity (sort_processes (resent_context env t))) = None" "pt_StartTime t \<le> now div 1000000"
  shows "\<exists>m'. StartingWatchTask env now stop_ok (Some [cmd]) m = Some m' \<and> cx_status (ctx_at m' a) = Running \<and>
    cx_runs (ctx_at m' a) = cx_runs (ctx_at m a) @ [RunStarting]"
proof -
  define c where "c = sort_processes (ctx_at m a)\<lparr>cx_task := cx_task (sort_processes (resent_context env t))\<rparr>"
  obtain u where u: "StartingWatchTask env now stop_ok (Some [cmd]) m = StartTask now stop_ok a ((set_ctx a c m)\<lparr>tm_lastUpdateTime := u\<rparr>)"
    using resent_started [OF assms(1-6), of stop_ok] unfolding c_def by blast
  let ?m = "(set_ctx a c m)\<lparr>tm_lastUpdateTime := u\<rparr>"
  have at: "ctx_at ?m a = c" "ctx_at (set_ctx a c m) a = c" using assms(5) by (simp_all add: set_ctx_def)
  have k: "map_of (tm_tasks ?m) (BuildTaskIdentity c) = None"
    using assms(8) by (simp add: c_def BuildTaskIdentity_def sort_processes_def)
  have "pt_StartTime (cx_task c) = pt_StartTime t" by (simp add: c_def sort_processes_def resent_context_def new_context_def)
  then have "StartTask now stop_ok a ?m = Some (runTask a (?m\<lparr>tm_tasks := AList.update (BuildTaskIdentity c) a (tm_tasks m)\<rparr>))"
    using k assms(9) by (simp add: StartTask_def start_now_def at Let_def)
  then show ?thesis using u assms(5,7) by (simp add: runTask_def set_ctx_def c_def sort_processes_def)
qed

section \<open>Other ways for a task to go wrong\<close>

text \<open>
  The goroutine that asks the backend for tasks stands still for ever when it extends a task that has ended and that was extended once
  since then: the message of the first extension stays in the channel, and no step of another goroutine takes it out.
\<close>

theorem full_channel_blocks_for_ever:
  assumes "(\<lambda>m m'. \<exists>t. goroutine_step t m m')\<^sup>*\<^sup>* m m'" "a < length (tm_contexts m)" "set (cx_runs (ctx_at m a)) \<subseteq> {RunFinished}"
    "set (cx_watchers (ctx_at m a)) \<subseteq> {Ended}" "cx_recalc (ctx_at m a) = 1" "a \<notin> snd ` set (tm_delayed m)"
    "map_of (tm_tasks m) (BuildTaskIdentity (ctx_at m a)) = Some a"
  shows "StartTask now stop_ok a m' = None"
proof -
  have "tm_tasks m' = tm_tasks m \<and> ctx_at m' a = ctx_at m a \<and> a < length (tm_contexts m')" using finished_context_stays [OF assms(1-4,6)] by simp
  then show ?thesis using assms(5,7) by (simp add: StartTask_def Let_def set_ctx_at sort_processes_def)
qed

text \<open>A task that is to start later starts at once: the timer is made with the time since its start, which is negative, so that it
  fires at a time that has passed.\<close>

theorem future_task_runs_at_once:
  assumes "map_of (tm_tasks m) (BuildTaskIdentity (ctx_at m a)) = None" "now div 1000000 < pt_StartTime (cx_task (ctx_at m a))"
    and "a < length (tm_contexts m)"
  shows "\<exists>m' m''. StartTask now stop_ok a m = Some m' \<and> goroutine_step now m' m'' \<and>
    cx_runs (ctx_at m'' a) = cx_runs (ctx_at m a) @ [RunStarting]"
proof -
  let ?fire = "now + (now - pt_StartTime (cx_task (ctx_at m a)) * 1000000)"
  let ?m = "m\<lparr>tm_tasks := AList.update (BuildTaskIdentity (ctx_at m a)) a (tm_tasks m), tm_delayed := tm_delayed m @ [(?fire, a)]\<rparr>"
  have "?fire \<le> now" using assms(2) by (simp add: div_less_iff_less_mult mult.commute)
  then have "goroutine_step now ?m (runTask a (?m\<lparr>tm_delayed := remove1 (?fire, a) (tm_delayed ?m)\<rparr>))"
    using assms(3) by (intro goroutine_step.delayed) simp_all
  moreover have "StartTask now stop_ok a m = Some ?m" using assms(1,2) by (simp add: StartTask_def start_now_def Let_def)
  ultimately show ?thesis using assms(3) by (fastforce simp: runTask_def set_ctx_at)
qed

text \<open>Tasks that have stopped are removed by a flush whose stream could not be opened; their data is not sent and will not be.\<close>

theorem failed_flush_removes_stopped_tasks:
  assumes "tm_tasks m \<noteq> []"
  shows "FlushProfilingData now False flushData send_ok m = Inr ([], False, m\<lparr>tm_tasks := filter (\<lambda>(_, a). cx_status (ctx_at m a) \<noteq> Stopped) (tm_tasks m)\<rparr>)"
  using assms by (simp add: FlushProfilingData_def checkStoppedTaskAndRemoved_def)

text \<open>
  A task of continuous profiling is never refused because it exists: it is compared before it gets its identifier. The existing one,
  with its identifier from the backend, is stopped when the new one starts.
\<close>

theorem continuous_task_is_not_refused:
  assumes "map_of (tm_tasks m) (BuildTaskIdentity (new_context (ProfilingTaskFromContinuous ps taskSetter) ps)) = Some a"
    "pt_TaskID (ProfilingTaskFromContinuous ps taskSetter) = []" "pt_TaskID (cx_task (ctx_at m a)) \<noteq> []"
    "pt_TargetType (ProfilingTaskFromContinuous ps taskSetter) = TargetTypeOnCPU" "\<And>t. te_init_ok env t"
  shows "\<exists>m'. BuildContextFromContinuous env ps taskSetter (Inr (Some i)) m = Inr (Some (length (tm_contexts m)), m')"
proof -
  have "\<not> IsSameTask (ctx_at m a) (new_context (ProfilingTaskFromContinuous ps taskSetter) ps)"
    using assms(2,3) by (auto simp: IsSameTask_def Let_def sort_processes_def new_context_def)
  then show ?thesis using assms by (simp add: BuildContextFromContinuous_def initTaskContext_def Let_def sort_processes_def new_context_def)
qed

section \<open>Examples\<close>

definition example_command :: "string \<Rightarrow> string \<Rightarrow> Command" where
  "example_command ids d = \<lparr>cmd_Command = ''EBPFProfilingTaskQuery'', cmd_Args = [(''TaskId'', ''t''), (''ProcessId'', ids), (''TaskUpdateTime'', ''5''),
     (''TriggerType'', ''FIXED_TIME''), (''TargetType'', ''NETWORK''), (''TaskStartTime'', ''3''), (''ExtensionConfigJSON'', ''{}''), (''FixedTriggerDuration'', d)]\<rparr>"

definition example_task_env :: task_env where
  "example_task_env = \<lparr>te_unmarshal = (\<lambda>_. Some []), te_FindProcessByID = (\<lambda>i. Some (example_process\<lparr>pf_ID := i\<rparr>)), te_init_ok = (\<lambda>_. True)\<rparr>"

definition example_task :: "string list \<Rightarrow> int \<Rightarrow> ProfilingTask" where
  "example_task ids d = \<lparr>pt_TaskID = ''t'', pt_ProcessIDList = ids, pt_UpdateTime = 5, pt_StartTime = 3, pt_TriggerType = ''FIXED_TIME'',
     pt_TargetType = ''NETWORK'', pt_MaxRunningDuration = d * second, pt_ExtensionConfig = Some []\<rparr>"

lemma example_digits: "Atoi ''3'' = Some 3" "Atoi ''5'' = Some 5" "Atoi ''8'' = Some 8"
  by (simp_all add: Atoi_def is_digit_def dec_value_def)

lemma example_parsed:
  "Atoi d = Some n \<Longrightarrow> n = 5 \<or> n = 8 \<Longrightarrow> ProfilingTaskFromCommand unmarshal (example_command ids d) =
     (case unmarshal ''{}'' of None \<Rightarrow> None | Some x \<Rightarrow> Some ((example_task (str_split (CHR '','') ids) n)\<lparr>pt_ExtensionConfig := Some x\<rparr>))"
  by (elim disjE) (simp_all add: ProfilingTaskFromCommand_def getCommandStringValue_def getCommandIntValue_def example_command_def example_digits ParseTriggerType_def
      ParseTargetType_def TriggerType_InitTask_def example_task_def split: option.splits)

definition example_context :: "string \<Rightarrow> TaskContext" where
  "example_context ids = resent_context example_task_env (example_task (str_split (CHR '','') ids) 5)"

definition example_running :: "string \<Rightarrow> TaskManager" where
  "example_running ids = \<lparr>tm_tasks = [(BuildTaskIdentity (example_context ids), 0)],
     tm_contexts = [(example_context ids)\<lparr>cx_runs := [RunNotified], cx_status := Running, cx_startRunningTime := Some second, cx_watchers := [Waiting (6 * second)]\<rparr>],
     tm_lastUpdateTime = 5, tm_delayed = []\<rparr>"

lemma example_command_parsed:
  "ProfilingTaskFromCommand (te_unmarshal example_task_env) (example_command ids ''5'') = Some (example_task (str_split (CHR '','') ids) 5)"
  "ProfilingTaskFromCommand (te_unmarshal example_task_env) (example_command ids ''8'') = Some (example_task (str_split (CHR '','') ids) 8)"
  using example_parsed [OF example_digits(2)] example_parsed [OF example_digits(3)] by (simp_all add: example_task_env_def example_task_def)

definition example_started :: "string \<Rightarrow> TaskManager" where
  "example_started ids = \<lparr>tm_tasks = [(BuildTaskIdentity (example_context ids), 0)], tm_contexts = [(example_context ids)\<lparr>cx_runs := [RunStarting]\<rparr>],
     tm_lastUpdateTime = 5, tm_delayed = []\<rparr>"

lemma example_steps: "(goroutine_step second)\<^sup>*\<^sup>* (example_started ids) (example_running ids)"
proof -
  let ?c = "example_context ids"
  let ?c1 = "?c\<lparr>cx_runs := [RunStarting]\<rparr>" and ?c2 = "?c\<lparr>cx_runs := [RunStatusWritten], cx_status := Running\<rparr>"
    and ?c3 = "?c\<lparr>cx_runs := [RunTimeWritten], cx_status := Running, cx_startRunningTime := Some second\<rparr>"
    and ?c4 = "?c\<lparr>cx_runs := [RunNotified], cx_status := Running, cx_startRunningTime := Some second, cx_watchers := [Computing]\<rparr>"
  have "context_step second ?c1 ?c2" "context_step second ?c2 ?c3" using context_step.said_running [of 0 ?c1 second] context_step.start_noted [of 0 ?c2 second]
    by (simp_all add: example_context_def resent_context_def new_context_def)
  moreover have "context_step second ?c3 ?c4"
    using context_step.watch_begun [of 0 ?c3 second] by (simp add: example_context_def resent_context_def new_context_def)
  moreover have "context_step second ?c4 (ctx_at (example_running ids) 0)"
    using context_step.end_computed [of 0 ?c4 second]
    by (simp add: example_running_def end_time_def example_context_def resent_context_def new_context_def example_task_def)
  ultimately have "(context_step second)\<^sup>*\<^sup>* (ctx_at (example_started ids) 0) (ctx_at (example_running ids) 0)"
    by (simp add: example_started_def)
  from context_steps_lift [OF this] show ?thesis by (simp add: example_started_def example_running_def set_ctx_def)
qed

lemma example_life: "task_life 0 second (example_running ids)"
  using example_steps [of ids]
proof (induction rule: rtranclp_induct)
  case base
  have e: "example_started ids = runTask 0 ((example_started ids)\<lparr>tm_contexts := [example_context ids]\<rparr>)"
    by (simp add: example_started_def runTask_def set_ctx_def example_context_def resent_context_def new_context_def)
  have "task_life 0 second (runTask 0 ((example_started ids)\<lparr>tm_contexts := [example_context ids]\<rparr>))"
    by (rule task_life.begun) (simp_all add: example_started_def example_context_def resent_context_def new_context_def)
  then show ?case unfolding e [symmetric] .
qed (auto intro: task_life.goroutine)


theorem resent_task_is_extended_witness:
  "\<exists>m' m''. StartingWatchTask example_task_env second (\<lambda>_. True) (Some [example_command ''a'' ''8'']) (example_running ''a'') = Some m' \<and>
     (goroutine_step second)\<^sup>*\<^sup>* m' m'' \<and> cx_watchers (ctx_at m'' 0) = [Waiting (9 * second)]"
proof -
  let ?t = "example_task (str_split (CHR '','') ''a'') 8" and ?m = "example_running ''a''"
  have k: "map_of (tm_tasks ?m) (BuildTaskIdentity (resent_context example_task_env ?t)) = Some 0"
    "IsSameTask (ctx_at ?m 0) (resent_context example_task_env ?t)" "0 < length (tm_contexts ?m)"
    by (simp_all add: example_running_def example_context_def BuildTaskIdentity_def resent_context_def new_context_def example_task_def IsSameTask_def sort_processes_def)
  have p: "\<forall>p \<in> set (pt_ProcessIDList ?t). te_FindProcessByID example_task_env p \<noteq> None" by (simp add: example_task_env_def)
  have "CheckTaskRunnable second (resent_context example_task_env ?t)"
    by (simp add: CheckTaskRunnable_def resent_context_def new_context_def example_task_def)
  from resent_task_is_extended [OF example_command_parsed(2) p k this, of second 0 "6 * second" "\<lambda>_. True"]
  show ?thesis by (fastforce simp: example_running_def example_task_def example_context_def resent_context_def new_context_def)
qed

theorem unsorted_task_is_run_again_witness:
  "\<exists>m'. StartingWatchTask example_task_env second (\<lambda>_. True) (Some [example_command ''b,a'' ''8'']) (example_running ''b,a'') = Some m' \<and>
     cx_status (ctx_at m' 0) = Running \<and> cx_runs (ctx_at m' 0) = [RunNotified, RunStarting]"
proof -
  let ?t = "example_task (str_split (CHR '','') ''b,a'') 8" and ?m = "example_running ''b,a''"
  have k: "map_of (tm_tasks ?m) (BuildTaskIdentity (resent_context example_task_env ?t)) = Some 0"
    "IsSameTask (ctx_at ?m 0) (resent_context example_task_env ?t)"
    by (simp_all add: example_running_def example_context_def BuildTaskIdentity_def resent_context_def new_context_def example_task_def IsSameTask_def sort_processes_def)
  have p: "\<forall>p \<in> set (pt_ProcessIDList ?t). te_FindProcessByID example_task_env p \<noteq> None" by (simp add: example_task_env_def)
  have r: "CheckTaskRunnable second (resent_context example_task_env ?t)"
    by (simp add: CheckTaskRunnable_def resent_context_def new_context_def example_task_def)
  have n: "map_of (tm_tasks ?m) (BuildTaskIdentity (sort_processes (resent_context example_task_env ?t))) = None"
    by (simp add: example_running_def example_context_def BuildTaskIdentity_def resent_context_def new_context_def example_task_def sort_processes_def)
  show ?thesis
    using unsorted_task_is_run_again [OF example_command_parsed(2) p k _ r, of "\<lambda>_. True"] n
    by (simp add: example_running_def example_task_def example_context_def)
qed

end
