(* ===== verification/Continuous_Trigger.thy ===== *)
theory Continuous_Trigger
  imports Profiling_Task Continuous_Checker_Props
begin

text \<open>
  Continuous profiling around the checkers, \<^verbatim>\<open>pkg/profiling/continuous/checkers.go\<close>, \<^verbatim>\<open>triggers.go\<close> and \<^verbatim>\<open>trigger\<close>: which policies
  apply to which processes, and the profiling tasks that reached policies start. The answers of the backend and the decoding of its
  JSON are arguments. Go maps are visited in the order of insertion.
\<close>

section \<open>Policies\<close>

record Policy =
  po_TargetProfilingType :: string
  po_Items :: "CheckType \<rightharpoonup> PolicyItem"

record ServicePolicy =
  sp_UUID :: string
  sp_Policies :: "Policy list"
  sp_Processes :: "(string \<times> process_ref) list"

record QueryPolicyUpdateItem =
  qi_Threshold :: string
  qi_Period :: int
  qi_Count :: int
  qi_URIList :: "string list"
  qi_URIRegex :: string

record QueryPolicyUpdate =
  qu_ServiceName :: string
  qu_UUID :: string
  qu_Profiling :: "(string \<times> (CheckType \<times> QueryPolicyUpdateItem) list) list"

definition Item_Validate :: "QueryPolicyUpdateItem \<Rightarrow> bool" where
  "Item_Validate p \<longleftrightarrow> qi_Threshold p \<noteq> [] \<and> qi_Period p > 0 \<and> qi_Count p > 0 \<and> qi_Count p \<le> qi_Period p"

definition policy_of :: "string \<Rightarrow> (CheckType \<times> QueryPolicyUpdateItem) list \<Rightarrow> Policy" where
  "policy_of profilingType checks = \<lparr>po_TargetProfilingType = profilingType,
     po_Items = map_of (map (\<lambda>(ct, i). (ct, \<lparr>pi_Threshold = qi_Threshold i, pi_Period = qi_Period i, pi_Count = qi_Count i, pi_URIList = qi_URIList i,
       pi_URIRegex = qi_URIRegex i, pi_TargetProfilingType = profilingType\<rparr>)) (filter (\<lambda>(_, i). Item_Validate i) checks))\<rparr>"

text \<open>\<open>None\<close> is an error. Without a command there is no update.\<close>

definition queryPolicyUpdates :: "(string \<Rightarrow> QueryPolicyUpdate list option) \<Rightarrow> Command list option \<Rightarrow> (string \<times> ServicePolicy) list option" where
  "queryPolicyUpdates unmarshal answer =
     (case answer of None \<Rightarrow> None
      | Some cmds \<Rightarrow>
          if cmds = [] then Some []
          else let policyJSON = (case cmds of [c] \<Rightarrow> if cmd_Command c = ''ContinuousProfilingPolicyQuery''
                                   then (case map_of (cmd_Args c) ''ServiceWithPolicyJSON'' of None \<Rightarrow> [] | Some v \<Rightarrow> v) else [] | _ \<Rightarrow> []) in
            if policyJSON = [] then None
            else map_option (foldl (\<lambda>result u. AList.update (qu_ServiceName u)
                \<lparr>sp_UUID = qu_UUID u, sp_Policies = map (\<lambda>(t, cs). policy_of t cs) (qu_Profiling u), sp_Processes = []\<rparr> result) []) (unmarshal policyJSON))"

definition checkProcessesAreSame :: "(string \<times> process_ref) list \<Rightarrow> (string \<times> process_ref) list \<Rightarrow> bool" where
  "checkProcessesAreSame from target \<longleftrightarrow> length from = length target \<and>
     list_all (\<lambda>(processID, targetProcess). case map_of from processID of None \<Rightarrow> False | Some fromProcess \<Rightarrow> pf_Pid fromProcess = pf_Pid targetProcess) target"

text \<open>The registered processes of a service, by identifier.\<close>

definition service_processes :: "string \<Rightarrow> process_ref list \<Rightarrow> (string \<times> process_ref) list" where
  "service_processes service processes = foldl (\<lambda>m p. AList.update (pf_ID p) p m) [] (filter (\<lambda>p. pf_ServiceName p = service) processes)"

type_synonym policies_cache = "(string \<times> ServicePolicy) list"

definition apply_update :: "process_ref list \<Rightarrow> string \<times> ServicePolicy \<Rightarrow> bool \<times> policies_cache \<Rightarrow> bool \<times> policies_cache" where
  "apply_update processes = (\<lambda>(serviceName, policy) (hasUpdate, cache).
     let fresh = (case map_of cache serviceName of None \<Rightarrow> True | Some e \<Rightarrow> sp_UUID e \<noteq> sp_UUID policy);
         existing = (if fresh then policy else the (map_of cache serviceName));
         ps = service_processes serviceName processes in
     if checkProcessesAreSame (sp_Processes existing) ps then (hasUpdate \<or> fresh, AList.update serviceName existing cache)
     else (True, AList.update serviceName (existing\<lparr>sp_Processes := ps\<rparr>) cache))"

text \<open>\<open>ask\<close> is the query for the services of the registered processes with the policies they have.\<close>

definition known_policies :: "process_ref list \<Rightarrow> policies_cache \<Rightarrow> (string \<times> string) list" where
  "known_policies processes cache = foldl (\<lambda>m p. AList.update (pf_ServiceName p)
     (case map_of cache (pf_ServiceName p) of None \<Rightarrow> [] | Some e \<Rightarrow> sp_UUID e) m) [] processes"

definition updatePolicyCache ::
  "(string \<Rightarrow> QueryPolicyUpdate list option) \<Rightarrow> ((string \<times> string) list \<Rightarrow> Command list option) \<Rightarrow> process_ref list \<Rightarrow> policies_cache \<Rightarrow>
     (bool \<times> policies_cache) option" where
  "updatePolicyCache unmarshal ask processes cache =
     (if processes = [] then if cache \<noteq> [] then Some (True, []) else Some (False, cache)
      else map_option (\<lambda>updates. foldl (\<lambda>s u. apply_update processes u s) (False, cache) updates)
        (queryPolicyUpdates unmarshal (ask (known_policies processes cache))))"

definition synced_policies :: "policies_cache \<Rightarrow> SyncPolicyWithProcesses list" where
  "synced_policies cache = concat (map (\<lambda>(_, sp). map (\<lambda>p. \<lparr>sy_Items = po_Items p, sy_Processes = map snd (sp_Processes sp)\<rparr>) (sp_Policies sp)) cache)"

text \<open>What the checkers are synchronised with, if anything changed.\<close>

definition CheckProfilingPolicies ::
  "(string \<Rightarrow> QueryPolicyUpdate list option) \<Rightarrow> ((string \<times> string) list \<Rightarrow> Command list option) \<Rightarrow> process_ref list \<Rightarrow> policies_cache \<Rightarrow>
     SyncPolicyWithProcesses list option \<times> policies_cache" where
  "CheckProfilingPolicies unmarshal ask processes cache =
     (case updatePolicyCache unmarshal ask processes cache of None \<Rightarrow> (None, cache)
      | Some (hasUpdate, cache') \<Rightarrow> (if hasUpdate then Some (synced_policies cache') else None, cache'))"

section \<open>Triggers\<close>

text \<open>A cause; \<open>th_URI\<close> is the address of an HTTP cause.\<close>

record ThresholdCause =
  th_Process :: process_ref
  th_Policy :: PolicyItem
  th_URI :: "string option"

record BaseTrigger =
  bt_profilingCache :: "(string \<times> nat) list"
  bt_executeTime :: int
  bt_silenceTime :: int
  bt_profilingTaskDimension :: "process_ref \<Rightarrow> string"
  bt_mainProcessSelector :: "process_ref list \<Rightarrow> process_ref"
  bt_taskSetter :: "ThresholdCause list \<Rightarrow> ProfilingTask \<Rightarrow> ProfilingTask"

definition NewSingleProcessBaseTrigger :: "int \<Rightarrow> int \<Rightarrow> string \<Rightarrow> BaseTrigger" where
  "NewSingleProcessBaseTrigger execute silence target = \<lparr>bt_profilingCache = [], bt_executeTime = execute, bt_silenceTime = silence,
     bt_profilingTaskDimension = pf_ID, bt_mainProcessSelector = hd, bt_taskSetter = (\<lambda>_ t. t\<lparr>pt_TargetType := target\<rparr>)\<rparr>"

definition processHasLabel :: "process_ref \<Rightarrow> string \<Rightarrow> bool" where
  "processHasLabel p label \<longleftrightarrow> label \<in> set (pf_Labels p)"

text \<open>The last process of the mesh application; otherwise the first of a Kubernetes service, unless one before it was selected.\<close>

definition main_application :: "process_ref list \<Rightarrow> process_ref option" where
  "main_application ps = foldl (\<lambda>r p.
     let r1 = (if processHasLabel p ''mesh-application'' then Some p else r) in
     if r1 = None \<and> processHasLabel p ''k8s-service'' then Some p else r1) None ps"

fun transformCausesToNetworkSamplingRules :: "ThresholdCause list \<Rightarrow> NetworkSamplingRule list \<Rightarrow> NetworkSamplingRule list" where
  "transformCausesToNetworkSamplingRules [] result = result"
| "transformCausesToNetworkSamplingRules (t # ts) result =
     (case th_URI t of None \<Rightarrow> transformCausesToNetworkSamplingRules ts result
      | Some uri \<Rightarrow> let rule = \<lparr>ns_URIRegex = Some uri, ns_MinDuration = Some 0, ns_When4XX = True, ns_When5XX = True, ns_Settings = Some (True, - 1, True, - 1)\<rparr> in
          if uri = [] then [rule] else transformCausesToNetworkSamplingRules ts (result @ [rule]))"

definition NewNetworkTrigger :: "int \<Rightarrow> int \<Rightarrow> BaseTrigger" where
  "NewNetworkTrigger execute silence = \<lparr>bt_profilingCache = [], bt_executeTime = execute, bt_silenceTime = silence,
     bt_profilingTaskDimension = (\<lambda>p. pf_ServiceName p @ ''_'' @ pf_InstanceName p),
     bt_mainProcessSelector = (\<lambda>ps. case main_application ps of None \<Rightarrow> hd ps | Some p \<Rightarrow> p),
     bt_taskSetter = (\<lambda>causes t. t\<lparr>pt_TargetType := TargetTypeNetworkTopology, pt_ExtensionConfig := Some (transformCausesToNetworkSamplingRules causes [])\<rparr>)\<rparr>"

definition shouldTriggerFromDimension :: "int \<Rightarrow> TaskManager \<Rightarrow> BaseTrigger \<Rightarrow> string \<Rightarrow> bool" where
  "shouldTriggerFromDimension now m c dimension =
     (case map_of (bt_profilingCache c) dimension of None \<Rightarrow> True
      | Some a \<Rightarrow> if cx_status (ctx_at m a) = Running then False
          else (case cx_startRunningTime (ctx_at m a) of None \<Rightarrow> False | Some t \<Rightarrow> now - t > bt_silenceTime c))"

definition ShouldTrigger :: "int \<Rightarrow> TaskManager \<Rightarrow> BaseTrigger \<Rightarrow> process_ref \<Rightarrow> bool" where
  "ShouldTrigger now m c p = shouldTriggerFromDimension now m c (bt_profilingTaskDimension c p)"

text \<open>The causes of each process of each dimension that a task may be started for.\<close>

definition dimensioned :: "int \<Rightarrow> TaskManager \<Rightarrow> BaseTrigger \<Rightarrow> ThresholdCause list \<Rightarrow> (string \<times> (process_ref \<times> ThresholdCause list) list) list" where
  "dimensioned now m c causes = foldl (\<lambda>ds cause.
     let d = bt_profilingTaskDimension c (th_Process cause) in
     if \<not> shouldTriggerFromDimension now m c d then ds
     else AList.update d (append_at (th_Process cause) cause (case map_of ds d of None \<Rightarrow> [] | Some ps \<Rightarrow> ps)) ds) [] causes"

text \<open>The identifier in the answer to a report. The first command is taken before the number of commands is looked at.\<close>

definition reported_task_id :: "Command list option \<Rightarrow> string option or_panic" where
  "reported_task_id answer =
     (case answer of None \<Rightarrow> Inr None
      | Some [] \<Rightarrow> Inl IndexOutOfRange
      | Some [c] \<Rightarrow> Inr (if cmd_Command c = ''ContinuousProfilingReportTask'' then map_of (cmd_Args c) ''TaskId'' else None)
      | Some _ \<Rightarrow> Inr None)"

text \<open>
  Reporting starts the task of the context that was built. The result is the context, or an error, and the manager; \<open>None\<close> instead of
  the manager is a start that does not return.
\<close>

definition ReportProcesses ::
  "task_env \<Rightarrow> int \<Rightarrow> (nat \<Rightarrow> bool) \<Rightarrow> Command list option \<Rightarrow> process_ref list \<Rightarrow> (ProfilingTask \<Rightarrow> ProfilingTask) \<Rightarrow> TaskManager \<Rightarrow>
     (nat option \<times> TaskManager) option or_panic" where
  "ReportProcesses env now stop_ok answer profilingProcesses taskSetter m =
     panic_bind (BuildContextFromContinuous env profilingProcesses taskSetter (reported_task_id answer) m) (\<lambda>(taskContext, m').
       case taskContext of None \<Rightarrow> Inr (Some (None, m'))
       | Some a \<Rightarrow> Inr (map_option (\<lambda>m''. (Some a, m'')) (StartTask now stop_ok a m')))"

text \<open>\<open>answers\<close> is what the backend answers to the report of a dimension.\<close>

fun report_dimensions ::
  "task_env \<Rightarrow> int \<Rightarrow> (nat \<Rightarrow> bool) \<Rightarrow> (string \<Rightarrow> Command list option) \<Rightarrow> (string \<times> (process_ref \<times> ThresholdCause list) list) list \<Rightarrow>
     BaseTrigger \<Rightarrow> TaskManager \<Rightarrow> int \<Rightarrow> (BaseTrigger \<times> TaskManager \<times> int) option or_panic" where
  "report_dimensions env now stop_ok answers [] c m executeCount = Inr (Some (c, m, executeCount))"
| "report_dimensions env now stop_ok answers ((dimension, ps) # rest) c m executeCount =
     (let processes = map fst ps;
          mainProcess = (if length processes = 1 then hd processes else bt_mainProcessSelector c processes);
          thresholdCauses = (case map_of ps mainProcess of None \<Rightarrow> [] | Some cs \<Rightarrow> cs) in
      panic_bind (ReportProcesses env now stop_ok (answers dimension) processes
          (\<lambda>task. bt_taskSetter c thresholdCauses (task\<lparr>pt_MaxRunningDuration := bt_executeTime c\<rparr>)) m) (\<lambda>result.
        case result of None \<Rightarrow> Inr None
        | Some (None, m') \<Rightarrow> report_dimensions env now stop_ok answers rest c m' executeCount
        | Some (Some a, m') \<Rightarrow> report_dimensions env now stop_ok answers rest
            (c\<lparr>bt_profilingCache := AList.update dimension a (bt_profilingCache c)\<rparr>) m' (executeCount + 1)))"

definition TriggerTasks ::
  "task_env \<Rightarrow> int \<Rightarrow> (nat \<Rightarrow> bool) \<Rightarrow> (string \<Rightarrow> Command list option) \<Rightarrow> ThresholdCause list \<Rightarrow> BaseTrigger \<Rightarrow> TaskManager \<Rightarrow>
     (BaseTrigger \<times> TaskManager \<times> int) option or_panic" where
  "TriggerTasks env now stop_ok answers causes c m = report_dimensions env now stop_ok answers (dimensioned now m c causes) c m 0"

text \<open>The causes go to the trigger of their profiling type; there is none for a type that is not registered.\<close>

type_synonym triggers = "(string \<times> BaseTrigger) list"

definition triggerRegistration :: "int \<Rightarrow> int \<Rightarrow> triggers" where
  "triggerRegistration execute silence = [(''ON_CPU'', NewSingleProcessBaseTrigger execute silence TargetTypeOnCPU),
     (''OFF_CPU'', NewSingleProcessBaseTrigger execute silence TargetTypeOffCPU), (''NETWORK'', NewNetworkTrigger execute silence)]"

definition causes_by_type :: "ThresholdCause list \<Rightarrow> (string \<times> ThresholdCause list) list" where
  "causes_by_type causes = foldl (\<lambda>m cause. append_at (pi_TargetProfilingType (th_Policy cause)) cause m) [] causes"

fun handle_types ::
  "task_env \<Rightarrow> int \<Rightarrow> (nat \<Rightarrow> bool) \<Rightarrow> (string \<Rightarrow> Command list option) \<Rightarrow> (string \<times> ThresholdCause list) list \<Rightarrow> triggers \<Rightarrow> TaskManager \<Rightarrow>
     (triggers \<times> TaskManager) option or_panic" where
  "handle_types env now stop_ok answers [] ts m = Inr (Some (ts, m))"
| "handle_types env now stop_ok answers ((profilingType, causes) # rest) ts m =
     (case map_of ts profilingType of None \<Rightarrow> Inl NilDereference
      | Some c \<Rightarrow> panic_bind (TriggerTasks env now stop_ok answers causes c m) (\<lambda>result.
          case result of None \<Rightarrow> Inr None
          | Some (c', m', _) \<Rightarrow> handle_types env now stop_ok answers rest (AList.update profilingType c' ts) m'))"

definition handleCauses ::
  "task_env \<Rightarrow> int \<Rightarrow> (nat \<Rightarrow> bool) \<Rightarrow> (string \<Rightarrow> Command list option) \<Rightarrow> ThresholdCause list \<Rightarrow> triggers \<Rightarrow> TaskManager \<Rightarrow>
     (triggers \<times> TaskManager) option or_panic" where
  "handleCauses env now stop_ok answers causes ts m = handle_types env now stop_ok answers (causes_by_type causes) ts m"

text \<open>Whether a policy is checked at all for a process.\<close>

definition ShouldCheck :: "int \<Rightarrow> TaskManager \<Rightarrow> triggers \<Rightarrow> process_ref \<Rightarrow> PolicyItem \<Rightarrow> bool or_panic" where
  "ShouldCheck now m ts p item =
     (case map_of ts (pi_TargetProfilingType item) of None \<Rightarrow> Inl NilDereference | Some c \<Rightarrow> Inr (ShouldTrigger now m c p))"

end
