(* ===== verification/Continuous_Trigger_Props.thy ===== *)
theory Continuous_Trigger_Props
  imports Continuous_Trigger
begin

text \<open>
  Which processes the policies of continuous profiling apply to after an update, and which tasks the triggers start: one for each
  dimension whose causes are allowed to, with all its processes.
\<close>

section \<open>What starting a task keeps\<close>

text \<open>The processes of every context.\<close>

abbreviation procs :: "TaskManager \<Rightarrow> process_ref list list" where
  "procs m \<equiv> map cx_processes (tm_contexts m)"

lemma procs_set_ctx: "cx_processes c = cx_processes (ctx_at m a) \<Longrightarrow> procs (set_ctx a c m) = procs m"
  by (cases "a < length (tm_contexts m)") (simp_all add: set_ctx_def map_update list_update_same_conv list_update_beyond)

lemma cx_processes_sort [simp]: "cx_processes (sort_processes c) = cx_processes c"
  by (simp add: sort_processes_def)

lemma procs_at: "a < length (tm_contexts m) \<Longrightarrow> cx_processes (ctx_at m a) = procs m ! a"
  by simp

lemma start_now_procs: "procs (start_now now k a m) = procs m"
  using procs_set_ctx [of _ "m\<lparr>tm_tasks := AList.update k a (tm_tasks m)\<rparr>" a] by (simp add: start_now_def Let_def runTask_def)

lemma ShutdownAndRemoveTask_procs: "ShutdownAndRemoveTask stop_ok e m = Some (ok, m') \<Longrightarrow> procs m' = procs m"
  using procs_set_ctx [of _ m e] by (auto simp: ShutdownAndRemoveTask_def shutdownTask_def split: if_splits)

lemma sorted_procs: "procs (set_ctx e (sort_processes (ctx_at m e)) (set_ctx a (sort_processes (ctx_at m a)) m)) = procs m"
proof -
  have p: "procs (set_ctx a (sort_processes (ctx_at m a)) m) = procs m" by (rule procs_set_ctx) simp
  show ?thesis
  proof (cases "e < length (tm_contexts m)")
    case True
    then have "cx_processes (sort_processes (ctx_at m e)) = cx_processes (ctx_at (set_ctx a (sort_processes (ctx_at m a)) m) e)" by (simp add: set_ctx_at)
    from procs_set_ctx [OF this] p show ?thesis by simp
  next
    case False
    then show ?thesis using p by (simp add: set_ctx_def list_update_beyond)
  qed
qed

lemma StartTask_procs:
  assumes "StartTask now stop_ok a m = Some m'"
  shows "procs m' = procs m"
proof (cases "map_of (tm_tasks m) (BuildTaskIdentity (ctx_at m a))")
  case None
  then show ?thesis using assms start_now_procs by (auto simp: StartTask_def Let_def)
next
  case (Some e)
  define m1 where "m1 = set_ctx e (sort_processes (ctx_at m e)) (set_ctx a (sort_processes (ctx_at m a)) m)"
  have "procs (set_ctx a ((ctx_at m1 a)\<lparr>cx_recalc := 1\<rparr>) m1) = procs m1" by (rule procs_set_ctx) simp
  then have "procs m' = procs m1" using assms Some ShutdownAndRemoveTask_procs [of stop_ok e m1] start_now_procs
    by (auto simp: StartTask_def Let_def m1_def [symmetric] split: if_splits option.splits)
  then show ?thesis using sorted_procs by (simp add: m1_def)
qed

text \<open>What a report did: nothing, or one more context.\<close>

definition reported :: "process_ref list \<Rightarrow> TaskManager \<Rightarrow> nat option \<Rightarrow> TaskManager \<Rightarrow> bool" where
  "reported ps m r m' \<longleftrightarrow> r = None \<and> procs m' = procs m \<or> r = Some (length (tm_contexts m)) \<and> procs m' = procs m @ [ps]"

lemma initTaskContext_new: "initTaskContext ok c m = (r, m') \<Longrightarrow> reported (cx_processes c) m r m'"
  by (auto simp: initTaskContext_def reported_def split: if_splits)

lemma BuildContextFromContinuous_new:
  assumes "BuildContextFromContinuous env ps taskSetter g m = Inr (r, m')"
  shows "reported ps m r m'"
proof -
  let ?c = "new_context (ProfilingTaskFromContinuous ps taskSetter) ps"
  obtain m1 where m1: "procs m1 = procs m" "length (tm_contexts m1) = length (tm_contexts m)"
    "(r, m') = (None, m1) \<or> (\<exists>c. cx_processes c = ps \<and> initTaskContext (te_init_ok env) c m1 = (r, m'))"
  proof (cases "map_of (tm_tasks m) (BuildTaskIdentity ?c)")
    case None
    have "(r, m') = (None, m) \<or> (\<exists>c. cx_processes c = ps \<and> initTaskContext (te_init_ok env) c m = (r, m'))"
      using assms None by (fastforce simp: BuildContextFromContinuous_def Let_def new_context_def split: option.splits sum.splits)
    then show ?thesis using that by blast
  next
    case (Some e)
    let ?m = "set_ctx e (sort_processes (ctx_at m e)) m"
    have "procs ?m = procs m" by (rule procs_set_ctx) simp
    moreover have "(r, m') = (None, ?m) \<or> (\<exists>c. cx_processes c = ps \<and> initTaskContext (te_init_ok env) c ?m = (r, m'))"
      using assms Some by (fastforce simp: BuildContextFromContinuous_def Let_def new_context_def sort_processes_def split: option.splits sum.splits if_splits)
    ultimately show ?thesis using that by simp
  qed
  then show ?thesis by (auto simp: reported_def dest!: initTaskContext_new)
qed

lemma ReportProcesses_new:
  assumes "ReportProcesses env now stop_ok answer ps taskSetter m = Inr (Some (r, m'))"
  shows "reported ps m r m'"
proof -
  obtain r1 m1 where b: "BuildContextFromContinuous env ps taskSetter (reported_task_id answer) m = Inr (r1, m1)"
    and s: "r = r1" "(r1 = None \<and> m' = m1) \<or> (\<exists>b. r1 = Some b \<and> StartTask now stop_ok b m1 = Some m')"
    using assms by (auto simp: ReportProcesses_def split: sum.splits option.splits)
  then show ?thesis using BuildContextFromContinuous_new [OF b] by (auto simp: reported_def dest: StartTask_procs)
qed

section \<open>One task for each dimension\<close>

abbreviation dimension_of :: "BaseTrigger \<Rightarrow> ThresholdCause \<Rightarrow> string" where
  "dimension_of c cause \<equiv> bt_profilingTaskDimension c (th_Process cause)"

definition dimension_processes :: "BaseTrigger \<Rightarrow> ThresholdCause list \<Rightarrow> string \<Rightarrow> process_ref set" where
  "dimension_processes c causes d = th_Process ` {x \<in> set causes. dimension_of c x = d}"

lemma distinct_append_at: "distinct (map fst m) \<Longrightarrow> distinct (map fst (append_at k x m))"
  by (simp add: append_at_def distinct_update)

lemma dimensioned_spec:
  "distinct (map fst (dimensioned now m c causes)) \<and> (\<forall>d ps. map_of (dimensioned now m c causes) d = Some ps \<longrightarrow>
     shouldTriggerFromDimension now m c d \<and> fst ` set ps = dimension_processes c causes d \<and> distinct (map fst ps)) \<and>
   (\<forall>d. map_of (dimensioned now m c causes) d = None \<longrightarrow> shouldTriggerFromDimension now m c d \<longrightarrow> dimension_processes c causes d = {})"
proof (induction causes rule: rev_induct)
  case Nil
  then show ?case by (simp add: dimensioned_def dimension_processes_def)
next
  case (snoc x causes)
  let ?d = "dimension_of c x" and ?ds = "dimensioned now m c causes"
  have p: "dimension_processes c (causes @ [x]) d = (if d = ?d then insert (th_Process x) (dimension_processes c causes d) else dimension_processes c causes d)" for d
    by (auto simp: dimension_processes_def)
  show ?case
  proof (cases "shouldTriggerFromDimension now m c ?d")
    case False
    then have "dimensioned now m c (causes @ [x]) = ?ds" by (simp add: dimensioned_def Let_def)
    then show ?thesis using snoc.IH False p by auto
  next
    case True
    let ?ps = "case map_of ?ds ?d of None \<Rightarrow> [] | Some ps \<Rightarrow> ps"
    have e: "dimensioned now m c (causes @ [x]) = AList.update ?d (append_at (th_Process x) x ?ps) ?ds"
      using True by (simp add: dimensioned_def Let_def)
    have "fst ` set ?ps = dimension_processes c causes ?d" "distinct (map fst ?ps)"
      using snoc.IH True by (cases "map_of ?ds ?d"; auto)+
    then show ?thesis unfolding e using snoc.IH True
      by (auto simp: p update_conv' distinct_update fst_append_at distinct_append_at split: if_splits)
  qed
qed

text \<open>
  What was started, as a list of dimensions with their processes: contexts of their own at the end of the store, in the order of the list.
\<close>

definition started ::
  "(string \<times> process_ref list) list \<Rightarrow> TaskManager \<Rightarrow> (string \<times> nat) list \<Rightarrow> TaskManager \<Rightarrow> (string \<times> nat) list \<Rightarrow> bool" where
  "started ts m cache m' cache' \<longleftrightarrow> procs m' = procs m @ map snd ts \<and>
     (\<forall>i < length ts. map_of cache' (fst (ts ! i)) = Some (length (tm_contexts m) + i)) \<and>
     (\<forall>d. d \<notin> fst ` set ts \<longrightarrow> map_of cache' d = map_of cache d)"

lemma started_more:
  assumes "started ts m1 (AList.update d (length (tm_contexts m)) cache) m' cache'" "procs m1 = procs m @ [ps]" "d \<notin> fst ` set ts"
  shows "started ((d, ps) # ts) m cache m' cache'"
proof -
  have l: "length (tm_contexts m1) = Suc (length (tm_contexts m))" using arg_cong [OF assms(2), of length] by simp
  have "map_of cache' d = Some (length (tm_contexts m))" using assms(1,3) by (simp add: started_def update_conv')
  then show ?thesis using assms l by (auto simp: started_def update_conv' nth_Cons split: nat.splits)
qed

lemma report_dimensions_new:
  assumes "report_dimensions env now stop_ok answers ds c m k = Inr (Some (c', m', n))" "distinct (map fst ds)"
  shows "\<exists>ts. n = k + int (length ts) \<and> distinct (map fst ts) \<and> started ts m (bt_profilingCache c) m' (bt_profilingCache c') \<and>
    set ts \<subseteq> (\<lambda>(d, ps). (d, map fst ps)) ` set ds"
  using assms
proof (induction ds arbitrary: c m k)
  case Nil
  then show ?case by (intro exI [of _ "[]"]) (simp add: started_def)
next
  case (Cons x ds)
  obtain d ps where x: "x = (d, ps)" by (cases x)
  let ?main = "if length (map fst ps) = 1 then hd (map fst ps) else bt_mainProcessSelector c (map fst ps)"
  let ?causes = "case map_of ps ?main of None \<Rightarrow> [] | Some cs \<Rightarrow> cs"
  let ?rep = "ReportProcesses env now stop_ok (answers d) (map fst ps) (\<lambda>task. bt_taskSetter c ?causes (task\<lparr>pt_MaxRunningDuration := bt_executeTime c\<rparr>)) m"
  obtain r m1 where rep: "?rep = Inr (Some (r, m1))"
    using Cons.prems(1) unfolding x report_dimensions.simps Let_def by (auto split: sum.splits option.splits)
  define c1 where "c1 = (case r of None \<Rightarrow> c | Some a \<Rightarrow> c\<lparr>bt_profilingCache := AList.update d a (bt_profilingCache c)\<rparr>)"
  have rest: "report_dimensions env now stop_ok answers ds c1 m1 (k + (if r = None then 0 else 1)) = Inr (Some (c', m', n))"
    using Cons.prems(1) rep unfolding x report_dimensions.simps Let_def c1_def by (cases r) auto
  note new = ReportProcesses_new [OF rep]
  obtain ts where ts: "n = k + (if r = None then 0 else 1) + int (length ts)" "distinct (map fst ts)"
    "started ts m1 (bt_profilingCache c1) m' (bt_profilingCache c')" "set ts \<subseteq> (\<lambda>(d, ps). (d, map fst ps)) ` set ds"
    using Cons.IH [OF rest] Cons.prems(2) by auto
  have d: "d \<notin> fst ` set ts" using ts(4) Cons.prems(2) x by force
  show ?case
  proof (cases r)
    case None
    then have "procs m1 = procs m" "c1 = c" using new by (simp_all add: reported_def c1_def)
    then have "started ts m (bt_profilingCache c) m' (bt_profilingCache c')" using ts(3) map_eq_imp_length_eq [of cx_processes "tm_contexts m1" cx_processes "tm_contexts m"]
      by (simp add: started_def)
    then show ?thesis using ts None by (intro exI [of _ ts]) auto
  next
    case (Some a)
    then have "procs m1 = procs m @ [map fst ps]" "a = length (tm_contexts m)" using new by (simp_all add: reported_def)
    then have "started ((d, map fst ps) # ts) m (bt_profilingCache c) m' (bt_profilingCache c')"
      using started_more [of ts m1 d m "bt_profilingCache c" m' "bt_profilingCache c'" "map fst ps"] ts(3) d Some by (simp add: c1_def)
    then show ?thesis using ts Some x d by (intro exI [of _ "(d, map fst ps) # ts"]) auto
  qed
qed

text \<open>
  C31: When causes are handled, one task is started for each of a list of different dimensions, as many as the result says. Each has a new
  context of its own, which the trigger remembers for the dimension, with all processes of the dimension that have a cause, each once. A
  dimension gets one only if it had none before, or if the last one is not running and started longer ago than the silence time. For every
  other dimension the trigger remembers what it did before, and no other context is made.
\<close>

theorem trigger_starts_one_task:
  assumes "TriggerTasks env now stop_ok answers causes c m = Inr (Some (c', m', n))"
  shows "\<exists>ts. n = int (length ts) \<and> distinct (map fst ts) \<and>
    map cx_processes (tm_contexts m') = map cx_processes (tm_contexts m) @ map snd ts \<and>
    (\<forall>i < length ts. map_of (bt_profilingCache c') (fst (ts ! i)) = Some (length (tm_contexts m) + i)) \<and>
    (\<forall>d. d \<notin> fst ` set ts \<longrightarrow> map_of (bt_profilingCache c') d = map_of (bt_profilingCache c) d) \<and>
    (\<forall>(d, ps) \<in> set ts. distinct ps \<and> set ps = th_Process ` {x \<in> set causes. bt_profilingTaskDimension c (th_Process x) = d} \<and>
      (\<forall>a. map_of (bt_profilingCache c) d = Some a \<longrightarrow> cx_status (ctx_at m a) \<noteq> Running \<and>
        (\<exists>start. cx_startRunningTime (ctx_at m a) = Some start \<and> bt_silenceTime c < now - start)))"
proof -
  let ?D = "dimensioned now m c causes"
  have dist: "distinct (map fst ?D)" using dimensioned_spec [of now m c causes] by blast
  have spec: "shouldTriggerFromDimension now m c d \<and> fst ` set ps = dimension_processes c causes d \<and> distinct (map fst ps)"
    if "map_of ?D d = Some ps" for d ps using dimensioned_spec [of now m c causes] that by blast
  obtain ts where ts: "n = int (length ts)" "distinct (map fst ts)" "started ts m (bt_profilingCache c) m' (bt_profilingCache c')"
    "set ts \<subseteq> (\<lambda>(d, ps). (d, map fst ps)) ` set ?D"
    using report_dimensions_new [OF assms [unfolded TriggerTasks_def] dist] by auto
  have each: "distinct ps \<and> set ps = th_Process ` {x \<in> set causes. bt_profilingTaskDimension c (th_Process x) = d} \<and> shouldTriggerFromDimension now m c d"
    if "(d, ps) \<in> set ts" for d ps
  proof -
    have "(d, ps) \<in> (\<lambda>(d, ps). (d, map fst ps)) ` set ?D" using that ts(4) by blast
    then obtain qs where q: "(d, qs) \<in> set ?D" "ps = map fst qs" by (auto simp only: image_iff split: prod.splits)
    then show ?thesis using spec [OF map_of_is_SomeI [OF dist q(1)]] by (simp add: dimension_processes_def)
  qed
  have guard: "cx_status (ctx_at m a) \<noteq> Running \<and> (\<exists>start. cx_startRunningTime (ctx_at m a) = Some start \<and> bt_silenceTime c < now - start)"
    if "shouldTriggerFromDimension now m c d" "map_of (bt_profilingCache c) d = Some a" for d a
    using that by (cases "cx_startRunningTime (ctx_at m a)") (simp_all add: shouldTriggerFromDimension_def split: if_splits)
  have "\<forall>(d, ps) \<in> set ts. distinct ps \<and> set ps = th_Process ` {x \<in> set causes. bt_profilingTaskDimension c (th_Process x) = d} \<and>
      (\<forall>a. map_of (bt_profilingCache c) d = Some a \<longrightarrow> cx_status (ctx_at m a) \<noteq> Running \<and>
        (\<exists>start. cx_startRunningTime (ctx_at m a) = Some start \<and> bt_silenceTime c < now - start))"
    using each guard by blast
  then show ?thesis using ts(1-3) unfolding started_def by blast
qed

text \<open>
  A task that never started silences its dimension for ever: when its runner has failed, no later time and no step of the goroutines
  lets another task of the dimension start.
\<close>

theorem failed_task_silences_its_dimension:
  assumes "(\<lambda>m m'. \<exists>t. goroutine_step t m m')\<^sup>*\<^sup>* m m'" "map_of (bt_profilingCache c) d = Some a" "a < length (tm_contexts m)"
    "cx_startRunningTime (ctx_at m a) = None" "set (cx_runs (ctx_at m a)) \<subseteq> {RunFinished}" "cx_watchers (ctx_at m a) = []" "a \<notin> snd ` set (tm_delayed m)"
  shows "\<not> shouldTriggerFromDimension now m' c d"
  using finished_context_stays [OF assms(1,3,5) _ assms(7)] assms(2,4,6) by (simp add: shouldTriggerFromDimension_def)

section \<open>Policies and their processes\<close>

lemma apply_update_at:
  "map_of (snd (apply_update processes (s, policy) (u, cache))) = (map_of cache)(s \<mapsto>
     (let existing = (case map_of cache s of None \<Rightarrow> policy | Some e \<Rightarrow> if sp_UUID e \<noteq> sp_UUID policy then policy else e) in
      if checkProcessesAreSame (sp_Processes existing) (service_processes s processes) then existing
      else existing\<lparr>sp_Processes := service_processes s processes\<rparr>))"
  by (auto simp: apply_update_def Let_def update_conv' split: option.splits)

lemma apply_updates_other:
  "s \<notin> fst ` set updates \<Longrightarrow> map_of (snd (foldl (\<lambda>st u. apply_update processes u st) st updates)) s = map_of (snd st) s"
proof (induction updates arbitrary: st)
  case (Cons u updates)
  obtain t policy where u: "u = (t, policy)" by (cases u)
  have "map_of (snd (apply_update processes u st)) s = map_of (snd st) s"
    using Cons.prems apply_update_at [of processes t policy "fst st" "snd st"] u by auto
  then show ?case using Cons by simp
qed simp

lemma distinct_fold_update: "distinct (map fst m) \<Longrightarrow> distinct (map fst (foldl (\<lambda>m u. AList.update (f u) (g u) m) m us))"
  by (induction us arbitrary: m) (auto simp: distinct_update)

lemma service_processes_refl: "checkProcessesAreSame (service_processes s processes) (service_processes s processes)"
proof -
  have "distinct (map fst (service_processes s processes))" by (simp add: service_processes_def distinct_fold_update)
  then show ?thesis by (auto simp: checkProcessesAreSame_def list_all_iff)
qed

lemma queryPolicyUpdates_distinct: "queryPolicyUpdates unmarshal answer = Some updates \<Longrightarrow> distinct (map fst updates)"
  by (auto simp: queryPolicyUpdates_def Let_def distinct_fold_update split: option.splits if_splits)

text \<open>A service that the backend answers for has the policy of the answer after an update, and the policy applies to exactly the registered
  processes of the service, by identifier and pid.\<close>

theorem answered_service_is_current:
  assumes "processes \<noteq> []" "queryPolicyUpdates unmarshal (ask (known_policies processes cache)) = Some updates" "(s, policy) \<in> set updates"
    "updatePolicyCache unmarshal ask processes cache = Some (hasUpdate, cache')"
  shows "\<exists>e. map_of cache' s = Some e \<and> sp_UUID e = sp_UUID policy \<and> checkProcessesAreSame (sp_Processes e) (service_processes s processes)"
proof -
  have c: "cache' = snd (foldl (\<lambda>st u. apply_update processes u st) (False, cache) updates)"
    using assms(1,2,4) by (auto simp: updatePolicyCache_def)
  obtain us vs where u: "updates = us @ (s, policy) # vs" using split_list [OF assms(3)] by blast
  have "s \<notin> fst ` set vs" using queryPolicyUpdates_distinct [OF assms(2)] u by auto
  note later = apply_updates_other [OF this, of processes]
  obtain b cache1 where st: "foldl (\<lambda>st u. apply_update processes u st) (False, cache) us = (b, cache1)" by fastforce
  have "map_of cache' s = map_of (snd (apply_update processes (s, policy) (b, cache1))) s" unfolding c u by (simp add: st later)
  then show ?thesis unfolding apply_update_at by (auto simp: Let_def service_processes_refl split: option.splits)
qed


section \<open>Examples\<close>

definition trigger_env :: task_env where
  "trigger_env = \<lparr>te_unmarshal = (\<lambda>_. None), te_FindProcessByID = (\<lambda>_. None), te_init_ok = (\<lambda>_. True)\<rparr>"

definition example_cause :: ThresholdCause where
  "example_cause = \<lparr>th_Process = example_process, th_Policy = example_item [] [] 3, th_URI = None\<rparr>"

definition example_answer :: "Command list option" where
  "example_answer = Some [\<lparr>cmd_Command = ''ContinuousProfilingReportTask'', cmd_Args = [(''TaskId'', ''x'')]\<rparr>]"

abbreviation example_trigger :: BaseTrigger where
  "example_trigger \<equiv> NewSingleProcessBaseTrigger second second TargetTypeOnCPU"

theorem trigger_starts_one_task_witness:
  "\<exists>c' m'. TriggerTasks trigger_env second (\<lambda>_. True) (\<lambda>_. example_answer) [example_cause] example_trigger no_tasks = Inr (Some (c', m', 1)) \<and>
     map cx_processes (tm_contexts m') = [[example_process]]"
proof -
  have "\<exists>c' m'. TriggerTasks trigger_env second (\<lambda>_. True) (\<lambda>_. example_answer) [example_cause] example_trigger no_tasks = Inr (Some (c', m', 1)) \<and>
      bt_profilingCache c' = [(''p'', 0)]"
    by (simp add: TriggerTasks_def dimensioned_def shouldTriggerFromDimension_def NewSingleProcessBaseTrigger_def example_cause_def append_at_def Let_def
        ReportProcesses_def BuildContextFromContinuous_def no_tasks_def example_answer_def reported_task_id_def initTaskContext_def new_context_def
        ProfilingTaskFromContinuous_def trigger_env_def StartTask_def start_now_def example_process_def)
  then obtain c' m' where t: "TriggerTasks trigger_env second (\<lambda>_. True) (\<lambda>_. example_answer) [example_cause] example_trigger no_tasks = Inr (Some (c', m', 1))"
    "bt_profilingCache c' = [(''p'', 0)]" by blast
  from trigger_starts_one_task [OF t(1)] obtain d ps where p: "map cx_processes (tm_contexts m') = [ps]" "map_of (bt_profilingCache c') d = Some 0"
    "distinct ps" "set ps = th_Process ` {x \<in> set [example_cause]. bt_profilingTaskDimension example_trigger (th_Process x) = d}"
    by (auto simp: no_tasks_def length_Suc_conv)
  then have d: "d = ''p''" using t(2) by (simp split: if_splits)
  have "bt_profilingTaskDimension example_trigger (th_Process example_cause) = ''p''" "th_Process example_cause = example_process"
    by (simp_all add: NewSingleProcessBaseTrigger_def example_cause_def example_process_def)
  then have e: "set ps = {example_process}" unfolding p(4) d by auto
  have "length ps = Suc 0" using distinct_card [OF p(3)] e by simp
  then obtain x where "ps = [x]" by (metis length_0_conv length_Suc_conv)
  then have "ps = [example_process]" using e by simp
  then have "map cx_processes (tm_contexts m') = [[example_process]]" using p(1) by (simp only:)
  with t(1) show ?thesis by (intro exI conjI)
qed

definition example_update :: QueryPolicyUpdate where
  "example_update = \<lparr>qu_ServiceName = ''s'', qu_UUID = ''u'', qu_Profiling = []\<rparr>"

definition example_policy_answer :: "Command list option" where
  "example_policy_answer = Some [\<lparr>cmd_Command = ''ContinuousProfilingPolicyQuery'', cmd_Args = [(''ServiceWithPolicyJSON'', ''j'')]\<rparr>]"

theorem answered_service_is_current_witness:
  "\<exists>cache' e. updatePolicyCache (\<lambda>_. Some [example_update]) (\<lambda>_. example_policy_answer) [example_process] [] = Some (True, cache') \<and>
     map_of cache' ''s'' = Some e \<and> checkProcessesAreSame (sp_Processes e) [(''p'', example_process)]"
proof -
  let ?p = "\<lparr>sp_UUID = ''u'', sp_Policies = [], sp_Processes = []\<rparr>"
  have q: "queryPolicyUpdates (\<lambda>_. Some [example_update]) example_policy_answer = Some [(''s'', ?p)]"
    by (simp add: queryPolicyUpdates_def example_policy_answer_def example_update_def)
  have s: "service_processes ''s'' [example_process] = [(''p'', example_process)]" by (simp add: service_processes_def example_process_def)
  obtain cache' where c: "updatePolicyCache (\<lambda>_. Some [example_update]) (\<lambda>_. example_policy_answer) [example_process] [] = Some (True, cache')"
    using q s by (simp add: updatePolicyCache_def apply_update_def checkProcessesAreSame_def)
  show ?thesis using answered_service_is_current [of "[example_process]" "\<lambda>_. Some [example_update]" "\<lambda>_. example_policy_answer" "[]" _ "''s''" ?p, OF _ q _ c] s c
    by auto
qed


end
