(* ===== verification/Process_Storage.thy ===== *)
theory Process_Storage
  imports Connection_Manager "HOL-Library.AList"
begin

text \<open>
  The processes that the finders detect, \<^verbatim>\<open>pkg/process/finders/storage.go\<close> and \<^verbatim>\<open>context.go\<close>: the storage reports them to the backend, keeps
  them alive, and tells its listeners about new and dead ones. A process context is a pointer in the code; here it is an address in
  a list of contexts. What a finder reads out of an answer and the answers themselves are arguments. The event queue is a list: a
  send on a full channel waits for the goroutine that consumes it, which does not take the lock of the storage.
\<close>

section \<open>Processes\<close>

record ProcessEntity =
  en_Layer :: string
  en_ServiceName :: string
  en_InstanceName :: string
  en_ProcessName :: string

definition SameWith :: "ProcessEntity option \<Rightarrow> ProcessEntity option \<Rightarrow> bool" where
  "SameWith e other = (case (e, other) of
     (Some a, Some b) \<Rightarrow> en_Layer a = en_Layer b \<and> en_ServiceName a = en_ServiceName b \<and> en_InstanceName a = en_InstanceName b \<and> en_ProcessName a = en_ProcessName b
   | _ \<Rightarrow> False)"

record DetectedProcess =
  dp_Pid :: u32
  dp_Entity :: "ProcessEntity option"
  dp_ExposePorts :: "int list"
  dp_process :: Process

datatype ProcessUploadStatus = NotReport | ReportSuccess | Ignore

record ProcessContext =
  pc_id :: string
  pc_syncStatus :: ProcessUploadStatus
  pc_detectProcess :: DetectedProcess
  pc_detectType :: nat
  pc_exposedPorts :: "int set"

datatype ProcessOperate = ProcessOperateAdd | ProcessOperateDelete

record processEvent =
  ev_pid :: u32
  ev_processes :: "nat list"
  ev_operate :: ProcessOperate

record ProcessStorage =
  st_contexts :: "ProcessContext list"
  st_processes :: "(nat \<times> nat list) list"
  st_eventQueue :: "processEvent list"
  st_reportedCount :: int

abbreviation proc_at :: "ProcessStorage \<Rightarrow> nat \<Rightarrow> ProcessContext" where
  "proc_at s a \<equiv> st_contexts s ! a"

abbreviation pid_at :: "ProcessStorage \<Rightarrow> nat \<Rightarrow> u32" where
  "pid_at s a \<equiv> dp_Pid (pc_detectProcess (proc_at s a))"

definition finder_processes :: "nat \<Rightarrow> ProcessStorage \<Rightarrow> nat list" where
  "finder_processes finder s = (case map_of (st_processes s) finder of None \<Rightarrow> [] | Some as \<Rightarrow> as)"

definition all_addresses :: "ProcessStorage \<Rightarrow> nat list" where
  "all_addresses s = concat (map snd (st_processes s))"

definition constructNewProcessContext :: "nat \<Rightarrow> DetectedProcess \<Rightarrow> ProcessContext" where
  "constructNewProcessContext finder process = \<lparr>pc_id = [], pc_syncStatus = NotReport, pc_detectProcess = process, pc_detectType = finder,
     pc_exposedPorts = set (dp_ExposePorts process)\<rparr>"

definition PortIsExpose :: "int \<Rightarrow> ProcessContext \<Rightarrow> bool" where
  "PortIsExpose port p \<longleftrightarrow> port \<in> pc_exposedPorts p"

definition DetectNewExposePort :: "int \<Rightarrow> ProcessContext \<Rightarrow> ProcessContext" where
  "DetectNewExposePort port p = p\<lparr>pc_exposedPorts := insert port (pc_exposedPorts p)\<rparr>"

definition same_process :: "DetectedProcess \<Rightarrow> ProcessContext \<Rightarrow> bool" where
  "same_process p c \<longleftrightarrow> dp_Pid p = dp_Pid (pc_detectProcess c) \<and> SameWith (dp_Entity p) (dp_Entity (pc_detectProcess c))"

section \<open>Events\<close>

text \<open>One event for each pid, with the processes that were added to the builder under it.\<close>

definition AddProcess :: "u32 \<Rightarrow> nat \<Rightarrow> (u32 \<times> nat list) list \<Rightarrow> (u32 \<times> nat list) list" where
  "AddProcess pid a processes = AList.update pid ((case map_of processes pid of None \<Rightarrow> [] | Some ps \<Rightarrow> ps) @ [a]) processes"

definition Send :: "ProcessOperate \<Rightarrow> (u32 \<times> nat list) list \<Rightarrow> ProcessStorage \<Rightarrow> ProcessStorage" where
  "Send operate processes s = s\<lparr>st_eventQueue := st_eventQueue s @ map (\<lambda>(pid, ps). \<lparr>ev_pid = pid, ev_processes = ps, ev_operate = operate\<rparr>) processes\<rparr>"

definition build_events :: "ProcessStorage \<Rightarrow> nat list \<Rightarrow> (u32 \<times> nat list) list" where
  "build_events s as = foldl (\<lambda>b a. AddProcess (pid_at s a) a b) [] as"

section \<open>What the finders detect\<close>

text \<open>A new context at the end of the store, and its address.\<close>

definition new_address :: "nat \<Rightarrow> DetectedProcess \<Rightarrow> ProcessStorage \<Rightarrow> nat \<times> ProcessStorage" where
  "new_address finder p s = (length (st_contexts s), s\<lparr>st_contexts := st_contexts s @ [constructNewProcessContext finder p]\<rparr>)"

fun add_processes :: "nat \<Rightarrow> DetectedProcess option list \<Rightarrow> ProcessStorage \<Rightarrow> nat list \<times> ProcessStorage" where
  "add_processes finder [] s = ([], s)"
| "add_processes finder (None # ps) s = add_processes finder ps s"
| "add_processes finder (Some p # ps) s =
     (if list_ex (\<lambda>a. same_process p (proc_at s a)) (finder_processes finder s) then add_processes finder ps s
      else let (a, s1) = new_address finder p s;
               s2 = s1\<lparr>st_processes := AList.update finder (finder_processes finder s1 @ [a]) (st_processes s1)\<rparr>;
               (as, s3) = add_processes finder ps s2 in (a # as, s3))"

definition AddNewProcessInFinder :: "nat \<Rightarrow> DetectedProcess option list \<Rightarrow> ProcessStorage \<Rightarrow> ProcessStorage" where
  "AddNewProcessInFinder finder processes s =
     (let (as, s1) = add_processes finder processes s in Send ProcessOperateAdd (build_events s1 as) s1)"

text \<open>
  Synchronising: the addresses of the new list, and among them those of contexts that are new. The first existing context that is
  the same process is kept.
\<close>

fun sync_processes :: "nat \<Rightarrow> nat list \<Rightarrow> DetectedProcess option list \<Rightarrow> ProcessStorage \<Rightarrow> nat list \<times> nat list \<times> ProcessStorage" where
  "sync_processes finder existing [] s = ([], [], s)"
| "sync_processes finder existing (None # ps) s = sync_processes finder existing ps s"
| "sync_processes finder existing (Some p # ps) s =
     (case List.find (\<lambda>a. same_process p (proc_at s a)) existing of
        Some a \<Rightarrow> let (ns, as, s1) = sync_processes finder existing ps s in (a # ns, as, s1)
      | None \<Rightarrow> let (a, s1) = new_address finder p s; (ns, as, s2) = sync_processes finder existing ps s1 in (a # ns, a # as, s2))"

definition SyncAllProcessInFinder :: "nat \<Rightarrow> DetectedProcess option list \<Rightarrow> ProcessStorage \<Rightarrow> ProcessStorage" where
  "SyncAllProcessInFinder finder processes s =
     (let existing = finder_processes finder s;
          (newProcesses, added, s1) = sync_processes finder existing processes s;
          s2 = Send ProcessOperateAdd (build_events s1 added) s1;
          dead = filter (\<lambda>a. a \<notin> set newProcesses) (remdups existing);
          s3 = s2\<lparr>st_processes := AList.update finder newProcesses (st_processes s2)\<rparr> in
      Send ProcessOperateDelete (build_events s1 dead) s3)"

section \<open>Reporting\<close>

definition set_proc :: "nat \<Rightarrow> ProcessContext \<Rightarrow> ProcessStorage \<Rightarrow> ProcessStorage" where
  "set_proc a p s = s\<lparr>st_contexts := (st_contexts s)[a := p]\<rparr>"

definition updateProcessToUploadSuccess :: "string \<Rightarrow> ProcessContext \<Rightarrow> ProcessContext" where
  "updateProcessToUploadSuccess i pc = pc\<lparr>pc_id := i, pc_syncStatus := ReportSuccess\<rparr>"

definition updateProcessToUploadIgnored :: "ProcessContext \<Rightarrow> ProcessContext" where
  "updateProcessToUploadIgnored pc = pc\<lparr>pc_syncStatus := Ignore\<rparr>"

text \<open>\<open>parse\<close> is how the finder of a process reads its identifier out of one reported process; the empty string when it is another one.\<close>

type_synonym 'r parse_id = "nat \<Rightarrow> DetectedProcess \<Rightarrow> 'r \<Rightarrow> string"

definition reported_id :: "'r parse_id \<Rightarrow> 'r list \<Rightarrow> ProcessContext \<Rightarrow> string option" where
  "reported_id parse reported p = map_option (parse (pc_detectType p) (pc_detectProcess p))
     (List.find (\<lambda>r. parse (pc_detectType p) (pc_detectProcess p) r \<noteq> []) reported)"

fun upload_results :: "'r parse_id \<Rightarrow> 'r list \<Rightarrow> nat list \<Rightarrow> ProcessStorage \<Rightarrow> nat list \<times> ProcessStorage" where
  "upload_results parse reported [] s = ([], s)"
| "upload_results parse reported (a # as) s =
     (case reported_id parse reported (proc_at s a) of
        Some i \<Rightarrow> let (bs, s') = upload_results parse reported as (set_proc a (updateProcessToUploadSuccess i (proc_at s a)) s) in (a # bs, s')
      | None \<Rightarrow> upload_results parse reported as (set_proc a (updateProcessToUploadIgnored (proc_at s a)) s))"

definition processesReport :: "'r parse_id \<Rightarrow> (nat list \<Rightarrow> 'r list option) \<Rightarrow> nat list \<Rightarrow> ProcessStorage \<Rightarrow> bool \<times> ProcessStorage" where
  "processesReport parse report waiting s =
     (if waiting = [] then (True, s)
      else case report waiting of None \<Rightarrow> (False, s)
      | Some reported \<Rightarrow> let (as, s1) = upload_results parse reported waiting s in (True, Send ProcessOperateAdd (build_events s1 as) s1))"

text \<open>The processes that are kept alive; one without an identifier is to be reported again.\<close>

definition processesKeepAlive :: "(nat list \<Rightarrow> bool) \<Rightarrow> nat list \<Rightarrow> ProcessStorage \<Rightarrow> bool \<times> ProcessStorage" where
  "processesKeepAlive keep waiting s =
     (if waiting = [] then (True, s)
      else (keep (filter (\<lambda>a. pc_id (proc_at s a) \<noteq> []) waiting),
            foldl (\<lambda>s a. if pc_id (proc_at s a) = [] then set_proc a ((proc_at s a)\<lparr>pc_syncStatus := NotReport\<rparr>) s else s) s waiting))"

definition reportAllProcesses ::
  "int \<Rightarrow> 'r parse_id \<Rightarrow> (nat list \<Rightarrow> 'r list option) \<Rightarrow> (nat list \<Rightarrow> bool) \<Rightarrow> ProcessStorage \<Rightarrow> (bool \<times> ProcessStorage) or_panic" where
  "reportAllProcesses propertiesReportFactor parse report keep s0 =
     (if st_processes s0 = [] then Inr (True, s0)
      else let wait = filter (\<lambda>a. pc_syncStatus (proc_at s0 a) = NotReport) (all_addresses s0);
               alive = filter (\<lambda>a. pc_syncStatus (proc_at s0 a) = ReportSuccess) (all_addresses s0);
               s1 = s0\<lparr>st_reportedCount := st_reportedCount s0 + 1\<rparr> in
        if propertiesReportFactor = 0 then Inl DivideByZero
        else let force = (st_reportedCount s1 mod propertiesReportFactor = 0);
                 (ok1, s2) = processesReport parse report (if force then wait @ alive else wait) s1;
                 (ok2, s3) = processesKeepAlive keep (if force then [] else alive) s2 in
          Inr (ok1 \<and> ok2, s3))"

section \<open>Queries\<close>

definition FindAllRegisteredProcesses :: "ProcessStorage \<Rightarrow> nat list" where
  "FindAllRegisteredProcesses s = filter (\<lambda>a. pc_syncStatus (proc_at s a) = ReportSuccess) (all_addresses s)"

definition FindProcessByID :: "string \<Rightarrow> ProcessStorage \<Rightarrow> nat option" where
  "FindProcessByID processID s = List.find (\<lambda>a. pc_id (proc_at s a) = processID) (all_addresses s)"

definition FindProcessByPID :: "u32 \<Rightarrow> ProcessStorage \<Rightarrow> nat list" where
  "FindProcessByPID pid s = filter (\<lambda>a. pid_at s a = pid) (all_addresses s)"

section \<open>Listeners\<close>

text \<open>The connection manager as a listener; \<open>order\<close> is the order in which it visits its processes.\<close>

definition consumeProcessEvent ::
  "'v process_env \<Rightarrow> (u32 \<times> Process list) list \<Rightarrow> ProcessStorage \<Rightarrow> processEvent \<Rightarrow> ('v, 'b) ConnectionManager \<Rightarrow> ('v, 'b) ConnectionManager" where
  "consumeProcessEvent env order s e c =
     (if ev_operate e = ProcessOperateAdd
      then AddNewProcess env order (ev_pid e) (map (\<lambda>a. dp_process (pc_detectProcess (proc_at s a))) (ev_processes e)) c
      else RemoveProcess env order (ev_pid e) c)"

definition notifyToRecheckAllProcesses ::
  "'v process_env \<Rightarrow> u32 list \<Rightarrow> ProcessStorage \<Rightarrow> ('v, 'b) ConnectionManager \<Rightarrow> ('v, 'b) ConnectionManager" where
  "notifyToRecheckAllProcesses env inBPF s c =
     RecheckAllProcesses env (map (\<lambda>(pid, as). (pid, map (\<lambda>a. dp_process (pc_detectProcess (proc_at s a))) as)) (build_events s (all_addresses s))) inBPF c"

end
