(* ===== verification/Process_Storage_Props.thy ===== *)
theory Process_Storage_Props
  imports Process_Storage Connection_Manager_Props
begin

text \<open>
  The events of the process storage describe its processes, a registered process has an identifier, and what the connection manager
  makes of the events of a process that changes.
\<close>

section \<open>Events\<close>

text \<open>What a listener that believes the events knows: the processes that were added and not deleted since.\<close>

definition event_effect :: "nat set \<Rightarrow> processEvent \<Rightarrow> nat set" where
  "event_effect S e = (if ev_operate e = ProcessOperateAdd then S \<union> set (ev_processes e) else S - set (ev_processes e))"

definition described :: "ProcessStorage \<Rightarrow> nat set" where
  "described s = foldl event_effect {} (st_eventQueue s)"

definition event_list :: "ProcessOperate \<Rightarrow> (u32 \<times> nat list) list \<Rightarrow> processEvent list" where
  "event_list operate processes = map (\<lambda>(pid, ps). \<lparr>ev_pid = pid, ev_processes = ps, ev_operate = operate\<rparr>) processes"

definition in_events :: "(u32 \<times> nat list) list \<Rightarrow> nat set" where
  "in_events processes = (\<Union>x \<in> set processes. set (snd x))"

lemma effects: "foldl event_effect S (event_list ProcessOperateAdd ps) = S \<union> in_events ps"
  "foldl event_effect S (event_list ProcessOperateDelete ps) = S - in_events ps"
  by (induction ps arbitrary: S) (auto simp: event_list_def in_events_def event_effect_def)

lemma in_events_AddProcess: "in_events (AddProcess pid a m) = insert a (in_events m)"
  by (induction m) (auto simp: AddProcess_def in_events_def)

lemma in_events_build: "in_events (build_events s as) = set as"
proof -
  have "in_events (foldl (\<lambda>b a. AddProcess (pid_at s a) a b) m as) = in_events m \<union> set as" for m
    by (induction as arbitrary: m) (auto simp: in_events_AddProcess)
  from this [of "[]"] show ?thesis by (simp add: build_events_def in_events_def)
qed

lemma Send_simps [simp]: "st_contexts (Send op ps s) = st_contexts s" "st_processes (Send op ps s) = st_processes s"
  "st_reportedCount (Send op ps s) = st_reportedCount s" "st_eventQueue (Send op ps s) = st_eventQueue s @ event_list op ps"
  by (simp_all add: Send_def event_list_def)

lemma described_Send: "described (Send ProcessOperateAdd ps s) = described s \<union> in_events ps"
  "described (Send ProcessOperateDelete ps s) = described s - in_events ps"
  by (simp_all add: described_def effects)

section \<open>What every operation keeps\<close>

text \<open>
  The addresses of a finder belong to contexts of that finder, no finder is listed twice, a registered process has an identifier,
  and the events describe the processes.
\<close>

definition storage_ok :: "ProcessStorage \<Rightarrow> bool" where
  "storage_ok s \<longleftrightarrow> (\<forall>(f, as) \<in> set (st_processes s). \<forall>a \<in> set as. a < length (st_contexts s) \<and> pc_detectType (proc_at s a) = f) \<and>
     distinct (map fst (st_processes s)) \<and> (\<forall>p \<in> set (st_contexts s). pc_syncStatus p = ReportSuccess \<longrightarrow> pc_id p \<noteq> [])"

definition events_complete :: "ProcessStorage \<Rightarrow> bool" where
  "events_complete s \<longleftrightarrow> described s = set (all_addresses s)"

lemma storage_ok_Send [simp]: "storage_ok (Send op ps s) = storage_ok s" by (simp add: storage_ok_def)

lemma all_addresses_set: "set (all_addresses s) = (\<Union>x \<in> set (st_processes s). set (snd x))"
  by (simp add: all_addresses_def)

lemma finder_processes_in: "a \<in> set (finder_processes f s) \<Longrightarrow> \<exists>as. (f, as) \<in> set (st_processes s) \<and> a \<in> set as"
  by (cases "map_of (st_processes s) f") (auto simp: finder_processes_def dest: map_of_SomeD)

lemma storage_ok_finder: "storage_ok s \<Longrightarrow> a \<in> set (finder_processes f s) \<Longrightarrow> a < length (st_contexts s) \<and> pc_detectType (proc_at s a) = f"
  by (fastforce simp: storage_ok_def dest: finder_processes_in)

lemma set_update_distinct:
  "distinct (map fst m) \<Longrightarrow> set (AList.update k v m) = insert (k, v) {x \<in> set m. fst x \<noteq> k}"
  by (induction m) (auto simp: image_iff split: if_splits)

text \<open>Replacing the processes of one finder.\<close>

lemma addresses_update:
  assumes "storage_ok s"
  shows "set (all_addresses (s\<lparr>st_processes := AList.update f as (st_processes s)\<rparr>)) = (set (all_addresses s) - set (finder_processes f s)) \<union> set as"
proof -
  have d: "distinct (map fst (st_processes s))" using assms by (simp add: storage_ok_def)
  have "x \<in> set bs \<Longrightarrow> (g, bs) \<in> set (st_processes s) \<Longrightarrow> g \<noteq> f \<Longrightarrow> x \<notin> set (finder_processes f s)" for g bs x
    using assms storage_ok_finder [OF assms, of x f] by (fastforce simp: storage_ok_def)
  moreover have "(f, bs) \<in> set (st_processes s) \<Longrightarrow> finder_processes f s = bs" for bs
    using d by (simp add: finder_processes_def)
  ultimately show ?thesis unfolding all_addresses_set by (fastforce simp: set_update_distinct [OF d])
qed

lemma storage_ok_update:
  assumes "storage_ok s" "\<forall>a \<in> set as. a < length (st_contexts s) \<and> pc_detectType (proc_at s a) = f"
  shows "storage_ok (s\<lparr>st_processes := AList.update f as (st_processes s)\<rparr>)"
  using assms by (auto simp: storage_ok_def distinct_update set_update_distinct)

lemma storage_ok_new:
  assumes "storage_ok s"
  shows "storage_ok (s\<lparr>st_contexts := st_contexts s @ [constructNewProcessContext f p]\<rparr>)"
  using assms by (fastforce simp: storage_ok_def nth_append constructNewProcessContext_def)

lemma add_processes_ok:
  "add_processes f ps s = (as, s') \<Longrightarrow> storage_ok s \<Longrightarrow> storage_ok s' \<and> set (all_addresses s') = set (all_addresses s) \<union> set as \<and> st_eventQueue s' = st_eventQueue s"
proof (induction f ps s arbitrary: as rule: add_processes.induct)
  case (3 f p ps s)
  show ?case
  proof (cases "list_ex (\<lambda>a. same_process p (proc_at s a)) (finder_processes f s)")
    case False
    let ?a = "length (st_contexts s)"
    define s1 where "s1 = s\<lparr>st_contexts := st_contexts s @ [constructNewProcessContext f p]\<rparr>"
    define s2 where "s2 = s1\<lparr>st_processes := AList.update f (finder_processes f s1 @ [?a]) (st_processes s1)\<rparr>"
    have n: "new_address f p s = (?a, s1)" by (simp add: new_address_def s1_def)
    obtain bs where b: "add_processes f ps s2 = (bs, s')" "as = ?a # bs"
      using "3.prems"(1) False n by (auto simp: s2_def Let_def split: prod.splits)
    have ok1: "storage_ok s1" unfolding s1_def by (rule storage_ok_new [OF "3.prems"(2)])
    have "\<forall>a \<in> set (finder_processes f s1 @ [?a]). a < length (st_contexts s1) \<and> pc_detectType (proc_at s1 a) = f"
      using storage_ok_finder [OF ok1] by (auto simp: s1_def constructNewProcessContext_def nth_append)
    then have ok2: "storage_ok s2" unfolding s2_def by (rule storage_ok_update [OF ok1])
    have "set (finder_processes f s1) \<subseteq> set (all_addresses s1)" by (auto simp: all_addresses_set dest!: finder_processes_in)
    then have "set (all_addresses s2) = insert ?a (set (all_addresses s1))"
      unfolding s2_def addresses_update [OF ok1] by auto
    moreover have "all_addresses s1 = all_addresses s" "st_eventQueue s2 = st_eventQueue s" by (simp_all add: s1_def s2_def all_addresses_def)
    ultimately show ?thesis using "3.IH"(2) [OF False n [symmetric] _ s2_def b(1) ok2] b(2) by auto
  qed (use 3 in auto)
qed auto

lemma sync_processes_ok:
  "sync_processes f existing ps s = (ns, as, s') \<Longrightarrow> storage_ok s \<Longrightarrow> \<forall>a \<in> set existing. a < length (st_contexts s) \<and> pc_detectType (proc_at s a) = f \<Longrightarrow>
     storage_ok s' \<and> st_processes s' = st_processes s \<and> st_eventQueue s' = st_eventQueue s \<and> set as \<subseteq> set ns \<and> set ns \<subseteq> set existing \<union> set as \<and>
     (\<forall>a \<in> set as. length (st_contexts s) \<le> a) \<and> (\<forall>a \<in> set ns. a < length (st_contexts s') \<and> pc_detectType (proc_at s' a) = f) \<and>
     (\<exists>cs. st_contexts s' = st_contexts s @ cs)"
proof (induction f existing ps s arbitrary: ns as rule: sync_processes.induct)
  case (3 f existing p ps s)
  show ?case
  proof (cases "List.find (\<lambda>a. same_process p (proc_at s a)) existing")
    case None
    let ?a = "length (st_contexts s)"
    define s1 where "s1 = s\<lparr>st_contexts := st_contexts s @ [constructNewProcessContext f p]\<rparr>"
    have n: "(?a, s1) = new_address f p s" by (simp add: new_address_def s1_def)
    obtain ns1 as1 where b: "sync_processes f existing ps s1 = (ns1, as1, s')" "ns = ?a # ns1" "as = ?a # as1"
      using "3.prems"(1) None n [symmetric] by (auto split: prod.splits)
    have ok1: "storage_ok s1" unfolding s1_def by (rule storage_ok_new [OF "3.prems"(2)])
    have "\<forall>a \<in> set existing. a < length (st_contexts s1) \<and> pc_detectType (proc_at s1 a) = f"
      using "3.prems"(3) by (auto simp: s1_def nth_append)
    note IH = "3.IH"(1) [OF None n _ b(1) ok1 this]
    moreover have "pc_detectType (proc_at s1 ?a) = f" "?a < length (st_contexts s1)" by (simp_all add: s1_def constructNewProcessContext_def)
    moreover have "st_processes s1 = st_processes s" "st_eventQueue s1 = st_eventQueue s" by (simp_all add: s1_def)
    moreover have "\<exists>cs. st_contexts s1 = st_contexts s @ cs" "length (st_contexts s1) = Suc ?a" by (simp_all add: s1_def)
    ultimately show ?thesis using b(2,3) by (fastforce simp: nth_append)
  next
    case (Some a)
    obtain ns1 as1 where b: "sync_processes f existing ps s = (ns1, as1, s')" "ns = a # ns1" "as = as1"
      using "3.prems"(1) Some by (auto split: prod.splits)
    have "a \<in> set existing" using Some by (auto simp: find_Some_iff)
    then show ?thesis using "3.IH"(2) [OF Some b(1) "3.prems"(2,3)] b(2,3) "3.prems"(3) by (fastforce simp: nth_append)
  qed
qed auto

lemma Sync_ok:
  assumes "storage_ok s" "events_complete s"
  shows "storage_ok (SyncAllProcessInFinder f ps s) \<and> events_complete (SyncAllProcessInFinder f ps s)"
proof -
  define ex where "ex = finder_processes f s"
  obtain ns as s1 where sy: "sync_processes f ex ps s = (ns, as, s1)" by (metis prod_cases3)
  have ex: "\<forall>a \<in> set ex. a < length (st_contexts s) \<and> pc_detectType (proc_at s a) = f" using storage_ok_finder [OF assms(1)] by (auto simp: ex_def)
  note k = sync_processes_ok [OF sy assms(1) ex]
  let ?dead = "filter (\<lambda>a. a \<notin> set ns) (remdups ex)"
  define s2 where "s2 = Send ProcessOperateAdd (build_events s1 as) s1"
  define s3 where "s3 = s2\<lparr>st_processes := AList.update f ns (st_processes s2)\<rparr>"
  have e: "SyncAllProcessInFinder f ps s = Send ProcessOperateDelete (build_events s1 ?dead) s3"
    using sy by (simp add: SyncAllProcessInFinder_def ex_def s2_def s3_def Let_def)
  have ok2: "storage_ok s2" using k by (simp add: s2_def)
  have ok3: "storage_ok s3" unfolding s3_def using k by (intro storage_ok_update [OF ok2]) (auto simp: s2_def)
  have "all_addresses s2 = all_addresses s" "finder_processes f s2 = ex" using k by (simp_all add: s2_def all_addresses_def finder_processes_def ex_def)
  then have all: "set (all_addresses s3) = (set (all_addresses s) - set ex) \<union> set ns" unfolding s3_def addresses_update [OF ok2] by simp
  have in_all: "set ex \<subseteq> set (all_addresses s)" by (auto simp: ex_def all_addresses_set dest!: finder_processes_in)
  have "described s3 = described s2" by (simp add: s3_def described_def)
  also have "\<dots> = described s \<union> set as" using k by (simp add: s2_def described_Send in_events_build) (simp add: described_def)
  finally have "described s3 = set (all_addresses s) \<union> set as" using assms(2) by (simp add: events_complete_def)
  then have "described (SyncAllProcessInFinder f ps s) = set (all_addresses s3)"
    unfolding e all described_Send in_events_build using k in_all by auto
  moreover have "set (all_addresses (SyncAllProcessInFinder f ps s)) = set (all_addresses s3)" by (simp add: e all_addresses_def)
  moreover have "storage_ok (SyncAllProcessInFinder f ps s)" using ok3 by (simp add: e)
  ultimately show ?thesis by (simp add: events_complete_def)
qed

lemma Add_ok:
  assumes "storage_ok s" "events_complete s"
  shows "storage_ok (AddNewProcessInFinder f ps s) \<and> events_complete (AddNewProcessInFinder f ps s)"
proof -
  obtain as s1 where a: "add_processes f ps s = (as, s1)" by (cases "add_processes f ps s")
  note k = add_processes_ok [OF a assms(1)]
  have "described s1 = described s" using k by (simp add: described_def)
  then show ?thesis using k assms(2) a
    by (simp add: AddNewProcessInFinder_def events_complete_def described_Send in_events_build storage_ok_def) (simp add: all_addresses_def)
qed

lemma reported_id_nonempty: "reported_id parse reported p = Some i \<Longrightarrow> i \<noteq> []"
  by (auto simp: reported_id_def find_Some_iff)

lemma set_proc_ok:
  assumes "storage_ok s" "pc_detectType p = pc_detectType (proc_at s a)" "pc_syncStatus p = ReportSuccess \<Longrightarrow> pc_id p \<noteq> []"
  shows "storage_ok (set_proc a p s)"
proof -
  have "pc_detectType (proc_at (set_proc a p s) b) = pc_detectType (proc_at s b)" if "b < length (st_contexts s)" for b
    using assms(2) that by (cases "a = b") (simp_all add: set_proc_def)
  moreover have "set (st_contexts (set_proc a p s)) \<subseteq> insert p (set (st_contexts s))" by (simp add: set_proc_def set_update_subset_insert)
  ultimately show ?thesis using assms(1,3) unfolding storage_ok_def by (fastforce simp: set_proc_def)
qed

lemma set_proc_simps [simp]: "st_processes (set_proc a p s) = st_processes s" "st_eventQueue (set_proc a p s) = st_eventQueue s"
  "all_addresses (set_proc a p s) = all_addresses s" "described (set_proc a p s) = described s" "length (st_contexts (set_proc a p s)) = length (st_contexts s)"
  by (simp_all add: set_proc_def all_addresses_def described_def)

lemma upload_results_ok:
  "upload_results parse reported as s = (bs, s') \<Longrightarrow> storage_ok s \<Longrightarrow>
     storage_ok s' \<and> all_addresses s' = all_addresses s \<and> described s' = described s \<and> set bs \<subseteq> set as"
proof (induction as arbitrary: s bs)
  case (Cons a as)
  show ?case
  proof (cases "reported_id parse reported (proc_at s a)")
    case None
    let ?s = "set_proc a (updateProcessToUploadIgnored (proc_at s a)) s"
    have "storage_ok ?s" by (rule set_proc_ok [OF Cons.prems(2)]) (simp_all add: updateProcessToUploadIgnored_def)
    from Cons.IH [OF _ this] Cons.prems(1) None show ?thesis by auto
  next
    case (Some i)
    let ?s = "set_proc a (updateProcessToUploadSuccess i (proc_at s a)) s"
    have ok: "storage_ok ?s" by (rule set_proc_ok [OF Cons.prems(2)]) (simp_all add: updateProcessToUploadSuccess_def reported_id_nonempty [OF Some])
    obtain cs where "upload_results parse reported as ?s = (cs, s')" "bs = a # cs" using Cons.prems(1) Some by (auto split: prod.splits)
    then show ?thesis using Cons.IH [OF _ ok] by fastforce
  qed
qed simp

lemma KeepAlive_ok:
  assumes "storage_ok s"
  shows "storage_ok (snd (processesKeepAlive keep as s)) \<and> all_addresses (snd (processesKeepAlive keep as s)) = all_addresses s \<and>
    described (snd (processesKeepAlive keep as s)) = described s"
proof -
  have "storage_ok (foldl f s as) \<and> all_addresses (foldl f s as) = all_addresses s \<and> described (foldl f s as) = described s"
    if "\<And>s a. storage_ok s \<Longrightarrow> storage_ok (f s a) \<and> all_addresses (f s a) = all_addresses s \<and> described (f s a) = described s" "storage_ok s" for f s
    using that(2) by (induction as arbitrary: s) (auto simp: that(1))
  note fold = this [of "\<lambda>s a. if pc_id (proc_at s a) = [] then set_proc a ((proc_at s a)\<lparr>pc_syncStatus := NotReport\<rparr>) s else s" s]
  have "storage_ok (set_proc a ((proc_at s a)\<lparr>pc_syncStatus := NotReport\<rparr>) s)" if "storage_ok s" for s a
    by (rule set_proc_ok [OF that]) simp_all
  then show ?thesis using assms fold by (auto simp: processesKeepAlive_def)
qed

lemma Report_ok:
  assumes "storage_ok s" "events_complete s" "set as \<subseteq> set (all_addresses s)"
  shows "storage_ok (snd (processesReport parse report as s)) \<and> events_complete (snd (processesReport parse report as s))"
proof (cases "as = [] \<or> report as = None")
  case False
  then obtain reported where rep: "report as = Some reported" by auto
  obtain bs s1 where u: "upload_results parse reported as s = (bs, s1)" by (cases "upload_results parse reported as s")
  note k = upload_results_ok [OF u assms(1)]
  have e: "snd (processesReport parse report as s) = Send ProcessOperateAdd (build_events s1 bs) s1"
    using False rep u by (simp add: processesReport_def)
  have "all_addresses (Send op ps s1) = all_addresses s1" for op ps by (simp add: all_addresses_def)
  then show ?thesis unfolding e using k assms(2,3) by (auto simp: events_complete_def described_Send in_events_build)
qed (use assms in \<open>auto simp: processesReport_def\<close>)

section \<open>Every state of the storage\<close>

text \<open>The storage with the finders and the backend; \<open>parse\<close> is fixed.\<close>

inductive storage_reachable :: "'r parse_id \<Rightarrow> ProcessStorage \<Rightarrow> bool" for parse where
  initial: "storage_reachable parse \<lparr>st_contexts = [], st_processes = [], st_eventQueue = [], st_reportedCount = 0\<rparr>"
| detected: "storage_reachable parse s \<Longrightarrow> storage_reachable parse (AddNewProcessInFinder f ps s)"
| synced: "storage_reachable parse s \<Longrightarrow> storage_reachable parse (SyncAllProcessInFinder f ps s)"
| reported: "storage_reachable parse s \<Longrightarrow> reportAllProcesses factor parse report keep s = Inr (ok, s') \<Longrightarrow> storage_reachable parse s'"

lemma reachable_ok: "storage_reachable parse s \<Longrightarrow> storage_ok s \<and> events_complete s"
proof (induction rule: storage_reachable.induct)
  case initial
  then show ?case by (simp add: storage_ok_def events_complete_def described_def all_addresses_def)
next
  case (reported s factor report keep ok s')
  let ?s = "s\<lparr>st_reportedCount := st_reportedCount s + 1\<rparr>"
  have ok: "storage_ok ?s" "events_complete ?s" using reported.IH by (simp_all add: storage_ok_def events_complete_def described_def all_addresses_def)
  show ?case
  proof (cases "st_processes s = []")
    case False
    obtain as al where as: "set as \<subseteq> set (all_addresses ?s)" and s': "s' = snd (processesKeepAlive keep al (snd (processesReport parse report as ?s)))"
    proof -
      let ?w = "filter (\<lambda>a. pc_syncStatus (proc_at s a) = NotReport) (all_addresses s)" and ?l = "filter (\<lambda>a. pc_syncStatus (proc_at s a) = ReportSuccess) (all_addresses s)"
      let ?f = "st_reportedCount ?s mod factor = 0"
      show ?thesis
        by (rule that [of "if ?f then ?w @ ?l else ?w" "if ?f then [] else ?l"])
          (use reported.hyps(2) False in \<open>auto simp: reportAllProcesses_def Let_def all_addresses_def split: if_splits prod.splits\<close>)
    qed
    note r = Report_ok [OF ok as, of parse report]
    show ?thesis using KeepAlive_ok [of "snd (processesReport parse report as ?s)" keep al] r unfolding s' events_complete_def by auto
  qed (use reported in \<open>simp add: reportAllProcesses_def\<close>)
qed (simp_all add: Add_ok Sync_ok)


section \<open>A process that changes\<close>

lemma RemoveProcess_gone: "cm_monitoringProcesses (RemoveProcess env order pid c) pid = None"
  by (simp add: RemoveProcess_def Let_def recordProcessVerdict_def updateMonitorStatusForProcess_def)

text \<open>C35: a process whose entity changes, for instance its service, is lost for the access log: it is announced under its pid before the old
  one is deleted, the connection manager ignores the announcement because the pid is monitored, and the deletion stops the monitoring
  of the pid. The storage has the process, and the filter lets it pass, but it is not monitored until the next recheck.\<close>

theorem changed_process_is_lost:
  assumes "finder_processes f s = [a]" "a < length (st_contexts s)" "pid_at s a = dp_Pid p" "\<not> SameWith (dp_Entity p) (dp_Entity (pc_detectProcess (proc_at s a)))"
    "st_eventQueue s = []" "s' = SyncAllProcessInFinder f [Some p] s"
    "cm_monitoringProcesses c (dp_Pid p) = Some ps" "ShouldIncludeProcesses (pe_selfPid env) (pe_filter env) [dp_process p] = [dp_process p]"
  shows "\<exists>b. finder_processes f s' = [b] \<and> pc_detectProcess (proc_at s' b) = p \<and>
    cm_monitoringProcesses (fold (consumeProcessEvent env order s') (st_eventQueue s') c) (dp_Pid p) = None"
proof -
  let ?b = "length (st_contexts s)"
  let ?s1 = "s\<lparr>st_contexts := st_contexts s @ [constructNewProcessContext f p]\<rparr>"
  have n: "\<not> same_process p (proc_at s a)" using assms(4) by (simp add: same_process_def)
  have sy: "sync_processes f [a] [Some p] s = ([?b], [?b], ?s1)" using n by (simp add: new_address_def)
  have pb: "pc_detectProcess ((st_contexts s @ [constructNewProcessContext f p]) ! ?b) = p" by (simp add: constructNewProcessContext_def)
  have b: "build_events ?s1 [?b] = [(dp_Pid p, [?b])]" "build_events ?s1 [a] = [(dp_Pid p, [a])]"
    using assms(2,3) pb by (simp_all add: build_events_def AddProcess_def nth_append)
  have s': "s' = ?s1\<lparr>st_processes := AList.update f [?b] (st_processes s), st_eventQueue :=
      [\<lparr>ev_pid = dp_Pid p, ev_processes = [?b], ev_operate = ProcessOperateAdd\<rparr>, \<lparr>ev_pid = dp_Pid p, ev_processes = [a], ev_operate = ProcessOperateDelete\<rparr>]\<rparr>"
    using assms(1,2,5,6) sy b by (simp add: SyncAllProcessInFinder_def Let_def Send_def)
  have "AddNewProcess env order (dp_Pid p) [dp_process p] c = c" using assms(7,8) by (simp add: AddNewProcess_def)
  then have "fold (consumeProcessEvent env order s') (st_eventQueue s') c = RemoveProcess env order (dp_Pid p) c"
    using pb by (simp add: s' consumeProcessEvent_def)
  then show ?thesis using pb by (simp add: RemoveProcess_gone s' finder_processes_def update_conv')
qed

text \<open>Asking for the process with the empty identifier finds a process that is not registered yet.\<close>

theorem empty_identifier_finds_a_process:
  assumes "a \<in> set (all_addresses s)" "pc_id (proc_at s a) = []"
  shows "\<exists>b \<in> set (all_addresses s). FindProcessByID [] s = Some b \<and> pc_id (proc_at s b) = []"
proof -
  obtain b where "FindProcessByID [] s = Some b"
    using assms unfolding FindProcessByID_def by (metis (mono_tags, lifting) find_None_iff not_None_eq)
  then show ?thesis by (auto simp: FindProcessByID_def find_Some_iff)
qed

section \<open>Examples\<close>

definition example_detected :: "string \<Rightarrow> DetectedProcess" where
  "example_detected service = \<lparr>dp_Pid = 7, dp_Entity = Some \<lparr>en_Layer = ''l'', en_ServiceName = service, en_InstanceName = ''i'', en_ProcessName = ''n''\<rparr>,
     dp_ExposePorts = [80], dp_process = \<lparr>pr_Pid = 7, pr_IsKubernetes = True, pr_ServiceName = service, pr_ProcessName = ''n'', pr_Namespace = ''ns'', pr_PodName = ''pod'',
       pr_ContainerName = ''c'', pr_ContainerCGroup = ''cg'', pr_ExposeHosts = []\<rparr>\<rparr>"

definition detected_storage :: ProcessStorage where
  "detected_storage = AddNewProcessInFinder 1 [Some (example_detected ''s'')]
     \<lparr>st_contexts = [], st_processes = [], st_eventQueue = [], st_reportedCount = 0\<rparr>"

lemma detected_storage_simps: "st_contexts detected_storage = [constructNewProcessContext 1 (example_detected ''s'')]"
  "st_processes detected_storage = [(1, [0])]"
  by (simp_all add: detected_storage_def AddNewProcessInFinder_def finder_processes_def new_address_def Send_def)


theorem changed_process_is_lost_witness:
  "let env = Connection_Manager_Props.example_env None; s = detected_storage\<lparr>st_eventQueue := []\<rparr>;
       c = (NewConnectionManager list_cache list_cache 5)\<lparr>cm_monitoringProcesses := [7 \<mapsto> [dp_process (example_detected ''s'')]]\<rparr>;
       s' = SyncAllProcessInFinder 1 [Some (example_detected ''t'')] s in
   finder_processes 1 s' \<noteq> [] \<and> cm_monitoringProcesses (fold (consumeProcessEvent env [] s') (st_eventQueue s') c) 7 = None"
proof -
  let ?env = "Connection_Manager_Props.example_env None" and ?s = "detected_storage\<lparr>st_eventQueue := []\<rparr>" and ?p = "example_detected ''t''"
  let ?c = "(NewConnectionManager list_cache list_cache 5)\<lparr>cm_monitoringProcesses := [7 \<mapsto> [dp_process (example_detected ''s'')]]\<rparr>"
  have pid: "dp_Pid ?p = 7" by (simp add: example_detected_def)
  have "\<exists>b. finder_processes 1 (SyncAllProcessInFinder 1 [Some ?p] ?s) = [b] \<and>
      pc_detectProcess (proc_at (SyncAllProcessInFinder 1 [Some ?p] ?s) b) = ?p \<and> cm_monitoringProcesses
        (fold (consumeProcessEvent ?env [] (SyncAllProcessInFinder 1 [Some ?p] ?s)) (st_eventQueue (SyncAllProcessInFinder 1 [Some ?p] ?s)) ?c) (dp_Pid ?p) = None"
  proof (rule changed_process_is_lost [where a = 0 and ps = "[dp_process (example_detected ''s'')]"])
    show "ShouldIncludeProcesses (pe_selfPid ?env) (pe_filter ?env) [dp_process ?p] = [dp_process ?p]"
      by (simp add: ShouldIncludeProcesses_def filter_includes_def Connection_Manager_Props.example_env_def example_detected_def)
  qed (simp_all add: finder_processes_def detected_storage_simps constructNewProcessContext_def example_detected_def SameWith_def)
  then show ?thesis by (auto simp: pid Let_def)
qed

end
