(* ===== verification/Module_Order.thy ===== *)
theory Module_Order
  imports Rover_Prelude
begin

text \<open>
  The order in which the modules of the program start and stop, \<^verbatim>\<open>pkg/boot/module.go\<close>. A module is its name, the modules it requires
  and whether its configuration activates it; what its \<^verbatim>\<open>Start\<close> returns is an argument. The depth of the recursion over requirements
  is bounded by a number that is shown to be large enough.
\<close>

section \<open>Resolving dependencies\<close>

record Module =
  mo_Name :: string
  mo_RequiredModules :: "string list"
  mo_IsActive :: bool

record ModuleStarter =
  ms_visited :: "string set"
  ms_orderedModules :: "Module list"

datatype resolved = Resolved ModuleStarter | Cyclic | NotDeclared | Panicked | OutOfFuel

fun and_then :: "resolved \<Rightarrow> (ModuleStarter \<Rightarrow> resolved) \<Rightarrow> resolved" where
  "and_then (Resolved st) f = f st"
| "and_then r f = r"

fun for_each :: "('a \<Rightarrow> ModuleStarter \<Rightarrow> resolved) \<Rightarrow> 'a list \<Rightarrow> ModuleStarter \<Rightarrow> resolved" where
  "for_each f [] st = Resolved st"
| "for_each f (x # xs) st = and_then (f x st) (for_each f xs)"

abbreviation ordered_names :: "ModuleStarter \<Rightarrow> string list" where
  "ordered_names st \<equiv> map mo_Name (ms_orderedModules st)"

text \<open>A required module that was not declared is nil, and asking it for its name a panic.\<close>

primrec appendToResolve :: "nat \<Rightarrow> (string \<rightharpoonup> Module) \<Rightarrow> Module \<Rightarrow> ModuleStarter \<Rightarrow> resolved" where
  "appendToResolve 0 moduleMap m st = OutOfFuel"
| "appendToResolve (Suc n) moduleMap m st =
     (if mo_Name m \<in> ms_visited st then if mo_Name m \<in> set (ordered_names st) then Resolved st else Cyclic
      else and_then (for_each (\<lambda>r st. case moduleMap r of None \<Rightarrow> Panicked | Some q \<Rightarrow> appendToResolve n moduleMap q st) (mo_RequiredModules m)
               (st\<lparr>ms_visited := insert (mo_Name m) (ms_visited st)\<rparr>))
             (\<lambda>st'. Resolved (st'\<lparr>ms_orderedModules := ms_orderedModules st' @ [m]\<rparr>)))"

text \<open>
  \<^verbatim>\<open>sort.Slice\<close> brings the logger to the front; the order of the others is not promised, so the sorted list is an argument that has to be
  a permutation of the active modules with the logger first.
\<close>

definition ResolveDependency :: "nat \<Rightarrow> (string \<rightharpoonup> Module) \<Rightarrow> Module list \<Rightarrow> resolved" where
  "ResolveDependency fuel moduleMap activeModules =
     (if list_ex (\<lambda>m. list_ex (\<lambda>r. moduleMap r = None) (mo_RequiredModules m)) activeModules then NotDeclared
      else for_each (appendToResolve fuel moduleMap) activeModules \<lparr>ms_visited = {}, ms_orderedModules = []\<rparr>)"

definition module_map :: "Module list \<Rightarrow> (string \<rightharpoonup> Module)" where
  "module_map modules = map_of (rev (map (\<lambda>m. (mo_Name m, m)) modules))"

section \<open>Starting and stopping\<close>

text \<open>The modules that were started, and whether all were; the started ones are shut down in the opposite order at the end.\<close>

fun start_modules :: "(Module \<Rightarrow> bool) \<Rightarrow> Module list \<Rightarrow> Module list \<Rightarrow> Module list \<times> bool" where
  "start_modules start [] started = (started, True)"
| "start_modules start (m # ms) started = (if start m then start_modules start ms (started @ [m]) else (started, False))"

definition shutdownModules :: "Module list \<Rightarrow> Module list" where
  "shutdownModules startedModules = rev startedModules"

section \<open>The order\<close>

text \<open>Every module stands after the modules it requires, once.\<close>

definition topological :: "Module list \<Rightarrow> bool" where
  "topological ms \<longleftrightarrow> distinct (map mo_Name ms) \<and> (\<forall>i < length ms. set (mo_RequiredModules (ms ! i)) \<subseteq> set (map mo_Name (take i ms)))"

definition starter_ok :: "(string \<rightharpoonup> Module) \<Rightarrow> ModuleStarter \<Rightarrow> bool" where
  "starter_ok mods st \<longleftrightarrow> topological (ms_orderedModules st) \<and> set (ordered_names st) \<subseteq> ms_visited st \<and>
     (\<forall>m \<in> set (ms_orderedModules st). mods (mo_Name m) = Some m)"

text \<open>What a step of the resolution does: the order only grows, by modules that were not visited.\<close>

definition extends :: "ModuleStarter \<Rightarrow> ModuleStarter \<Rightarrow> bool" where
  "extends st st' \<longleftrightarrow> (\<exists>ms. ms_orderedModules st' = ms_orderedModules st @ ms \<and> set (map mo_Name ms) \<inter> ms_visited st = {}) \<and>
     ms_visited st' = ms_visited st \<union> set (ordered_names st')"

lemma topological_append:
  assumes "topological ms" "mo_Name m \<notin> set (map mo_Name ms)" "set (mo_RequiredModules m) \<subseteq> set (map mo_Name ms)"
  shows "topological (ms @ [m])"
  using assms by (auto simp: topological_def nth_append less_Suc_eq)

definition step_ok :: "(string \<rightharpoonup> Module) \<Rightarrow> string \<Rightarrow> (ModuleStarter \<Rightarrow> resolved) \<Rightarrow> bool" where
  "step_ok mods name f \<longleftrightarrow> (\<forall>st st'. f st = Resolved st' \<longrightarrow> starter_ok mods st \<longrightarrow> starter_ok mods st' \<and> extends st st' \<and> name \<in> set (ordered_names st'))"

lemma step_okD: "step_ok mods name f \<Longrightarrow> f st = Resolved st' \<Longrightarrow> starter_ok mods st \<Longrightarrow> starter_ok mods st' \<and> extends st st' \<and> name \<in> set (ordered_names st')"
  by (simp add: step_ok_def)

lemma for_each_extends:
  assumes "for_each f xs st = Resolved st'" "starter_ok mods st" "\<And>x. x \<in> set xs \<Longrightarrow> step_ok mods (g x) (f x)"
    "ms_visited st = V \<union> set (ordered_names st)"
  shows "starter_ok mods st' \<and> g ` set xs \<subseteq> set (ordered_names st') \<and> ms_visited st' = V \<union> set (ordered_names st') \<and>
    (\<exists>ms. ms_orderedModules st' = ms_orderedModules st @ ms \<and> set (map mo_Name ms) \<inter> ms_visited st = {})"
  using assms
proof (induction xs arbitrary: st)
  case (Cons x xs)
  obtain st1 where f: "f x st = Resolved st1" "for_each f xs st1 = Resolved st'" using Cons.prems(1) by (cases "f x st") auto
  have k: "starter_ok mods st1" "extends st st1" "g x \<in> set (ordered_names st1)"
    using step_okD [OF Cons.prems(3) f(1) Cons.prems(2)] by simp_all
  have v: "ms_visited st1 = V \<union> set (ordered_names st1)" using k(2) Cons.prems(4) by (auto simp: extends_def)
  have "\<And>y. y \<in> set xs \<Longrightarrow> step_ok mods (g y) (f y)" using Cons.prems(3) by simp
  note IH = Cons.IH [OF f(2) k(1) this v]
  obtain ms1 ms2 where ms: "ms_orderedModules st1 = ms_orderedModules st @ ms1" "set (map mo_Name ms1) \<inter> ms_visited st = {}"
    "ms_orderedModules st' = ms_orderedModules st1 @ ms2" "set (map mo_Name ms2) \<inter> ms_visited st1 = {}"
    using k(2) IH by (fastforce simp: extends_def)
  have "ms_visited st \<subseteq> ms_visited st1" using k(2) by (simp add: extends_def)
  then have "set (map mo_Name (ms1 @ ms2)) \<inter> ms_visited st = {}" using ms(2,4) by auto
  moreover have "ms_orderedModules st' = ms_orderedModules st @ (ms1 @ ms2)" using ms(1,3) by simp
  moreover have "g x \<in> set (ordered_names st')" using k(3) ms(3) by simp
  ultimately show ?case using IH by auto
qed simp

definition named :: "(string \<rightharpoonup> Module) \<Rightarrow> bool" where
  "named mods \<longleftrightarrow> (\<forall>k m. mods k = Some m \<longrightarrow> mo_Name m = k)"

lemma named_module_map: "named (module_map modules)"
  by (auto simp: named_def module_map_def dest!: map_of_SomeD)

lemma appendToResolve_ok:
  "named mods \<Longrightarrow> appendToResolve n mods m st = Resolved st' \<Longrightarrow> starter_ok mods st \<Longrightarrow> mods (mo_Name m) = Some m \<Longrightarrow>
     starter_ok mods st' \<and> extends st st' \<and> mo_Name m \<in> set (ordered_names st')"
proof (induction n arbitrary: m st st')
  case (Suc n)
  show ?case
  proof (cases "mo_Name m \<in> ms_visited st")
    case True
    then show ?thesis using Suc.prems by (auto simp: extends_def starter_ok_def split: if_splits)
  next
    case False
    let ?f = "\<lambda>r st. case mods r of None \<Rightarrow> Panicked | Some q \<Rightarrow> appendToResolve n mods q st"
    let ?st = "st\<lparr>ms_visited := insert (mo_Name m) (ms_visited st)\<rparr>"
    obtain st1 where r: "for_each ?f (mo_RequiredModules m) ?st = Resolved st1" "st' = st1\<lparr>ms_orderedModules := ms_orderedModules st1 @ [m]\<rparr>"
      using Suc.prems(2) False by (cases "for_each ?f (mo_RequiredModules m) ?st") auto
    have ok: "starter_ok mods ?st" "ms_visited ?st = insert (mo_Name m) (ms_visited st) \<union> set (ordered_names ?st)"
      using Suc.prems(3) by (auto simp: starter_ok_def)
    have step: "step_ok mods r (?f r)" for r
    proof (cases "mods r")
      case (Some q)
      then have q: "mo_Name q = r" "mods (mo_Name q) = Some q" using Suc.prems(1) by (auto simp: named_def)
      have "step_ok mods (mo_Name q) (appendToResolve n mods q)" unfolding step_ok_def using Suc.IH [OF Suc.prems(1) _ _ q(2)] by blast
      then show ?thesis using q(1) Some by simp
    qed (simp add: step_ok_def)
    have k: "starter_ok mods st1" "set (mo_RequiredModules m) \<subseteq> set (ordered_names st1)"
      "ms_visited st1 = insert (mo_Name m) (ms_visited st) \<union> set (ordered_names st1)"
      "\<exists>ms. ms_orderedModules st1 = ms_orderedModules ?st @ ms \<and> set (map mo_Name ms) \<inter> ms_visited ?st = {}"
      using for_each_extends [OF r(1) ok(1) step ok(2)] by simp_all
    obtain ms where ms: "ms_orderedModules st1 = ms_orderedModules st @ ms" "set (map mo_Name ms) \<inter> insert (mo_Name m) (ms_visited st) = {}"
      using k(4) by auto
    have "mo_Name m \<notin> set (ordered_names st)" using Suc.prems(3) False by (auto simp: starter_ok_def)
    then have n: "mo_Name m \<notin> set (ordered_names st1)" using ms by auto
    have "topological (ms_orderedModules st1 @ [m])" using k(1,2) n by (intro topological_append) (auto simp: starter_ok_def)
    then have "starter_ok mods st'" using k(1,3) Suc.prems(4) r(2) by (auto simp: starter_ok_def)
    moreover have "ms_orderedModules st' = ms_orderedModules st @ (ms @ [m])" "set (map mo_Name (ms @ [m])) \<inter> ms_visited st = {}"
      using ms r(2) False by auto
    then have "extends st st'" unfolding extends_def using k(3) r(2) by auto
    ultimately show ?thesis using r(2) by simp
  qed
qed simp

section \<open>The recursion ends\<close>

definition unvisited :: "(string \<rightharpoonup> Module) \<Rightarrow> ModuleStarter \<Rightarrow> nat" where
  "unvisited mods st = card (dom mods - ms_visited st)"

lemma for_each_visited:
  assumes "for_each f xs st = Resolved st'" "\<And>x st st'. f x st = Resolved st' \<Longrightarrow> ms_visited st \<subseteq> ms_visited st'"
  shows "ms_visited st \<subseteq> ms_visited st'"
  using assms(1)
proof (induction xs arbitrary: st)
  case (Cons x xs)
  obtain st1 where f: "f x st = Resolved st1" "for_each f xs st1 = Resolved st'" using Cons.prems by (cases "f x st") auto
  show ?case using assms(2) [OF f(1)] Cons.IH [OF f(2)] by blast
qed simp

lemma appendToResolve_visited: "appendToResolve n mods m st = Resolved st' \<Longrightarrow> ms_visited st \<subseteq> ms_visited st'"
proof (induction n arbitrary: m st st')
  case (Suc n)
  let ?f = "\<lambda>r st. case mods r of None \<Rightarrow> Panicked | Some q \<Rightarrow> appendToResolve n mods q st"
  let ?st = "st\<lparr>ms_visited := insert (mo_Name m) (ms_visited st)\<rparr>"
  have step: "ms_visited s \<subseteq> ms_visited s'" if "?f r s = Resolved s'" for r s s'
    using that Suc.IH by (cases "mods r") auto
  show ?case
  proof (cases "mo_Name m \<in> ms_visited st")
    case False
    then obtain st1 where r: "for_each ?f (mo_RequiredModules m) ?st = Resolved st1" "st' = st1\<lparr>ms_orderedModules := ms_orderedModules st1 @ [m]\<rparr>"
      using Suc.prems by (cases "for_each ?f (mo_RequiredModules m) ?st") auto
    show ?thesis using for_each_visited [OF r(1) step] r(2) by auto
  qed (use Suc.prems in \<open>auto split: if_splits\<close>)
qed simp

lemma for_each_fuel:
  assumes "finite (dom mods)" "\<And>x st. x \<in> set xs \<Longrightarrow> unvisited mods st \<le> k \<Longrightarrow> f x st \<noteq> OutOfFuel"
    "\<And>x st st'. f x st = Resolved st' \<Longrightarrow> ms_visited st \<subseteq> ms_visited st'" "unvisited mods st \<le> k"
  shows "for_each f xs st \<noteq> OutOfFuel"
  using assms(2,4)
proof (induction xs arbitrary: st)
  case (Cons x xs)
  show ?case
  proof (cases "f x st")
    case (Resolved st1)
    have "unvisited mods st1 \<le> unvisited mods st" unfolding unvisited_def using assms(1) assms(3) [OF Resolved] by (intro card_mono) auto
    then show ?thesis using Cons.IH [of st1] Cons.prems Resolved by simp
  qed (use Cons.prems in auto)
qed simp

lemma appendToResolve_fuel:
  "finite (dom mods) \<Longrightarrow> mods (mo_Name m) = Some m \<Longrightarrow> named mods \<Longrightarrow> unvisited mods st < n \<Longrightarrow> appendToResolve n mods m st \<noteq> OutOfFuel"
proof (induction n arbitrary: m st)
  case (Suc n)
  let ?f = "\<lambda>r st. case mods r of None \<Rightarrow> Panicked | Some q \<Rightarrow> appendToResolve n mods q st"
  let ?st = "st\<lparr>ms_visited := insert (mo_Name m) (ms_visited st)\<rparr>"
  show ?case
  proof (cases "mo_Name m \<in> ms_visited st")
    case False
    have "dom mods - ms_visited ?st \<subset> dom mods - ms_visited st" using False Suc.prems(2) by auto
    then have "unvisited mods ?st < unvisited mods st" unfolding unvisited_def using Suc.prems(1) by (intro psubset_card_mono) auto
    then have n: "unvisited mods ?st \<le> n - 1" "n > 0" using Suc.prems(4) by auto
    have "for_each ?f (mo_RequiredModules m) ?st \<noteq> OutOfFuel"
    proof (rule for_each_fuel [OF Suc.prems(1) _ _ n(1)])
      show "?f r s \<noteq> OutOfFuel" if "unvisited mods s \<le> n - 1" for r s
      proof (cases "mods r")
        case (Some q)
        then have "mods (mo_Name q) = Some q" using Suc.prems(3) by (auto simp: named_def)
        then show ?thesis using Suc.IH [OF Suc.prems(1) _ Suc.prems(3), of q s] that n(2) Some by auto
      qed simp
      show "ms_visited s \<subseteq> ms_visited s'" if "?f r s = Resolved s'" for r s s'
        using that appendToResolve_visited by (cases "mods r") auto
    qed
    then show ?thesis using False by (cases "for_each ?f (mo_RequiredModules m) ?st") auto
  qed simp
qed simp

section \<open>Requirements without cycles are resolved\<close>

text \<open>Every requirement is declared and stands below the module that has it.\<close>

definition ranked :: "(string \<Rightarrow> nat) \<Rightarrow> (string \<rightharpoonup> Module) \<Rightarrow> bool" where
  "ranked rank mods \<longleftrightarrow> (\<forall>k m r. mods k = Some m \<longrightarrow> r \<in> set (mo_RequiredModules m) \<longrightarrow> mods r \<noteq> None \<and> rank r < rank k)"

definition above :: "(string \<Rightarrow> nat) \<Rightarrow> string \<Rightarrow> ModuleStarter \<Rightarrow> bool" where
  "above rank k st \<longleftrightarrow> (\<forall>v \<in> ms_visited st - set (ordered_names st). rank k < rank v)"

lemma above_extends: "above rank k st \<Longrightarrow> extends st st' \<Longrightarrow> above rank k st'"
  by (auto simp: above_def extends_def)

lemma for_each_resolves:
  assumes "\<And>x. x \<in> set xs \<Longrightarrow> step_ok mods (g x) (f x)" "finite (dom mods)"
    "\<And>x st. x \<in> set xs \<Longrightarrow> starter_ok mods st \<Longrightarrow> above rank (g x) st \<Longrightarrow> unvisited mods st \<le> k \<Longrightarrow> \<exists>st'. f x st = Resolved st'"
    "starter_ok mods st" "\<And>x. x \<in> set xs \<Longrightarrow> above rank (g x) st" "unvisited mods st \<le> k"
  shows "\<exists>st'. for_each f xs st = Resolved st'"
  using assms(1,3-6)
proof (induction xs arbitrary: st)
  case (Cons x xs)
  obtain st1 where f: "f x st = Resolved st1" using Cons.prems(2) [of x st] Cons.prems(3,4,5) by auto
  have e: "starter_ok mods st1" "extends st st1" using step_okD [OF Cons.prems(1) f Cons.prems(3)] by simp_all
  have "dom mods - ms_visited st1 \<subseteq> dom mods - ms_visited st" using e(2) by (auto simp: extends_def)
  then have "unvisited mods st1 \<le> k" using Cons.prems(5) card_mono [OF _ \<open>_ \<subseteq> _\<close>] assms(2) by (simp add: unvisited_def)
  then have "\<exists>st'. for_each f xs st1 = Resolved st'"
    using Cons.prems(1,2,4) e above_extends [OF _ e(2)] by (intro Cons.IH) auto
  then show ?case using f by simp
qed simp

lemma appendToResolve_step: "named mods \<Longrightarrow> mods (mo_Name m) = Some m \<Longrightarrow> step_ok mods (mo_Name m) (appendToResolve n mods m)"
  unfolding step_ok_def using appendToResolve_ok by blast

lemma appendToResolve_resolves:
  assumes "named mods" "ranked rank mods" "finite (dom mods)"
  shows "mods (mo_Name m) = Some m \<Longrightarrow> starter_ok mods st \<Longrightarrow> above rank (mo_Name m) st \<Longrightarrow> unvisited mods st < n \<Longrightarrow>
    \<exists>st'. appendToResolve n mods m st = Resolved st'"
proof (induction n arbitrary: m st)
  case (Suc n)
  let ?f = "\<lambda>r st. case mods r of None \<Rightarrow> Panicked | Some q \<Rightarrow> appendToResolve n mods q st"
  let ?st = "st\<lparr>ms_visited := insert (mo_Name m) (ms_visited st)\<rparr>"
  show ?case
  proof (cases "mo_Name m \<in> ms_visited st")
    case True
    then have "mo_Name m \<in> set (ordered_names st)" using Suc.prems(3) by (auto simp: above_def)
    then show ?thesis using True by simp
  next
    case False
    have "dom mods - ms_visited ?st \<subset> dom mods - ms_visited st" using False Suc.prems(1) by auto
    then have "unvisited mods ?st < unvisited mods st" unfolding unvisited_def using assms(3) by (intro psubset_card_mono) auto
    then have n: "unvisited mods ?st \<le> n - 1" "n > 0" using Suc.prems(4) by auto
    have q: "\<exists>q. mods r = Some q \<and> mo_Name q = r \<and> rank r < rank (mo_Name m)" if "r \<in> set (mo_RequiredModules m)" for r
    proof -
      have "mods r \<noteq> None \<and> rank r < rank (mo_Name m)" using that assms(2) Suc.prems(1) unfolding ranked_def by blast
      then show ?thesis using assms(1) by (auto simp: named_def)
    qed
    have "\<exists>st'. for_each ?f (mo_RequiredModules m) ?st = Resolved st'"
    proof (rule for_each_resolves [where mods = mods and g = "\<lambda>x. x" and rank = rank and k = "n - 1"])
      show "step_ok mods r (?f r)" if "r \<in> set (mo_RequiredModules m)" for r
      proof -
        from q [OF that] obtain p where p: "mods r = Some p" "mo_Name p = r" by blast
        then show ?thesis using appendToResolve_step [OF assms(1), of p n] by simp
      qed
      show "\<exists>s'. ?f r s = Resolved s'" if "r \<in> set (mo_RequiredModules m)" "starter_ok mods s" "above rank r s" "unvisited mods s \<le> n - 1" for r s
      proof -
        from q [OF that(1)] obtain p where p: "mods r = Some p" "mo_Name p = r" by blast
        then show ?thesis using Suc.IH [of p s] that n(2) by simp
      qed
      show "above rank r ?st" if "r \<in> set (mo_RequiredModules m)" for r
      proof -
        have "rank r < rank (mo_Name m)" using q [OF that] by blast
        then show ?thesis using Suc.prems(3) unfolding above_def by (auto dest: less_trans)
      qed
    qed (use Suc.prems(2) assms(3) n in \<open>auto simp: starter_ok_def\<close>)
    then obtain st1 where "for_each ?f (mo_RequiredModules m) ?st = Resolved st1" by blast
    then show ?thesis using False by simp
  qed
qed simp

section \<open>Starting and stopping in order\<close>

lemma start_modules_prefix:
  "start_modules start ms started = (started', ok) \<Longrightarrow> \<exists>n. started' = started @ take n ms \<and> (ok \<longrightarrow> n = length ms)"
proof (induction ms arbitrary: started)
  case (Cons m ms)
  show ?case
  proof (cases "start m")
    case True
    then obtain n where "started' = (started @ [m]) @ take n ms \<and> (ok \<longrightarrow> n = length ms)" using Cons by fastforce
    then have "started' = started @ take (Suc n) (m # ms) \<and> (ok \<longrightarrow> Suc n = length (m # ms))" by simp
    then show ?thesis by blast
  qed (use Cons.prems in \<open>auto intro!: exI [of _ 0]\<close>)
qed simp

lemma topological_take: "topological ms \<Longrightarrow> topological (take n ms)"
  unfolding topological_def by (auto simp: take_map [symmetric] distinct_take min_def)

lemma module_map_in: "distinct (map mo_Name modules) \<Longrightarrow> m \<in> set modules \<Longrightarrow> module_map modules (mo_Name m) = Some m"
  unfolding module_map_def by (subst map_of_eq_Some_iff) (auto simp: comp_def rev_map [symmetric])

lemma finite_module_map: "finite (dom (module_map modules))" "card (dom (module_map modules)) \<le> length modules"
proof -
  have d: "dom (module_map modules) \<subseteq> mo_Name ` set modules" by (auto simp: module_map_def dest!: map_of_SomeD)
  show "finite (dom (module_map modules))" using d by (rule finite_subset) simp
  have "card (dom (module_map modules)) \<le> card (mo_Name ` set modules)" using d by (rule card_mono [rotated]) simp
  also have "\<dots> \<le> card (set modules)" by (rule card_image_le) simp
  also have "\<dots> \<le> length modules" by (rule card_length)
  finally show "card (dom (module_map modules)) \<le> length modules" .
qed

lemma starter_ok_new: "starter_ok mods \<lparr>ms_visited = {}, ms_orderedModules = []\<rparr>"
  by (simp add: starter_ok_def topological_def)

text \<open>C36: every active module is in the order that is resolved, and the modules that start, up to the first that fails, start each after the
  modules it requires and once; they are shut down in the opposite order.\<close>

theorem modules_start_in_order:
  assumes "distinct (map mo_Name modules)" "set active \<subseteq> set modules" "ResolveDependency fuel (module_map modules) active = Resolved st"
    "start_modules start (ms_orderedModules st) [] = (started, ok)"
  shows "mo_Name ` set active \<subseteq> set (ordered_names st) \<and> topological started \<and> (ok \<longrightarrow> started = ms_orderedModules st) \<and>
    topological (rev (shutdownModules started))"
proof -
  have f: "for_each (appendToResolve fuel (module_map modules)) active \<lparr>ms_visited = {}, ms_orderedModules = []\<rparr> = Resolved st"
    using assms(3) by (simp add: ResolveDependency_def split: if_splits)
  have s: "step_ok (module_map modules) (mo_Name m) (appendToResolve fuel (module_map modules) m)" if "m \<in> set active" for m
    using that assms(2) by (intro appendToResolve_step [OF named_module_map] module_map_in [OF assms(1)]) auto
  have k: "starter_ok (module_map modules) st" "mo_Name ` set active \<subseteq> set (ordered_names st)"
    using for_each_extends [OF f starter_ok_new s, of "{}"] by simp_all
  obtain n where n: "started = take n (ms_orderedModules st)" "ok \<longrightarrow> n = length (ms_orderedModules st)"
    using start_modules_prefix [OF assms(4)] by auto
  have "topological started" using k(1) n(1) topological_take by (simp add: starter_ok_def)
  then show ?thesis using k(2) n by (simp add: shutdownModules_def)
qed

text \<open>C37: modules whose requirements are declared and have no cycle are always resolved, whatever their order.\<close>

theorem acyclic_modules_are_resolved:
  assumes "distinct (map mo_Name modules)" "set active \<subseteq> set modules" "ranked rank (module_map modules)"
  shows "\<exists>st. ResolveDependency (length modules + 1) (module_map modules) active = Resolved st"
proof -
  let ?mods = "module_map modules" and ?st = "\<lparr>ms_visited = {}, ms_orderedModules = []\<rparr> :: ModuleStarter"
  have in_map: "?mods (mo_Name m) = Some m" if "m \<in> set active" for m using that assms(2) by (intro module_map_in [OF assms(1)]) auto
  have u: "unvisited ?mods st \<le> length modules" for st
    using card_mono [OF finite_module_map(1) [of modules], of "dom ?mods - ms_visited st"] finite_module_map(2) [of modules] by (simp add: unvisited_def)
  have "?mods r \<noteq> None" if "m \<in> set active" "r \<in> set (mo_RequiredModules m)" for m r
    using assms(3) in_map [OF that(1)] that(2) unfolding ranked_def by blast
  then have "\<not> list_ex (\<lambda>m. list_ex (\<lambda>r. ?mods r = None) (mo_RequiredModules m)) active" unfolding list_ex_iff by blast
  then have "ResolveDependency (length modules + 1) ?mods active = for_each (appendToResolve (length modules + 1) ?mods) active ?st"
    unfolding ResolveDependency_def by (rule if_not_P)
  moreover have "\<exists>st. for_each (appendToResolve (length modules + 1) ?mods) active ?st = Resolved st"
  proof (rule for_each_resolves [where mods = ?mods and g = mo_Name and rank = rank and k = "length modules"])
    show "\<exists>st'. appendToResolve (length modules + 1) ?mods m st = Resolved st'"
      if "m \<in> set active" "starter_ok ?mods st" "above rank (mo_Name m) st" "unvisited ?mods st \<le> length modules" for m st
      using that by (intro appendToResolve_resolves [OF named_module_map assms(3) finite_module_map(1) in_map]) auto
  qed (use in_map appendToResolve_step [OF named_module_map] finite_module_map(1) starter_ok_new u in \<open>auto simp: above_def\<close>)
  ultimately show ?thesis by simp
qed

section \<open>Examples\<close>

definition example_modules :: "Module list" where
  "example_modules = [\<lparr>mo_Name = ''b'', mo_RequiredModules = [''a''], mo_IsActive = True\<rparr>, \<lparr>mo_Name = ''a'', mo_RequiredModules = [], mo_IsActive = False\<rparr>]"

lemma example_resolved: "ResolveDependency 3 (module_map example_modules) [hd example_modules] =
    Resolved \<lparr>ms_visited = {''a'', ''b''}, ms_orderedModules = rev example_modules\<rparr>"
  by (simp add: ResolveDependency_def example_modules_def module_map_def eval_nat_numeral insert_commute)

theorem modules_start_in_order_witness:
  "topological (rev example_modules) \<and> shutdownModules (rev example_modules) = example_modules"
proof -
  have "start_modules (\<lambda>_. True) (rev example_modules) [] = (rev example_modules, True)" by (simp add: example_modules_def)
  moreover have "distinct (map mo_Name example_modules)" "set [hd example_modules] \<subseteq> set example_modules" by (simp_all add: example_modules_def)
  ultimately show ?thesis using modules_start_in_order [OF _ _ example_resolved, of "\<lambda>_. True" "rev example_modules" True] by (simp add: shutdownModules_def)
qed

theorem acyclic_modules_are_resolved_witness:
  "\<exists>st. ResolveDependency (length example_modules + 1) (module_map example_modules) example_modules = Resolved st"
proof (rule acyclic_modules_are_resolved)
  show "ranked (\<lambda>n. if n = ''b'' then 1 else 0) (module_map example_modules)"
    by (auto simp: ranked_def module_map_def example_modules_def split: if_splits)
qed (simp_all add: example_modules_def)

end
