(* ===== verification/Network_Traffic.thy ===== *)
theory Network_Traffic
  imports Process_Storage Socket_Address
begin

text \<open>
  The traffic of network profiling, \<^verbatim>\<open>pkg/profiling/task/network/analyze/base/connection.go\<close> and \<^verbatim>\<open>traffic.go\<close>: in every interval
  the connections of the profiled processes are combined into one traffic for each pair of processes, or of a process and a remote
  address. The analyzer looks for the process at the other end of a connection among the connections of the interval. What the
  listeners keep for a connection is the type \<open>'m\<close>; a new value of it and the merging of a connection's into a traffic's, which
  returns both, are arguments. A process is what its interface answers; ports that it is detected to expose are kept beside it,
  under the identity of its pointer.
\<close>

section \<open>Connections\<close>

record ProcessInterface =
  pi_pointer :: nat
  pi_ID :: string
  pi_Pid :: u32
  pi_Entity :: ProcessEntity
  pi_ExeName :: "string option"

type_synonym exposed_ports = "(nat \<times> int) set"

record 'm ConnectionContext =
  cc_ConnectionID :: u64
  cc_RandomID :: u64
  cc_LocalPid :: u32
  cc_SocketFD :: u32
  cc_LocalProcesses :: "ProcessInterface list"
  cc_ConnectionClosed :: bool
  cc_Protocol :: ConnectionProtocol
  cc_IsSSL :: bool
  cc_Role :: ConnectionRole
  cc_LocalIP :: string
  cc_LocalPort :: u16
  cc_RemoteIP :: string
  cc_RemotePort :: u16
  cc_Metrics :: 'm
  cc_FlushDataCount :: int
  cc_DeleteFlushCount :: int

definition NewConnectionContext ::
  "'m \<Rightarrow> u64 \<Rightarrow> u64 \<Rightarrow> u32 \<Rightarrow> u32 \<Rightarrow> ProcessInterface list \<Rightarrow> bool \<Rightarrow> 'm ConnectionContext" where
  "NewConnectionContext metrics conID randomID pid fd processes conClosed =
     \<lparr>cc_ConnectionID = conID, cc_RandomID = randomID, cc_LocalPid = pid, cc_SocketFD = fd, cc_LocalProcesses = processes,
      cc_ConnectionClosed = conClosed, cc_Protocol = ConnectionProtocolUnknown, cc_IsSSL = False, cc_Role = ConnectionRoleUnknown,
      cc_LocalIP = [], cc_LocalPort = 0, cc_RemoteIP = [], cc_RemotePort = 0, cc_Metrics = metrics, cc_FlushDataCount = 0,
      cc_DeleteFlushCount = 0\<rparr>"

section \<open>The traffic analyzer\<close>

record 'm ProcessTraffic =
  tf_LocalIP :: string
  tf_LocalPort :: u16
  tf_LocalPid :: u32
  tf_LocalProcesses :: "ProcessInterface list"
  tf_RemoteIP :: string
  tf_RemotePort :: u16
  tf_RemotePid :: u32
  tf_RemoteProcesses :: "ProcessInterface list"
  tf_Role :: ConnectionRole
  tf_Protocol :: ConnectionProtocol
  tf_IsSSL :: bool
  tf_Metrics :: 'm

record LocalWithPeerAddress =
  lp_LocalIP :: string
  lp_LocalPort :: u16
  lp_RemoteIP :: string
  lp_RemotePort :: u16

record PeerAddress =
  pa_RemoteIP :: string
  pa_RemotePort :: u16

record AddressWithPid =
  ap_RemoteIP :: string
  ap_RemotePort :: u16
  ap_Pid :: u32

record PidMatchTrafficKey =
  pk_LocalPid :: u32
  pk_RemotePid :: u32
  pk_Role :: ConnectionRole

record PidToRemoteTrafficKey =
  rk_LocalPid :: u32
  rk_Role :: ConnectionRole
  rk_RemoteIP :: string
  rk_RemotePort :: u16

record PidWithRole =
  pr_Pid :: u32
  pr_Role :: ConnectionRole

text \<open>The caches are only looked up, the processes of the context are also visited in some order.\<close>

record TrafficAnalyzer =
  ta_processes :: "(u32 \<times> ProcessInterface list) list"
  ta_localWithPeerCache :: "LocalWithPeerAddress \<rightharpoonup> PidWithRole"
  ta_peerAddressCache :: "PeerAddress \<Rightarrow> u32 list"
  ta_envoyAcceptClientAddressCache :: "PeerAddress \<rightharpoonup> AddressWithPid"
  ta_processData :: "u32 \<Rightarrow> ProcessInterface list"
  ta_localAddresses :: "string \<Rightarrow> (string \<times> ProcessInterface) list"

definition NewTrafficAnalyzer :: "(u32 \<times> ProcessInterface list) list \<Rightarrow> TrafficAnalyzer" where
  "NewTrafficAnalyzer processes =
     \<lparr>ta_processes = processes, ta_localWithPeerCache = Map.empty, ta_peerAddressCache = (\<lambda>_. []),
      ta_envoyAcceptClientAddressCache = Map.empty, ta_processData = (\<lambda>_. []), ta_localAddresses = (\<lambda>_. [])\<rparr>"

abbreviation layerMeshDP :: string where "layerMeshDP \<equiv> ''MESH_DP''"
abbreviation layerMeshApp :: string where "layerMeshApp \<equiv> ''MESH''"
abbreviation processEnvoy :: string where "processEnvoy \<equiv> ''envoy''"

definition ipNotEmpty :: "string \<Rightarrow> u16 \<Rightarrow> bool" where
  "ipNotEmpty ip port \<longleftrightarrow> ip \<noteq> [] \<and> port \<noteq> 0"

definition IsLocalAddressInCache :: "TrafficAnalyzer \<Rightarrow> string \<Rightarrow> bool" where
  "IsLocalAddressInCache t ip \<longleftrightarrow> ta_localAddresses t ip \<noteq> []"

subsection \<open>The caches\<close>

definition processExportPortAnalyze :: "'m ConnectionContext \<Rightarrow> exposed_ports \<Rightarrow> exposed_ports" where
  "processExportPortAnalyze con ports =
     (if cc_LocalProcesses con \<noteq> [] \<and> cc_Role con = ConnectionRoleServer \<and> cc_LocalPort con > 0
      then ports \<union> (\<lambda>p. (pi_pointer p, uint (cc_LocalPort con))) ` set (cc_LocalProcesses con)
      else ports)"

definition cache_full_address :: "'m ConnectionContext \<Rightarrow> TrafficAnalyzer \<Rightarrow> TrafficAnalyzer" where
  "cache_full_address con t =
     (if ipNotEmpty (cc_LocalIP con) (cc_LocalPort con) \<and> ipNotEmpty (cc_RemoteIP con) (cc_RemotePort con)
      then t\<lparr>ta_localWithPeerCache := (ta_localWithPeerCache t)
             (\<lparr>lp_LocalIP = cc_LocalIP con, lp_LocalPort = cc_LocalPort con, lp_RemoteIP = cc_RemoteIP con, lp_RemotePort = cc_RemotePort con\<rparr>
                \<mapsto> \<lparr>pr_Pid = cc_LocalPid con, pr_Role = cc_Role con\<rparr>)\<rparr>
      else t)"

definition cache_local_address :: "'m ConnectionContext \<Rightarrow> TrafficAnalyzer \<Rightarrow> TrafficAnalyzer" where
  "cache_local_address con t =
     (let peerAddress = \<lparr>pa_RemoteIP = cc_LocalIP con, pa_RemotePort = cc_LocalPort con\<rparr>;
          t1 = t\<lparr>ta_peerAddressCache := (ta_peerAddressCache t)(peerAddress := ta_peerAddressCache t peerAddress @ [cc_LocalPid con])\<rparr> in
      t1\<lparr>ta_localAddresses := (ta_localAddresses t1)(cc_LocalIP con :=
           fold (\<lambda>p. AList.update (en_Layer (pi_Entity p)) p) (cc_LocalProcesses con) (ta_localAddresses t1 (cc_LocalIP con)))\<rparr>)"

definition cache_envoy :: "'m ConnectionContext \<Rightarrow> TrafficAnalyzer \<Rightarrow> TrafficAnalyzer" where
  "cache_envoy con t =
     (case cc_LocalProcesses con of [] \<Rightarrow> t
      | p # _ \<Rightarrow>
        if cc_Role con = ConnectionRoleServer \<and> pi_ExeName p = Some processEnvoy
        then t\<lparr>ta_envoyAcceptClientAddressCache := (ta_envoyAcceptClientAddressCache t)
               (\<lparr>pa_RemoteIP = cc_RemoteIP con, pa_RemotePort = cc_RemotePort con\<rparr> \<mapsto>
                  \<lparr>ap_RemoteIP = cc_LocalIP con, ap_RemotePort = cc_LocalPort con, ap_Pid = cc_LocalPid con\<rparr>)\<rparr>
        else t)"

definition cache_process :: "'m ConnectionContext \<Rightarrow> TrafficAnalyzer \<Rightarrow> TrafficAnalyzer" where
  "cache_process con t =
     (if ta_processData t (cc_LocalPid con) = []
      then t\<lparr>ta_processData := (ta_processData t)(cc_LocalPid con := cc_LocalProcesses con)\<rparr> else t)"

fun buildCache :: "'m ConnectionContext list \<Rightarrow> TrafficAnalyzer \<times> exposed_ports \<Rightarrow> TrafficAnalyzer \<times> exposed_ports" where
  "buildCache [] s = s"
| "buildCache (con # connections) (t, ports) =
     (let t1 = cache_full_address con t;
          t2 = (if ipNotEmpty (cc_LocalIP con) (cc_LocalPort con) then cache_local_address con t1
                else if ipNotEmpty (cc_RemoteIP con) (cc_RemotePort con) then cache_envoy con t1 else t1) in
      buildCache connections (cache_process con t2, processExportPortAnalyze con ports))"

subsection \<open>The process at the other end\<close>

definition findRemotePidWhenContainsFullAddress :: "TrafficAnalyzer \<Rightarrow> 'm ConnectionContext \<Rightarrow> u32 \<times> 'm ConnectionContext" where
  "findRemotePidWhenContainsFullAddress t con =
     (if ipNotEmpty (cc_LocalIP con) (cc_LocalPort con) \<and> ipNotEmpty (cc_RemoteIP con) (cc_RemotePort con) then
        case ta_localWithPeerCache t \<lparr>lp_LocalIP = cc_RemoteIP con, lp_LocalPort = cc_RemotePort con,
               lp_RemoteIP = cc_LocalIP con, lp_RemotePort = cc_LocalPort con\<rparr> of
          Some data \<Rightarrow>
            (pr_Pid data,
             if cc_Role con = ConnectionRoleUnknown \<and> pr_Role data \<noteq> ConnectionRoleUnknown
             then con\<lparr>cc_Role := ConnectionRole_Revert (pr_Role data)\<rparr> else con)
        | None \<Rightarrow>
            if cc_Role con = ConnectionRoleClient then
              case ta_envoyAcceptClientAddressCache t \<lparr>pa_RemoteIP = cc_LocalIP con, pa_RemotePort = cc_LocalPort con\<rparr> of
                Some addr \<Rightarrow>
                  (ap_Pid addr,
                   if ipNotEmpty (ap_RemoteIP addr) (ap_RemotePort addr)
                   then con\<lparr>cc_RemoteIP := ap_RemoteIP addr, cc_RemotePort := ap_RemotePort addr\<rparr> else con)
              | None \<Rightarrow> (0, con)
            else (0, con)
      else (0, con))"

definition findRemotePidWhenContainsRemoteAddress :: "TrafficAnalyzer \<Rightarrow> 'm ConnectionContext \<Rightarrow> u32" where
  "findRemotePidWhenContainsRemoteAddress t con =
     (if \<not> ipNotEmpty (cc_RemoteIP con) (cc_RemotePort con) then 0
      else case ta_peerAddressCache t \<lparr>pa_RemoteIP = cc_RemoteIP con, pa_RemotePort = cc_RemotePort con\<rparr> of
        [] \<Rightarrow> 0
      | pid # pids \<Rightarrow> fold (\<lambda>p result. if p \<noteq> cc_LocalPid con then p else result) (pid # pids) pid)"

definition findSameInstanceMeshDP :: "TrafficAnalyzer \<Rightarrow> ProcessEntity \<Rightarrow> u32" where
  "findSameInstanceMeshDP t entity =
     (case find (\<lambda>p. en_Layer (pi_Entity p) = layerMeshDP \<and> en_ServiceName (pi_Entity p) = en_ServiceName entity \<and>
              en_InstanceName (pi_Entity p) = en_InstanceName entity \<and> pi_ExeName p = Some processEnvoy)
            (concat (map snd (ta_processes t))) of
        None \<Rightarrow> 0 | Some p \<Rightarrow> pi_Pid p)"

fun mesh_search :: "hostInfo \<Rightarrow> TrafficAnalyzer \<Rightarrow> string \<Rightarrow> ProcessInterface list \<Rightarrow> u32" where
  "mesh_search h t remoteIP [] = 0"
| "mesh_search h t remoteIP (localProcess # ps) =
     (if en_Layer (pi_Entity localProcess) = layerMeshDP then
        case map_of (ta_localAddresses t remoteIP) layerMeshApp of
          Some p \<Rightarrow> pi_Pid p
        | None \<Rightarrow> mesh_search h t remoteIP ps
      else if en_Layer (pi_Entity localProcess) = layerMeshApp \<and> ta_localAddresses t remoteIP = [] \<and> \<not> IsLocalHostAddress h remoteIP \<and>
        findSameInstanceMeshDP t (pi_Entity localProcess) \<noteq> 0
      then findSameInstanceMeshDP t (pi_Entity localProcess)
      else mesh_search h t remoteIP ps)"

definition findRemotePidWhenMeshEnvironment :: "hostInfo \<Rightarrow> TrafficAnalyzer \<Rightarrow> 'm ConnectionContext \<Rightarrow> u32" where
  "findRemotePidWhenMeshEnvironment h t con =
     (if cc_LocalProcesses con = [] \<or> \<not> ipNotEmpty (cc_RemoteIP con) (cc_RemotePort con) then 0
      else mesh_search h t (cc_RemoteIP con) (cc_LocalProcesses con))"

definition findRemotePid :: "hostInfo \<Rightarrow> TrafficAnalyzer \<Rightarrow> 'm ConnectionContext \<Rightarrow> u32 \<times> 'm ConnectionContext" where
  "findRemotePid h t con =
     (let (pid, con1) = findRemotePidWhenContainsFullAddress t con in
      if pid > 0 then (pid, con1)
      else if findRemotePidWhenContainsRemoteAddress t con1 > 0 then (findRemotePidWhenContainsRemoteAddress t con1, con1)
      else if findRemotePidWhenMeshEnvironment h t con1 > 0 then (findRemotePidWhenMeshEnvironment h t con1, con1)
      else (0, con1))"

subsection \<open>Combining\<close>

definition tryingToGenerateTheRoleWhenRemotePidCannotFound ::
  "exposed_ports \<Rightarrow> 'm ConnectionContext \<Rightarrow> 'm ConnectionContext" where
  "tryingToGenerateTheRoleWhenRemotePidCannotFound ports con =
     (if cc_Role con \<noteq> ConnectionRoleUnknown then con
      else case cc_LocalProcesses con of
        [] \<Rightarrow> con
      | p # _ \<Rightarrow>
          if cc_LocalPort con = 0 then con
          else con\<lparr>cc_Role := if (pi_pointer p, uint (cc_LocalPort con)) \<in> ports then ConnectionRoleServer else ConnectionRoleClient\<rparr>)"

text \<open>What a traffic says of itself after a connection has been added to it, apart from the metrics.\<close>

definition describe_traffic ::
  "'m \<Rightarrow> TrafficAnalyzer \<Rightarrow> 'm ProcessTraffic option \<Rightarrow> 'm ConnectionContext \<Rightarrow> u32 \<Rightarrow> 'm ProcessTraffic" where
  "describe_traffic generate t traffic con remotePid =
     (let t0 = (case traffic of Some tf \<Rightarrow> tf
            | None \<Rightarrow> \<lparr>tf_LocalIP = cc_LocalIP con, tf_LocalPort = cc_LocalPort con, tf_LocalPid = cc_LocalPid con,
                tf_LocalProcesses = cc_LocalProcesses con, tf_RemoteIP = [], tf_RemotePort = 0, tf_RemotePid = 0, tf_RemoteProcesses = [],
                tf_Role = ConnectionRoleUnknown, tf_Protocol = ConnectionProtocolUnknown, tf_IsSSL = False, tf_Metrics = generate\<rparr>);
          t1 = (if tf_LocalProcesses t0 = [] \<and> cc_LocalProcesses con \<noteq> [] then t0\<lparr>tf_LocalProcesses := cc_LocalProcesses con\<rparr> else t0);
          t2 = (if tf_Role t1 = ConnectionRoleUnknown \<and> cc_Role con \<noteq> ConnectionRoleUnknown then t1\<lparr>tf_Role := cc_Role con\<rparr> else t1);
          t3 = (if tf_Protocol t2 = ConnectionProtocolUnknown \<and> cc_Protocol con \<noteq> ConnectionProtocolUnknown
                then t2\<lparr>tf_Protocol := cc_Protocol con\<rparr> else t2);
          t4 = (if \<not> tf_IsSSL t3 \<and> cc_IsSSL con then t3\<lparr>tf_IsSSL := True\<rparr> else t3);
          t5 = (if remotePid \<noteq> 0 then t4\<lparr>tf_RemotePid := remotePid, tf_RemoteProcesses := ta_processData t remotePid\<rparr> else t4) in
      t5\<lparr>tf_RemoteIP := cc_RemoteIP con, tf_RemotePort := cc_RemotePort con\<rparr>)"

definition generateOrCombineTraffic ::
  "'m \<Rightarrow> ('m ConnectionContext \<Rightarrow> 'm \<Rightarrow> 'm \<times> 'm) \<Rightarrow> TrafficAnalyzer \<Rightarrow> 'm ProcessTraffic option \<Rightarrow> 'm ConnectionContext \<Rightarrow> u32 \<Rightarrow>
     'm ProcessTraffic \<times> 'm ConnectionContext" where
  "generateOrCombineTraffic generate merge t traffic con remotePid =
     (let tf = describe_traffic generate t traffic con remotePid;
          (m, cm) = merge con (tf_Metrics tf) in
      (tf\<lparr>tf_Metrics := m\<rparr>, con\<lparr>cc_Metrics := cm, cc_FlushDataCount := cc_FlushDataCount con + 1\<rparr>))"

record 'm traffics =
  ts_pidMatchedTraffic :: "(PidMatchTrafficKey \<times> 'm ProcessTraffic) list"
  ts_pidToRemoteTraffic :: "(PidToRemoteTrafficKey \<times> 'm ProcessTraffic) list"

definition pidToRemoteKey :: "'m ConnectionContext \<Rightarrow> PidToRemoteTrafficKey" where
  "pidToRemoteKey con =
     \<lparr>rk_LocalPid = cc_LocalPid con,
      rk_Role = if cc_Role con \<noteq> ConnectionRoleServer then ConnectionRoleClient else ConnectionRoleServer,
      rk_RemoteIP = cc_RemoteIP con,
      rk_RemotePort = if cc_Role con \<noteq> ConnectionRoleServer then cc_RemotePort con else 0\<rparr>"

text \<open>One turn of the loop over the connections.\<close>

definition combine_connection ::
  "'m \<Rightarrow> ('m ConnectionContext \<Rightarrow> 'm \<Rightarrow> 'm \<times> 'm) \<Rightarrow> hostInfo \<Rightarrow> TrafficAnalyzer \<Rightarrow> exposed_ports \<Rightarrow> 'm ConnectionContext \<Rightarrow> 'm traffics \<Rightarrow>
     'm ConnectionContext \<times> 'm traffics" where
  "combine_connection generate merge h t ports con ts =
     (let (remotePid, con1) = findRemotePid h t con in
      if remotePid \<noteq> 0 then
        let key = \<lparr>pk_LocalPid = cc_LocalPid con1, pk_RemotePid = remotePid, pk_Role = cc_Role con1\<rparr>;
            (traffic, con2) = generateOrCombineTraffic generate merge t (map_of (ts_pidMatchedTraffic ts) key) con1 remotePid in
        (con2, ts\<lparr>ts_pidMatchedTraffic := AList.update key traffic (ts_pidMatchedTraffic ts)\<rparr>)
      else if \<not> ipNotEmpty (cc_RemoteIP con1) (cc_RemotePort con1) then (con1, ts)
      else
        let con2 = tryingToGenerateTheRoleWhenRemotePidCannotFound ports con1;
            key = pidToRemoteKey con2;
            (traffic, con3) = generateOrCombineTraffic generate merge t (map_of (ts_pidToRemoteTraffic ts) key) con2 0 in
        (con3, ts\<lparr>ts_pidToRemoteTraffic := AList.update key traffic (ts_pidToRemoteTraffic ts)\<rparr>))"

fun combine_connections ::
  "'m \<Rightarrow> ('m ConnectionContext \<Rightarrow> 'm \<Rightarrow> 'm \<times> 'm) \<Rightarrow> hostInfo \<Rightarrow> TrafficAnalyzer \<Rightarrow> exposed_ports \<Rightarrow> 'm ConnectionContext list \<Rightarrow> 'm traffics \<Rightarrow>
     'm ConnectionContext list \<times> 'm traffics" where
  "combine_connections generate merge h t ports [] ts = ([], ts)"
| "combine_connections generate merge h t ports (con # cons) ts =
     (let (con1, ts1) = combine_connection generate merge h t ports con ts;
          (cons1, ts2) = combine_connections generate merge h t ports cons ts1 in
      (con1 # cons1, ts2))"

definition no_traffics :: "'m traffics" where
  "no_traffics = \<lparr>ts_pidMatchedTraffic = [], ts_pidToRemoteTraffic = []\<rparr>"

definition all_traffics :: "'m traffics \<Rightarrow> 'm ProcessTraffic list" where
  "all_traffics ts = map snd (ts_pidMatchedTraffic ts) @ map snd (ts_pidToRemoteTraffic ts)"

text \<open>The traffics, the connections as they are afterwards, the caches and the detected ports.\<close>

definition CombineConnectionToTraffics ::
  "'m \<Rightarrow> ('m ConnectionContext \<Rightarrow> 'm \<Rightarrow> 'm \<times> 'm) \<Rightarrow> hostInfo \<Rightarrow> TrafficAnalyzer \<Rightarrow> exposed_ports \<Rightarrow> 'm ConnectionContext list \<Rightarrow>
     'm ProcessTraffic list \<times> 'm ConnectionContext list \<times> TrafficAnalyzer \<times> exposed_ports" where
  "CombineConnectionToTraffics generate merge h t ports connections =
     (let (t1, ports1) = buildCache connections (t, ports);
          (cons, ts) = combine_connections generate merge h t1 ports1 connections no_traffics in
      (all_traffics ts, cons, t1, ports1))"

section \<open>What combining keeps\<close>

text \<open>
  What is merged into traffics. A quantity of the metrics that is zero when they are new, and to which merging a connection adds the
  share of the connection, is conserved by combining: the traffics together hold the shares of the connections that are combined.
\<close>

definition combined :: "hostInfo \<Rightarrow> TrafficAnalyzer \<Rightarrow> 'm ConnectionContext \<Rightarrow> bool" where
  "combined h t con \<longleftrightarrow> fst (findRemotePid h t con) \<noteq> 0 \<or> ipNotEmpty (cc_RemoteIP con) (cc_RemotePort con)"

lemma sum_update:
  fixes f :: "'v \<Rightarrow> 'q :: comm_monoid_add"
  assumes "f v = (case map_of al k of None \<Rightarrow> 0 | Some w \<Rightarrow> f w) + x"
  shows "(\<Sum>p\<leftarrow>AList.update k v al. f (snd p)) = (\<Sum>p\<leftarrow>al. f (snd p)) + x"
  using assms by (induction al) (auto simp: ac_simps)

text \<open>The cache of envoy clients holds only addresses that are not complete.\<close>

definition envoy_incomplete :: "TrafficAnalyzer \<Rightarrow> bool" where
  "envoy_incomplete t \<longleftrightarrow> (\<forall>k addr. ta_envoyAcceptClientAddressCache t k = Some addr \<longrightarrow> \<not> ipNotEmpty (ap_RemoteIP addr) (ap_RemotePort addr))"

lemma cache_envoy_unchanged [simp]:
  "ta_envoyAcceptClientAddressCache (cache_full_address con t) = ta_envoyAcceptClientAddressCache t"
  "ta_envoyAcceptClientAddressCache (cache_local_address con t) = ta_envoyAcceptClientAddressCache t"
  "ta_envoyAcceptClientAddressCache (cache_process con t) = ta_envoyAcceptClientAddressCache t"
  by (simp_all add: cache_full_address_def cache_local_address_def cache_process_def Let_def)

lemma buildCache_envoy_incomplete: "envoy_incomplete (fst s) \<Longrightarrow> envoy_incomplete (fst (buildCache cons s))"
proof (induction cons s rule: buildCache.induct)
  case (2 con cons t ports)
  have "envoy_incomplete (cache_envoy con (cache_full_address con t))" if "\<not> ipNotEmpty (cc_LocalIP con) (cc_LocalPort con)"
    using 2(2) that by (auto simp: envoy_incomplete_def cache_envoy_def split: list.splits)
  then show ?case using 2 by (auto simp: Let_def envoy_incomplete_def)
qed simp

lemma new_analyzer_incomplete: "envoy_incomplete (NewTrafficAnalyzer processes)"
  by (simp add: envoy_incomplete_def NewTrafficAnalyzer_def)

definition same_but_role :: "'m ConnectionContext \<Rightarrow> 'm ConnectionContext \<Rightarrow> bool" where
  "same_but_role c c' \<longleftrightarrow> (\<exists>r. c' = c\<lparr>cc_Role := r\<rparr>)"

lemma same_but_role_refl [simp]: "same_but_role c c"
  unfolding same_but_role_def by (rule exI [where x = "cc_Role c"]) simp

lemma same_but_role_update [simp]: "same_but_role c (c\<lparr>cc_Role := r\<rparr>)"
  by (auto simp: same_but_role_def)

lemma findRemotePid_same:
  assumes "envoy_incomplete t"
  shows "same_but_role con (snd (findRemotePid h t con))"
proof -
  have "same_but_role con (snd (findRemotePidWhenContainsFullAddress t con))"
    using assms by (auto simp: findRemotePidWhenContainsFullAddress_def envoy_incomplete_def split: option.splits)
  then show ?thesis by (auto simp: findRemotePid_def Let_def split: prod.splits)
qed

lemma role_generated_same: "same_but_role con (tryingToGenerateTheRoleWhenRemotePidCannotFound ports con)"
  by (auto simp: tryingToGenerateTheRoleWhenRemotePidCannotFound_def split: list.splits)

lemma same_but_role_trans: "same_but_role a b \<Longrightarrow> same_but_role b c \<Longrightarrow> same_but_role a c"
  by (auto simp: same_but_role_def)

lemma same_but_roleD:
  assumes "same_but_role c c'"
  shows "cc_Metrics c' = cc_Metrics c" "cc_FlushDataCount c' = cc_FlushDataCount c" "cc_RemoteIP c' = cc_RemoteIP c"
    "cc_RemotePort c' = cc_RemotePort c" "cc_LocalPid c' = cc_LocalPid c" "cc_LocalProcesses c' = cc_LocalProcesses c"
    "cc_LocalIP c' = cc_LocalIP c" "cc_LocalPort c' = cc_LocalPort c"
  using assms by (auto simp: same_but_role_def)

lemma describe_traffic_Metrics:
  "tf_Metrics (describe_traffic generate t traffic con pid) = (case traffic of None \<Rightarrow> generate | Some tf \<Rightarrow> tf_Metrics tf)"
  by (cases traffic) (simp_all add: describe_traffic_def Let_def)

text \<open>A turn of the loop, with projections.\<close>

lemma combine_connection_alt:
  "combine_connection generate merge h t ports con ts =
     (let pid = fst (findRemotePid h t con); con1 = snd (findRemotePid h t con) in
      if pid \<noteq> 0 then
        let key = \<lparr>pk_LocalPid = cc_LocalPid con1, pk_RemotePid = pid, pk_Role = cc_Role con1\<rparr>;
            g = generateOrCombineTraffic generate merge t (map_of (ts_pidMatchedTraffic ts) key) con1 pid in
        (snd g, ts\<lparr>ts_pidMatchedTraffic := AList.update key (fst g) (ts_pidMatchedTraffic ts)\<rparr>)
      else if \<not> ipNotEmpty (cc_RemoteIP con1) (cc_RemotePort con1) then (con1, ts)
      else
        let con2 = tryingToGenerateTheRoleWhenRemotePidCannotFound ports con1;
            g = generateOrCombineTraffic generate merge t (map_of (ts_pidToRemoteTraffic ts) (pidToRemoteKey con2)) con2 0 in
        (snd g, ts\<lparr>ts_pidToRemoteTraffic := AList.update (pidToRemoteKey con2) (fst g) (ts_pidToRemoteTraffic ts)\<rparr>))"
  by (simp add: combine_connection_def Let_def case_prod_beta)

locale merged_quantity =
  fixes generate :: 'm
    and merge :: "'m ConnectionContext \<Rightarrow> 'm \<Rightarrow> 'm \<times> 'm"
    and quantity :: "'m \<Rightarrow> 'q :: comm_monoid_add"
    and share :: "'m ConnectionContext \<Rightarrow> 'q"
  assumes quantity_generate: "quantity generate = 0"
    and quantity_merge: "quantity (fst (merge con m)) = quantity m + share con"
    and share_cong: "cc_Metrics c = cc_Metrics c' \<Longrightarrow> cc_FlushDataCount c = cc_FlushDataCount c' \<Longrightarrow> share c = share c'"
begin

abbreviation traffic_sum :: "'m ProcessTraffic list \<Rightarrow> 'q" where
  "traffic_sum tfs \<equiv> (\<Sum>tf\<leftarrow>tfs. quantity (tf_Metrics tf))"

lemma quantity_generateOrCombine:
  "quantity (tf_Metrics (fst (generateOrCombineTraffic generate merge t traffic con pid))) =
     (case traffic of None \<Rightarrow> 0 | Some tf \<Rightarrow> quantity (tf_Metrics tf)) + share con"
  using quantity_merge [of con "case traffic of None \<Rightarrow> generate | Some tf \<Rightarrow> tf_Metrics tf"]
  by (auto simp: generateOrCombineTraffic_def describe_traffic_Metrics quantity_generate split: prod.splits option.splits)

lemmas quantity_update = sum_update [where f = "\<lambda>tf. quantity (tf_Metrics tf)", OF quantity_generateOrCombine]

lemma combine_connection_sum:
  assumes "envoy_incomplete t"
  shows "traffic_sum (all_traffics (snd (combine_connection generate merge h t ports con ts))) =
    traffic_sum (all_traffics ts) + (if combined h t con then share con else 0)"
proof -
  let ?con1 = "snd (findRemotePid h t con)"
  let ?con2 = "tryingToGenerateTheRoleWhenRemotePidCannotFound ports ?con1"
  have s: "same_but_role con ?con1" by (rule findRemotePid_same [OF assms])
  then have s2: "same_but_role con ?con2" using role_generated_same same_but_role_trans by blast
  have sh: "share ?con1 = share con" "share ?con2 = share con"
    using same_but_roleD [OF s] same_but_roleD [OF s2] by (auto intro: share_cong)
  show ?thesis
    by (simp add: combine_connection_alt Let_def combined_def all_traffics_def comp_def ac_simps sh same_but_roleD [OF s] quantity_update)
qed

lemma combine_connections_sum:
  assumes "envoy_incomplete t"
  shows "traffic_sum (all_traffics (snd (combine_connections generate merge h t ports cons ts))) =
    traffic_sum (all_traffics ts) + (\<Sum>con\<leftarrow>filter (combined h t) cons. share con)"
proof (induction cons arbitrary: ts)
  case (Cons con cons)
  obtain con1 ts1 where c: "combine_connection generate merge h t ports con ts = (con1, ts1)" by fastforce
  show ?case using combine_connection_sum [OF assms, of h ports con ts] Cons [of ts1]
    by (auto simp: c Let_def ac_simps split: prod.splits)
qed simp

lemma combine_conserves:
  assumes "CombineConnectionToTraffics generate merge h (NewTrafficAnalyzer processes) ports connections = (tfs, cons, t, ports')"
  shows "traffic_sum tfs = (\<Sum>con\<leftarrow>filter (combined h t) connections. share con)"
proof -
  have "envoy_incomplete t" using assms buildCache_envoy_incomplete [of "(NewTrafficAnalyzer processes, ports)" connections]
    new_analyzer_incomplete by (auto simp: CombineConnectionToTraffics_def Let_def split: prod.splits)
  then show ?thesis using assms combine_connections_sum [of t h ports' connections no_traffics]
    by (auto simp: CombineConnectionToTraffics_def Let_def all_traffics_def no_traffics_def split: prod.splits)
qed

end

end
