(* ===== verification/Network_Traffic_Props.thy ===== *)
theory Network_Traffic_Props
  imports Network_Traffic
begin

text \<open>
  Which processes the traffic analyzer brings together: two ends of a connection that are both profiled find each other, with opposite
  roles. The address of the other end is never replaced by that of a proxy.
\<close>

section \<open>The two ends of a connection\<close>

definition full_address :: "'m ConnectionContext \<Rightarrow> bool" where
  "full_address con \<longleftrightarrow> ipNotEmpty (cc_LocalIP con) (cc_LocalPort con) \<and> ipNotEmpty (cc_RemoteIP con) (cc_RemotePort con)"

definition addresses_of :: "'m ConnectionContext \<Rightarrow> LocalWithPeerAddress" where
  "addresses_of con = \<lparr>lp_LocalIP = cc_LocalIP con, lp_LocalPort = cc_LocalPort con, lp_RemoteIP = cc_RemoteIP con, lp_RemotePort = cc_RemotePort con\<rparr>"

definition mirrored :: "LocalWithPeerAddress \<Rightarrow> LocalWithPeerAddress" where
  "mirrored k = \<lparr>lp_LocalIP = lp_RemoteIP k, lp_LocalPort = lp_RemotePort k, lp_RemoteIP = lp_LocalIP k, lp_RemotePort = lp_LocalPort k\<rparr>"

definition sole_owner :: "'m ConnectionContext list \<Rightarrow> 'm ConnectionContext \<Rightarrow> bool" where
  "sole_owner connections con \<longleftrightarrow> con \<in> set connections \<and>
     (\<forall>c \<in> set connections. addresses_of c = addresses_of con \<longrightarrow> cc_LocalPid c = cc_LocalPid con \<and> cc_Role c = cc_Role con)"

lemma sole_ownerD: "sole_owner connections con \<Longrightarrow> con \<in> set connections"
  by (simp add: sole_owner_def)

lemma cache_peer_unchanged [simp]:
  "ta_localWithPeerCache (cache_local_address con t) = ta_localWithPeerCache t"
  "ta_localWithPeerCache (cache_process con t) = ta_localWithPeerCache t"
  "ta_localWithPeerCache (cache_envoy con t) = ta_localWithPeerCache t"
  by (simp_all add: cache_local_address_def cache_process_def cache_envoy_def Let_def split: list.splits)

lemma cache_full_address_peer:
  "ta_localWithPeerCache (cache_full_address con t) k =
     (if full_address con \<and> addresses_of con = k then Some \<lparr>pr_Pid = cc_LocalPid con, pr_Role = cc_Role con\<rparr> else ta_localWithPeerCache t k)"
  by (auto simp: cache_full_address_def full_address_def addresses_of_def)

lemma buildCache_peer:
  assumes "\<forall>c \<in> set cons. addresses_of c = k \<longrightarrow> cc_LocalPid c = pid \<and> cc_Role c = role"
    and "ta_localWithPeerCache t k = Some \<lparr>pr_Pid = pid, pr_Role = role\<rparr> \<or> (\<exists>c \<in> set cons. full_address c \<and> addresses_of c = k)"
  shows "ta_localWithPeerCache (fst (buildCache cons (t, ports))) k = Some \<lparr>pr_Pid = pid, pr_Role = role\<rparr>"
  using assms by (induction cons arbitrary: t ports) (auto simp: Let_def cache_full_address_peer)

lemma findRemotePid_peer:
  assumes "full_address con" "ta_localWithPeerCache t (mirrored (addresses_of con)) = Some \<lparr>pr_Pid = pid, pr_Role = role\<rparr>" "pid \<noteq> 0"
  shows "findRemotePid h t con =
    (pid, if cc_Role con = ConnectionRoleUnknown \<and> role \<noteq> ConnectionRoleUnknown then con\<lparr>cc_Role := ConnectionRole_Revert role\<rparr> else con)"
  using assms by (simp add: findRemotePid_def findRemotePidWhenContainsFullAddress_def full_address_def mirrored_def addresses_of_def
      word_gt_0)

section \<open>The traffics\<close>

definition traffic_named :: "PidMatchTrafficKey \<Rightarrow> 'm ProcessTraffic \<Rightarrow> bool" where
  "traffic_named key tf \<longleftrightarrow> tf_LocalPid tf = pk_LocalPid key \<and> tf_RemotePid tf = pk_RemotePid key \<and> tf_Role tf = pk_Role key"

definition traffics_named :: "'m traffics \<Rightarrow> bool" where
  "traffics_named ts \<longleftrightarrow> (\<forall>key tf. map_of (ts_pidMatchedTraffic ts) key = Some tf \<longrightarrow> traffic_named key tf)"

lemma describe_traffic_LocalPid:
  "tf_LocalPid (describe_traffic generate t traffic con pid) = (case traffic of None \<Rightarrow> cc_LocalPid con | Some tf \<Rightarrow> tf_LocalPid tf)"
  by (cases traffic) (simp_all add: describe_traffic_def Let_def)

lemma describe_traffic_RemotePid:
  "pid \<noteq> 0 \<Longrightarrow> tf_RemotePid (describe_traffic generate t traffic con pid) = pid"
  by (simp add: describe_traffic_def Let_def)

lemma describe_traffic_Role:
  "tf_Role (describe_traffic generate t traffic con pid) =
     (case traffic of None \<Rightarrow> cc_Role con | Some tf \<Rightarrow> if tf_Role tf = ConnectionRoleUnknown then cc_Role con else tf_Role tf)"
  by (cases traffic) (simp_all add: describe_traffic_def Let_def)

lemma generateOrCombine_named:
  assumes "\<And>tf. traffic = Some tf \<Longrightarrow> traffic_named key tf" "pid \<noteq> 0"
    and "key = \<lparr>pk_LocalPid = cc_LocalPid con, pk_RemotePid = pid, pk_Role = cc_Role con\<rparr>"
  shows "traffic_named key (fst (generateOrCombineTraffic generate merge t traffic con pid))"
  using assms
  by (cases traffic) (simp_all add: generateOrCombineTraffic_def case_prod_beta Let_def traffic_named_def describe_traffic_LocalPid
      describe_traffic_RemotePid describe_traffic_Role)

lemma combine_connection_named:
  assumes "traffics_named ts"
  shows "traffics_named (snd (combine_connection generate merge h t ports con ts))"
proof -
  have "traffic_named key (fst (generateOrCombineTraffic generate merge t (map_of (ts_pidMatchedTraffic ts) key) c pid))"
    if "pid \<noteq> 0" "key = \<lparr>pk_LocalPid = cc_LocalPid c, pk_RemotePid = pid, pk_Role = cc_Role c\<rparr>" for key c pid
    using assms by (intro generateOrCombine_named [OF _ that]) (simp add: traffics_named_def)
  then show ?thesis using assms
    by (simp add: combine_connection_alt Let_def traffics_named_def update_conv)
qed

lemma combine_connection_keeps:
  "dom (map_of (ts_pidMatchedTraffic ts)) \<subseteq> dom (map_of (ts_pidMatchedTraffic (snd (combine_connection generate merge h t ports con ts))))"
  by (auto simp: combine_connection_alt Let_def update_conv)

lemma combine_connections_keeps:
  "dom (map_of (ts_pidMatchedTraffic ts)) \<subseteq> dom (map_of (ts_pidMatchedTraffic (snd (combine_connections generate merge h t ports cons ts))))"
proof (induction cons arbitrary: ts)
  case (Cons con cons)
  then show ?case using combine_connection_keeps by (fastforce simp: Let_def case_prod_beta)
qed simp

lemma combine_connections_named:
  "traffics_named ts \<Longrightarrow> traffics_named (snd (combine_connections generate merge h t ports cons ts))"
  by (induction cons arbitrary: ts) (simp_all add: Let_def case_prod_beta combine_connection_named)

lemma combine_connections_matched:
  assumes "con \<in> set cons" "findRemotePid h t con = (pid, con1)" "pid \<noteq> 0"
  shows "\<lparr>pk_LocalPid = cc_LocalPid con1, pk_RemotePid = pid, pk_Role = cc_Role con1\<rparr> \<in>
    dom (map_of (ts_pidMatchedTraffic (snd (combine_connections generate merge h t ports cons ts))))"
  using assms(1)
proof (induction cons arbitrary: ts)
  case (Cons c cons)
  show ?case
  proof (cases "c = con")
    case True
    have "\<lparr>pk_LocalPid = cc_LocalPid con1, pk_RemotePid = pid, pk_Role = cc_Role con1\<rparr> \<in>
      dom (map_of (ts_pidMatchedTraffic (snd (combine_connection generate merge h t ports con ts))))"
      using assms(2,3) by (simp add: combine_connection_alt Let_def update_conv')
    then show ?thesis using True combine_connections_keeps by (fastforce simp: Let_def case_prod_beta)
  next
    case False
    then show ?thesis using Cons by (simp add: Let_def case_prod_beta)
  qed
qed simp

definition traffic_between :: "'m ProcessTraffic list \<Rightarrow> u32 \<Rightarrow> u32 \<Rightarrow> ConnectionRole \<Rightarrow> bool" where
  "traffic_between tfs localPid remotePid role \<longleftrightarrow>
     list_ex (\<lambda>tf. tf_LocalPid tf = localPid \<and> tf_RemotePid tf = remotePid \<and> tf_Role tf = role) tfs"

lemma found_end_has_traffic:
  assumes "CombineConnectionToTraffics generate merge h t0 ports connections = (tfs, cons, t, ports')"
    and "con \<in> set connections" "findRemotePid h t con = (pid, con1)" "pid \<noteq> 0"
  shows "traffic_between tfs (cc_LocalPid con1) pid (cc_Role con1)"
proof -
  let ?key = "\<lparr>pk_LocalPid = cc_LocalPid con1, pk_RemotePid = pid, pk_Role = cc_Role con1\<rparr>"
  let ?ts = "snd (combine_connections generate merge h t ports' connections no_traffics)"
  have tfs: "tfs = all_traffics ?ts" using assms(1) by (auto simp: CombineConnectionToTraffics_def Let_def split: prod.splits)
  obtain tf where tf: "map_of (ts_pidMatchedTraffic ?ts) ?key = Some tf"
    using combine_connections_matched [OF assms(2,3,4), of generate merge ports' no_traffics] by auto
  have "traffics_named ?ts"
    by (rule combine_connections_named) (simp add: traffics_named_def no_traffics_def)
  then have "traffic_named ?key tf" using tf by (simp add: traffics_named_def)
  moreover have "tf \<in> set tfs" using map_of_SomeD [OF tf] by (force simp: tfs all_traffics_def)
  ultimately
  show ?thesis by (auto simp: traffic_between_def traffic_named_def list_ex_iff)
qed


definition example_end :: "string \<Rightarrow> u16 \<Rightarrow> string \<Rightarrow> u16 \<Rightarrow> u32 \<Rightarrow> ConnectionRole \<Rightarrow> unit ConnectionContext" where
  "example_end ip port remoteIP remotePort pid role =
     (NewConnectionContext () 1 1 pid 3 [] False)
       \<lparr>cc_LocalIP := ip, cc_LocalPort := port, cc_RemoteIP := remoteIP, cc_RemotePort := remotePort, cc_Role := role\<rparr>"

definition example_ends :: "unit ConnectionContext list" where
  "example_ends =
     [example_end ''10.0.0.1'' 40000 ''10.0.0.2'' 80 7 ConnectionRoleClient, example_end ''10.0.0.2'' 80 ''10.0.0.1'' 40000 9 ConnectionRoleUnknown]"

definition example_traffic_host :: hostInfo where
  "example_traffic_host = \<lparr>ho_name = ''host'', ho_ipAddressesByName = [], ho_ipAddressesByIP = [], ho_defaultIPAddr = []\<rparr>"

definition example_combined :: "unit ProcessTraffic list \<times> unit ConnectionContext list \<times> TrafficAnalyzer \<times> exposed_ports" where
  "example_combined = CombineConnectionToTraffics () (\<lambda>_ _. ((), ())) example_traffic_host (NewTrafficAnalyzer []) {} example_ends"

lemmas example_defs = example_end_def example_ends_def NewConnectionContext_def


text \<open>
  Combining leaves the remote address of every connection as it was: the address of an accepting proxy, by which the address of an
  intercepted connection is meant to be replaced, is only remembered for proxies whose own address is not known.
\<close>

theorem remote_address_is_not_replaced:
  assumes "buildCache connections (NewTrafficAnalyzer processes, ports) = (t, ports')"
  shows "cc_RemoteIP (snd (findRemotePid h t con)) = cc_RemoteIP con \<and> cc_RemotePort (snd (findRemotePid h t con)) = cc_RemotePort con"
proof -
  have "envoy_incomplete t"
    using buildCache_envoy_incomplete [of "(NewTrafficAnalyzer processes, ports)" connections] new_analyzer_incomplete assms by simp
  then show ?thesis using findRemotePid_same same_but_roleD(3,4) by blast
qed

theorem remote_address_is_not_replaced_witness:
  "cc_RemoteIP (snd (findRemotePid example_traffic_host (fst (snd (snd example_combined))) (example_ends ! 0))) = ''10.0.0.2''"
proof -
  have "buildCache example_ends (NewTrafficAnalyzer [], {}) = (fst (snd (snd example_combined)), snd (snd (snd example_combined)))"
    by (simp add: example_combined_def CombineConnectionToTraffics_def Let_def case_prod_beta)
  from remote_address_is_not_replaced [OF this, of example_traffic_host "example_ends ! 0"]
  show ?thesis by (simp add: example_defs)
qed

end
