(* ===== verification/Layer4_Metrics.thy ===== *)
theory Layer4_Metrics
  imports Network_Traffic
begin

text \<open>
  The metrics of the transport layer in network profiling, \<^verbatim>\<open>layer4/metrics.go\<close>: counters and histograms with the value of the flush
  before. The counters of the kernel only grow; what a flush adds to a traffic is the difference to the flush before. No counter object
  is shared: \<open>Pre\<close> is the object that \<open>Cur\<close> was, and only \<open>Cur\<close> is changed in place.
\<close>

section \<open>Counters\<close>

record SocketDataCounter =
  sc_Bytes :: u64
  sc_Count :: u64
  sc_ExeTime :: u64

definition NewSocketDataCounter :: SocketDataCounter where
  "NewSocketDataCounter = \<lparr>sc_Bytes = 0, sc_Count = 0, sc_ExeTime = 0\<rparr>"

definition IncreaseByValue :: "u64 \<Rightarrow> u64 \<Rightarrow> u64 \<Rightarrow> SocketDataCounter \<Rightarrow> SocketDataCounter" where
  "IncreaseByValue bytes cnt exeTime s =
     s\<lparr>sc_Bytes := sc_Bytes s + bytes, sc_Count := sc_Count s + cnt, sc_ExeTime := sc_ExeTime s + exeTime\<rparr>"

definition NewSocketDataCounterWithValue :: "u64 \<Rightarrow> u64 \<Rightarrow> u64 \<Rightarrow> SocketDataCounter" where
  "NewSocketDataCounterWithValue bytes cnt exeTime = IncreaseByValue bytes cnt exeTime NewSocketDataCounter"

definition Increase :: "SocketDataCounter \<Rightarrow> SocketDataCounter \<Rightarrow> SocketDataCounter" where
  "Increase d s = IncreaseByValue (sc_Bytes d) (sc_Count d) (sc_ExeTime d) s"

definition NotEmpty :: "SocketDataCounter \<Rightarrow> bool" where
  "NotEmpty s \<longleftrightarrow> sc_Count s > 0"

record SocketDataCounterWithHistory =
  ch_Pre :: SocketDataCounter
  ch_Cur :: SocketDataCounter

definition NewSocketDataCounterWithHistory :: SocketDataCounterWithHistory where
  "NewSocketDataCounterWithHistory = \<lparr>ch_Pre = NewSocketDataCounter, ch_Cur = NewSocketDataCounter\<rparr>"

definition RefreshCurrent :: "SocketDataCounterWithHistory \<Rightarrow> SocketDataCounterWithHistory" where
  "RefreshCurrent c =
     \<lparr>ch_Pre = ch_Cur c, ch_Cur = NewSocketDataCounterWithValue (sc_Bytes (ch_Cur c)) (sc_Count (ch_Cur c)) (sc_ExeTime (ch_Cur c))\<rparr>"

definition UpdateToCurrent :: "u64 \<Rightarrow> u64 \<Rightarrow> u64 \<Rightarrow> SocketDataCounterWithHistory \<Rightarrow> SocketDataCounterWithHistory" where
  "UpdateToCurrent bytes cnt exeTime c =
     \<lparr>ch_Pre = ch_Cur c, ch_Cur = \<lparr>sc_Bytes = bytes, sc_Count = cnt, sc_ExeTime = exeTime\<rparr>\<rparr>"

definition IncreaseToCurrent :: "SocketDataCounter \<Rightarrow> SocketDataCounterWithHistory \<Rightarrow> SocketDataCounterWithHistory" where
  "IncreaseToCurrent other c = c\<lparr>ch_Cur := Increase other (ch_Cur c)\<rparr>"

definition subtractionValue :: "u64 \<Rightarrow> u64 \<Rightarrow> u64" where
  "subtractionValue v1 v2 = (if v1 > v2 then v1 - v2 else 0)"

definition CalculateIncrease :: "SocketDataCounterWithHistory \<Rightarrow> SocketDataCounter" where
  "CalculateIncrease c =
     \<lparr>sc_Bytes = subtractionValue (sc_Bytes (ch_Cur c)) (sc_Bytes (ch_Pre c)),
      sc_Count = subtractionValue (sc_Count (ch_Cur c)) (sc_Count (ch_Pre c)),
      sc_ExeTime = subtractionValue (sc_ExeTime (ch_Cur c)) (sc_ExeTime (ch_Pre c))\<rparr>"

section \<open>Histograms\<close>

text \<open>
  The bounds of the buckets are floating-point numbers with integral values below \<open>2 ^ 53\<close>, so that comparing them with the
  floating-point value of an integer compares the integers.
\<close>

definition SocketHistogramBucketsNs :: "nat list" where
  "SocketHistogramBucketsNs = [0, 10000, 50000, 100000, 500000, 1000000, 1200000, 1500000, 1700000, 2000000,
     2500000, 3000000, 5000000, 7000000, 10000000, 13000000, 16000000, 20000000, 25000000, 30000000, 35000000, 40000000,
     45000000, 50000000, 70000000, 100000000, 150000000, 200000000, 300000000, 500000000, 1000000000, 2000000000,
     3000000000, 5000000000]"

definition SocketHistogramBucketsUs :: "nat list" where
  "SocketHistogramBucketsUs = [0, 10, 50, 100, 500, 1000, 1200, 1500, 1700, 2000,
     2500, 3000, 5000, 7000, 10000, 13000, 16000, 20000, 25000, 30000, 35000, 40000,
     45000, 50000, 70000, 100000, 150000, 200000, 300000, 500000, 1000000, 2000000,
     3000000, 5000000]"

definition SocketHistogramBucketsCount :: nat where
  "SocketHistogramBucketsCount = length SocketHistogramBucketsNs"

datatype HistogramDataUnit = HistogramDataUnitNS | HistogramDataUnitUS

record SocketDataHistogram =
  sh_Unit :: HistogramDataUnit
  sh_Buckets :: "(u64 \<times> u32) list"

text \<open>Indexing a map of Go gives zero for a key that is not there.\<close>

definition bucket_count :: "SocketDataHistogram \<Rightarrow> u64 \<Rightarrow> u32" where
  "bucket_count h k = (case map_of (sh_Buckets h) k of None \<Rightarrow> 0 | Some v \<Rightarrow> v)"

definition histogram_Update :: "u64 \<Rightarrow> u32 \<Rightarrow> SocketDataHistogram \<Rightarrow> SocketDataHistogram" where
  "histogram_Update bucket v h = h\<lparr>sh_Buckets := AList.update bucket v (sh_Buckets h)\<rparr>"

definition Overwrite :: "SocketDataHistogram \<Rightarrow> SocketDataHistogram \<Rightarrow> SocketDataHistogram" where
  "Overwrite other h = fold (\<lambda>(k, v). histogram_Update k v) (sh_Buckets other) h"

definition histogram_Increase :: "SocketDataHistogram \<Rightarrow> SocketDataHistogram \<Rightarrow> SocketDataHistogram" where
  "histogram_Increase other h = fold (\<lambda>(k, v) h. histogram_Update k (bucket_count h k + v) h) (sh_Buckets other) h"

definition bucket_of :: "u64 \<Rightarrow> nat" where
  "bucket_of val =
     (case find (\<lambda>inx. inx > 0 \<and> SocketHistogramBucketsNs ! inx > unat val) [0..<SocketHistogramBucketsCount] of
        Some inx \<Rightarrow> inx - 1 | None \<Rightarrow> SocketHistogramBucketsCount - 1)"

definition histogram_IncreaseByValue :: "u64 \<Rightarrow> SocketDataHistogram \<Rightarrow> SocketDataHistogram" where
  "histogram_IncreaseByValue val h =
     (let k = of_nat (bucket_of val) in histogram_Update k (bucket_count h k + 1) h)"

definition histogram_NotEmpty :: "SocketDataHistogram \<Rightarrow> bool" where
  "histogram_NotEmpty h \<longleftrightarrow> list_ex (\<lambda>(_, v). v > 0) (sh_Buckets h)"

definition NewSocketDataHistogram :: "HistogramDataUnit \<Rightarrow> SocketDataHistogram" where
  "NewSocketDataHistogram unit = \<lparr>sh_Unit = unit, sh_Buckets = map (\<lambda>i. (of_nat i, 0)) [0..<SocketHistogramBucketsCount]\<rparr>"

record SocketDataHistogramWithHistory =
  hh_Pre :: SocketDataHistogram
  hh_Cur :: SocketDataHistogram

definition NewSocketDataHistogramWithHistory :: "HistogramDataUnit \<Rightarrow> SocketDataHistogramWithHistory" where
  "NewSocketDataHistogramWithHistory unit = \<lparr>hh_Pre = NewSocketDataHistogram unit, hh_Cur = NewSocketDataHistogram unit\<rparr>"

definition histogram_RefreshCurrent :: "SocketDataHistogramWithHistory \<Rightarrow> SocketDataHistogramWithHistory" where
  "histogram_RefreshCurrent h = h\<lparr>hh_Pre := Overwrite (hh_Cur h) (hh_Pre h)\<rparr>"

definition histogram_UpdateToCurrent :: "u64 \<Rightarrow> u32 \<Rightarrow> SocketDataHistogramWithHistory \<Rightarrow> SocketDataHistogramWithHistory" where
  "histogram_UpdateToCurrent bucket val h = h\<lparr>hh_Cur := histogram_Update bucket val (hh_Cur h)\<rparr>"

definition histogram_IncreaseToCurrent :: "SocketDataHistogram \<Rightarrow> SocketDataHistogramWithHistory \<Rightarrow> SocketDataHistogramWithHistory" where
  "histogram_IncreaseToCurrent other h = h\<lparr>hh_Cur := histogram_Increase other (hh_Cur h)\<rparr>"

definition histogram_CalculateIncrease :: "SocketDataHistogramWithHistory \<Rightarrow> SocketDataHistogram" where
  "histogram_CalculateIncrease h =
     fold (\<lambda>(k, v) histogram. let increaseVal = v - bucket_count (hh_Pre h) k in
              if increaseVal > 0 then histogram_Update k increaseVal histogram else histogram)
       (sh_Buckets (hh_Cur h)) (NewSocketDataHistogram (sh_Unit (hh_Cur h)))"

section \<open>The metrics of a connection and of a traffic\<close>

record Metrics =
  l4_WriteCounter :: SocketDataCounterWithHistory
  l4_ReadCounter :: SocketDataCounterWithHistory
  l4_WriteRTTCounter :: SocketDataCounterWithHistory
  l4_WriteRTTHistogram :: SocketDataHistogramWithHistory
  l4_WriteExeTimeHistogram :: SocketDataHistogramWithHistory
  l4_ReadExeTimeHistogram :: SocketDataHistogramWithHistory
  l4_ConnectExecuteTime :: u64
  l4_CloseExecuteTime :: u64
  l4_ConnectCounter :: SocketDataCounterWithHistory
  l4_CloseCounter :: SocketDataCounterWithHistory
  l4_ConnectExeTimeHistogram :: SocketDataHistogramWithHistory
  l4_CloseExeTimeHistogram :: SocketDataHistogramWithHistory
  l4_RetransmitCounter :: SocketDataCounterWithHistory
  l4_DropCounter :: SocketDataCounterWithHistory

definition NewLayer4Metrics :: Metrics where
  "NewLayer4Metrics =
     \<lparr>l4_WriteCounter = NewSocketDataCounterWithHistory,
      l4_ReadCounter = NewSocketDataCounterWithHistory,
      l4_WriteRTTCounter = NewSocketDataCounterWithHistory,
      l4_WriteRTTHistogram = NewSocketDataHistogramWithHistory HistogramDataUnitUS,
      l4_WriteExeTimeHistogram = NewSocketDataHistogramWithHistory HistogramDataUnitNS,
      l4_ReadExeTimeHistogram = NewSocketDataHistogramWithHistory HistogramDataUnitNS,
      l4_ConnectExecuteTime = 0, l4_CloseExecuteTime = 0,
      l4_ConnectCounter = NewSocketDataCounterWithHistory,
      l4_CloseCounter = NewSocketDataCounterWithHistory,
      l4_ConnectExeTimeHistogram = NewSocketDataHistogramWithHistory HistogramDataUnitNS,
      l4_CloseExeTimeHistogram = NewSocketDataHistogramWithHistory HistogramDataUnitNS,
      l4_RetransmitCounter = NewSocketDataCounterWithHistory,
      l4_DropCounter = NewSocketDataCounterWithHistory\<rparr>"

text \<open>The metrics of the connection are not changed by merging them.\<close>

definition merge_transfers :: "Metrics \<Rightarrow> Metrics \<Rightarrow> Metrics" where
  "merge_transfers metrics l =
     l\<lparr>l4_WriteCounter := IncreaseToCurrent (CalculateIncrease (l4_WriteCounter metrics)) (l4_WriteCounter l),
       l4_ReadCounter := IncreaseToCurrent (CalculateIncrease (l4_ReadCounter metrics)) (l4_ReadCounter l),
       l4_WriteRTTCounter := IncreaseToCurrent (CalculateIncrease (l4_WriteRTTCounter metrics)) (l4_WriteRTTCounter l),
       l4_WriteRTTHistogram := histogram_IncreaseToCurrent (histogram_CalculateIncrease (l4_WriteRTTHistogram metrics)) (l4_WriteRTTHistogram l),
       l4_WriteExeTimeHistogram :=
         histogram_IncreaseToCurrent (histogram_CalculateIncrease (l4_WriteExeTimeHistogram metrics)) (l4_WriteExeTimeHistogram l),
       l4_ReadExeTimeHistogram :=
         histogram_IncreaseToCurrent (histogram_CalculateIncrease (l4_ReadExeTimeHistogram metrics)) (l4_ReadExeTimeHistogram l),
       l4_RetransmitCounter := IncreaseToCurrent (CalculateIncrease (l4_RetransmitCounter metrics)) (l4_RetransmitCounter l),
       l4_DropCounter := IncreaseToCurrent (CalculateIncrease (l4_DropCounter metrics)) (l4_DropCounter l)\<rparr>"

definition MergeMetricsFromConnection :: "Metrics ConnectionContext \<Rightarrow> Metrics \<Rightarrow> Metrics \<times> Metrics" where
  "MergeMetricsFromConnection connection l =
     (let metrics = cc_Metrics connection;
          l1 = merge_transfers metrics l;
          l2 = (if cc_FlushDataCount connection = 0 \<and> l4_ConnectExecuteTime metrics > 0
                then l1\<lparr>l4_ConnectCounter :=
                          IncreaseToCurrent (NewSocketDataCounterWithValue 0 1 (l4_ConnectExecuteTime metrics)) (l4_ConnectCounter l1),
                        l4_ConnectExeTimeHistogram := (l4_ConnectExeTimeHistogram l1)\<lparr>hh_Cur :=
                          histogram_IncreaseByValue (l4_ConnectExecuteTime metrics) (hh_Cur (l4_ConnectExeTimeHistogram l1))\<rparr>\<rparr>
                else l1);
          l3 = (if cc_FlushDataCount connection = 0 \<and> l4_CloseExecuteTime metrics > 0
                then l2\<lparr>l4_CloseCounter :=
                          IncreaseToCurrent (NewSocketDataCounterWithValue 0 1 (l4_CloseExecuteTime metrics)) (l4_CloseCounter l2),
                        l4_CloseExeTimeHistogram := (l4_CloseExeTimeHistogram l2)\<lparr>hh_Cur :=
                          histogram_IncreaseByValue (l4_CloseExecuteTime metrics) (hh_Cur (l4_CloseExeTimeHistogram l2))\<rparr>\<rparr>
                else l2) in
      (l3, metrics))"

section \<open>What the traffics count\<close>

text \<open>The counters that a flush adds to, and the numbers of a counter.\<close>

datatype counter_name = Write_counter | Read_counter | WriteRTT_counter | Retransmit_counter | Drop_counter
datatype counter_field = Bytes_field | Count_field | ExeTime_field

fun counter_of :: "counter_name \<Rightarrow> Metrics \<Rightarrow> SocketDataCounterWithHistory" where
  "counter_of Write_counter m = l4_WriteCounter m"
| "counter_of Read_counter m = l4_ReadCounter m"
| "counter_of WriteRTT_counter m = l4_WriteRTTCounter m"
| "counter_of Retransmit_counter m = l4_RetransmitCounter m"
| "counter_of Drop_counter m = l4_DropCounter m"

fun field_of :: "counter_field \<Rightarrow> SocketDataCounter \<Rightarrow> u64" where
  "field_of Bytes_field c = sc_Bytes c"
| "field_of Count_field c = sc_Count c"
| "field_of ExeTime_field c = sc_ExeTime c"

lemma field_of_Increase [simp]: "field_of f (Increase d s) = field_of f s + field_of f d"
  by (cases f) (simp_all add: Increase_def IncreaseByValue_def)

lemma field_of_New [simp]: "field_of f NewSocketDataCounter = 0"
  by (cases f) (simp_all add: NewSocketDataCounter_def)

lemma counter_of_New: "counter_of k NewLayer4Metrics = NewSocketDataCounterWithHistory"
  by (cases k) (simp_all add: NewLayer4Metrics_def)

lemma counter_of_Merge:
  "counter_of k (fst (MergeMetricsFromConnection con m)) = IncreaseToCurrent (CalculateIncrease (counter_of k (cc_Metrics con))) (counter_of k m)"
  by (cases k) (simp_all add: MergeMetricsFromConnection_def merge_transfers_def Let_def)

lemma CloseCounter_Merge:
  "l4_CloseCounter (fst (MergeMetricsFromConnection con m)) =
     (if cc_FlushDataCount con = 0 \<and> l4_CloseExecuteTime (cc_Metrics con) > 0
      then IncreaseToCurrent (NewSocketDataCounterWithValue 0 1 (l4_CloseExecuteTime (cc_Metrics con))) (l4_CloseCounter m)
      else l4_CloseCounter m)"
  by (simp add: MergeMetricsFromConnection_def merge_transfers_def Let_def)

interpretation counters: merged_quantity NewLayer4Metrics MergeMetricsFromConnection
  "\<lambda>m. field_of f (ch_Cur (counter_of k m))" "\<lambda>con. field_of f (CalculateIncrease (counter_of k (cc_Metrics con)))" for f k
  by unfold_locales (simp_all add: counter_of_New counter_of_Merge NewSocketDataCounterWithHistory_def IncreaseToCurrent_def)

interpretation closes: merged_quantity NewLayer4Metrics MergeMetricsFromConnection
  "\<lambda>m. sc_Count (ch_Cur (l4_CloseCounter m))"
  "\<lambda>con. if cc_FlushDataCount con = 0 \<and> l4_CloseExecuteTime (cc_Metrics con) > 0 then 1 else 0"
  by unfold_locales (simp_all add: CloseCounter_Merge NewLayer4Metrics_def NewSocketDataCounterWithHistory_def NewSocketDataCounter_def
      IncreaseToCurrent_def Increase_def IncreaseByValue_def NewSocketDataCounterWithValue_def)


text \<open>
  C40: The closing of a connection is counted only when the connection was never flushed before: when all connections of an interval have
  been part of an earlier one, their traffics count no closing, whatever connections were closed.
\<close>

theorem closing_of_flushed_connections_is_not_counted:
  assumes "CombineConnectionToTraffics NewLayer4Metrics MergeMetricsFromConnection h (NewTrafficAnalyzer processes) ports connections =
      (tfs, cons, t, ports')"
    and "list_all (\<lambda>con. cc_FlushDataCount con > 0) connections"
  shows "(\<Sum>tf\<leftarrow>tfs. sc_Count (ch_Cur (l4_CloseCounter (tf_Metrics tf)))) = 0"
proof -
  have "map (\<lambda>con. if cc_FlushDataCount con = 0 \<and> l4_CloseExecuteTime (cc_Metrics con) > 0 then 1 else 0 :: u64) (filter (combined h t) connections) =
    map (\<lambda>_. 0) (filter (combined h t) connections)"
    using assms(2) by (auto simp: list_all_iff)
  from arg_cong [OF this, of sum_list] show ?thesis unfolding closes.combine_conserves [OF assms(1)] by (simp only: sum_list_0)
qed

section \<open>Flushes of one counter\<close>

text \<open>
  The readings of a counter of the kernel, one for each flush, and what each flush adds to a traffic: the listener takes the reading over,
  merges the difference and refreshes.
\<close>

fun flushed :: "(u64 \<times> u64 \<times> u64) list \<Rightarrow> SocketDataCounterWithHistory \<Rightarrow> SocketDataCounter list" where
  "flushed [] c = []"
| "flushed ((bytes, cnt, exeTime) # readings) c =
     (let c1 = UpdateToCurrent bytes cnt exeTime c in CalculateIncrease c1 # flushed readings (RefreshCurrent c1))"

lemma subtractionValue_le: "v2 \<le> v1 \<Longrightarrow> subtractionValue v1 v2 = v1 - v2"
  by (auto simp: subtractionValue_def)

lemma flushed_bytes:
  assumes "sorted (sc_Bytes (ch_Cur c) # map fst readings)"
  shows "(\<Sum>d\<leftarrow>flushed readings c. sc_Bytes d) = last (sc_Bytes (ch_Cur c) # map fst readings) - sc_Bytes (ch_Cur c)"
  using assms
proof (induction readings c rule: flushed.induct)
  case (2 bytes cnt exeTime readings c)
  then show ?case
    by (simp add: Let_def CalculateIncrease_def UpdateToCurrent_def RefreshCurrent_def NewSocketDataCounterWithValue_def IncreaseByValue_def
        NewSocketDataCounter_def subtractionValue_le)
qed simp

text \<open>
  The bytes that the flushes of a new connection add to its traffics are together the last reading of the kernel's counter, however
  many flushes there are, as long as the counter does not decrease.
\<close>

theorem flushes_add_up_to_the_reading:
  assumes "sorted (map fst readings)" "readings \<noteq> []"
  shows "(\<Sum>d\<leftarrow>flushed readings NewSocketDataCounterWithHistory. sc_Bytes d) = fst (last readings)"
  using flushed_bytes [of NewSocketDataCounterWithHistory readings] assms
  by (simp add: NewSocketDataCounterWithHistory_def NewSocketDataCounter_def last_map)

theorem flushes_add_up_to_the_reading_witness:
  "(\<Sum>d\<leftarrow>flushed [(10, 1, 5), (10, 1, 5), (25, 2, 9)] NewSocketDataCounterWithHistory. sc_Bytes d) = 25"
  using flushes_add_up_to_the_reading [of "[(10, 1, 5), (10, 1, 5), (25, 2, 9)]"] by simp

section \<open>Buckets\<close>

lemma first_bound: "SocketHistogramBucketsNs ! 0 = 0"
  by (simp add: SocketHistogramBucketsNs_def)

lemma bucket_of_bounds:
  "bucket_of v < SocketHistogramBucketsCount \<and> SocketHistogramBucketsNs ! bucket_of v \<le> unat v \<and>
   (Suc (bucket_of v) = SocketHistogramBucketsCount \<or> unat v < SocketHistogramBucketsNs ! Suc (bucket_of v))"
proof (cases "find (\<lambda>inx. inx > 0 \<and> SocketHistogramBucketsNs ! inx > unat v) [0..<SocketHistogramBucketsCount]")
  case None
  have "0 < SocketHistogramBucketsCount - 1" "SocketHistogramBucketsCount - 1 < SocketHistogramBucketsCount"
    by (simp_all add: SocketHistogramBucketsCount_def SocketHistogramBucketsNs_def)
  moreover have "SocketHistogramBucketsNs ! i \<le> unat v" if "0 < i" "i < SocketHistogramBucketsCount" for i
  proof -
    have "i \<in> set [0..<SocketHistogramBucketsCount]" using that by simp
    then show ?thesis using None [unfolded find_None_iff] that(1) not_less by blast
  qed
  ultimately show ?thesis using None by (simp add: bucket_of_def)
next
  case (Some inx)
  then have inx: "inx < SocketHistogramBucketsCount" "0 < inx" "unat v < SocketHistogramBucketsNs ! inx"
    and before: "\<And>j. j < inx \<Longrightarrow> 0 < j \<Longrightarrow> SocketHistogramBucketsNs ! j \<le> unat v"
    by (auto simp: find_Some_iff not_less)
  have "SocketHistogramBucketsNs ! (inx - 1) \<le> unat v"
    using before [of "inx - 1"] inx(2) first_bound by (cases "inx = 1") simp_all
  then show ?thesis using Some inx by (simp add: bucket_of_def)
qed

text \<open>
  A time is counted in the one bucket whose bounds hold it, the last bucket being open; the other buckets keep their counts.
\<close>

theorem value_is_in_its_bucket:
  "bucket_of v < SocketHistogramBucketsCount \<and> SocketHistogramBucketsNs ! bucket_of v \<le> unat v \<and>
   (Suc (bucket_of v) = SocketHistogramBucketsCount \<or> unat v < SocketHistogramBucketsNs ! Suc (bucket_of v)) \<and>
   bucket_count (histogram_IncreaseByValue v h) i = bucket_count h i + (if i = of_nat (bucket_of v) then 1 else 0)"
proof -
  have "bucket_count (histogram_IncreaseByValue v h) i = bucket_count h i + (if i = of_nat (bucket_of v) then 1 else 0)"
    by (simp add: histogram_IncreaseByValue_def histogram_Update_def bucket_count_def Let_def update_conv)
  then show ?thesis using bucket_of_bounds [of v] by blast
qed

section \<open>An interval\<close>

text \<open>A connection that wrote 300 bytes before an earlier flush and 200 since, and is closed.\<close>

definition example_metrics :: Metrics where
  "example_metrics = NewLayer4Metrics\<lparr>l4_WriteCounter := UpdateToCurrent 500 2 9 (UpdateToCurrent 300 1 5 NewSocketDataCounterWithHistory),
     l4_CloseExecuteTime := 70\<rparr>"

definition example_connections :: "Metrics ConnectionContext list" where
  "example_connections = [(NewConnectionContext example_metrics 1 1 7 3 [] True)
     \<lparr>cc_RemoteIP := ''10.0.0.2'', cc_RemotePort := 80, cc_Role := ConnectionRoleClient, cc_FlushDataCount := 1\<rparr>]"

definition example_host_info :: hostInfo where
  "example_host_info = \<lparr>ho_name = ''host'', ho_ipAddressesByName = [], ho_ipAddressesByIP = [], ho_defaultIPAddr = []\<rparr>"

definition example_interval :: "Metrics ProcessTraffic list \<times> Metrics ConnectionContext list \<times> TrafficAnalyzer \<times> exposed_ports" where
  "example_interval = CombineConnectionToTraffics NewLayer4Metrics MergeMetricsFromConnection example_host_info (NewTrafficAnalyzer []) {} example_connections"

lemma example_interval_parts:
  "CombineConnectionToTraffics NewLayer4Metrics MergeMetricsFromConnection example_host_info (NewTrafficAnalyzer []) {} example_connections =
     (fst example_interval, fst (snd example_interval), fst (snd (snd example_interval)), snd (snd (snd example_interval)))"
  by (simp add: example_interval_def)

lemma example_combined_connection: "combined h t (example_connections ! 0)"
  by (simp add: combined_def example_connections_def NewConnectionContext_def ipNotEmpty_def)


theorem closing_of_flushed_connections_is_not_counted_witness:
  "l4_CloseExecuteTime (cc_Metrics (example_connections ! 0)) = 70 \<and>
   (\<Sum>tf\<leftarrow>fst example_interval. sc_Count (ch_Cur (l4_CloseCounter (tf_Metrics tf)))) = 0"
  using closing_of_flushed_connections_is_not_counted [OF example_interval_parts]
  by (simp add: example_connections_def NewConnectionContext_def example_metrics_def)

end
