(* ===== verification/Spec2Isabelle.thy ===== *)
theory Spec2Isabelle
  imports Socket_Buffer_Props Ztunnel_Decode_Props Ztunnel_Collector_Props Log_Runner_Props Http1_Protocol Http2_Termination Protocol_Partition Event_Queue Ztunnel_Source_Props Kernel_Calls Socket_Address Connection_Collector Time_Windows Continuous_Checker Continuous_Checker_Props Continuous_Watch Profiling_Task Profiling_Task_Props Continuous_Trigger Continuous_Trigger_Props Process_Storage Process_Storage_Props Module_Order Network_Traffic Network_Traffic_Props Layer4_Metrics
begin

text \<open>
  \<^bold>\<open>SkyWalking Rover.\<close> Rover is an agent that runs on every host of a cluster. Programs in the kernel (written in C for eBPF) observe
  the system calls, the packets and the TLS libraries of selected processes and send events through perf buffers; a program in user
  space (written in Go) decodes the events, sorts them into one buffer per connection, reads protocols out of these buffers, and
  streams access logs to a backend. Beside the access log it discovers processes, runs profiling tasks that the backend asks for,
  and starts such tasks itself when a continuous policy is reached. This library models those parts and shows what makes them correct.
  Paths below are relative to \<^verbatim>\<open>src/\<close>.

  \<^bold>\<open>How the parts work together.\<close> A system call of a traced process runs the programs of \<^verbatim>\<open>bpf/accesslog\<close>, which number its operation,
  announce its connection, cut its bytes into chunks and send chunks, details and closings (theories \<open>Kernel_*\<close>). The perf readers decode
  each sample (\<open>Byte_Reader\<close>, \<open>Socket_Events\<close>) and push it into the partition of its connection (\<open>Event_Queue\<close>). Connection events go to
  the collector (\<open>Connection_Collector\<close>) and the connection manager (\<open>Connection_Manager\<close>); data events go to the analyzers of HTTP/1 and
  HTTP/2 (\<open>Protocol_Partition\<close>, \<open>Http1_Protocol\<close>, \<open>Http2_Protocol\<close>), which read from the socket data buffer (\<open>Socket_Buffer\<close>). Both put logs into a
  queue (\<open>Access_Log\<close>), from which the runner builds batches (\<open>Log_Runner\<close>), waiting where necessary for the ztunnel collector to resolve a remote
  address (\<open>Ztunnel_*\<close>), and the sender streams them (\<open>Log_Sender\<close>). Which processes are traced comes from the process module
  (\<open>Process_Storage\<close>), which also feeds the policies of continuous profiling (\<open>Continuous_*\<close>), the tasks that they start (\<open>Profiling_Task\<close>)
  and the analysis of network profiling (\<open>Network_*\<close>, \<open>Layer4_*\<close>). All of them are modules that \<open>Module_Order\<close> starts along their requirements.

  \<^bold>\<open>Conventions.\<close> A Go structure is a \<^theory_text>\<open>record\<close> whose fields carry a short prefix and the name of the source, an enumeration is a
  \<^theory_text>\<open>datatype\<close> or, where other values can arrive from the kernel, a word; integers keep their width wherever they can wrap, times are
  nanoseconds in \<open>int\<close>. A method is a function from its receiver to the changed receiver and the result. Nil dereferences, indexes out of
  range and failed assertions are values \<open>Inl\<close> of \<open>go_panic\<close>; errors are values of a sum or option type. Objects that are shared through
  pointers are addresses into a list of objects (buffers, contexts of tasks and processes); elements of
  \<^verbatim>\<open>container/list\<close> have an identity. A Go map that is visited is an association list in the order of the visit;
  a map that is only looked up is a function. What comes from outside the repository is an argument: the memory and the
  registers that a kernel program reads, the answers of kernel maps, of gRPC streams and of the file system, the clock, the HTTP/2
  framer and HPACK decoder, JSON decoding, the expiring and LRU caches. Locks, log output and the goroutines that call the operations
  periodically are left out; where the interleaving of goroutines matters, their steps are the rules of an \<^theory_text>\<open>inductive\<close> relation.

  \<^bold>\<open>Theories and sources.\<close>
  \<^item> \<open>Rover_Prelude\<close>: machine integers, panics, linked lists with element identity, ordered insertion, map iteration, decimal numbers and
    the string functions of the Go library. \<open>Socket_Enums\<close>: \<^verbatim>\<open>pkg/tools/enums\<close>, \<^verbatim>\<open>pkg/tools/host/time.go\<close>.
  \<^item> Kernel side. \<open>Kernel_Upload\<close>: \<^verbatim>\<open>bpf/include/socket_data.h\<close>, \<^verbatim>\<open>queue.h\<close>. \<open>Kernel_Protocol\<close>: \<^verbatim>\<open>protocol_analyzer.h\<close>, \<^verbatim>\<open>socket_reader.h\<close>.
    \<open>Kernel_Connection\<close>: \<^verbatim>\<open>bpf/accesslog/process\<close>, \<^verbatim>\<open>common\<close>, \<^verbatim>\<open>syscalls/connect.c\<close>, \<^verbatim>\<open>connect_conntrack.c\<close>, \<^verbatim>\<open>close.c\<close>. \<open>Kernel_Transfer\<close>:
    \<^verbatim>\<open>syscalls/transfer.c\<close>. \<open>Kernel_Packets\<close>: \<^verbatim>\<open>bpf/accesslog/l24\<close>. \<open>Kernel_Tls\<close>: \<^verbatim>\<open>bpf/accesslog/tls\<close>. \<open>Kernel_Run\<close> composes all programs into one
    machine with an inductive set of reachable states; \<open>Kernel_Frame\<close>, \<open>Kernel_Announced\<close>, \<open>Kernel_Run_Props\<close>, \<open>Kernel_Stream\<close>, \<open>Kernel_Calls\<close> hold
    its properties.
  \<^item> Decoding. \<open>Byte_Reader\<close>: \<^verbatim>\<open>pkg/tools/btf/reader.go\<close>. \<open>Socket_Events\<close>: \<^verbatim>\<open>pkg/accesslog/events\<close>. \<open>Event_Queue\<close>: \<^verbatim>\<open>pkg/tools/btf/queue.go\<close>.
  \<^item> Buffer. \<open>Socket_Buffer\<close> (operations), \<open>Socket_Buffer_Read\<close>, \<open>Socket_Buffer_Order\<close>, \<open>Socket_Buffer_Props\<close>: \<^verbatim>\<open>pkg/tools/buffer/buffer.go\<close>.
  \<^item> Protocols. \<open>Protocol_Partition\<close>, \<open>Protocol_Details\<close>, \<open>Http1_Protocol\<close>, \<open>Http2_Protocol\<close>, \<open>Http2_Termination\<close>:
    \<^verbatim>\<open>pkg/accesslog/collector/protocols\<close>. \<open>Tracing_Context\<close>: \<^verbatim>\<open>pkg/tools/tracing\<close>.
  \<^item> Connections. \<open>Connection_Manager\<close>, \<open>Connection_Manager_Props\<close>, \<open>Connection_Lifecycle\<close>, \<open>Connection_Evolution\<close>:
    \<^verbatim>\<open>pkg/accesslog/common/connection.go\<close>, \<^verbatim>\<open>filter.go\<close>. \<open>Connection_Collector\<close>: \<^verbatim>\<open>collector/connection.go\<close>, \<^verbatim>\<open>process.go\<close>, \<^verbatim>\<open>tls.go\<close>.
    \<open>Socket_Address\<close>: \<^verbatim>\<open>pkg/tools/ip\<close>, \<^verbatim>\<open>pkg/tools/ip.go\<close>. \<open>Expiring_Cache\<close>: the contract of the cache library.
  \<^item> Ztunnel. \<open>Ztunnel_Decode\<close>, \<open>Ztunnel_Decode_Props\<close>, \<open>Ztunnel_Identity\<close>, \<open>Ztunnel_Collector\<close>, \<open>Ztunnel_Collector_Props\<close>, \<open>Ztunnel_Source\<close>,
    \<open>Ztunnel_Source_Props\<close>: \<^verbatim>\<open>pkg/accesslog/collector/ztunnel\<close>, \<^verbatim>\<open>pkg/tools/ztunnel/offsets.go\<close>, \<^verbatim>\<open>bpf/accesslog/ambient\<close>.
  \<^item> Logs. \<open>Access_Log\<close>: \<^verbatim>\<open>pkg/accesslog/common/queue.go\<close>, \<^verbatim>\<open>logs.go\<close>, \<^verbatim>\<open>type.go\<close>, \<^verbatim>\<open>forwarder\<close>. \<open>Log_Runner\<close>, \<open>Log_Runner_Props\<close>: \<^verbatim>\<open>runner.go\<close>.
    \<open>Log_Sender\<close>: \<^verbatim>\<open>sender\<close>.
  \<^item> Processes and modules. \<open>Process_Storage\<close>, \<open>Process_Storage_Props\<close>: \<^verbatim>\<open>pkg/process/finders/storage.go\<close>, \<^verbatim>\<open>context.go\<close>. \<open>Module_Order\<close>:
    \<^verbatim>\<open>pkg/boot/module.go\<close>.
  \<^item> Profiling. \<open>Time_Windows\<close>: \<^verbatim>\<open>pkg/profiling/continuous/base\<close>. \<open>Continuous_Checker\<close>, \<open>Continuous_Checker_Props\<close>: \<^verbatim>\<open>continuous/checker\<close>.
    \<open>Continuous_Watch\<close>: \<^verbatim>\<open>continuous/checker/bpf/network\<close>. \<open>Continuous_Trigger\<close>, \<open>Continuous_Trigger_Props\<close>: \<^verbatim>\<open>continuous/checkers.go\<close>,
    \<^verbatim>\<open>triggers.go\<close>, \<^verbatim>\<open>trigger\<close>. \<open>Profiling_Task\<close>, \<open>Profiling_Task_Props\<close>: \<^verbatim>\<open>pkg/profiling/task\<close>.
  \<^item> Network profiling. \<open>Network_Traffic\<close>, \<open>Network_Traffic_Props\<close>: \<^verbatim>\<open>pkg/profiling/task/network/analyze/base/connection.go\<close>, \<^verbatim>\<open>traffic.go\<close>.
    \<open>Layer4_Metrics\<close>: \<^verbatim>\<open>analyze/layer4/metrics.go\<close>.

  \<^bold>\<open>Interfaces.\<close> Each locale is the contract between two components and is interpreted on the definitions of the model:
  \<open>counting_reader\<close> and \<open>decoding_reader\<close> (what an event's \<^verbatim>\<open>ReadFrom\<close> needs of a reader; the two readers of the code), \<open>byte_stream\<close> (what a
  protocol analyzer needs of the buffer; \<^verbatim>\<open>Read\<close> over all chunks and over a slice), \<open>ordered_append\<close> (insertion that keeps a list sorted; the
  two lists of the buffer), \<open>attaching_listeners\<close> (what the connection manager relies on of its flush listeners; the ztunnel collector),
  \<open>window_data\<close> (what a time window needs of its data; the three kinds of data), \<open>quiet_observation\<close>, \<open>receive_observation\<close> and
  \<open>packet_observation\<close> (which programs leave an observation of the kernel state alone; processes, packets and announcements),
  \<open>expiring_cache\<close> (the documented behaviour of a library; a cache over a list), \<open>merged_quantity\<close> (what combining needs of the metrics
  of a listener; the counters of layer 4).

  \<^bold>\<open>What is shown.\<close>
  \<^item> Bytes: what a process writes is, through chunking, any order of arrival, ordered insertion and reading, exactly what the analyzer reads;
    the operations for which this fails are characterised. Reading refines a byte stream, consumes what it read and nothing else, and returns.
  \<^item> Events: records decode from the packed layouts of the kernel; the size that is computed for each is exact; partitions consume in order;
    every event of the kernel belongs to a connection that was announced; a process is reported at most once.
  \<^item> Connections: the kernel maps follow the monitored processes; a connection keeps its identity through its life, waits for a
    resolution no longer than the grace period, and is forgotten only after its delay; an accepted connection is logged with its addresses.
  \<^item> Logs: every log of a round is reported, kept or dropped for a stated reason; batches are delivered with their connection and in order;
    HTTP/2 streams and HTTP/1 pairs are reported with their kernel details, and unfinished ones are settled.
  \<^item> Ztunnel: the compact events of the probe decode as the windows they replace; calibrated offsets are agreed upon; identities keep a source.
  \<^item> Profiling: watched processes follow the policies, requests are paired with responses, a policy is reached exactly when its threshold is,
    a dimension gets one task at a time, tasks end and are extended; the process events describe the processes; modules start in order.
  \<^item> Network profiling: the two ends of a connection find each other with opposite roles; combining connections into traffics conserves every
    counter; a value is counted in the one bucket that holds it.
  \<^item> Errors: where the code does not do what it means to, a theorem states what it does: reversed halves of tracked IPv6 addresses, failed
    accepts that stay active, policies that panic when they are synchronised again, tasks that run twice, services whose processes go
    stale, processes that are lost when their entity changes, connections whose closing is never counted, addresses of proxies that are never used.

  \<^bold>\<open>Loops, bounds and fuel.\<close> Loops over data are structural or have a termination measure. The loops that read until a condition holds
  (\<open>Peek_loop\<close>, \<open>ReadUntilBufferFull_loop\<close>, \<open>DeleteDetails\<close>, the HTTP/2 \<open>analyze_loop\<close>) are partial functions whose value \<open>None\<close> is not
  returning; for the buffers that the code builds they are shown to return, the HTTP/2 loop by a measure on unread bytes and chunks
  (\<open>Http2_Termination\<close>). The kernel cuts an operation into at most six chunks because the program of the code has that bound.
  The recursion over module requirements is bounded by a depth of one more than the number of modules, and a larger bound does not change
  the result. Kernel programs and goroutines run for ever; their properties are invariants of inductively defined reachable states.

  \<^bold>\<open>Not modelled.\<close>
  \<^item> Loading and attaching kernel programs, perf-buffer plumbing, reading \<^verbatim>\<open>/proc\<close>, ELF and DWARF files, and the netlink socket: pure I/O, whose results are
    arguments of the definitions that use them.
  \<^item> The sampling of stacks on and off CPU (\<^verbatim>\<open>bpf/profiling\<close>, \<^verbatim>\<open>pkg/profiling/task/oncpu\<close>, \<^verbatim>\<open>offcpu\<close>) and symbolisation (\<^verbatim>\<open>pkg/tools/profiling\<close>, \<^verbatim>\<open>elf\<close>):
    they copy stacks out of kernel maps and look addresses up in binaries.
  \<^item> In network profiling (\<^verbatim>\<open>pkg/profiling/task/network\<close>): the runner, the context that receives the events, the building of meters, and the HTTP/1 metrics of
    layer 7; they repeat over other maps what the access log does, and the sampling rules are I/O.
  \<^item> The Kubernetes finder (\<^verbatim>\<open>pkg/process/finders/kubernetes\<close>): the pods come from the informers of the Kubernetes client, and the names of entities from
    templates of the Go library.
  \<^item> Configuration, logging, commands, the gRPC connection (\<^verbatim>\<open>pkg/config\<close>, \<^verbatim>\<open>logger\<close>, \<^verbatim>\<open>internal/cmd\<close>, \<^verbatim>\<open>pkg/core\<close>): code around libraries.
  \<^item> Memory consumption, the pool of buffers, and data races between goroutines that share an object without its lock.
\<close>

end
